(* ===== verification/PyBase.thy ===== *)
theory PyBase
  imports Complex_Main "HOL-Library.AList"
begin

text \<open>
  Shared vocabulary of the development: Python values, strings, dictionaries and exceptions,
  the environment record through which the model receives what the interpreter or a third
  party decides (decimal text of a float, digests, clock text), and the collections of
  rewrite rules the component proofs draw on.

  Conventions.
  \<^item> A Python \<open>str\<close> is a \<^typ>\<open>string\<close>; a character stands for the code point with its number,
    so text outside the first 256 code points is not represented.
  \<^item> A Python \<open>float\<close> is a rational number: NaN, the infinities and binary rounding are not
    represented. \<open>round(x, n)\<close> is rounding half to even, as in Python.
  \<^item> A dictionary is an association list in insertion order; storing under an existing key
    keeps its place (\<^const>\<open>AList.update\<close>), as Python does.
  \<^item> A \<open>datetime\<close> is the number of microseconds since the epoch.
  \<^item> An exception is a value \<^term>\<open>Inl e\<close>.
\<close>

named_theorems py_defs \<open>definitions of the Python vocabulary, for unfolding\<close>
named_theorems frame \<open>which parts of the state an operation leaves alone\<close>
named_theorems enum_names \<open>the wire names of enumeration members\<close>

section \<open>Values\<close>

type_synonym pyfloat = rat
type_synonym datetime = int

datatype pyval =
    PNone
  | PBool bool
  | PInt int
  | PFloat pyfloat
  | PStr string
  | PList "pyval list"
  | PDict "(string \<times> pyval) list"
  | PObj string  \<comment> \<open>any other object, with its \<open>str()\<close>\<close>

type_synonym pydict = "(string \<times> pyval) list"

text \<open>What the model takes from the interpreter and the libraries rather than defining it.\<close>

record pyenv =
  float_repr :: "pyfloat \<Rightarrow> string"
  float_parse :: "string \<Rightarrow> pyfloat option"
  sha256_hexdigest :: "string \<Rightarrow> string"
  isoformat :: "datetime \<Rightarrow> string"
  fromisoformat :: "string \<Rightarrow> datetime option"

text \<open>A concrete environment, for evaluating the model: a digest of 64 zeros, fixed texts.\<close>

definition plain_env :: pyenv where
  "plain_env = \<lparr>float_repr = (\<lambda>_. ''0.0''), float_parse = (\<lambda>_. None),
     sha256_hexdigest = (\<lambda>_. replicate 64 (CHR ''0'')), isoformat = (\<lambda>_. ''2026-09-11T12:00:00+00:00''),
     fromisoformat = (\<lambda>_. None)\<rparr>"

section \<open>Exceptions\<close>

text \<open>The exception classes that some handler of the program distinguishes.\<close>

datatype exc_class =
    ERunCancelled | EBudgetExceeded | ECircuitOpen | ETimeout | EConnection
  | EValue | EType | EKey | EAttribute | EAssertion | ERuntime | EOther

text \<open>\<open>exc_name\<close> is \<open>exc.__class__.__name__\<close>, \<open>exc_msg\<close> is \<open>str(exc)\<close>, \<open>exc_tag\<close> the extra
  attribute some classes carry (the exhausted budget, an error code).\<close>

text \<open>An exception of the HTTP layers also carries the status its handler answers with.\<close>

datatype pyexc =
    PyExc (exc_class: exc_class) (exc_name: string) (exc_msg: string) (exc_tag: string)
  | HttpExc (exc_class: exc_class) (exc_name: string) (exc_msg: string) (exc_tag: string)
      (exc_status: nat)

abbreviation ValueError :: "string \<Rightarrow> pyexc" where
  "ValueError m \<equiv> PyExc EValue ''ValueError'' m []"

abbreviation TypeError :: "string \<Rightarrow> pyexc" where
  "TypeError m \<equiv> PyExc EType ''TypeError'' m []"

abbreviation RuntimeError :: "string \<Rightarrow> pyexc" where
  "RuntimeError m \<equiv> PyExc ERuntime ''RuntimeError'' m []"

abbreviation AttributeError :: "string \<Rightarrow> pyexc" where
  "AttributeError m \<equiv> PyExc EAttribute ''AttributeError'' m []"

abbreviation KeyError :: "string \<Rightarrow> pyexc" where
  "KeyError m \<equiv> PyExc EKey ''KeyError'' m []"

abbreviation AssertionError :: "string \<Rightarrow> pyexc" where
  "AssertionError m \<equiv> PyExc EAssertion ''AssertionError'' m []"

abbreviation ValidationError :: "string \<Rightarrow> pyexc" where
  "ValidationError m \<equiv> PyExc EValue ''ValidationError'' m []"

type_synonym 'a presult = "pyexc + 'a"

text \<open>Sequencing of pure code that may raise.\<close>

definition rbind :: "'a presult \<Rightarrow> ('a \<Rightarrow> 'b presult) \<Rightarrow> 'b presult" where
  "rbind m f = (case m of Inl e \<Rightarrow> Inl e | Inr x \<Rightarrow> f x)"

lemma rbind_simps [simp]:
  "rbind (Inl e) f = Inl e" "rbind (Inr x) f = f x"
  by (simp_all add: rbind_def)

lemma rbind_Inr_iff: "rbind m f = Inr y \<longleftrightarrow> (\<exists>x. m = Inr x \<and> f x = Inr y)"
  by (cases m) auto

text \<open>\<open>check c e\<close> is the guard \<open>if not c: raise e\<close>.\<close>

definition check :: "bool \<Rightarrow> pyexc \<Rightarrow> unit presult" where
  "check c e = (if c then Inr () else Inl e)"

lemma check_Inr_iff [simp]: "check c e = Inr u \<longleftrightarrow> c"
  by (simp add: check_def)

lemma check_True [simp]: "check True e = Inr ()"
  by (simp add: check_def)

lemma check_False [simp]: "check False e = Inl e"
  by (simp add: check_def)

section \<open>Strings\<close>

definition is_space :: "char \<Rightarrow> bool" where
  "is_space c = (let n = (of_char c :: nat) in
     (9 \<le> n \<and> n \<le> 13) \<or> (28 \<le> n \<and> n \<le> 32) \<or> n = 133 \<or> n = 160)"

definition lstrip :: "string \<Rightarrow> string" where
  "lstrip s = dropWhile is_space s"

definition strip :: "string \<Rightarrow> string" where
  "strip s = rev (dropWhile is_space (rev (dropWhile is_space s)))"

definition lower_char :: "char \<Rightarrow> char" where
  "lower_char c = (let n = (of_char c :: nat) in
     if (65 \<le> n \<and> n \<le> 90) \<or> (192 \<le> n \<and> n \<le> 222 \<and> n \<noteq> 215) then char_of (n + 32) else c)"

definition lower :: "string \<Rightarrow> string" where
  "lower s = map lower_char s"

text \<open>\<open>p in s\<close> for strings.\<close>

fun str_in :: "string \<Rightarrow> string \<Rightarrow> bool" where
  "str_in p [] = (p = [])"
| "str_in p (c # cs) = (take (length p) (c # cs) = p \<or> str_in p cs)"

definition startswith :: "string \<Rightarrow> string \<Rightarrow> bool" where
  "startswith s p = (take (length p) s = p)"

definition endswith :: "string \<Rightarrow> string \<Rightarrow> bool" where
  "endswith s p = (length p \<le> length s \<and> drop (length s - length p) s = p)"

fun join :: "string \<Rightarrow> string list \<Rightarrow> string" where
  "join sep [] = []"
| "join sep [x] = x"
| "join sep (x # y # zs) = x @ sep @ join sep (y # zs)"

text \<open>\<open>s.split(c)\<close> for a one-character separator.\<close>

fun split_on :: "char \<Rightarrow> string \<Rightarrow> string list" where
  "split_on c [] = [[]]"
| "split_on c (x # xs) =
     (if x = c then [] # split_on c xs
      else case split_on c xs of [] \<Rightarrow> [[x]] | w # ws \<Rightarrow> (x # w) # ws)"

definition replace_char :: "char \<Rightarrow> char \<Rightarrow> string \<Rightarrow> string" where
  "replace_char a b s = map (\<lambda>c. if c = a then b else c) s"

definition digit_char :: "nat \<Rightarrow> char" where
  "digit_char n = char_of (48 + n)"

fun nat_str :: "nat \<Rightarrow> string" where
  "nat_str n = (if n < 10 then [digit_char n] else nat_str (n div 10) @ [digit_char (n mod 10)])"

declare nat_str.simps [simp del]

definition int_str :: "int \<Rightarrow> string" where
  "int_str i = (if i < 0 then ''-'' @ nat_str (nat (- i)) else nat_str (nat i))"

lemma digit_char_inj: "a < 10 \<Longrightarrow> b < 10 \<Longrightarrow> digit_char a = digit_char b \<Longrightarrow> a = b"
  unfolding digit_char_def by (drule arg_cong [where f = "of_char :: char \<Rightarrow> nat"]) simp

lemma nat_str_nonempty [simp]: "nat_str n \<noteq> []"
  by (subst nat_str.simps) simp

lemma nat_str_inj: "nat_str m = nat_str n \<Longrightarrow> m = n"
proof (induction m arbitrary: n rule: nat_str.induct)
  case (1 m)
  show ?case
  proof (cases "m < 10 \<or> n < 10")
    case True
    with "1.prems" show ?thesis
      by (auto simp: nat_str.simps [of m] nat_str.simps [of n] Cons_eq_append_conv
          split: if_splits intro: digit_char_inj)
  next
    case False
    with "1.prems" have "nat_str (m div 10) = nat_str (n div 10)"
      and "digit_char (m mod 10) = digit_char (n mod 10)"
      by (simp_all add: nat_str.simps [of m] nat_str.simps [of n])
    with False "1.IH" have "m div 10 = n div 10" and "m mod 10 = n mod 10"
      by (auto intro: digit_char_inj)
    then show ?thesis by (metis div_mult_mod_eq)
  qed
qed

lemma strip_append_space: "is_space c \<Longrightarrow> strip (c # s) = strip s"
  by (simp add: strip_def)

lemma str_in_append2: "str_in p s \<Longrightarrow> str_in p (t @ s)"
  by (induction t) auto

section \<open>Dictionaries\<close>

definition dget :: "pydict \<Rightarrow> string \<Rightarrow> pyval option" where
  "dget d k = map_of d k"

text \<open>\<open>d.get(k, v)\<close>.\<close>

definition dget_or :: "pydict \<Rightarrow> string \<Rightarrow> pyval \<Rightarrow> pyval" where
  "dget_or d k v = (case dget d k of None \<Rightarrow> v | Some x \<Rightarrow> x)"

text \<open>\<open>d.get(k)\<close>.\<close>

abbreviation dget_none :: "pydict \<Rightarrow> string \<Rightarrow> pyval" where
  "dget_none d k \<equiv> dget_or d k PNone"

definition dset :: "pydict \<Rightarrow> string \<Rightarrow> pyval \<Rightarrow> pydict" where
  "dset d k v = AList.update k v d"

text \<open>\<open>{**d, **e}\<close>.\<close>

definition dmerge :: "pydict \<Rightarrow> pydict \<Rightarrow> pydict" where
  "dmerge d e = foldl (\<lambda>acc (k, v). AList.update k v acc) d e"

lemma dget_dset: "dget (dset d k v) k' = (if k' = k then Some v else dget d k')"
  by (simp add: dget_def dset_def update_conv)

lemma dget_or_dset [simp]: "dget_or (dset d k v) k' w = (if k' = k then v else dget_or d k' w)"
  by (simp add: dget_or_def dget_dset)

lemma dget_or_Nil [simp]: "dget_or [] k v = v"
  by (simp add: dget_or_def dget_def)

lemma dget_or_Cons [simp]:
  "dget_or ((k, v) # d) k' w = (if k' = k then v else dget_or d k' w)"
  by (simp add: dget_or_def dget_def)

section \<open>Truth, text and numbers of a value\<close>

fun truthy :: "pyval \<Rightarrow> bool" where
  "truthy PNone = False"
| "truthy (PBool b) = b"
| "truthy (PInt i) = (i \<noteq> 0)"
| "truthy (PFloat x) = (x \<noteq> 0)"
| "truthy (PStr s) = (s \<noteq> [])"
| "truthy (PList xs) = (xs \<noteq> [])"
| "truthy (PDict d) = (d \<noteq> [])"
| "truthy (PObj s) = True"

fun is_dict :: "pyval \<Rightarrow> bool" where
  "is_dict (PDict d) = True" | "is_dict _ = False"

fun is_list :: "pyval \<Rightarrow> bool" where
  "is_list (PList d) = True" | "is_list _ = False"

definition hex_digit :: "nat \<Rightarrow> char" where
  "hex_digit n = (if n < 10 then char_of (48 + n) else char_of (87 + n))"

text \<open>\<open>repr\<close> of a string: single quotes unless the text has one and no double quote.\<close>

definition repr_char :: "char \<Rightarrow> char \<Rightarrow> string" where
  "repr_char q c = (let n = (of_char c :: nat) in
     if c = q \<or> n = 92 then [char_of (92::nat), c]
     else if n = 9 then [char_of (92::nat), CHR ''t'']
     else if n = 10 then [char_of (92::nat), CHR ''n'']
     else if n = 13 then [char_of (92::nat), CHR ''r'']
     else if n < 32 \<or> (127 \<le> n \<and> n \<le> 160) \<or> n = 173
       then [char_of (92::nat), CHR ''x'', hex_digit (n div 16), hex_digit (n mod 16)]
     else [c])"

definition quote_char :: char where "quote_char = char_of (39::nat)"
definition dquote_char :: char where "dquote_char = char_of (34::nat)"

definition repr_str :: "string \<Rightarrow> string" where
  "repr_str s = (let q = (if quote_char \<in> set s \<and> dquote_char \<notin> set s
                          then dquote_char else quote_char)
     in q # concat (map (repr_char q) s) @ [q])"

fun py_repr :: "pyenv \<Rightarrow> pyval \<Rightarrow> string" where
  "py_repr E PNone = ''None''"
| "py_repr E (PBool b) = (if b then ''True'' else ''False'')"
| "py_repr E (PInt i) = int_str i"
| "py_repr E (PFloat x) = float_repr E x"
| "py_repr E (PStr s) = repr_str s"
| "py_repr E (PList xs) = ''['' @ join '', '' (map (py_repr E) xs) @ '']''"
| "py_repr E (PDict d) =
     ''{'' @ join '', '' (map (\<lambda>(k, v). repr_str k @ '': '' @ py_repr E v) d) @ ''}''"
| "py_repr E (PObj s) = s"

fun py_str :: "pyenv \<Rightarrow> pyval \<Rightarrow> string" where
  "py_str E (PStr s) = s"
| "py_str E v = py_repr E v"

text \<open>\<open>json.dumps\<close>: the default layout, \<open>ensure_ascii\<close>, and \<open>default=str\<close> for objects.\<close>

definition json_char :: "char \<Rightarrow> string" where
  "json_char c = (let n = (of_char c :: nat); bs = char_of (92::nat) in
     if n = 34 \<or> n = 92 then [bs, c]
     else if n = 8 then [bs, CHR ''b''] else if n = 9 then [bs, CHR ''t'']
     else if n = 10 then [bs, CHR ''n''] else if n = 12 then [bs, CHR ''f'']
     else if n = 13 then [bs, CHR ''r'']
     else if n < 32 \<or> 127 \<le> n
       then [bs, CHR ''u'', CHR ''0'', CHR ''0'', hex_digit (n div 16), hex_digit (n mod 16)]
     else [c])"

definition json_str :: "string \<Rightarrow> string" where
  "json_str s = dquote_char # concat (map json_char s) @ [dquote_char]"

text \<open>\<open>json_text E isep ksep v\<close> with the two separators; a dictionary is written in its own order.\<close>

fun json_text :: "pyenv \<Rightarrow> string \<Rightarrow> string \<Rightarrow> pyval \<Rightarrow> string" where
  "json_text E isep ksep PNone = ''null''"
| "json_text E isep ksep (PBool b) = (if b then ''true'' else ''false'')"
| "json_text E isep ksep (PInt i) = int_str i"
| "json_text E isep ksep (PFloat x) = float_repr E x"
| "json_text E isep ksep (PStr s) = json_str s"
| "json_text E isep ksep (PList xs) = ''['' @ join isep (map (json_text E isep ksep) xs) @ '']''"
| "json_text E isep ksep (PDict d) =
     ''{'' @ join isep (map (\<lambda>(k, v). json_str k @ ksep @ json_text E isep ksep v) d) @ ''}''"
| "json_text E isep ksep (PObj s) = json_str s"

abbreviation json_dumps :: "pyenv \<Rightarrow> pyval \<Rightarrow> string" where
  "json_dumps E v \<equiv> json_text E '', '' '': '' v"

text \<open>\<open>json.loads(json.dumps(v, default=str))\<close>: objects become their text, all else is kept.\<close>

fun jsonable_val :: "pyval \<Rightarrow> pyval" where
  "jsonable_val (PObj s) = PStr s"
| "jsonable_val (PList xs) = PList (map jsonable_val xs)"
| "jsonable_val (PDict d) = PDict (map (\<lambda>(k, v). (k, jsonable_val v)) d)"
| "jsonable_val v = v"

text \<open>What \<open>model_dump(mode="json")\<close> can write: an arbitrary object raises.\<close>

fun json_safe :: "pyval \<Rightarrow> bool" where
  "json_safe (PObj s) = False"
| "json_safe (PList xs) = list_all json_safe xs"
| "json_safe (PDict d) = list_all (\<lambda>kv. json_safe (snd kv)) d"
| "json_safe v = True"

text \<open>\<open>int(v)\<close>: decimal text with a sign, spaces around it and single underscores inside, or a number,
  cut towards zero.\<close>

definition digits_value :: "string \<Rightarrow> int" where
  "digits_value ds = foldl (\<lambda>n c. 10 * n + (int (of_char c) - 48)) 0 ds"

definition decimal_digit :: "char \<Rightarrow> bool" where
  "decimal_digit c = (let n = (of_char c :: nat) in 48 \<le> n \<and> n \<le> 57)"

definition parse_int :: "string \<Rightarrow> int option" where
  "parse_int s =
     (let t = strip s;
          (sign, d) = (case t of c # cs \<Rightarrow> if c = CHR ''-'' then (-1, cs) else if c = CHR ''+'' then (1, cs)
             else (1, t) | [] \<Rightarrow> (1, t))
      in if list_all (\<lambda>g. g \<noteq> [] \<and> list_all decimal_digit g) (split_on (CHR ''_'') d)
         then Some (sign * digits_value (filter decimal_digit d)) else None)"

fun py_int :: "pyval \<Rightarrow> int presult" where
  "py_int (PInt i) = Inr i"
| "py_int (PBool b) = Inr (if b then 1 else 0)"
| "py_int (PFloat x) = Inr (if 0 \<le> x then \<lfloor>x\<rfloor> else \<lceil>x\<rceil>)"
| "py_int (PStr s) = (case parse_int s of Some i \<Rightarrow> Inr i
     | None \<Rightarrow> Inl (ValueError (''invalid literal for int() with base 10: '' @ repr_str s)))"
| "py_int v = Inl (TypeError ''int() argument must be a string or a real number'')"

text \<open>\<open>float(v)\<close>.\<close>

fun py_float :: "pyenv \<Rightarrow> pyval \<Rightarrow> pyfloat presult" where
  "py_float E (PBool b) = Inr (if b then 1 else 0)"
| "py_float E (PInt i) = Inr (rat_of_int i)"
| "py_float E (PFloat x) = Inr x"
| "py_float E (PStr s) =
     (case float_parse E s of Some x \<Rightarrow> Inr x
      | None \<Rightarrow> Inl (ValueError (''could not convert string to float: '' @ repr_str s)))"
| "py_float E _ = Inl (TypeError ''float() argument must be a string or a real number'')"

text \<open>\<open>list(v)\<close>: the elements of a list, the keys of a dictionary, the characters of a string.\<close>

fun py_list :: "pyval \<Rightarrow> pyval list presult" where
  "py_list (PList xs) = Inr xs"
| "py_list (PDict d) = Inr (map (\<lambda>kv. PStr (fst kv)) d)"
| "py_list (PStr s) = Inr (map (\<lambda>c. PStr [c]) s)"
| "py_list _ = Inl (TypeError ''object is not iterable'')"

text \<open>\<open>v.get(k, w)\<close> on a value that may not be a dictionary.\<close>

fun py_get :: "pyval \<Rightarrow> string \<Rightarrow> pyval \<Rightarrow> pyval presult" where
  "py_get (PDict d) k w = Inr (dget_or d k w)"
| "py_get _ k w = Inl (AttributeError ''object has no attribute 'get' '')"

text \<open>\<open>round(x, n)\<close>: half to even.\<close>

definition round_half_even :: "rat \<Rightarrow> int" where
  "round_half_even y = (let f = \<lfloor>y\<rfloor>; r = y - rat_of_int f in
     if r < 1 / 2 then f else if r > 1 / 2 then f + 1 else if even f then f else f + 1)"

definition py_round :: "nat \<Rightarrow> pyfloat \<Rightarrow> pyfloat" where
  "py_round n x = rat_of_int (round_half_even (x * 10 ^ n)) / 10 ^ n"

lemma round_half_even_int [simp]: "round_half_even (rat_of_int i) = i"
  by (simp add: round_half_even_def)

lemma round_half_even_mono_int:
  assumes "rat_of_int i \<le> y" shows "i \<le> round_half_even y"
proof -
  from assms have "i \<le> \<lfloor>y\<rfloor>" by (simp add: le_floor_iff)
  then show ?thesis by (auto simp: round_half_even_def Let_def)
qed

lemma round_half_even_le_int:
  assumes "y \<le> rat_of_int i" shows "round_half_even y \<le> i"
proof (cases "y = rat_of_int i")
  case False
  with assms have "\<lfloor>y\<rfloor> < i" by (simp add: floor_less_iff)
  then show ?thesis by (auto simp: round_half_even_def Let_def)
qed simp

lemma py_round_nonneg: "0 \<le> x \<Longrightarrow> 0 \<le> py_round n x"
  using round_half_even_mono_int [of 0 "x * 10 ^ n"] by (simp add: py_round_def)

lemma py_round_le:
  assumes "x \<le> rat_of_int k / 10 ^ n" shows "py_round n x \<le> rat_of_int k / 10 ^ n"
proof -
  from assms have "x * 10 ^ n \<le> rat_of_int k" by (simp add: field_simps)
  then have "round_half_even (x * 10 ^ n) \<le> k" by (rule round_half_even_le_int)
  then show ?thesis by (simp add: py_round_def divide_right_mono)
qed

lemma py_round_ge:
  assumes "rat_of_int k / 10 ^ n \<le> x" shows "rat_of_int k / 10 ^ n \<le> py_round n x"
proof -
  from assms have "rat_of_int k \<le> x * 10 ^ n" by (simp add: field_simps)
  then have "k \<le> round_half_even (x * 10 ^ n)" by (rule round_half_even_mono_int)
  then show ?thesis by (simp add: py_round_def divide_right_mono)
qed

section \<open>Generic list lemmas\<close>

lemma map_of_map_snd: "map_of (map (\<lambda>(k, v). (k, f v)) d) k = map_option f (map_of d k)"
  by (induction d) auto

lemma sorted_wrt_less_append_one:
  "sorted_wrt (<) xs \<Longrightarrow> (\<forall>x \<in> set xs. x < (y::'a::linorder)) \<Longrightarrow> sorted_wrt (<) (xs @ [y])"
  by (simp add: sorted_wrt_append)

end
