(* ===== verification/PyRegex.thy ===== *)
theory PyRegex
  imports PyBase
begin

text \<open>
  The fragment of Python's \<open>re\<close> that the sources use, as an executable backtracking matcher.
  \<open>rmatch r x\<close> lists, in the order a backtracking engine tries them, the positions where a
  match of \<open>r\<close> started at \<open>x\<close> can end; its head is the match Python reports. A position is
  the rest of the text with one bit, whether the character before it is a word character
  (for \<open>\b\<close>).
\<close>

datatype rx =
    RChr "char \<Rightarrow> bool"
  | REps
  | RSeq rx rx
  | RAlt rx rx
  | RStar rx       \<comment> \<open>greedy\<close>
  | RLazy rx       \<comment> \<open>\<open>*?\<close>\<close>
  | RBnd           \<comment> \<open>\<open>\b\<close>\<close>
  | REnd           \<comment> \<open>\<open>$\<close> without MULTILINE: at the end or before a final newline\<close>

type_synonym rpos = "bool \<times> string"

definition is_ascii_lower :: "char \<Rightarrow> bool" where
  "is_ascii_lower c = (let n = (of_char c :: nat) in 97 \<le> n \<and> n \<le> 122)"

definition is_ascii_upper :: "char \<Rightarrow> bool" where
  "is_ascii_upper c = (let n = (of_char c :: nat) in 65 \<le> n \<and> n \<le> 90)"

definition is_digit :: "char \<Rightarrow> bool" where
  "is_digit c = (let n = (of_char c :: nat) in 48 \<le> n \<and> n \<le> 57)"

definition is_alnum :: "char \<Rightarrow> bool" where
  "is_alnum c = (is_ascii_lower c \<or> is_ascii_upper c \<or> is_digit c)"

text \<open>\<open>\w\<close> on the represented code points.\<close>

definition is_word :: "char \<Rightarrow> bool" where
  "is_word c = (is_alnum c \<or> c = CHR ''_'' \<or>
     (let n = (of_char c :: nat) in
        n \<in> {170, 178, 179, 181, 185, 186, 188, 189, 190} \<or>
        (192 \<le> n \<and> n \<noteq> 215 \<and> n \<noteq> 247)))"

definition newline :: char where "newline = char_of (10::nat)"

fun rmatch :: "rx \<Rightarrow> rpos \<Rightarrow> rpos list" where
  "rmatch (RChr p) (b, []) = []"
| "rmatch (RChr p) (b, c # cs) = (if p c then [(is_word c, cs)] else [])"
| "rmatch REps x = [x]"
| "rmatch (RSeq r s) x = concat (map (rmatch s) (rmatch r x))"
| "rmatch (RAlt r s) x = rmatch r x @ rmatch s x"
| "rmatch (RStar r) x =
     concat (map (\<lambda>y. if length (snd y) < length (snd x) then rmatch (RStar r) y else [])
       (rmatch r x)) @ [x]"
| "rmatch (RLazy r) x =
     x # concat (map (\<lambda>y. if length (snd y) < length (snd x) then rmatch (RLazy r) y else [])
       (rmatch r x))"
| "rmatch RBnd (b, s) =
     (if b \<noteq> (case s of [] \<Rightarrow> False | c # _ \<Rightarrow> is_word c) then [(b, s)] else [])"
| "rmatch REnd (b, s) = (if s = [] \<or> s = [newline] then [(b, s)] else [])"

text \<open>Derived forms: a literal, a literal without regard to case, \<open>r+\<close>, \<open>r?\<close>, \<open>r{n}\<close>.\<close>

fun rx_lit :: "string \<Rightarrow> rx" where
  "rx_lit [] = REps"
| "rx_lit (c # cs) = RSeq (RChr (\<lambda>x. x = c)) (rx_lit cs)"

fun rx_ilit :: "string \<Rightarrow> rx" where
  "rx_ilit [] = REps"
| "rx_ilit (c # cs) = RSeq (RChr (\<lambda>x. lower_char x = lower_char c)) (rx_ilit cs)"

definition rx_plus :: "rx \<Rightarrow> rx" where "rx_plus r = RSeq r (RStar r)"

definition rx_opt :: "rx \<Rightarrow> rx" where "rx_opt r = RAlt r REps"

fun rx_times :: "nat \<Rightarrow> rx \<Rightarrow> rx" where
  "rx_times 0 r = REps"
| "rx_times (Suc n) r = RSeq r (rx_times n r)"

fun rx_alts :: "rx list \<Rightarrow> rx" where
  "rx_alts [] = RChr (\<lambda>_. False)"
| "rx_alts [r] = r"
| "rx_alts (r # rs) = RAlt r (rx_alts rs)"

fun rx_seqs :: "rx list \<Rightarrow> rx" where
  "rx_seqs [] = REps"
| "rx_seqs [r] = r"
| "rx_seqs (r # rs) = RSeq r (rx_seqs rs)"

text \<open>\<open>re.match\<close>, \<open>re.search\<close>, \<open>re.fullmatch\<close> as tests, and \<open>re.sub\<close> with a plain replacement.\<close>

definition re_match :: "rx \<Rightarrow> string \<Rightarrow> bool" where
  "re_match r s = (rmatch r (False, s) \<noteq> [])"

definition re_fullmatch :: "rx \<Rightarrow> string \<Rightarrow> bool" where
  "re_fullmatch r s = list_ex (\<lambda>y. snd y = []) (rmatch r (False, s))"

fun re_search_from :: "rx \<Rightarrow> bool \<Rightarrow> string \<Rightarrow> bool" where
  "re_search_from r b [] = (rmatch r (b, []) \<noteq> [])"
| "re_search_from r b (c # cs) =
     (rmatch r (b, c # cs) \<noteq> [] \<or> re_search_from r (is_word c) cs)"

definition re_search :: "rx \<Rightarrow> string \<Rightarrow> bool" where
  "re_search r s = re_search_from r False s"

function re_sub_from :: "rx \<Rightarrow> string \<Rightarrow> bool \<Rightarrow> string \<Rightarrow> string" where
  "re_sub_from r repl b s =
     (case rmatch r (b, s) of
        [] \<Rightarrow> (case s of [] \<Rightarrow> [] | c # cs \<Rightarrow> c # re_sub_from r repl (is_word c) cs)
      | (b', s') # _ \<Rightarrow>
          if length s' < length s then repl @ re_sub_from r repl b' s'
          else repl @ (case s of [] \<Rightarrow> [] | c # cs \<Rightarrow> c # re_sub_from r repl (is_word c) cs))"
  by pat_completeness auto
termination
  by (relation "measure (\<lambda>(r, repl, b, s). length s)") auto

declare re_sub_from.simps [simp del]

definition re_sub :: "rx \<Rightarrow> string \<Rightarrow> string \<Rightarrow> string" where
  "re_sub r repl s = re_sub_from r repl False s"

section \<open>Facts about searching\<close>

text \<open>A pattern without \<open>\b\<close> does not look at what precedes the start of the match.\<close>

fun no_bnd :: "rx \<Rightarrow> bool" where
  "no_bnd (RSeq r s) = (no_bnd r \<and> no_bnd s)"
| "no_bnd (RAlt r s) = (no_bnd r \<and> no_bnd s)"
| "no_bnd (RStar r) = no_bnd r"
| "no_bnd (RLazy r) = no_bnd r"
| "no_bnd RBnd = False"
| "no_bnd r = True"

lemma list_all2_concat_map:
  assumes "list_all2 R xs ys"
    and "\<And>x y. x \<in> set xs \<Longrightarrow> R x y \<Longrightarrow> list_all2 S (f x) (g y)"
  shows "list_all2 S (concat (map f xs)) (concat (map g ys))"
  using assms by (induction rule: list_all2_induct) (auto intro: list_all2_appendI)

text \<open>What a repetition does with the shorter positions.\<close>

lemma list_all2_shorter:
  fixes xs xs' :: "rpos list" and x x' :: rpos and g :: "rpos \<Rightarrow> rpos list"
  assumes "list_all2 (\<lambda>y y'. snd y' = snd y) xs xs'" and "snd x' = snd x"
    and "\<And>y y'. y \<in> set xs \<Longrightarrow> snd y' = snd y \<Longrightarrow> length (snd y) < length (snd x) \<Longrightarrow>
      list_all2 (\<lambda>y y'. snd y' = snd y) (g y) (g y')"
  shows "list_all2 (\<lambda>y y'. snd y' = snd y)
    (concat (map (\<lambda>y. if length (snd y) < length (snd x) then g y else []) xs))
    (concat (map (\<lambda>y. if length (snd y) < length (snd x') then g y else []) xs'))"
proof (rule list_all2_concat_map [OF assms(1)])
  fix y y' :: rpos assume "y \<in> set xs" "snd y' = snd y"
  with assms(2,3) show "list_all2 (\<lambda>y y'. snd y' = snd y)
      (if length (snd y) < length (snd x) then g y else []) (if length (snd y') < length (snd x') then g y' else [])"
    by simp
qed

lemma rmatch_prev_irrelevant:
  "no_bnd r \<Longrightarrow> snd x' = snd x \<Longrightarrow>
     list_all2 (\<lambda>y y'. snd y' = snd y) (rmatch r x) (rmatch r x')"
proof (induction r x arbitrary: x' rule: rmatch.induct)
  case (1 p b)
  then show ?case by (cases x') auto
next
  case (2 p b c cs)
  then show ?case by (cases x') auto
next
  case (4 r s x)
  from "4.prems" have "list_all2 (\<lambda>y y'. snd y' = snd y) (rmatch r x) (rmatch r x')"
    by (intro "4.IH"(1)) simp_all
  then show ?case unfolding rmatch.simps
    by (rule list_all2_concat_map) (use "4.IH"(2) "4.prems" in simp)
next
  case (5 r s x)
  then show ?case unfolding rmatch.simps by (intro list_all2_appendI "5.IH") simp_all
next
  case (6 r x)
  from "6.prems" have "list_all2 (\<lambda>y y'. snd y' = snd y) (rmatch r x) (rmatch r x')"
    by (intro "6.IH"(1)) simp_all
  from list_all2_shorter [OF this "6.prems"(2), where g = "rmatch (RStar r)"] "6.IH"(2) "6.prems" show ?case
    unfolding rmatch.simps(6) [of r x] rmatch.simps(6) [of r x']
    by (intro list_all2_appendI) (simp_all del: rmatch.simps)
next
  case (7 r x)
  from "7.prems" have "list_all2 (\<lambda>y y'. snd y' = snd y) (rmatch r x) (rmatch r x')"
    by (intro "7.IH"(1)) simp_all
  from list_all2_shorter [OF this "7.prems"(2), where g = "rmatch (RLazy r)"] "7.IH"(2) "7.prems" show ?case
    unfolding rmatch.simps(7) [of r x] rmatch.simps(7) [of r x'] list.rel_inject
    by (intro conjI) (simp_all del: rmatch.simps)
next
  case (9 b s)
  then show ?case by (cases x') auto
qed simp_all

lemma rmatch_prev_empty:
  assumes "no_bnd r" shows "rmatch r (b, s) = [] \<longleftrightarrow> rmatch r (b', s) = []"
  using rmatch_prev_irrelevant [OF assms, of "(b', s)" "(b, s)"]
  by (auto dest: list_all2_lengthD)

lemma re_search_from_prev:
  "no_bnd r \<Longrightarrow> re_search_from r b s = re_search_from r b' s"
  by (cases s) (use rmatch_prev_empty in auto)

text \<open>Characters no match can start with may be put in front without creating a match.\<close>

lemma re_search_skip:
  assumes "no_bnd r" and "\<And>b cs. rmatch r (b, c # cs) = []"
  shows "re_search r (c # s) = re_search r s"
  using assms re_search_from_prev [OF assms(1), of "is_word c" s False] by (simp add: re_search_def)

lemma re_search_skips:
  assumes "no_bnd r" and "\<And>b cs. rmatch r (b, c # cs) = []"
  shows "re_search r (replicate n c @ s) = re_search r s"
  using assms by (induction n) (simp_all add: re_search_skip)

section \<open>What a match consumes\<close>

lemma rmatch_chars: "y \<in> set (rmatch r x) \<Longrightarrow> set (snd y) \<subseteq> set (snd x)"
proof (induction r x arbitrary: y rule: rmatch.induct)
  case (4 r s x)
  then obtain z where "z \<in> set (rmatch r x)" "y \<in> set (rmatch s z)" by auto
  with "4.IH" show ?case by (meson subset_trans)
next
  case (5 r s x)
  then show ?case unfolding rmatch.simps set_append by blast
next
  case (6 r x)
  from "6.prems" consider "y = x"
    | z where "z \<in> set (rmatch r x)" "length (snd z) < length (snd x)" "y \<in> set (rmatch (RStar r) z)"
    by (subst (asm) rmatch.simps(6)) (auto split: if_splits simp del: rmatch.simps(6))
  then show ?case using "6.IH" by cases blast+
next
  case (7 r x)
  from "7.prems" consider "y = x"
    | z where "z \<in> set (rmatch r x)" "length (snd z) < length (snd x)" "y \<in> set (rmatch (RLazy r) z)"
    by (subst (asm) rmatch.simps(7)) (auto split: if_splits simp del: rmatch.simps(7))
  then show ?case using "7.IH" by cases blast+
qed (auto split: if_splits simp del: rmatch.simps(6,7))

text \<open>\<open>needs q r\<close>: every match of \<open>r\<close> consumes a character with \<open>q\<close>.\<close>

fun needs :: "(char \<Rightarrow> bool) \<Rightarrow> rx \<Rightarrow> bool" where
  "needs q (RChr p) = (\<forall>c. p c \<longrightarrow> q c)"
| "needs q (RSeq r s) = (needs q r \<or> needs q s)"
| "needs q (RAlt r s) = (needs q r \<and> needs q s)"
| "needs q r = False"

lemma needs_lit [simp]: "needs q (rx_lit s) = list_ex q s"
  by (induction s) auto

lemma needs_rmatch: "needs q r \<Longrightarrow> \<forall>c \<in> set (snd x). \<not> q c \<Longrightarrow> rmatch r x = []"
proof (induction q r arbitrary: x rule: needs.induct)
  case (1 q p)
  then show ?case by (cases x; cases "snd x") auto
next
  case (2 q r s)
  show ?case
  proof (cases "needs q r")
    case True
    with "2.IH"(1) "2.prems" show ?thesis by simp
  next
    case False
    with "2.prems" "2.IH"(2) have "\<forall>y \<in> set (rmatch r x). rmatch s y = []"
      by (meson needs.simps(2) rmatch_chars subsetD)
    then show ?thesis by simp
  qed
qed auto

lemma needs_re_search: "needs q r \<Longrightarrow> \<forall>c \<in> set s. \<not> q c \<Longrightarrow> \<not> re_search r s"
proof -
  assume n: "needs q r"
  have "\<forall>c \<in> set s. \<not> q c \<Longrightarrow> \<not> re_search_from r b s" for b
    by (induction s arbitrary: b) (simp_all add: needs_rmatch [OF n])
  then show "\<forall>c \<in> set s. \<not> q c \<Longrightarrow> \<not> re_search r s" by (simp add: re_search_def)
qed

lemma rmatch_star_chr: "list_all p u \<Longrightarrow> \<exists>b'. (b', v) \<in> set (rmatch (RStar (RChr p)) (b, u @ v))"
proof (induction u arbitrary: b)
  case Nil
  show ?case by (subst rmatch.simps(6)) (auto simp del: rmatch.simps(6))
next
  case (Cons c u)
  then obtain b' where "(b', v) \<in> set (rmatch (RStar (RChr p)) (is_word c, u @ v))"
    by (metis list.pred_inject(2))
  with Cons.prems show ?case by (subst rmatch.simps(6)) (auto simp del: rmatch.simps(6))
qed

lemma rmatch_plus_chr:
  assumes "list_all p u" and "u \<noteq> []"
  shows "\<exists>b'. (b', v) \<in> set (rmatch (rx_plus (RChr p)) (b, u @ v))"
proof -
  from assms obtain c w where u: "u = c # w" "p c" "list_all p w" by (cases u) auto
  with rmatch_star_chr [of p w v "is_word c"] show ?thesis
    by (simp add: rx_plus_def del: rmatch.simps(6))
qed

end
