(* ===== verification/Contracts.thy ===== *)
theory Contracts
  imports PyRegex
begin

text \<open>
  The versioned domain contracts of \<^verbatim>\<open>src/packages/contracts\<close>: every enumeration, every model as a
  record, and for every model the check its declaration makes when an object is built. A model
  with \<^verbatim>\<open>str_strip_whitespace\<close> strips its text fields first; the field constraints are checked
  next and the model validators last. \<^verbatim>\<open>schema_version\<close> is the constant "1.0" of a
  \<^verbatim>\<open>Literal\<close> field and carries no information.
\<close>

section \<open>Validation\<close>

definition run_checks :: "(bool \<times> string) list \<Rightarrow> 'a \<Rightarrow> 'a presult" where
  "run_checks cs x =
     (case filter (\<lambda>c. \<not> fst c) cs of [] \<Rightarrow> Inr x | c # _ \<Rightarrow> Inl (ValidationError (snd c)))"

lemma run_checks_Inr_iff [simp]: "run_checks cs x = Inr y \<longleftrightarrow> y = x \<and> (\<forall>c \<in> set cs. fst c)"
proof (cases "filter (\<lambda>c. \<not> fst c) cs")
  case Nil
  then show ?thesis by (auto simp: run_checks_def filter_empty_conv)
next
  case (Cons c ds)
  from arg_cong [OF Cons, of set] have "c \<in> set cs \<and> \<not> fst c" by auto
  with Cons show ?thesis by (auto simp: run_checks_def)
qed

lemma run_checks_ok: "\<forall>c \<in> set cs. fst c \<Longrightarrow> run_checks cs x = Inr x"
  by simp

definition len_in :: "nat \<Rightarrow> nat \<Rightarrow> 'a list \<Rightarrow> bool" where
  "len_in lo hi s = (lo \<le> length s \<and> length s \<le> hi)"

definition opt_len_in :: "nat \<Rightarrow> nat \<Rightarrow> string option \<Rightarrow> bool" where
  "opt_len_in lo hi s = (case s of None \<Rightarrow> True | Some t \<Rightarrow> len_in lo hi t)"

text \<open>\<^verbatim>\<open>^[A-Za-z0-9._-]+$\<close>\<close>

definition id_char :: "char \<Rightarrow> bool" where
  "id_char c = (is_alnum c \<or> c = CHR ''.'' \<or> c = CHR ''_'' \<or> c = CHR ''-'')"

definition id_pattern :: "string \<Rightarrow> bool" where
  "id_pattern s = (s \<noteq> [] \<and> list_all id_char s)"

definition ident :: "string \<Rightarrow> bool" where
  "ident s = (len_in 1 128 s \<and> id_pattern s)"

text \<open>\<^verbatim>\<open>^[a-z0-9_]+\.[a-z0-9_]+$\<close>, anchored at both ends.\<close>

definition tool_char :: "char \<Rightarrow> bool" where
  "tool_char c = (is_ascii_lower c \<or> is_digit c \<or> c = CHR ''_'')"

definition tool_name_pattern :: "string \<Rightarrow> bool" where
  "tool_name_pattern s =
     (let a = takeWhile tool_char s; b = dropWhile tool_char s
      in a \<noteq> [] \<and> (case b of [] \<Rightarrow> False
           | c # t \<Rightarrow> c = CHR ''.'' \<and> t \<noteq> [] \<and> list_all tool_char t))"

text \<open>\<^verbatim>\<open>^\d+(\.\d+)*$\<close> with \<open>n\<close> parts.\<close>

definition version_pattern :: "nat \<Rightarrow> string \<Rightarrow> bool" where
  "version_pattern n s =
     (let ps = split_on (CHR ''.'') s
      in length ps = n \<and> list_all (\<lambda>p. p \<noteq> [] \<and> list_all is_digit p) ps)"

lemma dropWhile_rev_fix:
  "dropWhile P xs = xs \<Longrightarrow> dropWhile P (rev (dropWhile P (rev xs))) = rev (dropWhile P (rev xs))"
proof -
  assume f: "dropWhile P xs = xs"
  have xs: "rev (dropWhile P (rev xs)) @ rev (takeWhile P (rev xs)) = xs"
    by (metis rev_append rev_rev_ident takeWhile_dropWhile_id)
  show ?thesis
  proof (cases "rev (dropWhile P (rev xs))")
    case (Cons y ys)
    with xs have "y # ys @ rev (takeWhile P (rev xs)) = xs" by simp
    then have "hd xs = y" and "xs \<noteq> []" by (metis list.sel(1), blast)
    with f have "\<not> P y" by (auto simp: dropWhile_eq_self_iff)
    with Cons show ?thesis by simp
  next
    case Nil
    then show ?thesis by (simp only: dropWhile.simps)
  qed
qed

lemma strip_strip [simp]: "strip (strip s) = strip s"
proof -
  let ?t = "dropWhile is_space s"
  have t: "dropWhile is_space ?t = ?t" by simp
  have "dropWhile is_space (strip s) = strip s"
    unfolding strip_def by (rule dropWhile_rev_fix [OF t])
  then show ?thesis by (simp add: strip_def)
qed

abbreviation ostrip :: "string option \<Rightarrow> string option" where
  "ostrip \<equiv> map_option strip"

lemma ostrip_ostrip [simp]: "ostrip (ostrip s) = ostrip s"
  by (cases s) simp_all

lemma space_not_id_char: "id_char c \<Longrightarrow> \<not> is_space c"
  by (auto simp: id_char_def is_space_def is_alnum_def is_ascii_lower_def is_ascii_upper_def
      is_digit_def Let_def)

lemma dropWhile_none: "list_all (\<lambda>c. \<not> P c) s \<Longrightarrow> dropWhile P s = s"
  by (cases s) simp_all

lemma strip_id_pattern: "list_all id_char s \<Longrightarrow> strip s = s"
proof -
  assume "list_all id_char s"
  then have "list_all (\<lambda>c. \<not> is_space c) s"
    by (auto simp: list_all_iff dest: space_not_id_char)
  then show ?thesis by (simp add: strip_def dropWhile_none list_all_iff)
qed

lemma strip_ident [simp]: "ident s \<Longrightarrow> strip s = s"
  by (simp add: ident_def id_pattern_def strip_id_pattern)

section \<open>Run lifecycle: \<^verbatim>\<open>run.py\<close>\<close>

datatype RunStatus = CREATED | RUNNING | WAITING_FOR_APPROVAL | COMPLETED | FAILED | CANCELLED

fun RunStatus_value :: "RunStatus \<Rightarrow> string" where
  "RunStatus_value CREATED = ''created''"
| "RunStatus_value RUNNING = ''running''"
| "RunStatus_value WAITING_FOR_APPROVAL = ''waiting_for_approval''"
| "RunStatus_value COMPLETED = ''completed''"
| "RunStatus_value FAILED = ''failed''"
| "RunStatus_value CANCELLED = ''cancelled''"

datatype SeverityLevel = Sev_LOW | Sev_MEDIUM | Sev_HIGH | Sev_CRITICAL

fun SeverityLevel_value :: "SeverityLevel \<Rightarrow> string" where
  "SeverityLevel_value Sev_LOW = ''low''"
| "SeverityLevel_value Sev_MEDIUM = ''medium''"
| "SeverityLevel_value Sev_HIGH = ''high''"
| "SeverityLevel_value Sev_CRITICAL = ''critical''"

datatype RiskLevel = LOW | MEDIUM | HIGH | CRITICAL

fun RiskLevel_value :: "RiskLevel \<Rightarrow> string" where
  "RiskLevel_value LOW = ''low''"
| "RiskLevel_value MEDIUM = ''medium''"
| "RiskLevel_value HIGH = ''high''"
| "RiskLevel_value CRITICAL = ''critical''"

datatype EvidenceKind = METRIC | LOG | TRACE | DOC | RUNBOOK | AGENT

record EvidenceReference =
  er_ref_id :: string
  er_kind :: EvidenceKind
  er_uri :: string
  er_excerpt_hash :: "string option"
  er_span_ref :: "string option"
  er_run_id :: "string option"
  er_tenant_id :: "string option"

definition uri_schemes :: "string list" where
  "uri_schemes = [''resource://'', ''telemetry://'', ''trace://'', ''https://'', ''a2a://'']"

definition validate_EvidenceReference :: "EvidenceReference \<Rightarrow> EvidenceReference presult" where
  "validate_EvidenceReference r0 =
     (let r = r0\<lparr>er_ref_id := strip (er_ref_id r0), er_uri := strip (er_uri r0),
          er_excerpt_hash := ostrip (er_excerpt_hash r0), er_span_ref := ostrip (er_span_ref r0),
          er_run_id := ostrip (er_run_id r0), er_tenant_id := ostrip (er_tenant_id r0)\<rparr>
      in run_checks
          [(ident (er_ref_id r), ''ref_id''),
           (len_in 1 2048 (er_uri r), ''uri''),
           (list_ex (startswith (er_uri r)) uri_schemes, ''uri must start with one of the schemes''),
           (opt_len_in 1 256 (er_excerpt_hash r), ''excerpt_hash''),
           (opt_len_in 0 256 (er_span_ref r), ''span_ref''),
           (opt_len_in 1 128 (er_run_id r), ''run_id''),
           (opt_len_in 1 128 (er_tenant_id r), ''tenant_id'')] r)"

record Finding =
  fd_finding_id :: string
  fd_run_id :: "string option"
  fd_tenant_id :: "string option"
  fd_title :: string
  fd_summary :: string
  fd_evidence_refs :: "string list"
  fd_confidence :: pyfloat
  fd_severity :: "SeverityLevel option"
  fd_trace_id :: "string option"
  fd_correlation_id :: "string option"

definition strip_Finding :: "Finding \<Rightarrow> Finding" where
  "strip_Finding f = f\<lparr>fd_finding_id := strip (fd_finding_id f),
     fd_run_id := ostrip (fd_run_id f), fd_tenant_id := ostrip (fd_tenant_id f),
     fd_title := strip (fd_title f), fd_summary := strip (fd_summary f),
     fd_evidence_refs := map strip (fd_evidence_refs f),
     fd_trace_id := ostrip (fd_trace_id f), fd_correlation_id := ostrip (fd_correlation_id f)\<rparr>"

definition checks_Finding :: "Finding \<Rightarrow> (bool \<times> string) list" where
  "checks_Finding f =
     [(ident (fd_finding_id f), ''finding_id''),
      (opt_len_in 1 128 (fd_run_id f), ''run_id''),
      (opt_len_in 1 128 (fd_tenant_id f), ''tenant_id''),
      (len_in 1 256 (fd_title f), ''title''),
      (len_in 1 4000 (fd_summary f), ''summary''),
      (length (fd_evidence_refs f) \<le> 64, ''evidence_refs''),
      (list_all (\<lambda>r. r \<noteq> [] \<and> length r \<le> 128) (fd_evidence_refs f),
        ''each evidence ref must be 1..128 chars''),
      (0 \<le> fd_confidence f \<and> fd_confidence f \<le> 1, ''confidence''),
      (opt_len_in 0 128 (fd_trace_id f), ''trace_id''),
      (opt_len_in 0 128 (fd_correlation_id f), ''correlation_id'')]"

definition validate_Finding :: "Finding \<Rightarrow> Finding presult" where
  "validate_Finding f0 = (let f = strip_Finding f0 in run_checks (checks_Finding f) f)"

record AgentRequest =
  rq_run_id :: string
  rq_tenant_id :: string
  rq_user_id :: string
  rq_objective :: string
  rq_context :: pydict
  rq_max_tool_calls :: int
  rq_max_model_calls :: int
  rq_max_cost_usd :: pyfloat
  rq_idempotency_key :: "string option"
  rq_trace_id :: "string option"
  rq_correlation_id :: "string option"

definition validate_AgentRequest :: "pyenv \<Rightarrow> AgentRequest \<Rightarrow> AgentRequest presult" where
  "validate_AgentRequest E r0 =
     (let r = r0\<lparr>rq_run_id := strip (rq_run_id r0), rq_tenant_id := strip (rq_tenant_id r0),
          rq_user_id := strip (rq_user_id r0), rq_objective := strip (rq_objective r0),
          rq_idempotency_key := ostrip (rq_idempotency_key r0),
          rq_trace_id := ostrip (rq_trace_id r0),
          rq_correlation_id := ostrip (rq_correlation_id r0)\<rparr>
      in run_checks
          [(ident (rq_run_id r), ''run_id''),
           (ident (rq_tenant_id r), ''tenant_id''),
           (len_in 1 256 (rq_user_id r), ''user_id''),
           (len_in 1 8192 (rq_objective r), ''objective''),
           (length (rq_context r) \<le> 64, ''context must have <= 64 keys''),
           (length (json_dumps E (PDict (rq_context r))) \<le> 65536,
             ''context must be <= 64KB serialized''),
           (1 \<le> rq_max_tool_calls r \<and> rq_max_tool_calls r \<le> 100, ''max_tool_calls''),
           (1 \<le> rq_max_model_calls r \<and> rq_max_model_calls r \<le> 50, ''max_model_calls''),
           (0 \<le> rq_max_cost_usd r \<and> rq_max_cost_usd r \<le> 1000, ''max_cost_usd''),
           (opt_len_in 1 128 (rq_idempotency_key r), ''idempotency_key''),
           (opt_len_in 0 128 (rq_trace_id r), ''trace_id''),
           (opt_len_in 0 128 (rq_correlation_id r), ''correlation_id'')] r)"

record RunBudget =
  rb_max_tool_calls :: int
  rb_max_model_calls :: int
  rb_max_cost_usd :: pyfloat
  rb_consumed_tool_calls :: int
  rb_consumed_model_calls :: int
  rb_consumed_cost_usd :: pyfloat

definition validate_RunBudget :: "RunBudget \<Rightarrow> RunBudget presult" where
  "validate_RunBudget b = run_checks
     [(1 \<le> rb_max_tool_calls b \<and> rb_max_tool_calls b \<le> 100, ''max_tool_calls''),
      (1 \<le> rb_max_model_calls b \<and> rb_max_model_calls b \<le> 50, ''max_model_calls''),
      (0 \<le> rb_max_cost_usd b \<and> rb_max_cost_usd b \<le> 1000, ''max_cost_usd''),
      (0 \<le> rb_consumed_tool_calls b, ''consumed_tool_calls''),
      (0 \<le> rb_consumed_model_calls b, ''consumed_model_calls''),
      (0 \<le> rb_consumed_cost_usd b, ''consumed_cost_usd'')] b"

text \<open>The \<^verbatim>\<open>Run\<close> contract; its \<^verbatim>\<open>completed_at\<close> validator accepts everything.\<close>

record RunContract =
  rc_run_id :: string
  rc_tenant_id :: string
  rc_created_by :: string
  rc_objective :: string
  rc_status :: RunStatus
  rc_current_state :: string
  rc_budget :: RunBudget
  rc_created_at :: datetime
  rc_updated_at :: datetime
  rc_completed_at :: "datetime option"
  rc_trace_id :: "string option"
  rc_correlation_id :: "string option"

definition validate_Run :: "RunContract \<Rightarrow> RunContract presult" where
  "validate_Run r0 =
     (let r = r0\<lparr>rc_run_id := strip (rc_run_id r0), rc_tenant_id := strip (rc_tenant_id r0),
          rc_created_by := strip (rc_created_by r0), rc_objective := strip (rc_objective r0),
          rc_current_state := strip (rc_current_state r0), rc_trace_id := ostrip (rc_trace_id r0),
          rc_correlation_id := ostrip (rc_correlation_id r0)\<rparr>
      in rbind (validate_RunBudget (rc_budget r)) (\<lambda>_. run_checks
          [(ident (rc_run_id r), ''run_id''),
           (ident (rc_tenant_id r), ''tenant_id''),
           (len_in 1 256 (rc_created_by r), ''created_by''),
           (len_in 1 8192 (rc_objective r), ''objective''),
           (len_in 1 128 (rc_current_state r), ''current_state''),
           (opt_len_in 0 128 (rc_trace_id r), ''trace_id''),
           (opt_len_in 0 128 (rc_correlation_id r), ''correlation_id'')] r))"

record ProposedAction =
  pa_action_id :: string
  pa_run_id :: "string option"
  pa_tenant_id :: "string option"
  pa_tool_name :: string
  pa_reason :: string
  pa_input :: pydict
  pa_risk :: RiskLevel
  pa_requires_approval :: bool
  pa_rollback :: "string option"
  pa_dry_run :: bool
  pa_idempotency_key :: string
  pa_trace_id :: "string option"
  pa_correlation_id :: "string option"

definition strip_ProposedAction :: "ProposedAction \<Rightarrow> ProposedAction" where
  "strip_ProposedAction a = a\<lparr>pa_action_id := strip (pa_action_id a),
     pa_run_id := ostrip (pa_run_id a), pa_tenant_id := ostrip (pa_tenant_id a),
     pa_tool_name := strip (pa_tool_name a), pa_reason := strip (pa_reason a),
     pa_rollback := ostrip (pa_rollback a), pa_idempotency_key := strip (pa_idempotency_key a),
     pa_trace_id := ostrip (pa_trace_id a), pa_correlation_id := ostrip (pa_correlation_id a)\<rparr>"

definition checks_ProposedAction :: "pyenv \<Rightarrow> ProposedAction \<Rightarrow> (bool \<times> string) list" where
  "checks_ProposedAction E a =
     [(ident (pa_action_id a), ''action_id''),
      (opt_len_in 1 128 (pa_run_id a), ''run_id''),
      (opt_len_in 1 128 (pa_tenant_id a), ''tenant_id''),
      (len_in 1 128 (pa_tool_name a) \<and> tool_name_pattern (pa_tool_name a), ''tool_name''),
      (len_in 1 2000 (pa_reason a), ''reason''),
      (length (pa_input a) \<le> 50, ''action input must have <= 50 keys''),
      (length (json_dumps E (PDict (pa_input a))) \<le> 32768,
        ''action input must be <= 32KB serialized''),
      (\<not> (pa_risk a \<in> {HIGH, CRITICAL} \<and> \<not> pa_requires_approval a),
        ''high/critical risk actions must require approval''),
      (opt_len_in 0 2000 (pa_rollback a), ''rollback''),
      (len_in 1 128 (pa_idempotency_key a), ''idempotency_key''),
      (opt_len_in 0 128 (pa_trace_id a), ''trace_id''),
      (opt_len_in 0 128 (pa_correlation_id a), ''correlation_id'')]"

definition validate_ProposedAction :: "pyenv \<Rightarrow> ProposedAction \<Rightarrow> ProposedAction presult" where
  "validate_ProposedAction E a0 =
     (let a = strip_ProposedAction a0 in run_checks (checks_ProposedAction E a) a)"

record AgentResult =
  ar_run_id :: "string option"
  ar_tenant_id :: "string option"
  ar_answer :: string
  ar_findings :: "Finding list"
  ar_proposed_actions :: "ProposedAction list"
  ar_unresolved_questions :: "string list"
  ar_trace_id :: "string option"
  ar_correlation_id :: "string option"

definition validate_AgentResult :: "pyenv \<Rightarrow> AgentResult \<Rightarrow> AgentResult presult" where
  "validate_AgentResult E r0 =
     (let r = r0\<lparr>ar_run_id := ostrip (ar_run_id r0), ar_tenant_id := ostrip (ar_tenant_id r0),
          ar_answer := strip (ar_answer r0),
          ar_findings := map strip_Finding (ar_findings r0),
          ar_proposed_actions := map strip_ProposedAction (ar_proposed_actions r0),
          ar_unresolved_questions := map strip (ar_unresolved_questions r0),
          ar_trace_id := ostrip (ar_trace_id r0),
          ar_correlation_id := ostrip (ar_correlation_id r0)\<rparr>
      in run_checks
          (concat (map checks_Finding (ar_findings r)) @
           concat (map (checks_ProposedAction E) (ar_proposed_actions r)) @
           [(opt_len_in 1 128 (ar_run_id r), ''run_id''),
            (opt_len_in 1 128 (ar_tenant_id r), ''tenant_id''),
            (len_in 1 16000 (ar_answer r), ''answer''),
            (length (ar_findings r) \<le> 64, ''findings''),
            (length (ar_proposed_actions r) \<le> 16, ''proposed_actions''),
            (length (ar_unresolved_questions r) \<le> 32, ''unresolved_questions''),
            (list_all (\<lambda>q. q \<noteq> [] \<and> length q \<le> 1000) (ar_unresolved_questions r),
              ''each unresolved question must be 1..1000 chars''),
            (opt_len_in 0 128 (ar_trace_id r), ''trace_id''),
            (opt_len_in 0 128 (ar_correlation_id r), ''correlation_id'')]) r)"

section \<open>Approvals and policy decisions: \<^verbatim>\<open>approvals.py\<close>\<close>

datatype ApprovalDecision = PENDING | APPROVED | REJECTED | EXPIRED

fun ApprovalDecision_value :: "ApprovalDecision \<Rightarrow> string" where
  "ApprovalDecision_value PENDING = ''pending''"
| "ApprovalDecision_value APPROVED = ''approved''"
| "ApprovalDecision_value REJECTED = ''rejected''"
| "ApprovalDecision_value EXPIRED = ''expired''"

record Approval =
  ap_approval_id :: string
  ap_run_id :: string
  ap_tenant_id :: string
  ap_action_id :: string
  ap_requested_by :: string
  ap_approver :: "string option"
  ap_decision :: ApprovalDecision
  ap_reason :: "string option"
  ap_requested_at :: datetime
  ap_decided_at :: "datetime option"
  ap_expires_at :: "datetime option"
  ap_trace_id :: "string option"
  ap_correlation_id :: "string option"

text \<open>\<open>_decision_consistency\<close>.\<close>

definition decision_consistency :: "Approval \<Rightarrow> (bool \<times> string) list" where
  "decision_consistency a =
     (if ap_decision a \<in> {APPROVED, REJECTED, EXPIRED} then
        [(ap_decided_at a \<noteq> None, ''terminal approvals require decided_at''),
         (\<not> (ap_decision a \<in> {APPROVED, REJECTED} \<and> ap_approver a \<in> {None, Some []}),
           ''approved/rejected decisions require approver''),
         (case ap_decided_at a of None \<Rightarrow> True | Some d \<Rightarrow> ap_requested_at a \<le> d,
           ''decided_at must be >= requested_at'')]
      else [(ap_decided_at a = None, ''pending approvals must not have decided_at'')]) @
     [(case ap_expires_at a of None \<Rightarrow> True | Some x \<Rightarrow> ap_requested_at a \<le> x,
        ''expires_at must be >= requested_at'')]"

definition strip_Approval :: "Approval \<Rightarrow> Approval" where
  "strip_Approval a = a\<lparr>ap_approval_id := strip (ap_approval_id a), ap_run_id := strip (ap_run_id a),
     ap_tenant_id := strip (ap_tenant_id a), ap_action_id := strip (ap_action_id a),
     ap_requested_by := strip (ap_requested_by a), ap_approver := ostrip (ap_approver a),
     ap_reason := ostrip (ap_reason a), ap_trace_id := ostrip (ap_trace_id a),
     ap_correlation_id := ostrip (ap_correlation_id a)\<rparr>"

definition validate_Approval :: "Approval \<Rightarrow> Approval presult" where
  "validate_Approval a0 =
     (let a = strip_Approval a0
      in run_checks
          ([(ident (ap_approval_id a), ''approval_id''),
            (ident (ap_run_id a), ''run_id''),
            (ident (ap_tenant_id a), ''tenant_id''),
            (ident (ap_action_id a), ''action_id''),
            (len_in 1 256 (ap_requested_by a), ''requested_by''),
            (opt_len_in 1 256 (ap_approver a), ''approver''),
            (opt_len_in 0 2000 (ap_reason a), ''reason''),
            (opt_len_in 0 128 (ap_trace_id a), ''trace_id''),
            (opt_len_in 0 128 (ap_correlation_id a), ''correlation_id'')]
           @ decision_consistency a) a)"

record PolicyDecision =
  pd_rule_version :: string
  pd_allowed :: bool
  pd_requires_approval :: bool
  pd_reason :: string
  pd_required_scopes :: "string list"
  pd_max_impact :: "RiskLevel option"
  pd_tenant_id :: "string option"
  pd_run_id :: "string option"
  pd_trace_id :: "string option"
  pd_correlation_id :: "string option"

definition validate_PolicyDecision :: "PolicyDecision \<Rightarrow> PolicyDecision presult" where
  "validate_PolicyDecision p0 =
     (let p = p0\<lparr>pd_rule_version := strip (pd_rule_version p0), pd_reason := strip (pd_reason p0),
          pd_required_scopes := map strip (pd_required_scopes p0),
          pd_tenant_id := ostrip (pd_tenant_id p0), pd_run_id := ostrip (pd_run_id p0),
          pd_trace_id := ostrip (pd_trace_id p0),
          pd_correlation_id := ostrip (pd_correlation_id p0)\<rparr>
      in run_checks
          [(len_in 1 32 (pd_rule_version p) \<and> version_pattern 2 (pd_rule_version p), ''rule_version''),
           (len_in 1 2000 (pd_reason p), ''reason''),
           (length (pd_required_scopes p) \<le> 16, ''required_scopes''),
           (opt_len_in 1 128 (pd_tenant_id p), ''tenant_id''),
           (opt_len_in 1 128 (pd_run_id p), ''run_id''),
           (opt_len_in 0 128 (pd_trace_id p), ''trace_id''),
           (opt_len_in 0 128 (pd_correlation_id p), ''correlation_id''),
           (\<not> (\<not> pd_allowed p \<and> pd_requires_approval p),
             ''denied decisions must not require approval (deny is terminal)'')] p)"

section \<open>Events: \<^verbatim>\<open>events.py\<close>\<close>

datatype EventType =
    RUN_STARTED | MESSAGE_DELTA | TOOL_STARTED | TOOL_COMPLETED | AGENT_DELEGATED
  | FINDING_CREATED | APPROVAL_REQUIRED | APPROVAL_RECEIVED | RUN_COMPLETED | RUN_FAILED
  | RUN_CANCELLED

fun EventType_value :: "EventType \<Rightarrow> string" where
  "EventType_value RUN_STARTED = ''run.started''"
| "EventType_value MESSAGE_DELTA = ''message.delta''"
| "EventType_value TOOL_STARTED = ''tool.started''"
| "EventType_value TOOL_COMPLETED = ''tool.completed''"
| "EventType_value AGENT_DELEGATED = ''agent.delegated''"
| "EventType_value FINDING_CREATED = ''finding.created''"
| "EventType_value APPROVAL_REQUIRED = ''approval.required''"
| "EventType_value APPROVAL_RECEIVED = ''approval.received''"
| "EventType_value RUN_COMPLETED = ''run.completed''"
| "EventType_value RUN_FAILED = ''run.failed''"
| "EventType_value RUN_CANCELLED = ''run.cancelled''"

record AgentEvent =
  ev_event_id :: string
  ev_run_id :: string
  ev_tenant_id :: string
  ev_sequence :: int
  ev_type :: EventType
  ev_timestamp :: datetime
  ev_data :: pydict
  ev_trace_id :: "string option"
  ev_correlation_id :: "string option"
  ev_sensitive :: bool
  ev_safe_for_ui :: bool

definition strip_AgentEvent :: "AgentEvent \<Rightarrow> AgentEvent" where
  "strip_AgentEvent e = e\<lparr>ev_event_id := strip (ev_event_id e), ev_run_id := strip (ev_run_id e),
     ev_tenant_id := strip (ev_tenant_id e), ev_trace_id := ostrip (ev_trace_id e),
     ev_correlation_id := ostrip (ev_correlation_id e)\<rparr>"

definition validate_AgentEvent :: "AgentEvent \<Rightarrow> AgentEvent presult" where
  "validate_AgentEvent e0 =
     (let e = strip_AgentEvent e0
      in run_checks
          [(ident (ev_event_id e), ''event_id''),
           (ident (ev_run_id e), ''run_id''),
           (ident (ev_tenant_id e), ''tenant_id''),
           (0 \<le> ev_sequence e \<and> ev_sequence e \<le> 1000000, ''sequence''),
           (opt_len_in 0 128 (ev_trace_id e), ''trace_id''),
           (opt_len_in 0 128 (ev_correlation_id e), ''correlation_id''),
           (\<not> (ev_sensitive e \<and> ev_safe_for_ui e),
             ''sensitive events must not be marked safe_for_ui'')] e)"

section \<open>Errors: \<^verbatim>\<open>errors.py\<close>\<close>

datatype ErrorCode =
    VALIDATION_ERROR | AUTH_ERROR | FORBIDDEN | NOT_FOUND | CONFLICT | RATE_LIMITED | TIMEOUT
  | MODEL_ERROR | TOOL_ERROR | A2A_ERROR | POLICY_DENIED | APPROVAL_REQUIRED_ERROR
  | APPROVAL_EXPIRED | BUDGET_EXCEEDED | CANCELLED_ERROR | INTERNAL_ERROR | UNAVAILABLE

fun ErrorCode_value :: "ErrorCode \<Rightarrow> string" where
  "ErrorCode_value VALIDATION_ERROR = ''validation_error''"
| "ErrorCode_value AUTH_ERROR = ''auth_error''"
| "ErrorCode_value FORBIDDEN = ''forbidden''"
| "ErrorCode_value NOT_FOUND = ''not_found''"
| "ErrorCode_value CONFLICT = ''conflict''"
| "ErrorCode_value RATE_LIMITED = ''rate_limited''"
| "ErrorCode_value TIMEOUT = ''timeout''"
| "ErrorCode_value MODEL_ERROR = ''model_error''"
| "ErrorCode_value TOOL_ERROR = ''tool_error''"
| "ErrorCode_value A2A_ERROR = ''a2a_error''"
| "ErrorCode_value POLICY_DENIED = ''policy_denied''"
| "ErrorCode_value APPROVAL_REQUIRED_ERROR = ''approval_required''"
| "ErrorCode_value APPROVAL_EXPIRED = ''approval_expired''"
| "ErrorCode_value BUDGET_EXCEEDED = ''budget_exceeded''"
| "ErrorCode_value CANCELLED_ERROR = ''cancelled''"
| "ErrorCode_value INTERNAL_ERROR = ''internal_error''"
| "ErrorCode_value UNAVAILABLE = ''unavailable''"

record ErrorEnvelope =
  ee_code :: ErrorCode
  ee_message :: string
  ee_run_id :: "string option"
  ee_tenant_id :: "string option"
  ee_retryable :: bool
  ee_details :: "pydict option"
  ee_trace_id :: "string option"
  ee_correlation_id :: "string option"

definition secret_markers :: "string list" where
  "secret_markers = [''bearer '', ''api_key'', ''apikey'', ''client_secret'', ''-----begin'']"

definition validate_ErrorEnvelope :: "pyenv \<Rightarrow> ErrorEnvelope \<Rightarrow> ErrorEnvelope presult" where
  "validate_ErrorEnvelope E e0 =
     (let e = e0\<lparr>ee_message := strip (ee_message e0), ee_run_id := ostrip (ee_run_id e0),
          ee_tenant_id := ostrip (ee_tenant_id e0), ee_trace_id := ostrip (ee_trace_id e0),
          ee_correlation_id := ostrip (ee_correlation_id e0)\<rparr>
      in run_checks
          [(len_in 1 2000 (ee_message e), ''message''),
           (\<not> list_ex (\<lambda>m. str_in m (lower (ee_message e))) secret_markers,
             ''error message must not contain secret material''),
           (opt_len_in 1 128 (ee_run_id e), ''run_id''),
           (opt_len_in 1 128 (ee_tenant_id e), ''tenant_id''),
           (case ee_details e of None \<Rightarrow> True | Some d \<Rightarrow> length d \<le> 16,
             ''details must have <= 16 keys''),
           (case ee_details e of None \<Rightarrow> True | Some d \<Rightarrow> length (json_dumps E (PDict d)) \<le> 8192,
             ''details must be <= 8KB serialized''),
           (opt_len_in 0 128 (ee_trace_id e), ''trace_id''),
           (opt_len_in 0 128 (ee_correlation_id e), ''correlation_id'')] e)"

section \<open>Tools: \<^verbatim>\<open>tools.py\<close>\<close>

datatype ToolCategory = READ | ANALYSIS | WRITE | DESTRUCTIVE

fun ToolCategory_value :: "ToolCategory \<Rightarrow> string" where
  "ToolCategory_value READ = ''read''"
| "ToolCategory_value ANALYSIS = ''analysis''"
| "ToolCategory_value WRITE = ''write''"
| "ToolCategory_value DESTRUCTIVE = ''destructive''"

datatype SideEffect = SE_NONE | SE_EXTERNAL_WRITE | SE_DESTRUCTIVE

fun SideEffect_value :: "SideEffect \<Rightarrow> string" where
  "SideEffect_value SE_NONE = ''none''"
| "SideEffect_value SE_EXTERNAL_WRITE = ''external_write''"
| "SideEffect_value SE_DESTRUCTIVE = ''destructive''"

datatype ToolInvocationStatus =
    TI_PENDING | TI_RUNNING | TI_SUCCEEDED | TI_FAILED | TI_DENIED | TI_TIMEOUT | TI_CANCELLED

fun ToolInvocationStatus_value :: "ToolInvocationStatus \<Rightarrow> string" where
  "ToolInvocationStatus_value TI_PENDING = ''pending''"
| "ToolInvocationStatus_value TI_RUNNING = ''running''"
| "ToolInvocationStatus_value TI_SUCCEEDED = ''succeeded''"
| "ToolInvocationStatus_value TI_FAILED = ''failed''"
| "ToolInvocationStatus_value TI_DENIED = ''denied''"
| "ToolInvocationStatus_value TI_TIMEOUT = ''timeout''"
| "ToolInvocationStatus_value TI_CANCELLED = ''cancelled''"

datatype AuthorizationDecision = AD_ALLOWED | AD_DENIED | AD_REQUIRES_APPROVAL

fun AuthorizationDecision_value :: "AuthorizationDecision \<Rightarrow> string" where
  "AuthorizationDecision_value AD_ALLOWED = ''allowed''"
| "AuthorizationDecision_value AD_DENIED = ''denied''"
| "AuthorizationDecision_value AD_REQUIRES_APPROVAL = ''requires_approval''"

record ToolMetadata =
  tm_name :: string
  tm_description :: string
  tm_category :: ToolCategory
  tm_side_effect :: SideEffect
  tm_idempotent :: bool
  tm_timeout_seconds :: int
  tm_required_scopes :: "string list"
  tm_approval_required :: bool
  tm_supports_dry_run :: bool
  tm_owner :: string
  tm_version :: string

text \<open>\<open>_category_policy\<close>.\<close>

definition category_policy :: "ToolMetadata \<Rightarrow> (bool \<times> string) list" where
  "category_policy m =
     [(\<not> (tm_category m \<in> {WRITE, DESTRUCTIVE} \<and> \<not> tm_approval_required m),
        ''write/destructive tools must require approval''),
      (\<not> (tm_category m = READ \<and> tm_side_effect m \<noteq> SE_NONE),
        ''read tools must have side_effect=none''),
      (\<not> (tm_side_effect m = SE_DESTRUCTIVE \<and> tm_category m \<noteq> DESTRUCTIVE),
        ''destructive side_effect requires category=destructive''),
      (\<not> (tm_side_effect m = SE_EXTERNAL_WRITE \<and> tm_category m \<notin> {WRITE, DESTRUCTIVE, ANALYSIS}),
        ''external_write side_effect requires write/destructive/analysis category'')]"

definition strip_ToolMetadata :: "ToolMetadata \<Rightarrow> ToolMetadata" where
  "strip_ToolMetadata m = m\<lparr>tm_name := strip (tm_name m), tm_description := strip (tm_description m),
     tm_required_scopes := map strip (tm_required_scopes m), tm_owner := strip (tm_owner m),
     tm_version := strip (tm_version m)\<rparr>"

definition validate_ToolMetadata :: "ToolMetadata \<Rightarrow> ToolMetadata presult" where
  "validate_ToolMetadata m0 =
     (let m = strip_ToolMetadata m0
      in run_checks
          ([(len_in 1 128 (tm_name m) \<and> tool_name_pattern (tm_name m), ''name''),
            (len_in 1 2000 (tm_description m), ''description''),
            (1 \<le> tm_timeout_seconds m \<and> tm_timeout_seconds m \<le> 600, ''timeout_seconds''),
            (length (tm_required_scopes m) \<le> 16, ''required_scopes''),
            (len_in 1 128 (tm_owner m), ''owner''),
            (len_in 1 32 (tm_version m) \<and> version_pattern 3 (tm_version m), ''version'')]
           @ category_policy m) m)"

record ToolInvocation =
  ti_invocation_id :: string
  ti_run_id :: string
  ti_tenant_id :: string
  ti_tool_name :: string
  ti_tool_version :: string
  ti_input_hash :: string
  ti_redacted_input :: pydict
  ti_output_hash :: "string option"
  ti_status :: ToolInvocationStatus
  ti_authorization_decision :: "AuthorizationDecision option"
  ti_idempotency_key :: "string option"
  ti_dry_run :: bool
  ti_started_at :: datetime
  ti_completed_at :: "datetime option"
  ti_trace_id :: "string option"
  ti_correlation_id :: "string option"
  ti_error :: "pydict option"

definition strip_ToolInvocation :: "ToolInvocation \<Rightarrow> ToolInvocation" where
  "strip_ToolInvocation i = i\<lparr>ti_invocation_id := strip (ti_invocation_id i),
     ti_run_id := strip (ti_run_id i), ti_tenant_id := strip (ti_tenant_id i),
     ti_tool_name := strip (ti_tool_name i), ti_tool_version := strip (ti_tool_version i),
     ti_input_hash := strip (ti_input_hash i), ti_output_hash := ostrip (ti_output_hash i),
     ti_idempotency_key := ostrip (ti_idempotency_key i), ti_trace_id := ostrip (ti_trace_id i),
     ti_correlation_id := ostrip (ti_correlation_id i)\<rparr>"

definition validate_ToolInvocation :: "ToolInvocation \<Rightarrow> ToolInvocation presult" where
  "validate_ToolInvocation i0 =
     (let i = strip_ToolInvocation i0
      in run_checks
          [(ident (ti_invocation_id i), ''invocation_id''),
           (ident (ti_run_id i), ''run_id''),
           (ident (ti_tenant_id i), ''tenant_id''),
           (len_in 1 128 (ti_tool_name i) \<and> tool_name_pattern (ti_tool_name i), ''tool_name''),
           (len_in 1 32 (ti_tool_version i) \<and> version_pattern 3 (ti_tool_version i), ''tool_version''),
           (len_in 1 256 (ti_input_hash i), ''input_hash''),
           (opt_len_in 1 256 (ti_output_hash i), ''output_hash''),
           (opt_len_in 1 128 (ti_idempotency_key i), ''idempotency_key''),
           (opt_len_in 0 128 (ti_trace_id i), ''trace_id''),
           (opt_len_in 0 128 (ti_correlation_id i), ''correlation_id''),
           (case ti_completed_at i of None \<Rightarrow> True | Some c \<Rightarrow> ti_started_at i \<le> c,
             ''completed_at must be >= started_at''),
           (\<not> (ti_status i \<in> {TI_SUCCEEDED, TI_FAILED, TI_TIMEOUT, TI_CANCELLED}
                \<and> ti_completed_at i = None),
             ''terminal invocations require completed_at'')] i)"

section \<open>Delegation: \<^verbatim>\<open>a2a.py\<close>\<close>

datatype A2ATaskStatus =
    A2A_PENDING | A2A_WORKING | A2A_COMPLETED | A2A_FAILED | A2A_TIMEOUT | A2A_CANCELLED
  | A2A_REJECTED

fun A2ATaskStatus_value :: "A2ATaskStatus \<Rightarrow> string" where
  "A2ATaskStatus_value A2A_PENDING = ''pending''"
| "A2ATaskStatus_value A2A_WORKING = ''working''"
| "A2ATaskStatus_value A2A_COMPLETED = ''completed''"
| "A2ATaskStatus_value A2A_FAILED = ''failed''"
| "A2ATaskStatus_value A2A_TIMEOUT = ''timeout''"
| "A2ATaskStatus_value A2A_CANCELLED = ''cancelled''"
| "A2ATaskStatus_value A2A_REJECTED = ''rejected''"

record A2ATaskRequest =
  tq_task_id :: string
  tq_run_id :: "string option"
  tq_tenant_id :: string
  tq_skill_id :: string
  tq_agent_name :: string
  tq_objective :: string
  tq_inputs :: pydict
  tq_deadline :: datetime
  tq_requester :: string
  tq_trace_id :: "string option"
  tq_correlation_id :: "string option"

definition validate_A2ATaskRequest :: "A2ATaskRequest \<Rightarrow> A2ATaskRequest presult" where
  "validate_A2ATaskRequest r0 =
     (let r = r0\<lparr>tq_task_id := strip (tq_task_id r0), tq_run_id := ostrip (tq_run_id r0),
          tq_tenant_id := strip (tq_tenant_id r0), tq_skill_id := strip (tq_skill_id r0),
          tq_agent_name := strip (tq_agent_name r0), tq_objective := strip (tq_objective r0),
          tq_requester := strip (tq_requester r0), tq_trace_id := ostrip (tq_trace_id r0),
          tq_correlation_id := ostrip (tq_correlation_id r0)\<rparr>
      in run_checks
          [(ident (tq_task_id r), ''task_id''),
           (opt_len_in 1 128 (tq_run_id r), ''run_id''),
           (ident (tq_tenant_id r), ''tenant_id''),
           (ident (tq_skill_id r), ''skill_id''),
           (len_in 1 128 (tq_agent_name r), ''agent_name''),
           (len_in 1 8192 (tq_objective r), ''objective''),
           (len_in 1 256 (tq_requester r), ''requester''),
           (opt_len_in 0 128 (tq_trace_id r), ''trace_id''),
           (opt_len_in 0 128 (tq_correlation_id r), ''correlation_id'')] r)"

record A2ATaskError =
  te_code :: string
  te_message :: string
  te_retryable :: bool

definition checks_A2ATaskError :: "A2ATaskError \<Rightarrow> (bool \<times> string) list" where
  "checks_A2ATaskError e = [(len_in 1 128 (te_code e), ''code''), (len_in 1 2000 (te_message e), ''message'')]"

definition strip_A2ATaskError :: "A2ATaskError \<Rightarrow> A2ATaskError" where
  "strip_A2ATaskError e = e\<lparr>te_code := strip (te_code e), te_message := strip (te_message e)\<rparr>"

record A2ATaskResult =
  tr_task_id :: string
  tr_run_id :: "string option"
  tr_tenant_id :: "string option"
  tr_status :: A2ATaskStatus
  tr_output :: "pydict option"
  tr_artifacts :: "pydict list"
  tr_error :: "A2ATaskError option"
  tr_trace_id :: "string option"
  tr_correlation_id :: "string option"

definition validate_A2ATaskResult :: "A2ATaskResult \<Rightarrow> A2ATaskResult presult" where
  "validate_A2ATaskResult r0 =
     (let r = r0\<lparr>tr_task_id := strip (tr_task_id r0), tr_run_id := ostrip (tr_run_id r0),
          tr_tenant_id := ostrip (tr_tenant_id r0),
          tr_error := map_option strip_A2ATaskError (tr_error r0),
          tr_trace_id := ostrip (tr_trace_id r0),
          tr_correlation_id := ostrip (tr_correlation_id r0)\<rparr>
      in run_checks
          ((case tr_error r of None \<Rightarrow> [] | Some e \<Rightarrow> checks_A2ATaskError e) @
           [(ident (tr_task_id r), ''task_id''),
            (opt_len_in 1 128 (tr_run_id r), ''run_id''),
            (opt_len_in 1 128 (tr_tenant_id r), ''tenant_id''),
            (length (tr_artifacts r) \<le> 32, ''artifacts''),
            (opt_len_in 0 128 (tr_trace_id r), ''trace_id''),
            (opt_len_in 0 128 (tr_correlation_id r), ''correlation_id''),
            (\<not> (tr_status r = A2A_COMPLETED \<and> tr_error r \<noteq> None),
              ''completed results must not carry error''),
            (\<not> (tr_status r \<in> {A2A_FAILED, A2A_TIMEOUT} \<and> tr_error r = None),
              ''failed/timeout results must carry error'')]) r)"

record AgentSkill =
  sk_id :: string
  sk_name :: string
  sk_description :: string
  sk_input_modes :: "string list"
  sk_output_modes :: "string list"

definition checks_AgentSkill :: "AgentSkill \<Rightarrow> (bool \<times> string) list" where
  "checks_AgentSkill s =
     [(ident (strip (sk_id s)), ''id''), (len_in 1 256 (strip (sk_name s)), ''name''),
      (len_in 1 2000 (strip (sk_description s)), ''description''),
      (length (sk_input_modes s) \<le> 8, ''input_modes''), (length (sk_output_modes s) \<le> 8, ''output_modes'')]"

record AgentCard =
  ac_name :: string
  ac_description :: string
  ac_url :: string
  ac_version :: string
  ac_skills :: "AgentSkill list"
  ac_schemes :: "string list"

text \<open>\<^verbatim>\<open>^[a-z0-9-]+$\<close>\<close>

definition card_name_pattern :: "string \<Rightarrow> bool" where
  "card_name_pattern s =
     (s \<noteq> [] \<and> list_all (\<lambda>c. is_ascii_lower c \<or> is_digit c \<or> c = CHR ''-'') s)"

text \<open>\<open>AgentCard\<close> with its \<open>AgentAuthentication\<close>; \<open>url_ok\<close> is the library's URL check.\<close>

definition validate_AgentCard :: "(string \<Rightarrow> bool) \<Rightarrow> AgentCard \<Rightarrow> AgentCard presult" where
  "validate_AgentCard url_ok c = run_checks
     (concat (map checks_AgentSkill (ac_skills c)) @
      [(len_in 1 128 (strip (ac_name c)) \<and> card_name_pattern (strip (ac_name c)), ''name''),
       (len_in 1 2000 (strip (ac_description c)), ''description''),
       (url_ok (ac_url c), ''url''),
       (len_in 1 32 (strip (ac_version c)) \<and> version_pattern 3 (strip (ac_version c)), ''version''),
       (len_in 1 32 (ac_skills c), ''skills''),
       (len_in 1 8 (ac_schemes c), ''schemes'')]) c"

section \<open>What a validated object guarantees\<close>

lemma validate_AgentEvent_Inr_iff:
  "validate_AgentEvent e = Inr v \<longleftrightarrow>
     v = strip_AgentEvent e \<and> ident (ev_event_id v) \<and> ident (ev_run_id v) \<and>
     ident (ev_tenant_id v) \<and> 0 \<le> ev_sequence v \<and> ev_sequence v \<le> 1000000 \<and>
     opt_len_in 0 128 (ev_trace_id v) \<and> opt_len_in 0 128 (ev_correlation_id v) \<and>
     \<not> (ev_sensitive v \<and> ev_safe_for_ui v)"
  by (auto simp: validate_AgentEvent_def Let_def)

lemma strip_AgentEvent_idem [simp]: "strip_AgentEvent (strip_AgentEvent e) = strip_AgentEvent e"
  by (simp add: strip_AgentEvent_def)

lemma validate_AgentEvent_again: "validate_AgentEvent e = Inr v \<Longrightarrow> validate_AgentEvent v = Inr v"
  by (auto simp: validate_AgentEvent_Inr_iff)

lemma strip_Approval_idem [simp]: "strip_Approval (strip_Approval a) = strip_Approval a"
  by (simp add: strip_Approval_def)

lemma validate_Approval_again: "validate_Approval a = Inr v \<Longrightarrow> validate_Approval v = Inr v"
  by (auto simp: validate_Approval_def Let_def)

lemma validate_ProposedAction_Inr:
  "validate_ProposedAction E a = Inr v \<Longrightarrow>
     v = strip_ProposedAction a \<and> (\<forall>c \<in> set (checks_ProposedAction E v). fst c)"
  by (auto simp: validate_ProposedAction_def Let_def)

lemma validate_ToolMetadata_Inr:
  "validate_ToolMetadata m = Inr v \<Longrightarrow>
     v = strip_ToolMetadata m \<and> (\<forall>c \<in> set (category_policy v). fst c)"
  by (auto simp: validate_ToolMetadata_def Let_def)

end
