(* ===== verification/Catalog.thy ===== *)
theory Catalog
  imports Contracts
begin

text \<open>
  The tool catalog (\<^verbatim>\<open>src/apps/mcp_server/catalog.py\<close>) and what the orchestrator derives from it
  (\<^verbatim>\<open>src/apps/orchestrator/graph.py\<close>): the registry of \<open>ToolSpec\<close>s, the per-tool timeouts and
  the gate \<open>validate_tool_call\<close> that every tool name and argument dictionary passes before a
  policy check or an execution.
\<close>

section \<open>The catalog\<close>

definition TOOL_VERSION :: string where "TOOL_VERSION = ''1.0.0''"

text \<open>The arguments of one \<open>_meta\<close> call, in the order of the fields.\<close>

definition catalog_meta ::
  "string \<Rightarrow> string \<Rightarrow> ToolCategory \<Rightarrow> SideEffect \<Rightarrow> bool \<Rightarrow> int \<Rightarrow> string list \<Rightarrow> bool \<Rightarrow> bool \<Rightarrow> string
    \<Rightarrow> string \<times> ToolMetadata" where
  "catalog_meta n descr cat se idem tmo scopes appr dry owner =
     (n, \<lparr>tm_name = n, tm_description = descr, tm_category = cat, tm_side_effect = se,
        tm_idempotent = idem, tm_timeout_seconds = tmo, tm_required_scopes = scopes,
        tm_approval_required = appr, tm_supports_dry_run = dry, tm_owner = owner,
        tm_version = TOOL_VERSION\<rparr>)"

definition TOOL_METADATA :: "(string \<times> ToolMetadata) list" where
  "TOOL_METADATA =
   [catalog_meta ''telemetry.query_metrics'' ''Query mock metrics for a service over a time window.''
      READ SE_NONE True 30 [''tools.read''] False False ''telemetry'',
    catalog_meta ''telemetry.query_logs'' ''Query mock logs for a service.''
      READ SE_NONE True 30 [''tools.read''] False False ''telemetry'',
    catalog_meta ''telemetry.get_trace'' ''Get a mock distributed trace by id (read-only).''
      READ SE_NONE True 30 [''tools.read''] False False ''telemetry'',
    catalog_meta ''service.get_health'' ''Get mock health for a service.''
      READ SE_NONE True 15 [''tools.read''] False False ''platform'',
    catalog_meta ''knowledge.search'' ''Search mock knowledge base.''
      READ SE_NONE True 15 [''tools.read''] False False ''knowledge'',
    catalog_meta ''knowledge.get_runbook'' ''Get runbook markdown (UNTRUSTED content).''
      READ SE_NONE True 15 [''tools.read''] False False ''knowledge'',
    catalog_meta ''deployment.get_current_release''
      ''Get mock current release for a service (read-only).''
      READ SE_NONE True 15 [''tools.read''] False False ''deployments'',
    catalog_meta ''remediation.simulate''
      ''Dry-run simulation of a remediation action. Never executes.''
      ANALYSIS SE_NONE True 60 [''tools.read''] False True ''remediation'',
    catalog_meta ''deployment.rollback'' ''Mock rollback. dry_run=true default; never acts locally.''
      WRITE SE_EXTERNAL_WRITE True 60 [''tools.write.deployment.rollback''] True True ''deployments'',
    catalog_meta ''ticket.create'' ''Create a mock ops ticket (propose-only; approval-gated).''
      WRITE SE_EXTERNAL_WRITE False 60 [''tools.write.ticket.create''] True True ''platform'']"

definition WRITE_TOOLS :: "string list" where
  "WRITE_TOOLS = [''deployment.rollback'', ''ticket.create'']"

definition CATALOG_READ_TOOLS :: "string list" where
  "CATALOG_READ_TOOLS = [''telemetry.query_metrics'', ''telemetry.query_logs'', ''telemetry.get_trace'',
     ''service.get_health'', ''knowledge.search'', ''knowledge.get_runbook'',
     ''deployment.get_current_release'']"

definition TOOL_TIMEOUTS :: "(string \<times> pyfloat) list" where
  "TOOL_TIMEOUTS = map (\<lambda>(n, m). (n, rat_of_int (tm_timeout_seconds m))) TOOL_METADATA"

section \<open>The orchestrator's registry\<close>

record ToolSpec =
  ts_name :: string
  ts_category :: ToolCategory
  ts_side_effect :: SideEffect
  ts_idempotent :: bool
  ts_approval_required :: bool
  ts_timeout_seconds :: pyfloat
  ts_version :: string

definition spec_from_catalog :: "ToolMetadata \<Rightarrow> ToolSpec" where
  "spec_from_catalog m = \<lparr>ts_name = tm_name m, ts_category = tm_category m,
     ts_side_effect = tm_side_effect m, ts_idempotent = tm_idempotent m,
     ts_approval_required = tm_approval_required m,
     ts_timeout_seconds = rat_of_int (tm_timeout_seconds m), ts_version = tm_version m\<rparr>"

definition TOOL_REGISTRY :: "(string \<times> ToolSpec) list" where
  "TOOL_REGISTRY = map (\<lambda>(n, m). (n, spec_from_catalog m)) TOOL_METADATA"

definition READ_TOOLS :: "string list" where
  "READ_TOOLS = map fst (filter (\<lambda>(n, s). ts_category s = READ) TOOL_REGISTRY)"

text \<open>\<open>max(TOOL_TIMEOUTS.values())\<close>, 60 for an empty catalog.\<close>

definition MCP_TIMEOUT_SECONDS :: pyfloat where
  "MCP_TIMEOUT_SECONDS =
     (case map snd TOOL_TIMEOUTS of [] \<Rightarrow> 60 | t # ts \<Rightarrow> fold max ts t)"

definition mcp_timeout_for :: "string \<Rightarrow> pyfloat" where
  "mcp_timeout_for t =
     (case map_of TOOL_TIMEOUTS t of None \<Rightarrow> MCP_TIMEOUT_SECONDS | Some x \<Rightarrow> x)"

section \<open>The gate\<close>

text \<open>\<^verbatim>\<open>^[a-z0-9_]+\.[a-z0-9_]+$\<close> with \<open>re.match\<close>: the final \<^verbatim>\<open>$\<close> also accepts a trailing newline.\<close>

definition TOOL_NAME_RE :: rx where
  "TOOL_NAME_RE = rx_seqs [rx_plus (RChr tool_char), RChr (\<lambda>c. c = CHR ''.''),
     rx_plus (RChr tool_char), REnd]"

text \<open>\<^verbatim>\<open>(rm\s+-rf|;\s*cat\s|&&|\|\||`|\$\(|exec\s*\()\<close>, ignoring case.\<close>

definition SHELL_HINT_RE :: rx where
  "SHELL_HINT_RE = rx_alts
     [rx_seqs [rx_ilit ''rm'', rx_plus (RChr is_space), rx_lit ''-'', rx_ilit ''rf''],
      rx_seqs [rx_lit '';'', RStar (RChr is_space), rx_ilit ''cat'', RChr is_space],
      rx_lit ''&&'', rx_lit ''||'', RChr (\<lambda>c. c = CHR 0x60), rx_lit ''$('',
      rx_seqs [rx_ilit ''exec'', RStar (RChr is_space), rx_lit ''(''] ]"

definition validate_tool_call :: "pyenv \<Rightarrow> string \<Rightarrow> pydict \<Rightarrow> ToolSpec presult" where
  "validate_tool_call E tool_name args =
     rbind (check (re_match TOOL_NAME_RE tool_name)
       (ValueError (''tool_name '' @ repr_str tool_name @
          '' is not an allowlisted tool (regex mismatch)''))) (\<lambda>_.
     rbind (check (\<not> (re_search SHELL_HINT_RE tool_name
                     \<or> re_search SHELL_HINT_RE (py_str E (PDict args))))
       (ValueError ''refusing to execute model text as command: shell metacharacters detected''))
       (\<lambda>_.
     case map_of TOOL_REGISTRY tool_name of
       None \<Rightarrow> Inl (ValueError (''tool '' @ repr_str tool_name @ '' is not in the allowlisted registry''))
     | Some spec \<Rightarrow>
         rbind (check (length (json_dumps E (PDict args)) \<le> 32768)
           (ValueError ''tool args exceed 32KB cap'')) (\<lambda>_.
         rbind (check (length args \<le> 50) (ValueError ''tool args exceed 50 keys'')) (\<lambda>_.
         Inr spec))))"

section \<open>Facts about the catalog\<close>

lemmas catalog_defs = TOOL_METADATA_def catalog_meta_def TOOL_VERSION_def

lemma fst_TOOL_REGISTRY: "map fst TOOL_REGISTRY = map fst TOOL_METADATA"
  by (simp add: TOOL_REGISTRY_def split_def)

lemma distinct_TOOL_METADATA: "distinct (map fst TOOL_METADATA)"
  by (simp add: catalog_defs)

lemma catalog_names: "(n, m) \<in> set TOOL_METADATA \<Longrightarrow> tm_name m = n"
  by (auto simp: catalog_defs)

lemma registry_names: "(n, s) \<in> set TOOL_REGISTRY \<Longrightarrow> ts_name s = n"
  by (auto simp: TOOL_REGISTRY_def spec_from_catalog_def dest: catalog_names)

lemma registry_not_destructive:
  "(n, s) \<in> set TOOL_REGISTRY \<Longrightarrow> ts_category s \<noteq> DESTRUCTIVE \<and> ts_side_effect s \<noteq> SE_DESTRUCTIVE"
  by (auto simp: TOOL_REGISTRY_def spec_from_catalog_def catalog_defs)

lemma registry_read_iff: "map_of TOOL_REGISTRY n = Some s \<Longrightarrow> ts_category s = READ \<longleftrightarrow> n \<in> set READ_TOOLS"
proof -
  assume r: "map_of TOOL_REGISTRY n = Some s"
  have d: "distinct (map fst TOOL_REGISTRY)"
    by (simp add: fst_TOOL_REGISTRY distinct_TOOL_METADATA)
  have "n \<in> set READ_TOOLS \<longleftrightarrow> (\<exists>s'. (n, s') \<in> set TOOL_REGISTRY \<and> ts_category s' = READ)"
    by (auto simp: READ_TOOLS_def image_iff split_def)
  also have "\<dots> \<longleftrightarrow> ts_category s = READ"
    using r d by (metis map_of_SomeD map_of_is_SomeI option.inject)
  finally show ?thesis by simp
qed

lemma validate_tool_call_Inr:
  assumes "validate_tool_call E t args = Inr spec"
  shows "map_of TOOL_REGISTRY t = Some spec" and "ts_name spec = t"
    and "\<not> re_search SHELL_HINT_RE (py_str E (PDict args))"
    and "length (json_dumps E (PDict args)) \<le> 32768" and "length args \<le> 50"
proof -
  from assms show reg: "map_of TOOL_REGISTRY t = Some spec"
    by (auto simp: validate_tool_call_def rbind_Inr_iff split: option.splits)
  then show "ts_name spec = t" by (auto dest: map_of_SomeD registry_names)
  from assms show "\<not> re_search SHELL_HINT_RE (py_str E (PDict args))"
    "length (json_dumps E (PDict args)) \<le> 32768" "length args \<le> 50"
    by (auto simp: validate_tool_call_def rbind_Inr_iff split: option.splits)
qed

lemma validate_tool_call_category:
  "validate_tool_call E t args = Inr spec \<Longrightarrow> ts_category spec \<noteq> DESTRUCTIVE"
  by (auto dest!: validate_tool_call_Inr(1) map_of_SomeD registry_not_destructive)

lemmas char_class_defs = tool_char_def is_ascii_lower_def is_ascii_upper_def is_digit_def

text \<open>A catalog name passes the name pattern and holds no shell text.\<close>

lemma TOOL_NAME_RE_pattern: "tool_name_pattern s \<Longrightarrow> re_match TOOL_NAME_RE s"
proof -
  let ?a = "takeWhile tool_char s"
  assume "tool_name_pattern s"
  then obtain t where d: "dropWhile tool_char s = CHR ''.'' # t"
    and a: "?a \<noteq> []" and t: "t \<noteq> []" "list_all tool_char t"
    by (auto simp: tool_name_pattern_def Let_def split: list.splits)
  have "list_all tool_char ?a" by (auto simp: list_all_iff dest: set_takeWhileD)
  with a obtain b1 where 1: "(b1, CHR ''.'' # t) \<in> set (rmatch (rx_plus (RChr tool_char)) (False, s))"
    using rmatch_plus_chr [of tool_char ?a "CHR ''.'' # t" False] d
    by (metis takeWhile_dropWhile_id)
  from t obtain b2 where "(b2, []) \<in> set (rmatch (rx_plus (RChr tool_char)) (is_word (CHR ''.''), t))"
    using rmatch_plus_chr [of tool_char t "[]" "is_word (CHR ''.'')"] by auto
  then have "\<exists>y \<in> set (rmatch (rx_plus (RChr tool_char)) (is_word (CHR ''.''), t)). rmatch REnd y \<noteq> []"
    by (intro bexI [of _ "(b2, [])"]) simp_all
  with 1 show ?thesis
    by (auto simp: re_match_def TOOL_NAME_RE_def simp del: rmatch.simps(6,7) intro!: bexI)
qed

lemma SHELL_HINT_RE_needs:
  "needs (\<lambda>c. \<not> (tool_char c \<or> c = CHR ''.'')) SHELL_HINT_RE"
  by (simp add: SHELL_HINT_RE_def char_class_defs del: rx_ilit.simps rx_lit.simps)

lemma catalog_names_match:
  "list_all (\<lambda>n. re_match TOOL_NAME_RE n \<and> \<not> re_search SHELL_HINT_RE n) (map fst TOOL_METADATA)"
proof -
  have "list_all (\<lambda>n. tool_name_pattern n \<and>
      (\<forall>c \<in> set n. tool_char c \<or> c = CHR ''.'')) (map fst TOOL_METADATA)"
    by (simp add: catalog_defs tool_name_pattern_def char_class_defs)
  then show ?thesis
    unfolding list_all_iff using TOOL_NAME_RE_pattern needs_re_search [OF SHELL_HINT_RE_needs] by blast
qed

lemma validate_tool_call_iff:
  "validate_tool_call E t args = Inr spec \<longleftrightarrow>
     map_of TOOL_REGISTRY t = Some spec \<and> \<not> re_search SHELL_HINT_RE (py_str E (PDict args))
     \<and> length (json_dumps E (PDict args)) \<le> 32768 \<and> length args \<le> 50"
proof
  assume "validate_tool_call E t args = Inr spec"
  then show "map_of TOOL_REGISTRY t = Some spec \<and> \<not> re_search SHELL_HINT_RE (py_str E (PDict args))
     \<and> length (json_dumps E (PDict args)) \<le> 32768 \<and> length args \<le> 50"
    using validate_tool_call_Inr by blast
next
  assume r: "map_of TOOL_REGISTRY t = Some spec \<and> \<not> re_search SHELL_HINT_RE (py_str E (PDict args))
     \<and> length (json_dumps E (PDict args)) \<le> 32768 \<and> length args \<le> 50"
  then have "t \<in> set (map fst TOOL_METADATA)"
    by (metis fst_TOOL_REGISTRY map_of_eq_None_iff not_None_eq set_map)
  with catalog_names_match have "re_match TOOL_NAME_RE t \<and> \<not> re_search SHELL_HINT_RE t"
    unfolding list_all_iff by blast
  with r show "validate_tool_call E t args = Inr spec" by (simp add: validate_tool_call_def)
qed

end
