(* ===== verification/Policies.thy ===== *)
theory Policies
  imports Catalog
begin

text \<open>
  The policy hook (\<^verbatim>\<open>src/apps/orchestrator/policies.py\<close>): the bootstrap rule \<open>evaluate\<close> and the
  contract-typed \<open>evaluate_action\<close>. A contract decision passes the checks of the
  \<open>PolicyDecision\<close> model when it is built, so \<open>evaluate_action\<close> can raise (an over-long
  tenant id, for example); the five branches are in the order of the source.
\<close>

definition POLICY_RULE_VERSION :: string where "POLICY_RULE_VERSION = ''1.0''"

record BootstrapDecision =
  bd_allowed :: bool
  bd_requires_approval :: bool
  bd_reason :: string
  bd_rule_version :: string

text \<open>\<open>evaluate(tool_name, side_effect)\<close>; the side effect is a free string there.\<close>

definition evaluate :: "string \<Rightarrow> string \<Rightarrow> BootstrapDecision" where
  "evaluate tool_name side_effect =
     (if side_effect = ''none'' then \<lparr>bd_allowed = True, bd_requires_approval = False,
        bd_reason = ''read-only tool'', bd_rule_version = POLICY_RULE_VERSION\<rparr>
      else if side_effect = ''destructive'' then \<lparr>bd_allowed = False, bd_requires_approval = False,
        bd_reason = ''destructive tools denied by default'', bd_rule_version = POLICY_RULE_VERSION\<rparr>
      else \<lparr>bd_allowed = True, bd_requires_approval = True,
        bd_reason = tool_name @ '' requires human approval'',
        bd_rule_version = POLICY_RULE_VERSION\<rparr>)"

definition SENIOR_TOOLS :: "string list" where
  "SENIOR_TOOLS = [''deployment.rollback'', ''database.failover'']"

definition DESTRUCTIVE_TOOLS :: "string list" where
  "DESTRUCTIVE_TOOLS = [''deployment.scale_down'', ''database.failover'', ''service.disable'']"

record action_query =
  aq_tool_name :: string
  aq_side_effect :: string
  aq_tenant_id :: "string option"
  aq_resource_tenant_id :: "string option"
  aq_env :: string
  aq_run_id :: "string option"
  aq_trace_id :: "string option"
  aq_correlation_id :: "string option"

text \<open>The decision of a branch before the model's checks.\<close>

definition contract_decision ::
  "action_query \<Rightarrow> bool \<Rightarrow> bool \<Rightarrow> string \<Rightarrow> string list \<Rightarrow> PolicyDecision" where
  "contract_decision q allowed approval reason scopes = \<lparr>pd_rule_version = POLICY_RULE_VERSION,
     pd_allowed = allowed, pd_requires_approval = approval, pd_reason = reason,
     pd_required_scopes = scopes, pd_max_impact = None, pd_tenant_id = aq_tenant_id q,
     pd_run_id = aq_run_id q, pd_trace_id = aq_trace_id q,
     pd_correlation_id = aq_correlation_id q\<rparr>"

definition evaluate_action :: "action_query \<Rightarrow> PolicyDecision presult" where
  "evaluate_action q = validate_PolicyDecision
     (if aq_tenant_id q \<noteq> None \<and> aq_resource_tenant_id q \<noteq> None
         \<and> aq_tenant_id q \<noteq> aq_resource_tenant_id q then
        contract_decision q False False ''tenant mismatch -> deny'' []
      else if aq_side_effect q = ''destructive'' \<or> aq_tool_name q \<in> set DESTRUCTIVE_TOOLS then
        contract_decision q False False ''destructive tools denied by default'' []
      else if aq_side_effect q = ''none'' then
        contract_decision q True False ''read-only tool auto-allowed'' []
      else if aq_tool_name q \<in> set SENIOR_TOOLS \<and> aq_env q = ''prod'' then
        contract_decision q True True
          (aq_tool_name q @ '' in prod requires senior-operator approval'')
          [''case.approve'', ''senior-operator'']
      else
        contract_decision q True True (aq_tool_name q @ '' requires human approval'')
          [''case.approve''])"

section \<open>Facts\<close>

lemma validate_PolicyDecision_fields:
  assumes "validate_PolicyDecision p = Inr d"
  shows "pd_allowed d = pd_allowed p" "pd_requires_approval d = pd_requires_approval p"
    "pd_required_scopes d = map strip (pd_required_scopes p)"
    "pd_reason d = strip (pd_reason p)"
    "pd_allowed d \<or> \<not> pd_requires_approval d"
  using assms by (auto simp: validate_PolicyDecision_def Let_def)

lemma contract_decision_sel [simp]:
  "pd_allowed (contract_decision q a r s sc) = a"
  "pd_requires_approval (contract_decision q a r s sc) = r"
  "pd_required_scopes (contract_decision q a r s sc) = sc"
  "pd_reason (contract_decision q a r s sc) = s"
  by (simp_all add: contract_decision_def)

lemma strip_scope [simp]:
  "strip ''case.approve'' = ''case.approve''" "strip ''senior-operator'' = ''senior-operator''"
  by (simp_all add: strip_def is_space_def)

definition tenant_mismatch :: "action_query \<Rightarrow> bool" where
  "tenant_mismatch q = (aq_tenant_id q \<noteq> None \<and> aq_resource_tenant_id q \<noteq> None
     \<and> aq_tenant_id q \<noteq> aq_resource_tenant_id q)"

definition destructive_query :: "action_query \<Rightarrow> bool" where
  "destructive_query q =
     (aq_side_effect q = ''destructive'' \<or> aq_tool_name q \<in> set DESTRUCTIVE_TOOLS)"

lemma evaluate_action_allowed_iff:
  assumes "evaluate_action q = Inr d"
  shows "pd_allowed d \<longleftrightarrow> \<not> tenant_mismatch q \<and> \<not> destructive_query q"
  using assms
  by (auto simp: evaluate_action_def tenant_mismatch_def destructive_query_def
      dest: validate_PolicyDecision_fields(1) split: if_splits)

lemma evaluate_action_approval_iff:
  assumes "evaluate_action q = Inr d"
  shows "pd_requires_approval d \<longleftrightarrow>
     \<not> tenant_mismatch q \<and> \<not> destructive_query q \<and> aq_side_effect q \<noteq> ''none''"
  using assms
  by (auto simp: evaluate_action_def tenant_mismatch_def destructive_query_def
      dest: validate_PolicyDecision_fields(2) split: if_splits)

lemma evaluate_action_scopes:
  assumes "evaluate_action q = Inr d"
  shows "pd_required_scopes d =
     (if \<not> pd_requires_approval d then []
      else if aq_tool_name q \<in> set SENIOR_TOOLS \<and> aq_env q = ''prod''
        then [''case.approve'', ''senior-operator''] else [''case.approve''])"
  using assms
  by (auto simp: evaluate_action_def dest: validate_PolicyDecision_fields split: if_splits)

text \<open>The two rules agree wherever the contract one does not see a tenant mismatch or a
  destructive tool name.\<close>

lemma evaluate_agrees:
  assumes "evaluate_action q = Inr d" and "\<not> tenant_mismatch q"
    and "aq_tool_name q \<notin> set DESTRUCTIVE_TOOLS"
  shows "bd_allowed (evaluate (aq_tool_name q) (aq_side_effect q)) = pd_allowed d"
    and "bd_requires_approval (evaluate (aq_tool_name q) (aq_side_effect q)) = pd_requires_approval d"
  using assms(2,3) evaluate_action_allowed_iff [OF assms(1)] evaluate_action_approval_iff [OF assms(1)]
  by (auto simp: evaluate_def destructive_query_def)

end
