(* ===== verification/ExcState.thy ===== *)
theory ExcState
  imports PyBase
begin

text \<open>
  Code with mutable state and exceptions: a computation takes the state and gives a result or
  an exception together with the state reached, so that what was written before an exception
  stays written, as in Python. Two ways to reason about it: triples with a postcondition for
  each way of ending, and relations between the first and the last state that are closed under
  the combinators (a locale, interpreted for each relation the components need).
\<close>

type_synonym ('s, 'a) em = "'s \<Rightarrow> 'a presult \<times> 's"

section \<open>Combinators\<close>

definition eret :: "'a \<Rightarrow> ('s, 'a) em" where
  "eret x = (\<lambda>s. (Inr x, s))"

definition eraise :: "pyexc \<Rightarrow> ('s, 'a) em" where
  "eraise e = (\<lambda>s. (Inl e, s))"

definition ebind :: "('s, 'a) em \<Rightarrow> ('a \<Rightarrow> ('s, 'b) em) \<Rightarrow> ('s, 'b) em" where
  "ebind m f = (\<lambda>s. case m s of (Inl e, t) \<Rightarrow> (Inl e, t) | (Inr x, t) \<Rightarrow> f x t)"

definition ethen :: "('s, 'a) em \<Rightarrow> ('s, 'b) em \<Rightarrow> ('s, 'b) em" where
  "ethen m n = ebind m (\<lambda>_. n)"

text \<open>\<open>try: m except: h\<close>; a handler that does not catch raises the exception again.\<close>

definition etry :: "('s, 'a) em \<Rightarrow> (pyexc \<Rightarrow> ('s, 'a) em) \<Rightarrow> ('s, 'a) em" where
  "etry m h = (\<lambda>s. case m s of (Inl e, t) \<Rightarrow> h e t | (Inr x, t) \<Rightarrow> (Inr x, t))"

definition eget :: "('s \<Rightarrow> 'a) \<Rightarrow> ('s, 'a) em" where
  "eget f = (\<lambda>s. (Inr (f s), s))"

definition emod :: "('s \<Rightarrow> 's) \<Rightarrow> ('s, unit) em" where
  "emod f = (\<lambda>s. (Inr (), f s))"

definition elift :: "'a presult \<Rightarrow> ('s, 'a) em" where
  "elift r = (\<lambda>s. (r, s))"

definition ewhen :: "bool \<Rightarrow> ('s, unit) em \<Rightarrow> ('s, unit) em" where
  "ewhen c m = (if c then m else eret ())"

fun efor :: "'b list \<Rightarrow> ('b \<Rightarrow> ('s, unit) em) \<Rightarrow> ('s, unit) em" where
  "efor [] f = eret ()"
| "efor (x # xs) f = ethen (f x) (efor xs f)"

lemmas em_defs [py_defs] =
  eret_def eraise_def ebind_def ethen_def etry_def eget_def emod_def elift_def ewhen_def

lemma ebind_ret [simp]: "ebind (eret x) f = f x"
  by (simp add: ebind_def eret_def)

lemma ebind_raise [simp]: "ebind (eraise e) f = eraise e"
  by (simp add: ebind_def eraise_def)

lemma ebind_assoc: "ebind (ebind m f) g = ebind m (\<lambda>x. ebind (f x) g)"
  by (auto simp: ebind_def fun_eq_iff split: prod.splits sum.splits)

text \<open>Running a computation on a state, one combinator at a time.\<close>

lemma run_ret: "eret x s = (Inr x, s)" by (simp add: eret_def)
lemma run_raise: "eraise e s = (Inl e, s)" by (simp add: eraise_def)
lemma run_get: "eget f s = (Inr (f s), s)" by (simp add: eget_def)
lemma run_mod: "emod f s = (Inr (), f s)" by (simp add: emod_def)
lemma run_lift: "elift r s = (r, s)" by (simp add: elift_def)

lemma run_bind:
  "ebind m f s = (case m s of (Inl e, t) \<Rightarrow> (Inl e, t) | (Inr x, t) \<Rightarrow> f x t)"
  by (simp add: ebind_def)

lemma run_then:
  "ethen m n s = (case m s of (Inl e, t) \<Rightarrow> (Inl e, t) | (Inr x, t) \<Rightarrow> n t)"
  by (simp add: ethen_def ebind_def)

lemma run_try:
  "etry m h s = (case m s of (Inl e, t) \<Rightarrow> h e t | (Inr x, t) \<Rightarrow> (Inr x, t))"
  by (simp add: etry_def)

lemmas run_simps = run_ret run_raise run_get run_mod run_lift run_bind run_then run_try

text \<open>How a computation that returned got there.\<close>

lemma bind_okE:
  assumes "ebind m f s = (Inr y, u)"
  obtains x t where "m s = (Inr x, t)" "f x t = (Inr y, u)"
  using assms by (auto simp: ebind_def split: prod.splits sum.splits)

lemma then_okE:
  assumes "ethen m n s = (Inr y, u)"
  obtains x t where "m s = (Inr x, t)" "n t = (Inr y, u)"
  using assms unfolding ethen_def by (rule bind_okE)

lemma lift_ok: "elift r s = (Inr y, u) \<longleftrightarrow> r = Inr y \<and> u = s"
  by (auto simp: elift_def)

lemma get_ok: "eget f s = (Inr y, u) \<longleftrightarrow> y = f s \<and> u = s"
  by (auto simp: eget_def)

lemma ret_ok: "eret x s = (Inr y, u) \<longleftrightarrow> y = x \<and> u = s"
  by (auto simp: eret_def)

lemma raise_ok: "eraise e s = (Inr y, u) \<longleftrightarrow> False"
  by (simp add: eraise_def)

lemmas ok_simps = lift_ok get_ok ret_ok raise_ok

section \<open>Triples\<close>

definition triple ::
  "('s \<Rightarrow> bool) \<Rightarrow> ('s, 'a) em \<Rightarrow> ('a \<Rightarrow> 's \<Rightarrow> bool) \<Rightarrow> (pyexc \<Rightarrow> 's \<Rightarrow> bool) \<Rightarrow> bool" where
  "triple P m Q X \<longleftrightarrow>
     (\<forall>s. P s \<longrightarrow> (case m s of (Inl e, t) \<Rightarrow> X e t | (Inr x, t) \<Rightarrow> Q x t))"

named_theorems triple_rules \<open>syntax-directed rules for triples\<close>

lemma tripleI:
  "(\<And>s x t. P s \<Longrightarrow> m s = (Inr x, t) \<Longrightarrow> Q x t) \<Longrightarrow>
   (\<And>s e t. P s \<Longrightarrow> m s = (Inl e, t) \<Longrightarrow> X e t) \<Longrightarrow> triple P m Q X"
  by (auto simp: triple_def split: prod.splits sum.splits)

lemma tripleD_ok: "triple P m Q X \<Longrightarrow> P s \<Longrightarrow> m s = (Inr x, t) \<Longrightarrow> Q x t"
  by (force simp: triple_def)

lemma tripleD_exc: "triple P m Q X \<Longrightarrow> P s \<Longrightarrow> m s = (Inl e, t) \<Longrightarrow> X e t"
  by (force simp: triple_def)

lemma triple_conseq:
  assumes "triple P m Q X" and "\<And>s. P' s \<Longrightarrow> P s"
    and "\<And>x s. Q x s \<Longrightarrow> Q' x s" and "\<And>e s. X e s \<Longrightarrow> X' e s"
  shows "triple P' m Q' X'"
  using assms by (fastforce simp: triple_def split: prod.splits sum.splits)

lemma triple_pre: "triple P m Q X \<Longrightarrow> (\<And>s. P' s \<Longrightarrow> P s) \<Longrightarrow> triple P' m Q X"
  by (rule triple_conseq)

lemma triple_ret [triple_rules]: "triple (\<lambda>s. Q x s) (eret x) Q X"
  by (simp add: triple_def eret_def)

lemma triple_raise [triple_rules]: "triple (\<lambda>s. X e s) (eraise e) Q X"
  by (simp add: triple_def eraise_def)

lemma triple_get [triple_rules]: "triple (\<lambda>s. Q (f s) s) (eget f) Q X"
  by (simp add: triple_def eget_def)

lemma triple_mod [triple_rules]: "triple (\<lambda>s. Q () (f s)) (emod f) Q X"
  by (simp add: triple_def emod_def)

lemma triple_lift [triple_rules]:
  "triple (\<lambda>s. case r of Inl e \<Rightarrow> X e s | Inr x \<Rightarrow> Q x s) (elift r) Q X"
  by (simp add: triple_def elift_def split: sum.splits)

lemma triple_bind [triple_rules]:
  assumes "\<And>x. triple (R x) (f x) Q X" and "triple P m R X"
  shows "triple P (ebind m f) Q X"
  using assms by (fastforce simp: triple_def ebind_def split: prod.splits sum.splits)

lemma triple_then [triple_rules]:
  assumes "triple R n Q X" and "triple P m (\<lambda>_. R) X"
  shows "triple P (ethen m n) Q X"
  unfolding ethen_def using assms by (rule triple_bind)

lemma triple_try [triple_rules]:
  assumes "\<And>e. triple (R e) (h e) Q X" and "triple P m Q R"
  shows "triple P (etry m h) Q X"
  using assms by (fastforce simp: triple_def etry_def split: prod.splits sum.splits)

lemma triple_if [triple_rules]:
  assumes "c \<Longrightarrow> triple P m Q X" and "\<not> c \<Longrightarrow> triple P' n Q X"
  shows "triple (\<lambda>s. if c then P s else P' s) (if c then m else n) Q X"
  using assms by (cases c) auto

lemma triple_when [triple_rules]:
  assumes "c \<Longrightarrow> triple P m Q X"
  shows "triple (\<lambda>s. if c then P s else Q () s) (ewhen c m) Q X"
  using assms by (cases c) (auto simp: ewhen_def triple_ret)

lemma triple_for:
  assumes "\<And>x. x \<in> set xs \<Longrightarrow> triple I (f x) (\<lambda>_. I) X"
  shows "triple I (efor xs f) (\<lambda>_. I) X"
  using assms by (induction xs) (auto intro!: triple_rules intro: triple_conseq [OF triple_ret])

lemma triple_top: "triple P m (\<lambda>_ _. True) (\<lambda>_ _. True)"
  by (simp add: triple_def split: prod.splits sum.splits)

lemma triple_and:
  "triple P m Q X \<Longrightarrow> triple P' m Q' X' \<Longrightarrow>
   triple (\<lambda>s. P s \<and> P' s) m (\<lambda>x s. Q x s \<and> Q' x s) (\<lambda>e s. X e s \<and> X' e s)"
  by (fastforce simp: triple_def split: prod.splits sum.splits)

section \<open>Relations between the first and the last state\<close>

definition obeys :: "('s \<Rightarrow> 's \<Rightarrow> bool) \<Rightarrow> ('s, 'a) em \<Rightarrow> bool" where
  "obeys R m \<longleftrightarrow> (\<forall>s. R s (snd (m s)))"

lemma obeysI: "(\<And>s. R s (snd (m s))) \<Longrightarrow> obeys R m"
  by (simp add: obeys_def)

lemma obeysD: "obeys R m \<Longrightarrow> R s (snd (m s))"
  by (simp add: obeys_def)

lemma obeys_eq: "obeys R m \<Longrightarrow> m s = (r, t) \<Longrightarrow> R s t"
  by (metis obeysD snd_conv)

lemma obeys_if: "(c \<Longrightarrow> obeys R m) \<Longrightarrow> (\<not> c \<Longrightarrow> obeys R n) \<Longrightarrow> obeys R (if c then m else n)"
  by simp

lemma obeys_case_option:
  "(x = None \<Longrightarrow> obeys R m) \<Longrightarrow> (\<And>y. x = Some y \<Longrightarrow> obeys R (f y)) \<Longrightarrow>
   obeys R (case x of None \<Rightarrow> m | Some y \<Rightarrow> f y)"
  by (cases x) auto

lemma obeys_case_sum:
  "(\<And>y. x = Inl y \<Longrightarrow> obeys R (f y)) \<Longrightarrow> (\<And>y. x = Inr y \<Longrightarrow> obeys R (g y)) \<Longrightarrow>
   obeys R (case x of Inl y \<Rightarrow> f y | Inr y \<Rightarrow> g y)"
  by (cases x) auto

lemma obeys_case_prod:
  "(\<And>a b. x = (a, b) \<Longrightarrow> obeys R (f a b)) \<Longrightarrow> obeys R (case x of (a, b) \<Rightarrow> f a b)"
  by (cases x) auto

lemma obeys_let: "obeys R (f x) \<Longrightarrow> obeys R (let y = x in f y)"
  by simp

text \<open>
  What a preorder on states gives: every computation built by the combinators from steps that
  obey it obeys it. The clients instantiate it with "the call trace only grows, and by
  harmless calls", "consumption never decreases", and the like.
\<close>

locale step_relation =
  fixes R :: "'s \<Rightarrow> 's \<Rightarrow> bool"
  assumes R_refl: "R s s"
    and R_trans: "R s t \<Longrightarrow> R t u \<Longrightarrow> R s u"
begin

lemma obeys_ret: "obeys R (eret x)"
  by (simp add: obeys_def eret_def R_refl)

lemma obeys_raise: "obeys R (eraise e)"
  by (simp add: obeys_def eraise_def R_refl)

lemma obeys_get: "obeys R (eget f)"
  by (simp add: obeys_def eget_def R_refl)

lemma obeys_lift: "obeys R (elift r)"
  by (simp add: obeys_def elift_def R_refl)

lemma obeys_mod: "(\<And>s. R s (f s)) \<Longrightarrow> obeys R (emod f)"
  by (simp add: obeys_def emod_def)

lemma obeys_bind:
  assumes m: "obeys R m" and f: "\<And>x. obeys R (f x)"
  shows "obeys R (ebind m f)"
proof (rule obeysI)
  fix s
  obtain r t where mt: "m s = (r, t)" by (cases "m s")
  with m have st: "R s t" by (rule obeys_eq)
  show "R s (snd (ebind m f s))"
  proof (cases r)
    case Inl
    with mt st show ?thesis by (simp add: ebind_def)
  next
    case (Inr x)
    from f have "R t (snd (f x t))" by (rule obeysD)
    with st have "R s (snd (f x t))" by (rule R_trans)
    with mt Inr show ?thesis by (simp add: ebind_def)
  qed
qed

lemma obeys_then: "obeys R m \<Longrightarrow> obeys R n \<Longrightarrow> obeys R (ethen m n)"
  unfolding ethen_def by (rule obeys_bind)

lemma obeys_try:
  assumes m: "obeys R m" and h: "\<And>e. obeys R (h e)"
  shows "obeys R (etry m h)"
proof (rule obeysI)
  fix s
  obtain r t where mt: "m s = (r, t)" by (cases "m s")
  with m have st: "R s t" by (rule obeys_eq)
  show "R s (snd (etry m h s))"
  proof (cases r)
    case (Inl e)
    from h have "R t (snd (h e t))" by (rule obeysD)
    with st have "R s (snd (h e t))" by (rule R_trans)
    with mt Inl show ?thesis by (simp add: etry_def)
  next
    case (Inr x)
    with mt st show ?thesis by (simp add: etry_def)
  qed
qed

lemma obeys_when: "obeys R m \<Longrightarrow> obeys R (ewhen c m)"
  by (simp add: ewhen_def obeys_ret)

lemma obeys_for: "(\<And>x. x \<in> set xs \<Longrightarrow> obeys R (f x)) \<Longrightarrow> obeys R (efor xs f)"
  by (induction xs) (auto intro: obeys_ret obeys_then)

text \<open>The relation to a fixed first state, as a triple and back.\<close>

lemma obeys_triple: "obeys R m \<Longrightarrow> triple (R u) m (\<lambda>_. R u) (\<lambda>_. R u)"
  by (rule tripleI) (blast dest: obeys_eq intro: R_trans)+

lemma triple_obeys: "(\<And>u. triple (R u) m (\<lambda>_. R u) (\<lambda>_. R u)) \<Longrightarrow> obeys R m"
proof (rule obeysI)
  fix s
  assume "\<And>u. triple (R u) m (\<lambda>_. R u) (\<lambda>_. R u)"
  from this [of s] show "R s (snd (m s))"
    by (cases "m s"; cases "fst (m s)") (use R_refl tripleD_ok tripleD_exc in fastforce)+
qed

lemmas obeys_intros =
  obeys_ret obeys_raise obeys_get obeys_lift obeys_bind obeys_then obeys_try obeys_when
  obeys_for obeys_if obeys_case_option obeys_case_sum obeys_case_prod obeys_let

end

end
