(* ===== verification/RunState.thy ===== *)
theory RunState
  imports Policies ExcState
begin

text \<open>
  The durable state of a run (\<^verbatim>\<open>src/apps/orchestrator/state.py\<close>), the circuit breaker and the
  pure utilities of \<^verbatim>\<open>src/apps/orchestrator/graph.py\<close>: redaction, error text, the checks on
  what a tool or the specialist returned. The dictionaries that the workflow builds with fixed
  keys (findings, proposed actions, approvals) are records; the ones that come from a client
  (classification, evidence, the specialist's result) stay dictionaries.
\<close>

section \<open>State\<close>

text \<open>The states of \<open>STATES\<close>; any other text in the field is \<open>OtherState\<close>.\<close>

datatype wf_state =
    Classify | Plan | Resources | McpReads | A2aDelegate | Correlate | Findings | Propose | Policy
  | ApprovalPause | ExecuteApproved | Verify | Complete | OtherState string

fun wf_name :: "wf_state \<Rightarrow> string" where
  "wf_name Classify = ''classify''"
| "wf_name Plan = ''plan''"
| "wf_name Resources = ''resources''"
| "wf_name McpReads = ''mcp_reads''"
| "wf_name A2aDelegate = ''a2a_delegate''"
| "wf_name Correlate = ''correlate''"
| "wf_name Findings = ''findings''"
| "wf_name Propose = ''propose''"
| "wf_name Policy = ''policy''"
| "wf_name ApprovalPause = ''approval_pause''"
| "wf_name ExecuteApproved = ''execute_approved''"
| "wf_name Verify = ''verify''"
| "wf_name Complete = ''complete''"
| "wf_name (OtherState s) = s"

definition STATES :: "wf_state list" where
  "STATES = [Classify, Plan, Resources, McpReads, A2aDelegate, Correlate, Findings, Propose, Policy,
     ApprovalPause, ExecuteApproved, Verify, Complete]"

definition describe :: string where
  "describe = join '' -> '' (map wf_name STATES)"

record BudgetLimits =
  max_model_calls :: int
  max_tool_calls :: int
  max_delegations :: int
  max_duration_seconds :: pyfloat
  max_cost_usd :: pyfloat
  max_input_tokens :: int
  max_output_tokens :: int
  max_delegation_depth :: int

definition default_limits :: BudgetLimits where
  "default_limits = \<lparr>max_model_calls = 10, max_tool_calls = 20, max_delegations = 3,
     max_duration_seconds = 600, max_cost_usd = 2, max_input_tokens = 60000,
     max_output_tokens = 20000, max_delegation_depth = 3\<rparr>"

record BudgetUsage =
  model_calls :: int
  tool_calls :: int
  delegations :: int
  cost_usd :: pyfloat
  input_tokens :: int
  output_tokens :: int
  delegation_depth :: int

definition zero_usage :: BudgetUsage where
  "zero_usage = \<lparr>model_calls = 0, tool_calls = 0, delegations = 0, cost_usd = 0, input_tokens = 0,
     output_tokens = 0, delegation_depth = 0\<rparr>"

text \<open>A finding as \<open>_do_findings\<close> builds it.\<close>

record wf_finding =
  wf_finding_id :: string
  wf_f_run_id :: string
  wf_f_tenant_id :: string
  wf_title :: string
  wf_summary :: string
  wf_evidence_refs :: "string list"
  wf_confidence :: pyfloat
  wf_severity :: string

definition finding_dict :: "wf_finding \<Rightarrow> pydict" where
  "finding_dict f = [(''schema_version'', PStr ''1.0''), (''finding_id'', PStr (wf_finding_id f)),
     (''run_id'', PStr (wf_f_run_id f)), (''tenant_id'', PStr (wf_f_tenant_id f)),
     (''title'', PStr (wf_title f)), (''summary'', PStr (wf_summary f)),
     (''evidence_refs'', PList (map PStr (wf_evidence_refs f))),
     (''confidence'', PFloat (wf_confidence f)), (''severity'', PStr (wf_severity f))]"

text \<open>An approval row as \<open>_do_approval_pause\<close> builds it; \<open>approver\<close> and \<open>reason\<close> are keys
  only once a decision is recorded.\<close>

record wf_approval =
  wa_approval_id :: string
  wa_run_id :: string
  wa_tenant_id :: string
  wa_action_id :: string
  wa_requested_by :: string
  wa_decision :: string
  wa_requested_at :: string
  wa_decided_by :: "(string \<times> string option) option"

definition opt_str :: "string option \<Rightarrow> pyval" where
  "opt_str s = (case s of None \<Rightarrow> PNone | Some t \<Rightarrow> PStr t)"

definition approval_dict :: "wf_approval \<Rightarrow> pydict" where
  "approval_dict a = [(''schema_version'', PStr ''1.0''), (''approval_id'', PStr (wa_approval_id a)),
     (''run_id'', PStr (wa_run_id a)), (''tenant_id'', PStr (wa_tenant_id a)),
     (''action_id'', PStr (wa_action_id a)), (''requested_by'', PStr (wa_requested_by a)),
     (''decision'', PStr (wa_decision a)), (''requested_at'', PStr (wa_requested_at a))] @
     (case wa_decided_by a of None \<Rightarrow> []
      | Some (who, why) \<Rightarrow> [(''approver'', PStr who), (''reason'', opt_str why)])"

text \<open>\<open>ProposedAction.model_dump(mode="json")\<close>.\<close>

definition action_dict :: "ProposedAction \<Rightarrow> pydict" where
  "action_dict a = [(''schema_version'', PStr ''1.0''), (''action_id'', PStr (pa_action_id a)),
     (''run_id'', opt_str (pa_run_id a)), (''tenant_id'', opt_str (pa_tenant_id a)),
     (''tool_name'', PStr (pa_tool_name a)), (''reason'', PStr (pa_reason a)),
     (''input'', PDict (pa_input a)), (''risk'', PStr (RiskLevel_value (pa_risk a))),
     (''requires_approval'', PBool (pa_requires_approval a)), (''rollback'', opt_str (pa_rollback a)),
     (''dry_run'', PBool (pa_dry_run a)), (''idempotency_key'', PStr (pa_idempotency_key a)),
     (''trace_id'', opt_str (pa_trace_id a)), (''correlation_id'', opt_str (pa_correlation_id a))]"

record RunState =
  st_run_id :: string
  st_tenant_id :: string
  st_objective :: string
  st_context :: pydict
  st_status :: RunStatus
  st_current :: wf_state
  st_limits :: BudgetLimits
  st_usage :: BudgetUsage
  st_started_at :: datetime
  st_trace_id :: "string option"
  st_correlation_id :: "string option"
  st_classification :: pydict
  st_plan :: "string list"
  st_resources :: pydict
  st_mcp_evidence :: "pydict list"
  st_a2a_result :: "pydict option"
  st_a2a_fallback :: bool
  st_findings :: "wf_finding list"
  st_proposed_actions :: "ProposedAction list"
  st_policy_decisions :: "pydict list"
  st_approvals :: "wf_approval list"
  st_unresolved :: "string list"
  st_outcome :: "string option"
  st_error :: "pydict option"
  st_conflict :: "string option"
  st_event_sequence :: int
  st_cancelled :: bool
  st_correlation_note :: "pydict option"
  st_result :: "pydict option"

text \<open>\<open>RunState(run_id=..., tenant_id=..., ...)\<close> with the defaults of the dataclass.\<close>

definition new_RunState :: "string \<Rightarrow> string \<Rightarrow> string \<Rightarrow> pydict \<Rightarrow> datetime \<Rightarrow> RunState" where
  "new_RunState run tenant objective ctx now = \<lparr>st_run_id = run, st_tenant_id = tenant,
     st_objective = objective, st_context = ctx, st_status = CREATED, st_current = Classify,
     st_limits = default_limits, st_usage = zero_usage, st_started_at = now, st_trace_id = None,
     st_correlation_id = None, st_classification = [], st_plan = [], st_resources = [],
     st_mcp_evidence = [], st_a2a_result = None, st_a2a_fallback = False, st_findings = [],
     st_proposed_actions = [], st_policy_decisions = [], st_approvals = [], st_unresolved = [],
     st_outcome = None, st_error = None, st_conflict = None, st_event_sequence = 0,
     st_cancelled = False, st_correlation_note = None, st_result = None\<rparr>"

section \<open>Circuit breaker\<close>

record CircuitBreaker =
  cb_threshold :: int
  cb_failures :: "(string \<times> int) list"
  cb_opened :: "string list"

definition CIRCUIT_BREAKER_THRESHOLD :: int where "CIRCUIT_BREAKER_THRESHOLD = 3"

definition new_breaker :: CircuitBreaker where
  "new_breaker = \<lparr>cb_threshold = CIRCUIT_BREAKER_THRESHOLD, cb_failures = [], cb_opened = []\<rparr>"

abbreviation CircuitOpenError :: "string \<Rightarrow> pyexc" where
  "CircuitOpenError m \<equiv> PyExc ECircuitOpen ''CircuitOpenError'' m []"

abbreviation RunCancelledError :: "string \<Rightarrow> pyexc" where
  "RunCancelledError m \<equiv> PyExc ERunCancelled ''RunCancelledError'' m []"

abbreviation BudgetExceededError :: "string \<Rightarrow> string \<Rightarrow> pyexc" where
  "BudgetExceededError m b \<equiv> PyExc EBudgetExceeded ''BudgetExceededError'' m b"

abbreviation TimeoutError :: "string \<Rightarrow> pyexc" where
  "TimeoutError m \<equiv> PyExc ETimeout ''TimeoutError'' m []"

definition breaker_guard :: "CircuitBreaker \<Rightarrow> string \<Rightarrow> unit presult" where
  "breaker_guard b key =
     check (key \<notin> set (cb_opened b)) (CircuitOpenError (''circuit open for '' @ key))"

definition record_success :: "string \<Rightarrow> CircuitBreaker \<Rightarrow> CircuitBreaker" where
  "record_success key b = b\<lparr>cb_failures := AList.update key 0 (cb_failures b),
     cb_opened := removeAll key (cb_opened b)\<rparr>"

definition record_failure :: "string \<Rightarrow> CircuitBreaker \<Rightarrow> CircuitBreaker" where
  "record_failure key b =
     (let n = (case map_of (cb_failures b) key of None \<Rightarrow> 0 | Some k \<Rightarrow> k) + 1
      in b\<lparr>cb_failures := AList.update key n (cb_failures b),
           cb_opened := (if cb_threshold b \<le> n then List.insert key (cb_opened b)
                         else cb_opened b)\<rparr>)"

section \<open>Small utilities\<close>

definition secret_keys :: "string list" where
  "secret_keys = [''secret'', ''token'', ''password'', ''api_key'', ''apikey'', ''bearer'']"

definition redact :: "pydict \<Rightarrow> pydict" where
  "redact args = map (\<lambda>(k, v).
     if list_ex (\<lambda>s. str_in s (lower k)) secret_keys then (k, PStr ''[redacted]'') else (k, v)) args"

text \<open>\<^verbatim>\<open>(?i)(bearer\s+\S+|api_key\s*=\s*\S+|client_secret\s*=\s*\S+)\<close>\<close>

definition SAFE_ERROR_RE :: rx where
  "SAFE_ERROR_RE = (let sp = RChr is_space; word = rx_plus (RChr (\<lambda>c. \<not> is_space c)) in rx_alts
     [rx_seqs [rx_ilit ''bearer'', rx_plus sp, word],
      rx_seqs [rx_ilit ''api_key'', RStar sp, rx_lit ''='', RStar sp, word],
      rx_seqs [rx_ilit ''client_secret'', RStar sp, rx_lit ''='', RStar sp, word]])"

definition safe_error :: "pyexc option \<Rightarrow> string" where
  "safe_error exc = (case exc of None \<Rightarrow> ''unknown error''
     | Some e \<Rightarrow> (let cut = take 500 (exc_msg e); msg = (if cut = [] then exc_name e else cut)
                  in re_sub SAFE_ERROR_RE ''[redacted]'' msg))"

definition reject_malformed :: "pyenv \<Rightarrow> string \<Rightarrow> pyval \<Rightarrow> pydict presult" where
  "reject_malformed E tool_name out =
     (case out of
        PDict d \<Rightarrow>
          rbind (check (length d \<le> 128)
            (ValueError (''tool '' @ tool_name @ '' returned oversize result''))) (\<lambda>_.
          rbind (check (length (json_dumps E (PDict d)) \<le> 65536)
            (ValueError (''tool '' @ tool_name @ '' returned oversize result''))) (\<lambda>_. Inr d))
      | _ \<Rightarrow> Inl (ValueError (''tool '' @ tool_name @ '' returned malformed (non-dict) result'')))"

definition valid_a2a_finding :: "pyenv \<Rightarrow> pyval \<Rightarrow> bool" where
  "valid_a2a_finding E f =
     (case f of
        PDict d \<Rightarrow>
          truthy (dget_none d ''title'') \<and> truthy (dget_none d ''summary'')
          \<and> (case dget_none d ''evidence_refs'' of PList refs \<Rightarrow> refs \<noteq> [] | _ \<Rightarrow> False)
          \<and> (case py_float E (dget_or d ''confidence'' (PInt (- 1))) of
               Inl _ \<Rightarrow> False | Inr c \<Rightarrow> 0 \<le> c \<and> c \<le> 1)
      | _ \<Rightarrow> False)"

definition valid_a2a_output :: "pyenv \<Rightarrow> pyval \<Rightarrow> bool" where
  "valid_a2a_output E out =
     (case out of
        PDict d \<Rightarrow> (case dget_none d ''findings'' of
            PList fs \<Rightarrow> list_all (valid_a2a_finding E) fs | _ \<Rightarrow> False)
      | _ \<Rightarrow> False)"

text \<open>The confidences that \<open>float()\<close> accepts; \<open>f.get\<close> raises on a finding that is no dictionary.\<close>

fun conf_vals :: "pyenv \<Rightarrow> pyval list \<Rightarrow> pyfloat list presult" where
  "conf_vals E [] = Inr []"
| "conf_vals E (f # fs) = rbind (py_get f ''confidence'' (PFloat 0)) (\<lambda>c.
     rbind (conf_vals E fs) (\<lambda>vs.
       Inr (case py_float E c of Inl _ \<Rightarrow> vs | Inr x \<Rightarrow> x # vs)))"

definition avg_conf :: "pyenv \<Rightarrow> pyval list \<Rightarrow> pyfloat presult" where
  "avg_conf E fs = rbind (conf_vals E fs) (\<lambda>vs.
     Inr (if vs = [] then 0 else sum_list vs / of_nat (length vs)))"

definition find_evidence :: "RunState \<Rightarrow> string \<Rightarrow> pydict option" where
  "find_evidence st tool = List.find (\<lambda>e. dget_none e ''tool'' = PStr tool) (st_mcp_evidence st)"

definition deploy_state_text :: "pyenv \<Rightarrow> RunState \<Rightarrow> pyval" where
  "deploy_state_text E st =
     (case find_evidence st ''deployment.get_current_release'' of
        None \<Rightarrow> PNone
      | Some rel \<Rightarrow> if truthy (dget_none rel ''release'')
          then PStr (''release '' @ py_str E (dget_none rel ''release'') @ '' deployed'') else PNone)"

text \<open>\<open>str(state.context.get("service", "checkout-api"))\<close>.\<close>

definition service_of :: "pyenv \<Rightarrow> RunState \<Rightarrow> string" where
  "service_of E st = py_str E (dget_or (st_context st) ''service'' (PStr ''checkout-api''))"

section \<open>Facts\<close>

text \<open>A breaker counts the failures of a key since its last success and is open exactly when
  they reach the threshold.\<close>

definition failure_count :: "CircuitBreaker \<Rightarrow> string \<Rightarrow> int" where
  "failure_count b key = (case map_of (cb_failures b) key of None \<Rightarrow> 0 | Some k \<Rightarrow> k)"

definition breaker_inv :: "CircuitBreaker \<Rightarrow> bool" where
  "breaker_inv b \<longleftrightarrow> 0 < cb_threshold b \<and> (\<forall>k. 0 \<le> failure_count b k) \<and>
     (\<forall>k. k \<in> set (cb_opened b) \<longleftrightarrow> cb_threshold b \<le> failure_count b k)"

lemma failure_count_success [simp]:
  "failure_count (record_success k b) k' = (if k' = k then 0 else failure_count b k')"
  by (simp add: failure_count_def record_success_def update_conv)

lemma failure_count_failure [simp]:
  "failure_count (record_failure k b) k' = (if k' = k then failure_count b k + 1 else failure_count b k')"
  by (simp add: failure_count_def record_failure_def update_conv Let_def)

lemma breaker_threshold [simp]:
  "cb_threshold (record_success k b) = cb_threshold b"
  "cb_threshold (record_failure k b) = cb_threshold b"
  by (simp_all add: record_success_def record_failure_def Let_def)

lemma breaker_inv_new: "breaker_inv new_breaker"
  by (simp add: breaker_inv_def new_breaker_def failure_count_def CIRCUIT_BREAKER_THRESHOLD_def)

lemma breaker_inv_success: "breaker_inv b \<Longrightarrow> breaker_inv (record_success k b)"
  by (auto simp: breaker_inv_def) (auto simp: record_success_def)

lemma breaker_inv_failure: "breaker_inv b \<Longrightarrow> breaker_inv (record_failure k b)"
  by (auto simp: breaker_inv_def)
    (auto simp: record_failure_def Let_def failure_count_def [symmetric] split: if_splits)

lemma breaker_guard_iff: "breaker_inv b \<Longrightarrow> breaker_guard b k = Inr () \<longleftrightarrow> failure_count b k < cb_threshold b"
  by (auto simp: breaker_guard_def breaker_inv_def)

lemma reject_malformed_Inr: "reject_malformed E t out = Inr d \<Longrightarrow> out = PDict d \<and> length d \<le> 128"
  by (auto simp: reject_malformed_def rbind_Inr_iff split: pyval.splits)

lemma redact_keys: "map fst (redact args) = map fst args"
  by (induction args) (auto simp: redact_def)

lemma redact_no_secret:
  "(k, v) \<in> set (redact args) \<Longrightarrow> list_ex (\<lambda>s. str_in s (lower k)) secret_keys \<Longrightarrow> v = PStr ''[redacted]''"
  by (auto simp: redact_def split: if_splits)

end
