(* ===== verification/Graph.thy ===== *)
theory Graph
  imports RunState "HOL-Library.Char_ord" "HOL-Library.List_Lexorder"
begin

text \<open>
  The bounded investigation graph, \<open>OrchestratorGraph\<close> of \<^verbatim>\<open>src/apps/orchestrator/graph.py\<close>.
  Each method is a computation with exceptions over \<open>gst\<close>: the run state, the circuit breaker,
  the state \<open>'w\<close> of the injected clients, and a log of the calls made to them, each with the
  run state at the time of the call. The log is the only part the code does not have.

  The clients (\<open>GraphDeps\<close>) are a record of functions over \<open>'w\<close>, free to return or raise
  anything, so a theorem about a run holds for every client. The run state's \<open>cancelled\<close> flag may
  be set from outside while a client runs: \<open>d_cancel_requested\<close> says whether it was, and the flag
  is read at the program points where the code reads it.
\<close>

section \<open>Clients and state\<close>

record 'w graph_deps =
  d_env :: pyenv
  d_invoke :: "string \<Rightarrow> pydict \<Rightarrow> pyfloat \<Rightarrow> ('w, pyval) em"
  d_delegate :: "pydict \<Rightarrow> pyfloat \<Rightarrow> ('w, pyval) em"
  d_cancel :: "(string \<Rightarrow> ('w, unit) em) option"
  d_policy :: "ProposedAction \<Rightarrow> string \<Rightarrow> ('w, pydict) em"
  d_append :: "AgentEvent \<Rightarrow> ('w, unit) em"
  d_save :: "RunState \<Rightarrow> ('w, unit) em"
  d_classify :: "string \<Rightarrow> pydict \<Rightarrow> ('w, pydict) em"
  d_plan :: "string \<Rightarrow> pydict \<Rightarrow> ('w, string list) em"
  d_now :: "'w \<Rightarrow> datetime \<times> 'w"
  d_utcnow :: "'w \<Rightarrow> datetime \<times> 'w"
  d_monotonic :: "'w \<Rightarrow> pyfloat \<times> 'w"
  d_cancel_requested :: "'w \<Rightarrow> bool"

datatype gcall =
    CInvoke string pydict
  | CDelegate pydict
  | CPolicy ProposedAction
  | CAppend AgentEvent
  | CSave

record 'w gst =
  g_state :: RunState
  g_breaker :: CircuitBreaker
  g_world :: 'w
  g_trace :: "(gcall \<times> RunState) list"

type_synonym ('w, 'a) gm = "('w gst, 'a) em"

definition get_state :: "('w, RunState) gm" where
  "get_state = eget g_state"

definition upd :: "(RunState \<Rightarrow> RunState) \<Rightarrow> ('w, unit) gm" where
  "upd f = emod (\<lambda>s. s\<lparr>g_state := f (g_state s)\<rparr>)"

definition log_call :: "gcall \<Rightarrow> ('w, unit) gm" where
  "log_call c = emod (\<lambda>s. s\<lparr>g_trace := g_trace s @ [(c, g_state s)]\<rparr>)"

definition on_world :: "('w, 'a) em \<Rightarrow> ('w, 'a) gm" where
  "on_world m = (\<lambda>s. case m (g_world s) of (r, w) \<Rightarrow> (r, s\<lparr>g_world := w\<rparr>))"

definition read_clock :: "('w \<Rightarrow> 'a \<times> 'w) \<Rightarrow> ('w, 'a) gm" where
  "read_clock f = on_world (\<lambda>w. case f w of (x, w') \<Rightarrow> (Inr x, w'))"

definition on_breaker :: "(CircuitBreaker \<Rightarrow> CircuitBreaker) \<Rightarrow> ('w, unit) gm" where
  "on_breaker f = emod (\<lambda>s. s\<lparr>g_breaker := f (g_breaker s)\<rparr>)"

definition guard_breaker :: "string \<Rightarrow> ('w, unit) gm" where
  "guard_breaker key = (\<lambda>s. (breaker_guard (g_breaker s) key, s))"

definition add_unresolved :: "string \<Rightarrow> ('w, unit) gm" where
  "add_unresolved t = upd (\<lambda>st. st\<lparr>st_unresolved := st_unresolved st @ [t]\<rparr>)"

definition set_current :: "wf_state \<Rightarrow> ('w, unit) gm" where
  "set_current c = upd (\<lambda>st. st\<lparr>st_current := c\<rparr>)"

section \<open>Events and persistence\<close>

definition save :: "'w graph_deps \<Rightarrow> ('w, unit) gm" where
  "save D = ethen (log_call CSave) (ebind get_state (\<lambda>st. on_world (d_save D st)))"

definition make_event :: "RunState \<Rightarrow> EventType \<Rightarrow> pydict \<Rightarrow> bool \<Rightarrow> bool \<Rightarrow> datetime \<Rightarrow> AgentEvent" where
  "make_event st ty data sensitive ui now =
     \<lparr>ev_event_id = st_run_id st @ ''-e'' @ int_str (st_event_sequence st),
      ev_run_id = st_run_id st, ev_tenant_id = st_tenant_id st,
      ev_sequence = st_event_sequence st, ev_type = ty, ev_timestamp = now, ev_data = data,
      ev_trace_id = st_trace_id st, ev_correlation_id = st_correlation_id st,
      ev_sensitive = sensitive, ev_safe_for_ui = (ui \<and> \<not> sensitive)\<rparr>"

definition emit_full :: "'w graph_deps \<Rightarrow> EventType \<Rightarrow> pydict \<Rightarrow> bool \<Rightarrow> bool \<Rightarrow> ('w, unit) gm" where
  "emit_full D ty data sensitive ui =
     ethen (upd (\<lambda>st. st\<lparr>st_event_sequence := st_event_sequence st + 1\<rparr>))
     (ebind (read_clock (d_utcnow D)) (\<lambda>now.
      ebind get_state (\<lambda>st.
      ebind (elift (validate_AgentEvent (make_event st ty data sensitive ui now))) (\<lambda>ev.
      ethen (elift (check (json_safe (PDict data))
        (PyExc EValue ''PydanticSerializationError'' ''Unable to serialize unknown type'' [])))
      (ethen (log_call (CAppend ev)) (on_world (d_append D ev)))))))"

text \<open>\<open>_emit\<close> with the defaults every caller uses.\<close>

definition emit :: "'w graph_deps \<Rightarrow> EventType \<Rightarrow> pydict \<Rightarrow> ('w, unit) gm" where
  "emit D ty data = emit_full D ty data False True"

definition transition :: "'w graph_deps \<Rightarrow> wf_state \<Rightarrow> EventType \<Rightarrow> pydict \<Rightarrow> ('w, unit) gm" where
  "transition D next_state ty data =
     ethen (set_current next_state)
     (ethen (emit D ty (dmerge [(''state'', PStr (wf_name next_state))] data)) (save D))"

definition check_cancel :: "'w graph_deps \<Rightarrow> ('w, unit) gm" where
  "check_cancel D =
     ethen (emod (\<lambda>s. s\<lparr>g_state := (g_state s)\<lparr>st_cancelled :=
              st_cancelled (g_state s) \<or> d_cancel_requested D (g_world s)\<rparr>\<rparr>))
     (ebind get_state (\<lambda>st.
       elift (check (\<not> st_cancelled st) (RunCancelledError ''run was cancelled''))))"

section \<open>Budgets\<close>

definition MODEL_COST_USD :: pyfloat where "MODEL_COST_USD = 5 / 100"
definition TOOL_COST_USD :: pyfloat where "TOOL_COST_USD = 1 / 100"
definition DELEGATION_COST_USD :: pyfloat where "DELEGATION_COST_USD = 10 / 100"
definition A2A_TIMEOUT_SECONDS :: pyfloat where "A2A_TIMEOUT_SECONDS = 30"
definition MAX_READ_RETRIES :: nat where "MAX_READ_RETRIES = 2"
definition LOW_CONFIDENCE_THRESHOLD :: pyfloat where "LOW_CONFIDENCE_THRESHOLD = 1 / 2"

text \<open>The comparisons of \<open>_check_budgets\<close> that read the usage.\<close>

definition usage_checks :: "BudgetLimits \<Rightarrow> BudgetUsage \<Rightarrow> unit presult" where
  "usage_checks lims use =
     rbind (check (model_calls use \<le> max_model_calls lims)
       (BudgetExceededError ''max_model_calls exceeded'' ''model_calls'')) (\<lambda>_.
     rbind (check (tool_calls use \<le> max_tool_calls lims)
       (BudgetExceededError ''max_tool_calls exceeded'' ''tool_calls'')) (\<lambda>_.
     rbind (check (delegations use \<le> max_delegations lims)
       (BudgetExceededError ''max_delegations exceeded'' ''delegations'')) (\<lambda>_.
     rbind (check (input_tokens use \<le> max_input_tokens lims)
       (BudgetExceededError ''max_input_tokens exceeded'' ''input_tokens'')) (\<lambda>_.
     rbind (check (output_tokens use \<le> max_output_tokens lims)
       (BudgetExceededError ''max_output_tokens exceeded'' ''output_tokens'')) (\<lambda>_.
     rbind (check (max (delegations use) (delegation_depth use) \<le> max_delegation_depth lims)
       (BudgetExceededError ''max_delegation_depth exceeded'' ''delegation_depth'')) (\<lambda>_.
     check (cost_usd use \<le> max_cost_usd lims + 1 / 10 ^ 9)
       (BudgetExceededError ''max_cost_usd exceeded'' ''cost'')))))))"

definition total_seconds :: "int \<Rightarrow> pyfloat" where
  "total_seconds us = rat_of_int us / 10 ^ 6"

definition check_budgets :: "'w graph_deps \<Rightarrow> ('w, unit) gm" where
  "check_budgets D =
     ebind get_state (\<lambda>st.
     ethen (elift (usage_checks (st_limits st) (st_usage st)))
     (ebind (read_clock (d_now D)) (\<lambda>now.
       elift (check (total_seconds (now - st_started_at st) \<le> max_duration_seconds (st_limits st))
         (BudgetExceededError ''max_duration exceeded'' ''duration'')))))"

definition upd_usage :: "(BudgetUsage \<Rightarrow> BudgetUsage) \<Rightarrow> ('w, unit) gm" where
  "upd_usage f = upd (\<lambda>st. st\<lparr>st_usage := f (st_usage st)\<rparr>)"

definition spend_model :: "'w graph_deps \<Rightarrow> ('w, unit) gm" where
  "spend_model D = ethen (upd_usage (\<lambda>u. u\<lparr>model_calls := model_calls u + 1,
     cost_usd := py_round 4 (cost_usd u + MODEL_COST_USD)\<rparr>)) (check_budgets D)"

definition spend_tool :: "'w graph_deps \<Rightarrow> ('w, unit) gm" where
  "spend_tool D = ethen (upd_usage (\<lambda>u. u\<lparr>tool_calls := tool_calls u + 1,
     cost_usd := py_round 4 (cost_usd u + TOOL_COST_USD)\<rparr>)) (check_budgets D)"

definition spend_delegation :: "'w graph_deps \<Rightarrow> ('w, unit) gm" where
  "spend_delegation D = ethen (upd_usage (\<lambda>u. u\<lparr>delegations := delegations u + 1,
     delegation_depth := delegation_depth u + 1,
     cost_usd := py_round 4 (cost_usd u + DELEGATION_COST_USD)\<rparr>)) (check_budgets D)"

section \<open>Building actions\<close>

text \<open>\<open>repr\<close> of the sorted list of \<open>(key, value)\<close> tuples.\<close>

definition repr_items :: "pyenv \<Rightarrow> pydict \<Rightarrow> string" where
  "repr_items E d = ''['' @ join '', '' (map (\<lambda>(k, v).
     ''('' @ repr_str k @ '', '' @ py_repr E v @ '')'') (sort_key fst d)) @ '']''"

definition last6 :: "string \<Rightarrow> string" where
  "last6 s = drop (length s - 6) s"

definition build_proposed_action ::
  "pyenv \<Rightarrow> string \<Rightarrow> string \<Rightarrow> string \<Rightarrow> string \<Rightarrow> pydict \<Rightarrow> RiskLevel \<Rightarrow> string option \<Rightarrow> bool
    \<Rightarrow> ProposedAction presult" where
  "build_proposed_action E run_id tenant_id tool_name reason tool_input risk rollback dry_run =
     rbind (validate_tool_call E tool_name tool_input) (\<lambda>spec.
       let requires_approval = (if ts_approval_required spec then True
             else ts_category spec \<in> {WRITE, DESTRUCTIVE});
           requires_approval' = (if risk \<in> {HIGH, CRITICAL} then True else requires_approval);
           key_src = run_id @ '':'' @ tool_name @ '':'' @ repr_items E tool_input;
           idem = ''idem-'' @ take 16 (sha256_hexdigest E key_src)
       in validate_ProposedAction E
            \<lparr>pa_action_id = run_id @ ''-'' @ replace_char (CHR ''.'') (CHR ''-'') tool_name @ ''-'' @ last6 idem,
             pa_run_id = Some run_id, pa_tenant_id = Some tenant_id, pa_tool_name = tool_name,
             pa_reason = take 2000 reason, pa_input = tool_input, pa_risk = risk,
             pa_requires_approval = requires_approval', pa_rollback = rollback,
             pa_dry_run = dry_run, pa_idempotency_key = idem, pa_trace_id = None,
             pa_correlation_id = None\<rparr>)"

section \<open>Tool reads\<close>

definition invoke :: "'w graph_deps \<Rightarrow> string \<Rightarrow> pydict \<Rightarrow> ('w, pyval) gm" where
  "invoke D tool args =
     ethen (log_call (CInvoke tool args)) (on_world (d_invoke D tool args (mcp_timeout_for tool)))"

text \<open>The body of the \<open>try\<close> in \<open>_mcp_read\<close>.\<close>

definition mcp_attempt :: "'w graph_deps \<Rightarrow> string \<Rightarrow> pydict \<Rightarrow> ('w, pydict) gm" where
  "mcp_attempt D tool args =
     ethen (check_cancel D)
     (ethen (spend_tool D)
     (ebind (read_clock (d_monotonic D)) (\<lambda>started.
      ebind (invoke D tool args) (\<lambda>raw.
      ebind (elift (reject_malformed (d_env D) tool raw)) (\<lambda>out.
      ethen (on_breaker (record_success ''mcp''))
      (ebind (read_clock (d_monotonic D)) (\<lambda>ended.
      ethen (emit D TOOL_COMPLETED [(''tool_name'', PStr tool), (''status'', PStr ''succeeded''),
               (''latency_s'', PFloat (py_round 4 (ended - started)))])
      (eret out))))))))"

text \<open>The retry loop with \<open>n\<close> retries left: the result, or the last error.\<close>

fun mcp_attempts :: "'w graph_deps \<Rightarrow> string \<Rightarrow> pydict \<Rightarrow> nat \<Rightarrow> ('w, pyexc + pydict) gm" where
  "mcp_attempts D tool args n =
     etry (ebind (mcp_attempt D tool args) (\<lambda>out. eret (Inr out)))
       (\<lambda>e. if exc_class e \<in> {ERunCancelled, EBudgetExceeded} then eraise e
            else if exc_class e \<in> {ETimeout, EConnection} then
              (case n of 0 \<Rightarrow> eret (Inl e) | Suc m \<Rightarrow> mcp_attempts D tool args m)
            else eret (Inl e))"

declare mcp_attempts.simps [simp del]

definition mcp_read :: "'w graph_deps \<Rightarrow> string \<Rightarrow> pydict \<Rightarrow> ('w, pydict option) gm" where
  "mcp_read D tool args =
     ebind (elift (validate_tool_call (d_env D) tool args)) (\<lambda>spec.
     ethen (elift (check (ts_category spec = READ) (AssertionError (tool @ '' is not a read tool''))))
     (ethen (guard_breaker ''mcp'')
     (ethen (emit D TOOL_STARTED [(''tool_name'', PStr tool), (''args'', PDict (redact args))])
     (ebind (mcp_attempts D tool args MAX_READ_RETRIES) (\<lambda>r. case r of
        Inr out \<Rightarrow> eret (Some out)
      | Inl err \<Rightarrow>
          ethen (on_breaker (record_failure ''mcp''))
          (ethen (emit D TOOL_COMPLETED [(''tool_name'', PStr tool), (''status'', PStr ''failed''),
                    (''error'', PStr (safe_error (Some err)))])
          (eret None)))))))"

section \<open>Delegation\<close>

definition call_delegate :: "'w graph_deps \<Rightarrow> pydict \<Rightarrow> ('w, pyval) gm" where
  "call_delegate D request =
     ethen (log_call (CDelegate request)) (on_world (d_delegate D request A2A_TIMEOUT_SECONDS))"

definition refs_with :: "pyenv \<Rightarrow> string \<Rightarrow> RunState \<Rightarrow> pyval list" where
  "refs_with E p st =
     filter (\<lambda>r. str_in p (py_str E r)) (map (\<lambda>e. dget_or e ''ref'' (PStr [])) (st_mcp_evidence st))"

definition delegate_request :: "pyenv \<Rightarrow> RunState \<Rightarrow> datetime \<Rightarrow> pydict" where
  "delegate_request E st now =
     (let service = service_of E st;
          metrics = refs_with E ''telemetry://m'' st
      in [(''schema_version'', PStr ''1.0''), (''task_id'', PStr (st_run_id st @ ''-obs-1'')),
          (''run_id'', PStr (st_run_id st)), (''tenant_id'', PStr (st_tenant_id st)),
          (''skill_id'', PStr ''correlate-service-symptoms''),
          (''agent_name'', PStr ''observability-agent''),
          (''objective'', PStr (''Correlate symptoms for '' @ service)),
          (''inputs'', PDict
            [(''service'', PStr service),
             (''window'', PDict [(''start'', PStr ''2026-09-11T11:00:00Z''),
                                 (''end'', PStr ''2026-09-11T12:00:00Z'')]),
             (''metrics_refs'', PList (if metrics = []
                then [PStr (''telemetry://m/'' @ service @ ''/err'')] else metrics)),
             (''logs_refs'', PList (refs_with E ''telemetry://l'' st)),
             (''deploy_state'', deploy_state_text E st)]),
          (''deadline'', PStr (isoformat E (now + 30 * 10 ^ 6))),
          (''requester'', PStr ''orchestrator''), (''trace_id'', opt_str (st_trace_id st)),
          (''correlation_id'', opt_str (st_correlation_id st))])"

text \<open>The three lines every degraded branch of \<open>_delegate\<close> has.\<close>

definition degrade :: "string \<Rightarrow> ('w, unit) gm" where
  "degrade msg =
     ethen (on_breaker (record_failure ''a2a''))
     (ethen (upd (\<lambda>st. st\<lparr>st_a2a_fallback := True\<rparr>)) (add_unresolved msg))"

text \<open>What follows a call that returned: status, output, validation.\<close>

definition delegate_result :: "'w graph_deps \<Rightarrow> pyval \<Rightarrow> ('w, pydict option) gm" where
  "delegate_result D result =
     ebind (elift (py_get result ''status'' (PStr []))) (\<lambda>sv.
     let status = py_str (d_env D) sv in
     if status \<noteq> ''completed'' then
       ethen (on_breaker (record_failure ''a2a''))
       (ethen (upd (\<lambda>st. st\<lparr>st_a2a_fallback := True\<rparr>))
       (ebind (elift (py_get result ''error'' (PDict []))) (\<lambda>err.
        ebind (elift (py_get err ''message'' (PStr ''unknown''))) (\<lambda>m.
        ethen (add_unresolved (''Specialist returned '' @ status @ '': '' @ py_str (d_env D) m
                 @ ''; confidence reduced.''))
        (eret None)))))
     else
       ebind (elift (py_get result ''output'' PNone)) (\<lambda>output.
       if \<not> valid_a2a_output (d_env D) output then
         ethen (degrade ''Specialist output failed schema validation; treated as untrusted and ignored.'')
           (eret None)
       else
         ethen (on_breaker (record_success ''a2a''))
           (case result of PDict d \<Rightarrow> eret (Some d) | _ \<Rightarrow> eret None)))"

definition delegate_call :: "'w graph_deps \<Rightarrow> ('w, pydict option) gm" where
  "delegate_call D =
     ethen (check_cancel D)
     (ethen (spend_delegation D)
     (ebind (read_clock (d_utcnow D)) (\<lambda>now.
      ebind get_state (\<lambda>st.
      let request = delegate_request (d_env D) st now in
      ethen (emit D AGENT_DELEGATED [(''agent'', PStr ''observability-agent''),
               (''skill_id'', PStr ''correlate-service-symptoms''),
               (''task_id'', PStr (st_run_id st @ ''-obs-1''))])
      (ebind (etry (ebind (call_delegate D request) (\<lambda>r. eret (Some r)))
         (\<lambda>e. if exc_class e \<in> {ETimeout, EConnection} then
                ethen (degrade (''Specialist delegation timed out ('' @ safe_error (Some e)
                  @ ''); confidence reduced.'')) (eret None)
              else if exc_class e = ERunCancelled then eraise e
              else ethen (degrade (''Specialist delegation failed ('' @ safe_error (Some e)
                  @ ''); confidence reduced.'')) (eret None)))
       (\<lambda>r. case r of None \<Rightarrow> eret None | Some result \<Rightarrow> delegate_result D result))))))"

definition delegate :: "'w graph_deps \<Rightarrow> ('w, pydict option) gm" where
  "delegate D =
     ebind (etry (ethen (guard_breaker ''a2a'') (eret True))
              (\<lambda>e. if exc_class e = ECircuitOpen then eret False else eraise e)) (\<lambda>closed.
     if closed then delegate_call D
     else ethen (upd (\<lambda>st. st\<lparr>st_a2a_fallback := True\<rparr>))
       (ethen (add_unresolved ''A2A circuit open; degraded to orchestrator-only synthesis.'')
       (eret None)))"

section \<open>Steps\<close>

definition finish :: "string \<Rightarrow> ('w, unit) gm" where
  "finish outcome = upd (\<lambda>st. st\<lparr>st_outcome := Some outcome, st_status := COMPLETED\<rparr>)"

definition unresolved_val :: "RunState \<Rightarrow> pyval" where
  "unresolved_val st = PList (map PStr (st_unresolved st))"

definition do_classify :: "'w graph_deps \<Rightarrow> ('w, bool) gm" where
  "do_classify D =
     ethen (spend_model D)
     (ebind get_state (\<lambda>st0.
      ebind (on_world (d_classify D (st_objective st0) (st_context st0))) (\<lambda>classification.
      ethen (upd (\<lambda>st. st\<lparr>st_classification := classification\<rparr>))
      (ethen (transition D Plan MESSAGE_DELTA [(''classification'', PDict classification)])
      (if truthy (dget_none classification ''needs_clarification'') then
         let q = py_str (d_env D) (dget_or classification ''reason'' (PStr ''insufficient context'')) in
         ethen (finish ''clarify'')
         (ethen (add_unresolved (''Clarification needed: '' @ q))
         (ethen (emit D MESSAGE_DELTA [(''clarification_question'',
                   PStr (''Please clarify: '' @ q @ ''. Include service name.''))])
         (ebind get_state (\<lambda>st.
          ethen (transition D Complete RUN_COMPLETED
                   [(''outcome'', PStr ''clarify''), (''unresolved'', unresolved_val st)])
          (eret True)))))
       else eret False)))))"

definition do_plan :: "'w graph_deps \<Rightarrow> ('w, unit) gm" where
  "do_plan D =
     ethen (spend_model D)
     (ebind get_state (\<lambda>st.
      ebind (on_world (d_plan D (st_objective st) (st_classification st))) (\<lambda>plan.
      ethen (upd (\<lambda>st. st\<lparr>st_plan := plan\<rparr>))
      (transition D Resources MESSAGE_DELTA [(''plan'', PList (map PStr plan))]))))"

definition do_resources :: "'w graph_deps \<Rightarrow> ('w, unit) gm" where
  "do_resources D =
     ebind get_state (\<lambda>st.
       let service = service_of (d_env D) st; uri = ''resource://services/'' @ service in
       ethen (upd (\<lambda>st. st\<lparr>st_resources := [(''service'', PStr service), (''uri'', PStr uri),
                (''slo'', PStr ''99.9%''), (''owner'', PStr ''sre'')]\<rparr>))
       (transition D McpReads TOOL_STARTED
         [(''tool_name'', PStr ''resource.read''), (''uri'', PStr uri)]))"

definition primary_reads :: "string list" where
  "primary_reads = [''telemetry.query_metrics'', ''telemetry.query_logs'', ''service.get_health'',
     ''deployment.get_current_release'']"

definition read_evidence :: "'w graph_deps \<Rightarrow> string \<Rightarrow> string \<Rightarrow> ('w, unit) gm" where
  "read_evidence D service tool =
     ebind (mcp_read D tool [(''service'', PStr service)]) (\<lambda>out. case out of
       None \<Rightarrow> eret ()
     | Some d \<Rightarrow> upd (\<lambda>st. st\<lparr>st_mcp_evidence := st_mcp_evidence st @
         [dmerge [(''tool'', PStr tool)] (map (\<lambda>(k, v). (k, jsonable_val v)) d)]\<rparr>))"

definition do_mcp_reads :: "'w graph_deps \<Rightarrow> ('w, unit) gm" where
  "do_mcp_reads D =
     ebind get_state (\<lambda>st0.
     ethen (efor primary_reads (read_evidence D (service_of (d_env D) st0)))
     (ethen (ebind get_state (\<lambda>st. ewhen (st_mcp_evidence st = [])
        (add_unresolved ''All primary MCP reads failed; proceeding with degraded evidence.'')))
     (ebind get_state (\<lambda>st. transition D A2aDelegate TOOL_COMPLETED
        [(''evidence_count'', PInt (int (length (st_mcp_evidence st))))]))))"

definition do_delegate :: "'w graph_deps \<Rightarrow> ('w, unit) gm" where
  "do_delegate D =
     ebind (delegate D) (\<lambda>result.
     ethen (upd (\<lambda>st. st\<lparr>st_a2a_result :=
              map_option (map (\<lambda>(k, v). (k, jsonable_val v))) result\<rparr>))
     (ebind get_state (\<lambda>st. transition D Correlate MESSAGE_DELTA
        [(''delegated'', PBool (result \<noteq> None)), (''fallback'', PBool (st_a2a_fallback st))])))"

text \<open>The dictionary under \<open>output\<close> of a non-empty specialist result.\<close>

definition a2a_output :: "RunState \<Rightarrow> pydict option" where
  "a2a_output st = (case st_a2a_result st of
     None \<Rightarrow> None
   | Some r \<Rightarrow> (case dget_none r ''output'' of PDict out \<Rightarrow> Some out | _ \<Rightarrow> None))"

text \<open>\<open>for f in findings_raw: f["confidence"] = ...\<close>: the findings are objects shared with the
  stored result, so the ones before an exception keep their change.\<close>

fun adjust_all :: "(pyval \<Rightarrow> pyval presult) \<Rightarrow> pyval list \<Rightarrow> pyval list \<times> pyexc option" where
  "adjust_all g [] = ([], None)"
| "adjust_all g (f # fs) = (case g f of
     Inl e \<Rightarrow> (f # fs, Some e)
   | Inr f' \<Rightarrow> (case adjust_all g fs of (fs', r) \<Rightarrow> (f' # fs', r)))"

definition set_conf :: "pyenv \<Rightarrow> (pyfloat \<Rightarrow> pyfloat) \<Rightarrow> pyfloat \<Rightarrow> pyval \<Rightarrow> pyval presult" where
  "set_conf E g dflt f = (case f of
     PDict d \<Rightarrow> (case py_float E (dget_or d ''confidence'' (PFloat 0)) of
         Inr c \<Rightarrow> Inr (PDict (dset d ''confidence'' (PFloat (g c))))
       | Inl _ \<Rightarrow> Inr (PDict (dset d ''confidence'' (PFloat dflt))))
   | _ \<Rightarrow> Inl (AttributeError ''object has no attribute 'get' ''))"

text \<open>Writing the changed findings back into the stored result.\<close>

definition put_findings :: "pyval list \<Rightarrow> RunState \<Rightarrow> RunState" where
  "put_findings fs st = (case (st_a2a_result st, a2a_output st) of
     (Some r, Some out) \<Rightarrow> (case dget_none out ''findings'' of
        PList _ \<Rightarrow> st\<lparr>st_a2a_result := Some (dset r ''output'' (PDict (dset out ''findings'' (PList fs))))\<rparr>
      | _ \<Rightarrow> st)
   | _ \<Rightarrow> st)"

definition adjust_findings :: "(pyval \<Rightarrow> pyval presult) \<Rightarrow> pyval list \<Rightarrow> ('w, pyval list) gm" where
  "adjust_findings g fs = (case adjust_all g fs of (fs', r) \<Rightarrow>
     ethen (upd (put_findings fs')) (case r of None \<Rightarrow> eret fs' | Some e \<Rightarrow> eraise e))"

definition conflict_text :: string where
  "conflict_text = ''Specialist reports anomaly (avg conf > 0.6) but primary '' @
     ''service.get_health reports healthy; both retained, confidence capped.''"

definition cap_conflict :: "'w graph_deps \<Rightarrow> pyval list \<Rightarrow> ('w, pyval list) gm" where
  "cap_conflict D fs =
     ebind get_state (\<lambda>st.
       let health = (case find_evidence st ''service.get_health'' of None \<Rightarrow> [] | Some e \<Rightarrow> e) in
       if dget_none health ''status'' = PStr ''healthy'' \<and> fs \<noteq> [] then
         ebind (elift (avg_conf (d_env D) fs)) (\<lambda>avg.
           if avg > 6 / 10 then
             ethen (upd (\<lambda>st. st\<lparr>st_conflict := Some conflict_text\<rparr>))
             (ethen (add_unresolved conflict_text)
             (adjust_findings (set_conf (d_env D) (\<lambda>c. min c (6 / 10)) (1 / 2)) fs))
           else eret fs)
       else eret fs)"

definition reduce_fallback :: "'w graph_deps \<Rightarrow> pyval list \<Rightarrow> ('w, pyval list) gm" where
  "reduce_fallback D fs =
     ebind get_state (\<lambda>st.
       if st_a2a_fallback st
       then adjust_findings (set_conf (d_env D) (\<lambda>c. py_round 2 (c - 15 / 100)) (4 / 10)) fs
       else eret fs)"

definition correlation_note :: "RunState \<Rightarrow> nat \<Rightarrow> pydict" where
  "correlation_note st n = [(''specialist_findings'', PInt (int n)),
     (''fallback'', PBool (st_a2a_fallback st)), (''conflict'', opt_str (st_conflict st))]"

definition do_correlate :: "'w graph_deps \<Rightarrow> ('w, unit) gm" where
  "do_correlate D =
     ebind get_state (\<lambda>st0.
     let out = (case a2a_output st0 of None \<Rightarrow> [] | Some out \<Rightarrow> out) in
     ebind (elift (py_list (dget_or out ''findings'' (PList [])))) (\<lambda>raw0.
     ebind (elift (py_list (dget_or out ''unresolved_questions'' (PList [])))) (\<lambda>questions.
     ebind (cap_conflict D raw0) (\<lambda>raw1.
     ebind (reduce_fallback D raw1) (\<lambda>raw2.
     ethen (upd (\<lambda>st. st\<lparr>st_unresolved := st_unresolved st @
              filter (\<lambda>q. q \<noteq> []) (map (py_str (d_env D)) questions)\<rparr>))
     (ethen (upd (\<lambda>st. st\<lparr>st_correlation_note := Some (correlation_note st (length raw2))\<rparr>))
     (ethen (save D)
     (ethen (set_current Findings)
     (ethen (ebind get_state (\<lambda>st. emit D MESSAGE_DELTA
               [(''correlation'', PDict (correlation_note st (length raw2)))]))
     (save D))))))))))"

definition severity_of :: "pyfloat \<Rightarrow> string" where
  "severity_of conf = (if 75 / 100 \<le> conf then ''high'' else if 1 / 2 \<le> conf then ''medium'' else ''low'')"

text \<open>The body of the loop over the raw findings: a finding, the note that it was dropped, or an
  exception the loop does not catch.\<close>

definition finding_of :: "pyenv \<Rightarrow> RunState \<Rightarrow> nat \<Rightarrow> pyval \<Rightarrow> (string + wf_finding) presult" where
  "finding_of E st i f = (case f of
     PDict d \<Rightarrow>
       let title = strip (py_str E (dget_or d ''title'' (PStr [])));
           summary = strip (py_str E (dget_or d ''summary'' (PStr [])));
           note = (\<lambda>why. ''Finding '' @ nat_str i @ '' dropped: '' @ why)
       in (case py_list (dget_or d ''evidence_refs'' (PList [])) of
             Inl _ \<Rightarrow> Inr (Inl (note ''schema validation failed.''))
           | Inr rs \<Rightarrow> (case py_float E (dget_or d ''confidence'' (PFloat 0)) of
               Inl _ \<Rightarrow> Inr (Inl (note ''schema validation failed.''))
             | Inr c \<Rightarrow>
                 let refs = filter (\<lambda>r. r \<noteq> []) (map (py_str E) rs);
                     conf = max 0 (min 1 c)
                 in if title = [] \<or> summary = [] \<or> refs = []
                    then Inr (Inl (note ''missing title/summary/evidence.''))
                    else Inr (Inr \<lparr>wf_finding_id = st_run_id st @ ''-f'' @ nat_str i,
                           wf_f_run_id = st_run_id st, wf_f_tenant_id = st_tenant_id st,
                           wf_title = take 256 title, wf_summary = take 4000 summary,
                           wf_evidence_refs = take 16 refs, wf_confidence = conf,
                           wf_severity = severity_of conf\<rparr>)))
   | _ \<Rightarrow> Inl (AttributeError ''object has no attribute 'get' ''))"

fun findings_loop :: "'w graph_deps \<Rightarrow> nat \<Rightarrow> pyval list \<Rightarrow> ('w, wf_finding list) gm" where
  "findings_loop D i [] = eret []"
| "findings_loop D i (f # fs) =
     ebind get_state (\<lambda>st.
     ebind (elift (finding_of (d_env D) st i f)) (\<lambda>r. case r of
       Inl note \<Rightarrow> ethen (add_unresolved note) (findings_loop D (Suc i) fs)
     | Inr fnd \<Rightarrow> ebind (findings_loop D (Suc i) fs) (\<lambda>rest. eret (fnd # rest))))"

definition max_confidence :: "wf_finding list \<Rightarrow> pyfloat" where
  "max_confidence fs = (case map wf_confidence fs of [] \<Rightarrow> 0 | c # cs \<Rightarrow> fold max cs c)"

text \<open>The findings to work on: the specialist's, or one synthesised from the primary reads.\<close>

definition raw_findings :: "'w graph_deps \<Rightarrow> ('w, pyval list) gm" where
  "raw_findings D =
     ebind get_state (\<lambda>st.
     ebind (elift (case a2a_output st of None \<Rightarrow> Inr []
              | Some out \<Rightarrow> py_list (dget_or out ''findings'' (PList [])))) (\<lambda>raw.
     if raw = [] \<and> st_mcp_evidence st \<noteq> [] then
       ethen (add_unresolved ''Orchestrator-only synthesis; specialist evidence missing.'')
       (eret [PDict [(''title'', PStr (''Elevated errors in '' @ service_of (d_env D) st)),
          (''summary'', PStr ''Primary telemetry shows elevated errors; specialist unavailable.''),
          (''evidence_refs'', PList (map (\<lambda>e. dget_or e ''ref'' (PStr ''telemetry://m/1''))
             (take 2 (st_mcp_evidence st)))),
          (''confidence'', PFloat (45 / 100))]])
     else eret raw))"

text \<open>The ending for low confidence.\<close>

definition ask_more_info :: "'w graph_deps \<Rightarrow> ('w, bool) gm" where
  "ask_more_info D =
     ethen (finish ''more_info'')
     (ethen (add_unresolved
        ''Confidence below 0.5; more telemetry (metrics_refs/logs_refs/traces) is needed.'')
     (ethen (emit D MESSAGE_DELTA
        [(''more_info'', PStr ''Please supply additional telemetry refs for re-analysis.'')])
     (ebind get_state (\<lambda>st.
      ethen (transition D Complete RUN_COMPLETED
        [(''outcome'', PStr ''more_info''), (''unresolved'', unresolved_val st)])
      (eret True)))))"

definition publish_findings :: "'w graph_deps \<Rightarrow> wf_finding list \<Rightarrow> ('w, bool) gm" where
  "publish_findings D fs =
     ethen (upd (\<lambda>st. st\<lparr>st_findings := fs\<rparr>))
     (ethen (efor fs (\<lambda>f. emit D FINDING_CREATED [(''finding'', PDict (finding_dict f))]))
     (ethen (save D)
     (if fs = [] \<or> max_confidence fs < LOW_CONFIDENCE_THRESHOLD then ask_more_info D
      else ethen (set_current Propose) (ethen (save D) (eret False)))))"

definition do_findings :: "'w graph_deps \<Rightarrow> ('w, bool) gm" where
  "do_findings D =
     ebind (raw_findings D) (\<lambda>raw. ebind (findings_loop D 0 raw) (publish_findings D))"

text \<open>\<open>max(findings, key=confidence)\<close>: the first of the greatest.\<close>

fun top_finding :: "wf_finding list \<Rightarrow> wf_finding presult" where
  "top_finding [] = Inl (ValueError ''max() arg is an empty sequence'')"
| "top_finding (f # fs) =
     Inr (fold (\<lambda>x best. if wf_confidence best < wf_confidence x then x else best) fs f)"

definition do_propose :: "'w graph_deps \<Rightarrow> ('w, unit) gm" where
  "do_propose D =
     ebind get_state (\<lambda>st.
     let E = d_env D; service = service_of E st in
     ebind (elift (top_finding (st_findings st))) (\<lambda>top.
     ebind (elift (build_proposed_action E (st_run_id st) (st_tenant_id st) ''ticket.create''
        (''Track investigation: '' @ wf_title top)
        [(''title'', PStr (''Investigate '' @ service)), (''severity'', PStr (wf_severity top))]
        LOW None False)) (\<lambda>ticket.
     ebind (if list_ex (\<lambda>f. str_in ''deployment'' (lower (wf_title f))) (st_findings st)
        then ebind (elift (build_proposed_action E (st_run_id st) (st_tenant_id st)
               ''deployment.rollback''
               ''Recent release correlates with symptoms; prepare dry-run rollback''
               [(''service'', PStr service), (''dry_run'', PBool True)]
               MEDIUM (Some ''re-deploy release 2026.09.10'') True)) (\<lambda>rb. eret [rb])
        else eret []) (\<lambda>more.
     ethen (upd (\<lambda>st. st\<lparr>st_proposed_actions := ticket # more\<rparr>))
     (transition D Policy MESSAGE_DELTA
        [(''proposed'', PList (map (\<lambda>a. PStr (pa_action_id a)) (ticket # more)))])))))"

definition call_policy :: "'w graph_deps \<Rightarrow> ProposedAction \<Rightarrow> string \<Rightarrow> ('w, pydict) gm" where
  "call_policy D a env = ethen (log_call (CPolicy a)) (on_world (d_policy D a env))"

definition decision_of :: "ProposedAction \<Rightarrow> pydict \<Rightarrow> pydict" where
  "decision_of a raw = [(''action_id'', PStr (pa_action_id a)), (''tool_name'', PStr (pa_tool_name a))] @
     concat (map (\<lambda>k. case dget raw k of None \<Rightarrow> [] | Some v \<Rightarrow> [(k, v)])
       [''allowed'', ''requires_approval'', ''reason''])"

fun policy_loop :: "'w graph_deps \<Rightarrow> string \<Rightarrow> ProposedAction list \<Rightarrow> ('w, pydict list) gm" where
  "policy_loop D env [] = eret []"
| "policy_loop D env (a # as) =
     ebind (call_policy D a env) (\<lambda>raw.
     ebind (policy_loop D env as) (\<lambda>ds. eret (decision_of a raw # ds)))"

definition denied_decisions :: "pydict list \<Rightarrow> pydict list" where
  "denied_decisions ds = filter (\<lambda>d. \<not> truthy (dget_or d ''allowed'' (PBool False))) ds"

definition explain_denial :: "'w graph_deps \<Rightarrow> pydict list \<Rightarrow> ('w, bool) gm" where
  "explain_denial D denied =
     (let reasons = join ''; '' (map (\<lambda>d. py_str (d_env D) (dget_or d ''reason'' (PStr ''denied''))) denied) in
      ethen (finish ''denied'')
      (ethen (emit D MESSAGE_DELTA [(''policy_denial'', PStr (''Policy denied '' @
          nat_str (length denied) @ '' action(s): '' @ reasons @ ''. Nothing executed.''))])
      (ethen (transition D Complete RUN_COMPLETED
          [(''outcome'', PStr ''denied''), (''denied'', PList (map PDict denied))])
      (eret True))))"

definition apply_decisions :: "'w graph_deps \<Rightarrow> pydict list \<Rightarrow> ('w, bool) gm" where
  "apply_decisions D decisions =
     ethen (upd (\<lambda>st. st\<lparr>st_policy_decisions := decisions\<rparr>))
     (ethen (save D)
     (if denied_decisions decisions \<noteq> [] then explain_denial D (denied_decisions decisions)
      else ethen (set_current ApprovalPause) (ethen (save D) (eret False))))"

definition do_policy :: "'w graph_deps \<Rightarrow> ('w, bool) gm" where
  "do_policy D =
     ebind get_state (\<lambda>st.
     let env = py_str (d_env D) (dget_or (st_context st) ''env'' (PStr ''dev'')) in
     ebind (policy_loop D env (st_proposed_actions st)) (apply_decisions D))"

definition new_approval :: "RunState \<Rightarrow> string \<Rightarrow> ProposedAction \<Rightarrow> wf_approval" where
  "new_approval st now a = \<lparr>wa_approval_id = st_run_id st @ ''-'' @ pa_action_id a @ ''-appr'',
     wa_run_id = st_run_id st, wa_tenant_id = st_tenant_id st, wa_action_id = pa_action_id a,
     wa_requested_by = ''orchestrator'', wa_decision = ''pending'', wa_requested_at = now,
     wa_decided_by = None\<rparr>"

definition announce_approvals :: "'w graph_deps \<Rightarrow> ('w, unit) gm" where
  "announce_approvals D =
     ethen (ebind get_state (\<lambda>st. emit D APPROVAL_REQUIRED
       [(''approvals'', PList (map (\<lambda>a. PDict (approval_dict a)) (st_approvals st))),
        (''actions'', PList (map (\<lambda>a. PDict (action_dict a)) (st_proposed_actions st)))]))
     (save D)"

definition do_approval_pause :: "'w graph_deps \<Rightarrow> ('w, unit) gm" where
  "do_approval_pause D =
     ebind get_state (\<lambda>st.
     if st_proposed_actions st = [] then ethen (set_current Verify) (save D)
     else
       ethen (upd (\<lambda>st. st\<lparr>st_status := WAITING_FOR_APPROVAL\<rparr>))
       (ebind (read_clock (d_utcnow D)) (\<lambda>now.
        ethen (upd (\<lambda>st. st\<lparr>st_approvals := st_approvals st @
                 map (new_approval st (isoformat (d_env D) now)) (st_proposed_actions st)\<rparr>))
        (announce_approvals D))))"

definition approved_ids :: "RunState \<Rightarrow> string list" where
  "approved_ids st = map wa_action_id (filter (\<lambda>a. wa_decision a = ''approved'') (st_approvals st))"

definition execute_one :: "'w graph_deps \<Rightarrow> string list \<Rightarrow> ProposedAction \<Rightarrow> ('w, unit) gm" where
  "execute_one D ids action =
     (if pa_action_id action \<notin> set ids then eret ()
      else
        let tool = pa_tool_name action in
        ebind (elift (validate_tool_call (d_env D) tool (pa_input action))) (\<lambda>spec.
        ethen (elift (check (ts_category spec \<noteq> DESTRUCTIVE)
          (RuntimeError (''refusing to execute destructive tool '' @ tool))))
        (ethen (check_cancel D)
        (ethen (spend_tool D)
        (ethen (emit D TOOL_STARTED [(''tool_name'', PStr tool), (''action_id'', PStr (pa_action_id action)),
                 (''dry_run'', PBool (pa_dry_run action))])
        (etry
          (ebind (invoke D tool (pa_input action)) (\<lambda>raw.
           ethen (elift (reject_malformed (d_env D) tool raw))
           (emit D TOOL_COMPLETED [(''tool_name'', PStr tool),
              (''action_id'', PStr (pa_action_id action)), (''status'', PStr ''succeeded'')])))
          (\<lambda>e. ethen (emit D TOOL_COMPLETED [(''tool_name'', PStr tool),
                 (''action_id'', PStr (pa_action_id action)), (''status'', PStr ''failed''),
                 (''error'', PStr (safe_error (Some e)))])
             (add_unresolved (''Action '' @ pa_action_id action @ '' failed: '' @ safe_error (Some e))))))))))"

definition do_execute :: "'w graph_deps \<Rightarrow> ('w, unit) gm" where
  "do_execute D =
     ebind get_state (\<lambda>st.
     ethen (elift (check (\<not> (st_proposed_actions st \<noteq> [] \<and> approved_ids st = []))
       (RuntimeError ''execute_approved without any approved approval row'')))
     (ethen (efor (st_proposed_actions st) (execute_one D (approved_ids st)))
     (ethen (upd (\<lambda>st. st\<lparr>st_current := Verify, st_status := RUNNING\<rparr>)) (save D))))"

definition do_verify :: "'w graph_deps \<Rightarrow> ('w, unit) gm" where
  "do_verify D =
     ebind get_state (\<lambda>st.
     ebind (mcp_read D ''service.get_health'' [(''service'', PStr (service_of (d_env D) st))]) (\<lambda>out.
     let verified = (case out of None \<Rightarrow> False
           | Some d \<Rightarrow> d \<noteq> [] \<and> dget_none d ''status'' \<in> {PStr ''healthy'', PStr ''degraded''}) in
     transition D Complete MESSAGE_DELTA [(''verified'', PBool verified)]))"

definition result_dict :: "RunState \<Rightarrow> pydict" where
  "result_dict st = [(''schema_version'', PStr ''1.0''), (''run_id'', PStr (st_run_id st)),
     (''tenant_id'', PStr (st_tenant_id st)), (''situation'', PStr (st_objective st)),
     (''evidence'', PList (map PDict (st_mcp_evidence st))),
     (''findings'', PList (map (\<lambda>f. PDict (finding_dict f)) (st_findings st))),
     (''confidence'', PFloat (max_confidence (st_findings st))),
     (''proposed_actions'', PList (map (\<lambda>a. PDict (action_dict a)) (st_proposed_actions st))),
     (''unresolved_questions'', unresolved_val st), (''outcome'', opt_str (st_outcome st))]"

definition do_complete :: "'w graph_deps \<Rightarrow> ('w, unit) gm" where
  "do_complete D =
     ethen (upd (\<lambda>st. st\<lparr>st_outcome := (if st_outcome st \<in> {None, Some []} then Some ''completed''
                                      else st_outcome st), st_status := COMPLETED\<rparr>))
     (ethen (upd (\<lambda>st. st\<lparr>st_result := Some (result_dict st)\<rparr>))
     (ethen (ebind get_state (\<lambda>st. emit D RUN_COMPLETED [(''result'', PDict (result_dict st))]))
     (save D)))"

section \<open>Driver\<close>

text \<open>One pass through the loop of \<open>run\<close>; \<open>True\<close> where the code returns.\<close>

definition run_step :: "'w graph_deps \<Rightarrow> ('w, bool) gm" where
  "run_step D =
     ethen (check_cancel D)
     (ethen (check_budgets D)
     (ebind get_state (\<lambda>st. case st_current st of
        Classify \<Rightarrow> do_classify D
      | Plan \<Rightarrow> ethen (do_plan D) (eret False)
      | Resources \<Rightarrow> ethen (do_resources D) (eret False)
      | McpReads \<Rightarrow> ethen (do_mcp_reads D) (eret False)
      | A2aDelegate \<Rightarrow> ethen (do_delegate D) (eret False)
      | Correlate \<Rightarrow> ethen (do_correlate D) (eret False)
      | Findings \<Rightarrow> do_findings D
      | Propose \<Rightarrow> ethen (do_propose D) (eret False)
      | Policy \<Rightarrow> do_policy D
      | ApprovalPause \<Rightarrow> ethen (do_approval_pause D) (eret True)
      | ExecuteApproved \<Rightarrow> ethen (do_execute D) (eret False)
      | Verify \<Rightarrow> ethen (do_verify D) (eret False)
      | Complete \<Rightarrow> ethen (do_complete D) (eret True)
      | OtherState cur \<Rightarrow>
          eraise (RuntimeError (''unknown workflow state '' @ repr_str cur)))))"

lemmas gm_prim_defs =
  get_state_def upd_def log_call_def on_world_def read_clock_def on_breaker_def guard_breaker_def

end
