(* ===== verification/GraphRun.thy ===== *)
theory GraphRun
  imports Graph
begin

text \<open>
  The driver of the graph: \<open>run\<close> and \<open>resume_after_approval\<close>, with the proof that the loop of
  \<open>run\<close> ends. The three locales say, level by level, what a relation between states must
  tolerate for the operations of the graph to obey it; a property of whole runs is then proved
  by interpreting them for one relation.
\<close>

section \<open>Relations the operations obey\<close>

text \<open>The fields that the notes a step takes (evidence, findings, unresolved questions and the
  like) leave alone.\<close>

definition frame_core :: "RunState \<Rightarrow> _" where
  "frame_core st = (st_run_id st, st_tenant_id st, st_status st, st_current st, st_limits st,
     st_usage st, st_trace_id st, st_correlation_id st, st_proposed_actions st, st_approvals st,
     st_outcome st, st_event_sequence st, st_cancelled st)"

lemma obeys_get_state: "(\<And>s. R s s) \<Longrightarrow> obeys R get_state"
  by (simp add: obeys_def get_state_def eget_def)

text \<open>What one call of a client may make of the world.\<close>

inductive world_moves :: "'w graph_deps \<Rightarrow> 'w \<Rightarrow> 'w \<Rightarrow> bool" for D where
  save: "world_moves D w (snd (d_save D st w))"
| append: "world_moves D w (snd (d_append D ev w))"
| policy: "world_moves D w (snd (d_policy D a env w))"
| classify: "world_moves D w (snd (d_classify D objective ctx w))"
| plan: "world_moves D w (snd (d_plan D objective classification w))"
| invoke: "world_moves D w (snd (d_invoke D tool args limit w))"
| delegate: "world_moves D w (snd (d_delegate D request limit w))"
| cancel: "d_cancel D = Some c \<Longrightarrow> world_moves D w (snd (c task w))"
| now: "world_moves D w (snd (d_now D w))"
| utcnow: "world_moves D w (snd (d_utcnow D w))"
| monotonic: "world_moves D w (snd (d_monotonic D w))"

lemmas client_moves = world_moves.save world_moves.append world_moves.policy world_moves.classify
  world_moves.plan world_moves.invoke world_moves.delegate world_moves.now world_moves.utcnow
  world_moves.monotonic

locale quiet_steps = step_relation R for R :: "'w gst \<Rightarrow> 'w gst \<Rightarrow> bool" +
  fixes D :: "'w graph_deps"
  assumes world: "world_moves D (g_world s) w \<Longrightarrow> R s (s\<lparr>g_world := w\<rparr>)"
    and breaker: "R s (s\<lparr>g_breaker := b\<rparr>)"
    and annot: "frame_core st = frame_core (g_state s) \<Longrightarrow> R s (s\<lparr>g_state := st\<rparr>)"
    and flag: "R s (s\<lparr>g_state := (g_state s)\<lparr>st_cancelled := st_cancelled (g_state s) \<or> c\<rparr>\<rparr>)"
    and log_quiet: "R s (s\<lparr>g_trace := g_trace s @ [(CSave, g_state s)]\<rparr>)"
      "R s (s\<lparr>g_trace := g_trace s @ [(CPolicy a, g_state s)]\<rparr>)"
    and emits: "obeys R (emit D ty data)"
begin

lemma q_get: "obeys R get_state"
  by (simp add: obeys_get_state R_refl)

lemma q_on_world: "(\<And>w. world_moves D w (snd (m w))) \<Longrightarrow> obeys R (on_world m)"
  by (rule obeysI) (simp add: on_world_def split_def world)

lemma q_clock: "(\<And>w. world_moves D w (snd (f w))) \<Longrightarrow> obeys R (read_clock f)"
  unfolding read_clock_def by (rule q_on_world) (simp add: split_def)

lemma q_breaker: "obeys R (on_breaker f)"
  by (rule obeysI) (simp add: on_breaker_def emod_def breaker)

lemma q_guard: "obeys R (guard_breaker k)"
  by (rule obeysI) (simp add: guard_breaker_def R_refl)

lemma q_upd: "(\<And>st. frame_core (f st) = frame_core st) \<Longrightarrow> obeys R (upd f)"
  by (rule obeysI) (simp add: upd_def emod_def annot)

lemma q_save: "obeys R (save D)"
  unfolding save_def log_call_def
  by (intro obeys_intros obeys_mod q_get q_on_world client_moves log_quiet)

lemma q_policy: "obeys R (call_policy D a env)"
  unfolding call_policy_def log_call_def by (intro obeys_intros obeys_mod q_on_world client_moves log_quiet)

lemma q_check_cancel: "obeys R (check_cancel D)"
  unfolding check_cancel_def by (intro obeys_intros obeys_mod q_get flag)

lemma q_check_budgets: "obeys R (check_budgets D)"
  unfolding check_budgets_def by (intro obeys_intros q_get q_clock client_moves)

lemma q_unresolved: "obeys R (add_unresolved t)"
  unfolding add_unresolved_def by (rule q_upd) (simp add: frame_core_def)

lemma q_degrade: "obeys R (degrade t)"
  unfolding degrade_def
  by (intro obeys_intros q_breaker q_unresolved q_upd) (simp add: frame_core_def)

lemma q_case_pyval:
  "(\<And>d. obeys R (f d)) \<Longrightarrow> obeys R g \<Longrightarrow> obeys R (case v of PDict d \<Rightarrow> f d | _ \<Rightarrow> g)"
  by (cases v) simp_all

lemmas q_intros = obeys_intros q_get q_on_world q_clock client_moves q_breaker q_guard q_save q_policy
  q_check_cancel q_check_budgets q_unresolved q_degrade q_case_pyval emits

lemma q_delegate_result: "obeys R (delegate_result D r)"
  unfolding delegate_result_def
  by (intro q_intros q_upd) (simp_all add: frame_core_def)

lemma q_put: "frame_core (put_findings fs st) = frame_core st"
  by (simp add: put_findings_def frame_core_def split: option.splits pyval.splits)

lemma q_adjust: "obeys R (adjust_findings g fs)"
  unfolding adjust_findings_def by (intro q_intros q_upd q_put)

lemma q_cap: "obeys R (cap_conflict D fs)"
  unfolding cap_conflict_def Let_def by (intro q_intros q_upd q_adjust) (simp add: frame_core_def)

lemma q_reduce: "obeys R (reduce_fallback D fs)"
  unfolding reduce_fallback_def by (intro q_intros q_adjust)

lemma q_findings_loop: "obeys R (findings_loop D i fs)"
  by (induction fs arbitrary: i) (auto intro!: q_intros)

lemma q_raw_findings: "obeys R (raw_findings D)"
  unfolding raw_findings_def by (intro q_intros)

lemma q_policy_loop: "obeys R (policy_loop D env as)"
  by (induction "as") (auto intro!: q_intros)

end

locale spending_steps = quiet_steps R D for R :: "'w gst \<Rightarrow> 'w gst \<Rightarrow> bool" and D +
  assumes spends_model: "obeys R (spend_model D)"
    and attempts: "t \<in> set READ_TOOLS \<Longrightarrow> obeys R (mcp_attempt D t args)"
    and delegates: "obeys R (delegate_call D)"
begin

lemma s_attempts: "t \<in> set READ_TOOLS \<Longrightarrow> obeys R (mcp_attempts D t args n)"
proof (induction n)
  case 0
  then show ?case by (subst mcp_attempts.simps) (auto intro!: q_intros attempts)
next
  case (Suc n)
  then show ?case by (subst mcp_attempts.simps) (auto intro!: q_intros attempts)
qed

text \<open>Only a read tool of the registry gets past the assertion.\<close>

lemma s_read: "obeys R (mcp_read D t args)"
proof (rule obeysI)
  fix s
  show "R s (snd (mcp_read D t args s))"
  proof (cases "\<exists>spec. validate_tool_call (d_env D) t args = Inr spec \<and> ts_category spec = READ")
    case True
    then obtain spec where v: "validate_tool_call (d_env D) t args = Inr spec" "ts_category spec = READ"
      by blast
    then have "t \<in> set READ_TOOLS" by (metis registry_read_iff validate_tool_call_Inr(1))
    then have "obeys R (mcp_read D t args)"
      unfolding mcp_read_def by (intro q_intros s_attempts)
    then show ?thesis by (rule obeysD)
  next
    case False
    then have "snd (mcp_read D t args s) = s"
      by (cases "validate_tool_call (d_env D) t args")
        (auto simp: mcp_read_def run_simps)
    then show ?thesis by (simp add: R_refl)
  qed
qed

lemma s_delegate: "obeys R (delegate D)"
  unfolding delegate_def by (intro q_intros delegates q_upd) (simp add: frame_core_def)

lemma s_evidence: "obeys R (read_evidence D service t)"
  unfolding read_evidence_def by (intro q_intros s_read q_upd) (simp add: frame_core_def)

lemmas s_intros = q_intros s_read s_delegate s_evidence spends_model

end

locale moving_steps = spending_steps R D for R :: "'w gst \<Rightarrow> 'w gst \<Rightarrow> bool" and D +
  assumes moves: "R s (s\<lparr>g_state := (g_state s)\<lparr>st_current := c\<rparr>\<rparr>)"
    and statuses: "R s (s\<lparr>g_state := (g_state s)\<lparr>st_outcome := oc, st_status := v\<rparr>\<rparr>)"
    and actions: "R s (s\<lparr>g_state := (g_state s)\<lparr>st_proposed_actions := as\<rparr>\<rparr>)"
    and approvals: "R s (s\<lparr>g_state := (g_state s)\<lparr>st_approvals := aps\<rparr>\<rparr>)"
begin

lemma m_move: "obeys R (set_current c)"
  by (simp add: obeys_def set_current_def upd_def emod_def moves)

lemma m_status: "obeys R (upd (\<lambda>st. st\<lparr>st_outcome := oc st, st_status := v st\<rparr>))"
  by (simp add: obeys_def upd_def emod_def statuses)

lemma status_outcome_commute:
  "(st :: RunState)\<lparr>st_status := v, st_outcome := oc\<rparr> = st\<lparr>st_outcome := oc, st_status := v\<rparr>"
  by simp

lemma m_transition: "obeys R (transition D c ty data)"
  unfolding transition_def by (intro s_intros m_move)

lemma m_finish: "obeys R (finish outcome)"
  by (simp add: obeys_def finish_def upd_def emod_def statuses)

lemma m_status1: "obeys R (upd (\<lambda>st. st\<lparr>st_status := v\<rparr>))"
proof (rule obeysI)
  fix s :: "'w gst"
  have "R s (s\<lparr>g_state := (g_state s)\<lparr>st_outcome := st_outcome (g_state s), st_status := v\<rparr>\<rparr>)"
    by (rule statuses)
  then show "R s (snd (upd (\<lambda>st. st\<lparr>st_status := v\<rparr>) s))" by (simp add: upd_def emod_def)
qed

lemmas m_intros = s_intros m_move m_finish m_transition m_status m_status1

lemma m_classify: "obeys R (do_classify D)"
  unfolding do_classify_def by (intro m_intros q_upd) (simp add: frame_core_def)

lemma m_plan: "obeys R (do_plan D)"
  unfolding do_plan_def by (intro m_intros q_upd) (simp add: frame_core_def)

lemma m_resources: "obeys R (do_resources D)"
  unfolding do_resources_def Let_def by (intro m_intros q_upd) (simp add: frame_core_def)

lemma m_reads: "obeys R (do_mcp_reads D)"
  unfolding do_mcp_reads_def by (intro m_intros)

lemma m_delegate: "obeys R (do_delegate D)"
  unfolding do_delegate_def by (intro m_intros q_upd) (simp add: frame_core_def)

lemma m_correlate: "obeys R (do_correlate D)"
  unfolding do_correlate_def Let_def
  by (intro m_intros q_cap q_reduce q_upd) (simp_all add: frame_core_def)

lemma m_findings: "obeys R (do_findings D)"
  unfolding do_findings_def publish_findings_def ask_more_info_def
  by (intro m_intros q_raw_findings q_findings_loop q_upd) (simp add: frame_core_def)

lemma m_policy: "obeys R (do_policy D)"
  unfolding do_policy_def apply_decisions_def explain_denial_def Let_def by (intro m_intros q_policy_loop q_upd) (simp add: frame_core_def)

lemma m_verify: "obeys R (do_verify D)"
  unfolding do_verify_def Let_def by (intro m_intros)

lemma m_propose: "obeys R (do_propose D)"
proof -
  have "obeys R (upd (\<lambda>st. st\<lparr>st_proposed_actions := as\<rparr>))" for as
    by (simp add: obeys_def upd_def emod_def actions)
  then show ?thesis unfolding do_propose_def Let_def by (intro m_intros)
qed

lemma m_pause: "obeys R (do_approval_pause D)"
proof -
  have "obeys R (upd (\<lambda>st. st\<lparr>st_approvals := f st\<rparr>))" for f
    by (simp add: obeys_def upd_def emod_def approvals)
  then show ?thesis unfolding do_approval_pause_def announce_approvals_def by (intro m_intros)
qed

lemma m_complete: "obeys R (do_complete D)"
  unfolding do_complete_def by (intro m_intros q_upd) (simp add: frame_core_def)

end

locale driving_steps = moving_steps R D for R :: "'w gst \<Rightarrow> 'w gst \<Rightarrow> bool" and D +
  assumes executes: "R s (snd (efor (st_proposed_actions (g_state s))
       (execute_one D (approved_ids (g_state s))) s))"
begin

lemma m_execute: "obeys R (do_execute D)"
proof (rule obeysI)
  fix s :: "'w gst"
  let ?loop = "efor (st_proposed_actions (g_state s)) (execute_one D (approved_ids (g_state s)))"
  have "obeys R (upd (\<lambda>st. st\<lparr>st_current := c, st_status := v\<rparr>))" for c v
  proof (rule obeysI)
    fix s :: "'w gst"
    let ?t = "s\<lparr>g_state := (g_state s)\<lparr>st_current := c\<rparr>\<rparr>"
    have "R ?t (?t\<lparr>g_state := (g_state ?t)\<lparr>st_outcome := st_outcome (g_state ?t), st_status := v\<rparr>\<rparr>)"
      by (rule statuses)
    with moves [of s c] show "R s (snd (upd (\<lambda>st. st\<lparr>st_current := c, st_status := v\<rparr>) s))"
      by (auto simp: upd_def emod_def intro: R_trans)
  qed
  then have rest: "obeys R (ethen (upd (\<lambda>st. st\<lparr>st_current := Verify, st_status := RUNNING\<rparr>)) (save D))"
    by (intro m_intros)
  show "R s (snd (do_execute D s))"
  proof (cases "st_proposed_actions (g_state s) \<noteq> [] \<and> approved_ids (g_state s) = []")
    case True
    then show ?thesis by (simp add: do_execute_def run_simps get_state_def R_refl)
  next
    case False
    obtain r t where l: "?loop s = (r, t)" by (cases "?loop s")
    with executes [of s] have st: "R s t" by simp
    with obeysD [OF rest, of t] have "R s (snd (ethen (upd (\<lambda>st. st\<lparr>st_current := Verify,
      st_status := RUNNING\<rparr>)) (save D) t))" by (blast intro: R_trans)
    with l st False show ?thesis
      by (cases r) (auto simp: do_execute_def run_simps get_state_def)
  qed
qed

lemma m_step: "obeys R (run_step D)"
proof -
  have "obeys R (case c of
        Classify \<Rightarrow> do_classify D
      | Plan \<Rightarrow> ethen (do_plan D) (eret False)
      | Resources \<Rightarrow> ethen (do_resources D) (eret False)
      | McpReads \<Rightarrow> ethen (do_mcp_reads D) (eret False)
      | A2aDelegate \<Rightarrow> ethen (do_delegate D) (eret False)
      | Correlate \<Rightarrow> ethen (do_correlate D) (eret False)
      | Findings \<Rightarrow> do_findings D
      | Propose \<Rightarrow> ethen (do_propose D) (eret False)
      | Policy \<Rightarrow> do_policy D
      | ApprovalPause \<Rightarrow> ethen (do_approval_pause D) (eret True)
      | ExecuteApproved \<Rightarrow> ethen (do_execute D) (eret False)
      | Verify \<Rightarrow> ethen (do_verify D) (eret False)
      | Complete \<Rightarrow> ethen (do_complete D) (eret True)
      | OtherState cur \<Rightarrow> eraise (RuntimeError (''unknown workflow state '' @ repr_str cur)))" for c
    by (cases c) (auto intro!: obeys_ret obeys_then obeys_raise m_classify m_plan m_resources m_reads
        m_delegate m_correlate m_findings m_policy m_verify m_propose m_pause m_execute m_complete)
  then show ?thesis unfolding run_step_def by (intro q_intros)
qed

end

section \<open>Views of the run state that reading and delegating keep\<close>

definition keeps :: "('s \<Rightarrow> 'b) \<Rightarrow> 's \<Rightarrow> 's \<Rightarrow> bool" where
  "keeps f s t \<longleftrightarrow> f t = f s"

interpretation keep: step_relation "keeps f" for f :: "'s \<Rightarrow> 'b"
  by unfold_locales (simp_all add: keeps_def)

lemma keeps_triple: "obeys (keeps f) m \<Longrightarrow> triple (\<lambda>s. P (f s)) m (\<lambda>_ s. P (f s)) (\<lambda>_ s. P (f s))"
  by (rule tripleI) (metis keeps_def obeys_eq)+

text \<open>Emitting and saving keep every view of the run state that ignores the event counter.\<close>

lemma keeps_emission:
  fixes f :: "RunState \<Rightarrow> 'b"
  assumes "\<And>st n. f (st\<lparr>st_event_sequence := n\<rparr>) = f st"
  shows "obeys (keeps (\<lambda>s. f (g_state s))) (emit D ty data)"
    and "obeys (keeps (\<lambda>s. f (g_state s))) (save D)"
    and "obeys (keeps (\<lambda>s. f (g_state s))) get_state"
proof -
  have p: "obeys (keeps (\<lambda>s. f (g_state s)))
      (upd (\<lambda>st. st\<lparr>st_event_sequence := st_event_sequence st + 1\<rparr>))"
    "obeys (keeps (\<lambda>s. f (g_state s))) (log_call lc)" "obeys (keeps (\<lambda>s. f (g_state s))) (on_world wm)"
    "obeys (keeps (\<lambda>s. f (g_state s))) (read_clock g)" "obeys (keeps (\<lambda>s. f (g_state s))) get_state"
    for lc wm g
    by (simp_all add: obeys_def keeps_def gm_prim_defs py_defs split_def assms)
  show "obeys (keeps (\<lambda>s. f (g_state s))) (emit D ty data)"
    unfolding emit_def emit_full_def by (intro keep.obeys_intros p)
  show "obeys (keeps (\<lambda>s. f (g_state s))) (save D)"
    unfolding save_def by (intro keep.obeys_intros p)
  show "obeys (keeps (\<lambda>s. f (g_state s))) get_state" by (rule p)
qed

locale state_view =
  fixes p :: "RunState \<Rightarrow> 'b" and D :: "'w graph_deps"
  assumes p_annot: "frame_core a = frame_core b \<Longrightarrow> p a = p b"
    and p_flag: "p (st\<lparr>st_cancelled := c\<rparr>) = p st"
    and p_seq: "p (st\<lparr>st_event_sequence := n\<rparr>) = p st"
    and p_usage: "p (st\<lparr>st_usage := u\<rparr>) = p st"
begin

abbreviation K :: "'w gst \<Rightarrow> 'w gst \<Rightarrow> bool" where
  "K \<equiv> keeps (\<lambda>s. p (g_state s))"

lemma k_prims:
  "obeys K (upd (\<lambda>st. st\<lparr>st_event_sequence := st_event_sequence st + 1\<rparr>))"
  "obeys K (upd_usage f)" "obeys K (log_call c)" "obeys K (on_world m)" "obeys K (read_clock g)"
  "obeys K (get_state)" "obeys K (on_breaker h)"
  by (simp_all add: obeys_def keeps_def upd_usage_def gm_prim_defs py_defs p_seq p_usage split_def)

lemmas k_intros = keep.obeys_intros k_prims

lemma k_emit: "obeys K (emit D ty data)"
  unfolding emit_def emit_full_def by (intro k_intros)

lemma k_check: "obeys K (check_cancel D)" "obeys K (check_budgets D)"
  unfolding check_cancel_def check_budgets_def
  by (intro k_intros keep.obeys_mod; simp add: keeps_def p_flag)+

lemma k_spend: "obeys K (spend_model D)" "obeys K (spend_tool D)" "obeys K (spend_delegation D)"
  unfolding spend_model_def spend_tool_def spend_delegation_def by (intro k_intros k_check)+

lemma k_attempt: "obeys K (mcp_attempt D t args)"
  unfolding mcp_attempt_def invoke_def by (intro k_intros k_check k_spend k_emit)

lemma k_quiet: "quiet_steps K D"
proof (rule quiet_steps.intro [OF keep.step_relation_axioms], rule quiet_steps_axioms.intro)
  fix s :: "'w gst" and st :: RunState
  assume "frame_core st = frame_core (g_state s)"
  then have "p st = p (g_state s)" by (rule p_annot)
  then show "K s (s\<lparr>g_state := st\<rparr>)" by (simp add: keeps_def)
qed (simp_all add: keeps_def p_flag k_emit)

lemma k_delegate_call: "obeys K (delegate_call D)"
  unfolding delegate_call_def call_delegate_def Let_def
  by (intro k_intros k_check k_spend k_emit quiet_steps.q_degrade [OF k_quiet]
      quiet_steps.q_delegate_result [OF k_quiet])

end

sublocale state_view \<subseteq> view: spending_steps K D
  by (intro spending_steps.intro spending_steps_axioms.intro k_quiet k_spend k_attempt k_delegate_call)

section \<open>The loop ends\<close>

text \<open>A pass that does not return moves to a later state.\<close>

fun wf_rank :: "wf_state \<Rightarrow> nat" where
  "wf_rank Classify = 13"
| "wf_rank Plan = 12"
| "wf_rank Resources = 11"
| "wf_rank McpReads = 10"
| "wf_rank A2aDelegate = 9"
| "wf_rank Correlate = 8"
| "wf_rank Findings = 7"
| "wf_rank Propose = 6"
| "wf_rank Policy = 5"
| "wf_rank ApprovalPause = 4"
| "wf_rank ExecuteApproved = 3"
| "wf_rank Verify = 2"
| "wf_rank Complete = 1"
| "wf_rank (OtherState s) = 0"

interpretation cur: state_view st_current D for D :: "'w graph_deps"
  by unfold_locales (simp_all add: frame_core_def)

abbreviation current :: "'w gst \<Rightarrow> wf_state" where
  "current s \<equiv> st_current (g_state s)"

text \<open>\<open>moves_to c m\<close>: wherever \<open>m\<close> returns, the run is in state \<open>c\<close>.\<close>

definition moves_to :: "wf_state \<Rightarrow> ('w, 'a) gm \<Rightarrow> bool" where
  "moves_to c m \<longleftrightarrow> (\<forall>s x t. m s = (Inr x, t) \<longrightarrow> current t = c)"

lemma moves_to_set: "moves_to c (set_current c)"
  by (simp add: moves_to_def set_current_def upd_def py_defs)

lemma moves_to_bind: "(\<And>x. moves_to c (f x)) \<Longrightarrow> moves_to c (ebind m f)"
  by (fastforce simp: moves_to_def ebind_def split: prod.splits sum.splits)

lemma moves_to_then: "moves_to c n \<Longrightarrow> moves_to c (ethen m n)"
  unfolding ethen_def by (rule moves_to_bind)

lemma moves_to_keep:
  assumes "moves_to c m" and "obeys (keeps current) n"
  shows "moves_to c (ethen m n)"
  unfolding moves_to_def
proof (intro allI impI)
  fix s x t
  assume "ethen m n s = (Inr x, t)"
  then obtain y u where m: "m s = (Inr y, u)" and n: "n u = (Inr x, t)"
    by (auto simp: run_then split: prod.splits sum.splits)
  from obeys_eq [OF assms(2) n] have "current t = current u" by (simp add: keeps_def)
  with m assms(1) show "current t = c" by (simp add: moves_to_def)
qed

lemma moves_to_raise: "moves_to c (eraise e)"
  by (simp add: moves_to_def eraise_def)

lemma moves_to_transition: "moves_to c (transition D c ty data)"
  unfolding transition_def
  by (intro moves_to_keep moves_to_set cur.view.q_intros)

lemmas moves_intros = moves_to_transition moves_to_bind moves_to_then

lemma plan_moves: "moves_to Resources (do_plan D)"
  unfolding do_plan_def by (intro moves_intros)

lemma resources_moves: "moves_to McpReads (do_resources D)"
  unfolding do_resources_def Let_def by (intro moves_intros)

lemma reads_moves: "moves_to A2aDelegate (do_mcp_reads D)"
  unfolding do_mcp_reads_def by (intro moves_intros)

lemma delegate_moves: "moves_to Correlate (do_delegate D)"
  unfolding do_delegate_def by (intro moves_intros)

lemma correlate_moves: "moves_to Findings (do_correlate D)"
  unfolding do_correlate_def Let_def
  by (intro moves_to_bind moves_to_then [of _ "ethen (upd _) _"] moves_to_then [of _ "ethen (save D) _"]
      moves_to_then [of _ "ethen (set_current Findings) _"] moves_to_keep moves_to_set cur.view.q_intros)

lemma propose_moves: "moves_to Policy (do_propose D)"
  unfolding do_propose_def Let_def by (intro moves_intros)

lemma execute_moves: "moves_to Verify (do_execute D)"
proof -
  have "moves_to Verify (upd (\<lambda>st. st\<lparr>st_current := Verify, st_status := RUNNING\<rparr>))"
    by (simp add: moves_to_def upd_def py_defs)
  then show ?thesis unfolding do_execute_def
    by (intro moves_to_bind moves_to_then [of _ "ethen (efor _ _) _"]
        moves_to_then [of _ "ethen (upd _) _"] moves_to_keep cur.view.q_intros)
qed

lemma verify_moves: "moves_to Complete (do_verify D)"
  unfolding do_verify_def Let_def by (intro moves_intros)

text \<open>The three steps that may return.\<close>

definition continues_in :: "wf_state \<Rightarrow> ('w, bool) gm \<Rightarrow> bool" where
  "continues_in c m \<longleftrightarrow> (\<forall>s t. m s = (Inr False, t) \<longrightarrow> current t = c)"

lemma continues_bind: "(\<And>x. continues_in c (f x)) \<Longrightarrow> continues_in c (ebind m f)"
  by (fastforce simp: continues_in_def ebind_def split: prod.splits sum.splits)

lemma continues_then: "continues_in c n \<Longrightarrow> continues_in c (ethen m n)"
  unfolding ethen_def by (rule continues_bind)

lemma continues_True: "continues_in c (eret True)"
  by (simp add: continues_in_def eret_def)

lemma continues_moves: "moves_to c m \<Longrightarrow> continues_in c m"
  by (simp add: continues_in_def moves_to_def)

lemma continues_if:
  "continues_in c m \<Longrightarrow> continues_in c n \<Longrightarrow> continues_in c (if b then m else n)"
  by simp

lemma continues_cond:
  assumes "moves_to c m" and "continues_in c n"
  shows "continues_in c (ethen m (if b then n else eret False))"
proof (cases b)
  case False
  have "moves_to c (ethen m (eret False))"
    by (intro moves_to_keep assms(1) keep.obeys_ret)
  with False show ?thesis by (simp add: continues_moves)
qed (simp add: assms(2) continues_then)

lemma classify_continues: "continues_in Plan (do_classify D)"
  unfolding do_classify_def Let_def
  by (intro continues_bind continues_then [of _ "ebind _ _"] continues_then [of _ "ethen _ _"]
      continues_cond moves_to_transition continues_True continues_then)

lemma findings_continues: "continues_in Propose (do_findings D)"
proof -
  have "moves_to Propose (ethen (set_current Propose) (ethen (save D) (eret False)))"
    by (intro moves_to_keep moves_to_set cur.view.q_intros)
  then show ?thesis unfolding do_findings_def publish_findings_def ask_more_info_def
    by (intro continues_bind continues_then continues_if continues_True continues_moves)
qed

lemma policy_continues: "continues_in ApprovalPause (do_policy D)"
proof -
  have "moves_to ApprovalPause (ethen (set_current ApprovalPause) (ethen (save D) (eret False)))"
    by (intro moves_to_keep moves_to_set cur.view.q_intros)
  then show ?thesis unfolding do_policy_def apply_decisions_def explain_denial_def Let_def
    by (intro continues_bind continues_then continues_if continues_True continues_moves)
qed

lemma moves_false:
  assumes "moves_to c m" and "ethen m (eret False) s = (Inr False, t)" shows "current t = c"
proof -
  have "moves_to c (ethen m (eret False))" by (intro moves_to_keep assms(1) keep.obeys_ret)
  with assms(2) show ?thesis by (simp add: moves_to_def)
qed

lemma pass_true_false: "ethen m (eret True) s \<noteq> (Inr False, t)"
  by (auto simp: run_then eret_def split: prod.splits sum.splits)

text \<open>Where a pass that does not return goes, state by state.\<close>

fun next_state :: "wf_state \<Rightarrow> wf_state option" where
  "next_state Classify = Some Plan"
| "next_state Plan = Some Resources"
| "next_state Resources = Some McpReads"
| "next_state McpReads = Some A2aDelegate"
| "next_state A2aDelegate = Some Correlate"
| "next_state Correlate = Some Findings"
| "next_state Findings = Some Propose"
| "next_state Propose = Some Policy"
| "next_state Policy = Some ApprovalPause"
| "next_state ExecuteApproved = Some Verify"
| "next_state Verify = Some Complete"
| "next_state _ = None"

lemma run_step_next:
  assumes "run_step D s = (Inr False, t)"
  shows "next_state (current s) = Some (current t)"
proof -
  have k: "obeys (keeps current) (ethen (check_cancel D) (check_budgets D))"
    by (intro keep.obeys_then cur.view.q_check_cancel cur.view.q_check_budgets)
  from assms obtain u where pre: "ethen (check_cancel D) (check_budgets D) s = (Inr (), u)"
    and body: "(case current u of
        Classify \<Rightarrow> do_classify D
      | Plan \<Rightarrow> ethen (do_plan D) (eret False)
      | Resources \<Rightarrow> ethen (do_resources D) (eret False)
      | McpReads \<Rightarrow> ethen (do_mcp_reads D) (eret False)
      | A2aDelegate \<Rightarrow> ethen (do_delegate D) (eret False)
      | Correlate \<Rightarrow> ethen (do_correlate D) (eret False)
      | Findings \<Rightarrow> do_findings D
      | Propose \<Rightarrow> ethen (do_propose D) (eret False)
      | Policy \<Rightarrow> do_policy D
      | ApprovalPause \<Rightarrow> ethen (do_approval_pause D) (eret True)
      | ExecuteApproved \<Rightarrow> ethen (do_execute D) (eret False)
      | Verify \<Rightarrow> ethen (do_verify D) (eret False)
      | Complete \<Rightarrow> ethen (do_complete D) (eret True)
      | OtherState cur \<Rightarrow> eraise (RuntimeError (''unknown workflow state '' @ repr_str cur))) u
      = (Inr False, t)"
    by (auto simp: run_step_def run_then run_bind get_state_def run_get split: prod.splits sum.splits)
  from obeys_eq [OF k pre] have "current u = current s" by (simp add: keeps_def)
  then show ?thesis using body
    by (cases "current s")
      (auto simp: pass_true_false run_raise
        dest!: moves_false [rotated, OF _ plan_moves] moves_false [rotated, OF _ resources_moves]
          moves_false [rotated, OF _ reads_moves] moves_false [rotated, OF _ delegate_moves]
          moves_false [rotated, OF _ correlate_moves] moves_false [rotated, OF _ propose_moves]
          moves_false [rotated, OF _ execute_moves] moves_false [rotated, OF _ verify_moves]
          classify_continues [unfolded continues_in_def, rule_format]
          findings_continues [unfolded continues_in_def, rule_format]
          policy_continues [unfolded continues_in_def, rule_format])
qed

lemma next_state_rank: "next_state c = Some c' \<Longrightarrow> wf_rank c' < wf_rank c"
  by (cases c) auto

lemma run_step_rank: "run_step D s = (Inr False, t) \<Longrightarrow> wf_rank (current t) < wf_rank (current s)"
  by (auto dest: run_step_next next_state_rank)

section \<open>Running and resuming\<close>

function run_loop :: "'w graph_deps \<Rightarrow> ('w, unit) gm" where
  "run_loop D s = (case run_step D s of
     (Inl e, t) \<Rightarrow> (Inl e, t)
   | (Inr True, t) \<Rightarrow> (Inr (), t)
   | (Inr False, t) \<Rightarrow> run_loop D t)"
  by pat_completeness auto
termination
  by (relation "measure (\<lambda>(D, s). wf_rank (current s))") (auto dest: run_step_rank [OF sym])

declare run_loop.simps [simp del]

definition error_dict :: "ErrorCode \<Rightarrow> string \<Rightarrow> pydict" where
  "error_dict code msg = [(''code'', PStr (ErrorCode_value code)), (''message'', PStr msg),
     (''retryable'', PBool False)]"

definition on_cancelled :: "'w graph_deps \<Rightarrow> ('w, unit) gm" where
  "on_cancelled D =
     ethen (upd (\<lambda>st. st\<lparr>st_status := CANCELLED, st_outcome := Some ''cancelled''\<rparr>))
     (ethen (emit D RUN_CANCELLED [(''reason'', PStr ''cancel requested'')])
     (ethen (save D)
     (case d_cancel D of
        None \<Rightarrow> eret ()
      | Some cancel \<Rightarrow> ebind get_state (\<lambda>st.
          etry (on_world (cancel (st_run_id st @ ''-obs-1''))) (\<lambda>_. eret ())))))"

definition set_failed :: "ErrorCode \<Rightarrow> string \<Rightarrow> ('w, unit) gm" where
  "set_failed code msg = upd (\<lambda>st. st\<lparr>st_status := FAILED, st_outcome := Some ''failed'',
     st_error := Some (error_dict code msg)\<rparr>)"

definition report_failed :: "'w graph_deps \<Rightarrow> ErrorCode \<Rightarrow> string \<Rightarrow> ('w, unit) gm" where
  "report_failed D code msg =
     ethen (emit D RUN_FAILED [(''error'', PDict (error_dict code msg))]) (save D)"

text \<open>The three handlers of \<open>run\<close>.\<close>

definition run_handler :: "'w graph_deps \<Rightarrow> pyexc \<Rightarrow> ('w, unit) gm" where
  "run_handler D e =
     (if exc_class e = ERunCancelled then on_cancelled D
      else if exc_class e = EBudgetExceeded then
        ethen (set_failed BUDGET_EXCEEDED (exc_msg e)) (report_failed D BUDGET_EXCEEDED (exc_msg e))
      else
        ethen (set_failed INTERNAL_ERROR (safe_error (Some e)))
          (etry (report_failed D INTERNAL_ERROR (safe_error (Some e))) (\<lambda>_. eret ())))"

definition run :: "'w graph_deps \<Rightarrow> ('w, unit) gm" where
  "run D =
     ethen (ebind get_state (\<lambda>st. ewhen (st_status st = CREATED)
       (ethen (upd (\<lambda>st. st\<lparr>st_status := RUNNING\<rparr>))
         (transition D Classify RUN_STARTED [(''objective'', PStr (st_objective st))]))))
     (etry (run_loop D) (run_handler D))"

definition decide_all :: "string \<Rightarrow> string \<Rightarrow> string option \<Rightarrow> ('w, unit) gm" where
  "decide_all decision approver reason = upd (\<lambda>st. st\<lparr>st_approvals :=
     map (\<lambda>a. a\<lparr>wa_decision := decision, wa_decided_by := Some (approver, reason)\<rparr>) (st_approvals st)\<rparr>)"

definition resume_after_approval ::
  "'w graph_deps \<Rightarrow> string \<Rightarrow> string \<Rightarrow> string option \<Rightarrow> ('w, unit) gm" where
  "resume_after_approval D decision0 approver reason =
     ebind get_state (\<lambda>st.
     ethen (elift (check (st_current st = ApprovalPause \<and> st_status st = WAITING_FOR_APPROVAL)
       (ValueError ''run is not awaiting approval'')))
     (let decision = lower decision0 in
      ethen (elift (check (decision \<in> {''approved'', ''rejected'', ''expired''})
        (ValueError ''decision must be approved|rejected|expired'')))
      (if decision = ''approved'' then
         ethen (decide_all ''approved'' approver reason)
         (ethen (emit D APPROVAL_RECEIVED
            [(''decision'', PStr ''approved''), (''approver'', PStr approver)])
         (ethen (save D)
         (ethen (set_current ExecuteApproved) (run D))))
       else
         ethen (decide_all (if decision = ''rejected'' then ''rejected'' else ''expired'') approver reason)
         (ethen (upd (\<lambda>st. st\<lparr>st_outcome := Some ''rejected'', st_status := COMPLETED\<rparr>))
         (ethen (emit D APPROVAL_RECEIVED
            [(''decision'', PStr decision), (''approver'', PStr approver)])
         (transition D Complete RUN_COMPLETED
            [(''outcome'', PStr ''rejected''), (''executed'', PBool False),
             (''note'', PStr (''approval '' @ decision @ ''; no actions executed''))]))))))"

context moving_steps
begin

lemma m_failed: "obeys R (set_failed code msg)"
proof (rule obeysI)
  fix s :: "'w gst"
  let ?t = "s\<lparr>g_state := (g_state s)\<lparr>st_outcome := Some ''failed'', st_status := FAILED\<rparr>\<rparr>"
  have "R ?t (?t\<lparr>g_state := (g_state ?t)\<lparr>st_error := Some (error_dict code msg)\<rparr>\<rparr>)"
    by (rule annot) (simp add: frame_core_def)
  with statuses [of s FAILED "Some ''failed''"] have "R s (?t\<lparr>g_state := (g_state ?t)
      \<lparr>st_error := Some (error_dict code msg)\<rparr>\<rparr>)" by (rule R_trans)
  then show "R s (snd (set_failed code msg s))" by (simp add: set_failed_def upd_def emod_def status_outcome_commute)
qed

lemma m_report: "obeys R (report_failed D code msg)"
  unfolding report_failed_def by (intro m_intros)

lemma m_cancelled: "obeys R (on_cancelled D)"
  unfolding on_cancelled_def status_outcome_commute by (intro m_intros; (rule world_moves.cancel, assumption))

lemma m_handler: "obeys R (run_handler D e)"
  unfolding run_handler_def by (intro m_intros m_failed m_report m_cancelled)

lemma m_decide: "obeys R (decide_all d a r)"
  by (simp add: obeys_def decide_all_def upd_def emod_def approvals)

lemma m_start: "obeys R (ebind get_state (\<lambda>st. ewhen (st_status st = CREATED)
       (ethen (upd (\<lambda>st. st\<lparr>st_status := RUNNING\<rparr>))
         (transition D Classify RUN_STARTED [(''objective'', PStr (st_objective st))]))))"
  by (intro m_intros)

end

context driving_steps
begin

lemma m_loop: "obeys R (run_loop D)"
proof (rule obeysI)
  have "obeys R (run_step D') \<Longrightarrow> R s (snd (run_loop D' s))" for D' s
  proof (induction D' s rule: run_loop.induct)
    case (1 D' s)
    obtain r t where st: "run_step D' s = (r, t)" by (cases "run_step D' s")
    from obeys_eq [OF "1.prems" st] have R: "R s t" .
    show ?case
    proof (cases r)
      case (Inr b)
      show ?thesis
      proof (cases b)
        case False
        with "1.IH" st Inr "1.prems" have "R t (snd (run_loop D' t))" by simp
        with R st Inr False show ?thesis by (subst run_loop.simps) (auto intro: R_trans)
      qed (use R st Inr in \<open>subst run_loop.simps, simp\<close>)
    qed (use R st in \<open>subst run_loop.simps, simp\<close>)
  qed
  then show "R s (snd (run_loop D s))" for s using m_step by blast
qed

lemma m_run: "obeys R (run D)"
  unfolding run_def by (intro obeys_then obeys_try m_start m_loop m_handler)

lemma m_resume: "obeys R (resume_after_approval D d a r)"
  unfolding resume_after_approval_def Let_def by (intro m_intros m_decide m_run)

end

end
