(* ===== verification/GraphSafety.thy ===== *)
theory GraphSafety
  imports GraphRun
begin

text \<open>
  What every run of the graph guarantees, whatever its clients do. The relations of this theory
  interpret the locales of the driver: \<open>safe_step\<close> (calls are authorised and within budget, and
  the number of calls is bounded), \<open>reads_only\<close> (what happens before an approval) and \<open>event_step\<close>
  (the event stream). The properties follow from the interpretations.
\<close>

section \<open>Calls\<close>

definition within_budget :: "RunState \<Rightarrow> bool" where
  "within_budget st \<longleftrightarrow> usage_checks (st_limits st) (st_usage st) = Inr ()"

lemma within_budget_iff:
  "within_budget st \<longleftrightarrow>
     model_calls (st_usage st) \<le> max_model_calls (st_limits st) \<and>
     tool_calls (st_usage st) \<le> max_tool_calls (st_limits st) \<and>
     delegations (st_usage st) \<le> max_delegations (st_limits st) \<and>
     input_tokens (st_usage st) \<le> max_input_tokens (st_limits st) \<and>
     output_tokens (st_usage st) \<le> max_output_tokens (st_limits st) \<and>
     max (delegations (st_usage st)) (delegation_depth (st_usage st)) \<le> max_delegation_depth (st_limits st) \<and>
     cost_usd (st_usage st) \<le> max_cost_usd (st_limits st) + 1 / 10 ^ 9"
  by (auto simp: within_budget_def usage_checks_def rbind_Inr_iff)

text \<open>The call carries out a proposed action whose approval row says so.\<close>

definition approved_write :: "string \<Rightarrow> pydict \<Rightarrow> RunState \<Rightarrow> bool" where
  "approved_write tool args st =
     list_ex (\<lambda>a. pa_tool_name a = tool \<and> pa_input a = args \<and> pa_action_id a \<in> set (approved_ids st))
       (st_proposed_actions st)"

definition in_registry :: "string \<Rightarrow> bool" where
  "in_registry tool = (case map_of TOOL_REGISTRY tool of
     None \<Rightarrow> False | Some spec \<Rightarrow> ts_category spec \<noteq> DESTRUCTIVE)"

definition ready :: "RunState \<Rightarrow> bool" where
  "ready st \<longleftrightarrow> within_budget st \<and> \<not> st_cancelled st"

fun call_ok :: "gcall \<times> RunState \<Rightarrow> bool" where
  "call_ok (CInvoke tool args, st) =
     (ready st \<and> in_registry tool \<and> (tool \<in> set READ_TOOLS \<or> approved_write tool args st))"
| "call_ok (CDelegate req, st) = ready st"
| "call_ok (c, st) = True"

fun is_invoke :: "gcall \<times> RunState \<Rightarrow> bool" where
  "is_invoke (CInvoke t a, st) = True" | "is_invoke _ = False"

fun is_delegate :: "gcall \<times> RunState \<Rightarrow> bool" where
  "is_delegate (CDelegate r, st) = True" | "is_delegate _ = False"

definition invokes :: "'w gst \<Rightarrow> int" where
  "invokes s = int (length (filter is_invoke (g_trace s)))"

definition delegates :: "'w gst \<Rightarrow> int" where
  "delegates s = int (length (filter is_delegate (g_trace s)))"

text \<open>Calls never exceed what was billed, nor the limits.\<close>

definition calls_bounded :: "'w gst \<Rightarrow> bool" where
  "calls_bounded s \<longleftrightarrow>
     invokes s \<le> tool_calls (st_usage (g_state s)) \<and>
     invokes s \<le> max 0 (max_tool_calls (st_limits (g_state s))) \<and>
     delegates s \<le> delegations (st_usage (g_state s)) \<and>
     delegates s \<le> max 0 (max_delegations (st_limits (g_state s)))"

definition safe_step :: "'w gst \<Rightarrow> 'w gst \<Rightarrow> bool" where
  "safe_step s t \<longleftrightarrow>
     (\<exists>xs. g_trace t = g_trace s @ xs \<and> list_all call_ok xs) \<and>
     st_limits (g_state t) = st_limits (g_state s) \<and> (calls_bounded s \<longrightarrow> calls_bounded t)"

interpretation safe: step_relation safe_step
proof
  fix s t u :: "'w gst"
  show "safe_step s s" by (simp add: safe_step_def)
  assume "safe_step s t" and "safe_step t u"
  then show "safe_step s u" unfolding safe_step_def by (auto simp del: list_all_append) auto
qed

text \<open>A change that adds no call, keeps the limits and lowers no count is safe.\<close>

lemma safe_silent:
  assumes "g_trace t = g_trace s @ xs" and "list_all (\<lambda>c. \<not> is_invoke c \<and> \<not> is_delegate c) xs"
    and "st_limits (g_state t) = st_limits (g_state s)"
    and "tool_calls (st_usage (g_state s)) \<le> tool_calls (st_usage (g_state t))"
    and "delegations (st_usage (g_state s)) \<le> delegations (st_usage (g_state t))"
  shows "safe_step s t"
proof -
  have "call_ok c" if "\<not> is_invoke c \<and> \<not> is_delegate c" for c
    using that by (cases c rule: call_ok.cases) auto
  with assms(2) have "list_all call_ok xs" by (auto simp: list_all_iff)
  moreover from assms(2) have "filter is_invoke xs = []" "filter is_delegate xs = []"
    by (simp_all add: filter_empty_conv list_all_iff)
  ultimately show ?thesis
    using assms by (auto simp: safe_step_def calls_bounded_def invokes_def delegates_def)
qed

lemma safe_same_trace:
  "g_trace t = g_trace s \<Longrightarrow> st_limits (g_state t) = st_limits (g_state s) \<Longrightarrow>
   st_usage (g_state t) = st_usage (g_state s) \<Longrightarrow> safe_step s t"
  by (rule safe_silent [where xs = "[]"]) simp_all

section \<open>Emission leaves everything but the event counter alone\<close>

text \<open>The view of the state that emitting, saving and reading clocks keep.\<close>

definition em_view :: "RunState \<Rightarrow> _" where
  "em_view st = (st_limits st, st_usage st, st_cancelled st, st_proposed_actions st, st_approvals st,
     st_status st, st_current st, st_outcome st, st_run_id st, st_tenant_id st, st_trace_id st,
     st_correlation_id st)"

lemma emit_view: "obeys (keeps (\<lambda>s. em_view (g_state s))) (emit D ty data)"
  by (rule keeps_emission) (simp add: em_view_def)

lemma clock_view: "obeys (keeps (\<lambda>s. em_view (g_state s))) (read_clock f)"
  by (simp add: obeys_def keeps_def gm_prim_defs py_defs split_def)

lemma emit_trace: "\<exists>xs. g_trace (snd (emit D ty data s)) = g_trace s @ xs \<and>
    list_all (\<lambda>c. \<not> is_invoke c \<and> \<not> is_delegate c) xs"
  by (auto simp: emit_def emit_full_def run_simps gm_prim_defs split_def split: sum.splits)

lemma safe_emit: "obeys safe_step (emit D ty data)"
proof (rule obeysI)
  fix s
  obtain xs where xs: "g_trace (snd (emit D ty data s)) = g_trace s @ xs"
    "list_all (\<lambda>c. \<not> is_invoke c \<and> \<not> is_delegate c) xs" using emit_trace by blast
  from obeysD [OF emit_view [of D ty data], of s]
  show "safe_step s (snd (emit D ty data s))"
    by (intro safe_silent [OF xs]) (simp_all add: keeps_def em_view_def)
qed

lemma safe_prims:
  "obeys safe_step (on_world m)" "obeys safe_step (read_clock f)"
  by (rule obeysI, simp add: gm_prim_defs split_def safe_same_trace)+

interpretation safe: quiet_steps safe_step D for D :: "'w graph_deps"
proof (rule quiet_steps.intro [OF safe.step_relation_axioms], rule quiet_steps_axioms.intro)
  fix s :: "'w gst" and a
  show "safe_step s (s\<lparr>g_trace := g_trace s @ [(CSave, g_state s)]\<rparr>)"
    by (rule safe_silent [where xs = "[(CSave, g_state s)]"]) simp_all
  show "safe_step s (s\<lparr>g_trace := g_trace s @ [(CPolicy a, g_state s)]\<rparr>)"
    by (rule safe_silent [where xs = "[(CPolicy a, g_state s)]"]) simp_all
qed (auto simp: frame_core_def intro: safe_same_trace safe_emit)

section \<open>Spending, then calling\<close>

lemma check_cancel_run:
  "check_cancel D s = (r, t) \<Longrightarrow>
     g_trace t = g_trace s \<and> frame_core (g_state t) = frame_core ((g_state s)\<lparr>st_cancelled := st_cancelled (g_state t)\<rparr>) \<and>
     (r = Inr () \<longrightarrow> \<not> st_cancelled (g_state t))"
  by (auto simp: check_cancel_def run_simps get_state_def frame_core_def check_def split: if_splits)

lemma check_budgets_run:
  "check_budgets D s = (r, t) \<Longrightarrow>
     g_trace t = g_trace s \<and> g_state t = g_state s \<and> (r = Inr () \<longrightarrow> within_budget (g_state s))"
  by (auto simp: check_budgets_def run_simps gm_prim_defs within_budget_def split_def
      split: sum.splits if_splits)

text \<open>What holds between a successful \<open>_spend_tool\<close> and the call it pays for.\<close>

definition paid_tool :: "'w gst \<Rightarrow> 'w gst \<Rightarrow> bool" where
  "paid_tool s t \<longleftrightarrow> safe_step s t \<and> ready (g_state t) \<and>
     (calls_bounded s \<longrightarrow> calls_bounded t \<and> invokes t < tool_calls (st_usage (g_state t)))"

definition paid_delegation :: "'w gst \<Rightarrow> 'w gst \<Rightarrow> bool" where
  "paid_delegation s t \<longleftrightarrow> safe_step s t \<and> ready (g_state t) \<and>
     (calls_bounded s \<longrightarrow> calls_bounded t \<and> delegates t < delegations (st_usage (g_state t)))"

lemma spend_tool_run:
  assumes "spend_tool D s = (r, t)"
  shows "safe_step s t" and "r = Inr () \<Longrightarrow> \<not> st_cancelled (g_state s) \<Longrightarrow> paid_tool s t"
proof -
  let ?u = "s\<lparr>g_state := (g_state s)\<lparr>st_usage := (st_usage (g_state s))\<lparr>
    tool_calls := tool_calls (st_usage (g_state s)) + 1,
    cost_usd := py_round 4 (cost_usd (st_usage (g_state s)) + TOOL_COST_USD)\<rparr>\<rparr>\<rparr>"
  from assms have "check_budgets D ?u = (r, t)"
    by (simp add: spend_tool_def upd_usage_def upd_def run_simps)
  note c = check_budgets_run [OF this]
  then show s: "safe_step s t" by (intro safe_silent [where xs = "[]"]) simp_all
  assume "r = Inr ()" and "\<not> st_cancelled (g_state s)"
  with c s show "paid_tool s t"
    by (auto simp: paid_tool_def ready_def safe_step_def calls_bounded_def invokes_def)
qed

lemma spend_model_run:
  assumes "spend_model D s = (r, t)" shows "safe_step s t"
proof -
  let ?u = "s\<lparr>g_state := (g_state s)\<lparr>st_usage := (st_usage (g_state s))\<lparr>
    model_calls := model_calls (st_usage (g_state s)) + 1,
    cost_usd := py_round 4 (cost_usd (st_usage (g_state s)) + MODEL_COST_USD)\<rparr>\<rparr>\<rparr>"
  from assms have "check_budgets D ?u = (r, t)"
    by (simp add: spend_model_def upd_usage_def upd_def run_simps)
  from check_budgets_run [OF this] show ?thesis
    by (intro safe_silent [where xs = "[]"]) simp_all
qed

lemma spend_delegation_run:
  assumes "spend_delegation D s = (r, t)"
  shows "safe_step s t" and "r = Inr () \<Longrightarrow> \<not> st_cancelled (g_state s) \<Longrightarrow> paid_delegation s t"
proof -
  let ?u = "s\<lparr>g_state := (g_state s)\<lparr>st_usage := (st_usage (g_state s))\<lparr>
    delegations := delegations (st_usage (g_state s)) + 1,
    delegation_depth := delegation_depth (st_usage (g_state s)) + 1,
    cost_usd := py_round 4 (cost_usd (st_usage (g_state s)) + DELEGATION_COST_USD)\<rparr>\<rparr>\<rparr>"
  from assms have "check_budgets D ?u = (r, t)"
    by (simp add: spend_delegation_def upd_usage_def upd_def run_simps)
  note c = check_budgets_run [OF this]
  then show s: "safe_step s t" by (intro safe_silent [where xs = "[]"]) simp_all
  assume "r = Inr ()" and "\<not> st_cancelled (g_state s)"
  with c s show "paid_delegation s t"
    by (auto simp: paid_delegation_def ready_def safe_step_def calls_bounded_def delegates_def)
qed

text \<open>Emitting and reading a clock between the payment and the call change none of this.\<close>

lemma view_paid:
  assumes "obeys (keeps (\<lambda>s. em_view (g_state s))) m" and "obeys safe_step m"
    and "\<And>s. filter (\<lambda>c. is_invoke c \<or> is_delegate c) (g_trace (snd (m s)))
             = filter (\<lambda>c. is_invoke c \<or> is_delegate c) (g_trace s)"
    and "m s = (r, t)"
  shows "paid_tool u s \<Longrightarrow> paid_tool u t" and "paid_delegation u s \<Longrightarrow> paid_delegation u t"
proof -
  from assms(1,4) have v: "em_view (g_state t) = em_view (g_state s)"
    by (auto dest: obeys_eq simp: keeps_def)
  from assms(2,4) have st: "safe_step s t" by (rule obeys_eq)
  have f: "filter is_invoke xs = filter is_invoke (filter (\<lambda>c. is_invoke c \<or> is_delegate c) xs)"
    "filter is_delegate xs = filter is_delegate (filter (\<lambda>c. is_invoke c \<or> is_delegate c) xs)" for xs
    by (induction xs) auto
  from assms(3) [of s] assms(4) have "invokes t = invokes s" "delegates t = delegates s"
    unfolding invokes_def delegates_def f [of "g_trace t"] f [of "g_trace s"] by simp_all
  with v st show "paid_tool u s \<Longrightarrow> paid_tool u t" "paid_delegation u s \<Longrightarrow> paid_delegation u t"
    by (auto simp: paid_tool_def paid_delegation_def em_view_def ready_def within_budget_def
        calls_bounded_def intro: safe.R_trans)
qed

lemma paid_emit:
  assumes "emit D ty data s = (r, t)"
  shows "paid_tool u s \<Longrightarrow> paid_tool u t" and "paid_delegation u s \<Longrightarrow> paid_delegation u t"
proof -
  have "filter (\<lambda>c. is_invoke c \<or> is_delegate c) (g_trace (snd (emit D ty data s)))
      = filter (\<lambda>c. is_invoke c \<or> is_delegate c) (g_trace s)" for s
    using emit_trace [of D ty data s] by (auto simp: filter_empty_conv list_all_iff)
  from view_paid [OF emit_view safe_emit this assms]
  show "paid_tool u s \<Longrightarrow> paid_tool u t" "paid_delegation u s \<Longrightarrow> paid_delegation u t" by blast+
qed

lemma paid_clock:
  assumes "read_clock f s = (r, t)"
  shows "paid_tool u s \<Longrightarrow> paid_tool u t" and "paid_delegation u s \<Longrightarrow> paid_delegation u t"
proof -
  have "g_trace (snd (read_clock f s)) = g_trace s" for s
    by (simp add: gm_prim_defs split_def)
  then have *: "filter (\<lambda>c. is_invoke c \<or> is_delegate c) (g_trace (snd (read_clock f s)))
      = filter (\<lambda>c. is_invoke c \<or> is_delegate c) (g_trace s)" for s by simp
  from view_paid [OF clock_view safe_prims(2) * assms]
  show "paid_tool u s \<Longrightarrow> paid_tool u t" "paid_delegation u s \<Longrightarrow> paid_delegation u t" by blast+
qed

lemma invoke_paid:
  assumes "invoke D tool args s = (r, t)" and "paid_tool u s" and "in_registry tool"
    and "tool \<in> set READ_TOOLS \<or> approved_write tool args (g_state s)"
  shows "safe_step u t"
proof -
  from assms(1) have "g_trace t = g_trace s @ [(CInvoke tool args, g_state s)]"
    and "g_state t = g_state s"
    by (auto simp: invoke_def gm_prim_defs run_simps split_def)
  moreover from assms(2) have "ready (g_state s)" and "safe_step u s"
    and "calls_bounded u \<Longrightarrow> calls_bounded s \<and> invokes s < tool_calls (st_usage (g_state s))"
    by (auto simp: paid_tool_def)
  moreover from \<open>ready (g_state s)\<close>
  have "tool_calls (st_usage (g_state s)) \<le> max_tool_calls (st_limits (g_state s))"
    by (simp add: ready_def within_budget_iff)
  ultimately show ?thesis using assms(3,4)
    by (auto simp: safe_step_def calls_bounded_def invokes_def delegates_def)
qed

lemma delegate_paid:
  assumes "call_delegate D req s = (r, t)" and "paid_delegation u s"
  shows "safe_step u t"
proof -
  from assms(1) have "g_trace t = g_trace s @ [(CDelegate req, g_state s)]"
    and "g_state t = g_state s"
    by (auto simp: call_delegate_def gm_prim_defs run_simps split_def)
  moreover from assms(2) have "ready (g_state s)" and "safe_step u s"
    and "calls_bounded u \<Longrightarrow> calls_bounded s \<and> delegates s < delegations (st_usage (g_state s))"
    by (auto simp: paid_delegation_def)
  moreover from \<open>ready (g_state s)\<close>
  have "delegations (st_usage (g_state s)) \<le> max_delegations (st_limits (g_state s))"
    by (simp add: ready_def within_budget_iff)
  ultimately show ?thesis
    by (auto simp: safe_step_def calls_bounded_def invokes_def delegates_def)
qed

text \<open>The same as triples from a fixed first state \<open>u\<close>.\<close>

lemma paid_trans: "safe_step u s \<Longrightarrow> paid_tool s t \<Longrightarrow> paid_tool u t"
  "safe_step u s \<Longrightarrow> paid_delegation s t \<Longrightarrow> paid_delegation u t"
  by (auto simp: paid_tool_def paid_delegation_def intro: safe.R_trans) (auto simp: safe_step_def)

lemma t_check_cancel:
  "triple (safe_step u) (check_cancel D) (\<lambda>_ s. safe_step u s \<and> \<not> st_cancelled (g_state s)) (\<lambda>_. safe_step u)"
proof (rule tripleI)
  fix s x t
  assume "safe_step u s" and r: "check_cancel D s = (Inr x, t)"
  then show "safe_step u t \<and> \<not> st_cancelled (g_state t)"
    using obeys_eq [OF safe.q_check_cancel r] check_cancel_run [OF r] by (auto intro: safe.R_trans)
qed (use obeys_eq [OF safe.q_check_cancel] safe.R_trans in blast)

lemma t_spend_tool:
  "triple (\<lambda>s. safe_step u s \<and> \<not> st_cancelled (g_state s)) (spend_tool D) (\<lambda>_. paid_tool u) (\<lambda>_. safe_step u)"
  by (rule tripleI) (auto dest: spend_tool_run intro: paid_trans safe.R_trans)

lemma t_spend_delegation:
  "triple (\<lambda>s. safe_step u s \<and> \<not> st_cancelled (g_state s)) (spend_delegation D)
     (\<lambda>_. paid_delegation u) (\<lambda>_. safe_step u)"
  by (rule tripleI) (auto dest: spend_delegation_run intro: paid_trans safe.R_trans)

lemma t_clock:
  "triple (paid_tool u) (read_clock f) (\<lambda>_. paid_tool u) (\<lambda>_. safe_step u)"
  "triple (paid_delegation u) (read_clock f) (\<lambda>_. paid_delegation u) (\<lambda>_. safe_step u)"
  by (rule tripleI; auto dest: paid_clock simp: paid_tool_def paid_delegation_def)+

lemma t_emit:
  "triple (paid_tool u) (emit D ty data) (\<lambda>_. paid_tool u) (\<lambda>_. safe_step u)"
  "triple (paid_delegation u) (emit D ty data) (\<lambda>_. paid_delegation u) (\<lambda>_. safe_step u)"
  by (rule tripleI; auto dest: paid_emit simp: paid_tool_def paid_delegation_def)+

lemma t_invoke:
  "in_registry tool \<Longrightarrow> tool \<in> set READ_TOOLS \<Longrightarrow>
     triple (paid_tool u) (invoke D tool args) (\<lambda>_. safe_step u) (\<lambda>_. safe_step u)"
  by (rule tripleI) (blast dest: invoke_paid)+

lemma t_invoke_approved:
  "in_registry tool \<Longrightarrow>
     triple (\<lambda>s. paid_tool u s \<and> approved_write tool args (g_state s)) (invoke D tool args)
       (\<lambda>_. safe_step u) (\<lambda>_. safe_step u)"
  by (rule tripleI) (blast dest: invoke_paid)+

lemma t_delegate:
  "triple (paid_delegation u) (call_delegate D req) (\<lambda>_. safe_step u) (\<lambda>_. safe_step u)"
  by (rule tripleI) (blast dest: delegate_paid)+

lemma read_tools_registered: "tool \<in> set READ_TOOLS \<Longrightarrow> in_registry tool"
  by (auto simp: READ_TOOLS_def TOOL_REGISTRY_def catalog_defs spec_from_catalog_def in_registry_def)

lemma safe_attempt:
  fixes D :: "'w graph_deps"
  assumes r: "tool \<in> set READ_TOOLS"
  shows "obeys safe_step (mcp_attempt D tool args)"
proof (rule safe.triple_obeys)
  fix u :: "'w gst"
  have rest: "obeys safe_step (ebind (elift (reject_malformed (d_env D) tool raw)) (\<lambda>out.
      ethen (on_breaker (record_success ''mcp''))
      (ebind (read_clock (d_monotonic D)) (\<lambda>ended.
      ethen (emit D TOOL_COMPLETED [(''tool_name'', PStr tool), (''status'', PStr ''succeeded''),
               (''latency_s'', PFloat (py_round 4 (ended - started)))])
      (eret out)))))" for raw started
    by (intro safe_prims safe.q_intros)
  show "triple (safe_step u) (mcp_attempt D tool args) (\<lambda>_. safe_step u) (\<lambda>_. safe_step u)"
    unfolding mcp_attempt_def
    by (rule triple_then [OF triple_then [OF triple_bind [OF triple_bind [OF safe.obeys_triple [OF rest]
        t_invoke [OF read_tools_registered [OF r] r]] t_clock(1)] t_spend_tool] t_check_cancel])
qed

lemma safe_delegate_call:
  fixes D :: "'w graph_deps"
  shows "obeys safe_step (delegate_call D)"
proof (rule safe.triple_obeys)
  fix u :: "'w gst"
  have degrade: "triple (safe_step u) (if exc_class e \<in> {ETimeout, EConnection} then
        ethen (degrade (f e)) (eret None)
      else if exc_class e = ERunCancelled then eraise e
      else ethen (degrade (g e)) (eret None)) (\<lambda>_. safe_step u) (\<lambda>_. safe_step u)" for e f g
    by (intro safe.obeys_triple safe_prims safe.q_intros)
  have ret: "triple (safe_step u) (eret (Some r)) (\<lambda>_. safe_step u) (\<lambda>_. safe_step u)" for r
    by (intro safe.obeys_triple safe_prims safe.q_intros)
  have result: "triple (safe_step u) (case r of None \<Rightarrow> eret None | Some res \<Rightarrow> delegate_result D res)
      (\<lambda>_. safe_step u) (\<lambda>_. safe_step u)" for r
    by (intro safe.obeys_triple safe_prims safe.q_intros safe.q_delegate_result)
  have get: "triple (paid_delegation u) get_state (\<lambda>_. paid_delegation u) (\<lambda>_. safe_step u)"
    by (simp add: triple_def get_state_def eget_def)
  show "triple (safe_step u) (delegate_call D) (\<lambda>_. safe_step u) (\<lambda>_. safe_step u)"
    unfolding delegate_call_def Let_def
    by (rule triple_then [OF triple_then [OF triple_bind [OF triple_bind [OF triple_then [OF
        triple_bind [OF result triple_try [OF degrade triple_bind [OF ret t_delegate]]] t_emit(2)] get]
        t_clock(2)] t_spend_delegation] t_check_cancel])
qed

interpretation acts: state_view "\<lambda>st. (st_proposed_actions st, st_approvals st)" D
  for D :: "'w graph_deps"
  by unfold_locales (simp_all add: frame_core_def)

lemma execute_one_view:
  "obeys (keeps (\<lambda>s. (st_proposed_actions (g_state s), st_approvals (g_state s)))) (execute_one D ids a)"
  unfolding execute_one_def Let_def invoke_def
  by (intro acts.k_intros acts.view.q_intros acts.k_spend)

definition holds_actions :: "ProposedAction list \<Rightarrow> wf_approval list \<Rightarrow> 'w gst \<Rightarrow> bool" where
  "holds_actions acs aps s \<longleftrightarrow> st_proposed_actions (g_state s) = acs \<and> st_approvals (g_state s) = aps"

lemma lift_Inr: "ebind (elift (Inr x)) f = f x" "ethen (elift (Inr x)) m = m"
  by (simp_all add: fun_eq_iff run_simps)

text \<open>One approved action: the state still holds it, with its approval, when it is invoked.\<close>

lemma t_execute_one:
  fixes D :: "'w graph_deps" and u :: "'w gst"
  assumes a: "a \<in> set acs"
    and ids: "ids = map wa_action_id (filter (\<lambda>a. wa_decision a = ''approved'') aps)"
  shows "triple (\<lambda>s. safe_step u s \<and> holds_actions acs aps s) (execute_one D ids a)
    (\<lambda>_. safe_step u) (\<lambda>_. safe_step u)"
proof (cases "pa_action_id a \<in> set ids")
  case False
  then show ?thesis by (simp add: execute_one_def triple_def eret_def)
next
  case True
  let ?X = "\<lambda>(_::pyexc). safe_step u"
  let ?V = "holds_actions acs aps"
  have V: "triple ?V m (\<lambda>_. ?V) (\<lambda>_. ?V)"
    if "obeys (keeps (\<lambda>s. (st_proposed_actions (g_state s), st_approvals (g_state s)))) m"
    for m :: "('w, 'x) gm"
    using keeps_triple [OF that, of "\<lambda>p. p = (acs, aps)"] by (simp add: holds_actions_def [abs_def])
  have ap: "?V s \<Longrightarrow> approved_write (pa_tool_name a) (pa_input a) (g_state s)" for s
    using a True by (auto simp: holds_actions_def approved_write_def approved_ids_def ids list_ex_iff)
  have inv: "triple (\<lambda>s. paid_tool u s \<and> ?V s) (invoke D (pa_tool_name a) (pa_input a))
      (\<lambda>_. safe_step u) ?X" if "in_registry (pa_tool_name a)"
    by (rule triple_pre [OF t_invoke_approved [OF that]]) (use ap in blast)
  have emit: "triple (\<lambda>s. paid_tool u s \<and> ?V s) (emit D ty data) (\<lambda>_ s. paid_tool u s \<and> ?V s) ?X" for ty data
    by (rule triple_conseq [OF triple_and [OF t_emit(1) V [OF acts.k_emit]]]) auto
  have spend: "triple (\<lambda>s. (safe_step u s \<and> \<not> st_cancelled (g_state s)) \<and> ?V s) (spend_tool D)
      (\<lambda>_ s. paid_tool u s \<and> ?V s) ?X"
    by (rule triple_conseq [OF triple_and [OF t_spend_tool V [OF acts.k_spend(2)]]]) auto
  have cancel: "triple (\<lambda>s. safe_step u s \<and> ?V s) (check_cancel D)
      (\<lambda>_ s. (safe_step u s \<and> \<not> st_cancelled (g_state s)) \<and> ?V s) ?X"
    by (rule triple_conseq [OF triple_and [OF t_check_cancel V [OF acts.k_check(1)]]]) auto
  have after: "triple (safe_step u) (ethen (elift (reject_malformed (d_env D) tool raw)) (emit D ty data))
      (\<lambda>_. safe_step u) (\<lambda>_. safe_step u)" for tool raw ty data
    by (intro safe.obeys_triple safe_prims safe.q_intros)
  have handler: "triple (safe_step u) (ethen (emit D ty (data e)) (add_unresolved (msg e)))
      (\<lambda>_. safe_step u) (\<lambda>_. safe_step u)" for ty data msg e
    by (intro safe.obeys_triple safe_prims safe.q_intros)
  have body: "triple (\<lambda>s. safe_step u s \<and> ?V s) (ethen (check_cancel D)
        (ethen (spend_tool D)
        (ethen (emit D ty data)
        (etry
          (ebind (invoke D (pa_tool_name a) (pa_input a)) (\<lambda>raw.
           ethen (elift (reject_malformed (d_env D) tool raw)) (emit D ty' data')))
          (\<lambda>e. ethen (emit D ty' (data'' e)) (add_unresolved (msg e)))))))
      (\<lambda>_. safe_step u) ?X" if "in_registry (pa_tool_name a)" for ty data tool ty' data' data'' msg
    by (rule triple_then [OF triple_then [OF triple_then [OF triple_try [OF handler triple_bind [OF after
        inv [OF that]]] emit] spend] cancel])
  show ?thesis
  proof (cases "validate_tool_call (d_env D) (pa_tool_name a) (pa_input a)")
    case (Inl e)
    then show ?thesis using True by (simp add: execute_one_def Let_def triple_def run_simps)
  next
    case (Inr spec)
    from validate_tool_call_Inr(1) [OF Inr] validate_tool_call_category [OF Inr]
    have "in_registry (pa_tool_name a)" by (simp add: in_registry_def)
    from body [OF this] show ?thesis using True Inr validate_tool_call_category [OF Inr]
      by (simp add: execute_one_def Let_def lift_Inr)
  qed
qed

lemma safe_executes:
  fixes D :: "'w graph_deps"
  shows "safe_step s (snd (efor (st_proposed_actions (g_state s)) (execute_one D (approved_ids (g_state s))) s))"
proof -
  let ?acs = "st_proposed_actions (g_state s)" and ?aps = "st_approvals (g_state s)"
  let ?ids = "approved_ids (g_state s)" and ?I = "\<lambda>t. safe_step s t \<and> holds_actions ?acs ?aps t"
  have "triple ?I (execute_one D ?ids a) (\<lambda>_. ?I) (\<lambda>_. safe_step s)" if "a \<in> set ?acs" for a
    using triple_and [OF t_execute_one [OF that, of ?ids ?aps s D]
        keeps_triple [OF execute_one_view [of D ?ids a], of "\<lambda>p. p = (?acs, ?aps)"]]
    by (rule triple_conseq) (auto simp: holds_actions_def approved_ids_def)
  from triple_for [OF this] have "triple ?I (efor ?acs (execute_one D ?ids)) (\<lambda>_. ?I) (\<lambda>_. safe_step s)" .
  moreover have "?I s" by (simp add: safe.R_refl holds_actions_def)
  ultimately show ?thesis
    by (cases "efor ?acs (execute_one D ?ids) s"; cases "fst (efor ?acs (execute_one D ?ids) s)")
      (auto dest: tripleD_ok tripleD_exc)
qed

interpretation safe: driving_steps safe_step D for D :: "'w graph_deps"
proof (intro driving_steps.intro moving_steps.intro spending_steps.intro safe.quiet_steps_axioms
    spending_steps_axioms.intro moving_steps_axioms.intro driving_steps_axioms.intro)
  show "obeys safe_step (spend_model D)" by (rule obeysI) (metis prod.collapse spend_model_run)
qed (auto intro: safe_attempt safe_delegate_call safe_executes safe_same_trace)

section \<open>What is never called\<close>

text \<open>The calls a step adds all satisfy \<open>ok\<close>; the run state does not matter.\<close>

definition tr_step :: "(gcall \<times> RunState \<Rightarrow> bool) \<Rightarrow> 'w gst \<Rightarrow> 'w gst \<Rightarrow> bool" where
  "tr_step ok s t \<longleftrightarrow> (\<exists>xs. g_trace t = g_trace s @ xs \<and> list_all ok xs)"

interpretation tr: step_relation "tr_step ok" for ok
proof
  fix s t u :: "'w gst"
  show "tr_step ok s s" by (simp add: tr_step_def)
  assume "tr_step ok s t" and "tr_step ok t u"
  then show "tr_step ok s u" unfolding tr_step_def by auto
qed

lemma tr_same: "g_trace t = g_trace s \<Longrightarrow> tr_step ok s t"
  by (simp add: tr_step_def)

lemma tr_log: "(\<And>st. ok (c, st)) \<Longrightarrow> obeys (tr_step ok) (log_call c)"
  by (simp add: obeys_def log_call_def emod_def tr_step_def)

lemma tr_prims:
  "obeys (tr_step ok) (upd f)" "obeys (tr_step ok) (upd_usage g)" "obeys (tr_step ok) (on_world m)"
  "obeys (tr_step ok) (read_clock h)" "obeys (tr_step ok) get_state" "obeys (tr_step ok) (on_breaker b)"
  by (simp_all add: obeys_def gm_prim_defs upd_usage_def py_defs split_def tr_same)

lemmas tr_intros = tr.obeys_intros tr_prims

text \<open>A silent call is neither a tool invocation nor a delegation.\<close>

definition silent_call :: "gcall \<times> RunState \<Rightarrow> bool" where
  "silent_call c \<longleftrightarrow> \<not> is_invoke c \<and> \<not> is_delegate c"

fun read_call :: "gcall \<times> RunState \<Rightarrow> bool" where
  "read_call (CInvoke tool args, st) = (tool \<in> set READ_TOOLS)"
| "read_call (c, st) = True"

lemma tr_quiet:
  assumes "\<And>c st. silent_call (c, st) \<Longrightarrow> ok (c, st)"
  shows "quiet_steps (tr_step ok) D"
proof (rule quiet_steps.intro [OF tr.step_relation_axioms], rule quiet_steps_axioms.intro)
  show "obeys (tr_step ok) (emit D ty data)" for ty data
    unfolding emit_def emit_full_def
    by (intro tr_intros tr_log) (simp add: assms silent_call_def)
qed (simp_all add: tr_step_def assms silent_call_def)

interpretation silent: quiet_steps "tr_step silent_call" D for D :: "'w graph_deps"
  by (rule tr_quiet)

interpretation reads: quiet_steps "tr_step read_call" D for D :: "'w graph_deps"
proof (rule tr_quiet)
  fix c and st :: RunState
  assume "silent_call (c, st)"
  then show "read_call (c, st)" by (cases c) (auto simp: silent_call_def)
qed

interpretation reads: moving_steps "tr_step read_call" D for D :: "'w graph_deps"
proof (intro moving_steps.intro spending_steps.intro reads.quiet_steps_axioms
    spending_steps_axioms.intro moving_steps_axioms.intro)
  show "obeys (tr_step read_call) (spend_model D)"
    unfolding spend_model_def by (intro tr_intros reads.q_check_budgets)
  show "obeys (tr_step read_call) (mcp_attempt D tool args)" if "tool \<in> set READ_TOOLS" for tool args
    unfolding mcp_attempt_def invoke_def spend_tool_def
    by (intro tr_prims reads.q_intros tr_log) (simp add: that)
  show "obeys (tr_step read_call) (delegate_call D)"
    unfolding delegate_call_def call_delegate_def spend_delegation_def Let_def
    by (intro tr_prims reads.q_intros tr_log reads.q_delegate_result) simp
qed (simp_all add: tr_same)

lemma run_step_reads:
  assumes "current s \<noteq> ExecuteApproved" shows "tr_step read_call s (snd (run_step D s))"
proof -
  let ?pre = "ethen (check_cancel D) (check_budgets D)"
  obtain r t where p: "?pre s = (r, t)" by (cases "?pre s")
  have "obeys (tr_step read_call) ?pre" by (intro tr_prims reads.q_intros)
  from obeys_eq [OF this p] have st: "tr_step read_call s t" .
  have "obeys (keeps current) ?pre" by (intro cur.view.q_intros)
  from obeys_eq [OF this p] assms have c: "current t \<noteq> ExecuteApproved" by (simp add: keeps_def)
  let ?body = "\<lambda>st. case st_current st of
        Classify \<Rightarrow> do_classify D
      | Plan \<Rightarrow> ethen (do_plan D) (eret False)
      | Resources \<Rightarrow> ethen (do_resources D) (eret False)
      | McpReads \<Rightarrow> ethen (do_mcp_reads D) (eret False)
      | A2aDelegate \<Rightarrow> ethen (do_delegate D) (eret False)
      | Correlate \<Rightarrow> ethen (do_correlate D) (eret False)
      | Findings \<Rightarrow> do_findings D
      | Propose \<Rightarrow> ethen (do_propose D) (eret False)
      | Policy \<Rightarrow> do_policy D
      | ApprovalPause \<Rightarrow> ethen (do_approval_pause D) (eret True)
      | ExecuteApproved \<Rightarrow> ethen (do_execute D) (eret False)
      | Verify \<Rightarrow> ethen (do_verify D) (eret False)
      | Complete \<Rightarrow> ethen (do_complete D) (eret True)
      | OtherState cur \<Rightarrow> eraise (RuntimeError (''unknown workflow state '' @ repr_str cur))"
  from c have "obeys (tr_step read_call) (?body (g_state t))"
    by (cases "current t") (auto intro!: tr.obeys_ret tr.obeys_then tr.obeys_raise reads.m_classify
        reads.m_plan reads.m_resources reads.m_reads reads.m_delegate reads.m_correlate reads.m_findings
        reads.m_policy reads.m_verify reads.m_propose reads.m_pause reads.m_complete)
  from obeysD [OF this, of t] st have "tr_step read_call s (snd (?body (g_state t) t))"
    by (rule tr.R_trans [rotated])
  moreover have "run_step D s = (case r of Inl e \<Rightarrow> (Inl e, t) | Inr _ \<Rightarrow> ?body (g_state t) t)"
    using p by (auto simp: run_step_def run_simps get_state_def split: prod.splits sum.splits)
  ultimately show ?thesis using st by (cases r) simp_all
qed

lemma run_loop_reads:
  "current s \<noteq> ExecuteApproved \<Longrightarrow> tr_step read_call s (snd (run_loop D s))"
proof (induction D s rule: run_loop.induct)
  case (1 D s)
  obtain r t where st: "run_step D s = (r, t)" by (cases "run_step D s")
  with run_step_reads [OF "1.prems", of D] have R: "tr_step read_call s t" by simp
  show ?case
  proof (cases "r = Inr False")
    case True
    with st have "next_state (current s) = Some (current t)" by (auto dest: run_step_next)
    then have "current t \<noteq> ExecuteApproved" by (cases "current s") auto
    with "1.IH" st True have "tr_step read_call t (snd (run_loop D t))" by simp
    with R st True show ?thesis by (subst run_loop.simps) (auto intro: tr.R_trans)
  next
    case False
    with R st show ?thesis
      by (subst run_loop.simps) (auto split: sum.splits bool.splits)
  qed
qed

section \<open>The event stream\<close>

fun event_of :: "gcall \<times> RunState \<Rightarrow> AgentEvent list" where
  "event_of (CAppend ev, st) = [ev]" | "event_of _ = []"

definition events_of :: "(gcall \<times> RunState) list \<Rightarrow> AgentEvent list" where
  "events_of tr = concat (map event_of tr)"

definition stream_ok :: "string \<Rightarrow> string \<Rightarrow> int \<Rightarrow> int \<Rightarrow> AgentEvent list \<Rightarrow> bool" where
  "stream_ok rid tenant lo hi evs \<longleftrightarrow>
     sorted_wrt (<) (map ev_sequence evs) \<and>
     list_all (\<lambda>e. lo < ev_sequence e \<and> ev_sequence e \<le> hi \<and> ev_run_id e = strip rid \<and>
       ev_tenant_id e = strip tenant \<and> \<not> ev_sensitive e \<and> ev_safe_for_ui e \<and> validate_AgentEvent e = Inr e) evs"

definition event_step :: "'w gst \<Rightarrow> 'w gst \<Rightarrow> bool" where
  "event_step s t \<longleftrightarrow>
     st_run_id (g_state t) = st_run_id (g_state s) \<and> st_tenant_id (g_state t) = st_tenant_id (g_state s) \<and>
     st_event_sequence (g_state s) \<le> st_event_sequence (g_state t) \<and>
     (\<exists>xs. g_trace t = g_trace s @ xs \<and>
        stream_ok (st_run_id (g_state s)) (st_tenant_id (g_state s)) (st_event_sequence (g_state s))
          (st_event_sequence (g_state t)) (events_of xs))"

lemma events_of_append [simp]: "events_of (xs @ ys) = events_of xs @ events_of ys"
  by (simp add: events_of_def)

lemma events_of_Nil [simp]: "events_of [] = []"
  by (simp add: events_of_def)

lemma stream_ok_Nil [simp]: "stream_ok r t lo hi []"
  by (simp add: stream_ok_def)

lemma stream_ok_append:
  "stream_ok r t lo mid xs \<Longrightarrow> stream_ok r t mid hi ys \<Longrightarrow> lo \<le> mid \<Longrightarrow> mid \<le> hi \<Longrightarrow>
   stream_ok r t lo hi (xs @ ys)"
  by (force simp: stream_ok_def sorted_wrt_append list_all_iff)

interpretation event: step_relation event_step
proof
  fix s t u :: "'w gst"
  show "event_step s s" by (simp add: event_step_def)
  assume st: "event_step s t" and tu: "event_step t u"
  from st obtain xs where xs: "g_trace t = g_trace s @ xs"
    "stream_ok (st_run_id (g_state s)) (st_tenant_id (g_state s)) (st_event_sequence (g_state s))
       (st_event_sequence (g_state t)) (events_of xs)" by (auto simp: event_step_def)
  from tu obtain ys where ys: "g_trace u = g_trace t @ ys"
    "stream_ok (st_run_id (g_state t)) (st_tenant_id (g_state t)) (st_event_sequence (g_state t))
       (st_event_sequence (g_state u)) (events_of ys)" by (auto simp: event_step_def)
  from st tu xs ys show "event_step s u" unfolding event_step_def
    by (auto intro!: exI [of _ "xs @ ys"] stream_ok_append)
qed

lemma event_silent:
  assumes "g_trace t = g_trace s @ xs" and "events_of xs = []"
    and "st_run_id (g_state t) = st_run_id (g_state s)"
    and "st_tenant_id (g_state t) = st_tenant_id (g_state s)"
    and "st_event_sequence (g_state s) \<le> st_event_sequence (g_state t)"
  shows "event_step s t"
  using assms by (auto simp: event_step_def)

lemma event_same:
  "g_trace t = g_trace s \<Longrightarrow> st_run_id (g_state t) = st_run_id (g_state s) \<Longrightarrow>
   st_tenant_id (g_state t) = st_tenant_id (g_state s) \<Longrightarrow>
   st_event_sequence (g_state s) \<le> st_event_sequence (g_state t) \<Longrightarrow> event_step s t"
  by (rule event_silent [where xs = "[]"]) simp_all

text \<open>One emission: the counter moves by one and the event, if it passes its checks, carries it.\<close>

lemma event_emit:
  fixes D :: "'w graph_deps"
  shows "obeys event_step (emit D ty data)"
proof (rule obeysI)
  fix s :: "'w gst"
  let ?s = "s\<lparr>g_state := (g_state s)\<lparr>st_event_sequence := st_event_sequence (g_state s) + 1\<rparr>\<rparr>"
  obtain now w where n: "d_utcnow D (g_world s) = (now, w)" by (cases "d_utcnow D (g_world s)")
  let ?u = "?s\<lparr>g_world := w\<rparr>" and ?ev = "make_event (g_state ?s) ty data False True now"
  have quiet: "event_step s ?u" by (rule event_same) simp_all
  show "event_step s (snd (emit D ty data s))"
  proof (cases "validate_AgentEvent ?ev")
    case (Inl e)
    with n quiet show ?thesis by (simp add: emit_def emit_full_def run_simps gm_prim_defs)
  next
    case (Inr ev)
    then have ev: "ev = strip_AgentEvent ?ev" "validate_AgentEvent ev = Inr ev"
      by (auto simp: validate_AgentEvent_Inr_iff dest: validate_AgentEvent_again)
    let ?v = "?u\<lparr>g_trace := g_trace s @ [(CAppend ev, g_state ?s)]\<rparr>"
    have ok: "event_step s (?v\<lparr>g_world := w'\<rparr>)" for w'
      using ev by (auto simp: event_step_def stream_ok_def events_of_def strip_AgentEvent_def make_event_def)
    with n Inr quiet show ?thesis
      by (auto simp: emit_def emit_full_def run_simps gm_prim_defs check_def split_def)
  qed
qed

lemma event_prims:
  "event_of (c, undefined) = [] \<Longrightarrow> obeys event_step (log_call c)" "obeys event_step (upd_usage f)"
  "obeys event_step (on_world m)" "obeys event_step (read_clock g)" "obeys event_step get_state"
proof -
  assume c: "event_of (c, undefined) = []"
  have "events_of [(c, st)] = []" for st
    using c by (cases c) (simp_all add: events_of_def)
  then show "obeys event_step (log_call c)"
    by (intro obeysI event_silent) (simp_all add: log_call_def emod_def)
qed (simp_all add: obeys_def gm_prim_defs upd_usage_def py_defs split_def event_same)

interpretation event: quiet_steps event_step D for D :: "'w graph_deps"
proof (rule quiet_steps.intro [OF event.step_relation_axioms], rule quiet_steps_axioms.intro)
  fix s :: "'w gst" and a
  show "event_step s (s\<lparr>g_trace := g_trace s @ [(CSave, g_state s)]\<rparr>)"
    by (rule event_silent [where xs = "[(CSave, g_state s)]"]) (simp_all add: events_of_def)
  show "event_step s (s\<lparr>g_trace := g_trace s @ [(CPolicy a, g_state s)]\<rparr>)"
    by (rule event_silent [where xs = "[(CPolicy a, g_state s)]"]) (simp_all add: events_of_def)
qed (simp_all add: frame_core_def event_same event_emit)

interpretation event: driving_steps event_step D for D :: "'w graph_deps"
proof (intro driving_steps.intro moving_steps.intro spending_steps.intro event.quiet_steps_axioms
    spending_steps_axioms.intro moving_steps_axioms.intro driving_steps_axioms.intro)
  show "obeys event_step (spend_model D)"
    unfolding spend_model_def by (intro event_prims event.q_intros)
  show "obeys event_step (mcp_attempt D tool args)" for tool args
    unfolding mcp_attempt_def invoke_def spend_tool_def
    by (intro event_prims event.q_intros) simp
  show "obeys event_step (delegate_call D)"
    unfolding delegate_call_def call_delegate_def spend_delegation_def Let_def
    by (intro event_prims event.q_intros event.q_delegate_result) simp
  have "obeys event_step (execute_one D ids a)" for ids a
    unfolding execute_one_def invoke_def spend_tool_def Let_def
    by (intro event_prims event.q_intros) simp
  then show "event_step s (snd (efor (st_proposed_actions (g_state s))
      (execute_one D (approved_ids (g_state s))) s))" for s
    by (rule obeysD [OF event.obeys_for])
qed (simp_all add: event_same)

end
