(* ===== verification/GraphProps.thy ===== *)
theory GraphProps
  imports GraphSafety
begin

text \<open>
  Properties of the investigation graph: authorisation and number of calls, what happens before an
  approval and after a rejection, the event stream, how a run ends, cancellation, budgets, retries,
  policy denial, the findings it derives, and two places where the code departs from its
  documentation.
\<close>

section \<open>Setting\<close>

text \<open>\<open>OrchestratorGraph(deps)\<close> about to run \<open>st\<close>: a new breaker, nothing called yet.\<close>

definition new_graph :: "RunState \<Rightarrow> 'w \<Rightarrow> 'w gst" where
  "new_graph st w = \<lparr>g_state = st, g_breaker = new_breaker, g_world = w, g_trace = []\<rparr>"

definition new_calls :: "'w gst \<Rightarrow> 'w gst \<Rightarrow> (gcall \<times> RunState) list" where
  "new_calls s t = drop (length (g_trace s)) (g_trace t)"

lemma new_calls_append [simp]: "g_trace t = g_trace s @ xs \<Longrightarrow> new_calls s t = xs"
  by (simp add: new_calls_def)

lemma tr_step_new: "tr_step ok s t \<Longrightarrow> list_all ok (new_calls s t)"
  by (auto simp: tr_step_def)

lemma safe_step_new: "safe_step s t \<Longrightarrow> list_all call_ok (new_calls s t)"
  by (auto simp: safe_step_def)

section \<open>Counting calls\<close>

text \<open>\<open>at_most k m\<close>: running \<open>m\<close> adds at most \<open>k\<close> tool invocations.\<close>

definition at_most :: "nat \<Rightarrow> ('w, 'a) gm \<Rightarrow> bool" where
  "at_most k m \<longleftrightarrow> (\<forall>s. \<exists>xs. g_trace (snd (m s)) = g_trace s @ xs \<and> length (filter is_invoke xs) \<le> k)"

lemma at_most_mono: "at_most k m \<Longrightarrow> k \<le> n \<Longrightarrow> at_most n m"
  unfolding at_most_def by (meson le_trans)

lemma at_most_silent: "obeys (tr_step silent_call) m \<Longrightarrow> at_most 0 m"
  unfolding at_most_def obeys_def tr_step_def silent_call_def
  by (simp add: filter_empty_conv list_all_iff) (metis (no_types, lifting))

lemma at_most_bind:
  assumes m: "at_most k m" and f: "\<And>x. at_most n (f x)"
  shows "at_most (k + n) (ebind m f)"
  unfolding at_most_def
proof
  fix s
  obtain r t where ms: "m s = (r, t)" by (cases "m s")
  with m obtain xs where xs: "g_trace t = g_trace s @ xs" "length (filter is_invoke xs) \<le> k"
    unfolding at_most_def by (metis snd_conv)
  show "\<exists>zs. g_trace (snd (ebind m f s)) = g_trace s @ zs \<and> length (filter is_invoke zs) \<le> k + n"
  proof (cases r)
    case (Inr x)
    from f [of x] obtain ys where "g_trace (snd (f x t)) = g_trace t @ ys" "length (filter is_invoke ys) \<le> n"
      unfolding at_most_def by blast
    with ms xs Inr show ?thesis by (auto simp: run_bind intro!: exI [of _ "xs @ ys"])
  qed (use ms xs in \<open>auto simp: run_bind\<close>)
qed

lemma at_most_then: "at_most k m \<Longrightarrow> at_most n m' \<Longrightarrow> at_most (k + n) (ethen m m')"
  unfolding ethen_def by (rule at_most_bind)

lemma at_most_try:
  assumes m: "at_most k m" and h: "\<And>e. at_most n (h e)"
  shows "at_most (k + n) (etry m h)"
  unfolding at_most_def
proof
  fix s
  obtain r t where ms: "m s = (r, t)" by (cases "m s")
  with m obtain xs where xs: "g_trace t = g_trace s @ xs" "length (filter is_invoke xs) \<le> k"
    unfolding at_most_def by (metis snd_conv)
  show "\<exists>zs. g_trace (snd (etry m h s)) = g_trace s @ zs \<and> length (filter is_invoke zs) \<le> k + n"
  proof (cases r)
    case (Inl e)
    from h [of e] obtain ys where "g_trace (snd (h e t)) = g_trace t @ ys" "length (filter is_invoke ys) \<le> n"
      unfolding at_most_def by blast
    with ms xs Inl show ?thesis by (auto simp: run_try intro!: exI [of _ "xs @ ys"])
  qed (use ms xs in \<open>auto simp: run_try\<close>)
qed

lemma at_most_bind0: "at_most 0 m \<Longrightarrow> (\<And>x. at_most n (f x)) \<Longrightarrow> at_most n (ebind m f)"
  using at_most_bind [of 0 m n f] by simp

lemma at_most_then0: "at_most 0 m \<Longrightarrow> at_most n m' \<Longrightarrow> at_most n (ethen m m')"
  using at_most_then [of 0 m n m'] by simp

lemma at_most_invoke: "at_most 1 (invoke D tool args)"
  by (auto simp: at_most_def invoke_def gm_prim_defs run_simps split_def)

lemma at_most_prims:
  "at_most 0 (check_cancel D)" "at_most 0 (spend_tool D)" "at_most 0 (read_clock f)"
  "at_most 0 (emit D ty data)" "at_most 0 (eret x)" "at_most 0 (eraise e)" "at_most 0 (elift v)"
  "at_most 0 (on_breaker b)" "at_most 0 (guard_breaker k)" "at_most 0 (add_unresolved n)"
  by (intro at_most_silent silent.q_intros tr_intros | unfold spend_tool_def)+

lemma at_most_attempt: "at_most 1 (mcp_attempt D tool args)"
proof -
  have "at_most (1 + 0) (ebind (invoke D tool args) (\<lambda>raw.
      ebind (elift (reject_malformed (d_env D) tool raw)) (\<lambda>out.
      ethen (on_breaker (record_success ''mcp''))
      (ebind (read_clock (d_monotonic D)) (\<lambda>ended.
      ethen (emit D TOOL_COMPLETED [(''tool_name'', PStr tool), (''status'', PStr ''succeeded''),
               (''latency_s'', PFloat (py_round 4 (ended - started)))])
      (eret out))))))" for started
    by (intro at_most_bind at_most_bind0 at_most_then0 at_most_invoke at_most_prims)
  then show ?thesis unfolding mcp_attempt_def
    by (intro at_most_then0 [OF at_most_prims(1)] at_most_then0 [OF at_most_prims(2)]
        at_most_bind0 [OF at_most_prims(3)]) simp
qed

lemma at_most_attempts: "at_most (Suc n) (mcp_attempts D tool args n)"
proof (induction n)
  case 0
  have "at_most (1 + 0) (mcp_attempts D tool args 0)"
    by (subst mcp_attempts.simps, rule at_most_try)
      (auto intro!: at_most_bind [of 1 _ 0, simplified] at_most_attempt [unfolded One_nat_def] at_most_prims)
  then show ?case by simp
next
  case (Suc n)
  have "at_most (1 + Suc n) (mcp_attempts D tool args (Suc n))"
    by (subst mcp_attempts.simps, rule at_most_try)
      (auto intro!: at_most_bind [of 1 _ 0, simplified] at_most_attempt [unfolded One_nat_def] Suc.IH at_most_prims
        intro: at_most_mono [OF at_most_prims(5)] at_most_mono [OF at_most_prims(6)])
  then show ?case by simp
qed

lemma at_most_read: "at_most (Suc MAX_READ_RETRIES) (mcp_read D tool args)"
proof -
  have "at_most 0 (case r of Inr out \<Rightarrow> eret (Some out) | Inl err \<Rightarrow>
          ethen (on_breaker (record_failure ''mcp''))
          (ethen (emit D TOOL_COMPLETED [(''tool_name'', PStr tool), (''status'', PStr ''failed''),
                    (''error'', PStr (safe_error (Some err)))])
          (eret None)))" for r
    by (cases r) (auto intro!: at_most_then0 at_most_prims)
  then have "at_most (Suc MAX_READ_RETRIES + 0) (mcp_read D tool args)"
    unfolding mcp_read_def by (intro at_most_bind0 at_most_then0 at_most_prims at_most_bind at_most_attempts)
  then show ?thesis by simp
qed

lemma at_most_execute_one: "at_most (if pa_action_id a \<in> set ids then 1 else 0) (execute_one D ids a)"
proof (cases "pa_action_id a \<in> set ids")
  case True
  have "at_most (1 + 0) (etry (ebind (invoke D tool args) (\<lambda>raw.
      ethen (elift (reject_malformed (d_env D) tool raw)) (emit D ty data)))
      (\<lambda>e. ethen (emit D ty (data' e)) (add_unresolved (msg e))))" for tool args ty data data' msg
    by (rule at_most_try, rule at_most_bind [of 1 _ 0, unfolded add_0_right])
      (intro at_most_invoke at_most_then0 at_most_prims)+
  then have "at_most 1 (etry (ebind (invoke D tool args) (\<lambda>raw.
      ethen (elift (reject_malformed (d_env D) tool raw)) (emit D ty data)))
      (\<lambda>e. ethen (emit D ty (data' e)) (add_unresolved (msg e))))" for tool args ty data data' msg
    by simp
  then have "at_most 1 (execute_one D ids a)" unfolding execute_one_def Let_def using True
    by (simp only: if_True not_True_eq_False simp_thms if_False not_not)
      (intro at_most_bind0 [OF at_most_prims(7)] at_most_then0 [OF at_most_prims(7)]
        at_most_then0 [OF at_most_prims(1)] at_most_then0 [OF at_most_prims(2)]
        at_most_then0 [OF at_most_prims(4)])
  with True show ?thesis by simp
qed (simp add: execute_one_def at_most_prims)

lemma at_most_for:
  "(\<And>x. at_most (k x) (f x)) \<Longrightarrow> at_most (sum_list (map k xs)) (efor xs f)"
  by (induction xs) (auto intro: at_most_then at_most_prims)

section \<open>How a pass ends\<close>

definition sets :: "(RunState \<Rightarrow> bool) \<Rightarrow> ('w, 'a) gm \<Rightarrow> bool" where
  "sets P m \<longleftrightarrow> (\<forall>s x t. m s = (Inr x, t) \<longrightarrow> P (g_state t))"

definition returns :: "(RunState \<Rightarrow> bool) \<Rightarrow> ('w, bool) gm \<Rightarrow> bool" where
  "returns P m \<longleftrightarrow> (\<forall>s t. m s = (Inr True, t) \<longrightarrow> P (g_state t))"

lemma sets_bind: "(\<And>x. sets P (f x)) \<Longrightarrow> sets P (ebind m f)"
  by (fastforce simp: sets_def ebind_def split: prod.splits sum.splits)

lemma sets_then: "sets P n \<Longrightarrow> sets P (ethen m n)"
  unfolding ethen_def by (rule sets_bind)

lemma sets_keep:
  assumes "sets (\<lambda>st. P (f st)) m" and "obeys (keeps (\<lambda>s. f (g_state s))) n"
  shows "sets (\<lambda>st. P (f st)) (ethen m n)"
  unfolding sets_def
proof (intro allI impI)
  fix s x t
  assume "ethen m n s = (Inr x, t)"
  then obtain y u where m: "m s = (Inr y, u)" and n: "n u = (Inr x, t)"
    by (auto simp: run_then split: prod.splits sum.splits)
  from obeys_eq [OF assms(2) n] have "f (g_state t) = f (g_state u)" by (simp add: keeps_def)
  with m assms(1) show "P (f (g_state t))" by (simp add: sets_def)
qed

lemma returns_bind: "(\<And>x. returns P (f x)) \<Longrightarrow> returns P (ebind m f)"
  by (fastforce simp: returns_def ebind_def split: prod.splits sum.splits)

lemma returns_then: "returns P n \<Longrightarrow> returns P (ethen m n)"
  unfolding ethen_def by (rule returns_bind)

lemma returns_False: "returns P (eret False)"
  by (simp add: returns_def eret_def)

lemma returns_sets: "sets P m \<Longrightarrow> returns P m"
  by (simp add: returns_def sets_def)

lemma returns_if: "returns P m \<Longrightarrow> returns P n \<Longrightarrow> returns P (if c then m else n)"
  by simp

text \<open>The status and outcome, which everything but the closing steps keeps.\<close>

abbreviation so :: "RunState \<Rightarrow> RunStatus \<times> string option" where
  "so st \<equiv> (st_status st, st_outcome st)"

interpretation so: state_view so D for D :: "'w graph_deps"
  by unfold_locales (simp_all add: frame_core_def)

lemma so_move: "obeys (keeps (\<lambda>s. so (g_state s))) (set_current c)"
  by (simp add: obeys_def set_current_def gm_prim_defs emod_def keeps_def)

lemma so_transition: "obeys (keeps (\<lambda>s. so (g_state s))) (transition D c ty data)"
  unfolding transition_def by (intro so.k_intros so.view.q_intros so_move)

lemma sets_finish: "sets (\<lambda>st. so st = (COMPLETED, Some oc)) (finish oc)"
  by (simp add: sets_def finish_def upd_def emod_def)

lemma classify_returns: "returns (\<lambda>st. so st = (COMPLETED, Some ''clarify'')) (do_classify D)"
  unfolding do_classify_def Let_def
  by (intro returns_bind returns_then returns_if returns_False returns_sets
      sets_keep [where f = so] sets_finish so.view.q_intros so_transition)

lemma closing_sets:
  "sets (\<lambda>st. so st = (COMPLETED, Some oc)) (ethen (finish oc) m)"
  if "obeys (keeps (\<lambda>s. so (g_state s))) m"
  by (rule sets_keep [where f = so, OF sets_finish that])

lemma continue_returns: "returns P (ethen (set_current c) (ethen (save D) (eret False)))"
  by (intro returns_then returns_False)

lemma findings_returns: "returns (\<lambda>st. so st = (COMPLETED, Some ''more_info'')) (do_findings D)"
  unfolding do_findings_def publish_findings_def ask_more_info_def
  by ((rule returns_bind)+, (rule returns_then)+, rule returns_if [OF returns_sets continue_returns],
      rule closing_sets) (intro so.view.q_intros so_transition)

lemma policy_returns: "returns (\<lambda>st. so st = (COMPLETED, Some ''denied'')) (do_policy D)"
  unfolding do_policy_def apply_decisions_def explain_denial_def Let_def
  by ((rule returns_bind)+, (rule returns_then)+, rule returns_if [OF returns_sets continue_returns],
      rule closing_sets) (intro so.view.q_intros so_transition)

lemma complete_sets: "sets (\<lambda>st. st_status st = COMPLETED) (do_complete D)"
proof -
  have "sets (\<lambda>st. fst (so st) = COMPLETED) (upd (\<lambda>st. st\<lparr>st_outcome := oc st, st_status := COMPLETED\<rparr>))" for oc
    by (simp add: sets_def upd_def emod_def)
  moreover have "obeys (keeps (\<lambda>s. so (g_state s))) (ethen (upd (\<lambda>st. st\<lparr>st_result := Some (result_dict st)\<rparr>))
     (ethen (ebind get_state (\<lambda>st. emit D RUN_COMPLETED [(''result'', PDict (result_dict st))]))
     (save D)))"
    by (intro so.view.q_intros so.view.q_upd) (simp add: frame_core_def)
  ultimately show ?thesis unfolding do_complete_def
    using sets_keep [where f = so and P = "\<lambda>p. fst p = COMPLETED"] by fastforce
qed

text \<open>The pause: either nothing is proposed, or the run waits with a pending row for every action.\<close>

definition paused_with :: "RunState \<Rightarrow> RunState \<Rightarrow> bool" where
  "paused_with st st' \<longleftrightarrow> st_status st' = WAITING_FOR_APPROVAL \<and> st_current st' = st_current st \<and>
     st_proposed_actions st' = st_proposed_actions st \<and>
     (\<exists>now. st_approvals st' = st_approvals st @ map (new_approval st now) (st_proposed_actions st))"

lemma em_view_save: "obeys (keeps (\<lambda>s. em_view (g_state s))) (save D)"
  by (simp add: save_def obeys_def keeps_def gm_prim_defs run_simps split_def)

lemma pause_run:
  assumes "do_approval_pause D s = (Inr x, t)" and "st_proposed_actions (g_state s) \<noteq> []"
  shows "paused_with (g_state s) (g_state t)"
proof -
  have fin: "obeys (keeps (\<lambda>s. em_view (g_state s))) (announce_approvals D)"
    unfolding announce_approvals_def
    by (intro keep.obeys_intros emit_view em_view_save) (simp add: obeys_def keeps_def get_state_def eget_def)
  obtain now w where n: "d_utcnow D (g_world s) = (now, w)" by (cases "d_utcnow D (g_world s)")
  with assms have r: "announce_approvals D (s\<lparr>g_world := w, g_state := (g_state s)
      \<lparr>st_status := WAITING_FOR_APPROVAL, st_approvals := st_approvals (g_state s) @
         map (new_approval ((g_state s)\<lparr>st_status := WAITING_FOR_APPROVAL\<rparr>) (isoformat (d_env D) now))
           (st_proposed_actions (g_state s))\<rparr>\<rparr>) = (Inr x, t)"
    by (simp add: do_approval_pause_def run_simps gm_prim_defs)
  have "new_approval ((g_state s)\<lparr>st_status := v\<rparr>) d = new_approval (g_state s) d" for v d
    by (simp add: fun_eq_iff new_approval_def)
  with obeys_eq [OF fin r] show ?thesis by (auto simp: keeps_def em_view_def paused_with_def)
qed

section \<open>How a run ends\<close>

text \<open>A pass splits into the checks, which keep the state but for the cancel flag, and the step.\<close>

definition step_of :: "'w graph_deps \<Rightarrow> wf_state \<Rightarrow> ('w, bool) gm" where
  "step_of D c = (case c of
        Classify \<Rightarrow> do_classify D
      | Plan \<Rightarrow> ethen (do_plan D) (eret False)
      | Resources \<Rightarrow> ethen (do_resources D) (eret False)
      | McpReads \<Rightarrow> ethen (do_mcp_reads D) (eret False)
      | A2aDelegate \<Rightarrow> ethen (do_delegate D) (eret False)
      | Correlate \<Rightarrow> ethen (do_correlate D) (eret False)
      | Findings \<Rightarrow> do_findings D
      | Propose \<Rightarrow> ethen (do_propose D) (eret False)
      | Policy \<Rightarrow> do_policy D
      | ApprovalPause \<Rightarrow> ethen (do_approval_pause D) (eret True)
      | ExecuteApproved \<Rightarrow> ethen (do_execute D) (eret False)
      | Verify \<Rightarrow> ethen (do_verify D) (eret False)
      | Complete \<Rightarrow> ethen (do_complete D) (eret True)
      | OtherState cur \<Rightarrow> eraise (RuntimeError (''unknown workflow state '' @ repr_str cur)))"

lemma run_step_split:
  assumes "run_step D s = (Inr b, t)"
  obtains u where "step_of D (current s) u = (Inr b, t)"
    and "frame_core (g_state u) = frame_core ((g_state s)\<lparr>st_cancelled := False\<rparr>)"
proof -
  from assms obtain v u where 1: "check_cancel D s = (Inr (), v)" and 2: "check_budgets D v = (Inr (), u)"
    and 3: "step_of D (current u) u = (Inr b, t)"
    by (auto simp: run_step_def step_of_def run_simps get_state_def split: prod.splits sum.splits)
  from check_cancel_run [OF 1] check_budgets_run [OF 2]
  have "frame_core (g_state u) = frame_core ((g_state s)\<lparr>st_cancelled := False\<rparr>)" by auto
  then show ?thesis using that 3 by (simp add: frame_core_def)
qed

lemma then_True: "ethen m (eret True) s = (Inr b, t) \<Longrightarrow> m s = (Inr (), t)"
  by (auto simp: run_then eret_def split: prod.splits sum.splits)

text \<open>The proposed actions a pass may rely on: there is at least one from the proposal to the pause.\<close>

definition has_actions :: "'w gst \<Rightarrow> bool" where
  "has_actions s \<longleftrightarrow> (current s \<in> {Policy, ApprovalPause} \<longrightarrow> st_proposed_actions (g_state s) \<noteq> [])"

lemma acts_policy:
  "obeys (keeps (\<lambda>s. (st_proposed_actions (g_state s), st_approvals (g_state s)))) (do_policy D)"
proof -
  have m: "obeys (keeps (\<lambda>s. (st_proposed_actions (g_state s), st_approvals (g_state s)))) (set_current c)" for c
    by (simp add: obeys_def set_current_def gm_prim_defs emod_def keeps_def)
  have f: "obeys (keeps (\<lambda>s. (st_proposed_actions (g_state s), st_approvals (g_state s)))) (finish oc)" for oc
    by (simp add: obeys_def finish_def gm_prim_defs emod_def keeps_def)
  show ?thesis unfolding do_policy_def apply_decisions_def explain_denial_def transition_def Let_def
    by (intro acts.view.q_intros acts.view.q_policy_loop acts.view.q_upd m f) (simp add: frame_core_def)
qed

lemma propose_sets: "sets (\<lambda>st. st_proposed_actions st \<noteq> []) (do_propose D)"
proof -
  have "obeys (keeps (\<lambda>s. (st_proposed_actions (g_state s), st_approvals (g_state s)))) (set_current c)" for c
    by (simp add: obeys_def set_current_def gm_prim_defs emod_def keeps_def)
  then have t: "obeys (keeps (\<lambda>s. (st_proposed_actions (g_state s), st_approvals (g_state s))))
      (transition D c ty data)" for c ty data
    unfolding transition_def by (intro acts.view.q_intros)
  have "sets (\<lambda>st. fst (st_proposed_actions st, st_approvals st) \<noteq> [])
      (ethen (upd (\<lambda>st. st\<lparr>st_proposed_actions := a # as\<rparr>)) (transition D c ty data))" for a as c ty data
    by (rule sets_keep [where P = "\<lambda>p. fst p \<noteq> []", OF _ t]) (simp add: sets_def upd_def emod_def)
  then show ?thesis unfolding do_propose_def Let_def by (intro sets_bind) simp
qed

lemma has_actions_step:
  assumes "run_step D s = (Inr False, t)" and "has_actions s" shows "has_actions t"
proof -
  obtain u where u: "step_of D (current s) u = (Inr False, t)"
    and f: "frame_core (g_state u) = frame_core ((g_state s)\<lparr>st_cancelled := False\<rparr>)"
    using run_step_split [OF assms(1)] .
  have n: "next_state (current s) = Some (current t)" by (rule run_step_next [OF assms(1)])
  show ?thesis
  proof (cases "current s")
    case Propose
    with u obtain v where "do_propose D u = (Inr (), v)" "v = t"
      by (auto simp: step_of_def run_then eret_def split: prod.splits sum.splits)
    with propose_sets [of D] show ?thesis by (auto simp: has_actions_def sets_def)
  next
    case Policy
    with u have "do_policy D u = (Inr False, t)" by (simp add: step_of_def)
    from obeys_eq [OF acts_policy this] f assms(2) Policy show ?thesis
      by (auto simp: has_actions_def keeps_def frame_core_def)
  qed (use n in \<open>auto simp: has_actions_def\<close>)
qed

definition settled :: "RunStatus \<Rightarrow> bool" where
  "settled v \<longleftrightarrow> v \<in> {WAITING_FOR_APPROVAL, COMPLETED, FAILED, CANCELLED}"

lemma run_step_settles:
  assumes "run_step D s = (Inr True, t)" and "has_actions s"
  shows "st_status (g_state t) = COMPLETED \<or>
    (current t = ApprovalPause \<and> st_status (g_state t) = WAITING_FOR_APPROVAL)"
proof -
  obtain u where u: "step_of D (current s) u = (Inr True, t)"
    and f: "frame_core (g_state u) = frame_core ((g_state s)\<lparr>st_cancelled := False\<rparr>)"
    using run_step_split [OF assms(1)] .
  show ?thesis
  proof (cases "current s")
    case ApprovalPause
    with u have "do_approval_pause D u = (Inr (), t)" by (auto simp: step_of_def dest: then_True)
    moreover from ApprovalPause f assms(2) have "st_proposed_actions (g_state u) \<noteq> []"
      by (auto simp: has_actions_def frame_core_def)
    ultimately have "paused_with (g_state u) (g_state t)" by (rule pause_run)
    with f ApprovalPause show ?thesis by (simp add: paused_with_def frame_core_def)
  next
    case Complete
    with u have "do_complete D u = (Inr (), t)" by (auto simp: step_of_def dest: then_True)
    with complete_sets [of D] show ?thesis by (auto simp: sets_def)
  next
    case Classify
    with u classify_returns [of D] show ?thesis by (auto simp: step_of_def returns_def)
  next
    case Findings
    with u findings_returns [of D] show ?thesis by (auto simp: step_of_def returns_def)
  next
    case Policy
    with u policy_returns [of D] show ?thesis by (auto simp: step_of_def returns_def)
  qed (use u in \<open>auto simp: step_of_def run_simps split: prod.splits sum.splits\<close>)
qed

lemma run_loop_settles:
  "run_loop D s = (Inr (), t) \<Longrightarrow> has_actions s \<Longrightarrow>
   st_status (g_state t) = COMPLETED \<or>
    (current t = ApprovalPause \<and> st_status (g_state t) = WAITING_FOR_APPROVAL)"
proof (induction D s rule: run_loop.induct)
  case (1 D s)
  obtain r u where st: "run_step D s = (r, u)" by (cases "run_step D s")
  with "1.prems" consider "r = Inr True" "u = t" | "r = Inr False" "run_loop D u = (Inr (), t)"
    by (subst (asm) run_loop.simps) (auto split: sum.splits bool.splits)
  then show ?case
  proof cases
    case 1
    with st show ?thesis using run_step_settles "1.prems"(2) by blast
  next
    case 2
    with st "1.prems"(2) have "has_actions u" by (blast intro: has_actions_step)
    with 2 st "1.IH" show ?thesis by auto
  qed
qed

text \<open>The handlers.\<close>

lemma sets_failed:
  "sets (\<lambda>st. so st = (FAILED, Some ''failed'')) (ethen (set_failed c m) n)"
  if "obeys (keeps (\<lambda>s. so (g_state s))) n"
  by (rule sets_keep [where f = so, OF _ that]) (simp add: sets_def set_failed_def upd_def emod_def)

lemma so_report: "obeys (keeps (\<lambda>s. so (g_state s))) (report_failed D c m)"
  unfolding report_failed_def by (intro so.view.q_intros)

lemma cancelled_sets: "sets (\<lambda>st. so st = (CANCELLED, Some ''cancelled'')) (on_cancelled D)"
  unfolding on_cancelled_def
  by (rule sets_keep [where f = so]) (simp add: sets_def upd_def emod_def, intro so.k_intros so.view.q_intros)

lemma handler_sets:
  "sets (\<lambda>st. so st = (if exc_class e = ERunCancelled then (CANCELLED, Some ''cancelled'')
                      else (FAILED, Some ''failed''))) (run_handler D e)"
  unfolding run_handler_def
  using cancelled_sets [of D] sets_failed [OF so_report [of D]]
    sets_failed [of "etry (report_failed D c m) (\<lambda>_. eret ())" for c m, OF keep.obeys_try [OF so_report keep.obeys_ret]]
  by simp

text \<open>The start of \<open>run\<close> on a new run.\<close>

definition run_start :: "'w graph_deps \<Rightarrow> ('w, unit) gm" where
  "run_start D = ebind get_state (\<lambda>st. ewhen (st_status st = CREATED)
       (ethen (upd (\<lambda>st. st\<lparr>st_status := RUNNING\<rparr>))
         (transition D Classify RUN_STARTED [(''objective'', PStr (st_objective st))])))"

lemma run_alt: "run D = ethen (run_start D) (etry (run_loop D) (run_handler D))"
  by (simp add: run_def run_start_def)

lemma run_start_classify:
  assumes "run_start D s = (Inr (), u)" and "st_status (g_state s) = CREATED"
  shows "current u = Classify"
proof -
  from assms have "transition D Classify RUN_STARTED [(''objective'', PStr (st_objective (g_state s)))]
      (s\<lparr>g_state := (g_state s)\<lparr>st_status := RUNNING\<rparr>\<rparr>) = (Inr (), u)"
    by (simp add: run_start_def ewhen_def run_simps gm_prim_defs)
  with moves_to_transition [of Classify D] show ?thesis by (auto simp: moves_to_def)
qed

lemma run_start_not_created:
  "st_status (g_state s) \<noteq> CREATED \<Longrightarrow> run_start D s = (Inr (), s)"
  by (simp add: run_start_def ewhen_def run_simps gm_prim_defs)

lemma run_settles:
  assumes "run D s = (Inr (), t)" and "has_actions s \<or> st_status (g_state s) = CREATED"
  shows "settled (st_status (g_state t))"
proof -
  from assms(1) obtain u where u: "run_start D s = (Inr (), u)"
    and r: "etry (run_loop D) (run_handler D) u = (Inr (), t)"
    by (auto simp: run_alt run_then split: prod.splits sum.splits)
  have "has_actions u"
  proof (cases "st_status (g_state s) = CREATED")
    case True
    with run_start_classify [OF u] show ?thesis by (simp add: has_actions_def)
  next
    case False
    with u assms(2) run_start_not_created [OF False, of D] show ?thesis by simp
  qed
  from r consider "run_loop D u = (Inr (), t)"
    | e v where "run_loop D u = (Inl e, v)" "run_handler D e v = (Inr (), t)"
    by (auto simp: run_try split: prod.splits sum.splits)
  then show ?thesis
  proof cases
    case 1
    from run_loop_settles [OF this \<open>has_actions u\<close>] show ?thesis by (auto simp: settled_def)
  next
    case 2
    with handler_sets [of e D] show ?thesis by (auto simp: sets_def settled_def split: if_splits)
  qed
qed

lemma run_loop_head: "run_loop D s = (case check_cancel D s of (Inl e, t) \<Rightarrow> (Inl e, t)
   | (Inr _, t) \<Rightarrow> (case check_budgets D t of (Inl e, u) \<Rightarrow> (Inl e, u)
     | (Inr _, u) \<Rightarrow> (case step_of D (current u) u of (Inl e, v) \<Rightarrow> (Inl e, v)
       | (Inr True, v) \<Rightarrow> (Inr (), v) | (Inr False, v) \<Rightarrow> run_loop D v)))"
  by (subst run_loop.simps)
    (auto simp: run_step_def step_of_def run_simps get_state_def split: prod.splits sum.splits bool.splits)

text \<open>A flag that is set when the loop starts stops it before any client is called.\<close>

lemma run_loop_cancelled:
  assumes "st_cancelled (g_state s) \<or> d_cancel_requested D (g_world s)"
  shows "\<exists>t. run_loop D s = (Inl (RunCancelledError ''run was cancelled''), t) \<and> g_trace t = g_trace s"
  using assms by (subst run_loop_head) (auto simp: check_cancel_def run_simps get_state_def)

lemma run_start_flag: "obeys (keeps (\<lambda>s. st_cancelled (g_state s))) (run_start D)"
proof -
  have v: "obeys (keeps (\<lambda>s. em_view (g_state s))) m \<Longrightarrow> obeys (keeps (\<lambda>s. st_cancelled (g_state s))) m"
    for m :: "('w, 'x) gm"
    by (auto simp: obeys_def keeps_def em_view_def)
  have "obeys (keeps (\<lambda>s. st_cancelled (g_state s))) (emit D ty data)"
    "obeys (keeps (\<lambda>s. st_cancelled (g_state s))) (save D)" for ty data
    by (auto intro: v emit_view em_view_save)
  moreover have "obeys (keeps (\<lambda>s. st_cancelled (g_state s))) (set_current c)"
    "obeys (keeps (\<lambda>s. st_cancelled (g_state s))) (upd (\<lambda>st. st\<lparr>st_status := w\<rparr>))"
    "obeys (keeps (\<lambda>s. st_cancelled (g_state s))) get_state" for c w
    by (simp_all add: obeys_def keeps_def set_current_def gm_prim_defs py_defs)
  ultimately show ?thesis unfolding run_start_def transition_def by (intro keep.obeys_intros)
qed

lemma run_start_silent: "obeys (tr_step silent_call) (run_start D)"
  unfolding run_start_def transition_def set_current_def by (intro tr_prims silent.q_intros)

lemma handler_silent: "obeys (tr_step silent_call) (run_handler D e)"
  unfolding run_handler_def on_cancelled_def set_failed_def report_failed_def
  by (intro tr_prims silent.q_intros)

section \<open>Properties of runs\<close>

text \<open>C1. Authorisation. Every tool call that \<open>run\<close> or \<open>resume_after_approval\<close> makes, whatever the
  clients return or raise, names a registered tool that is not destructive, is made while the run
  is not cancelled and its consumption is within every limit, and is either a read or the exact
  input of a proposed action whose approval row says approved; every delegation is made within the
  limits too.\<close>

theorem run_calls_authorised:
  "list_all call_ok (new_calls s (snd (run D s))) \<and>
   list_all call_ok (new_calls s (snd (resume_after_approval D decision approver reason s)))"
  using obeysD [OF safe.m_run, of s D] obeysD [OF safe.m_resume, of s D decision approver reason]
  by (simp add: safe_step_new)

text \<open>C9. The number of calls is bounded: the tool calls of a run never exceed the tool calls
  billed, nor \<open>max_tool_calls\<close>, and likewise for delegations, through \<open>run\<close> and through a resume.\<close>

theorem run_calls_bounded:
  assumes "calls_bounded s"
  shows "calls_bounded (snd (run D s)) \<and>
    calls_bounded (snd (resume_after_approval D decision approver reason s)) \<and>
    st_limits (g_state (snd (run D s))) = st_limits (g_state s)"
  using assms obeysD [OF safe.m_run, of s D] obeysD [OF safe.m_resume, of s D decision approver reason]
  by (simp add: safe_step_def)

text \<open>C10. Before an approval nothing but reads happens: a run that does not start in
  \<open>execute_approved\<close> (in particular a new one) invokes read tools only.\<close>

theorem run_reads_only_before_approval:
  assumes "current s \<noteq> ExecuteApproved"
  shows "list_all read_call (new_calls s (snd (run D s)))"
proof -
  obtain r u where u: "run_start D s = (r, u)" by (cases "run_start D s")
  have "obeys (tr_step read_call) (run_start D)" unfolding run_start_def by (rule reads.m_start)
  from obeys_eq [OF this u] have su: "tr_step read_call s u" .
  obtain r2 v where v: "run_loop D u = (r2, v)" by (cases "run_loop D u")
  have "current u \<noteq> ExecuteApproved" if "r = Inr ()"
    using assms u that run_start_classify [of D s u] run_start_not_created [of s D]
    by (cases "st_status (g_state s) = CREATED") auto
  with run_loop_reads [of u D] v su have sv: "tr_step read_call s v" if "r = Inr ()"
    using that by (auto intro: tr.R_trans)
  have "tr_step read_call v (snd (run_handler D e v))" for e by (rule obeysD [OF reads.m_handler])
  with su sv u v have "tr_step read_call s (snd (run D s))"
    by (cases r; cases r2) (auto simp: run_alt run_then run_try intro: tr.R_trans)
  then show ?thesis by (rule tr_step_new)
qed

text \<open>What a rejection runs once the guards have passed.\<close>

definition reject_run :: "'w graph_deps \<Rightarrow> string \<Rightarrow> string \<Rightarrow> string option \<Rightarrow> ('w, unit) gm" where
  "reject_run D decision approver reason =
     ethen (ethen (decide_all (if decision = ''rejected'' then ''rejected'' else ''expired'') approver reason)
         (upd (\<lambda>st. st\<lparr>st_outcome := Some ''rejected'', st_status := COMPLETED\<rparr>)))
       (ethen (emit D APPROVAL_RECEIVED [(''decision'', PStr decision), (''approver'', PStr approver)])
         (transition D Complete RUN_COMPLETED [(''outcome'', PStr ''rejected''), (''executed'', PBool False),
             (''note'', PStr (''approval '' @ decision @ ''; no actions executed''))]))"

lemma ethen_assoc: "ethen (ethen a b) c = ethen a (ethen b c)"
  by (simp add: ethen_def ebind_assoc)

lemma resume_rejected_cases:
  assumes "lower decision \<noteq> ''approved''"
  shows "resume_after_approval D decision approver reason s = reject_run D (lower decision) approver reason s
    \<or> (\<exists>e. resume_after_approval D decision approver reason s = (Inl e, s))"
proof -
  consider "current s = ApprovalPause" "st_status (g_state s) = WAITING_FOR_APPROVAL"
      "lower decision \<in> {''approved'', ''rejected'', ''expired''}"
    | "\<not> (current s = ApprovalPause \<and> st_status (g_state s) = WAITING_FOR_APPROVAL)"
    | "current s = ApprovalPause" "st_status (g_state s) = WAITING_FOR_APPROVAL"
      "lower decision \<notin> {''approved'', ''rejected'', ''expired''}" by blast
  then show ?thesis
  proof cases
    case 1
    with assms have "resume_after_approval D decision approver reason s = reject_run D (lower decision) approver reason s"
      unfolding resume_after_approval_def reject_run_def run_bind get_state_def run_get Let_def
      by (simp only: prod.case sum.case check_True lift_Inr simp_thms if_False ethen_assoc)
    then show ?thesis ..
  next
    case 2
    then have "check (current s = ApprovalPause \<and> st_status (g_state s) = WAITING_FOR_APPROVAL) e = Inl e" for e
      by (simp add: check_def)
    then have "resume_after_approval D decision approver reason s
        = (Inl (ValueError ''run is not awaiting approval''), s)"
      unfolding resume_after_approval_def run_bind get_state_def run_get
      by (simp only: prod.case sum.case run_then run_lift)
    then show ?thesis by blast
  next
    case 3
    then have "check (lower decision \<in> {''approved'', ''rejected'', ''expired''}) e = Inl e" for e
      by (simp only: check_False simp_thms)
    with 3(1,2) have "resume_after_approval D decision approver reason s
        = (Inl (ValueError ''decision must be approved|rejected|expired''), s)"
      unfolding resume_after_approval_def run_bind get_state_def run_get Let_def
      by (simp only: prod.case sum.case run_then run_lift check_True simp_thms)
    then show ?thesis by blast
  qed
qed

lemma reject_run_silent: "obeys (tr_step silent_call) (reject_run D decision approver reason)"
  unfolding reject_run_def decide_all_def transition_def set_current_def
  by (intro tr_prims silent.q_intros)

lemma reject_run_moves: "moves_to Complete (reject_run D decision approver reason)"
  unfolding reject_run_def by (intro moves_to_then moves_to_transition)

lemma reject_run_sets:
  fixes D :: "'w graph_deps"
  shows "sets (\<lambda>st. st_status st = COMPLETED \<and> st_outcome st = Some ''rejected'' \<and> approved_ids st = [])
    (reject_run D decision approver reason)"
proof -
  let ?p = "\<lambda>st. (st_status st, st_outcome st, st_approvals st)"
  let ?P = "\<lambda>x. fst x = COMPLETED \<and> fst (snd x) = Some ''rejected'' \<and>
      filter (\<lambda>a. wa_decision a = ''approved'') (snd (snd x)) = []"
  have em: "obeys (keeps (\<lambda>s. ?p (g_state s))) m"
    if "obeys (keeps (\<lambda>s. em_view (g_state s))) m" for m :: "('w, unit) gm"
    using that by (auto simp: obeys_def keeps_def em_view_def)
  have c: "obeys (keeps (\<lambda>s. ?p (g_state s))) (set_current c)" for c
    by (simp add: obeys_def keeps_def set_current_def gm_prim_defs py_defs)
  have k: "obeys (keeps (\<lambda>s. ?p (g_state s))) (ethen (emit D ty data) (transition D c ty' data'))"
    for ty data c ty' data'
    unfolding transition_def
    by (intro keep.obeys_then c em [OF emit_view] em [OF em_view_save])
  have "sets (\<lambda>st. ?P (?p st)) (ethen (decide_all d approver reason)
      (upd (\<lambda>st. st\<lparr>st_outcome := Some ''rejected'', st_status := COMPLETED\<rparr>)))"
    if "d \<noteq> ''approved''" for d
    using that by (auto simp: sets_def decide_all_def gm_prim_defs run_simps filter_empty_conv)
  from sets_keep [where f = ?p and P = ?P, OF this k]
  have "sets (\<lambda>st. ?P (?p st)) (reject_run D decision approver reason)"
    unfolding reject_run_def by simp
  then show ?thesis by (simp add: approved_ids_def)
qed


text \<open>C13. The event stream of a run: the events that \<open>run\<close> and a resume append carry strictly
  increasing sequence numbers above the run's counter, the run's own run id and tenant id, pass the
  contract's checks, and are never both sensitive and shown.\<close>

theorem run_event_stream:
  "stream_ok (st_run_id (g_state s)) (st_tenant_id (g_state s)) (st_event_sequence (g_state s))
     (st_event_sequence (g_state (snd (run D s)))) (events_of (new_calls s (snd (run D s)))) \<and>
   stream_ok (st_run_id (g_state s)) (st_tenant_id (g_state s)) (st_event_sequence (g_state s))
     (st_event_sequence (g_state (snd (resume_after_approval D decision approver reason s))))
     (events_of (new_calls s (snd (resume_after_approval D decision approver reason s))))"
  using obeysD [OF event.m_run, of s D] obeysD [OF event.m_resume, of s D decision approver reason]
  by (auto simp: event_step_def)

text \<open>C14. A new run settles: when \<open>run\<close> returns, the run is completed, failed, cancelled or waits
  for an approval; it is never left created or running.\<close>

theorem new_run_settles:
  assumes "st_status (g_state s) = CREATED"
  shows "case run D s of (Inl e, t) \<Rightarrow> True | (Inr _, t) \<Rightarrow> settled (st_status (g_state t))"
  using assms run_settles [of D s] by (auto split: prod.splits sum.splits)


lemma run_outcome:
  assumes "run_start D s = (Inr (), u)" and "run_loop D u = (Inl e, v)"
  shows "run D s = run_handler D e v"
  using assms by (simp add: run_alt run_then run_try)

lemma run_raised:
  assumes "run_start D s = (Inl e, u)" shows "run D s = (Inl e, u)"
  using assms by (simp add: run_alt run_then)

lemma handler_from:
  assumes "tr_step silent_call s v" and "run D s = run_handler D e v"
  shows "list_all silent_call (new_calls s (snd (run D s)))"
  using tr.R_trans [OF assms(1) obeysD [OF handler_silent [of D e], of v]] assms(2)
  by (simp add: tr_step_new)

lemma cancelled_run_silent:
  assumes "st_cancelled (g_state s)"
  shows "list_all silent_call (new_calls s (snd (run D s))) \<and>
    (case run D s of (Inl e, t) \<Rightarrow> True
     | (Inr _, t) \<Rightarrow> st_status (g_state t) = CANCELLED \<and> st_outcome (g_state t) = Some ''cancelled'')"
proof -
  obtain r u where u: "run_start D s = (r, u)" by (cases "run_start D s")
  have su: "tr_step silent_call s u" by (rule obeys_eq [OF run_start_silent u])
  show ?thesis
  proof (cases r)
    case (Inl e)
    with u have "run D s = (Inl e, u)" by (simp add: run_raised)
    with su show ?thesis by (simp add: tr_step_new)
  next
    case (Inr x)
    from obeys_eq [OF run_start_flag u] assms have "st_cancelled (g_state u)" by (simp add: keeps_def)
    with run_loop_cancelled [of u D] obtain v
      where v: "run_loop D u = (Inl (RunCancelledError ''run was cancelled''), v)" "g_trace v = g_trace u"
      by blast
    with u Inr have r: "run D s = run_handler D (RunCancelledError ''run was cancelled'') v"
      by (simp add: run_outcome)
    from v(2) su have "tr_step silent_call s v" by (simp add: tr_step_def)
    from handler_from [OF this r] r handler_sets [of "RunCancelledError ''run was cancelled''" D]
    show ?thesis by (auto simp: sets_def split: prod.splits sum.splits)
  qed
qed

text \<open>C20. Cancellation: a run whose \<open>cancelled\<close> flag is set when \<open>run\<close> is called makes no tool call and
  no delegation, and when the store accepts the event it ends cancelled.\<close>

theorem cancelled_run_stops:
  assumes "st_cancelled (g_state s)"
  shows "list_all silent_call (new_calls s (snd (run D s))) \<and>
    (case run D s of (Inl e, t) \<Rightarrow> True
     | (Inr _, t) \<Rightarrow> st_status (g_state t) = CANCELLED \<and> st_outcome (g_state t) = Some ''cancelled'')"
  by (rule cancelled_run_silent [OF assms])

lemma usage_checks_class: "usage_checks l u = Inl e \<Longrightarrow> exc_class e = EBudgetExceeded"
  by (auto simp: usage_checks_def rbind_def check_def split: if_splits)

lemma run_loop_over_budget:
  assumes "\<not> st_cancelled (g_state s)" and "\<not> d_cancel_requested D (g_world s)"
    and "\<not> within_budget (g_state s)"
  obtains e v where "run_loop D s = (Inl e, v)" "exc_class e = EBudgetExceeded" "g_trace v = g_trace s"
proof -
  from assms(3) obtain e where e: "usage_checks (st_limits (g_state s)) (st_usage (g_state s)) = Inl e"
    by (cases "usage_checks (st_limits (g_state s)) (st_usage (g_state s))") (auto simp: within_budget_def)
  with assms(1,2) have "run_loop D s = (Inl e, s\<lparr>g_state := (g_state s)\<lparr>st_cancelled := False\<rparr>\<rparr>)"
    by (subst run_loop_head) (auto simp: check_cancel_def check_budgets_def run_simps get_state_def)
  with that usage_checks_class [OF e] show ?thesis by simp
qed

lemma budget_handler_sets:
  assumes "exc_class e = EBudgetExceeded"
  shows "sets (\<lambda>st. so st = (FAILED, Some ''failed'') \<and>
    st_error st = Some (error_dict BUDGET_EXCEEDED (exc_msg e))) (run_handler D e)"
proof -
  let ?p = "\<lambda>st. st_error st"
  have "obeys (keeps (\<lambda>s. st_error (g_state s))) (report_failed D c m)" for c m
    unfolding report_failed_def by (intro keep.obeys_intros keeps_emission) simp_all
  then have "sets (\<lambda>st. st_error st = Some (error_dict BUDGET_EXCEEDED (exc_msg e))) (run_handler D e)"
    unfolding run_handler_def using assms
    by (simp, intro sets_keep [where f = st_error])
      (simp_all add: sets_def set_failed_def upd_def emod_def)
  with handler_sets [of e D] assms show ?thesis by (auto simp: sets_def)
qed

text \<open>Budgets stop a run: a started run that is not cancelled and is over any usage limit makes no
  tool call and no delegation, and when the store accepts the event it has failed with the code
  \<open>budget_exceeded\<close>.\<close>

theorem over_budget_run_fails:
  assumes "st_status (g_state s) \<noteq> CREATED" and "\<not> st_cancelled (g_state s)"
    and "\<not> d_cancel_requested D (g_world s)" and "\<not> within_budget (g_state s)"
  shows "list_all silent_call (new_calls s (snd (run D s))) \<and>
    (case run D s of (Inl e, t) \<Rightarrow> True
     | (Inr _, t) \<Rightarrow> st_status (g_state t) = FAILED \<and>
         (\<exists>msg. st_error (g_state t) = Some (error_dict BUDGET_EXCEEDED msg)))"
proof -
  obtain e v where v: "run_loop D s = (Inl e, v)" "exc_class e = EBudgetExceeded" "g_trace v = g_trace s"
    using run_loop_over_budget [OF assms(2-4)] .
  have r: "run D s = run_handler D e v"
    using run_start_not_created [OF assms(1)] v(1) by (rule run_outcome)
  from v(3) have "tr_step silent_call s v" by (simp add: tr_step_def)
  from handler_from [OF this r] r budget_handler_sets [OF v(2), of D]
  show ?thesis by (auto simp: sets_def split: prod.splits sum.splits)
qed

text \<open>C34. Any other exception is contained: if the loop of a started run raises something that is
  neither a cancellation nor an exhausted budget, \<open>run\<close> still returns, whatever the store does, with
  the run failed.\<close>

theorem internal_errors_contained:
  assumes "st_status (g_state s) \<noteq> CREATED" and "run_loop D s = (Inl e, v)"
    and "exc_class e \<notin> {ERunCancelled, EBudgetExceeded}"
  shows "\<exists>t. run D s = (Inr (), t) \<and> st_status (g_state t) = FAILED \<and> st_outcome (g_state t) = Some ''failed''"
proof -
  have r: "run D s = run_handler D e v"
    using run_start_not_created [OF assms(1)] assms(2) by (rule run_outcome)
  have "\<exists>t. run_handler D e v = (Inr (), t)"
    using assms(3)
    by (auto simp: run_handler_def run_simps set_failed_def upd_def split: prod.splits sum.splits)
  with r handler_sets [of e D] assms(3) show ?thesis by (auto simp: sets_def)
qed

text \<open>C35. The loop follows \<open>STATES\<close>: a pass that neither returns nor raises moves to the state that
  comes next in that list, except that it never moves from the pause to the execution; only a resume
  with an approval does.\<close>

theorem run_step_follows_states:
  assumes "run_step D s = (Inr False, t)"
  shows "\<exists>i. Suc i < length STATES \<and> current s = STATES ! i \<and> current t = STATES ! Suc i \<and>
    current s \<noteq> ApprovalPause"
proof -
  have "next_state c = Some c' \<Longrightarrow> \<exists>i. Suc i < length STATES \<and> c = STATES ! i \<and> c' = STATES ! Suc i \<and>
      c \<noteq> ApprovalPause" for c c'
    by (cases c) (auto simp: STATES_def less_Suc_eq numeral_2_eq_2 nth_Cons' intro: exI [of _ 0]
        exI [of _ "1::nat"] exI [of _ "2::nat"] exI [of _ "3::nat"] exI [of _ "4::nat"] exI [of _ "5::nat"]
        exI [of _ "6::nat"] exI [of _ "7::nat"] exI [of _ "8::nat"] exI [of _ "10::nat"] exI [of _ "11::nat"])
  with run_step_next [OF assms] show ?thesis by blast
qed

section \<open>Properties of the steps\<close>

text \<open>What \<open>_do_findings\<close> guarantees of a finding it keeps.\<close>

definition finding_ok :: "wf_finding \<Rightarrow> bool" where
  "finding_ok f \<longleftrightarrow> 0 \<le> wf_confidence f \<and> wf_confidence f \<le> 1 \<and>
     wf_title f \<noteq> [] \<and> length (wf_title f) \<le> 256 \<and>
     wf_summary f \<noteq> [] \<and> length (wf_summary f) \<le> 4000 \<and>
     wf_evidence_refs f \<noteq> [] \<and> length (wf_evidence_refs f) \<le> 16 \<and> [] \<notin> set (wf_evidence_refs f) \<and>
     wf_severity f = severity_of (wf_confidence f)"

lemma finding_of_ok:
  assumes "finding_of E st i f = Inr (Inr fnd)" shows "finding_ok fnd"
proof -
  from assms obtain d where f: "f = PDict d" by (cases f) (auto simp: finding_of_def)
  let ?title = "strip (py_str E (dget_or d ''title'' (PStr [])))"
  let ?summary = "strip (py_str E (dget_or d ''summary'' (PStr [])))"
  from assms f obtain rs c where rs: "py_list (dget_or d ''evidence_refs'' (PList [])) = Inr rs"
    and c: "py_float E (dget_or d ''confidence'' (PFloat 0)) = Inr c"
    by (auto simp: finding_of_def Let_def split: sum.splits)
  let ?refs = "filter (\<lambda>r. r \<noteq> []) (map (py_str E) rs)"
  from assms f rs c have ne: "?title \<noteq> []" "?summary \<noteq> []" "?refs \<noteq> []"
    and fnd: "fnd = \<lparr>wf_finding_id = st_run_id st @ ''-f'' @ nat_str i,
       wf_f_run_id = st_run_id st, wf_f_tenant_id = st_tenant_id st,
       wf_title = take 256 ?title, wf_summary = take 4000 ?summary,
       wf_evidence_refs = take 16 ?refs, wf_confidence = max 0 (min 1 c),
       wf_severity = severity_of (max 0 (min 1 c))\<rparr>"
    by (auto simp: finding_of_def Let_def split: if_splits)
  from ne(3) obtain x xs where "?refs = x # xs" by (cases ?refs) blast+
  moreover have "[] \<notin> set (take 16 ?refs)" by (auto dest: in_set_takeD)
  ultimately show ?thesis using ne(1,2) unfolding finding_ok_def fnd by simp
qed

lemma findings_loop_ok: "findings_loop D i fs s = (Inr out, t) \<Longrightarrow> list_all finding_ok out"
proof (induction fs arbitrary: i s t out)
  case Nil
  then show ?case by (simp add: run_ret)
next
  case (Cons f fs)
  then show ?case
    by (auto simp: run_simps get_state_def dest: finding_of_ok split: prod.splits sum.splits)
qed

lemma max_confidence_ge: "fs \<noteq> [] \<Longrightarrow> c \<le> max_confidence fs \<longleftrightarrow> (\<exists>f \<in> set fs. c \<le> wf_confidence f)"
proof -
  have "c \<le> fold max xs (x :: rat) \<longleftrightarrow> c \<le> x \<or> (\<exists>y \<in> set xs. c \<le> y)" for xs x
    by (induction xs arbitrary: x) (auto simp: le_max_iff_disj)
  then show "fs \<noteq> [] \<Longrightarrow> ?thesis" by (cases fs) (auto simp: max_confidence_def)
qed

lemma publish_findings_run:
  assumes "publish_findings D fs s = (Inr b, t)"
  shows "st_findings (g_state t) = fs \<and> (b \<longleftrightarrow> fs = [] \<or> max_confidence fs < LOW_CONFIDENCE_THRESHOLD)"
proof -
  let ?K = "\<lambda>m. obeys (keeps (\<lambda>s. st_findings (g_state s))) m"
  have k: "?K (add_unresolved n)" "?K (finish oc)" "?K (set_current c)" for n oc c
    by (simp_all add: obeys_def keeps_def add_unresolved_def finish_def set_current_def gm_prim_defs py_defs)
  let ?go = "ethen (set_current Propose) (ethen (save D) (eret False))"
  let ?tail = "ethen (efor fs (\<lambda>f. emit D FINDING_CREATED [(''finding'', PDict (finding_dict f))]))
     (ethen (save D) (if fs = [] \<or> max_confidence fs < LOW_CONFIDENCE_THRESHOLD then ask_more_info D else ?go))"
  have "?K ?tail"
    unfolding transition_def ask_more_info_def by (intro keep.obeys_intros k keeps_emission) simp_all
  then have "sets (\<lambda>st. st_findings st = fs) (publish_findings D fs)"
    unfolding publish_findings_def
    by (intro sets_keep [where f = st_findings and P = "\<lambda>x. x = fs"])
      (simp add: sets_def upd_def emod_def)
  moreover have "ask_more_info D u \<noteq> (Inr False, v)" "?go u \<noteq> (Inr True, v)" for u v
    by (auto simp: ask_more_info_def run_simps split: prod.splits sum.splits)
  with assms have "b \<longleftrightarrow> fs = [] \<or> max_confidence fs < LOW_CONFIDENCE_THRESHOLD"
    unfolding publish_findings_def
    by (cases b) (auto simp: run_then [of "upd _"] run_then [of "efor _ _"] run_then [of "save D" "if _ then _ else _"]
        split: prod.splits sum.splits if_splits)
  ultimately show ?thesis using assms by (auto simp: sets_def)
qed

text \<open>Findings: every finding \<open>_do_findings\<close> keeps has a confidence between 0 and 1 with the
  severity that belongs to it, a title and a summary within their length caps and one to sixteen
  non-empty evidence references; and the step ends the run for lack of confidence exactly when no
  finding reaches one half.\<close>

theorem findings_within_contract:
  assumes "do_findings D s = (Inr b, t)"
  shows "list_all finding_ok (st_findings (g_state t)) \<and>
    (b \<longleftrightarrow> \<not> (\<exists>f \<in> set (st_findings (g_state t)). 1 / 2 \<le> wf_confidence f))"
proof -
  from assms obtain raw fs u v where "findings_loop D 0 raw u = (Inr fs, v)"
    and r: "publish_findings D fs v = (Inr b, t)"
    by (auto simp: do_findings_def run_bind split: prod.splits sum.splits)
  then have "list_all finding_ok fs" by (auto dest: findings_loop_ok)
  with publish_findings_run [OF r] max_confidence_ge [of fs "1 / 2"] show ?thesis
    by (cases "fs = []") (auto simp: LOW_CONFIDENCE_THRESHOLD_def not_less)
qed

text \<open>The confidence a stored finding carries.\<close>

definition conf_at_most :: "pyfloat \<Rightarrow> pyval \<Rightarrow> bool" where
  "conf_at_most k f = (case f of
     PDict d \<Rightarrow> (case dget_none d ''confidence'' of PFloat c \<Rightarrow> c \<le> k | _ \<Rightarrow> False) | _ \<Rightarrow> False)"

lemma adjust_all_None:
  "adjust_all g fs = (fs', None) \<Longrightarrow> list_all2 (\<lambda>f f'. g f = Inr f') fs fs'"
  by (induction fs arbitrary: fs') (auto split: sum.splits prod.splits)

lemma set_conf_cap: "set_conf E (\<lambda>c. min c k) dflt f = Inr f' \<Longrightarrow> dflt \<le> k \<Longrightarrow> conf_at_most k f'"
  by (auto simp: set_conf_def conf_at_most_def split: pyval.splits sum.splits)

lemma put_findings_output:
  assumes "a2a_output st = Some out" and "dget_none out ''findings'' = PList xs"
  shows "map_option (\<lambda>o'. dget_none o' ''findings'') (a2a_output (put_findings fs st)) = Some (PList fs)"
proof -
  from assms(1) obtain r where r: "st_a2a_result st = Some r" by (auto simp: a2a_output_def split: option.splits)
  with assms show ?thesis by (simp add: put_findings_def a2a_output_def)
qed

text \<open>Conflict: when the specialist's findings are on average above 0.6 while the primary health
  read says healthy, the conflict is recorded among the unresolved questions and every finding comes
  out with a confidence of at most 0.6, in the list the step goes on with and in the stored result.\<close>

theorem conflict_caps_confidence:
  assumes "cap_conflict D fs s = (Inr fs', t)" and "fs \<noteq> []"
    and "find_evidence (g_state s) ''service.get_health'' = Some health"
    and "dget_none health ''status'' = PStr ''healthy''"
    and "avg_conf (d_env D) fs = Inr avg" and "avg > 6 / 10"
    and "a2a_output (g_state s) = Some out" and "dget_none out ''findings'' = PList fs"
  shows "list_all (conf_at_most (6 / 10)) fs' \<and> length fs' = length fs \<and>
    conflict_text \<in> set (st_unresolved (g_state t)) \<and>
    map_option (\<lambda>o'. dget_none o' ''findings'') (a2a_output (g_state t)) = Some (PList fs')"
proof -
  let ?g = "set_conf (d_env D) (\<lambda>c. min c (6 / 10)) (1 / 2)"
  let ?st = "(g_state s)\<lparr>st_conflict := Some conflict_text,
      st_unresolved := st_unresolved (g_state s) @ [conflict_text]\<rparr>"
  from assms have adj: "adjust_all ?g fs = (fs', None)"
    and t: "g_state t = put_findings fs' ?st"
    by (auto simp: cap_conflict_def adjust_findings_def add_unresolved_def run_simps gm_prim_defs
        split: prod.splits option.splits)
  from adjust_all_None [OF adj] have l2: "list_all2 (\<lambda>f f'. ?g f = Inr f') fs fs'" .
  have "conf_at_most (6 / 10) f'" if "?g f = Inr f'" for f f'
    using that by (rule set_conf_cap) simp
  with l2 have 1: "list_all (conf_at_most (6 / 10)) fs'"
    by (induction rule: list_all2_induct) auto
  from assms(7) have "a2a_output ?st = Some out" by (simp add: a2a_output_def)
  from put_findings_output [OF this assms(8)] t
  have 2: "map_option (\<lambda>o'. dget_none o' ''findings'') (a2a_output (g_state t)) = Some (PList fs')" by simp
  have "st_unresolved (put_findings fs' st) = st_unresolved st" for st
    by (simp add: put_findings_def split: option.splits pyval.splits)
  with t have "conflict_text \<in> set (st_unresolved (g_state t))" by simp
  with 1 2 l2 show ?thesis by (simp add: list_all2_lengthD)
qed

lemma policy_loop_length: "policy_loop D env as s = (Inr ds, t) \<Longrightarrow> length ds = length as"
  by (induction "as" arbitrary: s ds t) (auto simp: run_simps split: prod.splits sum.splits)

lemma apply_decisions_run:
  assumes "apply_decisions D ds s = (Inr b, t)"
  shows "st_policy_decisions (g_state t) = ds \<and> (b \<longleftrightarrow> denied_decisions ds \<noteq> [])"
proof -
  let ?K = "\<lambda>m. obeys (keeps (\<lambda>s. st_policy_decisions (g_state s))) m"
  have k: "?K (finish oc)" "?K (set_current c)" for oc c
    by (simp_all add: obeys_def keeps_def finish_def set_current_def gm_prim_defs py_defs)
  let ?go = "ethen (set_current ApprovalPause) (ethen (save D) (eret False))"
  have "?K (ethen (save D) (if denied_decisions ds \<noteq> [] then explain_denial D (denied_decisions ds) else ?go))"
    unfolding transition_def explain_denial_def Let_def by (intro keep.obeys_intros k keeps_emission) simp_all
  then have "sets (\<lambda>st. st_policy_decisions st = ds) (apply_decisions D ds)"
    unfolding apply_decisions_def
    by (intro sets_keep [where f = st_policy_decisions and P = "\<lambda>x. x = ds"])
      (simp add: sets_def upd_def emod_def)
  moreover have "explain_denial D xs u \<noteq> (Inr False, v)" "?go u \<noteq> (Inr True, v)" for xs u v
    by (auto simp: explain_denial_def Let_def run_simps split: prod.splits sum.splits)
  with assms have "b \<longleftrightarrow> denied_decisions ds \<noteq> []"
    unfolding apply_decisions_def
    by (cases b) (auto simp: run_then [of "upd _"] run_then [of "save D" "if _ then _ else _"]
        split: prod.splits sum.splits if_splits)
  ultimately show ?thesis using assms by (auto simp: sets_def)
qed

lemma policy_returns_complete: "returns (\<lambda>st. st_current st = Complete) (do_policy D)"
proof -
  have "moves_to Complete (explain_denial D ds)" for ds
    unfolding explain_denial_def Let_def
    by (intro moves_to_then [of _ "ethen _ _"] moves_to_keep moves_to_transition keep.obeys_ret)
  then have "sets (\<lambda>st. st_current st = Complete) (explain_denial D ds)" for ds
    by (simp add: moves_to_def sets_def)
  then show ?thesis unfolding do_policy_def apply_decisions_def Let_def
    by (intro returns_bind returns_then returns_if continue_returns returns_sets)
qed

text \<open>Denial: every proposed action gets a decision; when one of them is not allowed the run ends
  there, completed with outcome "denied", otherwise it goes on to the pause; either way no tool is
  called.\<close>

theorem policy_denial_ends_run:
  assumes "do_policy D s = (Inr b, t)"
  shows "list_all silent_call (new_calls s t) \<and>
    length (st_policy_decisions (g_state t)) = length (st_proposed_actions (g_state s)) \<and>
    (b \<longleftrightarrow> denied_decisions (st_policy_decisions (g_state t)) \<noteq> []) \<and>
    (if b then st_status (g_state t) = COMPLETED \<and> st_outcome (g_state t) = Some ''denied'' \<and> current t = Complete
     else current t = ApprovalPause)"
proof -
  have "obeys (tr_step silent_call) (do_policy D)"
    unfolding do_policy_def apply_decisions_def explain_denial_def transition_def finish_def set_current_def Let_def
    by (intro silent.q_intros silent.q_policy_loop tr_prims)
  from obeys_eq [OF this assms] have 1: "list_all silent_call (new_calls s t)" by (rule tr_step_new)
  from assms obtain ds env u where "policy_loop D env (st_proposed_actions (g_state s)) s = (Inr ds, u)"
    and r: "apply_decisions D ds u = (Inr b, t)"
    by (auto simp: do_policy_def run_simps get_state_def Let_def split: prod.splits sum.splits)
  with policy_loop_length apply_decisions_run [OF r]
  have 2: "length (st_policy_decisions (g_state t)) = length (st_proposed_actions (g_state s)) \<and>
    (b \<longleftrightarrow> denied_decisions (st_policy_decisions (g_state t)) \<noteq> [])" by metis
  from assms policy_returns [of D] policy_returns_complete [of D] policy_continues [of D]
  have "if b then st_status (g_state t) = COMPLETED \<and> st_outcome (g_state t) = Some ''denied'' \<and> current t = Complete
     else current t = ApprovalPause"
    by (cases b) (auto simp: returns_def continues_in_def)
  with 1 2 show ?thesis by blast
qed

section \<open>Where the code departs from its documentation\<close>

text \<open>Every tool call fails with an ordinary error.\<close>

definition mcp_down :: "'w graph_deps \<Rightarrow> bool" where
  "mcp_down D \<longleftrightarrow> (\<forall>tool args tmo w. \<exists>e w'. d_invoke D tool args tmo w = (Inl e, w') \<and>
     exc_class e \<notin> {ERunCancelled, EBudgetExceeded})"

lemma breaker_keeps:
  "obeys (keeps g_breaker) (check_cancel D)" "obeys (keeps g_breaker) (spend_tool D)"
  "obeys (keeps g_breaker) (read_clock f)" "obeys (keeps g_breaker) (emit D ty data)"
  "obeys (keeps g_breaker) (invoke D tool args)"
proof -
  have p: "obeys (keeps g_breaker) (upd h)" "obeys (keeps g_breaker) (log_call lc)"
    "obeys (keeps g_breaker) (on_world wm)" "obeys (keeps g_breaker) (read_clock g)"
    "obeys (keeps g_breaker) get_state" for h lc wm g
    by (simp_all add: obeys_def keeps_def gm_prim_defs py_defs split_def)
  show "obeys (keeps g_breaker) (check_cancel D)" unfolding check_cancel_def
    by (intro keep.obeys_intros keep.obeys_mod p) (simp add: keeps_def)
  show "obeys (keeps g_breaker) (spend_tool D)" unfolding spend_tool_def check_budgets_def upd_usage_def
    by (intro keep.obeys_intros p)
  show "obeys (keeps g_breaker) (emit D ty data)" unfolding emit_def emit_full_def
    by (intro keep.obeys_intros p)
  show "obeys (keeps g_breaker) (invoke D tool args)" unfolding invoke_def
    by (intro keep.obeys_intros p)
  show "obeys (keeps g_breaker) (read_clock f)" by (rule p)
qed

lemma invoke_down: "mcp_down D \<Longrightarrow> invoke D tool args s \<noteq> (Inr out, t)"
  unfolding mcp_down_def invoke_def
  by (auto simp: gm_prim_defs run_simps split_def) (metis fst_conv sum.distinct(1))

lemma attempt_down:
  assumes "mcp_down D" and "mcp_attempt D tool args s = (r, t)"
  shows "(\<exists>e. r = Inl e) \<and> g_breaker t = g_breaker s"
proof -
  obtain r1 s1 where 1: "check_cancel D s = (r1, s1)" by (cases "check_cancel D s")
  obtain r2 s2 where 2: "spend_tool D s1 = (r2, s2)" by (cases "spend_tool D s1")
  obtain r3 s3 where 3: "read_clock (d_monotonic D) s2 = (r3, s3)" by (cases "read_clock (d_monotonic D) s2")
  obtain r4 s4 where 4: "invoke D tool args s3 = (r4, s4)" by (cases "invoke D tool args s3")
  note b = obeys_eq [OF breaker_keeps(1) 1] obeys_eq [OF breaker_keeps(2) 2]
    obeys_eq [OF breaker_keeps(3) 3] obeys_eq [OF breaker_keeps(5) 4]
  from invoke_down [OF assms(1), of tool args s3] 4 obtain e where "r4 = Inl e" by (cases r4) auto
  with assms(2) 1 2 3 4 b show ?thesis
    by (cases r1; cases r2; cases r3) (auto simp: mcp_attempt_def run_then run_bind keeps_def)
qed

lemma attempts_down:
  "mcp_down D \<Longrightarrow> mcp_attempts D tool args n s = (r, t) \<Longrightarrow>
     (\<forall>out. r \<noteq> Inr (Inr out)) \<and> g_breaker t = g_breaker s"
proof (induction n arbitrary: s)
  case 0
  obtain r1 u where a: "mcp_attempt D tool args s = (r1, u)" by (cases "mcp_attempt D tool args s")
  from attempt_down [OF 0(1) a] 0(2) a show ?case
    by (subst (asm) mcp_attempts.simps) (auto simp: run_simps split: if_splits)
next
  case (Suc n)
  obtain r1 u where a: "mcp_attempt D tool args s = (r1, u)" by (cases "mcp_attempt D tool args s")
  from attempt_down [OF Suc.prems(1) a] Suc.prems(2) a Suc.IH [OF Suc.prems(1), of u] show ?case
    by (subst (asm) mcp_attempts.simps) (auto simp: run_simps split: if_splits)
qed

lemma read_down:
  assumes "mcp_down D" and "mcp_read D tool args s = (Inr r, t)" and "breaker_inv (g_breaker s)"
  shows "r = None \<and> breaker_inv (g_breaker t) \<and> cb_threshold (g_breaker t) = cb_threshold (g_breaker s) \<and>
    failure_count (g_breaker s) ''mcp'' < cb_threshold (g_breaker s) \<and>
    failure_count (g_breaker t) ''mcp'' = failure_count (g_breaker s) ''mcp'' + 1"
proof -
  from assms(2) obtain u v r1 where g: "breaker_guard (g_breaker s) ''mcp'' = Inr ()"
    and e: "emit D TOOL_STARTED [(''tool_name'', PStr tool), (''args'', PDict (redact args))] s = (Inr (), u)"
    and a: "mcp_attempts D tool args MAX_READ_RETRIES u = (Inr r1, v)"
    and f: "(case r1 of Inr out \<Rightarrow> eret (Some out) | Inl err \<Rightarrow>
          ethen (on_breaker (record_failure ''mcp''))
          (ethen (emit D TOOL_COMPLETED [(''tool_name'', PStr tool), (''status'', PStr ''failed''),
                    (''error'', PStr (safe_error (Some err)))])
          (eret None))) v = (Inr r, t)"
    by (auto simp: mcp_read_def run_then run_bind run_lift guard_breaker_def split: prod.splits sum.splits)
  from attempts_down [OF assms(1) a] obtain err where r1: "r1 = Inl err" and vb: "g_breaker v = g_breaker u"
    by (cases r1) auto
  have ub: "g_breaker u = g_breaker s" using obeys_eq [OF breaker_keeps(4) e] by (simp add: keeps_def)
  from f r1 obtain data where em: "emit D TOOL_COMPLETED data (v\<lparr>g_breaker := record_failure ''mcp'' (g_breaker v)\<rparr>) = (Inr (), t)"
    and "r = None"
    by (auto simp: run_simps on_breaker_def split: prod.splits sum.splits)
  have "g_breaker t = record_failure ''mcp'' (g_breaker s)"
    using obeys_eq [OF breaker_keeps(4) em] ub vb by (simp add: keeps_def)
  with assms(3) g \<open>r = None\<close> show ?thesis
    by (auto simp: breaker_guard_iff intro: breaker_inv_failure)
qed

lemma evidence_down:
  assumes "mcp_down D" and "read_evidence D service tool s = (Inr x, t)" and "breaker_inv (g_breaker s)"
  shows "breaker_inv (g_breaker t) \<and> cb_threshold (g_breaker t) = cb_threshold (g_breaker s) \<and>
    failure_count (g_breaker s) ''mcp'' < cb_threshold (g_breaker s) \<and>
    failure_count (g_breaker t) ''mcp'' = failure_count (g_breaker s) ''mcp'' + 1"
proof -
  from assms(2) obtain r u where r: "mcp_read D tool [(''service'', PStr service)] s = (Inr r, u)"
    and u: "(case r of None \<Rightarrow> eret () | Some d \<Rightarrow> upd (\<lambda>st. st\<lparr>st_mcp_evidence := st_mcp_evidence st @
         [dmerge [(''tool'', PStr tool)] (map (\<lambda>(k, v). (k, jsonable_val v)) d)]\<rparr>)) u = (Inr x, t)"
    by (auto simp: read_evidence_def run_bind split: prod.splits sum.splits)
  from read_down [OF assms(1) r assms(3)] u show ?thesis by (auto simp: run_ret)
qed

text \<open>The breaker does not degrade: when every primary read fails on a new graph, the fourth read
  meets the open circuit outside the retry loop, so the reads step always raises; the note about
  degraded evidence is never reached and the run fails instead.\<close>

theorem failing_reads_raise:
  assumes "mcp_down D" and "g_breaker s = new_breaker"
  shows "\<exists>e t. do_mcp_reads D s = (Inl e, t)"
proof (rule ccontr)
  assume "\<nexists>e t. do_mcp_reads D s = (Inl e, t)"
  then obtain x t where "do_mcp_reads D s = (Inr x, t)"
    by (cases "do_mcp_reads D s"; cases "fst (do_mcp_reads D s)") auto
  then obtain s1 s2 s3 s4 service where
    1: "read_evidence D service ''telemetry.query_metrics'' s = (Inr (), s1)"
    and 2: "read_evidence D service ''telemetry.query_logs'' s1 = (Inr (), s2)"
    and 3: "read_evidence D service ''service.get_health'' s2 = (Inr (), s3)"
    and 4: "read_evidence D service ''deployment.get_current_release'' s3 = (Inr (), s4)"
    by (auto simp: do_mcp_reads_def primary_reads_def run_simps get_state_def split: prod.splits sum.splits)
  from assms(2) have 0: "breaker_inv (g_breaker s)" "failure_count (g_breaker s) ''mcp'' = 0"
    "cb_threshold (g_breaker s) = 3"
    by (simp_all add: breaker_inv_new) (simp_all add: new_breaker_def failure_count_def CIRCUIT_BREAKER_THRESHOLD_def)
  from evidence_down [OF assms(1) 1 0(1)] 0
  have s1: "breaker_inv (g_breaker s1)" "failure_count (g_breaker s1) ''mcp'' = 1" "cb_threshold (g_breaker s1) = 3" by auto
  from evidence_down [OF assms(1) 2 s1(1)] s1
  have s2: "breaker_inv (g_breaker s2)" "failure_count (g_breaker s2) ''mcp'' = 2" "cb_threshold (g_breaker s2) = 3" by auto
  from evidence_down [OF assms(1) 3 s2(1)] s2
  have s3: "breaker_inv (g_breaker s3)" "failure_count (g_breaker s3) ''mcp'' = 3" "cb_threshold (g_breaker s3) = 3" by auto
  from evidence_down [OF assms(1) 4 s3(1)] s3 show False by auto
qed

text \<open>A pause with nothing proposed returns unsettled: \<open>run\<close> gives back a run that is still
  running, moved to \<open>verify\<close>, although its documentation promises a terminal state or a pause.\<close>

theorem pause_without_actions_unsettled:
  assumes "current s = ApprovalPause" and "st_status (g_state s) = RUNNING"
    and "st_proposed_actions (g_state s) = []" and "run_loop D s = (Inr (), t)"
  shows "run D s = (Inr (), t) \<and> current t = Verify \<and> st_status (g_state t) = RUNNING"
proof -
  from assms(1,4) obtain u v where u: "check_cancel D s = (Inr (), u)" "check_budgets D u = (Inr (), v)"
    and p: "do_approval_pause D v = (Inr (), t)"
    using check_cancel_run [of D s] check_budgets_run [of D]
    by (subst (asm) run_loop_head)
      (auto simp: frame_core_def step_of_def run_simps split: prod.splits sum.splits bool.splits)
  from check_cancel_run [OF u(1)] check_budgets_run [OF u(2)] assms(2,3)
  have "st_status (g_state v) = RUNNING" "st_proposed_actions (g_state v) = []"
    by (simp_all add: frame_core_def)
  then have "current t = Verify \<and> st_status (g_state t) = RUNNING"
    using p by (auto simp: do_approval_pause_def set_current_def save_def gm_prim_defs run_simps split_def)
  moreover have "run D s = (Inr (), t)"
    using assms(2,4) run_start_not_created [of s D] by (simp add: run_alt run_then run_try)
  ultimately show ?thesis by blast
qed

end
