(* ===== verification/GraphFakes.thy ===== *)
theory GraphFakes
  imports GraphProps
begin

text \<open>
  The deterministic clients of \<^verbatim>\<open>src/apps/orchestrator/graph.py\<close>, which are also the ones the
  worker wires in (\<^verbatim>\<open>src/apps/worker/worker.py\<close>): model, tools, specialist, policy and the
  in-memory persistence, with the state each keeps. Together they are one instance of the clients
  the graph is parametric in, on which runs can be computed.
\<close>

record fakes =
  fk_fail_tools :: "(string \<times> string) list"
  fk_health_status :: string
  fk_mcp_calls :: "(string \<times> pydict) list"
  fk_a2a_mode :: string
  fk_confidence :: pyfloat
  fk_a2a_calls :: "pydict list"
  fk_cancelled :: "string list"
  fk_policy_mode :: string
  fk_saves :: "RunState list"
  fk_events :: "AgentEvent list"
  fk_clock :: datetime

section \<open>FakeModelClient\<close>

definition fake_classify :: "string \<Rightarrow> pydict \<Rightarrow> pydict" where
  "fake_classify objective ctx =
     (let obj = strip objective in
      if length obj < 8 then
        [(''category'', PStr ''unknown''), (''needs_clarification'', PBool True),
         (''reason'', PStr ''objective too short'')]
      else
        let lowered = lower obj;
            category = (if str_in ''checkout'' lowered \<or> str_in ''error rate'' lowered
                          \<or> str_in ''incident'' lowered then ''incident''
                        else if str_in ''deploy'' lowered \<or> str_in ''rollback'' lowered then ''change''
                        else ''investigation'')
        in if \<not> truthy (dget_none ctx ''service'') \<and> \<not> str_in ''service'' lowered then
             [(''category'', PStr category), (''needs_clarification'', PBool True),
              (''reason'', PStr ''missing service context'')]
           else
             [(''category'', PStr category), (''needs_clarification'', PBool False),
              (''reason'', PStr (category @ '' investigation''))])"

definition fake_plan :: "string \<Rightarrow> pydict \<Rightarrow> string list" where
  "fake_plan objective classification =
     [''retrieve service metadata'', ''query read-only telemetry (metrics/logs/health)'',
      ''delegate to observability specialist'', ''correlate specialist output with primary evidence'',
      ''propose approval-gated actions'']"

section \<open>FakeMCPClient\<close>

definition fake_tool_result :: "pyenv \<Rightarrow> fakes \<Rightarrow> string \<Rightarrow> pydict \<Rightarrow> pydict" where
  "fake_tool_result E w tool args =
     (let service = py_str E (dget_or args ''service'' (PStr ''checkout-api'')) in
      if tool = ''telemetry.query_metrics'' then
        [(''service'', PStr service), (''error_rate'', PFloat (18 / 100)),
         (''ref'', PStr (''telemetry://m/'' @ service @ ''/err''))]
      else if tool = ''telemetry.query_logs'' then
        [(''service'', PStr service), (''errors'', PInt 42),
         (''ref'', PStr (''telemetry://l/'' @ service @ ''/err''))]
      else if tool = ''service.get_health'' then
        [(''service'', PStr service), (''status'', PStr (fk_health_status w)),
         (''ref'', PStr (''telemetry://h/'' @ service))]
      else if tool = ''deployment.get_current_release'' then
        [(''service'', PStr service), (''release'', PStr ''2026.09.10''),
         (''ref'', PStr (''resource://releases/'' @ service))]
      else if tool = ''telemetry.get_trace'' then
        let trace_id = py_str E (dget_or args ''trace_id'' (PStr ''trace-mock-1'')) in
        [(''service'', PStr service), (''trace_id'', PStr trace_id),
         (''ref'', PStr (''trace://t/'' @ service @ ''/'' @ trace_id))]
      else if tool = ''remediation.simulate'' then
        [(''action'', PStr (py_str E (dget_or args ''action'' (PStr ''restart'')))),
         (''executed'', PBool False), (''dry_run'', PBool True), (''ref'', PStr ''simulate://s/1'')]
      else if tool \<in> {''ticket.create'', ''deployment.rollback''} then
        [(''ok'', PBool True), (''dry_run'', PBool (truthy (dget_or args ''dry_run'' (PBool False)))),
         (''ref'', PStr ''ticket://t/1'')]
      else [(''ok'', PBool True)])"

definition fake_invoke :: "pyenv \<Rightarrow> string \<Rightarrow> pydict \<Rightarrow> pyfloat \<Rightarrow> (fakes, pyval) em" where
  "fake_invoke E tool args timeout_s =
     ebind (elift (validate_tool_call E tool args)) (\<lambda>_.
     ethen (emod (\<lambda>w. w\<lparr>fk_mcp_calls := fk_mcp_calls w @ [(tool, args)]\<rparr>))
     (ebind (eget (\<lambda>w. map_of (fk_fail_tools w) tool)) (\<lambda>mode.
      if mode = Some ''timeout'' then eraise (TimeoutError (''tool '' @ tool @ '' timed out''))
      else if mode = Some ''error'' then eraise (RuntimeError (''tool '' @ tool @ '' failed''))
      else if mode = Some ''malformed'' then eret (PDict [(''unexpected_blob'', PObj ''<object object>'')])
      else eget (\<lambda>w. PDict (fake_tool_result E w tool args)))))"

section \<open>FakeA2AClient\<close>

definition a2a_finding :: "string \<Rightarrow> string \<Rightarrow> string \<Rightarrow> pyfloat \<Rightarrow> pyval" where
  "a2a_finding title summary ref conf = PDict [(''title'', PStr title), (''summary'', PStr summary),
     (''evidence_refs'', PList [PStr ref]), (''confidence'', PFloat conf)]"

definition a2a_reply :: "string \<Rightarrow> pyval list \<Rightarrow> pyval \<Rightarrow> pyval list \<Rightarrow> pyval" where
  "a2a_reply task_id fs cause qs = PDict [(''task_id'', PStr task_id), (''status'', PStr ''completed''),
     (''output'', PDict [(''findings'', PList fs), (''probable_cause'', cause),
        (''unresolved_questions'', PList qs)])]"

definition fake_delegate :: "pyenv \<Rightarrow> pydict \<Rightarrow> pyfloat \<Rightarrow> (fakes, pyval) em" where
  "fake_delegate E request timeout_s =
     ethen (emod (\<lambda>w. w\<lparr>fk_a2a_calls := fk_a2a_calls w @ [request]\<rparr>))
     (ebind (eget (\<lambda>w. (fk_a2a_mode w, fk_confidence w))) (\<lambda>(mode, conf).
      let task_id = py_str E (dget_or request ''task_id'' (PStr ''task_1'')) in
      if mode = ''timeout'' then eraise (TimeoutError ''A2A delegation timed out'')
      else if mode = ''failed'' then
        eret (PDict [(''task_id'', PStr task_id), (''status'', PStr ''failed''),
          (''error'', PDict [(''code'', PStr ''a2a_error''), (''message'', PStr ''specialist unavailable''),
             (''retryable'', PBool True)])])
      else if mode = ''malformed'' then
        eret (PDict [(''task_id'', PStr task_id), (''status'', PStr ''completed''),
          (''output'', PDict [(''bogus'', PInt 1)])])
      else if mode = ''low_confidence'' then
        eret (a2a_reply task_id [] PNone [PStr ''insufficient telemetry refs''])
      else if mode = ''conflict'' then
        eret (a2a_reply task_id [a2a_finding ''All healthy'' ''No anomaly detected'' ''a2a://obs/1'' (9 / 10)]
          (PStr ''All healthy'') [])
      else
        eret (a2a_reply task_id [a2a_finding ''Metric anomaly in checkout-api''
            ''Elevated error rate correlates with recent release'' ''telemetry://m/checkout-api/err'' conf]
          (PStr ''Metric anomaly in checkout-api'') [])))"

definition fake_cancel :: "string \<Rightarrow> (fakes, unit) em" where
  "fake_cancel task_id = emod (\<lambda>w. w\<lparr>fk_cancelled := fk_cancelled w @ [task_id]\<rparr>)"

section \<open>FakePolicyClient\<close>

text \<open>\<open>PolicyDecision.model_dump(mode="json")\<close>, the fields the graph reads.\<close>

definition policy_dict :: "PolicyDecision \<Rightarrow> pydict" where
  "policy_dict d = [(''allowed'', PBool (pd_allowed d)), (''requires_approval'', PBool (pd_requires_approval d)),
     (''reason'', PStr (pd_reason d)), (''required_scopes'', PList (map PStr (pd_required_scopes d)))]"

definition deny_dict :: "string \<Rightarrow> pydict" where
  "deny_dict reason = [(''allowed'', PBool False), (''requires_approval'', PBool False),
     (''reason'', PStr reason), (''required_scopes'', PList [])]"

definition fake_policy :: "ProposedAction \<Rightarrow> string \<Rightarrow> (fakes, pydict) em" where
  "fake_policy action env =
     ebind (eget fk_policy_mode) (\<lambda>mode.
      let tool = pa_tool_name action;
          side_effect = (case map_of TOOL_REGISTRY tool of
            Some spec \<Rightarrow> SideEffect_value (ts_side_effect spec) | None \<Rightarrow> ''external_write'')
      in if mode = ''deny_all'' then eret (deny_dict ''denied by test policy'')
         else if mode = ''deny_rollback'' \<and> tool = ''deployment.rollback'' then
           eret (deny_dict ''rollback denied in test policy'')
         else ebind (elift (evaluate_action \<lparr>aq_tool_name = tool, aq_side_effect = side_effect,
             aq_tenant_id = None, aq_resource_tenant_id = None, aq_env = env, aq_run_id = None,
             aq_trace_id = None, aq_correlation_id = None\<rparr>)) (\<lambda>d. eret (policy_dict d)))"

section \<open>InMemoryPersistence\<close>

definition mem_save :: "RunState \<Rightarrow> (fakes, unit) em" where
  "mem_save st = emod (\<lambda>w. w\<lparr>fk_saves := fk_saves w @ [st]\<rparr>)"

definition mem_append :: "AgentEvent \<Rightarrow> (fakes, unit) em" where
  "mem_append ev = emod (\<lambda>w. w\<lparr>fk_events := fk_events w @ [ev]\<rparr>)"

definition event_types :: "fakes \<Rightarrow> string list" where
  "event_types w = map (\<lambda>e. EventType_value (ev_type e)) (fk_events w)"

text \<open>\<open>request_cancel(store, run_id)\<close>: flags the latest saved copy of the run.\<close>

fun flag_last :: "string \<Rightarrow> RunState list \<Rightarrow> RunState list option" where
  "flag_last run_id [] = None"
| "flag_last run_id (st # sts) = (if st_run_id st = run_id then Some (st\<lparr>st_cancelled := True\<rparr> # sts)
     else map_option ((#) st) (flag_last run_id sts))"

definition request_cancel :: "string \<Rightarrow> fakes \<Rightarrow> bool \<times> fakes" where
  "request_cancel run_id w = (case flag_last run_id (rev (fk_saves w)) of
     None \<Rightarrow> (False, w) | Some sts \<Rightarrow> (True, w\<lparr>fk_saves := rev sts\<rparr>))"

section \<open>The wiring\<close>

text \<open>\<open>GraphDeps()\<close> with its default factories; the clock and the environment are parameters.\<close>

definition fake_deps :: "pyenv \<Rightarrow> fakes graph_deps" where
  "fake_deps E = \<lparr>d_env = E, d_invoke = fake_invoke E, d_delegate = fake_delegate E,
     d_cancel = Some fake_cancel, d_policy = fake_policy, d_append = mem_append, d_save = mem_save,
     d_classify = (\<lambda>objective ctx. eret (fake_classify objective ctx)),
     d_plan = (\<lambda>objective classification. eret (fake_plan objective classification)),
     d_now = (\<lambda>w. (fk_clock w, w)), d_utcnow = (\<lambda>w. (fk_clock w, w)),
     d_monotonic = (\<lambda>w. (0, w)), d_cancel_requested = (\<lambda>w. False)\<rparr>"

definition default_fakes :: "datetime \<Rightarrow> fakes" where
  "default_fakes now = \<lparr>fk_fail_tools = [], fk_health_status = ''degraded'', fk_mcp_calls = [],
     fk_a2a_mode = ''ok'', fk_confidence = 8 / 10, fk_a2a_calls = [], fk_cancelled = [],
     fk_policy_mode = ''approve_all'', fk_saves = [], fk_events = [], fk_clock = now\<rparr>"

definition demo_state :: RunState where
  "demo_state = new_RunState ''run_1'' ''tenant_a'' ''Investigate checkout errors''
     [(''service'', PStr ''checkout-api'')] 0"

definition demo :: "fakes gst" where
  "demo = new_graph demo_state (default_fakes 0)"

text \<open>A run in a given state of the workflow, on the default clients.\<close>

definition at_state :: "wf_state \<Rightarrow> RunState \<Rightarrow> fakes gst" where
  "at_state c st = new_graph (st\<lparr>st_current := c, st_status := RUNNING\<rparr>) (default_fakes 0)"

definition one_finding :: RunState where
  "one_finding = demo_state\<lparr>st_a2a_result := Some [(''output'', PDict [(''findings'',
     PList [a2a_finding ''Metric anomaly'' ''Errors after a release'' ''telemetry://m/1'' (9 / 10)])])]\<rparr>"

section \<open>Witnesses of the graph's properties\<close>

theorem run_calls_bounded_witness:
  "calls_bounded demo \<and> calls_bounded (snd (run (fake_deps plain_env) demo))"
proof -
  have "calls_bounded demo"
    by (simp add: calls_bounded_def demo_def new_graph_def demo_state_def new_RunState_def
        zero_usage_def default_limits_def invokes_def delegates_def)
  with run_calls_bounded [of demo "fake_deps plain_env"] show ?thesis by blast
qed

theorem run_reads_only_before_approval_witness:
  "current demo = Classify \<and> list_all read_call (new_calls demo (snd (run (fake_deps plain_env) demo)))"
proof -
  have "current demo = Classify" by (simp add: demo_def new_graph_def demo_state_def new_RunState_def)
  then show ?thesis using run_reads_only_before_approval [of demo "fake_deps plain_env"] by simp
qed


theorem new_run_settles_witness:
  "st_status (g_state demo) = CREATED \<and>
   (case run (fake_deps plain_env) demo of (Inl e, t) \<Rightarrow> True | (Inr _, t) \<Rightarrow> settled (st_status (g_state t)))"
proof -
  have "st_status (g_state demo) = CREATED" by (simp add: demo_def new_graph_def demo_state_def new_RunState_def)
  then show ?thesis using new_run_settles [of demo "fake_deps plain_env"] by (intro conjI) simp_all
qed

theorem cancelled_run_stops_witness:
  "list_all silent_call (new_calls (at_state Plan (demo_state\<lparr>st_cancelled := True\<rparr>))
     (snd (run (fake_deps plain_env) (at_state Plan (demo_state\<lparr>st_cancelled := True\<rparr>)))))"
  using cancelled_run_stops [of "at_state Plan (demo_state\<lparr>st_cancelled := True\<rparr>)" "fake_deps plain_env"]
  by (simp add: at_state_def new_graph_def)

theorem over_budget_run_fails_witness:
  "list_all silent_call (new_calls (at_state Plan (demo_state\<lparr>st_limits := default_limits\<lparr>max_tool_calls := - 1\<rparr>\<rparr>))
     (snd (run (fake_deps plain_env)
       (at_state Plan (demo_state\<lparr>st_limits := default_limits\<lparr>max_tool_calls := - 1\<rparr>\<rparr>)))))"
  using over_budget_run_fails [of "at_state Plan (demo_state\<lparr>st_limits := default_limits\<lparr>max_tool_calls := - 1\<rparr>\<rparr>)"
      "fake_deps plain_env"]
  by (simp add: at_state_def new_graph_def within_budget_iff fake_deps_def demo_state_def new_RunState_def
      zero_usage_def default_limits_def)

theorem internal_errors_contained_witness:
  "\<exists>t. run (fake_deps plain_env) (at_state (OtherState ''lost'') demo_state) = (Inr (), t) \<and>
     st_status (g_state t) = FAILED"
proof -
  have "run_loop (fake_deps plain_env) (at_state (OtherState ''lost'') demo_state)
      = (Inl (RuntimeError (''unknown workflow state '' @ repr_str ''lost'')),
         at_state (OtherState ''lost'') demo_state)"
    by (subst run_loop_head)
      (simp add: at_state_def new_graph_def demo_state_def new_RunState_def zero_usage_def default_limits_def
        fake_deps_def default_fakes_def check_cancel_def check_budgets_def usage_checks_def total_seconds_def
        step_of_def run_simps gm_prim_defs)
  from internal_errors_contained [OF _ this] show ?thesis by (auto simp: at_state_def new_graph_def)
qed

theorem run_step_follows_states_witness:
  "\<exists>i. Suc i < length STATES \<and> Resources = STATES ! i \<and>
     current (snd (run_step (fake_deps plain_env) (at_state Resources demo_state))) = STATES ! Suc i"
proof -
  let ?s = "at_state Resources demo_state"
  have "fst (run_step (fake_deps plain_env) ?s) = Inr False" by code_simp
  then have "run_step (fake_deps plain_env) ?s = (Inr False, snd (run_step (fake_deps plain_env) ?s))"
    by (simp add: prod_eq_iff)
  from run_step_follows_states [OF this] show ?thesis by (auto simp: at_state_def new_graph_def)
qed

theorem findings_within_contract_witness:
  "list_all finding_ok (st_findings (g_state (snd (do_findings (fake_deps plain_env) (at_state Findings one_finding)))))"
proof -
  let ?s = "at_state Findings one_finding"
  have "fst (do_findings (fake_deps plain_env) ?s) = Inr False" by code_simp
  then have "do_findings (fake_deps plain_env) ?s = (Inr False, snd (do_findings (fake_deps plain_env) ?s))"
    by (simp add: prod_eq_iff)
  from findings_within_contract [OF this] show ?thesis by blast
qed

theorem policy_denial_ends_run_witness:
  "current (snd (do_policy (fake_deps plain_env) (at_state Policy demo_state))) = ApprovalPause"
proof -
  let ?s = "at_state Policy demo_state" and ?D = "fake_deps plain_env"
  have "st_proposed_actions (g_state ?s) = []"
    by (simp add: at_state_def new_graph_def demo_state_def new_RunState_def)
  then have "do_policy ?D ?s = apply_decisions ?D [] ?s"
    by (simp add: do_policy_def run_simps get_state_def Let_def)
  moreover have "fst (apply_decisions ?D [] ?s) = Inr False" by code_simp
  ultimately have "do_policy ?D ?s = (Inr False, snd (do_policy ?D ?s))" by (simp add: prod_eq_iff)
  from policy_denial_ends_run [OF this] show ?thesis by simp
qed

theorem failing_reads_raise_witness:
  "\<exists>e t. do_mcp_reads ((fake_deps plain_env)\<lparr>d_invoke := \<lambda>_ _ _. eraise (TimeoutError ''down'')\<rparr>) demo = (Inl e, t)"
  by (rule failing_reads_raise) (simp_all add: mcp_down_def eraise_def demo_def new_graph_def)

theorem pause_without_actions_unsettled_witness:
  "\<exists>t. run (fake_deps plain_env) (at_state ApprovalPause demo_state) = (Inr (), t) \<and> st_status (g_state t) = RUNNING"
proof -
  let ?s = "at_state ApprovalPause demo_state"
  have "fst (run_loop (fake_deps plain_env) ?s) = Inr ()" by code_simp
  then have "run_loop (fake_deps plain_env) ?s = (Inr (), snd (run_loop (fake_deps plain_env) ?s))"
    by (simp add: prod_eq_iff)
  from pause_without_actions_unsettled [OF _ _ _ this] show ?thesis
    by (auto simp: at_state_def new_graph_def demo_state_def new_RunState_def)
qed

theorem conflict_caps_confidence_witness:
  "list_all (conf_at_most (6 / 10)) [PDict [(''confidence'', PFloat (6 / 10))]]"
proof -
  let ?f = "PDict [(''confidence'', PFloat (9 / 10))]"
  let ?st = "demo_state\<lparr>st_mcp_evidence := [[(''tool'', PStr ''service.get_health''), (''status'', PStr ''healthy'')]],
      st_a2a_result := Some [(''output'', PDict [(''findings'', PList [?f])])]\<rparr>"
  let ?s = "at_state Correlate ?st"
  let ?D = "fake_deps plain_env"
  have "fst (cap_conflict ?D [?f] ?s) = Inr [PDict [(''confidence'', PFloat (6 / 10))]]"
    by (simp add: cap_conflict_def at_state_def new_graph_def find_evidence_def avg_conf_def fake_deps_def
        adjust_findings_def set_conf_def add_unresolved_def run_simps gm_prim_defs dset_def Let_def)
  then have r: "cap_conflict ?D [?f] ?s = (Inr [PDict [(''confidence'', PFloat (6 / 10))]], snd (cap_conflict ?D [?f] ?s))"
    by (simp add: prod_eq_iff)
  have "list_all (conf_at_most (6 / 10)) [PDict [(''confidence'', PFloat (6 / 10))]] \<and> length [PDict [(''confidence'', PFloat (6 / 10))]] = length [?f] \<and>
    conflict_text \<in> set (st_unresolved (g_state (snd (cap_conflict ?D [?f] ?s)))) \<and>
    map_option (\<lambda>o'. dget_none o' ''findings'') (a2a_output (g_state (snd (cap_conflict ?D [?f] ?s))))
      = Some (PList [PDict [(''confidence'', PFloat (6 / 10))]])"
    by (rule conflict_caps_confidence [OF r, where avg = "9 / 10" and
          health = "[(''tool'', PStr ''service.get_health''), (''status'', PStr ''healthy'')]" and
          out = "[(''findings'', PList [?f])]"])
      (simp_all add: at_state_def new_graph_def find_evidence_def avg_conf_def a2a_output_def fake_deps_def)
  then show ?thesis by blast
qed

end
