(* ===== verification/Identity.thy ===== *)
theory Identity
  imports ExcState PyRegex
begin

text \<open>
  Who is calling: \<^verbatim>\<open>src/packages/security/identity.py\<close>. Every function is translated; the process
  environment, the decoders of the standard library, the key-set download, the clock and the
  third-party signature check are fields of \<open>auth_world\<close>, and the two module globals (the key-set
  cache and the injected verifier) are the state.
\<close>

section \<open>Data\<close>

datatype AuthMode = AM_MOCK | AM_OIDC

fun AuthMode_value :: "AuthMode \<Rightarrow> string" where
  "AuthMode_value AM_MOCK = ''mock''"
| "AuthMode_value AM_OIDC = ''oidc''"

record Identity =
  id_user_id :: string
  id_tenant_id :: string
  id_scopes :: "string list"
  id_mode :: string
  id_expires_at :: "pyfloat option"

definition has_scope :: "Identity \<Rightarrow> string \<Rightarrow> bool" where
  "has_scope self scope = (''*'' \<in> set (id_scopes self) \<or> scope \<in> set (id_scopes self))"

abbreviation IdentityError_of :: "string \<Rightarrow> nat \<Rightarrow> string \<Rightarrow> pyexc" where
  "IdentityError_of m st code \<equiv> HttpExc EOther ''IdentityError'' m code st"

abbreviation IdentityError :: "string \<Rightarrow> pyexc" where
  "IdentityError m \<equiv> IdentityError_of m 401 ''unauthorized''"

text \<open>
  What the module takes from outside: \<open>getenv\<close>, the text-to-value decoders (\<open>None\<close> when they
  raise), the download of the key set, whether PyJWT can be imported, its verdict on a token
  under a key, audience and issuer, the call of an injected verifier (a function object, known
  here by a name), and the time.
\<close>

record auth_world =
  aw_env :: pyenv
  getenv :: "string \<Rightarrow> string option"
  b64_json_loads :: "string \<Rightarrow> pyval option"
  json_loads :: "string \<Rightarrow> pyval option"
  urlopen_json :: "string \<Rightarrow> pyval presult"
  pyjwt_available :: bool
  jwt_decode :: "string \<Rightarrow> pyval \<Rightarrow> string option \<Rightarrow> string option \<Rightarrow> unit presult"
  call_verifier :: "string \<Rightarrow> string \<Rightarrow> pydict \<Rightarrow> unit presult"
  time_time :: pyfloat

record auth_state =
  JWT_VERIFIER :: "string option"
  JWKS_CACHE :: "pydict option"

definition getenv_or :: "auth_world \<Rightarrow> string \<Rightarrow> string \<Rightarrow> string" where
  "getenv_or A k v = (case getenv A k of None \<Rightarrow> v | Some x \<Rightarrow> x)"

text \<open>\<open>v or w\<close>; \<open>s.split()\<close>.\<close>

definition py_or :: "pyval \<Rightarrow> pyval \<Rightarrow> pyval" where
  "py_or v w = (if truthy v then v else w)"

fun py_words :: "string \<Rightarrow> string \<Rightarrow> string list" where
  "py_words acc [] = (if acc = [] then [] else [rev acc])"
| "py_words acc (c # cs) =
     (if is_space c then (if acc = [] then [] else [rev acc]) @ py_words [] cs
      else py_words (c # acc) cs)"

definition py_split :: "string \<Rightarrow> string list" where
  "py_split s = py_words [] s"

section \<open>Configuration and hooks\<close>

definition auth_mode :: "auth_world \<Rightarrow> string" where
  "auth_mode A = lower (strip (getenv_or A ''AUTH_MODE'' ''mock''))"

definition set_jwt_verifier ::
  "string option \<Rightarrow> (auth_state, unit) em" where
  "set_jwt_verifier fn = emod (\<lambda>st. st\<lparr>JWT_VERIFIER := fn\<rparr>)"

definition clear_jwks_cache :: "(auth_state, unit) em" where
  "clear_jwks_cache = emod (\<lambda>st. st\<lparr>JWKS_CACHE := None\<rparr>)"

definition validate_auth_config :: "auth_world \<Rightarrow> unit presult" where
  "validate_auth_config A =
     (if auth_mode A \<noteq> ''mock'' \<and> auth_mode A \<noteq> ''oidc''
      then Inl (RuntimeError (''unknown AUTH_MODE='' @ repr_str (auth_mode A) @
             ''; expected 'mock' or 'oidc'' @ [quote_char]))
      else if auth_mode A = ''oidc'' then
        let iss = strip (getenv_or A ''OIDC_ISSUER_URL'' []);
            aud = strip (getenv_or A ''OIDC_AUDIENCE'' []);
            missing = map fst (filter (\<lambda>(n, v). v = [])
              [(''OIDC_ISSUER_URL'', iss), (''OIDC_AUDIENCE'', aud)])
        in if missing \<noteq> []
           then Inl (RuntimeError (''AUTH_MODE=oidc requires non-empty '' @ join '', '' missing @
             '' (fail-closed; set OIDC_ISSUER_URL/OIDC_AUDIENCE or use AUTH_MODE=mock in local/test only)''))
           else Inr ()
      else Inr ())"

section \<open>Tokens\<close>

definition b64_pad :: "string \<Rightarrow> string" where
  "b64_pad part = part @ replicate ((4 - length part mod 4) mod 4) (CHR ''='')"

definition b64_json :: "auth_world \<Rightarrow> string \<Rightarrow> pyval option" where
  "b64_json A part = b64_json_loads A (b64_pad part)"

definition parse_header :: "auth_world \<Rightarrow> string \<Rightarrow> pydict presult" where
  "parse_header A token =
     (let parts = split_on (CHR ''.'') token in
      if length parts \<noteq> 3 then Inl (IdentityError ''malformed bearer token'')
      else case b64_json A (hd parts) of
          Some (PDict header) \<Rightarrow> Inr header
        | _ \<Rightarrow> Inl (IdentityError ''malformed bearer token header''))"

definition load_jwks :: "auth_world \<Rightarrow> (auth_state, pydict option) em" where
  "load_jwks A =
     (let inline = strip (getenv_or A ''OIDC_JWKS_JSON'' []);
          url1 = strip (getenv_or A ''OIDC_JWKS_URL'' []);
          url = (if url1 \<noteq> [] then url1 else strip (getenv_or A ''OIDC_JWKS_URI'' []))
      in if inline \<noteq> [] then
           (case json_loads A inline of
              Some (PDict doc) \<Rightarrow> eret (Some doc)
            | _ \<Rightarrow> eraise (IdentityError ''invalid OIDC_JWKS_JSON''))
         else if url = [] then eret None
         else ebind (eget JWKS_CACHE) (\<lambda>cache. case cache of
             Some doc \<Rightarrow> eret (Some doc)
           | None \<Rightarrow> (case urlopen_json A url of
               Inl e \<Rightarrow> eraise (if exc_name e = ''IdentityError'' then e
                         else IdentityError ''unable to fetch OIDC JWKS'')
             | Inr (PDict doc) \<Rightarrow>
                 ethen (emod (\<lambda>st. st\<lparr>JWKS_CACHE := Some doc\<rparr>)) (eret (Some doc))
             | Inr _ \<Rightarrow> eraise (IdentityError ''invalid OIDC JWKS document''))))"

definition claim_str :: "auth_world \<Rightarrow> pydict \<Rightarrow> string \<Rightarrow> string" where
  "claim_str A d k = py_str (aw_env A) (py_or (dget_none d k) (PStr []))"

definition key_for :: "auth_world \<Rightarrow> string \<Rightarrow> pyval list \<Rightarrow> pyval option" where
  "key_for A kid keys = find (\<lambda>k. case k of PDict d \<Rightarrow> kid = [] \<or> claim_str A d ''kid'' = kid
                                         | _ \<Rightarrow> False) keys"

definition opt_text :: "string \<Rightarrow> string option" where
  "opt_text s = (if s = [] then None else Some s)"

definition default_verify_signature ::
  "auth_world \<Rightarrow> string \<Rightarrow> pydict \<Rightarrow> (auth_state, unit) em" where
  "default_verify_signature A token jwks =
     ebind (eget JWT_VERIFIER) (\<lambda>hook. case hook of
       Some fn \<Rightarrow> elift (call_verifier A fn token jwks)
     | None \<Rightarrow>
         ebind (elift (parse_header A token)) (\<lambda>header.
           let kid = claim_str A header ''kid'' in
           case dget_none jwks ''keys'' of
             PList (k0 # ks) \<Rightarrow>
               (case key_for A kid (k0 # ks) of
                  None \<Rightarrow> eraise (IdentityError ''token kid not found in OIDC JWKS'')
                | Some key_doc \<Rightarrow>
                    if \<not> pyjwt_available A
                    then eraise (IdentityError ''JWKS verification requires PyJWT/cryptography (or inject set_jwt_verifier); failing closed'')
                    else case jwt_decode A token key_doc
                           (opt_text (strip (getenv_or A ''OIDC_AUDIENCE'' [])))
                           (opt_text (strip (getenv_or A ''OIDC_ISSUER_URL'' []))) of
                        Inl e \<Rightarrow> eraise (if exc_name e = ''IdentityError'' then e
                          else IdentityError (''token signature verification failed: '' @ exc_msg e))
                      | Inr u \<Rightarrow> eret ())
           | _ \<Rightarrow> eraise (IdentityError ''OIDC JWKS has no keys'')))"

definition enforce_signature :: "auth_world \<Rightarrow> string \<Rightarrow> (auth_state, unit) em" where
  "enforce_signature A token =
     ebind (elift (parse_header A token)) (\<lambda>header.
       let alg = claim_str A header ''alg'' in
       if lower alg = ''none'' \<or> alg = []
       then eraise (IdentityError ''token signature missing (alg=none rejected)'')
       else ebind (load_jwks A) (\<lambda>jwks. case jwks of
           Some j \<Rightarrow> default_verify_signature A token j
         | None \<Rightarrow> if auth_mode A = ''oidc''
             then eraise (IdentityError ''token signature cannot be verified (no OIDC_JWKS_URL/OIDC_JWKS_JSON); failing closed in AUTH_MODE=oidc'')
             else eret ()))"

section \<open>Claims\<close>

definition sub_claim :: "auth_world \<Rightarrow> pydict \<Rightarrow> string" where
  "sub_claim A d = py_str (aw_env A) (py_or (dget_none d ''sub'')
     (py_or (dget_none d ''upn'') (py_or (dget_none d ''email'') (PStr []))))"

definition tenant_claim :: "auth_world \<Rightarrow> pydict \<Rightarrow> string" where
  "tenant_claim A d = py_str (aw_env A) (py_or (dget_none d ''tid'')
     (py_or (dget_none d ''tenant_id'') (py_or (dget_none d ''tenant'') (PStr []))))"

definition scopes_claim :: "auth_world \<Rightarrow> pydict \<Rightarrow> string list" where
  "scopes_claim A d =
     (let raw = dget_or d ''scope'' (dget_or d ''scp'' (PStr []));
          ss = (case raw of PList xs \<Rightarrow> map (py_str (aw_env A)) xs
                | _ \<Rightarrow> py_split (py_str (aw_env A) raw))
      in if ss = [] then [''case.read''] else ss)"

definition exp_of :: "auth_world \<Rightarrow> pyval \<Rightarrow> pyfloat presult" where
  "exp_of A expv = py_float (aw_env A) (PStr (py_str (aw_env A) expv))"

definition check_exp :: "auth_world \<Rightarrow> pyval \<Rightarrow> unit presult" where
  "check_exp A expv =
     (if expv = PNone then Inr ()
      else case exp_of A expv of
          Inl e \<Rightarrow> Inl (IdentityError ''invalid exp claim'')
        | Inr x \<Rightarrow> check (\<not> x < time_time A)
            (IdentityError_of ''token expired'' 401 ''token_expired''))"

definition audiences :: "auth_world \<Rightarrow> pyval \<Rightarrow> string list" where
  "audiences A aud = map (py_str (aw_env A)) (case aud of PList xs \<Rightarrow> xs | _ \<Rightarrow> [aud])"

text \<open>The claims part of \<^verbatim>\<open>parse_bearer_identity\<close>, after the subject and tenant are known.\<close>

definition identity_of_claims :: "auth_world \<Rightarrow> pydict \<Rightarrow> Identity presult" where
  "identity_of_claims A d =
     (let expv = dget_none d ''exp'';
          expected_iss = strip (getenv_or A ''OIDC_ISSUER_URL'' []);
          expected_aud = strip (getenv_or A ''OIDC_AUDIENCE'' []);
          ident = (\<lambda>ex. \<lparr>id_user_id = sub_claim A d, id_tenant_id = tenant_claim A d,
            id_scopes = scopes_claim A d, id_mode = ''oidc'', id_expires_at = ex\<rparr>)
      in rbind (check_exp A expv) (\<lambda>_.
         if auth_mode A = ''oidc'' then
           rbind (check (expected_iss \<noteq> [] \<and> expected_aud \<noteq> [])
             (IdentityError ''OIDC not configured (OIDC_ISSUER_URL/OIDC_AUDIENCE required)'')) (\<lambda>_.
           rbind (check (claim_str A d ''iss'' = expected_iss)
             (IdentityError ''unexpected token issuer'')) (\<lambda>_.
           rbind (check (expected_aud \<in> set (audiences A (dget_none d ''aud'')))
             (IdentityError ''unexpected token audience'')) (\<lambda>_.
           rbind (check (expv \<noteq> PNone) (IdentityError ''token missing exp claim'')) (\<lambda>_.
           rbind (exp_of A expv) (\<lambda>x. Inr (ident (Some x)))))))
         else
           rbind (check (\<not> (expected_iss \<noteq> [] \<and> truthy (dget_none d ''iss'') \<and>
               py_str (aw_env A) (dget_none d ''iss'') \<noteq> expected_iss))
             (IdentityError ''unexpected token issuer'')) (\<lambda>_.
           rbind (check (\<not> (expected_aud \<noteq> [] \<and> truthy (dget_none d ''aud'') \<and>
               expected_aud \<notin> set (audiences A (dget_none d ''aud''))))
             (IdentityError ''unexpected token audience'')) (\<lambda>_.
           if expv = PNone then Inr (ident None)
           else rbind (exp_of A expv) (\<lambda>x. Inr (ident (Some x)))))))"

definition claims_identity :: "auth_world \<Rightarrow> pyval \<Rightarrow> Identity presult" where
  "claims_identity A payload =
     (case payload of
        PDict d \<Rightarrow>
          if sub_claim A d = [] then Inl (IdentityError ''token missing sub claim'')
          else if tenant_claim A d = [] then Inl (IdentityError ''token missing tenant claim (tid)'')
          else identity_of_claims A d
      | _ \<Rightarrow> Inl (AttributeError ''object has no attribute 'get' ''))"

definition parse_bearer_identity :: "auth_world \<Rightarrow> string \<Rightarrow> (auth_state, Identity) em" where
  "parse_bearer_identity A token =
     ethen (enforce_signature A token)
       (let parts = split_on (CHR ''.'') token in
        if length parts \<noteq> 3 then eraise (IdentityError ''malformed bearer token'')
        else case b64_json A (parts ! 1) of
            None \<Rightarrow> eraise (IdentityError ''malformed bearer token payload'')
          | Some payload \<Rightarrow> elift (claims_identity A payload))"

section \<open>Requests\<close>

definition local_dev_identity :: "auth_world \<Rightarrow> Identity presult" where
  "local_dev_identity A =
     (if getenv_or A ''APP_ENV'' ''local'' \<notin> {''local'', ''test''}
      then Inl (IdentityError_of ''mock identity forbidden outside local/test'' 500 ''unauthorized'')
      else if getenv_or A ''AUTH_MODE'' ''mock'' \<noteq> ''mock''
      then Inl (IdentityError_of ''mock identity requires AUTH_MODE=mock'' 500 ''unauthorized'')
      else Inr \<lparr>id_user_id = getenv_or A ''MOCK_USER_ID'' ''analyst-local'',
             id_tenant_id = getenv_or A ''MOCK_TENANT_ID'' ''tenant-local'',
             id_scopes = [''case.read'', ''case.write'', ''case.approve'', ''tools.read''],
             id_mode = ''mock'', id_expires_at = None\<rparr>)"

definition or_str :: "string \<Rightarrow> string \<Rightarrow> string" where
  "or_str a b = (if a \<noteq> [] then a else b)"

text \<open>The opaque development tokens \<^verbatim>\<open>local:<user>:<tenant>[:scopes]\<close>.\<close>

definition local_token_identity :: "string \<Rightarrow> Identity \<Rightarrow> Identity" where
  "local_token_identity token ident =
     (let chunks = split_on (CHR '':'') token;
          ident1 = (if 3 \<le> length chunks
            then ident\<lparr>id_user_id := or_str (chunks ! 1) (id_user_id ident),
                       id_tenant_id := or_str (chunks ! 2) (id_tenant_id ident)\<rparr> else ident)
      in if 4 \<le> length chunks \<and> chunks ! 3 \<noteq> []
         then ident1\<lparr>id_scopes := filter (\<lambda>s. s \<noteq> []) (split_on (CHR '','') (chunks ! 3))\<rparr>
         else ident1)"

definition resolve_identity :: "auth_world \<Rightarrow> string \<Rightarrow> (auth_state, Identity) em" where
  "resolve_identity A authz =
     (if authz \<noteq> [] then
        if \<not> startswith authz ''Bearer '' then eraise (IdentityError ''malformed Authorization header'')
        else let token = strip (drop 7 authz) in
          if startswith token ''local:''
          then ebind (elift (local_dev_identity A)) (\<lambda>ident. eret (local_token_identity token ident))
          else parse_bearer_identity A token
      else if getenv_or A ''AUTH_MODE'' ''mock'' = ''mock'' then elift (local_dev_identity A)
      else eraise (IdentityError ''missing bearer token''))"

text \<open>The middleware either calls the application, with the identity it attached if the path is
  not open, or answers itself.\<close>

datatype dispatched = CallNext "Identity option" | JSONResponse nat pydict

definition OPEN_PREFIXES :: "string list" where
  "OPEN_PREFIXES = [''/health'', ''/ready'', ''/docs'', ''/openapi.json'', ''/v1/openapi.json'']"

definition open_path :: "string \<Rightarrow> bool" where
  "open_path path = (path = ''/'' \<or> list_ex (startswith path) OPEN_PREFIXES)"

definition auth_dispatch :: "auth_world \<Rightarrow> string \<Rightarrow> string \<Rightarrow> (auth_state, dispatched) em" where
  "auth_dispatch A path authz =
     (if open_path path then eret (CallNext None)
      else etry (ebind (resolve_identity A authz) (\<lambda>i. eret (CallNext (Some i))))
        (\<lambda>e. if exc_name e = ''IdentityError''
             then eret (JSONResponse (exc_status e) [(''code'', PStr (exc_tag e)),
               (''message'', PStr (exc_msg e)), (''retryable'', PBool False)])
             else eraise e))"

section \<open>Facts\<close>

text \<open>A token's parts, as \<^verbatim>\<open>parse_header\<close> accepts them.\<close>

lemma parse_header_ok:
  "parse_header A token = Inr h \<longleftrightarrow>
     (\<exists>a b c. split_on (CHR ''.'') token = [a, b, c] \<and> b64_json A a = Some (PDict h))"
  by (auto simp: parse_header_def Let_def length_Suc_conv numeral_3_eq_3
      split: if_splits option.splits pyval.splits)

text \<open>What it means that a signature was checked: the injected hook accepted the token, or the
  library accepted it under a key of the set, with the configured audience and issuer.\<close>

definition signature_checked :: "auth_world \<Rightarrow> auth_state \<Rightarrow> string \<Rightarrow> pydict \<Rightarrow> bool" where
  "signature_checked A st token jwks = (case JWT_VERIFIER st of
     Some fn \<Rightarrow> call_verifier A fn token jwks = Inr ()
   | None \<Rightarrow> pyjwt_available A \<and> (case dget_none jwks ''keys'' of
       PList ks \<Rightarrow> list_ex (\<lambda>k. jwt_decode A token k
           (opt_text (strip (getenv_or A ''OIDC_AUDIENCE'' [])))
           (opt_text (strip (getenv_or A ''OIDC_ISSUER_URL'' []))) = Inr ()) ks
     | _ \<Rightarrow> False))"

lemma key_for_mem: "key_for A kid ks = Some k \<Longrightarrow> k \<in> set ks"
  by (auto simp: key_for_def find_Some_iff)

lemma verify_ok:
  "default_verify_signature A token jwks st = (Inr u, st') \<Longrightarrow>
     signature_checked A st token jwks \<and> st' = st"
  by (auto simp: default_verify_signature_def signature_checked_def ok_simps Let_def list_ex_iff
      elim!: bind_okE split: option.splits pyval.splits list.splits if_splits sum.splits
      dest!: key_for_mem)

lemma load_jwks_verifier: "load_jwks A st = (r, st') \<Longrightarrow> JWT_VERIFIER st' = JWT_VERIFIER st"
  by (auto simp: load_jwks_def Let_def run_simps split: if_splits option.splits pyval.splits sum.splits)

lemma signature_checked_cong:
  "JWT_VERIFIER st' = JWT_VERIFIER st \<Longrightarrow> signature_checked A st' token jwks = signature_checked A st token jwks"
  by (simp add: signature_checked_def)

lemma enforce_ok:
  assumes "enforce_signature A token st = (Inr u, st')"
  obtains h where "parse_header A token = Inr h" "lower (claim_str A h ''alg'') \<noteq> ''none''"
    "claim_str A h ''alg'' \<noteq> []"
    "auth_mode A \<noteq> ''oidc'' \<and> load_jwks A st = (Inr None, st') \<or>
     (\<exists>jwks. load_jwks A st = (Inr (Some jwks), st') \<and> signature_checked A st token jwks)"
proof -
  from assms obtain h where h: "parse_header A token = Inr h"
    and alg: "\<not> (lower (claim_str A h ''alg'') = ''none'' \<or> claim_str A h ''alg'' = [])"
    and r: "ebind (load_jwks A) (\<lambda>jwks. case jwks of
           Some j \<Rightarrow> default_verify_signature A token j
         | None \<Rightarrow> if auth_mode A = ''oidc''
             then eraise (IdentityError ''token signature cannot be verified (no OIDC_JWKS_URL/OIDC_JWKS_JSON); failing closed in AUTH_MODE=oidc'')
             else eret ()) st = (Inr u, st')"
    unfolding enforce_signature_def Let_def
    by (elim bind_okE) (auto simp: ok_simps split: if_splits)
  from r obtain j t where j: "load_jwks A st = (Inr j, t)"
    and k: "(case j of Some j \<Rightarrow> default_verify_signature A token j
         | None \<Rightarrow> if auth_mode A = ''oidc''
             then eraise (IdentityError ''token signature cannot be verified (no OIDC_JWKS_URL/OIDC_JWKS_JSON); failing closed in AUTH_MODE=oidc'')
             else eret ()) t = (Inr u, st')"
    by (rule bind_okE)
  show thesis
  proof (rule that [OF h])
    show "auth_mode A \<noteq> ''oidc'' \<and> load_jwks A st = (Inr None, st') \<or>
     (\<exists>jwks. load_jwks A st = (Inr (Some jwks), st') \<and> signature_checked A st token jwks)"
      using j k signature_checked_cong [OF load_jwks_verifier [OF j]]
      by (auto simp: ok_simps split: option.splits if_splits dest: verify_ok)
  qed (use alg in auto)
qed

lemma identity_of_claims_ok:
  assumes "identity_of_claims A d = Inr i"
  shows "id_user_id i = sub_claim A d \<and> id_tenant_id i = tenant_claim A d \<and> id_mode i = ''oidc'' \<and>
    id_scopes i = scopes_claim A d \<and> (\<forall>x. id_expires_at i = Some x \<longrightarrow> \<not> x < time_time A) \<and>
    (auth_mode A = ''oidc'' \<longrightarrow> claim_str A d ''iss'' = strip (getenv_or A ''OIDC_ISSUER_URL'' []) \<and>
       claim_str A d ''iss'' \<noteq> [] \<and> strip (getenv_or A ''OIDC_AUDIENCE'' []) \<noteq> [] \<and>
       strip (getenv_or A ''OIDC_AUDIENCE'' []) \<in> set (audiences A (dget_none d ''aud'')) \<and>
       id_expires_at i \<noteq> None)"
  using assms
  by (auto simp: identity_of_claims_def Let_def rbind_Inr_iff check_exp_def split: if_splits sum.splits)

lemma claims_identity_ok:
  "claims_identity A payload = Inr i \<longleftrightarrow>
     (\<exists>d. payload = PDict d \<and> sub_claim A d \<noteq> [] \<and> tenant_claim A d \<noteq> [] \<and> identity_of_claims A d = Inr i)"
  by (auto simp: claims_identity_def split: pyval.splits)

lemma parse_bearer_ok:
  assumes "parse_bearer_identity A token st = (Inr i, st')"
  obtains h d a b c where "enforce_signature A token st = (Inr (), st')"
    "split_on (CHR ''.'') token = [a, b, c]" "b64_json A b = Some (PDict d)"
    "sub_claim A d \<noteq> []" "tenant_claim A d \<noteq> []" "identity_of_claims A d = Inr i"
  using assms unfolding parse_bearer_identity_def Let_def
  by (elim then_okE) (auto simp: ok_simps claims_identity_ok length_Suc_conv numeral_3_eq_3
      split: if_splits option.splits)

section \<open>Concrete worlds\<close>

definition oidc_world :: auth_world where
  "oidc_world = \<lparr>aw_env = plain_env\<lparr>float_parse := (\<lambda>_. Some 200)\<rparr>,
     getenv = map_of [(''AUTH_MODE'', ''oidc''), (''APP_ENV'', ''production''),
       (''OIDC_ISSUER_URL'', ''https://issuer''), (''OIDC_AUDIENCE'', ''api''), (''OIDC_JWKS_JSON'', ''{}'')],
     b64_json_loads = map_of [(''h==='', PDict [(''alg'', PStr ''RS256'')]),
       (''n==='', PDict [(''alg'', PStr ''None'')]),
       (''p==='', PDict [(''sub'', PStr ''alice''), (''tid'', PStr ''tenant_a''),
          (''iss'', PStr ''https://issuer''), (''aud'', PStr ''api''), (''exp'', PInt 200)]),
       (''l==='', PList [])],
     json_loads = (\<lambda>_. Some (PDict [])), urlopen_json = (\<lambda>_. Inl (RuntimeError ''offline'')),
     pyjwt_available = False, jwt_decode = (\<lambda>_ _ _ _. Inl (RuntimeError ''absent'')),
     call_verifier = (\<lambda>_ _ _. Inr ()), time_time = 100\<rparr>"

definition hook_state :: auth_state where
  "hook_state = \<lparr>JWT_VERIFIER = Some ''accept'', JWKS_CACHE = None\<rparr>"

definition alice :: Identity where
  "alice = \<lparr>id_user_id = ''alice'', id_tenant_id = ''tenant_a'', id_scopes = [''case.read''],
     id_mode = ''oidc'', id_expires_at = Some 200\<rparr>"

lemma parse_alice: "parse_bearer_identity oidc_world ''h.p.s'' hook_state = (Inr alice, hook_state)"
  by code_simp

section \<open>Properties\<close>

text \<open>C26. OIDC authentication fails closed: with \<^verbatim>\<open>AUTH_MODE=oidc\<close>, whenever a bearer token gives an
  identity, the token has three parts and a real algorithm, a key set was loaded and the
  signature check passed under it, the issuer and the audience are configured and are the
  token's, it carries an expiry that has not passed, and user and tenant are its own claims.\<close>

theorem oidc_fails_closed:
  assumes "auth_mode A = ''oidc''" and "parse_bearer_identity A token st = (Inr i, st')"
  shows "\<exists>a b c h d jwks x. split_on (CHR ''.'') token = [a, b, c] \<and>
    b64_json A a = Some (PDict h) \<and> lower (claim_str A h ''alg'') \<noteq> ''none'' \<and>
    load_jwks A st = (Inr (Some jwks), st') \<and> signature_checked A st token jwks \<and>
    b64_json A b = Some (PDict d) \<and>
    claim_str A d ''iss'' = strip (getenv_or A ''OIDC_ISSUER_URL'' []) \<and> claim_str A d ''iss'' \<noteq> [] \<and>
    strip (getenv_or A ''OIDC_AUDIENCE'' []) \<noteq> [] \<and>
    strip (getenv_or A ''OIDC_AUDIENCE'' []) \<in> set (audiences A (dget_none d ''aud'')) \<and>
    id_expires_at i = Some x \<and> \<not> x < time_time A \<and>
    id_user_id i = sub_claim A d \<and> id_tenant_id i = tenant_claim A d \<and> id_tenant_id i \<noteq> []"
proof -
  from assms(2) obtain d a b c where e: "enforce_signature A token st = (Inr (), st')"
    and t: "split_on (CHR ''.'') token = [a, b, c]" "b64_json A b = Some (PDict d)"
    and ne: "tenant_claim A d \<noteq> []" and i: "identity_of_claims A d = Inr i"
    by (rule parse_bearer_ok)
  from e assms(1) obtain h jwks where h: "parse_header A token = Inr h"
    and alg: "lower (claim_str A h ''alg'') \<noteq> ''none''"
    and j: "load_jwks A st = (Inr (Some jwks), st')" "signature_checked A st token jwks"
    by (auto elim: enforce_ok)
  from h t(1) have "b64_json A a = Some (PDict h)" by (simp add: parse_header_ok)
  moreover obtain x where "id_expires_at i = Some x" "\<not> x < time_time A"
    using identity_of_claims_ok [OF i] assms(1) by auto
  ultimately show ?thesis
    using t alg j ne identity_of_claims_ok [OF i] assms(1) by auto
qed

theorem oidc_fails_closed_witness:
  "\<exists>jwks. load_jwks oidc_world hook_state = (Inr (Some jwks), hook_state) \<and>
     signature_checked oidc_world hook_state ''h.p.s'' jwks \<and> id_tenant_id alice \<noteq> []"
proof -
  have "auth_mode oidc_world = ''oidc''" by code_simp
  from oidc_fails_closed [OF this parse_alice] show ?thesis by auto
qed

lemma bearer_length: "length ''Bearer '' = 7"
  by simp

text \<open>A request reaches the application only on an open path without an identity, with the
  development identity when the environment is local or test and the mode is exactly mock, or
  with the identity of a bearer token that the signature policy and the claim checks accepted,
  whose tenant is a claim of that token and never a header of the client.\<close>

theorem authenticated_or_open:
  assumes "auth_dispatch A path authz st = (Inr (CallNext r), st')"
  shows "r = None \<and> open_path path \<or>
    (\<exists>i. r = Some i \<and> \<not> open_path path \<and>
      (id_mode i = ''mock'' \<and> getenv_or A ''APP_ENV'' ''local'' \<in> {''local'', ''test''} \<and>
         getenv_or A ''AUTH_MODE'' ''mock'' = ''mock'' \<or>
       id_mode i = ''oidc'' \<and> (\<exists>token b d. authz = ''Bearer '' @ token \<and>
         enforce_signature A (strip token) st = (Inr (), st') \<and>
         split_on (CHR ''.'') (strip token) ! 1 = b \<and> b64_json A b = Some (PDict d) \<and>
         id_tenant_id i = tenant_claim A d \<and> id_tenant_id i \<noteq> [])))"
proof (cases "open_path path")
  case True
  with assms show ?thesis by (simp add: auth_dispatch_def ok_simps)
next
  case False
  with assms obtain i where r: "r = Some i" and i: "resolve_identity A authz st = (Inr i, st')"
    by (auto simp: auth_dispatch_def etry_def ok_simps split: prod.splits sum.splits if_splits elim!: bind_okE)
  have loc: "id_mode j = ''mock'' \<and> getenv_or A ''APP_ENV'' ''local'' \<in> {''local'', ''test''} \<and>
      getenv_or A ''AUTH_MODE'' ''mock'' = ''mock''" if "local_dev_identity A = Inr j" for j
    using that by (auto simp: local_dev_identity_def split: if_splits)
  have tok: "id_mode (local_token_identity t j) = id_mode j" for t j
    by (simp add: local_token_identity_def Let_def)
  have bearer: "?thesis" if "startswith authz ''Bearer ''" "parse_bearer_identity A (strip (drop 7 authz)) st = (Inr i, st')"
  proof -
    from that(2) obtain d a b c where "enforce_signature A (strip (drop 7 authz)) st = (Inr (), st')"
      "split_on (CHR ''.'') (strip (drop 7 authz)) = [a, b, c]" "b64_json A b = Some (PDict d)"
      "tenant_claim A d \<noteq> []" "identity_of_claims A d = Inr i"
      by (rule parse_bearer_ok)
    moreover have "authz = ''Bearer '' @ drop 7 authz"
      using that(1) append_take_drop_id [of "length ''Bearer ''" authz]
      unfolding startswith_def by (metis bearer_length)
    ultimately show ?thesis using r False identity_of_claims_ok
      by (intro disjI2 exI [of _ i]) fastforce
  qed
  show ?thesis
  proof (cases "authz \<noteq> [] \<and> startswith authz ''Bearer '' \<and> \<not> startswith (strip (drop 7 authz)) ''local:''")
    case True
    with i bearer show ?thesis by (simp add: resolve_identity_def Let_def)
  next
    case False
    with i r \<open>\<not> open_path path\<close> loc tok show ?thesis
      by (auto simp: resolve_identity_def Let_def ok_simps split: if_splits elim!: bind_okE)
  qed
qed

theorem authenticated_or_open_witness:
  "\<exists>d. b64_json oidc_world ''p'' = Some (PDict d) \<and> tenant_claim oidc_world d = ''tenant_a''"
proof -
  have d: "auth_dispatch oidc_world ''/v1/runs'' ''Bearer h.p.s'' hook_state =
      (Inr (CallNext (Some alice)), hook_state)" by code_simp
  have "getenv_or oidc_world ''APP_ENV'' ''local'' = ''production''" by code_simp
  moreover have "\<not> open_path ''/v1/runs''" by code_simp
  ultimately obtain token b d' where "''Bearer h.p.s'' = ''Bearer '' @ token"
    "split_on (CHR ''.'') (strip token) ! 1 = b" "b64_json oidc_world b = Some (PDict d')"
    "id_tenant_id alice = tenant_claim oidc_world d'"
    using authenticated_or_open [OF d] by auto
  moreover have "split_on (CHR ''.'') (strip ''h.p.s'') ! 1 = ''p''" by code_simp
  ultimately show ?thesis by (auto simp: alice_def)
qed

text \<open>A token whose header names no algorithm, or \<^verbatim>\<open>none\<close> in any case, is refused with 401 in every
  mode, before any key set is loaded.\<close>

theorem alg_none_refused:
  assumes "parse_header A token = Inr h" and "lower (claim_str A h ''alg'') \<in> {''none'', []}"
  shows "parse_bearer_identity A token st =
    (Inl (IdentityError ''token signature missing (alg=none rejected)''), st)"
  using assms
  by (auto simp: parse_bearer_identity_def enforce_signature_def run_simps Let_def lower_def)

theorem alg_none_refused_witness:
  "parse_bearer_identity oidc_world ''n.p.s'' hook_state =
    (Inl (IdentityError ''token signature missing (alg=none rejected)''), hook_state)"
proof (rule alg_none_refused)
  show "parse_header oidc_world ''n.p.s'' = Inr [(''alg'', PStr ''None'')]" by code_simp
  show "lower (claim_str oidc_world [(''alg'', PStr ''None'')] ''alg'') \<in> {''none'', []}" by code_simp
qed

text \<open>A token whose payload is JSON but not an object passes the decoding and makes the middleware
  fail with an attribute error, not with the 401 it answers to every other malformed token.\<close>

theorem non_object_payload_unhandled:
  assumes "\<not> open_path path" and "\<not> startswith (strip token) ''local:''"
    and "enforce_signature A (strip token) st = (Inr (), st')"
    and "split_on (CHR ''.'') (strip token) = [a, b, c]" and "b64_json A b = Some (PList xs)"
  shows "auth_dispatch A path (''Bearer '' @ token) st =
    (Inl (AttributeError ''object has no attribute 'get' ''), st')"
  using assms
  by (simp add: auth_dispatch_def resolve_identity_def startswith_def run_simps Let_def
      parse_bearer_identity_def claims_identity_def)

theorem non_object_payload_unhandled_witness:
  "auth_dispatch oidc_world ''/v1/runs'' (''Bearer '' @ ''h.l.s'') hook_state =
    (Inl (AttributeError ''object has no attribute 'get' ''), hook_state)"
proof (rule non_object_payload_unhandled)
  show "\<not> open_path ''/v1/runs''" by code_simp
  show "\<not> startswith (strip ''h.l.s'') ''local:''" by code_simp
  show "enforce_signature oidc_world (strip ''h.l.s'') hook_state = (Inr (), hook_state)" by code_simp
  show "split_on (CHR ''.'') (strip ''h.l.s'') = [''h'', ''l'', ''s'']" by code_simp
  show "b64_json oidc_world ''l'' = Some (PList [])" by code_simp
qed

end
