(* ===== verification/Authz.thy ===== *)
theory Authz
  imports Identity Catalog
begin

text \<open>
  What a caller may do: scopes and tenant isolation (\<^verbatim>\<open>src/packages/security/authz.py\<close>), the tool
  allowlists (\<^verbatim>\<open>src/packages/security/allowlist.py\<close>) and the response headers
  (\<^verbatim>\<open>src/packages/security/headers.py\<close>).
\<close>

section \<open>Scopes and tenants\<close>

abbreviation AuthorizationError :: "string \<Rightarrow> pyexc" where
  "AuthorizationError m \<equiv> HttpExc EOther ''AuthorizationError'' m ''forbidden'' 403"

abbreviation NotFoundForIsolation :: pyexc where
  "NotFoundForIsolation \<equiv> HttpExc EOther ''NotFoundForIsolation'' ''not found'' ''not_found'' 404"

definition require_scopes :: "Identity \<Rightarrow> string list \<Rightarrow> unit presult" where
  "require_scopes who required =
     (if ''*'' \<in> set (id_scopes who) then Inr ()
      else let missing = filter (\<lambda>s. s \<notin> set (id_scopes who)) required in
        if missing \<noteq> []
        then Inl (AuthorizationError (''missing required scope(s): '' @ join '','' missing))
        else Inr ())"

definition drop_suffix2 :: "string \<Rightarrow> string" where
  "drop_suffix2 s = take (length s - 2) s"

definition scope_matches :: "string \<Rightarrow> string \<Rightarrow> bool" where
  "scope_matches pattern scope =
     (if pattern = ''*'' then True
      else if endswith pattern ''.*''
      then scope = drop_suffix2 pattern \<or> startswith scope (drop_suffix2 pattern @ ''.'')
      else pattern = scope)"

definition has_any_scope :: "Identity \<Rightarrow> string list \<Rightarrow> bool" where
  "has_any_scope who candidates =
     list_ex (\<lambda>pat. list_ex (scope_matches pat) candidates) (id_scopes who)"

definition require_any_scope :: "Identity \<Rightarrow> string list \<Rightarrow> unit presult" where
  "require_any_scope who candidates =
     (if has_any_scope who candidates then Inr ()
      else Inl (AuthorizationError ''insufficient scope for this action''))"

definition check_tenant_access :: "Identity \<Rightarrow> string option \<Rightarrow> unit presult" where
  "check_tenant_access who resource_tenant_id =
     (case resource_tenant_id of
        None \<Rightarrow> Inr ()
      | Some t \<Rightarrow> if t \<noteq> id_tenant_id who then Inl NotFoundForIsolation else Inr ())"

definition check_resource_access ::
  "Identity \<Rightarrow> string option \<Rightarrow> string list option \<Rightarrow> string option \<Rightarrow> bool \<Rightarrow> unit presult" where
  "check_resource_access who resource_tenant_id required_scopes owner_user_id allow_owner_read =
     rbind (check_tenant_access who resource_tenant_id) (\<lambda>_.
       case required_scopes of
         None \<Rightarrow> Inr ()
       | Some rs \<Rightarrow>
           if rs = [] then Inr ()
           else if allow_owner_read \<and> owner_user_id = Some (id_user_id who) \<and>
             list_all (\<lambda>s. s = ''case.read'' \<or> s = ''tools.read'') rs
           then Inr ()
           else require_scopes who rs)"

section \<open>Tool allowlists\<close>

definition allowlist_name_ok :: "string \<Rightarrow> bool" where
  "allowlist_name_ok s = re_match (rx_seqs [rx_plus (RChr tool_char), RChr (\<lambda>c. c = CHR ''.''),
     rx_plus (RChr tool_char), REnd]) s"

definition DEFAULT_ALLOWLIST :: "string list" where
  "DEFAULT_ALLOWLIST = [''telemetry.query_metrics'', ''telemetry.query_logs'', ''service.get_health'',
     ''knowledge.search'', ''knowledge.get_runbook'', ''remediation.simulate'']"

definition ALLOWLIST_BY_ROLE :: "(string \<times> string list) list" where
  "ALLOWLIST_BY_ROLE =
     [(''analyst'', DEFAULT_ALLOWLIST),
      (''operator'', DEFAULT_ALLOWLIST @ [''deployment.rollback'']),
      (''senior-operator'', DEFAULT_ALLOWLIST @ [''deployment.rollback'', ''database.failover'']),
      (''agent'', DEFAULT_ALLOWLIST)]"

definition SCOPE_TOOL_GRANTS :: "(string \<times> string list) list" where
  "SCOPE_TOOL_GRANTS =
     [(''tools.write.deployment.rollback'', [''deployment.rollback'']),
      (''tools.write.*'', [''deployment.rollback'']),
      (''*'', [''telemetry.query_metrics'', ''telemetry.query_logs'', ''service.get_health'',
        ''knowledge.search'', ''knowledge.get_runbook'', ''remediation.simulate'',
        ''deployment.rollback'', ''database.failover''])]"

abbreviation AllowlistError :: "string \<Rightarrow> string \<Rightarrow> pyexc" where
  "AllowlistError m code \<equiv> PyExc EOther ''AllowlistError'' m code"

text \<open>The roles in alphabetical order, as \<open>sorted\<close> lists them in the message.\<close>

definition roles_for :: "Identity \<Rightarrow> string list" where
  "roles_for who =
     (if id_mode who = ''service'' \<or> id_mode who = ''agent'' then [''agent''] else []) @
     [''analyst''] @
     (if list_ex (\<lambda>s. startswith s ''tools.write.'') (id_scopes who) \<or> ''*'' \<in> set (id_scopes who)
      then [''operator''] else []) @
     (if ''senior-operator'' \<in> set (id_scopes who) then [''senior-operator''] else [])"

definition lookup_tools :: "(string \<times> string list) list \<Rightarrow> string \<Rightarrow> string list" where
  "lookup_tools t k = (case map_of t k of None \<Rightarrow> [] | Some xs \<Rightarrow> xs)"

definition scope_tools :: "string \<Rightarrow> string list" where
  "scope_tools scope = lookup_tools SCOPE_TOOL_GRANTS scope @
     (if endswith scope ''.*''
      then filter (\<lambda>tool. startswith tool (drop_suffix2 scope @ ''.''))
             (DEFAULT_ALLOWLIST @ [''deployment.rollback'', ''database.failover''])
      else [])"

definition allowed_tools_for :: "Identity \<Rightarrow> string set" where
  "allowed_tools_for who =
     set (concat (map (lookup_tools ALLOWLIST_BY_ROLE) (roles_for who)) @
          concat (map scope_tools (id_scopes who)))"

definition is_tool_allowed :: "string \<Rightarrow> Identity \<Rightarrow> bool" where
  "is_tool_allowed tool_name who =
     (if \<not> allowlist_name_ok tool_name then False else tool_name \<in> allowed_tools_for who)"

definition repr_list :: "string list \<Rightarrow> string" where
  "repr_list xs = ''['' @ join '', '' (map repr_str xs) @ '']''"

definition allowlist_validate :: "string \<Rightarrow> Identity \<Rightarrow> string presult" where
  "allowlist_validate tool_name who =
     (if \<not> allowlist_name_ok tool_name
      then Inl (AllowlistError (''invalid tool name: '' @ repr_str tool_name) ''validation_error'')
      else if \<not> is_tool_allowed tool_name who
      then Inl (AllowlistError (''tool '' @ tool_name @ '' not on allowlist for roles '' @
             repr_list (roles_for who)) ''tool_not_allowed'')
      else Inr tool_name)"

section \<open>Response headers\<close>

definition SECURITY_HEADERS :: "(string \<times> string) list" where
  "SECURITY_HEADERS =
     [(''X-Content-Type-Options'', ''nosniff''), (''X-Frame-Options'', ''DENY''),
      (''Referrer-Policy'', ''no-referrer''),
      (''Permissions-Policy'', ''camera=(), microphone=(), geolocation=()''),
      (''Cross-Origin-Opener-Policy'', ''same-origin''),
      (''Cross-Origin-Resource-Policy'', ''same-origin''),
      (''Content-Security-Policy'',
       ''default-src '' @ quote_char # ''none'' @ quote_char # ''; frame-ancestors '' @
         quote_char # ''none'' @ [quote_char])]"

definition HSTS_HEADER :: string where "HSTS_HEADER = ''Strict-Transport-Security''"

definition HSTS_VALUE :: string where
  "HSTS_VALUE = ''max-age=63072000; includeSubDomains; preload''"

definition is_prod :: "auth_world \<Rightarrow> string option \<Rightarrow> bool" where
  "is_prod A env = (let val = lower (strip (case env of Some e \<Rightarrow> e | None \<Rightarrow> getenv_or A ''APP_ENV'' []))
     in val = ''production'' \<or> val = ''prod'')"

definition build_headers :: "auth_world \<Rightarrow> string option \<Rightarrow> (string \<times> string) list" where
  "build_headers A env =
     (if is_prod A env then AList.update HSTS_HEADER HSTS_VALUE SECURITY_HEADERS else SECURITY_HEADERS)"

text \<open>\<open>headers.setdefault\<close>: header names are compared without regard to case.\<close>

definition setdefault :: "(string \<times> string) list \<Rightarrow> string \<Rightarrow> string \<Rightarrow> (string \<times> string) list" where
  "setdefault hs k v = (if list_ex (\<lambda>(k', _). lower k' = lower k) hs then hs else hs @ [(k, v)])"

definition headers_dispatch :: "auth_world \<Rightarrow> (string \<times> string) list \<Rightarrow> (string \<times> string) list" where
  "headers_dispatch A response =
     foldl (\<lambda>hs (k, v). setdefault hs k v) response (build_headers A None)"

section \<open>Facts\<close>

lemma require_scopes_ok:
  "require_scopes who rs = Inr u \<longleftrightarrow> ''*'' \<in> set (id_scopes who) \<or> set rs \<subseteq> set (id_scopes who)"
  by (auto simp: require_scopes_def Let_def filter_empty_conv split: if_splits)

lemma lookup_role:
  "lookup_tools ALLOWLIST_BY_ROLE ''analyst'' = DEFAULT_ALLOWLIST"
  "lookup_tools ALLOWLIST_BY_ROLE ''agent'' = DEFAULT_ALLOWLIST"
  "lookup_tools ALLOWLIST_BY_ROLE ''operator'' = DEFAULT_ALLOWLIST @ [''deployment.rollback'']"
  "lookup_tools ALLOWLIST_BY_ROLE ''senior-operator'' =
     DEFAULT_ALLOWLIST @ [''deployment.rollback'', ''database.failover'']"
  by (simp_all add: lookup_tools_def ALLOWLIST_BY_ROLE_def)

text \<open>A wildcard scope \<open>p.*\<close> reaches exactly the tools of the family \<open>p\<close>.\<close>

lemma startswith_append: "startswith (p @ s) p"
  by (simp add: startswith_def)

lemma startswith_iff: "startswith s p \<longleftrightarrow> (\<exists>t. s = p @ t)"
  by (metis append_take_drop_id startswith_append startswith_def)

lemma endswith_iff: "endswith s p \<longleftrightarrow> (\<exists>t. s = t @ p)"
  by (auto simp: endswith_def) (metis append_take_drop_id)

lemma dot_prefix_unique:
  assumes "p @ ''.'' @ t = a @ ''.'' @ b" and "CHR ''.'' \<notin> set a" and "CHR ''.'' \<notin> set b"
  shows "p = a"
proof -
  from assms(1) obtain us where
    us: "p = a @ us \<and> us @ ''.'' @ t = ''.'' @ b \<or> p @ us = a \<and> ''.'' @ t = us @ ''.'' @ b"
    unfolding append_eq_append_conv2 [of p] by blast
  show ?thesis
  proof (cases us)
    case Nil
    with us show ?thesis by auto
  next
    case (Cons c vs)
    with us have "vs @ ''.'' @ t = b \<or> c = CHR ''.'' \<and> c \<in> set a" by auto
    then have "CHR ''.'' \<in> set b \<or> CHR ''.'' \<in> set a" by auto
    with assms(2,3) show ?thesis by blast
  qed
qed

lemma drop_suffix2_wild [simp]: "drop_suffix2 (p @ ''.*'') = p"
  by (simp add: drop_suffix2_def)

lemma family_scope:
  assumes "CHR ''.'' \<notin> set a" and "CHR ''.'' \<notin> set b"
  shows "endswith scope ''.*'' \<and> startswith (a @ ''.'' @ b) (drop_suffix2 scope @ ''.'') \<longleftrightarrow>
    scope = a @ ''.*''"
proof
  assume h: "endswith scope ''.*'' \<and> startswith (a @ ''.'' @ b) (drop_suffix2 scope @ ''.'')"
  then obtain p where p: "scope = p @ ''.*''" unfolding endswith_iff by blast
  from h have "startswith (a @ ''.'' @ b) (p @ ''.'')" unfolding p drop_suffix2_wild by (rule conjunct2)
  then obtain t where "a @ ''.'' @ b = (p @ ''.'') @ t" unfolding startswith_iff by (rule exE)
  then have "p @ ''.'' @ t = a @ ''.'' @ b" unfolding append_assoc by (rule sym)
  from this assms have "p = a" by (rule dot_prefix_unique)
  then show "scope = a @ ''.*''" unfolding p by (rule arg_cong)
next
  assume s: "scope = a @ ''.*''"
  have "startswith (a @ ''.'' @ b) (a @ ''.'')" using startswith_append [of "a @ ''.''" b] by simp
  moreover have "endswith (a @ ''.*'') ''.*''" unfolding endswith_iff by (rule exI) (rule refl)
  ultimately show "endswith scope ''.*'' \<and> startswith (a @ ''.'' @ b) (drop_suffix2 scope @ ''.'')"
    unfolding s drop_suffix2_wild by (intro conjI)
qed

lemma rollback_family: "endswith s ''.*'' \<and> startswith ''deployment.rollback'' (drop_suffix2 s @ ''.'') \<longleftrightarrow> s = ''deployment.*''"
  using family_scope [of "''deployment''" "''rollback''" s] by simp

lemma failover_family: "endswith s ''.*'' \<and> startswith ''database.failover'' (drop_suffix2 s @ ''.'') \<longleftrightarrow> s = ''database.*''"
  using family_scope [of "''database''" "''failover''" s] by simp

lemma lookup_scope:
  "lookup_tools SCOPE_TOOL_GRANTS s =
     (if s = ''tools.write.deployment.rollback'' \<or> s = ''tools.write.*'' then [''deployment.rollback'']
      else if s = ''*'' then DEFAULT_ALLOWLIST @ [''deployment.rollback'', ''database.failover''] else [])"
  by (simp add: lookup_tools_def SCOPE_TOOL_GRANTS_def DEFAULT_ALLOWLIST_def)

definition KNOWN_TOOLS :: "string list" where
  "KNOWN_TOOLS = DEFAULT_ALLOWLIST @ [''deployment.rollback'', ''database.failover'']"

lemma not_default: "''deployment.rollback'' \<notin> set DEFAULT_ALLOWLIST" "''database.failover'' \<notin> set DEFAULT_ALLOWLIST"
  by (simp_all add: DEFAULT_ALLOWLIST_def)

lemma scope_tools_known: "set (scope_tools s) \<subseteq> set KNOWN_TOOLS"
  by (auto simp: scope_tools_def lookup_scope KNOWN_TOOLS_def)

lemma scope_rollback:
  "''deployment.rollback'' \<in> set (scope_tools s) \<longleftrightarrow>
     s \<in> {''tools.write.deployment.rollback'', ''tools.write.*'', ''*'', ''deployment.*''}"
proof -
  have "''deployment.rollback'' \<in> set (scope_tools s) \<longleftrightarrow>
      ''deployment.rollback'' \<in> set (lookup_tools SCOPE_TOOL_GRANTS s) \<or>
      (endswith s ''.*'' \<and> startswith ''deployment.rollback'' (drop_suffix2 s @ ''.''))"
    using not_default by (auto simp: scope_tools_def)
  also have "\<dots> \<longleftrightarrow> ''deployment.rollback'' \<in> set (lookup_tools SCOPE_TOOL_GRANTS s) \<or> s = ''deployment.*''"
    unfolding rollback_family ..
  finally show ?thesis using not_default by (auto simp: lookup_scope)
qed

lemma scope_failover:
  "''database.failover'' \<in> set (scope_tools s) \<longleftrightarrow> s \<in> {''*'', ''database.*''}"
proof -
  have "''database.failover'' \<in> set (scope_tools s) \<longleftrightarrow>
      ''database.failover'' \<in> set (lookup_tools SCOPE_TOOL_GRANTS s) \<or>
      (endswith s ''.*'' \<and> startswith ''database.failover'' (drop_suffix2 s @ ''.''))"
    using not_default by (auto simp: scope_tools_def)
  also have "\<dots> \<longleftrightarrow> ''database.failover'' \<in> set (lookup_tools SCOPE_TOOL_GRANTS s) \<or> s = ''database.*''"
    unfolding failover_family ..
  finally show ?thesis using not_default by (auto simp: lookup_scope)
qed

definition role_tools :: "Identity \<Rightarrow> string list" where
  "role_tools who = concat (map (lookup_tools ALLOWLIST_BY_ROLE) (roles_for who))"

lemma role_tools_default: "set DEFAULT_ALLOWLIST \<subseteq> set (role_tools who)"
  by (auto simp: role_tools_def roles_for_def lookup_role)

lemma role_tools_known: "set (role_tools who) \<subseteq> set KNOWN_TOOLS"
  by (auto simp: role_tools_def roles_for_def lookup_role KNOWN_TOOLS_def split: if_splits)

lemma role_rollback:
  "''deployment.rollback'' \<in> set (role_tools who) \<longleftrightarrow>
     (\<exists>s \<in> set (id_scopes who). startswith s ''tools.write.'' \<or> s \<in> {''*'', ''senior-operator''})"
  using not_default by (auto simp: role_tools_def roles_for_def lookup_role list_ex_iff split: if_splits)

lemma role_failover:
  "''database.failover'' \<in> set (role_tools who) \<longleftrightarrow> ''senior-operator'' \<in> set (id_scopes who)"
  using not_default by (auto simp: role_tools_def roles_for_def lookup_role split: if_splits)

lemma allowed_eq: "allowed_tools_for who = set (role_tools who) \<union> (\<Union>s \<in> set (id_scopes who). set (scope_tools s))"
  by (simp add: allowed_tools_for_def role_tools_def)

lemma allowed_rollback:
  "''deployment.rollback'' \<in> allowed_tools_for who \<longleftrightarrow>
     (\<exists>s \<in> set (id_scopes who). startswith s ''tools.write.'' \<or> s \<in> {''*'', ''senior-operator'', ''deployment.*''})"
proof -
  have "startswith ''tools.write.deployment.rollback'' ''tools.write.''" "startswith ''tools.write.*'' ''tools.write.''"
    by (simp_all add: startswith_def)
  then show ?thesis unfolding allowed_eq Un_iff UN_iff role_rollback scope_rollback by blast
qed

lemma allowed_failover:
  "''database.failover'' \<in> allowed_tools_for who \<longleftrightarrow>
     set (id_scopes who) \<inter> {''*'', ''senior-operator'', ''database.*''} \<noteq> {}"
proof -
  have "''*'' \<in> set (id_scopes who) \<Longrightarrow> ''database.failover'' \<in> set (scope_tools ''*'')"
    by (simp add: scope_failover)
  then show ?thesis unfolding allowed_eq Un_iff UN_iff role_failover scope_failover by blast
qed

lemma known_names_ok: "list_all allowlist_name_ok KNOWN_TOOLS"
  by code_simp

lemma tool_allowed_iff: "is_tool_allowed t who \<longleftrightarrow> t \<in> allowed_tools_for who"
proof -
  have "t \<in> set KNOWN_TOOLS" if "t \<in> allowed_tools_for who"
    using that role_tools_known scope_tools_known unfolding allowed_eq by blast
  then show ?thesis using known_names_ok by (auto simp: is_tool_allowed_def list_all_iff)
qed

text \<open>Headers set by default: what was there stays in front, and nothing else changes.\<close>

definition has_header :: "(string \<times> string) list \<Rightarrow> string \<Rightarrow> bool" where
  "has_header hs k = list_ex (\<lambda>(k', _). lower k' = lower k) hs"

lemma has_header_append: "has_header (xs @ ys) k \<longleftrightarrow> has_header xs k \<or> has_header ys k"
  by (simp add: has_header_def)

lemma setdefault_eq: "setdefault hs k v = (if has_header hs k then hs else hs @ [(k, v)])"
  by (simp add: setdefault_def has_header_def)

lemma has_header_lower: "lower k = lower k' \<Longrightarrow> has_header hs k = has_header hs k'"
  by (simp add: has_header_def)

lemma setdefault_fold:
  "\<exists>extra. foldl (\<lambda>hs (k, v). setdefault hs k v) hs ds = hs @ extra \<and> set extra \<subseteq> set ds \<and>
     (\<forall>kv \<in> set extra. \<not> has_header hs (fst kv)) \<and>
     (\<forall>kv \<in> set ds. has_header (hs @ extra) (fst kv))"
proof (induction ds arbitrary: hs)
  case Nil
  show ?case by (intro exI [of _ "[]"]) simp
next
  case (Cons d ds)
  obtain k v where d: "d = (k, v)" by (cases d)
  obtain extra where e: "foldl (\<lambda>hs (k, v). setdefault hs k v) (setdefault hs k v) ds = setdefault hs k v @ extra"
    "set extra \<subseteq> set ds" "\<forall>kv \<in> set extra. \<not> has_header (setdefault hs k v) (fst kv)"
    "\<forall>kv \<in> set ds. has_header (setdefault hs k v @ extra) (fst kv)"
    using Cons.IH by blast
  show ?case
  proof (cases "has_header hs k")
    case True
    with e d show ?thesis by (intro exI [of _ extra]) (auto simp: setdefault_eq has_header_append)
  next
    case False
    have "has_header ((k, v) # extra) k" by (simp add: has_header_def)
    with False e d show ?thesis
      by (intro exI [of _ "(k, v) # extra"]) (auto simp: setdefault_eq has_header_append)
  qed
qed

section \<open>Properties\<close>

text \<open>Tenant isolation: access to a resource of another tenant answers the same 404 whatever the
  scopes, the owner or the required scopes, so a probe cannot tell a missing scope from a
  missing resource; on a resource of the caller's tenant (or of none) access is granted exactly
  when nothing is required, the caller owns it and only reading is required, or every scope
  required is held.\<close>

theorem tenant_isolation_first:
  "check_resource_access who rt req owner own_read =
     (if rt \<noteq> None \<and> rt \<noteq> Some (id_tenant_id who) then Inl NotFoundForIsolation
      else if req \<in> {None, Some []} \<or>
        (own_read \<and> owner = Some (id_user_id who) \<and> set (the req) \<subseteq> {''case.read'', ''tools.read''}) \<or>
        ''*'' \<in> set (id_scopes who) \<or> set (the req) \<subseteq> set (id_scopes who)
      then Inr ()
      else Inl (AuthorizationError (''missing required scope(s): '' @
             join '','' (filter (\<lambda>s. s \<notin> set (id_scopes who)) (the req)))))"
proof -
  have "list_all (\<lambda>s. s = ''case.read'' \<or> s = ''tools.read'') rs \<longleftrightarrow>
      set rs \<subseteq> {''case.read'', ''tools.read''}" for rs
    by (auto simp: list_all_iff)
  then show ?thesis
    by (cases rt; cases req) (auto simp: check_resource_access_def check_tenant_access_def
        require_scopes_def Let_def filter_empty_conv)
qed

text \<open>The allowlist: every caller may use the six read and simulation tools; the rollback needs a
  scope under \<^verbatim>\<open>tools.write.\<close>, the wildcard, \<^verbatim>\<open>senior-operator\<close> or \<^verbatim>\<open>deployment.*\<close>; the failover
  needs the wildcard, \<^verbatim>\<open>senior-operator\<close> or \<^verbatim>\<open>database.*\<close>; no other tool is ever allowed, and the
  gate raises exactly when the tool is not.\<close>

theorem allowlist_exact:
  "(is_tool_allowed t who \<longleftrightarrow>
      t \<in> set DEFAULT_ALLOWLIST \<or>
      t = ''deployment.rollback'' \<and> (\<exists>s \<in> set (id_scopes who). startswith s ''tools.write.'' \<or>
         s \<in> {''*'', ''senior-operator'', ''deployment.*''}) \<or>
      t = ''database.failover'' \<and>
         set (id_scopes who) \<inter> {''*'', ''senior-operator'', ''database.*''} \<noteq> {}) \<and>
   (allowlist_validate t who = Inr t \<longleftrightarrow> is_tool_allowed t who)"
proof -
  have "t \<in> set KNOWN_TOOLS" if "t \<in> allowed_tools_for who"
    using that role_tools_known scope_tools_known unfolding allowed_eq by blast
  then have "t \<in> allowed_tools_for who \<longleftrightarrow> t \<in> set DEFAULT_ALLOWLIST \<or>
      t = ''deployment.rollback'' \<and> ''deployment.rollback'' \<in> allowed_tools_for who \<or>
      t = ''database.failover'' \<and> ''database.failover'' \<in> allowed_tools_for who"
    using role_tools_default [of who] unfolding KNOWN_TOOLS_def by (auto simp: allowed_eq)
  moreover have "allowlist_validate t who = Inr t \<longleftrightarrow> is_tool_allowed t who"
    by (auto simp: allowlist_validate_def is_tool_allowed_def)
  ultimately show ?thesis unfolding tool_allowed_iff allowed_rollback allowed_failover by blast
qed

theorem allowlist_exact_witness:
  "is_tool_allowed ''deployment.rollback'' (alice\<lparr>id_scopes := [''tools.write.ticket.create'']\<rparr>)"
proof -
  have "startswith ''tools.write.ticket.create'' ''tools.write.''" by (simp add: startswith_def)
  then show ?thesis
    using allowlist_exact [of "''deployment.rollback''" "alice\<lparr>id_scopes := [''tools.write.ticket.create'']\<rparr>"]
    by simp
qed

text \<open>Every response carries each security header; a header the application set itself keeps its
  value and place, and strict transport security is added in production only.\<close>

theorem security_headers_added:
  "\<exists>extra. headers_dispatch A hs = hs @ extra \<and>
     (\<forall>kv \<in> set extra. \<not> has_header hs (fst kv) \<and>
        (kv \<in> set SECURITY_HEADERS \<or> kv = (HSTS_HEADER, HSTS_VALUE) \<and> is_prod A None)) \<and>
     (\<forall>kv \<in> set SECURITY_HEADERS. has_header (headers_dispatch A hs) (fst kv)) \<and>
     (is_prod A None \<longrightarrow> has_header (headers_dispatch A hs) HSTS_HEADER)"
proof -
  have b: "build_headers A None = (if is_prod A None then SECURITY_HEADERS @ [(HSTS_HEADER, HSTS_VALUE)]
      else SECURITY_HEADERS)"
    by (simp add: build_headers_def SECURITY_HEADERS_def HSTS_HEADER_def)
  obtain extra where "headers_dispatch A hs = hs @ extra" "set extra \<subseteq> set (build_headers A None)"
    "\<forall>kv \<in> set extra. \<not> has_header hs (fst kv)"
    "\<forall>kv \<in> set (build_headers A None). has_header (hs @ extra) (fst kv)"
    unfolding headers_dispatch_def using setdefault_fold by blast
  then show ?thesis unfolding b by (intro exI [of _ extra]) (auto split: if_splits)
qed

theorem security_headers_added_witness:
  "has_header (headers_dispatch oidc_world [(''x-frame-options'', ''SAMEORIGIN'')]) HSTS_HEADER"
proof -
  have "is_prod oidc_world None" by code_simp
  then show ?thesis
    using security_headers_added [of oidc_world "[(''x-frame-options'', ''SAMEORIGIN'')]"] by auto
qed

end
