(* ===== verification/ApiLimits.thy ===== *)
theory ApiLimits
  imports Catalog
begin

text \<open>
  Size limits, timeouts and the rate limiter: \<^verbatim>\<open>src/packages/security/limits.py\<close>. The limiter's
  clock is the \<open>now\<close> its callers pass (or \<open>time.monotonic()\<close>): an argument of the model.
\<close>

section \<open>Size limits\<close>

definition OBJECTIVE_MAX_BYTES :: nat where "OBJECTIVE_MAX_BYTES = 8 * 1024"
definition CONTEXT_MAX_BYTES :: nat where "CONTEXT_MAX_BYTES = 64 * 1024"
definition CONTEXT_MAX_KEYS :: nat where "CONTEXT_MAX_KEYS = 64"
definition ACTION_INPUT_MAX_KEYS :: nat where "ACTION_INPUT_MAX_KEYS = 50"
definition ACTION_INPUT_MAX_BYTES :: nat where "ACTION_INPUT_MAX_BYTES = 32 * 1024"

abbreviation LimitExceededError :: "string \<Rightarrow> pyexc" where
  "LimitExceededError m \<equiv> PyExc EOther ''LimitExceededError'' m ''validation_error''"

abbreviation RateLimitError :: "string \<Rightarrow> pyexc" where
  "RateLimitError m \<equiv> PyExc EOther ''RateLimitError'' m ''rate_limited''"

text \<open>\<open>len(s.encode("utf-8"))\<close> on the represented code points.\<close>

definition utf8_len :: "string \<Rightarrow> nat" where
  "utf8_len s = sum_list (map (\<lambda>c. if (of_char c :: nat) < 128 then 1 else 2) s)"

definition size_json :: "pyenv \<Rightarrow> pyval \<Rightarrow> nat" where
  "size_json E obj = length (json_dumps E obj)"

definition check_objective :: "string \<Rightarrow> string presult" where
  "check_objective objective =
     (if OBJECTIVE_MAX_BYTES < utf8_len objective then Inl (LimitExceededError ''objective must be <= 8KB'')
      else if strip objective = [] then Inl (LimitExceededError ''objective must be non-empty'')
      else Inr objective)"

definition check_context :: "pyenv \<Rightarrow> pydict \<Rightarrow> pydict presult" where
  "check_context E ctxt =
     (if CONTEXT_MAX_KEYS < length ctxt then Inl (LimitExceededError ''context must have <= 64 keys'')
      else if CONTEXT_MAX_BYTES < size_json E (PDict ctxt)
      then Inl (LimitExceededError ''context must be <= 64KB serialized'')
      else Inr ctxt)"

definition check_action_input :: "pyenv \<Rightarrow> pydict \<Rightarrow> pydict presult" where
  "check_action_input E action_input =
     (if ACTION_INPUT_MAX_KEYS < length action_input
      then Inl (LimitExceededError ''action input must have <= 50 keys'')
      else if ACTION_INPUT_MAX_BYTES < size_json E (PDict action_input)
      then Inl (LimitExceededError ''action input must be <= 32KB serialized'')
      else Inr action_input)"

record InputLimits =
  objective_max_bytes :: nat
  context_max_bytes :: nat
  context_max_keys :: nat
  action_max_keys :: nat
  action_max_bytes :: nat

definition default_input_limits :: InputLimits where
  "default_input_limits = \<lparr>objective_max_bytes = OBJECTIVE_MAX_BYTES,
     context_max_bytes = CONTEXT_MAX_BYTES, context_max_keys = CONTEXT_MAX_KEYS,
     action_max_keys = ACTION_INPUT_MAX_KEYS, action_max_bytes = ACTION_INPUT_MAX_BYTES\<rparr>"

section \<open>Timeouts\<close>

definition LIMIT_TIMEOUTS :: "(string \<times> int) list" where
  "LIMIT_TIMEOUTS =
     [(''telemetry.query_metrics'', 30), (''telemetry.query_logs'', 30), (''service.get_health'', 15),
      (''knowledge.search'', 15), (''knowledge.get_runbook'', 15), (''remediation.simulate'', 60),
      (''deployment.rollback'', 60), (''database.failover'', 60)]"

definition DEFAULT_TOOL_TIMEOUT :: int where "DEFAULT_TOOL_TIMEOUT = 30"

record TimeoutConfig =
  tool_timeouts :: "(string \<times> int) list"
  default_seconds :: int
  client_slack_seconds :: int

definition new_TimeoutConfig :: TimeoutConfig where
  "new_TimeoutConfig = \<lparr>tool_timeouts = LIMIT_TIMEOUTS, default_seconds = DEFAULT_TOOL_TIMEOUT,
     client_slack_seconds = 5\<rparr>"

definition for_tool :: "TimeoutConfig \<Rightarrow> string \<Rightarrow> int" where
  "for_tool self tool_name =
     (case map_of (tool_timeouts self) tool_name of None \<Rightarrow> default_seconds self | Some t \<Rightarrow> t)"

definition client_timeout :: "TimeoutConfig \<Rightarrow> string \<Rightarrow> int" where
  "client_timeout self tool_name = for_tool self tool_name + client_slack_seconds self"

section \<open>The token bucket\<close>

record RateLimiter =
  capacity :: int
  refill_per_sec :: pyfloat
  buckets :: "(string \<times> (pyfloat \<times> pyfloat)) list"

definition new_RateLimiter :: RateLimiter where
  "new_RateLimiter = \<lparr>capacity = 60, refill_per_sec = 1, buckets = []\<rparr>"

definition allow :: "string \<Rightarrow> pyfloat \<Rightarrow> RateLimiter \<Rightarrow> bool \<times> RateLimiter" where
  "allow key now self =
     (let (tokens0, updated) = (case map_of (buckets self) key of
            None \<Rightarrow> (rat_of_int (capacity self), now) | Some b \<Rightarrow> b);
          tokens = min (rat_of_int (capacity self)) (tokens0 + (now - updated) * refill_per_sec self)
      in if tokens < 1
         then (False, self\<lparr>buckets := AList.update key (tokens, now) (buckets self)\<rparr>)
         else (True, self\<lparr>buckets := AList.update key (tokens - 1, now) (buckets self)\<rparr>))"

definition check_rate :: "string \<Rightarrow> pyfloat \<Rightarrow> RateLimiter \<Rightarrow> unit presult \<times> RateLimiter" where
  "check_rate key now self =
     (case allow key now self of
        (True, self') \<Rightarrow> (Inr (), self')
      | (False, self') \<Rightarrow> (Inl (RateLimitError (''rate limit exceeded for '' @ key)), self'))"

text \<open>A history of requests, each with its key and time, and how many of a key were granted.\<close>

fun granted :: "string \<Rightarrow> (string \<times> pyfloat) list \<Rightarrow> RateLimiter \<Rightarrow> nat" where
  "granted k [] rl = 0"
| "granted k ((key, now) # cs) rl =
     (case check_rate key now rl of
        (r, rl') \<Rightarrow> (if key = k \<and> r = Inr () then 1 else 0) + granted k cs rl')"

section \<open>Facts about the token bucket\<close>

text \<open>What key \<open>k\<close> has left at the time of its last request, or would have from time \<open>t\<close> on.\<close>

definition bucket_of :: "RateLimiter \<Rightarrow> string \<Rightarrow> pyfloat \<Rightarrow> pyfloat \<times> pyfloat" where
  "bucket_of rl k t = (case map_of (buckets rl) k of None \<Rightarrow> (rat_of_int (capacity rl), t) | Some b \<Rightarrow> b)"

definition refilled :: "RateLimiter \<Rightarrow> string \<Rightarrow> pyfloat \<Rightarrow> pyfloat" where
  "refilled rl k now = (let (tok, upd) = bucket_of rl k now in
     min (rat_of_int (capacity rl)) (tok + (now - upd) * refill_per_sec rl))"

lemma allow_eq:
  "allow k now rl = (if refilled rl k now < 1
     then (False, rl\<lparr>buckets := AList.update k (refilled rl k now, now) (buckets rl)\<rparr>)
     else (True, rl\<lparr>buckets := AList.update k (refilled rl k now - 1, now) (buckets rl)\<rparr>))"
  by (simp add: allow_def refilled_def bucket_of_def Let_def split: prod.splits)

lemma allow_params:
  "allow k now rl = (b, rl') \<Longrightarrow> capacity rl' = capacity rl \<and> refill_per_sec rl' = refill_per_sec rl"
  by (auto simp: allow_eq split: if_splits)

lemma allow_bucket:
  "allow k now rl = (b, rl') \<Longrightarrow>
     map_of (buckets rl') k' = (if k' = k then Some (refilled rl k now - (if b then 1 else 0), now)
                                else map_of (buckets rl) k')"
  by (auto simp: allow_eq update_conv split: if_splits)

definition rl_inv :: "RateLimiter \<Rightarrow> pyfloat \<Rightarrow> bool" where
  "rl_inv rl t = (0 \<le> capacity rl \<and> 0 \<le> refill_per_sec rl \<and>
     (\<forall>k tok upd. map_of (buckets rl) k = Some (tok, upd) \<longrightarrow>
        0 \<le> tok \<and> tok \<le> rat_of_int (capacity rl) \<and> upd \<le> t))"

lemma refilled_bounds:
  assumes "rl_inv rl t" and "t \<le> now"
  shows "0 \<le> refilled rl k now" and "refilled rl k now \<le> rat_of_int (capacity rl)"
proof -
  have "0 \<le> fst (bucket_of rl k now) + (now - snd (bucket_of rl k now)) * refill_per_sec rl"
    using assms by (auto simp: rl_inv_def bucket_of_def split: option.splits prod.splits
        intro!: add_nonneg_nonneg mult_nonneg_nonneg) (metis order.trans)+
  then show "0 \<le> refilled rl k now"
    using assms by (cases "bucket_of rl k now") (simp add: refilled_def rl_inv_def)
  show "refilled rl k now \<le> rat_of_int (capacity rl)"
    by (simp add: refilled_def split: prod.splits)
qed

lemma allow_inv:
  assumes "rl_inv rl t" and "t \<le> now" and "allow k now rl = (b, rl')"
  shows "rl_inv rl' now"
  unfolding rl_inv_def
proof (intro conjI allI impI)
  show "0 \<le> capacity rl'" "0 \<le> refill_per_sec rl'"
    using assms allow_params by (auto simp: rl_inv_def)
  fix k' tok upd
  assume "map_of (buckets rl') k' = Some (tok, upd)"
  then have "if k' = k then tok = refilled rl k now - (if b then 1 else 0) \<and> upd = now
      else map_of (buckets rl) k' = Some (tok, upd)"
    by (auto simp: allow_bucket [OF assms(3)] split: if_splits)
  moreover have "b \<Longrightarrow> 1 \<le> refilled rl k now"
    using assms(3) by (auto simp: allow_eq split: if_splits)
  ultimately show "0 \<le> tok" "tok \<le> rat_of_int (capacity rl')" "upd \<le> now"
    using assms refilled_bounds [OF assms(1,2), of k] allow_params [OF assms(3)]
    by (auto simp: rl_inv_def split: if_splits) (smt (verit) order.trans)+
qed

text \<open>What key \<open>k\<close> can still get up to time \<open>T\<close>: its tokens and everything that will flow in.\<close>

definition potential :: "RateLimiter \<Rightarrow> string \<Rightarrow> pyfloat \<Rightarrow> pyfloat \<Rightarrow> pyfloat" where
  "potential rl k t T = (let (tok, upd) = bucket_of rl k t in tok + refill_per_sec rl * (T - upd))"

lemma potential_nonneg: "rl_inv rl t \<Longrightarrow> t \<le> T \<Longrightarrow> 0 \<le> potential rl k t T"
  by (auto simp: potential_def rl_inv_def bucket_of_def split: option.splits prod.splits
      intro!: add_nonneg_nonneg mult_nonneg_nonneg) (metis order.trans)+

lemma potential_other:
  assumes "rl_inv rl t" and "t \<le> now" and "allow key now rl = (b, rl')" and "key \<noteq> k"
  shows "potential rl' k now T \<le> potential rl k t T"
  using assms allow_params [OF assms(3)] allow_bucket [OF assms(3), of k]
  by (auto simp: potential_def bucket_of_def rl_inv_def split: option.splits intro!: mult_left_mono)

lemma potential_same:
  assumes "rl_inv rl t" and "t \<le> now" and "allow k now rl = (b, rl')"
  shows "(if b then 1 else 0) + potential rl' k now T \<le> potential rl k t T"
proof -
  obtain tok upd where u: "bucket_of rl k t = (tok, upd)" by (cases "bucket_of rl k t")
  have "refilled rl k now \<le> tok + (now - upd) * refill_per_sec rl"
    using u assms by (auto simp: refilled_def bucket_of_def rl_inv_def split: option.splits prod.splits
        intro: order_trans [OF _ add_increasing2])
  then have "refilled rl k now + refill_per_sec rl * (T - now) \<le> tok + refill_per_sec rl * (T - upd)"
    by (simp add: algebra_simps)
  then show ?thesis
    using u allow_params [OF assms(3)] allow_bucket [OF assms(3), of k]
    by (auto simp: potential_def bucket_of_def)
qed

lemma check_rate_eq:
  "check_rate k now rl = (r, rl') \<Longrightarrow> \<exists>b. allow k now rl = (b, rl') \<and> (r = Inr () \<longleftrightarrow> b)"
  by (auto simp: check_rate_def split: prod.splits bool.splits)

lemma granted_potential:
  assumes "rl_inv rl t" and "sorted (t # map snd cs @ [T])"
  shows "rat_of_nat (granted k cs rl) \<le> potential rl k t T"
  using assms
proof (induction cs arbitrary: rl t)
  case Nil
  then show ?case by (simp add: potential_nonneg)
next
  case (Cons c cs)
  obtain key now where c: "c = (key, now)" by (cases c)
  obtain r rl' where r: "check_rate key now rl = (r, rl')" by (cases "check_rate key now rl")
  then obtain b where b: "allow key now rl = (b, rl')" "r = Inr () \<longleftrightarrow> b" using check_rate_eq by blast
  have le: "t \<le> now" and "sorted (now # map snd cs @ [T])" using Cons.prems c by auto
  with Cons.IH allow_inv [OF Cons.prems(1) le b(1)]
  have ih: "rat_of_nat (granted k cs rl') \<le> potential rl' k now T" by blast
  show ?case
  proof (cases "key = k")
    case True
    with ih potential_same [OF Cons.prems(1) le, of k b rl' T] b c r show ?thesis by (auto split: if_splits)
  next
    case False
    with ih potential_other [OF Cons.prems(1) le b(1), of k T] c r show ?thesis by auto
  qed
qed

section \<open>Properties\<close>

text \<open>C33. The token bucket: whatever requests of whatever keys arrive, in the order of time between
  \<open>t\<close> and \<open>T\<close>, a fresh limiter grants one key at most its capacity plus what refills in that
  time.\<close>

theorem rate_limit_bound:
  assumes "0 \<le> capacity rl" and "0 \<le> refill_per_sec rl" and "buckets rl = []"
    and "sorted (t # map snd cs @ [T])"
  shows "rat_of_nat (granted k cs rl) \<le> rat_of_int (capacity rl) + refill_per_sec rl * (T - t)"
proof -
  have "rl_inv rl t" using assms by (simp add: rl_inv_def)
  from granted_potential [OF this assms(4), of k] show ?thesis
    using assms(3) by (simp add: potential_def bucket_of_def)
qed

theorem rate_limit_bound_witness:
  "rat_of_nat (granted ''a'' [(''a'', 0), (''b'', 0), (''a'', 1)] (new_RateLimiter\<lparr>capacity := 1\<rparr>)) \<le> 1 + 1 * (1 - 0)"
  using rate_limit_bound [of "new_RateLimiter\<lparr>capacity := 1\<rparr>" 0 "[(''a'', 0), (''b'', 0), (''a'', 1)]" 1 "''a''"]
  by (simp add: new_RateLimiter_def)

text \<open>A limiter in use keeps every bucket between zero and its capacity and never refuses for good:
  a key whose bucket was last touched at least one refill period ago is granted its request,
  and the buckets of other keys are not touched.\<close>

theorem rate_limit_recovers:
  assumes "rl_inv rl t" and "t \<le> now" and "1 \<le> capacity rl"
    and "\<And>tok upd. map_of (buckets rl) k = Some (tok, upd) \<Longrightarrow> 1 \<le> (now - upd) * refill_per_sec rl"
  shows "\<exists>rl'. check_rate k now rl = (Inr (), rl') \<and> rl_inv rl' now \<and>
    (\<forall>k'. k' \<noteq> k \<longrightarrow> map_of (buckets rl') k' = map_of (buckets rl) k')"
proof -
  obtain b rl' where b: "allow k now rl = (b, rl')" by (cases "allow k now rl")
  have "1 \<le> refilled rl k now"
  proof (cases "map_of (buckets rl) k")
    case None
    with assms(3) show ?thesis by (simp add: refilled_def bucket_of_def)
  next
    case (Some p)
    obtain tok upd where p: "p = (tok, upd)" by (cases p)
    with Some assms(1) have "0 \<le> tok" by (simp add: rl_inv_def)
    moreover have "1 \<le> (now - upd) * refill_per_sec rl" using Some p assms(4) by blast
    ultimately have "1 \<le> tok + (now - upd) * refill_per_sec rl" by linarith
    with Some p assms(3) show ?thesis by (simp add: refilled_def bucket_of_def)
  qed
  with b have "b" by (auto simp: allow_eq split: if_splits)
  with b allow_inv [OF assms(1,2) b] allow_bucket [OF b] show ?thesis by (simp add: check_rate_def)
qed

theorem rate_limit_recovers_witness:
  "\<exists>rl'. check_rate ''a'' 2 (new_RateLimiter\<lparr>buckets := [(''a'', (0, 1))]\<rparr>) = (Inr (), rl')"
proof -
  let ?rl = "new_RateLimiter\<lparr>buckets := [(''a'', (0, 1))]\<rparr>"
  have "rl_inv ?rl 1" by (auto simp: rl_inv_def new_RateLimiter_def split: if_splits)
  from rate_limit_recovers [OF this, of 2 "''a''"] show ?thesis by (auto simp: new_RateLimiter_def)
qed

text \<open>The size guards accept exactly the inputs within their limits, return them unchanged, and
  refuse every other input with a validation error.\<close>

theorem size_guards_exact:
  "(check_objective s = Inr s \<longleftrightarrow> utf8_len s \<le> 8192 \<and> strip s \<noteq> []) \<and>
   (check_context E d = Inr d \<longleftrightarrow> length d \<le> 64 \<and> length (json_dumps E (PDict d)) \<le> 65536) \<and>
   (check_action_input E d = Inr d \<longleftrightarrow> length d \<le> 50 \<and> length (json_dumps E (PDict d)) \<le> 32768) \<and>
   (\<forall>e. e \<in> {x. check_objective s = Inl x \<or> check_context E d = Inl x \<or> check_action_input E d = Inl x} \<longrightarrow>
      exc_tag e = ''validation_error'')"
  by (auto simp: check_objective_def check_context_def check_action_input_def size_json_def
      OBJECTIVE_MAX_BYTES_def CONTEXT_MAX_KEYS_def CONTEXT_MAX_BYTES_def ACTION_INPUT_MAX_KEYS_def
      ACTION_INPUT_MAX_BYTES_def split: if_splits)

theorem size_guards_exact_witness:
  "check_objective ''ok'' = Inr ''ok'' \<and>
   (\<forall>e. check_objective '' '' = Inl e \<longrightarrow> exc_tag e = ''validation_error'')"
proof -
  have "utf8_len ''ok'' \<le> 8192" "strip ''ok'' \<noteq> []" by code_simp+
  then show ?thesis using size_guards_exact [of "''ok''" plain_env "[]"] size_guards_exact [of "'' ''" plain_env "[]"]
    by simp
qed

text \<open>The timeouts that are said to mirror the tool catalog do so for the tools both name, and
  only for those: the defaults give the release lookup twice and the ticket half of the time the
  catalog gives, and one listed tool is not in the catalog.\<close>

theorem timeouts_mirror_catalog:
  "list_all (\<lambda>(n, t). case map_of TOOL_METADATA n of
       Some m \<Rightarrow> t = tm_timeout_seconds m | None \<Rightarrow> n = ''database.failover'') LIMIT_TIMEOUTS \<and>
   for_tool new_TimeoutConfig ''deployment.get_current_release'' = 30 \<and>
   map_option tm_timeout_seconds (map_of TOOL_METADATA ''deployment.get_current_release'') = Some 15 \<and>
   for_tool new_TimeoutConfig ''ticket.create'' = 30 \<and>
   map_option tm_timeout_seconds (map_of TOOL_METADATA ''ticket.create'') = Some 60"
  by code_simp

end
