(* ===== verification/McpSecurity.thy ===== *)
theory McpSecurity
  imports Identity
begin

text \<open>
  \<^verbatim>\<open>apps/mcp_server/security.py\<close>: who calls the tool gateway. The authorisation context is built
  from the gateway identity, or from the request headers when no identity is attached, and is
  then asked for tenant and scopes by the executor.
\<close>

section \<open>Errors and the context\<close>

text \<open>\<^verbatim>\<open>ForbiddenError\<close> is a subclass of \<^verbatim>\<open>AuthError\<close>; the tag is the code.\<close>

definition AuthError :: "string \<Rightarrow> pyexc" where
  "AuthError m = PyExc EOther ''AuthError'' m ''auth_error''"

definition ForbiddenError :: "string \<Rightarrow> pyexc" where
  "ForbiddenError m = PyExc EOther ''ForbiddenError'' m ''forbidden''"

definition is_auth_error :: "pyexc \<Rightarrow> bool" where
  "is_auth_error e = (exc_name e = ''AuthError'' \<or> exc_name e = ''ForbiddenError'')"

record AuthContext =
  ac_tenant_id :: string
  ac_scopes :: "string list"
  ac_user_id :: string
  ac_approved :: bool

definition require_scope :: "AuthContext \<Rightarrow> string list \<Rightarrow> unit presult" where
  "require_scope self required =
     (if ''*'' \<in> set (ac_scopes self) then Inr ()
      else let missing = filter (\<lambda>s. s \<notin> set (ac_scopes self)) required in
        if missing \<noteq> [] then Inl (ForbiddenError (''missing required scope(s): '' @ join '','' missing))
        else Inr ())"

text \<open>The tenant of a call is whatever the caller sent, so any value.\<close>

definition check_tenant :: "AuthContext \<Rightarrow> pyval \<Rightarrow> string presult" where
  "check_tenant auth requested =
     (if truthy requested \<and> requested \<noteq> PStr (ac_tenant_id auth)
      then Inl (ForbiddenError ''tenant mismatch'') else Inr (ac_tenant_id auth))"

section \<open>Building the context\<close>

type_synonym headers = "(string \<times> string) list"

definition header_norm :: "headers \<Rightarrow> headers" where
  "header_norm hs = foldl (\<lambda>acc (k, v). AList.update (lower k) v acc) [] hs"

definition header_get :: "headers \<Rightarrow> string \<Rightarrow> string" where
  "header_get hs k = (case map_of hs k of None \<Rightarrow> [] | Some v \<Rightarrow> v)"

text \<open>Headers go back to the request as \<^verbatim>\<open>v.encode()\<close>, which is UTF-8, and are read as Latin-1.\<close>

definition reencode :: "string \<Rightarrow> string" where
  "reencode s = concat (map (\<lambda>c. let n = (of_char c :: nat) in
     if n < 128 then [c] else [char_of (192 + n div 64), char_of (128 + n mod 64)]) s)"

definition mock_mode :: "auth_world \<Rightarrow> bool" where
  "mock_mode A = (getenv_or A ''AUTH_MODE'' ''mock'' = ''mock'' \<and>
     getenv_or A ''APP_ENV'' ''local'' \<in> {''local'', ''test''})"

definition from_identity :: "Identity \<Rightarrow> bool \<Rightarrow> AuthContext" where
  "from_identity who approved =
     \<lparr>ac_tenant_id = id_tenant_id who, ac_scopes = id_scopes who,
      ac_user_id = or_str (id_user_id who) ''analyst_1'', ac_approved = approved\<rparr>"

text \<open>The part of \<^verbatim>\<open>from_headers\<close> for a request that has its gateway identity.\<close>

definition gateway_context :: "headers \<Rightarrow> Identity \<Rightarrow> AuthContext presult" where
  "gateway_context h who =
     (let tenant = strip (id_tenant_id who); claimed = strip (header_get h ''x-tenant-id'') in
      if tenant = [] then Inl (AuthError ''gateway identity missing tenant'')
      else if claimed \<noteq> [] \<and> claimed \<noteq> tenant then Inl (ForbiddenError ''tenant mismatch'')
      else Inr \<lparr>ac_tenant_id = tenant, ac_scopes = id_scopes who,
             ac_user_id = or_str (id_user_id who) ''analyst_1'', ac_approved = False\<rparr>)"

text \<open>The part for a bearer token.\<close>

definition bearer_context :: "auth_world \<Rightarrow> headers \<Rightarrow> (auth_state, AuthContext) em" where
  "bearer_context A h =
     ebind (etry (resolve_identity A (reencode (header_get h ''authorization'')))
         (\<lambda>e. if exc_name e = ''IdentityError'' then eraise (AuthError (exc_msg e)) else eraise e))
       (\<lambda>who. let claimed = strip (header_get h ''x-tenant-id'') in
         if claimed \<noteq> [] \<and> claimed \<noteq> id_tenant_id who then eraise (ForbiddenError ''tenant mismatch'')
         else eret \<lparr>ac_tenant_id = id_tenant_id who, ac_scopes = id_scopes who,
                ac_user_id = id_user_id who, ac_approved = False\<rparr>)"

text \<open>The part for the local test harness, with neither.\<close>

definition mock_context :: "auth_world \<Rightarrow> headers \<Rightarrow> AuthContext presult" where
  "mock_context A h =
     rbind (local_dev_identity A) (\<lambda>mock.
       let claimed = strip (header_get h ''x-tenant-id'');
           raw_scopes = strip (header_get h ''x-scopes'') in
       if claimed = [] then Inl (AuthError ''missing X-Tenant-ID'')
       else Inr \<lparr>ac_tenant_id = (if claimed \<noteq> [] \<and> claimed \<noteq> id_tenant_id mock then claimed
                   else id_tenant_id mock),
              ac_scopes = (if raw_scopes \<noteq> []
                then filter (\<lambda>s. s \<noteq> []) (map strip (split_on (CHR '','') raw_scopes))
                else id_scopes mock),
              ac_user_id = or_str (strip (header_get h ''x-user-id'')) (id_user_id mock),
              ac_approved = False\<rparr>)"

definition from_headers ::
  "auth_world \<Rightarrow> headers \<Rightarrow> Identity option \<Rightarrow> (auth_state, AuthContext) em" where
  "from_headers A hs gateway =
     (let h = header_norm hs; authz = header_get h ''authorization'' in
      if authz \<noteq> [] \<and> \<not> startswith authz ''Bearer '' then eraise (AuthError ''malformed Authorization header'')
      else case gateway of
          Some who \<Rightarrow> elift (gateway_context h who)
        | None \<Rightarrow>
            if startswith authz ''Bearer '' then bearer_context A h
            else if mock_mode A then elift (mock_context A h)
            else eraise (AuthError ''missing bearer token''))"

section \<open>Facts\<close>

lemma require_scope_ok: "require_scope self required = Inr u \<longleftrightarrow>
    ''*'' \<in> set (ac_scopes self) \<or> set required \<subseteq> set (ac_scopes self)"
  by (auto simp: require_scope_def Let_def filter_empty_conv)

lemma require_scope_error: "require_scope self required = Inl e \<Longrightarrow> exc_name e = ''ForbiddenError''"
  by (auto simp: require_scope_def Let_def ForbiddenError_def split: if_splits)

lemma check_tenant_ok: "check_tenant auth requested = Inr t \<longleftrightarrow>
    t = ac_tenant_id auth \<and> (truthy requested \<longrightarrow> requested = PStr (ac_tenant_id auth))"
  by (auto simp: check_tenant_def)

lemma check_tenant_error: "check_tenant auth requested = Inl e \<Longrightarrow> exc_name e = ''ForbiddenError''"
  by (auto simp: check_tenant_def ForbiddenError_def split: if_splits)

lemma gateway_context_ok:
  assumes "gateway_context h who = Inr auth"
  shows "ac_tenant_id auth = strip (id_tenant_id who)" "ac_scopes auth = id_scopes who"
    "\<not> ac_approved auth"
  using assms by (auto simp: gateway_context_def Let_def split: if_splits)

lemma bearer_context_ok:
  assumes "bearer_context A h st = (Inr auth, st')"
  obtains who where "resolve_identity A (reencode (header_get h ''authorization'')) st = (Inr who, st')"
    "ac_tenant_id auth = id_tenant_id who" "ac_scopes auth = id_scopes who" "\<not> ac_approved auth"
proof -
  from assms obtain who where
    r: "resolve_identity A (reencode (header_get h ''authorization'')) st = (Inr who, st')" and
    rest: "auth = \<lparr>ac_tenant_id = id_tenant_id who, ac_scopes = id_scopes who,
                ac_user_id = id_user_id who, ac_approved = False\<rparr>"
    by (auto simp: bearer_context_def Let_def run_simps split: prod.splits sum.splits if_splits)
  show ?thesis by (rule that [OF r]) (simp_all add: rest)
qed

lemma mock_context_not_approved: "mock_context A h = Inr auth \<Longrightarrow> \<not> ac_approved auth"
  by (auto simp: mock_context_def Let_def rbind_Inr_iff split: if_splits)

text \<open>No request gives an approved context, whatever its headers say.\<close>

lemma from_headers_not_approved:
  "from_headers A hs gateway st = (Inr auth, st') \<Longrightarrow> \<not> ac_approved auth"
  by (auto simp: from_headers_def Let_def run_simps mock_context_not_approved
      split: if_splits option.splits dest: gateway_context_ok elim: bearer_context_ok)

end
