(* ===== verification/Redaction.thy ===== *)
theory Redaction
  imports PyRegex "HOL-Library.Char_ord" "HOL-Library.List_Lexorder"
begin

text \<open>
  Redaction and hashing: the repository's hook (\<^verbatim>\<open>default_redact\<close>, \<^verbatim>\<open>hash_payload\<close> and the guard
  \<^verbatim>\<open>_contains_bare_secret_marker\<close> of \<^verbatim>\<open>src/packages/persistence/repositories.py\<close>) and the tool server's
  (\<^verbatim>\<open>src/apps/mcp_server/redact.py\<close>, with the facade \<^verbatim>\<open>src/packages/security/redaction.py\<close>). The
  digest is a parameter (\<open>sha256_hexdigest\<close>).
\<close>

section \<open>The repository's redaction\<close>

definition REDACTED :: string where "REDACTED = ''***REDACTED***''"

definition rx_sep :: rx where
  "rx_sep = rx_opt (RChr (\<lambda>c. c = CHR ''_'' \<or> c = CHR ''-''))"

definition SENSITIVE_KEY_RE :: rx where
  "SENSITIVE_KEY_RE = rx_alts
     [rx_ilit ''password'', rx_ilit ''passwd'', rx_ilit ''secret'', rx_ilit ''token'',
      rx_seqs [rx_ilit ''api'', rx_sep, rx_ilit ''key''],
      rx_seqs [rx_ilit ''access'', rx_sep, rx_ilit ''key''],
      rx_seqs [rx_ilit ''private'', rx_sep, rx_ilit ''key''],
      rx_seqs [rx_ilit ''client'', rx_sep, rx_ilit ''secret''],
      rx_ilit ''auth'', rx_ilit ''authorization'', rx_ilit ''bearer'', rx_ilit ''cookie'',
      rx_ilit ''sessionid'', rx_seqs [rx_ilit ''connection'', rx_sep, rx_ilit ''string''],
      rx_ilit ''dsn'', rx_seqs [rx_ilit ''credit'', rx_sep, rx_ilit ''card''], rx_ilit ''ssn'']"

definition rx_at_least :: "nat \<Rightarrow> rx \<Rightarrow> rx" where
  "rx_at_least n r = RSeq (rx_times n r) (RStar r)"

definition SECRET_VALUE_RES :: "rx list" where
  "SECRET_VALUE_RES =
     [rx_seqs [rx_ilit ''bearer'', rx_plus (RChr is_space),
        rx_plus (RChr (\<lambda>c. is_alnum c \<or> c \<in> set ''-._~+/'')), RStar (RChr (\<lambda>c. c = CHR ''=''))],
      rx_seqs [rx_lit ''-----BEGIN '', RStar (RChr (\<lambda>c. is_ascii_upper c \<or> c = CHR '' '')),
        rx_lit ''PRIVATE KEY-----''],
      rx_seqs [RBnd, rx_lit ''sk-'', rx_at_least 8 (RChr is_alnum), RBnd],
      rx_seqs [RBnd, rx_lit ''xox'', RChr (\<lambda>c. c \<in> set ''baprs''), rx_lit ''-'',
        rx_at_least 8 (RChr (\<lambda>c. is_alnum c \<or> c = CHR ''-'')), RBnd]]"

text \<open>\<^verbatim>\<open>[A-Za-z0-9\-_+/=]{64,}\<close> with \<open>fullmatch\<close>.\<close>

definition opaque_blob :: "string \<Rightarrow> bool" where
  "opaque_blob s = (64 \<le> length s \<and> list_all (\<lambda>c. is_alnum c \<or> c \<in> set ''-_+/='') s)"

definition redact_str :: "string \<Rightarrow> string \<Rightarrow> string" where
  "redact_str key_path s =
     (if key_path \<noteq> [] \<and> re_search SENSITIVE_KEY_RE key_path then REDACTED
      else if list_ex (\<lambda>r. re_search r s) SECRET_VALUE_RES then REDACTED
      else if 64 < length s \<and> opaque_blob (strip s) then REDACTED
      else s)"

definition sub_path :: "string \<Rightarrow> string \<Rightarrow> string" where
  "sub_path p k = (if p \<noteq> [] then p @ ''.'' @ k else k)"

fun redact_value :: "string \<Rightarrow> pyval \<Rightarrow> pyval" where
  "redact_value p (PDict d) = PDict (map (\<lambda>(k, v). (k, redact_value (sub_path p k) v)) d)"
| "redact_value p (PList xs) = PList (map (redact_value p) xs)"
| "redact_value p (PStr s) = PStr (redact_str p s)"
| "redact_value p v = v"

definition default_redact :: "pyval \<Rightarrow> pyval" where
  "default_redact v = (case v of
     PDict d \<Rightarrow> PDict (map (\<lambda>(k, v). (k, redact_value k v)) d)
   | PList xs \<Rightarrow> PList (map (redact_value []) xs)
   | _ \<Rightarrow> redact_value [] v)"

text \<open>\<open>sort_keys=True\<close>.\<close>

fun sort_keys :: "pyval \<Rightarrow> pyval" where
  "sort_keys (PDict d) = PDict (sort_key fst (map (\<lambda>(k, v). (k, sort_keys v)) d))"
| "sort_keys (PList xs) = PList (map sort_keys xs)"
| "sort_keys v = v"

definition hash_payload :: "pyenv \<Rightarrow> pyval \<Rightarrow> string" where
  "hash_payload E payload =
     ''sha256:'' @ sha256_hexdigest E (json_text E '','' '':'' (sort_keys payload))"

fun bare_walk :: "string \<Rightarrow> pyval \<Rightarrow> bool" where
  "bare_walk p (PDict d) = list_ex (\<lambda>(k, v). bare_walk (p @ ''.'' @ k) v) d"
| "bare_walk p (PList xs) = list_ex (bare_walk p) xs"
| "bare_walk p (PStr s) = (p \<noteq> [] \<and> re_search SENSITIVE_KEY_RE p \<and> s \<noteq> REDACTED)"
| "bare_walk p v = False"

definition contains_bare_secret_marker :: "pyval \<Rightarrow> bool" where
  "contains_bare_secret_marker v = bare_walk [] v"

section \<open>Facts about the repository's redaction\<close>

lemma sensitive_no_bnd: "no_bnd SENSITIVE_KEY_RE"
  by (simp add: SENSITIVE_KEY_RE_def rx_sep_def rx_opt_def)

lemma sensitive_dot: "rmatch SENSITIVE_KEY_RE (b, CHR ''.'' # cs) = []"
  by (simp add: SENSITIVE_KEY_RE_def lower_char_def)

lemma sensitive_nil: "\<not> re_search SENSITIVE_KEY_RE []"
  by (simp add: re_search_def SENSITIVE_KEY_RE_def)

lemma search_dots: "re_search SENSITIVE_KEY_RE (replicate n (CHR ''.'') @ p) = re_search SENSITIVE_KEY_RE p"
  by (rule re_search_skips [OF sensitive_no_bnd sensitive_dot])

lemma redact_str_sensitive: "re_search SENSITIVE_KEY_RE p \<Longrightarrow> redact_str p s = REDACTED"
  using sensitive_nil by (auto simp: redact_str_def)

text \<open>The guard's path is the redaction's with some dots in front.\<close>

lemma bare_walk_redact: "\<not> bare_walk (replicate n (CHR ''.'') @ p) (redact_value p v)"
proof (induction p v arbitrary: n rule: redact_value.induct)
  case (1 p d)
  have "\<not> bare_walk (replicate n (CHR ''.'') @ p @ ''.'' @ k) (redact_value (sub_path p k) v)"
    if "(k, v) \<in> set d" for k v
  proof (cases "p = []")
    case True
    have e: "replicate n (CHR ''.'') @ p @ ''.'' @ k = replicate (Suc n) (CHR ''.'') @ k"
      using True by (simp add: replicate_append_same)
    show ?thesis unfolding e using "1.IH" [OF that refl, of "Suc n"] that True by (simp add: sub_path_def)
  next
    case False
    with "1.IH" [OF that refl, of n] show ?thesis by (simp add: sub_path_def)
  qed
  then show ?case by (auto simp: list_ex_iff)
next
  case (2 p xs)
  then show ?case by (auto simp: list_ex_iff)
next
  case (3 p s)
  then show ?case by (auto simp: search_dots redact_str_sensitive)
qed simp_all

lemma bare_walk_default: "\<not> contains_bare_secret_marker (default_redact v)"
proof -
  have "\<not> bare_walk (''.'' @ k) (redact_value k w)" for k w
    using bare_walk_redact [of 1 k w] by simp
  moreover have "\<not> bare_walk [] (redact_value [] w)" for w
    using bare_walk_redact [of 0 "[]" w] by simp
  ultimately show ?thesis
    by (auto simp: contains_bare_secret_marker_def default_redact_def list_ex_iff split: pyval.splits)
qed

text \<open>The leaves of a redacted value.\<close>

fun str_leaves :: "pyval \<Rightarrow> string list" where
  "str_leaves (PDict d) = concat (map (\<lambda>(k, v). str_leaves v) d)"
| "str_leaves (PList xs) = concat (map str_leaves xs)"
| "str_leaves (PStr s) = [s]"
| "str_leaves v = []"

definition leaf_clean :: "string \<Rightarrow> bool" where
  "leaf_clean s \<longleftrightarrow> s = REDACTED \<or>
     (\<not> list_ex (\<lambda>r. re_search r s) SECRET_VALUE_RES \<and> \<not> (64 < length s \<and> opaque_blob (strip s)))"

lemma redact_str_clean: "leaf_clean (redact_str p s)"
  by (simp add: redact_str_def leaf_clean_def)

lemma redact_value_clean: "list_all leaf_clean (str_leaves (redact_value p v))"
  by (induction p v rule: redact_value.induct)
    (auto simp: list_all_iff redact_str_clean)

lemma default_redact_clean: "list_all leaf_clean (str_leaves (default_redact v))"
  using redact_value_clean
  by (auto simp: default_redact_def list_all_iff redact_str_clean split: pyval.splits)

text \<open>Redacting again changes nothing.\<close>

lemma of_char_lower:
  "(of_char (lower_char c) :: nat) = (let n = of_char c in
     if (65 \<le> n \<and> n \<le> 90) \<or> (192 \<le> n \<and> n \<le> 222 \<and> n \<noteq> 215) then n + 32 else n)"
  by (auto simp: lower_char_def Let_def)

lemma lower_b: "lower_char c = CHR ''b'' \<Longrightarrow> c = CHR ''b'' \<or> c = CHR ''B''"
proof -
  assume "lower_char c = CHR ''b''"
  then have "(of_char (lower_char c) :: nat) = 98" by simp
  then have "(of_char c :: nat) = 98 \<or> (of_char c :: nat) = 66"
    unfolding of_char_lower Let_def by (auto split: if_splits)
  then have "c = char_of (98::nat) \<or> c = char_of (66::nat)" by (metis char_of_char)
  then show ?thesis by (auto simp: char_of_def bit_iff_odd)
qed

lemma needs_ilit_Cons: "needs q (rx_ilit (c # cs)) \<longleftrightarrow> (\<forall>x. lower_char x = lower_char c \<longrightarrow> q x) \<or> needs q (rx_ilit cs)"
  by simp

lemma secret_value_needs: "list_all (needs (\<lambda>c. c \<in> {CHR ''-'', CHR ''b'', CHR ''B''})) SECRET_VALUE_RES"
proof -
  let ?q = "\<lambda>c. c \<in> {CHR ''-'', CHR ''b'', CHR ''B''}"
  have "lower_char (CHR ''b'') = CHR ''b''" by (simp add: lower_char_def)
  then have "\<forall>x. lower_char x = lower_char (CHR ''b'') \<longrightarrow> ?q x" using lower_b by simp
  then have 1: "needs ?q (rx_ilit ''bearer'')" by (rule needs_ilit_Cons [THEN iffD2, OF disjI1])
  have 2: "needs ?q (rx_lit ''-----BEGIN '')" "needs ?q (rx_lit ''sk-'')" "needs ?q (rx_lit ''-'')"
    by (simp_all only: needs_lit) simp_all
  show ?thesis
    unfolding SECRET_VALUE_RES_def rx_seqs.simps list.pred_inject needs.simps
    by (simp only: 1 2 simp_thms list.pred_inject)
qed

lemma REDACTED_not_secret: "\<not> list_ex (\<lambda>r. re_search r REDACTED) SECRET_VALUE_RES"
proof -
  have c: "\<forall>c \<in> set REDACTED. \<not> c \<in> {CHR ''-'', CHR ''b'', CHR ''B''}" by (simp add: REDACTED_def)
  have "\<not> re_search r REDACTED" if "r \<in> set SECRET_VALUE_RES" for r
  proof -
    from secret_value_needs that have "needs (\<lambda>c. c \<in> {CHR ''-'', CHR ''b'', CHR ''B''}) r"
      by (simp only: list_all_iff)
    from needs_re_search [OF this c] show ?thesis .
  qed
  then show ?thesis by (auto simp: list_ex_iff)
qed

lemma redact_str_idem: "redact_str p (redact_str p s) = redact_str p s"
proof -
  have "length REDACTED \<le> 64" by (simp add: REDACTED_def)
  then show ?thesis using REDACTED_not_secret by (auto simp: redact_str_def)
qed

lemma redact_value_idem: "redact_value p (redact_value p v) = redact_value p v"
  by (induction p v rule: redact_value.induct) (auto simp: redact_str_idem)

lemma default_redact_idem: "default_redact (default_redact v) = default_redact v"
  by (auto simp: default_redact_def redact_value_idem redact_str_idem split: pyval.splits)

section \<open>The tool server's redaction\<close>

definition SENSITIVE_KEYS :: "string list" where
  "SENSITIVE_KEYS =
     [''password'', ''passwd'', ''secret'', ''client_secret'', ''api_key'', ''apikey'', ''token'',
      ''access_token'', ''refresh_token'', ''id_token'', ''authorization'', ''bearer'', ''cookie'',
      ''set-cookie'', ''private_key'', ''connection_string'', ''ssn'', ''social_security'',
      ''social_security_number'', ''credit_card'', ''creditcard'', ''card_number'', ''cc_number'',
      ''cc'', ''email'', ''email_address'', ''phone'', ''phone_number'', ''mobile'']"

definition MCP_REDACTED :: string where "MCP_REDACTED = ''[REDACTED]''"

definition OUTPUT_MAX_BYTES :: nat where "OUTPUT_MAX_BYTES = 65536"

definition rx_one_of :: "string \<Rightarrow> rx" where "rx_one_of cs = RChr (\<lambda>c. c \<in> set cs)"

definition rx_digits :: "nat \<Rightarrow> rx" where "rx_digits n = rx_times n (RChr is_digit)"

definition rx_caps :: rx where
  "rx_caps = rx_plus (RChr (\<lambda>c. is_ascii_upper c \<or> c = CHR '' ''))"

definition BEARER_RE :: rx where
  "BEARER_RE = rx_seqs [rx_ilit ''Bearer'', rx_plus (RChr is_space),
     rx_plus (RChr (\<lambda>c. is_alnum c \<or> c \<in> set ''._-~+/=''))]"

definition PEM_RE :: rx where
  "PEM_RE = rx_seqs [rx_lit ''-----BEGIN '', rx_caps, rx_lit ''-----'', RLazy (RChr (\<lambda>_. True)),
     rx_lit ''-----END '', rx_caps, rx_lit ''-----'']"

definition SSN_RE :: rx where
  "SSN_RE = rx_seqs [RBnd, rx_digits 3, rx_lit ''-'', rx_digits 2, rx_lit ''-'', rx_digits 4, RBnd]"

definition CC_RE :: rx where
  "CC_RE = (let sep = rx_opt (rx_one_of '' -'') in
     rx_seqs [RBnd, rx_digits 4, sep, rx_digits 4, sep, rx_digits 4, sep, rx_digits 4, RBnd])"

definition EMAIL_RE :: rx where
  "EMAIL_RE = rx_seqs [rx_plus (RChr (\<lambda>c. is_alnum c \<or> c \<in> set ''._%+-'')), rx_lit ''@'',
     rx_plus (RChr (\<lambda>c. is_alnum c \<or> c \<in> set ''.-'')), rx_lit ''.'',
     rx_at_least 2 (RChr (\<lambda>c. is_ascii_lower c \<or> is_ascii_upper c))]"

definition PHONE_RE :: rx where
  "PHONE_RE = (let sep = rx_opt (RChr (\<lambda>c. c = CHR ''-'' \<or> c = CHR ''.'' \<or> is_space c)) in
     rx_seqs [RBnd,
       rx_opt (rx_seqs [rx_opt (rx_lit ''+''), rx_lit ''1'', sep]),
       rx_opt (rx_seqs [rx_opt (rx_lit ''(''), rx_digits 3, rx_opt (rx_lit '')''), sep]),
       rx_digits 3, sep, rx_digits 4, RBnd])"

text \<open>The passes of \<^verbatim>\<open>_redact_string\<close>, in order, each with its replacement.\<close>

definition redact_passes :: "(rx \<times> string) list" where
  "redact_passes =
     [(BEARER_RE, ''Bearer '' @ MCP_REDACTED), (PEM_RE, MCP_REDACTED), (SSN_RE, MCP_REDACTED),
      (CC_RE, MCP_REDACTED), (EMAIL_RE, MCP_REDACTED), (PHONE_RE, MCP_REDACTED)]"

definition redact_string :: "string \<Rightarrow> string" where
  "redact_string value = foldl (\<lambda>v (r, repl). re_sub r repl v) value redact_passes"

definition sensitive_key :: "string \<Rightarrow> bool" where
  "sensitive_key k = (lower k \<in> set SENSITIVE_KEYS)"

fun mcp_redact :: "pyval \<Rightarrow> pyval" where
  "mcp_redact (PDict d) =
     PDict (map (\<lambda>(k, v). (k, if sensitive_key k then PStr MCP_REDACTED else mcp_redact v)) d)"
| "mcp_redact (PList xs) = PList (map mcp_redact xs)"
| "mcp_redact (PStr s) = PStr (redact_string s)"
| "mcp_redact v = v"

definition sha256_hex :: "pyenv \<Rightarrow> pyval \<Rightarrow> string" where
  "sha256_hex E payload = sha256_hexdigest E (json_text E '','' '':'' (sort_keys payload))"

definition output_too_large :: "pyenv \<Rightarrow> pyval \<Rightarrow> nat \<Rightarrow> bool" where
  "output_too_large E payload limit_bytes = (limit_bytes < length (json_dumps E payload))"

definition redact_for_audit :: "pyenv \<Rightarrow> pyval \<Rightarrow> nat \<Rightarrow> pyval" where
  "redact_for_audit E payload limit_bytes =
     (let redacted = mcp_redact payload in
      if output_too_large E redacted limit_bytes
      then PDict [(''redacted'', PBool True), (''output_hash'', PStr (sha256_hex E redacted)),
        (''hint'', PStr (''output_too_large: truncated to hash reference (limit '' @
           nat_str limit_bytes @ ''B)''))]
      else redacted)"

definition safe_for_ui :: "pyenv \<Rightarrow> pydict \<Rightarrow> pyval" where
  "safe_for_ui E payload =
     (if truthy (dget_none payload ''sensitive'') \<and> \<not> truthy (dget_none payload ''safe_for_ui'')
      then PDict [(''redacted'', PBool True),
        (''output_hash'', PStr (sha256_hex E (mcp_redact (PDict payload)))),
        (''hint'', PStr ''sensitive payload withheld (safe_for_ui=false)'')]
      else mcp_redact (PDict payload))"

section \<open>Facts about the tool server's redaction\<close>

text \<open>Every value under a sensitive key, at any depth, is the marker.\<close>

fun masked :: "pyval \<Rightarrow> bool" where
  "masked (PDict d) =
     list_all (\<lambda>(k, v). if sensitive_key k then v = PStr MCP_REDACTED else masked v) d"
| "masked (PList xs) = list_all masked xs"
| "masked v = True"

lemma masked_redact: "masked (mcp_redact v)"
  by (induction v rule: mcp_redact.induct) (auto simp: list_all_iff)

text \<open>A text in which a pattern does not occur passes through its substitution unchanged.\<close>

lemma re_sub_from_none: "\<not> re_search_from r b s \<Longrightarrow> re_sub_from r repl b s = s"
  by (induction s arbitrary: b) (simp_all add: re_sub_from.simps)

lemma re_sub_none: "\<not> re_search r s \<Longrightarrow> re_sub r repl s = s"
  by (simp add: re_sub_def re_search_def re_sub_from_none)

lemma foldl_sub_none:
  "\<forall>(r, repl) \<in> set ps. \<not> re_search r s \<Longrightarrow> foldl (\<lambda>v (r, repl). re_sub r repl v) s ps = s"
  by (induction ps) (auto simp: re_sub_none)

lemma redact_string_clean: "\<forall>(r, repl) \<in> set redact_passes. \<not> re_search r s \<Longrightarrow> redact_string s = s"
  unfolding redact_string_def by (rule foldl_sub_none)

lemma redact_same_shape: "mcp_redact (PDict d) = PDict d' \<Longrightarrow> map fst d' = map fst d"
  by auto

lemma length_json_char: "length (json_char c) \<le> 6"
  by (simp add: json_char_def Let_def)

lemma length_json_str: "length (json_str s) \<le> 6 * length s + 2"
proof -
  have "length (concat (map json_char s)) \<le> 6 * length s"
    by (induction s) (use length_json_char in \<open>auto intro: add_mono\<close>)
  then show ?thesis by (simp add: json_str_def)
qed

section \<open>Properties\<close>


text \<open>In everything the tool server writes to its audit rows or returns to a UI, the value under
  each sensitive key is the marker, at any depth, and a payload flagged sensitive and not
  cleared for the UI is replaced by a hash reference that shows none of its keys.\<close>

theorem mcp_redaction_masks:
  "masked (mcp_redact v) \<and> masked (redact_for_audit E v limit) \<and> masked (safe_for_ui E d) \<and>
   (truthy (dget_none d ''sensitive'') \<and> \<not> truthy (dget_none d ''safe_for_ui'') \<longrightarrow>
      (\<exists>h. safe_for_ui E d = PDict [(''redacted'', PBool True), (''output_hash'', PStr h),
         (''hint'', PStr ''sensitive payload withheld (safe_for_ui=false)'')]))"
proof -
  have k: "\<not> sensitive_key ''redacted''" "\<not> sensitive_key ''output_hash''" "\<not> sensitive_key ''hint''"
    by (simp_all add: sensitive_key_def SENSITIVE_KEYS_def lower_def lower_char_def char_of_def bit_iff_odd)
  have "masked (redact_for_audit E v limit)"
    by (simp add: redact_for_audit_def Let_def masked_redact k)
  moreover have "masked (safe_for_ui E d)"
    unfolding safe_for_ui_def using masked_redact [of "PDict d"] by (simp add: k del: mcp_redact.simps)
  ultimately show ?thesis by (auto simp: masked_redact safe_for_ui_def)
qed

theorem mcp_redaction_masks_witness:
  "masked (safe_for_ui plain_env [(''sensitive'', PBool True), (''password'', PStr ''x'')]) \<and>
   (\<exists>h. safe_for_ui plain_env [(''sensitive'', PBool True), (''password'', PStr ''x'')] =
      PDict [(''redacted'', PBool True), (''output_hash'', PStr h),
         (''hint'', PStr ''sensitive payload withheld (safe_for_ui=false)'')])"
  using mcp_redaction_masks [of PNone plain_env 0 "[(''sensitive'', PBool True), (''password'', PStr ''x'')]"]
  by simp

text \<open>Audit rows stay bounded: with a digest of 64 characters, the JSON text of what
  \<^verbatim>\<open>redact_for_audit\<close> returns under the default cap never exceeds the cap.\<close>

theorem audit_rows_bounded:
  assumes "\<And>s. length (sha256_hexdigest E s) = 64"
  shows "length (json_dumps E (redact_for_audit E payload OUTPUT_MAX_BYTES)) \<le> OUTPUT_MAX_BYTES"
proof (cases "output_too_large E (mcp_redact payload) OUTPUT_MAX_BYTES")
  case False
  then show ?thesis by (simp add: redact_for_audit_def output_too_large_def)
next
  case True
  let ?h = "json_str (sha256_hex E (mcp_redact payload))"
  let ?m = "json_str (''output_too_large: truncated to hash reference (limit '' @ nat_str 65536 @ ''B)'')"
  have h: "length ?h \<le> 386"
    using length_json_str [of "sha256_hex E (mcp_redact payload)"] by (simp add: sha256_hex_def assms)
  have n: "length (nat_str 65536) = 5" by (simp add: nat_str.simps)
  have m: "length ?m \<le> 384"
    using length_json_str [of "''output_too_large: truncated to hash reference (limit '' @ nat_str 65536 @ ''B)''"]
    by (simp add: n)
  have k: "length (json_str ''redacted'') \<le> 50" "length (json_str ''output_hash'') \<le> 68" "length (json_str ''hint'') \<le> 26"
    using length_json_str [of "''redacted''"] length_json_str [of "''output_hash''"] length_json_str [of "''hint''"]
    by simp_all
  from True have "redact_for_audit E payload OUTPUT_MAX_BYTES = PDict [(''redacted'', PBool True),
      (''output_hash'', PStr (sha256_hex E (mcp_redact payload))),
      (''hint'', PStr (''output_too_large: truncated to hash reference (limit '' @ nat_str 65536 @ ''B)''))]"
    by (simp add: redact_for_audit_def OUTPUT_MAX_BYTES_def Let_def)
  with h m k show ?thesis by (simp add: OUTPUT_MAX_BYTES_def)
qed

theorem audit_rows_bounded_witness:
  "length (json_dumps plain_env (redact_for_audit plain_env (PStr ''ok'') OUTPUT_MAX_BYTES))
     \<le> OUTPUT_MAX_BYTES"
  by (rule audit_rows_bounded) (simp add: plain_env_def)

text \<open>The telephone pattern needs seven digits, not ten: a bare seven-digit number in free text is
  replaced, although the comment on the pass says it requires ten or more digits with
  separators.\<close>

theorem phone_pass_seven_digits:
  "redact_string ''ticket 5551234'' = ''ticket [REDACTED]''"
  by code_simp

end
