(* ===== verification/Tables.thy ===== *)
theory Tables
  imports Contracts ExcState
begin

text \<open>
  The database: \<^verbatim>\<open>src/packages/persistence/models.py\<close>. A table is the list of its rows in the order
  of the surrogate key, a row is a record with the columns of its model (the surrogate key is the
  position). A unique constraint is a test an insertion makes. Not represented: the lengths of
  the string columns, which the SQLite fallback does not enforce, and deletion, which no code of
  the repository asks for.
\<close>

section \<open>Rows\<close>

record Tenant =
  tn_id :: string
  tn_name :: string
  tn_created_at :: datetime

record RunRow =
  rn_id :: string
  rn_tenant_id :: string
  rn_created_by :: string
  rn_objective :: string
  rn_status :: string
  rn_current_state :: string
  rn_budget_json :: pydict
  rn_idempotency_key :: "string option"
  rn_trace_id :: "string option"
  rn_correlation_id :: "string option"
  rn_created_at :: datetime
  rn_updated_at :: datetime
  rn_completed_at :: "datetime option"

record RunEvent =
  re_event_id :: string
  re_run_id :: string
  re_tenant_id :: string
  re_sequence :: int
  re_type :: string
  re_timestamp :: datetime
  re_data_json :: pydict
  re_trace_id :: "string option"
  re_correlation_id :: "string option"
  re_sensitive :: bool
  re_safe_for_ui :: bool

record AgentTask =
  at_task_id :: string
  at_run_id :: string
  at_tenant_id :: string
  at_skill_id :: string
  at_agent_name :: string
  at_objective :: string
  at_status :: string
  at_input_hash :: string
  at_redacted_input_json :: pydict
  at_output_hash :: "string option"
  at_redacted_output_json :: "pydict option"
  at_error_json :: "pydict option"
  at_deadline :: "datetime option"
  at_created_at :: datetime
  at_updated_at :: datetime

record ToolInvocationRow =
  tv_invocation_id :: string
  tv_run_id :: string
  tv_tenant_id :: string
  tv_tool_name :: string
  tv_tool_version :: string
  tv_input_hash :: string
  tv_redacted_input_json :: pydict
  tv_output_hash :: "string option"
  tv_redacted_output_json :: "pydict option"
  tv_status :: string
  tv_authorization_decision :: "string option"
  tv_idempotency_key :: "string option"
  tv_dry_run :: bool
  tv_error_json :: "pydict option"
  tv_trace_id :: "string option"
  tv_correlation_id :: "string option"
  tv_started_at :: datetime
  tv_completed_at :: "datetime option"

record ApprovalRow =
  av_approval_id :: string
  av_run_id :: string
  av_tenant_id :: string
  av_action_id :: string
  av_requested_by :: string
  av_approver :: "string option"
  av_decision :: string
  av_reason :: "string option"
  av_requested_at :: datetime
  av_decided_at :: "datetime option"
  av_expires_at :: "datetime option"
  av_trace_id :: "string option"
  av_correlation_id :: "string option"

record FindingRow =
  fr_finding_id :: string
  fr_run_id :: string
  fr_tenant_id :: string
  fr_title :: string
  fr_summary :: string
  fr_evidence_refs_json :: "string list"
  fr_confidence :: pyfloat
  fr_severity :: "string option"
  fr_trace_id :: "string option"
  fr_correlation_id :: "string option"
  fr_created_at :: datetime

record EvidenceRef =
  ef_ref_id :: string
  ef_run_id :: string
  ef_tenant_id :: string
  ef_finding_id :: "string option"
  ef_kind :: string
  ef_uri :: string
  ef_excerpt_hash :: "string option"
  ef_span_ref :: "string option"

record ModelCall =
  mc_call_id :: string
  mc_run_id :: string
  mc_tenant_id :: string
  mc_model :: string
  mc_task_type :: string
  mc_prompt_hash :: string
  mc_input_tokens :: int
  mc_output_tokens :: int
  mc_cost_usd :: pyfloat
  mc_duration_ms :: int
  mc_status :: string
  mc_error_json :: "pydict option"
  mc_trace_id :: "string option"
  mc_created_at :: datetime

record AuditRecord =
  au_audit_id :: string
  au_run_id :: "string option"
  au_tenant_id :: string
  au_actor :: string
  au_action :: string
  au_decision_json :: "pydict option"
  au_reason :: "string option"
  au_trace_id :: "string option"
  au_correlation_id :: "string option"
  au_created_at :: datetime

section \<open>The database\<close>

record db =
  tb_tenants :: "Tenant list"
  tb_runs :: "RunRow list"
  tb_events :: "RunEvent list"
  tb_tasks :: "AgentTask list"
  tb_invocations :: "ToolInvocationRow list"
  tb_approvals :: "ApprovalRow list"
  tb_findings :: "FindingRow list"
  tb_evidence :: "EvidenceRef list"
  tb_model_calls :: "ModelCall list"
  tb_audit :: "AuditRecord list"

definition empty_db :: db where
  "empty_db = \<lparr>tb_tenants = [], tb_runs = [], tb_events = [], tb_tasks = [], tb_invocations = [],
     tb_approvals = [], tb_findings = [], tb_evidence = [], tb_model_calls = [], tb_audit = []\<rparr>"

text \<open>\<open>select(...).where(...).scalars().first()\<close>, and writing to the row it gave.\<close>

fun update_first :: "('r \<Rightarrow> bool) \<Rightarrow> ('r \<Rightarrow> 'r) \<Rightarrow> 'r list \<Rightarrow> 'r list" where
  "update_first p f [] = []"
| "update_first p f (r # rs) = (if p r then f r # rs else r # update_first p f rs)"

section \<open>Facts about tables\<close>

lemma update_first_map:
  assumes "\<And>r. g (f r) = g r"
  shows "map g (update_first p f rs) = map g rs"
  by (induction rs) (simp_all add: assms)

lemma update_first_filter:
  assumes "find p rs = Some r" and "\<not> q r" and "\<not> q (f r)"
  shows "filter q (update_first p f rs) = filter q rs"
  using assms by (induction rs) (auto split: if_splits)

lemma update_first_set:
  assumes "find p rs = Some r"
  shows "set (update_first p f rs) \<subseteq> insert (f r) (set rs)"
  using assms by (induction rs) (auto split: if_splits)

lemma update_first_Ball:
  assumes "\<forall>r \<in> set rs. P r" and "\<And>r. P r \<Longrightarrow> P (f r)"
  shows "\<forall>r \<in> set (update_first p f rs). P r"
  using assms by (induction rs) auto

lemma find_update_first:
  assumes "find p rs = Some r" and "p (f r)"
  shows "find p (update_first p f rs) = Some (f r)"
  using assms by (induction rs) (auto split: if_splits)

lemma find_SomeD: "find p rs = Some r \<Longrightarrow> r \<in> set rs \<and> p r"
  by (induction rs) (auto split: if_splits)

lemma find_NoneD: "find p rs = None \<Longrightarrow> \<forall>r \<in> set rs. \<not> p r"
  by (induction rs) (auto split: if_splits)

lemma find_append_new: "find p rs = None \<Longrightarrow> find p (rs @ [r]) = (if p r then Some r else None)"
  by (induction rs) (auto split: if_splits)

text \<open>In a table whose key is unique the row found by key is the only one.\<close>

lemma find_key_unique:
  assumes "distinct (map key rs)" and "r \<in> set rs"
  shows "find (\<lambda>x. key x = key r) rs = Some r"
  using assms by (induction rs) (auto split: if_splits)

lemma find_filter_key:
  assumes "distinct (map key rs)"
  shows "find (\<lambda>x. key x = k) (filter q rs) =
    (case find (\<lambda>x. key x = k) rs of None \<Rightarrow> None | Some r \<Rightarrow> if q r then Some r else None)"
  using assms
proof (induction rs)
  case (Cons a rs)
  have "find (\<lambda>x. key x = key a) rs = None" using Cons.prems by (simp add: find_None_iff) (metis imageI)
  with Cons show ?case by (auto split: option.splits)
qed simp

end
