(* ===== verification/Repository.thy ===== *)
theory Repository
  imports Tables Redaction
begin

text \<open>
  The repository \<^verbatim>\<open>SqlAlchemyRepository\<close> of \<^verbatim>\<open>src/packages/persistence/repositories.py\<close>, one
  definition per method. A method is a computation on the database that may raise; \<open>transaction\<close>
  undoes its writes when it does. Clock readings and fresh identifiers come from the environment,
  numbered by a counter that no rollback resets. The redaction hook is a parameter whose default
  is \<open>default_redact\<close>; it maps a dictionary to a dictionary.
\<close>

section \<open>State and environment\<close>

record repo =
  rp_db :: db
  rp_ticks :: nat

text \<open>\<open>rv_others n\<close> is what other sessions committed between the reads and the write of the attempt
  numbered \<open>n\<close>; \<open>rv_commit_after_failed_flush\<close> is what SQLAlchemy's \<open>commit\<close> does on a session whose
  flush has failed.\<close>

record repo_env =
  rv_py :: pyenv
  rv_clock :: "nat \<Rightarrow> datetime"
  rv_uuid_hex :: "nat \<Rightarrow> string"
  rv_redact :: "pydict \<Rightarrow> pydict"
  rv_others :: "nat \<Rightarrow> db \<Rightarrow> db"
  rv_commit_after_failed_flush :: "unit presult"

definition redact_dict :: "pydict \<Rightarrow> pydict" where
  "redact_dict d = (case default_redact (PDict d) of PDict d' \<Rightarrow> d' | _ \<Rightarrow> d)"

abbreviation RepositoryError :: "string \<Rightarrow> pyexc" where
  "RepositoryError m \<equiv> PyExc ERuntime ''RepositoryError'' m []"

abbreviation NotFoundError :: "string \<Rightarrow> pyexc" where
  "NotFoundError m \<equiv> PyExc ERuntime ''NotFoundError'' m []"

abbreviation ConflictError :: "string \<Rightarrow> pyexc" where
  "ConflictError m \<equiv> PyExc ERuntime ''ConflictError'' m []"

abbreviation IntegrityError :: "string \<Rightarrow> pyexc" where
  "IntegrityError m \<equiv> PyExc EOther ''IntegrityError'' m []"

definition tick :: "(repo, nat) em" where
  "tick = (\<lambda>s. (Inr (rp_ticks s), s\<lparr>rp_ticks := Suc (rp_ticks s)\<rparr>))"

definition repo_now :: "repo_env \<Rightarrow> (repo, datetime) em" where
  "repo_now E = ebind tick (\<lambda>n. eret (rv_clock E n))"

definition new_id :: "repo_env \<Rightarrow> string \<Rightarrow> (repo, string) em" where
  "new_id E prefix = ebind tick (\<lambda>n. eret (prefix @ ''_'' @ take 12 (rv_uuid_hex E n)))"

definition id_or_new :: "repo_env \<Rightarrow> string option \<Rightarrow> string \<Rightarrow> (repo, string) em" where
  "id_or_new E given prefix = (case given of
     Some x \<Rightarrow> if x \<noteq> [] then eret x else new_id E prefix | None \<Rightarrow> new_id E prefix)"

definition transaction :: "(repo, 'a) em \<Rightarrow> (repo, 'a) em" where
  "transaction m = (\<lambda>s. case m s of
     (Inr x, t) \<Rightarrow> (Inr x, t)
   | (Inl e, t) \<Rightarrow> (Inl e, t\<lparr>rp_db := rp_db s\<rparr>))"

definition modify_db :: "(db \<Rightarrow> db) \<Rightarrow> (repo, unit) em" where
  "modify_db f = emod (\<lambda>s. s\<lparr>rp_db := f (rp_db s)\<rparr>)"

section \<open>Tenants and runs\<close>

definition ensure_tenant_in :: "repo_env \<Rightarrow> string \<Rightarrow> string \<Rightarrow> (repo, unit) em" where
  "ensure_tenant_in E tenant name =
     ebind (eget rp_db) (\<lambda>d.
       if find (\<lambda>r. tn_id r = tenant) (tb_tenants d) = None then
         ebind (repo_now E) (\<lambda>now. modify_db (\<lambda>d. d\<lparr>tb_tenants := tb_tenants d @
           [\<lparr>tn_id = tenant, tn_name = (if name \<noteq> [] then name else tenant), tn_created_at = now\<rparr>]\<rparr>))
       else eret ())"

definition ensure_tenant :: "repo_env \<Rightarrow> string \<Rightarrow> string \<Rightarrow> (repo, unit) em" where
  "ensure_tenant E tenant name = transaction (ensure_tenant_in E tenant name)"

definition find_run :: "db \<Rightarrow> string \<Rightarrow> RunRow option" where
  "find_run d run = find (\<lambda>r. rn_id r = run) (tb_runs d)"

definition get_run_row :: "string \<Rightarrow> string \<Rightarrow> (repo, RunRow) em" where
  "get_run_row run tenant =
     ebind (eget rp_db) (\<lambda>d. case find_run d run of
       Some row \<Rightarrow> if rn_tenant_id row \<noteq> tenant then eraise (NotFoundError (''run '' @ run @ '' not found''))
         else eret row
     | None \<Rightarrow> eraise (NotFoundError (''run '' @ run @ '' not found'')))"

record new_run =
  nr_run_id :: string
  nr_tenant_id :: string
  nr_created_by :: string
  nr_objective :: string
  nr_budget :: pydict
  nr_current_state :: string
  nr_trace_id :: "string option"
  nr_correlation_id :: "string option"
  nr_idempotency_key :: "string option"

definition given_key :: "string option \<Rightarrow> bool" where
  "given_key k = (k \<noteq> None \<and> k \<noteq> Some [])"

definition insert_run :: "repo_env \<Rightarrow> new_run \<Rightarrow> (repo, RunRow) em" where
  "insert_run E n =
     ebind (repo_now E) (\<lambda>created. ebind (repo_now E) (\<lambda>updated.
       let row = \<lparr>rn_id = nr_run_id n, rn_tenant_id = nr_tenant_id n, rn_created_by = nr_created_by n,
         rn_objective = nr_objective n, rn_status = ''created'', rn_current_state = nr_current_state n,
         rn_budget_json = nr_budget n, rn_idempotency_key = nr_idempotency_key n,
         rn_trace_id = nr_trace_id n, rn_correlation_id = nr_correlation_id n,
         rn_created_at = created, rn_updated_at = updated, rn_completed_at = None\<rparr>
       in ethen (modify_db (\<lambda>d. d\<lparr>tb_runs := tb_runs d @ [row]\<rparr>)) (eret row)))"

definition create_run :: "repo_env \<Rightarrow> new_run \<Rightarrow> (repo, RunRow) em" where
  "create_run E n = transaction
     (ethen (ensure_tenant_in E (nr_tenant_id n) [])
       (ebind (eget rp_db) (\<lambda>d.
         case (if given_key (nr_idempotency_key n)
               then find (\<lambda>r. rn_tenant_id r = nr_tenant_id n \<and>
                      rn_idempotency_key r = nr_idempotency_key n) (tb_runs d) else None) of
           Some existing \<Rightarrow> eret existing
         | None \<Rightarrow>
             if find_run d (nr_run_id n) \<noteq> None
             then eraise (ConflictError (''run '' @ nr_run_id n @ '' already exists''))
             else insert_run E n)))"

definition get_run :: "string \<Rightarrow> string \<Rightarrow> (repo, RunRow) em" where
  "get_run run tenant = get_run_row run tenant"

text \<open>The keyword arguments of \<^verbatim>\<open>update_run\<close>: the columns that may be set, and any other name.\<close>

datatype run_field =
    F_status string | F_current_state string | F_budget_json pydict
  | F_completed_at "datetime option" | F_trace_id "string option"
  | F_correlation_id "string option" | F_objective string | F_other string

fun set_field :: "run_field \<Rightarrow> RunRow \<Rightarrow> RunRow" where
  "set_field (F_status v) r = r\<lparr>rn_status := v\<rparr>"
| "set_field (F_current_state v) r = r\<lparr>rn_current_state := v\<rparr>"
| "set_field (F_budget_json v) r = r\<lparr>rn_budget_json := v\<rparr>"
| "set_field (F_completed_at v) r = r\<lparr>rn_completed_at := v\<rparr>"
| "set_field (F_trace_id v) r = r\<lparr>rn_trace_id := v\<rparr>"
| "set_field (F_correlation_id v) r = r\<lparr>rn_correlation_id := v\<rparr>"
| "set_field (F_objective v) r = r\<lparr>rn_objective := v\<rparr>"
| "set_field (F_other n) r = r"

fun unknown_name :: "run_field \<Rightarrow> string list" where
  "unknown_name (F_other n) = [n]"
| "unknown_name f = []"

definition unknown_fields :: "run_field list \<Rightarrow> string list" where
  "unknown_fields fs = concat (map unknown_name fs)"

definition update_run :: "repo_env \<Rightarrow> string \<Rightarrow> string \<Rightarrow> run_field list \<Rightarrow> (repo, RunRow) em" where
  "update_run E run tenant fs =
     (if unknown_fields fs \<noteq> []
      then eraise (RepositoryError (''cannot update fields: '' @
             py_repr (rv_py E) (PList (map PStr (sort (unknown_fields fs))))))
      else transaction
        (ebind (get_run_row run tenant) (\<lambda>row.
         ebind (repo_now E) (\<lambda>now.
           let row' = (fold set_field fs row)\<lparr>rn_updated_at := now\<rparr>
           in ethen (modify_db (\<lambda>d. d\<lparr>tb_runs := update_first (\<lambda>r. rn_id r = run) (\<lambda>_. row') (tb_runs d)\<rparr>))
                (eret row')))))"

section \<open>Events\<close>

definition sequences_of :: "db \<Rightarrow> string \<Rightarrow> int list" where
  "sequences_of d run = map re_sequence (filter (\<lambda>r. re_run_id r = run) (tb_events d))"

text \<open>\<open>coalesce(max(sequence), -1) + 1\<close>.\<close>

definition next_sequence_in :: "db \<Rightarrow> string \<Rightarrow> int" where
  "next_sequence_in d run = (case sequences_of d run of [] \<Rightarrow> -1 | x # xs \<Rightarrow> foldl max x xs) + 1"

definition next_sequence :: "string \<Rightarrow> (repo, int) em" where
  "next_sequence run = ebind (eget rp_db) (\<lambda>d. eret (next_sequence_in d run))"

definition all_EventType :: "EventType list" where
  "all_EventType = [RUN_STARTED, MESSAGE_DELTA, TOOL_STARTED, TOOL_COMPLETED, AGENT_DELEGATED,
     FINDING_CREATED, APPROVAL_REQUIRED, APPROVAL_RECEIVED, RUN_COMPLETED, RUN_FAILED, RUN_CANCELLED]"

definition EventType_of :: "string \<Rightarrow> EventType presult" where
  "EventType_of v = (case find (\<lambda>t. EventType_value t = v) all_EventType of
     Some t \<Rightarrow> Inr t | None \<Rightarrow> Inl (ValueError (repr_str v @ '' is not a valid EventType'')))"

definition row_to_event :: "RunEvent \<Rightarrow> AgentEvent presult" where
  "row_to_event r = rbind (EventType_of (re_type r)) (\<lambda>ty. validate_AgentEvent
     \<lparr>ev_event_id = re_event_id r, ev_run_id = re_run_id r, ev_tenant_id = re_tenant_id r,
      ev_sequence = re_sequence r, ev_type = ty, ev_timestamp = re_timestamp r,
      ev_data = re_data_json r, ev_trace_id = re_trace_id r,
      ev_correlation_id = re_correlation_id r, ev_sensitive = re_sensitive r,
      ev_safe_for_ui = re_safe_for_ui r\<rparr>)"

definition event_row :: "AgentEvent \<Rightarrow> RunEvent" where
  "event_row e = \<lparr>re_event_id = ev_event_id e, re_run_id = ev_run_id e, re_tenant_id = ev_tenant_id e,
     re_sequence = ev_sequence e, re_type = EventType_value (ev_type e),
     re_timestamp = ev_timestamp e, re_data_json = ev_data e, re_trace_id = ev_trace_id e,
     re_correlation_id = ev_correlation_id e, re_sensitive = ev_sensitive e,
     re_safe_for_ui = ev_safe_for_ui e\<rparr>"

text \<open>The two unique constraints of \<^verbatim>\<open>run_events\<close>.\<close>

definition event_collides :: "RunEvent \<Rightarrow> db \<Rightarrow> bool" where
  "event_collides row d = list_ex (\<lambda>r. re_event_id r = re_event_id row \<or>
     (re_run_id r = re_run_id row \<and> re_sequence r = re_sequence row)) (tb_events d)"

definition flush_event :: "RunEvent \<Rightarrow> (repo, unit) em" where
  "flush_event row = ebind (eget rp_db) (\<lambda>d.
     if event_collides row d then eraise (IntegrityError ''UNIQUE constraint failed: run_events'')
     else modify_db (\<lambda>d. d\<lparr>tb_events := tb_events d @ [row]\<rparr>))"

definition append_event :: "AgentEvent \<Rightarrow> (repo, AgentEvent) em" where
  "append_event event =
     (if ev_sensitive event \<and> ev_safe_for_ui event
      then eraise (RepositoryError ''sensitive events must not be safe_for_ui'')
      else transaction
        (ethen (get_run_row (ev_run_id event) (ev_tenant_id event))
         (ebind (eget rp_db) (\<lambda>d.
           case find (\<lambda>r. re_event_id r = ev_event_id event) (tb_events d) of
             Some dup \<Rightarrow> elift (row_to_event dup)
           | None \<Rightarrow>
               ethen (etry (flush_event (event_row event))
                 (\<lambda>e. if exc_name e = ''IntegrityError''
                      then eraise (ConflictError (''event sequence conflict run='' @ ev_run_id event @
                             '' seq='' @ int_str (ev_sequence event)))
                      else eraise e))
               (eret event)))))"

record new_event =
  ne_run_id :: string
  ne_tenant_id :: string
  ne_type :: string
  ne_data :: pydict
  ne_event_id :: "string option"
  ne_trace_id :: "string option"
  ne_correlation_id :: "string option"
  ne_sensitive :: bool
  ne_safe_for_ui :: bool

definition next_row :: "repo_env \<Rightarrow> new_event \<Rightarrow> string \<Rightarrow> int \<Rightarrow> datetime \<Rightarrow> RunEvent" where
  "next_row E n eid seq now = \<lparr>re_event_id = eid, re_run_id = ne_run_id n, re_tenant_id = ne_tenant_id n,
     re_sequence = seq, re_type = ne_type n, re_timestamp = now, re_data_json = rv_redact E (ne_data n),
     re_trace_id = ne_trace_id n, re_correlation_id = ne_correlation_id n,
     re_sensitive = ne_sensitive n, re_safe_for_ui = ne_safe_for_ui n\<rparr>"

text \<open>
  One pass of the retry loop: \<open>Some e\<close> is a return of the function, \<open>None\<close> the next pass. The
  reads, then what other sessions committed meanwhile, then the write in the rest of the same
  transaction (which has written nothing before). After a failed flush the \<open>continue\<close> leaves the
  \<open>with\<close> block, which commits the session.
\<close>

definition append_next_write ::
  "repo_env \<Rightarrow> new_event \<Rightarrow> string \<Rightarrow> int \<Rightarrow> (repo, AgentEvent option) em" where
  "append_next_write E n eid seq =
     ebind (repo_now E) (\<lambda>now.
       let row = next_row E n eid seq now in
       ebind (etry (ethen (flush_event row) (eret True))
           (\<lambda>e. if exc_name e = ''IntegrityError'' then eret False else eraise e)) (\<lambda>flushed.
         if flushed then ebind (elift (row_to_event row)) (\<lambda>e. eret (Some e))
         else ethen (elift (rv_commit_after_failed_flush E)) (eret None)))"

definition append_next_pass :: "repo_env \<Rightarrow> new_event \<Rightarrow> (repo, AgentEvent option) em" where
  "append_next_pass E n =
     ethen (get_run_row (ne_run_id n) (ne_tenant_id n))
      (ebind (id_or_new E (ne_event_id n) ''evt'') (\<lambda>eid.
       ebind (eget rp_db) (\<lambda>d.
         case find (\<lambda>r. re_event_id r = eid) (tb_events d) of
           Some dup \<Rightarrow> ebind (elift (row_to_event dup)) (\<lambda>e. eret (Some e))
         | None \<Rightarrow>
             ebind tick (\<lambda>k.
             ethen (modify_db (rv_others E k))
               (transaction (append_next_write E n eid (next_sequence_in d (ne_run_id n))))))))"

fun append_next_loop :: "nat \<Rightarrow> repo_env \<Rightarrow> new_event \<Rightarrow> (repo, AgentEvent) em" where
  "append_next_loop 0 E n = eraise (ConflictError (''could not assign event sequence for run '' @ ne_run_id n))"
| "append_next_loop (Suc k) E n =
     ebind (append_next_pass E n) (\<lambda>r. case r of Some e \<Rightarrow> eret e | None \<Rightarrow> append_next_loop k E n)"

definition append_next_event :: "repo_env \<Rightarrow> new_event \<Rightarrow> (repo, AgentEvent) em" where
  "append_next_event E n =
     (if ne_sensitive n \<and> ne_safe_for_ui n
      then eraise (RepositoryError ''sensitive events must not be safe_for_ui'')
      else append_next_loop 4 E n)"

definition all_results :: "'a presult list \<Rightarrow> 'a list presult" where
  "all_results rs = foldr (\<lambda>r acc. rbind r (\<lambda>x. rbind acc (\<lambda>xs. Inr (x # xs)))) rs (Inr [])"

definition list_events :: "string \<Rightarrow> string \<Rightarrow> int \<Rightarrow> int \<Rightarrow> (repo, AgentEvent list) em" where
  "list_events run tenant after_sequence limit =
     (if limit < 1 \<or> 5000 < limit then eraise (RepositoryError ''limit must be 1..5000'')
      else ethen (get_run_row run tenant)
        (ebind (eget rp_db) (\<lambda>d.
          elift (all_results (map row_to_event (take (nat limit)
            (sort_key re_sequence (filter (\<lambda>r. re_run_id r = run \<and> after_sequence < re_sequence r)
               (tb_events d)))))))))"

end
