(* ===== verification/RepoAudit.thy ===== *)
theory RepoAudit
  imports Repository
begin

text \<open>
  The rest of the repository: approvals, the audit of tool invocations, findings, evidence,
  delegated tasks, model calls and audit records
  (\<^verbatim>\<open>src/packages/persistence/repositories.py\<close>, from \<^verbatim>\<open>create_approval\<close> on).
\<close>

section \<open>Approvals\<close>

definition all_ApprovalDecision :: "ApprovalDecision list" where
  "all_ApprovalDecision = [PENDING, APPROVED, REJECTED, EXPIRED]"

definition ApprovalDecision_of :: "string \<Rightarrow> ApprovalDecision presult" where
  "ApprovalDecision_of v = (case find (\<lambda>x. ApprovalDecision_value x = v) all_ApprovalDecision of
     Some x \<Rightarrow> Inr x | None \<Rightarrow> Inl (ValueError (repr_str v @ '' is not a valid ApprovalDecision'')))"

definition approval_row :: "Approval \<Rightarrow> ApprovalRow" where
  "approval_row a = \<lparr>av_approval_id = ap_approval_id a, av_run_id = ap_run_id a,
     av_tenant_id = ap_tenant_id a, av_action_id = ap_action_id a,
     av_requested_by = ap_requested_by a, av_approver = ap_approver a,
     av_decision = ApprovalDecision_value (ap_decision a), av_reason = ap_reason a,
     av_requested_at = ap_requested_at a, av_decided_at = ap_decided_at a,
     av_expires_at = ap_expires_at a, av_trace_id = ap_trace_id a,
     av_correlation_id = ap_correlation_id a\<rparr>"

definition row_to_approval :: "ApprovalRow \<Rightarrow> Approval presult" where
  "row_to_approval r = rbind (ApprovalDecision_of (av_decision r)) (\<lambda>dec. validate_Approval
     \<lparr>ap_approval_id = av_approval_id r, ap_run_id = av_run_id r, ap_tenant_id = av_tenant_id r,
      ap_action_id = av_action_id r, ap_requested_by = av_requested_by r,
      ap_approver = av_approver r, ap_decision = dec, ap_reason = av_reason r,
      ap_requested_at = av_requested_at r, ap_decided_at = av_decided_at r,
      ap_expires_at = av_expires_at r, ap_trace_id = av_trace_id r,
      ap_correlation_id = av_correlation_id r\<rparr>)"

definition find_approval :: "db \<Rightarrow> string \<Rightarrow> ApprovalRow option" where
  "find_approval d aid = find (\<lambda>r. av_approval_id r = aid) (tb_approvals d)"

definition create_approval :: "Approval \<Rightarrow> (repo, Approval) em" where
  "create_approval approval = transaction
     (ethen (get_run_row (ap_run_id approval) (ap_tenant_id approval))
       (ebind (eget rp_db) (\<lambda>d.
         if find_approval d (ap_approval_id approval) \<noteq> None
         then eraise (ConflictError (''approval '' @ ap_approval_id approval @ '' already exists''))
         else ethen (modify_db (\<lambda>d. d\<lparr>tb_approvals := tb_approvals d @ [approval_row approval]\<rparr>))
                (eret approval))))"

definition get_approval_row :: "string \<Rightarrow> string \<Rightarrow> (repo, ApprovalRow) em" where
  "get_approval_row aid tenant =
     ebind (eget rp_db) (\<lambda>d. case find_approval d aid of
       Some row \<Rightarrow> if av_tenant_id row \<noteq> tenant
         then eraise (NotFoundError (''approval '' @ aid @ '' not found'')) else eret row
     | None \<Rightarrow> eraise (NotFoundError (''approval '' @ aid @ '' not found'')))"

definition get_approval :: "string \<Rightarrow> string \<Rightarrow> (repo, Approval) em" where
  "get_approval aid tenant = ebind (get_approval_row aid tenant) (\<lambda>row. elift (row_to_approval row))"

definition put_approval :: "string \<Rightarrow> ApprovalRow \<Rightarrow> (repo, unit) em" where
  "put_approval aid row = modify_db (\<lambda>d. d\<lparr>tb_approvals :=
     update_first (\<lambda>r. av_approval_id r = aid) (\<lambda>_. row) (tb_approvals d)\<rparr>)"

definition decide_approval ::
  "repo_env \<Rightarrow> string \<Rightarrow> string \<Rightarrow> string \<Rightarrow> string \<Rightarrow> string option \<Rightarrow> (repo, Approval) em" where
  "decide_approval E aid tenant decision approver reason =
     (if decision \<noteq> ''approved'' \<and> decision \<noteq> ''rejected''
      then eraise (RepositoryError ''decision must be approved|rejected'')
      else transaction
        (ebind (get_approval_row aid tenant) (\<lambda>row.
          if av_decision row \<noteq> ApprovalDecision_value PENDING
          then eraise (ConflictError (''approval '' @ aid @ '' already decided''))
          else ebind (repo_now E) (\<lambda>now.
            if (case av_expires_at row of None \<Rightarrow> False | Some x \<Rightarrow> x < now)
            then ethen (put_approval aid (row\<lparr>av_decision := ApprovalDecision_value EXPIRED,
                   av_decided_at := Some now\<rparr>))
                 (eraise (ConflictError (''approval '' @ aid @ '' expired'')))
            else let row' = row\<lparr>av_decision := decision, av_approver := Some approver,
                       av_reason := reason, av_decided_at := Some now\<rparr>
              in ethen (put_approval aid row') (elift (row_to_approval row'))))))"

definition list_approvals :: "string \<Rightarrow> string \<Rightarrow> (repo, Approval list) em" where
  "list_approvals run tenant =
     ethen (get_run_row run tenant) (ebind (eget rp_db) (\<lambda>d.
       elift (all_results (map row_to_approval
         (sort_key av_requested_at (filter (\<lambda>r. av_run_id r = run) (tb_approvals d)))))))"

section \<open>Tool invocations\<close>

definition all_ToolInvocationStatus :: "ToolInvocationStatus list" where
  "all_ToolInvocationStatus =
     [TI_PENDING, TI_RUNNING, TI_SUCCEEDED, TI_FAILED, TI_DENIED, TI_TIMEOUT, TI_CANCELLED]"

definition ToolInvocationStatus_of :: "string \<Rightarrow> ToolInvocationStatus presult" where
  "ToolInvocationStatus_of v =
     (case find (\<lambda>x. ToolInvocationStatus_value x = v) all_ToolInvocationStatus of
        Some x \<Rightarrow> Inr x | None \<Rightarrow> Inl (ValueError (repr_str v @ '' is not a valid ToolInvocationStatus'')))"

definition AuthorizationDecision_of :: "string \<Rightarrow> AuthorizationDecision presult" where
  "AuthorizationDecision_of v =
     (case find (\<lambda>x. AuthorizationDecision_value x = v) [AD_ALLOWED, AD_DENIED, AD_REQUIRES_APPROVAL] of
        Some x \<Rightarrow> Inr x | None \<Rightarrow> Inl (ValueError (repr_str v @ '' is not a valid AuthorizationDecision'')))"

definition row_to_tool_invocation :: "ToolInvocationRow \<Rightarrow> ToolInvocation presult" where
  "row_to_tool_invocation r =
     rbind (ToolInvocationStatus_of (tv_status r)) (\<lambda>st.
     rbind (case tv_authorization_decision r of
         None \<Rightarrow> Inr None
       | Some a \<Rightarrow> if a = [] then Inr None else map_sum id Some (AuthorizationDecision_of a)) (\<lambda>ad.
     validate_ToolInvocation
       \<lparr>ti_invocation_id = tv_invocation_id r, ti_run_id = tv_run_id r, ti_tenant_id = tv_tenant_id r,
        ti_tool_name = tv_tool_name r, ti_tool_version = tv_tool_version r,
        ti_input_hash = tv_input_hash r, ti_redacted_input = tv_redacted_input_json r,
        ti_output_hash = tv_output_hash r, ti_status = st, ti_authorization_decision = ad,
        ti_idempotency_key = tv_idempotency_key r, ti_dry_run = tv_dry_run r,
        ti_started_at = tv_started_at r, ti_completed_at = tv_completed_at r,
        ti_trace_id = tv_trace_id r, ti_correlation_id = tv_correlation_id r,
        ti_error = (case tv_error_json r of Some (x # xs) \<Rightarrow> Some (x # xs) | _ \<Rightarrow> None)\<rparr>))"

text \<open>The row \<^verbatim>\<open>record_tool_invocation\<close> adds; the error is stored as it is given.\<close>

definition invocation_row ::
  "ToolInvocation \<Rightarrow> string \<Rightarrow> pydict \<Rightarrow> string option \<Rightarrow> pydict option \<Rightarrow> ToolInvocationRow" where
  "invocation_row i in_hash redacted_in out_hash redacted_out =
     \<lparr>tv_invocation_id = ti_invocation_id i, tv_run_id = ti_run_id i, tv_tenant_id = ti_tenant_id i,
      tv_tool_name = ti_tool_name i, tv_tool_version = ti_tool_version i, tv_input_hash = in_hash,
      tv_redacted_input_json = redacted_in, tv_output_hash = out_hash,
      tv_redacted_output_json = redacted_out, tv_status = ToolInvocationStatus_value (ti_status i),
      tv_authorization_decision = map_option AuthorizationDecision_value (ti_authorization_decision i),
      tv_idempotency_key = ti_idempotency_key i, tv_dry_run = ti_dry_run i,
      tv_error_json = (case ti_error i of Some (x # xs) \<Rightarrow> Some (x # xs) | _ \<Rightarrow> None),
      tv_trace_id = ti_trace_id i, tv_correlation_id = ti_correlation_id i,
      tv_started_at = ti_started_at i, tv_completed_at = ti_completed_at i\<rparr>"

definition record_tool_invocation ::
  "repo_env \<Rightarrow> ToolInvocation \<Rightarrow> pydict option \<Rightarrow> pydict option \<Rightarrow> (repo, ToolInvocation) em" where
  "record_tool_invocation E i raw_input raw_output =
     (let source_input = (case raw_input of Some d \<Rightarrow> d | None \<Rightarrow> ti_redacted_input i);
          redacted_in = rv_redact E source_input;
          in_hash = hash_payload (rv_py E) (PDict source_input);
          redacted_out = map_option (rv_redact E) raw_output;
          out_hash = (case raw_output of Some d \<Rightarrow> Some (hash_payload (rv_py E) (PDict d))
                      | None \<Rightarrow> ti_output_hash i)
      in if contains_bare_secret_marker (PDict redacted_in)
         then eraise (RepositoryError ''redaction hook failed to mask secrets'')
         else transaction
           (ethen (get_run_row (ti_run_id i) (ti_tenant_id i))
             (ebind (eget rp_db) (\<lambda>d.
               case (if given_key (ti_idempotency_key i)
                     then find (\<lambda>r. tv_run_id r = ti_run_id i \<and>
                            tv_idempotency_key r = ti_idempotency_key i) (tb_invocations d)
                     else None) of
                 Some dup \<Rightarrow> elift (row_to_tool_invocation dup)
               | None \<Rightarrow>
                   if find (\<lambda>r. tv_invocation_id r = ti_invocation_id i) (tb_invocations d) \<noteq> None
                   then eraise (ConflictError (''tool invocation '' @ ti_invocation_id i @ '' exists''))
                   else ethen (modify_db (\<lambda>d. d\<lparr>tb_invocations := tb_invocations d @
                          [invocation_row i in_hash redacted_in out_hash redacted_out]\<rparr>))
                        (eret (i\<lparr>ti_input_hash := in_hash, ti_redacted_input := redacted_in,
                           ti_output_hash := out_hash\<rparr>))))))"

definition complete_tool_invocation ::
  "repo_env \<Rightarrow> string \<Rightarrow> string \<Rightarrow> string \<Rightarrow> pydict option \<Rightarrow> pydict option \<Rightarrow> (repo, ToolInvocation) em" where
  "complete_tool_invocation E iid tenant status raw_output error =
     (case ToolInvocationStatus_of status of
        Inl _ \<Rightarrow> eraise (RepositoryError (''unknown tool status '' @ status))
      | Inr st \<Rightarrow> transaction
          (ebind (eget rp_db) (\<lambda>d.
            case find (\<lambda>r. tv_invocation_id r = iid) (tb_invocations d) of
              None \<Rightarrow> eraise (NotFoundError (''tool invocation '' @ iid @ '' not found''))
            | Some row \<Rightarrow>
                if tv_tenant_id row \<noteq> tenant
                then eraise (NotFoundError (''tool invocation '' @ iid @ '' not found''))
                else ebind (repo_now E) (\<lambda>now.
                  let row1 = row\<lparr>tv_status := ToolInvocationStatus_value st\<rparr>;
                      row2 = (case raw_output of None \<Rightarrow> row1
                        | Some o' \<Rightarrow> row1\<lparr>tv_redacted_output_json := Some (rv_redact E o'),
                            tv_output_hash := Some (hash_payload (rv_py E) (PDict o'))\<rparr>);
                      row3 = (case error of None \<Rightarrow> row2
                        | Some er \<Rightarrow> row2\<lparr>tv_error_json := Some (rv_redact E er)\<rparr>);
                      row' = row3\<lparr>tv_completed_at := Some now\<rparr>
                  in ethen (modify_db (\<lambda>d. d\<lparr>tb_invocations :=
                         update_first (\<lambda>r. tv_invocation_id r = iid) (\<lambda>_. row') (tb_invocations d)\<rparr>))
                       (elift (row_to_tool_invocation row'))))))"

section \<open>Findings, evidence, tasks, model calls, audit\<close>

text \<open>Each method takes the row it would add, with the columns it computes left to it.\<close>

definition save_finding :: "repo_env \<Rightarrow> FindingRow \<Rightarrow> (repo, string) em" where
  "save_finding E f = transaction
     (ethen (get_run_row (fr_run_id f) (fr_tenant_id f)) (ebind (eget rp_db) (\<lambda>d.
       if find (\<lambda>r. fr_finding_id r = fr_finding_id f) (tb_findings d) \<noteq> None
       then eraise (ConflictError (''finding '' @ fr_finding_id f @ '' exists''))
       else ebind (repo_now E) (\<lambda>now.
         ethen (modify_db (\<lambda>d. d\<lparr>tb_findings := tb_findings d @ [f\<lparr>fr_created_at := now\<rparr>]\<rparr>))
           (eret (fr_finding_id f))))))"

definition save_evidence_ref :: "EvidenceRef \<Rightarrow> (repo, string) em" where
  "save_evidence_ref e = transaction
     (ethen (get_run_row (ef_run_id e) (ef_tenant_id e)) (ebind (eget rp_db) (\<lambda>d.
       if find (\<lambda>r. ef_ref_id r = ef_ref_id e) (tb_evidence d) \<noteq> None
       then eraise (ConflictError (''evidence ref '' @ ef_ref_id e @ '' exists''))
       else ethen (modify_db (\<lambda>d. d\<lparr>tb_evidence := tb_evidence d @ [e]\<rparr>)) (eret (ef_ref_id e)))))"

record new_task =
  nt_task_id :: string
  nt_run_id :: string
  nt_tenant_id :: string
  nt_skill_id :: string
  nt_agent_name :: string
  nt_objective :: string
  nt_status :: string
  nt_raw_inputs :: "pydict option"
  nt_deadline :: "datetime option"

definition save_agent_task :: "repo_env \<Rightarrow> new_task \<Rightarrow> (repo, string) em" where
  "save_agent_task E n =
     (let raw = (case nt_raw_inputs n of Some d \<Rightarrow> d | None \<Rightarrow> []) in transaction
       (ethen (get_run_row (nt_run_id n) (nt_tenant_id n)) (ebind (eget rp_db) (\<lambda>d.
         if find (\<lambda>r. at_task_id r = nt_task_id n) (tb_tasks d) \<noteq> None
         then eraise (ConflictError (''task '' @ nt_task_id n @ '' exists''))
         else ebind (repo_now E) (\<lambda>created. ebind (repo_now E) (\<lambda>updated.
           ethen (modify_db (\<lambda>d. d\<lparr>tb_tasks := tb_tasks d @
             [\<lparr>at_task_id = nt_task_id n, at_run_id = nt_run_id n, at_tenant_id = nt_tenant_id n,
               at_skill_id = nt_skill_id n, at_agent_name = nt_agent_name n,
               at_objective = nt_objective n, at_status = nt_status n,
               at_input_hash = hash_payload (rv_py E) (PDict raw),
               at_redacted_input_json = rv_redact E raw, at_output_hash = None,
               at_redacted_output_json = None, at_error_json = None, at_deadline = nt_deadline n,
               at_created_at = created, at_updated_at = updated\<rparr>]\<rparr>))
             (eret (nt_task_id n))))))))"

definition update_agent_task ::
  "repo_env \<Rightarrow> string \<Rightarrow> string \<Rightarrow> string \<Rightarrow> pydict option \<Rightarrow> pydict option \<Rightarrow> (repo, unit) em" where
  "update_agent_task E tid tenant status raw_output error = transaction
     (ebind (eget rp_db) (\<lambda>d.
       case find (\<lambda>r. at_task_id r = tid) (tb_tasks d) of
         None \<Rightarrow> eraise (NotFoundError (''task '' @ tid @ '' not found''))
       | Some row \<Rightarrow>
           if at_tenant_id row \<noteq> tenant then eraise (NotFoundError (''task '' @ tid @ '' not found''))
           else ebind (repo_now E) (\<lambda>now.
             let row1 = row\<lparr>at_status := status\<rparr>;
                 row2 = (case raw_output of None \<Rightarrow> row1
                   | Some o' \<Rightarrow> row1\<lparr>at_redacted_output_json := Some (rv_redact E o'),
                       at_output_hash := Some (hash_payload (rv_py E) (PDict o'))\<rparr>);
                 row3 = (case error of None \<Rightarrow> row2
                   | Some er \<Rightarrow> row2\<lparr>at_error_json := Some (rv_redact E er)\<rparr>)
             in modify_db (\<lambda>d. d\<lparr>tb_tasks := update_first (\<lambda>r. at_task_id r = tid)
                  (\<lambda>_. row3\<lparr>at_updated_at := now\<rparr>) (tb_tasks d)\<rparr>))))"

text \<open>A model call: the caller's row with the call identifier it may leave out, and the raw prompt,
  of which only the hash is kept.\<close>

definition record_model_call ::
  "repo_env \<Rightarrow> string option \<Rightarrow> ModelCall \<Rightarrow> pyval \<Rightarrow> (repo, string) em" where
  "record_model_call E call_id m raw_prompt =
     ebind (id_or_new E call_id ''mcall'') (\<lambda>cid. transaction
       (ethen (get_run_row (mc_run_id m) (mc_tenant_id m)) (ebind (repo_now E) (\<lambda>now.
         ebind (eget rp_db) (\<lambda>d.
           if find (\<lambda>r. mc_call_id r = cid) (tb_model_calls d) \<noteq> None
           then eraise (IntegrityError ''UNIQUE constraint failed: model_calls'')
           else ethen (modify_db (\<lambda>d. d\<lparr>tb_model_calls := tb_model_calls d @
                  [m\<lparr>mc_call_id := cid, mc_error_json := None, mc_created_at := now,
                     mc_prompt_hash := hash_payload (rv_py E)
                       (if raw_prompt \<noteq> PNone then raw_prompt else PDict [])\<rparr>]\<rparr>))
                (eret cid))))))"

definition write_audit ::
  "repo_env \<Rightarrow> string option \<Rightarrow> AuditRecord \<Rightarrow> pydict option \<Rightarrow> (repo, string) em" where
  "write_audit E audit_id a decision =
     ebind (id_or_new E audit_id ''audit'') (\<lambda>aid. transaction
       (ethen (case au_run_id a of None \<Rightarrow> eret ()
               | Some run \<Rightarrow> ethen (get_run_row run (au_tenant_id a)) (eret ()))
         (ebind (repo_now E) (\<lambda>now. ebind (eget rp_db) (\<lambda>d.
           if find (\<lambda>r. au_audit_id r = aid) (tb_audit d) \<noteq> None
           then eraise (IntegrityError ''UNIQUE constraint failed: audit_records'')
           else ethen (modify_db (\<lambda>d. d\<lparr>tb_audit := tb_audit d @
                  [a\<lparr>au_audit_id := aid, au_created_at := now, au_decision_json :=
                     (case decision of Some (x # xs) \<Rightarrow> Some (rv_redact E (x # xs)) | _ \<Rightarrow> None)\<rparr>]\<rparr>))
                (eret aid))))))"

section \<open>Any operation\<close>

text \<open>The methods that write, as data, so that a property can speak of every one of them.\<close>

datatype repo_op =
    OEnsureTenant string string
  | OCreateRun new_run
  | OUpdateRun string string "run_field list"
  | OAppendEvent AgentEvent
  | OAppendNextEvent new_event
  | OCreateApproval Approval
  | ODecideApproval string string string string "string option"
  | ORecordTool ToolInvocation "pydict option" "pydict option"
  | OCompleteTool string string string "pydict option" "pydict option"
  | OSaveFinding FindingRow
  | OSaveEvidence EvidenceRef
  | OSaveTask new_task
  | OUpdateTask string string string "pydict option" "pydict option"
  | OModelCall "string option" ModelCall pyval
  | OAudit "string option" AuditRecord "pydict option"

fun op_tenant :: "repo_op \<Rightarrow> string" where
  "op_tenant (OEnsureTenant t n) = t"
| "op_tenant (OCreateRun n) = nr_tenant_id n"
| "op_tenant (OUpdateRun r t fs) = t"
| "op_tenant (OAppendEvent e) = ev_tenant_id e"
| "op_tenant (OAppendNextEvent n) = ne_tenant_id n"
| "op_tenant (OCreateApproval a) = ap_tenant_id a"
| "op_tenant (ODecideApproval a t dec who why) = t"
| "op_tenant (ORecordTool i ri ro) = ti_tenant_id i"
| "op_tenant (OCompleteTool i t s ro er) = t"
| "op_tenant (OSaveFinding f) = fr_tenant_id f"
| "op_tenant (OSaveEvidence e) = ef_tenant_id e"
| "op_tenant (OSaveTask n) = nt_tenant_id n"
| "op_tenant (OUpdateTask i t s ro er) = t"
| "op_tenant (OModelCall c m p) = mc_tenant_id m"
| "op_tenant (OAudit i a d) = au_tenant_id a"

definition void :: "('s, 'a) em \<Rightarrow> ('s, unit) em" where
  "void m = ethen m (eret ())"

fun exec_op :: "repo_env \<Rightarrow> repo_op \<Rightarrow> (repo, unit) em" where
  "exec_op E (OEnsureTenant t n) = ensure_tenant E t n"
| "exec_op E (OCreateRun n) = void (create_run E n)"
| "exec_op E (OUpdateRun r t fs) = void (update_run E r t fs)"
| "exec_op E (OAppendEvent e) = void (append_event e)"
| "exec_op E (OAppendNextEvent n) = void (append_next_event E n)"
| "exec_op E (OCreateApproval a) = void (create_approval a)"
| "exec_op E (ODecideApproval a t dec who why) = void (decide_approval E a t dec who why)"
| "exec_op E (ORecordTool i ri ro) = void (record_tool_invocation E i ri ro)"
| "exec_op E (OCompleteTool i t s ro er) = void (complete_tool_invocation E i t s ro er)"
| "exec_op E (OSaveFinding f) = void (save_finding E f)"
| "exec_op E (OSaveEvidence e) = void (save_evidence_ref e)"
| "exec_op E (OSaveTask n) = void (save_agent_task E n)"
| "exec_op E (OUpdateTask i t s ro er) = update_agent_task E i t s ro er"
| "exec_op E (OModelCall c m p) = void (record_model_call E c m p)"
| "exec_op E (OAudit i a d) = void (write_audit E i a d)"

end
