(* ===== verification/McpServer.thy ===== *)
theory McpServer
  imports McpSecurity McpTools RepoAudit
begin

text \<open>
  The tool gateway: the in-memory stores of \<^verbatim>\<open>store.py\<close>, the handlers and the executor of
  \<^verbatim>\<open>executor.py\<close>, the routes and tool registrations of \<^verbatim>\<open>server.py\<close>.

  Parameters (\<open>mcp_env\<close>): the interpreter's texts and digests, the validation library, the clock,
  the random identifiers and the current trace, each read at a tick so that two readings may
  differ; whether the event loop gives up on a handler that sleeps for a while under a limit; and
  what the other requests of the process do to the stores while a handler is awaited.
\<close>

section \<open>State\<close>

record mcp_state =
  AUDIT_LOG :: "ToolInvocation list"
  IDEMPOTENCY_STORE :: "(string \<times> string \<times> pydict) list"  \<comment> \<open>key, then input hash and result\<close>
  INJECTED_DELAYS :: "(string \<times> pyfloat) list"
  AUDIT_REPO :: "repo option"
  gateway_repo :: "repo option"  \<comment> \<open>what \<open>get_repository()\<close> gives, if it does not raise\<close>
  mc_ticks :: nat

record mcp_env =
  mv_py :: pyenv
  mv_pydantic :: pydantic
  mv_repo_env :: repo_env
  mv_clock :: "nat \<Rightarrow> datetime"
  mv_uuid_hex :: "nat \<Rightarrow> string"
  mv_trace_id :: "nat \<Rightarrow> string option"
  mv_times_out :: "pyfloat \<Rightarrow> pyfloat \<Rightarrow> bool"  \<comment> \<open>the delay and the limit\<close>
  mv_others :: "nat \<Rightarrow> mcp_state \<Rightarrow> mcp_state"

definition reset_state :: "mcp_state \<Rightarrow> mcp_state" where
  "reset_state s = s\<lparr>AUDIT_LOG := [], IDEMPOTENCY_STORE := [], INJECTED_DELAYS := []\<rparr>"

definition set_audit_repository :: "repo option \<Rightarrow> mcp_state \<Rightarrow> mcp_state" where
  "set_audit_repository r s = s\<lparr>AUDIT_REPO := r\<rparr>"

definition tick :: "(nat \<Rightarrow> 'a) \<Rightarrow> (mcp_state, 'a) em" where
  "tick f = ebind (eget mc_ticks) (\<lambda>k. ethen (emod (\<lambda>s. s\<lparr>mc_ticks := Suc (mc_ticks s)\<rparr>)) (eret (f k)))"

section \<open>Errors\<close>

text \<open>The tag is the code.\<close>

definition MCPToolError :: "string \<Rightarrow> string \<Rightarrow> pyexc" where
  "MCPToolError code message = PyExc EOther ''MCPToolError'' message code"

definition is_tool_error :: "pyexc \<Rightarrow> bool" where
  "is_tool_error e = (exc_name e = ''MCPToolError'')"

section \<open>Handlers\<close>

text \<open>\<^verbatim>\<open>args[k]\<close>.\<close>

definition item :: "pydict \<Rightarrow> string \<Rightarrow> pyval presult" where
  "item args k = (case dget args k of Some v \<Rightarrow> Inr v | None \<Rightarrow> Inl (KeyError (repr_str k)))"

definition h_query_metrics :: "mcp_env \<Rightarrow> pydict \<Rightarrow> (mcp_state, pydict) em" where
  "h_query_metrics M args =
     ebind (elift (item args ''service'')) (\<lambda>service.
     ebind (elift (item args ''metric'')) (\<lambda>metric.
     ebind (elift (item args ''start_time'')) (\<lambda>a.
     ebind (elift (item args ''end_time'')) (\<lambda>b.
     eret [(''service'', service), (''metric'', metric),
       (''aggregation'', dget_or args ''aggregation'' (PStr ''average'')),
       (''window'', PDict [(''start'', PStr (py_str (mv_py M) a)), (''end'', PStr (py_str (mv_py M) b))]),
       (''points'', PList (map (\<lambda>i. PDict [(''t'', PStr (''2026-09-11T12:0'' @ nat_str i @ '':00Z'')),
          (''v'', PFloat (90 + rat_of_nat i))]) [0..<5])),
       (''mode'', PStr ''mock'')]))))"

fun mock_logs :: "mcp_env \<Rightarrow> string \<Rightarrow> nat list \<Rightarrow> (mcp_state, pyval list) em" where
  "mock_logs M query [] = eret []"
| "mock_logs M query (i # is) =
     ebind (tick (mv_clock M)) (\<lambda>now. ebind (mock_logs M query is) (\<lambda>rest.
     eret (PDict [(''ts'', PStr (isoformat (mv_py M) now)), (''level'', PStr ''ERROR''),
       (''msg'', PStr (''mock log '' @ nat_str i @ '' for '' @ query))] # rest)))"

definition h_query_logs :: "mcp_env \<Rightarrow> pydict \<Rightarrow> (mcp_state, pydict) em" where
  "h_query_logs M args =
     ebind (elift (py_int (dget_or args ''limit'' (PInt 100)))) (\<lambda>limit.
     ebind (elift (item args ''service'')) (\<lambda>service.
     ebind (elift (item args ''query'')) (\<lambda>query.
     ebind (mock_logs M (py_str (mv_py M) query) [0..<nat (min limit 3)]) (\<lambda>logs.
     eret [(''service'', service), (''query'', query), (''logs'', PList logs), (''mode'', PStr ''mock'')]))))"

definition h_get_health :: "mcp_env \<Rightarrow> pydict \<Rightarrow> (mcp_state, pydict) em" where
  "h_get_health M args =
     ebind (elift (item args ''service'')) (\<lambda>service.
     eret [(''service'', service), (''status'', PStr ''degraded''), (''latency_ms_p99'', PInt 420),
       (''checks'', PDict [(''http'', PStr ''ok''), (''db'', PStr ''ok''), (''queue'', PStr ''lagging'')]),
       (''mode'', PStr ''mock'')])"

text \<open>\<^verbatim>\<open>xs[:k]\<close>.\<close>

definition slice_to :: "int \<Rightarrow> 'a list \<Rightarrow> 'a list" where
  "slice_to k xs = (if 0 \<le> k then take (nat k) xs else take (length xs - nat (- k)) xs)"

definition h_search :: "mcp_env \<Rightarrow> pydict \<Rightarrow> (mcp_state, pydict) em" where
  "h_search M args =
     ebind (elift (item args ''query'')) (\<lambda>query.
     ebind (elift (py_int (dget_or args ''top_k'' (PInt 5)))) (\<lambda>top_k.
     eret [(''query'', query),
       (''results'', PList (slice_to top_k
         [PDict [(''id'', PStr ''rb-001''), (''title'', PStr ''Checkout error-rate runbook''),
            (''snippet'', PStr ''check release...'')],
          PDict [(''id'', PStr ''kb-042''), (''title'', PStr ''Latency triage''),
            (''snippet'', PStr ''compare deploys...'')]])),
       (''mode'', PStr ''mock'')]))"

definition h_get_runbook :: "mcp_env \<Rightarrow> pydict \<Rightarrow> (mcp_state, pydict) em" where
  "h_get_runbook M args =
     ebind (elift (item args ''runbook_id'')) (\<lambda>v.
     let runbook_id = py_str (mv_py M) v in
     case get_runbook runbook_id of
       None \<Rightarrow> eraise (MCPToolError ''not_found'' (''runbook '' @ runbook_id @ '' not found''))
     | Some rb \<Rightarrow> eret (dmerge [(''mode'', PStr ''mock''), (''untrusted'', PBool True)] rb))"

definition h_simulate :: "mcp_env \<Rightarrow> pydict \<Rightarrow> (mcp_state, pydict) em" where
  "h_simulate M args =
     ebind (elift (item args ''action'')) (\<lambda>action.
     eret [(''action'', action), (''target_service'', dget_none args ''target_service''),
       (''risk'', PStr ''medium''), (''blast_radius'', PStr ''single-service''),
       (''steps'', PList [PStr (''would execute: '' @ py_str (mv_py M) action @ '' (simulated)'')]),
       (''executed'', PBool False), (''dry_run'', PBool True), (''mode'', PStr ''mock'')])"

definition h_get_trace :: "mcp_env \<Rightarrow> pydict \<Rightarrow> (mcp_state, pydict) em" where
  "h_get_trace M args =
     (let trace_id = py_or (dget_none args ''trace_id'') (PStr ''trace-mock-1'') in
      ebind (elift (item args ''service'')) (\<lambda>service.
      eret [(''service'', service), (''trace_id'', trace_id),
        (''spans'', PList [PDict [(''span_id'', PStr ''s1''), (''operation'', PStr ''GET /checkout''),
             (''duration_ms'', PInt 120)],
           PDict [(''span_id'', PStr ''s2''), (''operation'', PStr ''db.query''), (''duration_ms'', PInt 85)]]),
        (''ref'', PStr (''trace://t/'' @ py_str (mv_py M) service @ ''/'' @ py_str (mv_py M) trace_id)),
        (''mode'', PStr ''mock'')]))"

definition h_get_current_release :: "mcp_env \<Rightarrow> pydict \<Rightarrow> (mcp_state, pydict) em" where
  "h_get_current_release M args =
     ebind (elift (item args ''service'')) (\<lambda>service.
     eret [(''service'', service), (''release'', PStr ''2026.09.10''),
       (''ref'', PStr (''resource://releases/'' @ py_str (mv_py M) service)), (''mode'', PStr ''mock'')])"

definition h_ticket_create :: "mcp_env \<Rightarrow> pydict \<Rightarrow> (mcp_state, pydict) em" where
  "h_ticket_create M args =
     (let dry_run = truthy (dget_or args ''dry_run'' (PBool False)) in
      ebind (elift (item args ''title'')) (\<lambda>title.
      eret [(''title'', title), (''severity'', dget_or args ''severity'' (PStr ''medium'')),
        (''dry_run'', PBool dry_run), (''executed'', PBool (\<not> dry_run)),
        (''ticket_id'', if \<not> dry_run then PStr ''ticket-mock-1'' else PNone),
        (''ref'', PStr ''ticket://t/1''), (''mode'', PStr ''mock'')]))"

definition h_rollback :: "mcp_env \<Rightarrow> pydict \<Rightarrow> (mcp_state, pydict) em" where
  "h_rollback M args =
     (let dry_run = truthy (dget_or args ''dry_run'' (PBool True)) in
      ebind (elift (item args ''deployment'')) (\<lambda>deployment.
      eret [(''deployment'', deployment),
        (''target_release'', dget_or args ''target_release'' (PStr ''previous-stable'')),
        (''dry_run'', PBool dry_run), (''executed'', PBool False), (''mock'', PBool True),
        (''message'', PStr (if dry_run then ''dry-run plan (no action taken)''
           else ''approved mock rollback (no real action locally)'')),
        (''mode'', PStr ''mock'')]))"

definition HANDLERS :: "(string \<times> (mcp_env \<Rightarrow> pydict \<Rightarrow> (mcp_state, pydict) em)) list" where
  "HANDLERS = [(''telemetry.query_metrics'', h_query_metrics), (''telemetry.query_logs'', h_query_logs),
     (''telemetry.get_trace'', h_get_trace), (''service.get_health'', h_get_health),
     (''knowledge.search'', h_search), (''knowledge.get_runbook'', h_get_runbook),
     (''deployment.get_current_release'', h_get_current_release),
     (''remediation.simulate'', h_simulate), (''deployment.rollback'', h_rollback),
     (''ticket.create'', h_ticket_create)]"

section \<open>The executor\<close>

text \<open>The locals of a call that are fixed before its checks, and those the checks assign. The closure
  \<^verbatim>\<open>_audit\<close> reads both, so the frame travels with the state.\<close>

record invocation =
  iv_tool :: string
  iv_meta :: ToolMetadata
  iv_raw :: pydict
  iv_auth :: AuthContext
  iv_timeout_override :: "pyfloat option"
  iv_started :: datetime
  iv_id :: string
  iv_run_id :: string
  iv_redacted_in :: pydict
  iv_input_hash :: string
  iv_dry_run :: bool
  iv_key :: pyval

record frame =
  fr_state :: mcp_state
  fr_status :: ToolInvocationStatus
  fr_decision :: AuthorizationDecision
  fr_error :: "pydict option"

definition on_state :: "(mcp_state, 'a) em \<Rightarrow> (frame, 'a) em" where
  "on_state m = (\<lambda>f. case m (fr_state f) of (r, s) \<Rightarrow> (r, f\<lparr>fr_state := s\<rparr>))"

definition set_decision :: "AuthorizationDecision \<Rightarrow> (frame, unit) em" where
  "set_decision d = emod (\<lambda>f. f\<lparr>fr_decision := d\<rparr>)"

definition redact_items :: "pydict \<Rightarrow> pydict" where
  "redact_items d = map (\<lambda>(k, v). (k, if sensitive_key k then PStr MCP_REDACTED else mcp_redact v)) d"

definition mcp_new_id :: "mcp_env \<Rightarrow> string \<Rightarrow> (mcp_state, string) em" where
  "mcp_new_id M prefix = tick (\<lambda>k. prefix @ ''_'' @ take 12 (mv_uuid_hex M k))"

subsection \<open>Audit\<close>

text \<open>The repository the audit is written through to: the injected one, or the gateway's.\<close>

definition audit_sink :: "mcp_state \<Rightarrow> repo option" where
  "audit_sink s = (case AUDIT_REPO s of Some r \<Rightarrow> Some r | None \<Rightarrow> gateway_repo s)"

definition put_sink :: "repo \<Rightarrow> mcp_state \<Rightarrow> mcp_state" where
  "put_sink r s = (case AUDIT_REPO s of Some _ \<Rightarrow> s\<lparr>AUDIT_REPO := Some r\<rparr>
     | None \<Rightarrow> s\<lparr>gateway_repo := Some r\<rparr>)"

definition opt_str :: "string option \<Rightarrow> pyval" where
  "opt_str v = (case v of None \<Rightarrow> PNone | Some s \<Rightarrow> PStr s)"

definition audit_decision ::
  "mcp_env \<Rightarrow> invocation \<Rightarrow> AuthorizationDecision \<Rightarrow> ToolInvocationStatus \<Rightarrow> string option
    \<Rightarrow> pydict option \<Rightarrow> pydict" where
  "audit_decision M iv decision status out_hash err =
     [(''tool_name'', PStr (iv_tool iv)), (''run_id'', PStr (iv_run_id iv)),
      (''invocation_id'', PStr (iv_id iv)),
      (''authorization_decision'', PStr (AuthorizationDecision_value decision)),
      (''status'', PStr (ToolInvocationStatus_value status)),
      (''input_hash'', PStr (iv_input_hash iv)), (''output_hash'', opt_str out_hash),
      (''redacted_input'', redact_for_audit (mv_py M) (PDict (iv_redacted_in iv)) OUTPUT_MAX_BYTES),
      (''error'', case err of Some (x # xs) \<Rightarrow> redact_for_audit (mv_py M) (PDict (x # xs)) OUTPUT_MAX_BYTES
         | _ \<Rightarrow> PNone)]"

text \<open>Best effort: the exceptions of the repository are swallowed.\<close>

definition persist_audit_record ::
  "mcp_env \<Rightarrow> invocation \<Rightarrow> pydict \<Rightarrow> string option \<Rightarrow> (mcp_state, unit) em" where
  "persist_audit_record M iv decision trace = (\<lambda>s. case audit_sink s of
     None \<Rightarrow> (Inr (), s)
   | Some r \<Rightarrow> (case write_audit (mv_repo_env M) None
        \<lparr>au_audit_id = [], au_run_id = None, au_tenant_id = ac_tenant_id (iv_auth iv),
         au_actor = ac_user_id (iv_auth iv), au_action = ''mcp.tool.'' @ iv_tool iv,
         au_decision_json = None, au_reason = None, au_trace_id = trace,
         au_correlation_id = None, au_created_at = 0\<rparr> (Some decision) r of
      (_, r') \<Rightarrow> (Inr (), put_sink r' s)))"

text \<open>A key that is not text fails the contract of the audit entry.\<close>

definition entry_key :: "invocation \<Rightarrow> string option presult" where
  "entry_key iv =
     (if iv_tool iv \<notin> set WRITE_TOOLS then Inr None
      else case iv_key iv of PNone \<Rightarrow> Inr None | PStr s \<Rightarrow> Inr (Some s)
        | _ \<Rightarrow> Inl (ValidationError ''idempotency_key''))"

definition audit_entry ::
  "invocation \<Rightarrow> frame \<Rightarrow> string option \<Rightarrow> string option \<Rightarrow> datetime \<Rightarrow> ToolInvocation presult" where
  "audit_entry iv f out_hash trace completed =
     rbind (entry_key iv) (\<lambda>key. validate_ToolInvocation
       \<lparr>ti_invocation_id = iv_id iv, ti_run_id = iv_run_id iv,
        ti_tenant_id = ac_tenant_id (iv_auth iv), ti_tool_name = iv_tool iv,
        ti_tool_version = tm_version (iv_meta iv), ti_input_hash = iv_input_hash iv,
        ti_redacted_input = iv_redacted_in iv, ti_output_hash = out_hash, ti_status = fr_status f,
        ti_authorization_decision = Some (fr_decision f), ti_idempotency_key = key,
        ti_dry_run = (iv_tool iv \<in> set WRITE_TOOLS \<and> iv_dry_run iv), ti_started_at = iv_started iv,
        ti_completed_at = Some completed, ti_trace_id = trace, ti_correlation_id = None,
        ti_error = fr_error f\<rparr>)"

definition audit :: "mcp_env \<Rightarrow> invocation \<Rightarrow> string option \<Rightarrow> (frame, unit) em" where
  "audit M iv out_hash =
     ebind (on_state (tick (mv_trace_id M))) (\<lambda>trace.
     ebind (on_state (tick (mv_clock M))) (\<lambda>completed.
     ebind (eget (\<lambda>f. f)) (\<lambda>f.
     ebind (elift (audit_entry iv f out_hash trace completed)) (\<lambda>entry.
     ethen (on_state (emod (\<lambda>s. s\<lparr>AUDIT_LOG := AUDIT_LOG s @ [entry]\<rparr>)))
     (on_state (persist_audit_record M iv
        (audit_decision M iv (fr_decision f) (fr_status f) out_hash (fr_error f)) trace))))))"

subsection \<open>The steps of a call\<close>

definition authorise :: "invocation \<Rightarrow> (frame, unit) em" where
  "authorise iv =
     etry (elift (rbind (check_tenant (iv_auth iv) (dget_none (iv_raw iv) ''tenant_id''))
        (\<lambda>_. require_scope (iv_auth iv) (tm_required_scopes (iv_meta iv)))))
       (\<lambda>e. if exc_name e = ''ForbiddenError''
            then ethen (set_decision AD_DENIED) (eraise (MCPToolError ''forbidden'' (exc_msg e)))
            else eraise e)"

definition validated_args :: "mcp_env \<Rightarrow> invocation \<Rightarrow> pydict presult" where
  "validated_args M iv =
     (case map_of INPUT_MODELS (iv_tool iv) of
        None \<Rightarrow> Inl (KeyError (repr_str (iv_tool iv)))
      | Some fs \<Rightarrow> (case parse_model (mv_pydantic M) fs (iv_raw iv) of
          None \<Rightarrow> Inl (MCPToolError ''validation_error''
            (''invalid input: '' @ px_message (mv_pydantic M) (iv_tool iv) (iv_raw iv)))
        | Some d \<Rightarrow>
            if json_safe (PDict d) then Inr (dset d ''tenant_id'' (PStr (ac_tenant_id (iv_auth iv))))
            else Inl (PyExc EValue ''PydanticSerializationError'' ''Unable to serialize unknown type'' [])))"

definition store_key :: "mcp_env \<Rightarrow> invocation \<Rightarrow> string" where
  "store_key M iv = iv_tool iv @ '':'' @ py_str (mv_py M) (iv_key iv)"

text \<open>The gate of the write tools: approval, then an idempotency key.\<close>

definition write_gate :: "invocation \<Rightarrow> (frame, unit) em" where
  "write_gate iv =
     ethen (set_decision AD_REQUIRES_APPROVAL)
     (ethen (elift (check (iv_dry_run iv \<or> ac_approved (iv_auth iv)) (MCPToolError ''approval_required''
        (iv_tool iv @ '' requires human approval (dry_run=false)''))))
     (ethen (set_decision AD_ALLOWED)
     (elift (check (iv_dry_run iv \<or> truthy (iv_key iv)) (MCPToolError ''validation_error''
        ''idempotency_key required when dry_run=false'')))))"

text \<open>The result of an earlier call with the same key, if there is one.\<close>

definition replay :: "mcp_env \<Rightarrow> invocation \<Rightarrow> (frame, pydict option) em" where
  "replay M iv =
     (if \<not> truthy (iv_key iv) then eret None
      else ebind (eget (\<lambda>f. IDEMPOTENCY_STORE (fr_state f))) (\<lambda>store.
        case map_of store (store_key M iv) of
          None \<Rightarrow> eret None
        | Some (input_hash, result) \<Rightarrow>
            if input_hash \<noteq> iv_input_hash iv
            then eraise (MCPToolError ''conflict'' ''idempotency key already used with different input'')
            else let cached = dset result ''deduplicated'' (PBool True) in
              ethen (audit M iv (Some (sha256_hex (mv_py M) (mcp_redact (PDict cached)))))
              (eret (Some cached))))"

definition call_timeout :: "invocation \<Rightarrow> pyfloat" where
  "call_timeout iv = (case iv_timeout_override iv of Some t \<Rightarrow> t
     | None \<Rightarrow> rat_of_int (tm_timeout_seconds (iv_meta iv)))"

definition timeout_text :: "mcp_env \<Rightarrow> invocation \<Rightarrow> string" where
  "timeout_text M iv = (case iv_timeout_override iv of Some t \<Rightarrow> float_repr (mv_py M) t
     | None \<Rightarrow> int_str (tm_timeout_seconds (iv_meta iv)))"

text \<open>\<^verbatim>\<open>wait_for\<close> on the handler, whose first action is to sleep for the injected delay. Other requests
  run while it is awaited.\<close>

definition call_handler :: "mcp_env \<Rightarrow> invocation \<Rightarrow> pydict \<Rightarrow> (frame, pydict) em" where
  "call_handler M iv args =
     (case map_of HANDLERS (iv_tool iv) of
        None \<Rightarrow> eraise (KeyError (repr_str (iv_tool iv)))
      | Some handler \<Rightarrow>
          ebind (eget (\<lambda>f. map_of (INJECTED_DELAYS (fr_state f)) (iv_tool iv))) (\<lambda>delay.
          ethen (on_state (emod (\<lambda>s. mv_others M (mc_ticks s) s)))
          (if mv_times_out M (case delay of None \<Rightarrow> 0 | Some d \<Rightarrow> d) (call_timeout iv)
           then ethen (emod (\<lambda>f. f\<lparr>fr_status := TI_TIMEOUT\<rparr>))
             (eraise (MCPToolError ''timeout'' (iv_tool iv @ '' timed out after '' @ timeout_text M iv @ ''s'')))
           else on_state (handler M args))))"

definition finish_call :: "mcp_env \<Rightarrow> invocation \<Rightarrow> pydict \<Rightarrow> (frame, pydict) em" where
  "finish_call M iv result0 =
     ethen (elift (check (\<not> output_too_large (mv_py M) (PDict result0) OUTPUT_MAX_BYTES)
       (MCPToolError ''tool_error'' ''tool result oversize; rejected'')))
     (let result = redact_items result0; out_hash = sha256_hex (mv_py M) (PDict result) in
      ethen (on_state (emod (\<lambda>s.
        if truthy (iv_key iv) \<and> iv_tool iv \<in> set WRITE_TOOLS \<and>
           map_of (IDEMPOTENCY_STORE s) (store_key M iv) = None
        then s\<lparr>IDEMPOTENCY_STORE :=
               AList.update (store_key M iv) (iv_input_hash iv, result) (IDEMPOTENCY_STORE s)\<rparr>
        else s)))
      (ethen (audit M iv (Some out_hash)) (eret result)))"

definition call_body :: "mcp_env \<Rightarrow> invocation \<Rightarrow> (frame, pydict) em" where
  "call_body M iv =
     ethen (authorise iv)
     (ebind (elift (validated_args M iv)) (\<lambda>args.
      ebind (if iv_tool iv \<in> set WRITE_TOOLS then ethen (write_gate iv) (replay M iv) else eret None)
        (\<lambda>cached. case cached of
           Some c \<Rightarrow> eret c
         | None \<Rightarrow> ebind (call_handler M iv args) (finish_call M iv))))"

definition failed_call :: "mcp_env \<Rightarrow> invocation \<Rightarrow> pyexc \<Rightarrow> (frame, pydict) em" where
  "failed_call M iv e =
     ethen (emod (\<lambda>f. f\<lparr>fr_status := (if fr_status f \<noteq> TI_TIMEOUT then TI_FAILED else fr_status f),
        fr_error := Some [(''code'', PStr (exc_tag e)), (''message'', PStr (exc_msg e))],
        fr_decision := (if exc_tag e \<in> {''forbidden'', ''auth_error''} then AD_DENIED else fr_decision f)\<rparr>))
     (ethen (audit M iv None) (eraise e))"

definition execute_call :: "mcp_env \<Rightarrow> invocation \<Rightarrow> (frame, pydict) em" where
  "execute_call M iv = etry (call_body M iv)
     (\<lambda>e. if is_tool_error e then failed_call M iv e else eraise e)"

definition start_invocation ::
  "mcp_env \<Rightarrow> string \<Rightarrow> ToolMetadata \<Rightarrow> pydict \<Rightarrow> AuthContext \<Rightarrow> string option \<Rightarrow> string option
    \<Rightarrow> pyfloat option \<Rightarrow> (mcp_state, invocation) em" where
  "start_invocation M tool meta raw auth idempotency_key run_id timeout_override =
     ebind (tick (mv_clock M)) (\<lambda>started.
     ebind (mcp_new_id M ''inv'') (\<lambda>invocation_id.
     ebind (case run_id of Some (x # xs) \<Rightarrow> eret (x # xs) | _ \<Rightarrow> mcp_new_id M ''run'') (\<lambda>eff_run_id.
     eret \<lparr>iv_tool = tool, iv_meta = meta, iv_raw = raw, iv_auth = auth,
       iv_timeout_override = timeout_override, iv_started = started, iv_id = invocation_id,
       iv_run_id = eff_run_id, iv_redacted_in = redact_items raw,
       iv_input_hash = sha256_hex (mv_py M) (PDict (redact_items raw)),
       iv_dry_run = truthy (dget_or raw ''dry_run'' (PBool True)),
       iv_key = (case idempotency_key of Some (x # xs) \<Rightarrow> PStr (x # xs)
         | _ \<Rightarrow> dget_none raw ''idempotency_key'')\<rparr>)))"

definition first_frame :: "mcp_state \<Rightarrow> frame" where
  "first_frame s = \<lparr>fr_state = s, fr_status = TI_SUCCEEDED, fr_decision = AD_ALLOWED, fr_error = None\<rparr>"

definition execute_tool ::
  "mcp_env \<Rightarrow> string \<Rightarrow> pydict \<Rightarrow> AuthContext \<Rightarrow> string option \<Rightarrow> string option \<Rightarrow> pyfloat option
    \<Rightarrow> (mcp_state, pydict) em" where
  "execute_tool M tool raw auth idempotency_key run_id timeout_override =
     (case map_of TOOL_METADATA tool of
        None \<Rightarrow> eraise (MCPToolError ''not_found'' (''unknown tool '' @ tool))
      | Some meta \<Rightarrow>
          ebind (start_invocation M tool meta raw auth idempotency_key run_id timeout_override) (\<lambda>iv s.
            case execute_call M iv (first_frame s) of (r, f) \<Rightarrow> (r, fr_state f)))"

end
