(* ===== verification/McpRoutes.thy ===== *)
theory McpRoutes
  imports McpServer
begin

text \<open>
  \<^verbatim>\<open>apps/mcp_server/server.py\<close>: the middleware that attaches the caller, the tools, resources and
  prompts registered with the protocol library, and the REST mirrors. A request is its path, its
  headers (keys in lower case, as the server framework gives them) and the identity attached to
  it. The listing of tool metadata holds no logic and is left out.
\<close>

section \<open>Middleware\<close>

definition ALLOWED_ORIGINS :: "auth_world \<Rightarrow> string list" where
  "ALLOWED_ORIGINS A = filter (\<lambda>x. x \<noteq> []) (map strip (split_on (CHR '','')
     (getenv_or A ''MCP_ALLOWED_ORIGINS'' ''http://localhost,http://testserver'')))"

definition bad_origin :: "auth_world \<Rightarrow> string \<Rightarrow> bool" where
  "bad_origin A origin = (origin \<noteq> [] \<and> origin \<notin> set (ALLOWED_ORIGINS A) \<and> \<not> str_in ''localhost'' origin)"

text \<open>The result is the context the request runs with, or the answer of the middleware. Whatever goes
  wrong with the identity leaves the request without a context.\<close>

datatype mcp_dispatch = Proceed "AuthContext option" | Answer nat pydict

definition origin_and_auth :: "auth_world \<Rightarrow> string \<Rightarrow> headers \<Rightarrow> (auth_state, mcp_dispatch) em" where
  "origin_and_auth A path hs =
     (if bad_origin A (header_get hs ''origin'')
      then eret (Answer 403 [(''code'', PStr ''forbidden''), (''message'', PStr ''bad origin'')])
      else ebind (etry (ebind (resolve_identity A (header_get hs ''authorization'')) (\<lambda>i. eret (Some i)))
               (\<lambda>_. eret None))
        (\<lambda>gateway. eret (Proceed (case gateway of
           Some who \<Rightarrow> if startswith path ''/mcp'' \<or> startswith path ''/tools/''
             then Some (from_identity who False) else None
         | None \<Rightarrow> None))))"

definition req_auth :: "AuthContext option \<Rightarrow> AuthContext presult" where
  "req_auth current = (case current of Some auth \<Rightarrow> Inr auth
     | None \<Rightarrow> Inl (AuthError ''missing gateway identity''))"

section \<open>Registered tools\<close>

definition run_registered ::
  "mcp_env \<Rightarrow> AuthContext option \<Rightarrow> string \<Rightarrow> pydict \<Rightarrow> (mcp_state, pydict) em" where
  "run_registered M current tool args =
     ebind (elift (req_auth current)) (\<lambda>auth. execute_tool M tool args auth None None None)"

definition opt_arg :: "string \<Rightarrow> string \<Rightarrow> pydict" where
  "opt_arg k v = (if v \<noteq> [] then [(k, PStr v)] else [])"

definition t_query_metrics :: "mcp_env \<Rightarrow> AuthContext option \<Rightarrow> string \<Rightarrow> string \<Rightarrow> string \<Rightarrow> string
    \<Rightarrow> string \<Rightarrow> (mcp_state, pydict) em" where
  "t_query_metrics M current service metric start_time end_time aggregation =
     run_registered M current ''telemetry.query_metrics''
       [(''service'', PStr service), (''metric'', PStr metric), (''start_time'', PStr start_time),
        (''end_time'', PStr end_time), (''aggregation'', PStr aggregation)]"

definition t_query_logs ::
  "mcp_env \<Rightarrow> AuthContext option \<Rightarrow> string \<Rightarrow> string \<Rightarrow> int \<Rightarrow> (mcp_state, pydict) em" where
  "t_query_logs M current service query limit = run_registered M current ''telemetry.query_logs''
     [(''service'', PStr service), (''query'', PStr query), (''limit'', PInt limit)]"

definition t_get_health :: "mcp_env \<Rightarrow> AuthContext option \<Rightarrow> string \<Rightarrow> (mcp_state, pydict) em" where
  "t_get_health M current service =
     run_registered M current ''service.get_health'' [(''service'', PStr service)]"

definition t_search :: "mcp_env \<Rightarrow> AuthContext option \<Rightarrow> string \<Rightarrow> int \<Rightarrow> (mcp_state, pydict) em" where
  "t_search M current query top_k =
     run_registered M current ''knowledge.search'' [(''query'', PStr query), (''top_k'', PInt top_k)]"

definition t_get_runbook :: "mcp_env \<Rightarrow> AuthContext option \<Rightarrow> string \<Rightarrow> (mcp_state, pydict) em" where
  "t_get_runbook M current runbook_id =
     run_registered M current ''knowledge.get_runbook'' [(''runbook_id'', PStr runbook_id)]"

definition t_simulate :: "mcp_env \<Rightarrow> AuthContext option \<Rightarrow> string \<Rightarrow> string \<Rightarrow> (mcp_state, pydict) em" where
  "t_simulate M current action target_service = run_registered M current ''remediation.simulate''
     ((''action'', PStr action) # opt_arg ''target_service'' target_service)"

definition t_get_trace :: "mcp_env \<Rightarrow> AuthContext option \<Rightarrow> string \<Rightarrow> string \<Rightarrow> (mcp_state, pydict) em" where
  "t_get_trace M current service trace_id = run_registered M current ''telemetry.get_trace''
     ((''service'', PStr service) # opt_arg ''trace_id'' trace_id)"

definition t_get_current_release ::
  "mcp_env \<Rightarrow> AuthContext option \<Rightarrow> string \<Rightarrow> (mcp_state, pydict) em" where
  "t_get_current_release M current service =
     run_registered M current ''deployment.get_current_release'' [(''service'', PStr service)]"

definition t_ticket_create :: "mcp_env \<Rightarrow> AuthContext option \<Rightarrow> string \<Rightarrow> string \<Rightarrow> bool \<Rightarrow> string
    \<Rightarrow> (mcp_state, pydict) em" where
  "t_ticket_create M current title severity dry_run idempotency_key =
     run_registered M current ''ticket.create''
       ([(''title'', PStr title), (''severity'', PStr severity), (''dry_run'', PBool dry_run)] @
        opt_arg ''idempotency_key'' idempotency_key)"

definition t_rollback ::
  "mcp_env \<Rightarrow> AuthContext option \<Rightarrow> string \<Rightarrow> bool \<Rightarrow> string \<Rightarrow> (mcp_state, pydict) em" where
  "t_rollback M current deployment dry_run idempotency_key =
     run_registered M current ''deployment.rollback''
       ([(''deployment'', PStr deployment), (''dry_run'', PBool dry_run)] @
        opt_arg ''idempotency_key'' idempotency_key)"

section \<open>Resources and prompts\<close>

definition r_service :: "mcp_env \<Rightarrow> string \<Rightarrow> string presult" where
  "r_service M name = (case get_service name of
     None \<Rightarrow> Inl (ValueError (''unknown service '' @ name))
   | Some svc \<Rightarrow> Inr (json_dumps (mv_py M) (PDict svc)))"

definition r_runbook :: "mcp_env \<Rightarrow> string \<Rightarrow> string presult" where
  "r_runbook M rid = (case get_runbook rid of
     None \<Rightarrow> Inl (ValueError (''unknown runbook '' @ rid))
   | Some rb \<Rightarrow> rbind (item rb ''body_md'') (\<lambda>b. Inr (py_str (mv_py M) b)))"

definition p_investigate :: "string \<Rightarrow> string \<Rightarrow> string presult" where
  "p_investigate service symptom =
     render_prompt ''investigate-incident'' [(''service'', service), (''symptom'', symptom)]"

definition p_summarize :: "string \<Rightarrow> string presult" where
  "p_summarize run_id = render_prompt ''summarize-evidence'' [(''run_id'', run_id)]"

definition p_change :: "string \<Rightarrow> string \<Rightarrow> string \<Rightarrow> string presult" where
  "p_change change_id action risk = render_prompt ''prepare-change-review''
     [(''change_id'', change_id), (''action'', action), (''risk'', risk)]"

section \<open>REST mirrors\<close>

text \<open>The tag is the code of a structured answer.\<close>

definition HTTPException :: "nat \<Rightarrow> string \<Rightarrow> string \<Rightarrow> pyexc" where
  "HTTPException status code message = HttpExc EOther ''HTTPException'' message code status"

definition auth_or_401 ::
  "auth_world \<Rightarrow> headers \<Rightarrow> Identity option \<Rightarrow> (auth_state, AuthContext) em" where
  "auth_or_401 A hs attached =
     etry (case attached of
         Some who \<Rightarrow> (let claimed = strip (header_get hs ''x-tenant-id'') in
           if claimed \<noteq> [] \<and> claimed \<noteq> id_tenant_id who then eraise (ForbiddenError ''tenant mismatch'')
           else eret (from_identity who False))
       | None \<Rightarrow> from_headers A hs None)
       (\<lambda>e. if is_auth_error e
            then eraise (HTTPException (if exc_name e = ''ForbiddenError'' then 403 else 401) [] (exc_msg e))
            else eraise e)"

definition status_of_code :: "string \<Rightarrow> nat" where
  "status_of_code code = (case map_of [(''validation_error'', 422), (''auth_error'', 401),
     (''forbidden'', 403), (''not_found'', 404), (''conflict'', 409), (''approval_required'', 409),
     (''policy_denied'', 403), (''timeout'', 504)] code of Some n \<Rightarrow> n | None \<Rightarrow> 500)"

text \<open>The header wins over the key in the body.\<close>

definition invoke_tool :: "mcp_env \<Rightarrow> string \<Rightarrow> pydict \<Rightarrow> AuthContext \<Rightarrow> string option \<Rightarrow> string option
    \<Rightarrow> string option \<Rightarrow> (mcp_state, pydict) em" where
  "invoke_tool M tool args auth header_key body_key run_id =
     etry (execute_tool M tool args auth
         (case header_key of Some (x # xs) \<Rightarrow> Some (x # xs) | _ \<Rightarrow> body_key) run_id None)
       (\<lambda>e. if is_tool_error e
            then eraise (HTTPException (status_of_code (exc_tag e)) (exc_tag e) (exc_msg e))
            else eraise e)"

definition read_service :: "string \<Rightarrow> pydict presult" where
  "read_service name = (case get_service name of
     None \<Rightarrow> Inl (HTTPException 404 [] (''unknown service '' @ name)) | Some svc \<Rightarrow> Inr svc)"

definition read_runbook :: "string \<Rightarrow> pydict presult" where
  "read_runbook runbook_id = (case get_runbook runbook_id of
     None \<Rightarrow> Inl (HTTPException 404 [] (''unknown runbook '' @ runbook_id))
   | Some rb \<Rightarrow> Inr (dmerge [(''untrusted'', PBool True)] rb))"

definition get_prompt :: "string \<Rightarrow> (string \<times> string) list \<Rightarrow> pydict presult" where
  "get_prompt name params =
     (if map_of PROMPTS name = None then Inl (HTTPException 404 [] (''unknown prompt '' @ name))
      else case render_prompt name params of
          Inl e \<Rightarrow> if exc_class e \<in> {EKey, EValue} then Inl (HTTPException 422 [] (exc_msg e)) else Inl e
        | Inr t \<Rightarrow> Inr [(''name'', PStr name), (''text'', PStr t)])"

text \<open>\<^verbatim>\<open>AUDIT_LOG[-limit:]\<close>: with a limit of zero the slice is the whole log.\<close>

definition slice_from :: "int \<Rightarrow> 'a list \<Rightarrow> 'a list" where
  "slice_from k xs = (if 0 \<le> k then drop (nat k) xs else drop (length xs - nat (- k)) xs)"

definition audit_tail :: "int \<Rightarrow> mcp_state \<Rightarrow> ToolInvocation list" where
  "audit_tail limit s = slice_from (- limit) (AUDIT_LOG s)"

text \<open>The routes that only report: health, the catalog and the prompts.\<close>

definition mcp_health :: pydict where
  "mcp_health = [(''status'', PStr ''ok''), (''service'', PStr ''mcp-server'')]"

definition metadata_dump :: "ToolMetadata \<Rightarrow> pydict" where
  "metadata_dump m = [(''schema_version'', PStr ''1.0''), (''name'', PStr (tm_name m)),
     (''description'', PStr (tm_description m)), (''category'', PStr (ToolCategory_value (tm_category m))),
     (''side_effect'', PStr (SideEffect_value (tm_side_effect m))), (''idempotent'', PBool (tm_idempotent m)),
     (''timeout_seconds'', PInt (tm_timeout_seconds m)),
     (''required_scopes'', PList (map PStr (tm_required_scopes m))),
     (''approval_required'', PBool (tm_approval_required m)),
     (''supports_dry_run'', PBool (tm_supports_dry_run m)), (''owner'', PStr (tm_owner m)),
     (''version'', PStr (tm_version m))]"

definition list_tools :: pydict where
  "list_tools = [(''tools'', PList (map PStr (sort (map fst TOOL_METADATA)))), (''mode'', PStr ''mock''),
     (''metadata'', PList (map (\<lambda>(_, m). PDict (metadata_dump m)) TOOL_METADATA))]"

definition tool_metadata :: "string \<Rightarrow> pydict presult" where
  "tool_metadata tool_name = (case map_of TOOL_METADATA tool_name of
     None \<Rightarrow> Inl (HTTPException 404 [] (''unknown tool '' @ tool_name)) | Some m \<Rightarrow> Inr (metadata_dump m))"

definition list_prompts :: pydict where
  "list_prompts = [(''prompts'', PList (map PStr (sort (map fst PROMPTS))))]"

end
