(* ===== verification/McpProps.thy ===== *)
theory McpProps
  imports McpRoutes
begin

text \<open>
  What the tool gateway guarantees: a result only for an authorised, well-formed call, a single
  audit entry for every outcome it reports, a stored result for a repeated write, and no write
  for a caller that nobody approved. The last part holds concrete calls and the deviations.
\<close>

section \<open>Frame lemmas\<close>

lemma persist_ok: "\<exists>s'. persist_audit_record M iv d tr s = (Inr (), s')"
  by (auto simp: persist_audit_record_def split: option.splits prod.splits)

lemma put_sink_frame [simp]:
  "AUDIT_LOG (put_sink r s) = AUDIT_LOG s" "IDEMPOTENCY_STORE (put_sink r s) = IDEMPOTENCY_STORE s"
  by (auto simp: put_sink_def split: option.splits)

lemma persist_frame [simp]:
  "AUDIT_LOG (snd (persist_audit_record M iv d tr s)) = AUDIT_LOG s"
  "IDEMPOTENCY_STORE (snd (persist_audit_record M iv d tr s)) = IDEMPOTENCY_STORE s"
  by (auto simp: persist_audit_record_def split: option.splits prod.splits)

lemma tick_run: "tick g s = (Inr (g (mc_ticks s)), s\<lparr>mc_ticks := Suc (mc_ticks s)\<rparr>)"
  by (simp add: tick_def run_simps)

lemma on_state_frame:
  "on_state m f = (r, f') \<Longrightarrow>
     fr_status f' = fr_status f \<and> fr_decision f' = fr_decision f \<and> fr_error f' = fr_error f"
  by (auto simp: on_state_def split: prod.splits)

lemma audit_entry_state [simp]: "audit_entry iv (f\<lparr>fr_state := s\<rparr>) oh tr c = audit_entry iv f oh tr c"
  by (simp add: audit_entry_def)

text \<open>The audit of a call: the entry is appended and written through, or its contract fails and
  nothing is recorded.\<close>

lemma audit_cases:
  obtains (recorded) entry tr f' where
      "audit_entry iv f oh tr (mv_clock M (Suc (mc_ticks (fr_state f)))) = Inr entry"
      "tr = mv_trace_id M (mc_ticks (fr_state f))"
      "audit M iv oh f = (Inr (), f')" "AUDIT_LOG (fr_state f') = AUDIT_LOG (fr_state f) @ [entry]"
      "IDEMPOTENCY_STORE (fr_state f') = IDEMPOTENCY_STORE (fr_state f)"
  | (refused) e tr f' where
      "audit_entry iv f oh tr (mv_clock M (Suc (mc_ticks (fr_state f)))) = Inl e"
      "tr = mv_trace_id M (mc_ticks (fr_state f))"
      "audit M iv oh f = (Inl e, f')" "AUDIT_LOG (fr_state f') = AUDIT_LOG (fr_state f)"
      "IDEMPOTENCY_STORE (fr_state f') = IDEMPOTENCY_STORE (fr_state f)"
proof (cases "audit_entry iv f oh (mv_trace_id M (mc_ticks (fr_state f)))
    (mv_clock M (Suc (mc_ticks (fr_state f))))")
  case (Inl e)
  show ?thesis
    by (rule refused [OF Inl refl, of "f\<lparr>fr_state := (fr_state f)\<lparr>mc_ticks := Suc (Suc (mc_ticks (fr_state f)))\<rparr>\<rparr>"])
      (simp_all add: audit_def run_simps on_state_def tick_run Inl)
next
  case (Inr entry)
  let ?s = "(fr_state f)\<lparr>mc_ticks := Suc (Suc (mc_ticks (fr_state f))),
     AUDIT_LOG := AUDIT_LOG (fr_state f) @ [entry]\<rparr>"
  let ?m = "persist_audit_record M iv (audit_decision M iv (fr_decision f) (fr_status f) oh (fr_error f))
     (mv_trace_id M (mc_ticks (fr_state f)))"
  obtain s' where s': "?m ?s = (Inr (), s')" using persist_ok by blast
  then have "AUDIT_LOG s' = AUDIT_LOG ?s" "IDEMPOTENCY_STORE s' = IDEMPOTENCY_STORE ?s"
    by (metis persist_frame snd_conv)+
  then show ?thesis
    by (intro recorded [OF Inr refl, of "f\<lparr>fr_state := s'\<rparr>"])
      (simp_all add: audit_def run_simps on_state_def tick_run Inr s')
qed

lemma run_checks_not_tool_error: "run_checks cs x = Inl e \<Longrightarrow> exc_name e = ''ValidationError''"
  by (auto simp: run_checks_def split: list.splits)

lemma audit_entry_error: "audit_entry iv f oh tr c = Inl e \<Longrightarrow> \<not> is_tool_error e"
  by (auto simp: audit_entry_def rbind_def entry_key_def is_tool_error_def validate_ToolInvocation_def
      Let_def dest: run_checks_not_tool_error split: sum.splits if_splits pyval.splits)

section \<open>Authorised results\<close>

text \<open>What a call must satisfy to have a result.\<close>

definition call_allowed :: "mcp_env \<Rightarrow> string \<Rightarrow> ToolMetadata \<Rightarrow> pydict \<Rightarrow> AuthContext \<Rightarrow> bool" where
  "call_allowed M tool meta raw auth \<longleftrightarrow>
     (truthy (dget_none raw ''tenant_id'') \<longrightarrow> dget_none raw ''tenant_id'' = PStr (ac_tenant_id auth)) \<and>
     (''*'' \<in> set (ac_scopes auth) \<or> set (tm_required_scopes meta) \<subseteq> set (ac_scopes auth)) \<and>
     (\<exists>fs d. map_of INPUT_MODELS tool = Some fs \<and> parse_model (mv_pydantic M) fs raw = Some d)"

lemma authorise_ok:
  "authorise iv f = (Inr u, f') \<Longrightarrow> f' = f \<and>
    (truthy (dget_none (iv_raw iv) ''tenant_id'') \<longrightarrow>
       dget_none (iv_raw iv) ''tenant_id'' = PStr (ac_tenant_id (iv_auth iv))) \<and>
    (''*'' \<in> set (ac_scopes (iv_auth iv)) \<or>
       set (tm_required_scopes (iv_meta iv)) \<subseteq> set (ac_scopes (iv_auth iv)))"
  by (auto simp: authorise_def run_simps rbind_def check_tenant_ok require_scope_ok set_decision_def
      split: prod.splits sum.splits if_splits)

lemma validated_ok:
  "validated_args M iv = Inr args \<Longrightarrow>
    \<exists>fs d. map_of INPUT_MODELS (iv_tool iv) = Some fs \<and> parse_model (mv_pydantic M) fs (iv_raw iv) = Some d"
  by (auto simp: validated_args_def split: option.splits if_splits)

lemma write_gate_ok:
  "write_gate iv f = (Inr u, f') \<longleftrightarrow> f' = f\<lparr>fr_decision := AD_ALLOWED\<rparr> \<and>
     (iv_dry_run iv \<or> ac_approved (iv_auth iv) \<and> truthy (iv_key iv))"
  by (auto simp: write_gate_def set_decision_def run_simps check_def split: if_splits)

lemma call_body_ok:
  assumes "call_body M iv f = (Inr res, f')"
  shows "call_allowed M (iv_tool iv) (iv_meta iv) (iv_raw iv) (iv_auth iv)"
    and "iv_tool iv \<in> set WRITE_TOOLS \<Longrightarrow>
      iv_dry_run iv \<or> ac_approved (iv_auth iv) \<and> truthy (iv_key iv)"
proof -
  from assms obtain args f1 c f2 where a: "authorise iv f = (Inr (), f1)"
    and v: "validated_args M iv = Inr args" and
    rest: "(if iv_tool iv \<in> set WRITE_TOOLS then ethen (write_gate iv) (replay M iv) else eret None) f1
       = (Inr c, f2)"
    unfolding call_body_def by (elim then_okE bind_okE) (auto simp: ok_simps)
  from authorise_ok [OF a] validated_ok [OF v]
  show "call_allowed M (iv_tool iv) (iv_meta iv) (iv_raw iv) (iv_auth iv)"
    by (auto simp: call_allowed_def)
  show "iv_dry_run iv \<or> ac_approved (iv_auth iv) \<and> truthy (iv_key iv)" if "iv_tool iv \<in> set WRITE_TOOLS"
    using rest that by (auto elim!: then_okE simp: write_gate_ok)
qed

lemma failed_call_raises: "failed_call M iv e f \<noteq> (Inr res, f')"
  by (auto simp: failed_call_def ok_simps elim!: then_okE)

lemma execute_call_ok: "execute_call M iv f = (Inr res, f') \<longleftrightarrow> call_body M iv f = (Inr res, f')"
  by (auto simp: execute_call_def run_try run_raise failed_call_raises split: prod.splits sum.splits if_splits)

text \<open>The fixed locals of a call.\<close>

lemma start_run:
  obtains iv s' where
    "start_invocation M tool meta raw auth ik run tmo s = (Inr iv, s')"
    "AUDIT_LOG s' = AUDIT_LOG s" "IDEMPOTENCY_STORE s' = IDEMPOTENCY_STORE s"
    "INJECTED_DELAYS s' = INJECTED_DELAYS s"
    "iv_tool iv = tool" "iv_meta iv = meta" "iv_raw iv = raw" "iv_auth iv = auth"
    "iv_redacted_in iv = redact_items raw"
    "iv_input_hash iv = sha256_hex (mv_py M) (PDict (redact_items raw))"
    "iv_dry_run iv = truthy (dget_or raw ''dry_run'' (PBool True))"
    "iv_key iv = (case ik of Some (x # xs) \<Rightarrow> PStr (x # xs) | _ \<Rightarrow> dget_none raw ''idempotency_key'')"
  unfolding start_invocation_def
  by (cases run; cases "the run") (auto simp: run_simps tick_run mcp_new_id_def)

text \<open>The key of a call: the given one, or the argument.\<close>

definition call_key :: "string option \<Rightarrow> pydict \<Rightarrow> pyval" where
  "call_key ik raw = (case ik of Some (x # xs) \<Rightarrow> PStr (x # xs) | _ \<Rightarrow> dget_none raw ''idempotency_key'')"

definition call_dry_run :: "pydict \<Rightarrow> bool" where
  "call_dry_run raw = truthy (dget_or raw ''dry_run'' (PBool True))"

lemma execute_toolE:
  assumes "execute_tool M tool raw auth ik run tmo s = (r, t)" and "map_of TOOL_METADATA tool = Some meta"
  obtains iv s' f where "execute_call M iv (first_frame s') = (r, f)" "t = fr_state f"
    "start_invocation M tool meta raw auth ik run tmo s = (Inr iv, s')"
    "AUDIT_LOG s' = AUDIT_LOG s" "IDEMPOTENCY_STORE s' = IDEMPOTENCY_STORE s"
    "INJECTED_DELAYS s' = INJECTED_DELAYS s"
    "iv_tool iv = tool" "iv_meta iv = meta" "iv_raw iv = raw" "iv_auth iv = auth"
    "iv_redacted_in iv = redact_items raw"
    "iv_input_hash iv = sha256_hex (mv_py M) (PDict (redact_items raw))"
    "iv_dry_run iv = call_dry_run raw" "iv_key iv = call_key ik raw"
  by (rule start_run [of M tool meta raw auth ik run tmo s])
    (use assms that in \<open>fastforce simp: execute_tool_def run_simps call_key_def call_dry_run_def split: prod.splits\<close>)

lemma execute_tool_known:
  "execute_tool M tool raw auth ik run tmo s = (Inr res, t) \<Longrightarrow> \<exists>meta. map_of TOOL_METADATA tool = Some meta"
  by (cases "map_of TOOL_METADATA tool") (auto simp: execute_tool_def ok_simps)

lemma result_authorised:
  assumes "execute_tool M tool raw auth ik run tmo s = (Inr res, t)"
  shows "\<exists>meta. map_of TOOL_METADATA tool = Some meta \<and> call_allowed M tool meta raw auth \<and>
    (tool \<in> set WRITE_TOOLS \<longrightarrow> \<not> call_dry_run raw \<longrightarrow> ac_approved auth \<and> truthy (call_key ik raw))"
proof -
  from execute_tool_known [OF assms] obtain meta where meta: "map_of TOOL_METADATA tool = Some meta" by blast
  from assms meta show ?thesis
    by (rule execute_toolE) (use meta call_body_ok in \<open>fastforce simp: execute_call_ok\<close>)
qed


section \<open>Every outcome is audited\<close>

text \<open>Handlers leave the stores alone.\<close>

definition same_stores :: "mcp_state \<Rightarrow> mcp_state \<Rightarrow> bool" where
  "same_stores s t \<longleftrightarrow> AUDIT_LOG t = AUDIT_LOG s \<and> IDEMPOTENCY_STORE t = IDEMPOTENCY_STORE s \<and>
     INJECTED_DELAYS t = INJECTED_DELAYS s"

interpretation stores: step_relation same_stores
  by unfold_locales (auto simp: same_stores_def)

lemma tick_stores: "obeys same_stores (tick g)"
  by (auto simp: obeys_def tick_run same_stores_def)

lemma mock_logs_stores: "obeys same_stores (mock_logs M q is)"
  by (induction "is") (auto intro!: stores.obeys_intros tick_stores)

lemma handler_stores: "map_of HANDLERS tool = Some h \<Longrightarrow> obeys same_stores (h M args)"
  by (auto simp: HANDLERS_def h_query_metrics_def h_query_logs_def h_get_health_def h_search_def
      h_get_runbook_def h_simulate_def h_get_trace_def h_get_current_release_def h_ticket_create_def
      h_rollback_def Let_def mock_logs_stores intro!: stores.obeys_intros split: if_splits)

text \<open>The frame of a call in which nothing has gone wrong, and the entry a frame is recorded as.\<close>

definition clean :: "ToolInvocation list \<Rightarrow> frame \<Rightarrow> bool" where
  "clean L f \<longleftrightarrow> (\<exists>xs. AUDIT_LOG (fr_state f) = L @ xs) \<and> fr_status f = TI_SUCCEEDED \<and>
     fr_decision f = AD_ALLOWED \<and> fr_error f = None"

definition unrecorded :: "ToolInvocation list \<Rightarrow> frame \<Rightarrow> bool" where
  "unrecorded L f \<longleftrightarrow> (\<exists>xs. AUDIT_LOG (fr_state f) = L @ xs) \<and> fr_status f \<in> {TI_SUCCEEDED, TI_TIMEOUT}"

definition recorded ::
  "ToolInvocation list \<Rightarrow> invocation \<Rightarrow> (frame \<Rightarrow> bool) \<Rightarrow> frame \<Rightarrow> bool" where
  "recorded L iv P f \<longleftrightarrow> (\<exists>xs entry g oh tr c. AUDIT_LOG (fr_state f) = L @ xs @ [entry] \<and>
     audit_entry iv g oh tr c = Inr entry \<and> P g)"

lemma clean_unrecorded: "clean L f \<Longrightarrow> unrecorded L f"
  by (auto simp: clean_def unrecorded_def)

lemma audit_triple:
  "triple (\<lambda>f. (\<exists>xs. AUDIT_LOG (fr_state f) = L @ xs) \<and> P f) (audit M iv oh) (\<lambda>_. recorded L iv P)
     (\<lambda>e f. (\<exists>xs. AUDIT_LOG (fr_state f) = L @ xs) \<and> \<not> is_tool_error e)"
proof (rule tripleI)
  fix f x f'
  assume "(\<exists>xs. AUDIT_LOG (fr_state f) = L @ xs) \<and> P f" and "audit M iv oh f = (Inr x, f')"
  then show "recorded L iv P f'"
    by (cases rule: audit_cases [of iv f oh M]) (auto simp: recorded_def)
next
  fix f e f'
  assume "(\<exists>xs. AUDIT_LOG (fr_state f) = L @ xs) \<and> P f" and "audit M iv oh f = (Inl e, f')"
  then show "(\<exists>xs. AUDIT_LOG (fr_state f') = L @ xs) \<and> \<not> is_tool_error e"
    by (cases rule: audit_cases [of iv f oh M]) (auto dest: audit_entry_error)
qed

text \<open>How the body of a call ends when it raises: with a tool error and no entry yet, or with another
  exception.\<close>

definition raised :: "ToolInvocation list \<Rightarrow> pyexc \<Rightarrow> frame \<Rightarrow> bool" where
  "raised L e f \<longleftrightarrow> (\<exists>xs. AUDIT_LOG (fr_state f) = L @ xs) \<and> (is_tool_error e \<longrightarrow> unrecorded L f)"

lemma raisedI: "unrecorded L f \<Longrightarrow> raised L e f"
  by (auto simp: raised_def unrecorded_def)

abbreviation went_well :: "frame \<Rightarrow> bool" where
  "went_well g \<equiv> fr_status g = TI_SUCCEEDED \<and> fr_decision g = AD_ALLOWED \<and> fr_error g = None"

lemma audit_clean: "triple (clean L) (audit M iv oh) (\<lambda>_. recorded L iv went_well) (raised L)"
  by (rule triple_conseq [OF audit_triple]) (auto simp: clean_def raised_def)

lemma audit_clean_ok: "audit M iv oh f = (Inr u, f') \<Longrightarrow> clean L f \<Longrightarrow> recorded L iv went_well f'"
  using audit_clean tripleD_ok by fast

lemma audit_clean_exc: "audit M iv oh f = (Inl e, f') \<Longrightarrow> clean L f \<Longrightarrow> raised L e f'"
  using audit_clean tripleD_exc by fast

lemma authorise_clean: "triple (clean L) (authorise iv) (\<lambda>_. clean L) (raised L)"
  by (rule tripleI) (auto simp: authorise_def run_simps set_decision_def clean_def raised_def unrecorded_def
      split: sum.splits if_splits)

lemma write_gate_clean: "triple (clean L) (write_gate iv) (\<lambda>_. clean L) (raised L)"
  by (rule tripleI) (auto simp: write_gate_def run_simps set_decision_def clean_def raised_def
      unrecorded_def check_def split: if_splits)

lemma lift_clean: "triple (clean L) (elift r) (\<lambda>_. clean L) (raised L)"
  by (rule tripleI) (auto simp: run_lift intro: raisedI clean_unrecorded)

lemma replay_clean:
  "triple (clean L) (replay M iv)
     (\<lambda>c. case c of None \<Rightarrow> clean L | Some _ \<Rightarrow> recorded L iv went_well) (raised L)"
proof (rule tripleI)
  fix f x f'
  assume "clean L f" and "replay M iv f = (Inr x, f')"
  then show "(case x of None \<Rightarrow> clean L | Some _ \<Rightarrow> recorded L iv went_well) f'"
    by (auto simp: replay_def Let_def ok_simps run_raise elim!: bind_okE then_okE split: if_splits option.splits)
      (erule (1) audit_clean_ok)
next
  fix f e f'
  assume "clean L f" and "replay M iv f = (Inl e, f')"
  then show "raised L e f'"
    by (auto simp: replay_def Let_def run_simps split: if_splits option.splits prod.splits sum.splits
        intro: raisedI clean_unrecorded dest: audit_clean_exc)
qed

lemma on_stores_clean:
  "(\<And>s. \<exists>xs. AUDIT_LOG (snd (m s)) = AUDIT_LOG s @ xs) \<Longrightarrow>
   triple (clean L) (on_state m) (\<lambda>_. clean L) (\<lambda>_. clean L)"
  by (rule tripleI) (auto simp: clean_def on_state_def split: prod.splits, (metis append_assoc snd_conv)+)

text \<open>The other requests of the process only append to the log.\<close>

definition others_append :: "mcp_env \<Rightarrow> bool" where
  "others_append M \<longleftrightarrow> (\<forall>k s. \<exists>xs. AUDIT_LOG (mv_others M k s) = AUDIT_LOG s @ xs)"

lemma clean_raised: "triple P m Q (\<lambda>_. clean L) \<Longrightarrow> triple P m Q (raised L)"
  by (erule triple_conseq) (auto intro: raisedI clean_unrecorded)

lemma keep_ret: "triple P (eret x) (\<lambda>_. P) X"
  by (simp add: triple_def eret_def)

lemma call_handler_clean:
  assumes "others_append M"
  shows "triple (clean L) (call_handler M iv args) (\<lambda>_. clean L) (raised L)"
proof -
  have others: "triple (clean L) (on_state (emod (\<lambda>s. mv_others M (mc_ticks s) s))) (\<lambda>_. clean L) (\<lambda>_. clean L)"
    using assms by (intro on_stores_clean) (simp add: others_append_def run_mod)
  have handled: "triple (clean L) (on_state (h M args)) (\<lambda>_. clean L) (\<lambda>_. clean L)"
    if "map_of HANDLERS (iv_tool iv) = Some h" for h
    using obeysD [OF handler_stores [OF that]] by (intro on_stores_clean) (simp add: same_stores_def)
  have timed_out: "triple (clean L)
      (ethen (emod (\<lambda>f. f\<lparr>fr_status := TI_TIMEOUT\<rparr>)) (eraise e :: (frame, pydict) em))
      (\<lambda>_. clean L) (raised L)" for e
    by (rule tripleI) (auto simp: run_simps clean_def raised_def unrecorded_def)
  show ?thesis
  proof (cases "map_of HANDLERS (iv_tool iv)")
    case None
    then show ?thesis
      by (simp add: call_handler_def) (rule triple_pre [OF triple_raise], blast intro: raisedI clean_unrecorded)
  next
    case (Some h)
    have "triple (clean L) (if c then ethen (emod (\<lambda>f. f\<lparr>fr_status := TI_TIMEOUT\<rparr>)) (eraise e)
        else on_state (h M args)) (\<lambda>_. clean L) (raised L)" for c e
      using timed_out clean_raised [OF handled [OF Some]] by simp
    then show ?thesis
      unfolding call_handler_def Some
      by (auto intro!: triple_bind [OF _ triple_pre [OF triple_get]]
          triple_then [OF _ clean_raised [OF others]])
  qed
qed

lemma finish_clean: "triple (clean L) (finish_call M iv res) (\<lambda>_. recorded L iv went_well) (raised L)"
proof -
  have store: "triple (clean L) (on_state (emod g)) (\<lambda>_. clean L) (raised L)"
    if "\<And>s. AUDIT_LOG (g s) = AUDIT_LOG s" for g
    by (rule clean_raised, rule on_stores_clean) (simp add: run_mod that)
  show ?thesis
    unfolding finish_call_def Let_def
    by (intro triple_then [OF _ lift_clean] triple_then [OF _ store]
        triple_then [OF keep_ret audit_clean]) simp
qed

lemma call_body_clean:
  assumes "others_append M"
  shows "triple (clean L) (call_body M iv) (\<lambda>_. recorded L iv went_well) (raised L)"
proof -
  have gate: "triple (clean L)
     (if iv_tool iv \<in> set WRITE_TOOLS then ethen (write_gate iv) (replay M iv) else eret None)
     (\<lambda>c. case c of None \<Rightarrow> clean L | Some _ \<Rightarrow> recorded L iv went_well) (raised L)"
    by (auto intro: triple_then [OF replay_clean write_gate_clean] triple_pre [OF triple_ret])
  have "triple (case c of None \<Rightarrow> clean L | Some _ \<Rightarrow> recorded L iv went_well)
     (case c of Some c \<Rightarrow> eret c | None \<Rightarrow> ebind (call_handler M iv args) (finish_call M iv))
     (\<lambda>_. recorded L iv went_well) (raised L)" for c args
    by (cases c) (auto intro: keep_ret triple_bind [OF finish_clean call_handler_clean [OF assms]])
  then show ?thesis
    unfolding call_body_def
    by (intro triple_then [OF _ authorise_clean] triple_bind [OF _ lift_clean] triple_bind [OF _ gate])
qed

text \<open>The frame a failed call is recorded with.\<close>

abbreviation went_wrong :: "pyexc \<Rightarrow> frame \<Rightarrow> bool" where
  "went_wrong e g \<equiv> fr_status g \<in> {TI_FAILED, TI_TIMEOUT} \<and>
     fr_error g = Some [(''code'', PStr (exc_tag e)), (''message'', PStr (exc_msg e))] \<and>
     (exc_tag e = ''forbidden'' \<longrightarrow> fr_decision g = AD_DENIED)"

lemma failed_call_recorded:
  "triple (unrecorded L) (failed_call M iv e) (\<lambda>_ _. False)
     (\<lambda>e' f. is_tool_error e' \<longrightarrow> e' = e \<and> recorded L iv (went_wrong e) f)"
  unfolding failed_call_def
  by (rule triple_pre, rule triple_then, rule triple_then, rule triple_raise,
      rule triple_conseq [OF audit_triple [where L = L and P = "went_wrong e"]], assumption,
      simp, simp, rule triple_mod) (auto simp: unrecorded_def)

lemma execute_call_recorded:
  assumes "others_append M"
  shows "triple (clean L) (execute_call M iv) (\<lambda>_. recorded L iv went_well)
     (\<lambda>e f. is_tool_error e \<longrightarrow> recorded L iv (went_wrong e) f)"
proof -
  have "triple (raised L e) (if is_tool_error e then failed_call M iv e else eraise e)
      (\<lambda>_. recorded L iv went_well) (\<lambda>e f. is_tool_error e \<longrightarrow> recorded L iv (went_wrong e) f)" for e
    by (cases "is_tool_error e") (auto simp: raised_def intro: triple_conseq [OF failed_call_recorded]
        triple_pre [OF triple_raise])
  then show ?thesis unfolding execute_call_def by (rule triple_try) (rule call_body_clean [OF assms])
qed

lemma audit_entry_fields:
  assumes "audit_entry iv g oh tr c = Inr entry"
  shows "ti_tool_name entry = strip (iv_tool iv)" "ti_tenant_id entry = strip (ac_tenant_id (iv_auth iv))"
    "ti_redacted_input entry = iv_redacted_in iv" "ti_status entry = fr_status g"
    "ti_authorization_decision entry = Some (fr_decision g)" "ti_error entry = fr_error g"
    "ti_dry_run entry = (iv_tool iv \<in> set WRITE_TOOLS \<and> iv_dry_run iv)"
    "ti_completed_at entry = Some c" "iv_started iv \<le> c"
  using assms by (auto simp: audit_entry_def rbind_Inr_iff validate_ToolInvocation_def Let_def
      strip_ToolInvocation_def)

lemma redact_items_masked: "masked (PDict (redact_items d))"
  using masked_redact [of "PDict d"] by (simp add: redact_items_def)

lemma catalog_name_strip: "map_of TOOL_METADATA tool = Some meta \<Longrightarrow> strip tool = tool"
  by (auto simp: TOOL_METADATA_def catalog_meta_def strip_def is_space_def split: if_splits)

text \<open>The audit entry of an outcome: whose call of which tool it was, with the arguments redacted, and
  how it ended.\<close>

definition entry_of :: "string \<Rightarrow> pydict \<Rightarrow> AuthContext \<Rightarrow> pydict presult \<Rightarrow> ToolInvocation \<Rightarrow> bool" where
  "entry_of tool raw auth r entry \<longleftrightarrow>
     ti_tool_name entry = tool \<and> ti_tenant_id entry = strip (ac_tenant_id auth) \<and>
     ti_redacted_input entry = redact_items raw \<and> masked (PDict (ti_redacted_input entry)) \<and>
     (case r of
        Inr _ \<Rightarrow> ti_status entry = TI_SUCCEEDED \<and> ti_authorization_decision entry = Some AD_ALLOWED \<and>
          ti_error entry = None
      | Inl e \<Rightarrow> ti_status entry \<in> {TI_FAILED, TI_TIMEOUT} \<and>
          ti_error entry = Some [(''code'', PStr (exc_tag e)), (''message'', PStr (exc_msg e))] \<and>
          (exc_tag e = ''forbidden'' \<longrightarrow> ti_authorization_decision entry = Some AD_DENIED))"

text \<open>C21. Every outcome the gateway reports is audited: when a call of a cataloged tool ends with a
  result or a tool error, the last entry of the log is one of this call, with its tenant, its
  redacted arguments (no value under a sensitive key is left) and its outcome; a refusal is
  recorded as denied, and nothing already in the log is changed.\<close>

theorem every_outcome_audited:
  assumes "others_append M" and "map_of TOOL_METADATA tool = Some meta"
    and "execute_tool M tool raw auth ik run tmo s = (r, t)"
    and "\<And>e. r = Inl e \<Longrightarrow> is_tool_error e"
  shows "\<exists>xs entry. AUDIT_LOG t = AUDIT_LOG s @ xs @ [entry] \<and> entry_of tool raw auth r entry"
  using assms(3,2)
proof (rule execute_toolE)
  fix iv s' f
  assume run: "execute_call M iv (first_frame s') = (r, f)" and t: "t = fr_state f"
    and log: "AUDIT_LOG s' = AUDIT_LOG s"
    and iv: "iv_tool iv = tool" "iv_auth iv = auth" "iv_redacted_in iv = redact_items raw"
  have "clean (AUDIT_LOG s) (first_frame s')" by (simp add: clean_def first_frame_def log)
  from tripleD_ok [OF execute_call_recorded [OF assms(1)] this]
    tripleD_exc [OF execute_call_recorded [OF assms(1)] this] run assms(4)
  have "recorded (AUDIT_LOG s) iv (case r of Inr _ \<Rightarrow> went_well | Inl e \<Rightarrow> went_wrong e) f"
    by (cases r) auto
  then obtain xs entry g oh tr c where "AUDIT_LOG t = AUDIT_LOG s @ xs @ [entry]"
    and entry: "audit_entry iv g oh tr c = Inr entry"
    and g: "(case r of Inr _ \<Rightarrow> went_well | Inl e \<Rightarrow> went_wrong e) g"
    unfolding recorded_def t by blast
  moreover have "entry_of tool raw auth r entry"
    using g redact_items_masked [of raw] catalog_name_strip [OF assms(2)]
    by (auto simp: entry_of_def audit_entry_fields [OF entry] iv split: sum.splits)
  ultimately show ?thesis by blast
qed

text \<open>A key the contract of the audit entry does not accept.\<close>

definition bad_key :: "pyval \<Rightarrow> bool" where
  "bad_key v = (case v of PNone \<Rightarrow> False | PStr s \<Rightarrow> \<not> len_in 1 128 (strip s) | _ \<Rightarrow> True)"

lemma bad_key_entry:
  assumes "iv_tool iv \<in> set WRITE_TOOLS" and "bad_key (iv_key iv)"
  shows "audit_entry iv f oh tr c \<noteq> Inr entry"
  using assms by (auto simp: audit_entry_def entry_key_def rbind_def bad_key_def validate_ToolInvocation_def
      Let_def strip_ToolInvocation_def opt_len_in_def split: sum.splits pyval.splits)

text \<open>With such a key nothing of the call reaches the log.\<close>

definition same_log :: "frame \<Rightarrow> frame \<Rightarrow> bool" where
  "same_log f g \<longleftrightarrow> AUDIT_LOG (fr_state g) = AUDIT_LOG (fr_state f)"

interpretation log: step_relation same_log
  by unfold_locales (auto simp: same_log_def)

definition others_quiet :: "mcp_env \<Rightarrow> bool" where
  "others_quiet M \<longleftrightarrow> (\<forall>k s. AUDIT_LOG (mv_others M k s) = AUDIT_LOG s)"

lemma others_quiet_append: "others_quiet M \<Longrightarrow> others_append M"
  by (simp add: others_quiet_def others_append_def)

lemma log_on_state: "(\<And>s. AUDIT_LOG (snd (m s)) = AUDIT_LOG s) \<Longrightarrow> obeys same_log (on_state m)"
  by (rule obeysI) (auto simp: same_log_def on_state_def split: prod.splits, metis snd_conv)

lemma log_mod: "(\<And>f. fr_state (g f) = fr_state f) \<Longrightarrow> obeys same_log (emod g)"
  by (simp add: obeys_def run_mod same_log_def)

lemma bad_key_audit:
  assumes "iv_tool iv \<in> set WRITE_TOOLS" and "bad_key (iv_key iv)"
  shows "obeys same_log (audit M iv oh)"
proof (rule obeysI)
  fix f
  show "same_log f (snd (audit M iv oh f))"
    by (cases rule: audit_cases [of iv f oh M]) (auto simp: same_log_def bad_key_entry [OF assms])
qed

lemma bad_key_log:
  assumes "iv_tool iv \<in> set WRITE_TOOLS" and "bad_key (iv_key iv)" and "others_quiet M"
  shows "obeys same_log (execute_call M iv)"
proof -
  have handled: "obeys same_log (on_state (h M args))" if "map_of HANDLERS (iv_tool iv) = Some h" for h args
    using obeysD [OF handler_stores [OF that]] by (intro log_on_state) (simp add: same_stores_def)
  have others: "obeys same_log (on_state (emod (\<lambda>s. mv_others M (mc_ticks s) s)))"
    using assms(3) by (intro log_on_state) (simp add: run_mod others_quiet_def)
  note steps = log.obeys_intros bad_key_audit [OF assms(1,2)] log_mod handled others log_on_state
  have "obeys same_log (authorise iv)" "obeys same_log (write_gate iv)" "obeys same_log (replay M iv)"
    "\<And>args. obeys same_log (call_handler M iv args)" "\<And>res. obeys same_log (finish_call M iv res)"
    "\<And>e. obeys same_log (failed_call M iv e)"
    unfolding authorise_def write_gate_def replay_def call_handler_def finish_call_def failed_call_def
      set_decision_def Let_def
    by (intro steps; simp add: run_mod)+
  then show ?thesis
    unfolding execute_call_def call_body_def by (intro log.obeys_intros)
qed

text \<open>The audit fails where the idempotency key of a write tool is not one the audit contract
  accepts (empty, longer than 128 characters, or not text): the call ends with an exception other
  than a tool error, so it is answered as an internal error, and the log stays as it was, although
  with a key from the header the handler has run.\<close>

theorem bad_key_unaudited:
  assumes "others_quiet M" and "tool \<in> set WRITE_TOOLS" and "bad_key (call_key ik raw)"
    and "execute_tool M tool raw auth ik run tmo s = (r, t)"
  shows "(\<exists>e. r = Inl e \<and> \<not> is_tool_error e) \<and> AUDIT_LOG t = AUDIT_LOG s"
proof -
  from assms(2) obtain meta where meta: "map_of TOOL_METADATA tool = Some meta"
    by (auto simp: WRITE_TOOLS_def TOOL_METADATA_def catalog_meta_def)
  from assms(4) meta show ?thesis
  proof (rule execute_toolE)
    fix iv s' f
    assume run: "execute_call M iv (first_frame s') = (r, f)" and log: "AUDIT_LOG s' = AUDIT_LOG s"
      and iv: "iv_tool iv = tool" "iv_key iv = call_key ik raw" and t: "t = fr_state f"
    have c: "clean (AUDIT_LOG s) (first_frame s')" by (simp add: clean_def first_frame_def log)
    have no: "\<not> recorded (AUDIT_LOG s) iv P f" for P
      using bad_key_entry assms(2,3) by (auto simp: recorded_def iv)
    note rec = execute_call_recorded [OF others_quiet_append [OF assms(1)]]
    have "AUDIT_LOG t = AUDIT_LOG s"
      using obeys_eq [OF bad_key_log run] assms by (simp add: same_log_def first_frame_def log t iv)
    moreover have "\<exists>e. r = Inl e \<and> \<not> is_tool_error e"
      using run no tripleD_ok [OF rec c] tripleD_exc [OF rec c] by (cases r) fast+
    ultimately show ?thesis by simp
  qed
qed

section \<open>Repeated writes\<close>

text \<open>What the platform is relied on for: identifiers of hexadecimal digits, digests of a bounded
  length, a clock that does not go back, and bounded trace identifiers.\<close>

definition sane_platform :: "mcp_env \<Rightarrow> bool" where
  "sane_platform M \<longleftrightarrow> (\<forall>k. list_all id_char (mv_uuid_hex M k)) \<and>
     (\<forall>j k. j \<le> k \<longrightarrow> mv_clock M j \<le> mv_clock M k) \<and>
     (\<forall>x. len_in 1 256 (strip (sha256_hexdigest (mv_py M) x))) \<and>
     (\<forall>k. opt_len_in 0 128 (ostrip (mv_trace_id M k)))"

text \<open>A caller and a run name the audit contract accepts.\<close>

definition nameable :: "AuthContext \<Rightarrow> string option \<Rightarrow> bool" where
  "nameable auth run \<longleftrightarrow> ident (strip (ac_tenant_id auth)) \<and>
     (case run of Some (x # xs) \<Rightarrow> ident (strip (x # xs)) | _ \<Rightarrow> True)"

lemma new_id_ident:
  assumes "sane_platform M" and "p \<noteq> []" "list_all id_char p" "length p \<le> 8"
  shows "ident (strip (p @ ''_'' @ take 12 (mv_uuid_hex M k)))"
proof -
  have "list_all id_char (take 12 (mv_uuid_hex M k))"
    using assms(1) by (auto simp: sane_platform_def list_all_iff dest: in_set_takeD)
  then have "list_all id_char (p @ ''_'' @ take 12 (mv_uuid_hex M k))"
    using assms(3) by (simp add: id_char_def)
  then show ?thesis using assms(2,4) by (simp add: strip_id_pattern ident_def len_in_def id_pattern_def)
qed

text \<open>A call whose audit entry meets its contract.\<close>

definition auditable :: "mcp_env \<Rightarrow> invocation \<Rightarrow> mcp_state \<Rightarrow> bool" where
  "auditable M iv s \<longleftrightarrow> sane_platform M \<and> iv_tool iv \<in> set WRITE_TOOLS \<and>
     map_of TOOL_METADATA (iv_tool iv) = Some (iv_meta iv) \<and>
     ident (strip (iv_id iv)) \<and> ident (strip (iv_run_id iv)) \<and> ident (strip (ac_tenant_id (iv_auth iv))) \<and>
     len_in 1 256 (strip (iv_input_hash iv)) \<and> \<not> bad_key (iv_key iv) \<and>
     iv_started iv \<le> mv_clock M (mc_ticks s)"

lemma start_auditable:
  assumes "start_invocation M tool meta raw auth ik run tmo s = (Inr iv, s')" and "sane_platform M"
    and "nameable auth run" and "\<not> bad_key (call_key ik raw)" and "tool \<in> set WRITE_TOOLS"
    and "map_of TOOL_METADATA tool = Some meta"
  shows "auditable M iv s'"
proof -
  have ids: "ident (strip (''inv'' @ ''_'' @ take 12 (mv_uuid_hex M k)))"
    "ident (strip (''run'' @ ''_'' @ take 12 (mv_uuid_hex M k)))" for k
    using assms(2) by (rule new_id_ident; simp add: id_char_def is_alnum_def is_ascii_lower_def)+
  have clock: "mv_clock M j \<le> mv_clock M k" if "j \<le> k" for j k
    using assms(2) that by (simp add: sane_platform_def)
  have hash: "len_in 1 256 (strip (sha256_hex (mv_py M) x))" for x
    using assms(2) by (simp add: sane_platform_def sha256_hex_def)
  from assms(1,3-6) ids clock hash assms(2) show ?thesis
    by (auto simp: start_invocation_def run_simps tick_run mcp_new_id_def auditable_def nameable_def call_key_def
        split: option.splits list.splits)
qed

lemma write_tool_texts:
  assumes "tool \<in> set WRITE_TOOLS" and "map_of TOOL_METADATA tool = Some meta"
  shows "len_in 1 128 (strip tool)" "tool_name_pattern (strip tool)" "len_in 1 32 (strip (tm_version meta))"
    "version_pattern 3 (strip (tm_version meta))"
proof -
  have "len_in 1 128 (strip ''deployment.rollback'') \<and> tool_name_pattern (strip ''deployment.rollback'') \<and>
      len_in 1 128 (strip ''ticket.create'') \<and> tool_name_pattern (strip ''ticket.create'') \<and>
      len_in 1 32 (strip ''1.0.0'') \<and> version_pattern 3 (strip ''1.0.0'')"
    by code_simp
  then show "len_in 1 128 (strip tool)" "tool_name_pattern (strip tool)"
    "len_in 1 32 (strip (tm_version meta))" "version_pattern 3 (strip (tm_version meta))"
    using assms by (auto simp: WRITE_TOOLS_def TOOL_METADATA_def catalog_meta_def TOOL_VERSION_def)
qed

lemma auditable_audit:
  assumes "auditable M iv (fr_state f)" and "opt_len_in 1 256 (ostrip oh)"
  obtains f' where "audit M iv oh f = (Inr (), f')"
    "IDEMPOTENCY_STORE (fr_state f') = IDEMPOTENCY_STORE (fr_state f)"
proof -
  have clock: "iv_started iv \<le> mv_clock M (Suc (mc_ticks (fr_state f)))"
    using assms(1) unfolding auditable_def sane_platform_def by (meson le_SucI order_refl order_trans)
  have trace: "opt_len_in 0 128 (ostrip (mv_trace_id M k))" for k
    using assms(1) by (simp add: auditable_def sane_platform_def)
  from assms(1) obtain key where key: "entry_key iv = Inr key" "opt_len_in 1 128 (ostrip key)"
    by (cases "iv_key iv") (auto simp: auditable_def entry_key_def bad_key_def opt_len_in_def)
  have "\<exists>entry. audit_entry iv f oh (mv_trace_id M (mc_ticks (fr_state f)))
      (mv_clock M (Suc (mc_ticks (fr_state f)))) = Inr entry"
    using assms(1) assms(2) write_tool_texts [of "iv_tool iv" "iv_meta iv"] clock trace key(2)
    by (simp add: audit_entry_def key(1) validate_ToolInvocation_def Let_def strip_ToolInvocation_def
        auditable_def opt_len_in_def)
  then show ?thesis
    by (cases rule: audit_cases [of iv f oh M]) (auto intro: that)
qed

text \<open>The write tools take text and booleans only, so their validated arguments can be dumped.\<close>

lemma all_some_set: "all_some xs = Some ys \<Longrightarrow> y \<in> set ys \<Longrightarrow> Some y \<in> set xs"
  by (induction xs arbitrary: ys rule: all_some.induct) auto

lemma field_value_json:
  "field_value X k v = Some w \<Longrightarrow> k \<noteq> KDict \<Longrightarrow> json_safe w"
  by (cases k) (auto simp: Let_def split: pyval.splits if_splits option.splits)

lemma parse_model_json:
  assumes "parse_model X fs raw = Some d"
    and "list_all (\<lambda>f. fd_kind f \<noteq> KDict \<and> (case fd_default f of None \<Rightarrow> True | Some v \<Rightarrow> json_safe v)) fs"
  shows "json_safe (PDict d)"
proof -
  from assms(1) have all: "all_some (map (parse_field X raw) fs) = Some d"
    by (simp add: parse_model_def split: if_splits)
  have "json_safe v" if kv: "(k, v) \<in> set d" for k v
  proof -
    from all_some_set [OF all kv] obtain f where f: "f \<in> set fs" "parse_field X raw f = Some (k, v)" by force
    with assms(2) have "fd_kind f \<noteq> KDict" "fd_default f = Some w \<Longrightarrow> json_safe w" for w
      by (auto simp: list_all_iff)
    with f(2) show ?thesis
      by (auto simp: parse_field_def split: option.splits if_splits intro: field_value_json)
  qed
  then show ?thesis by (auto simp: list_all_iff)
qed

lemma write_args_valid:
  assumes "call_allowed M (iv_tool iv) meta (iv_raw iv) auth" and "iv_tool iv \<in> set WRITE_TOOLS"
  shows "\<exists>args. validated_args M iv = Inr args"
proof -
  from assms(1) obtain fs d where fs: "map_of INPUT_MODELS (iv_tool iv) = Some fs"
    and d: "parse_model (mv_pydantic M) fs (iv_raw iv) = Some d" by (auto simp: call_allowed_def)
  have "list_all (\<lambda>f. fd_kind f \<noteq> KDict \<and> (case fd_default f of None \<Rightarrow> True | Some v \<Rightarrow> json_safe v)) fs"
    using assms(2) fs by (auto simp: WRITE_TOOLS_def INPUT_MODELS_def RollbackInput_def TicketCreateInput_def
        TENANT_def idempotency_field_def required_def nullable_def with_default_def)
  from parse_model_json [OF d this] show ?thesis by (simp add: validated_args_def fs d)
qed

lemma authorise_allowed:
  assumes "call_allowed M (iv_tool iv) (iv_meta iv) (iv_raw iv) (iv_auth iv)"
  shows "authorise iv f = (Inr (), f)"
proof -
  have "check_tenant (iv_auth iv) (dget_none (iv_raw iv) ''tenant_id'') = Inr (ac_tenant_id (iv_auth iv))"
    using assms by (simp add: check_tenant_ok call_allowed_def)
  moreover have "require_scope (iv_auth iv) (tm_required_scopes (iv_meta iv)) = Inr ()"
    using assms by (simp add: require_scope_ok call_allowed_def)
  ultimately show ?thesis by (simp add: authorise_def run_simps)
qed

text \<open>A write that passes its checks and finds its key: the stored result for the same input, a
  conflict for another.\<close>

lemma known_key:
  assumes "call_allowed M (iv_tool iv) (iv_meta iv) (iv_raw iv) (iv_auth iv)"
    and gate: "iv_dry_run iv \<or> ac_approved (iv_auth iv)" and key: "truthy (iv_key iv)"
    and aud: "auditable M iv s" and seen: "map_of (IDEMPOTENCY_STORE s) (store_key M iv) = Some (h, res)"
  shows "\<exists>f. execute_call M iv (first_frame s) =
      (if h = iv_input_hash iv then Inr (dset res ''deduplicated'' (PBool True))
       else Inl (MCPToolError ''conflict'' ''idempotency key already used with different input''), f) \<and>
    IDEMPOTENCY_STORE (fr_state f) = IDEMPOTENCY_STORE s"
proof -
  have w: "iv_tool iv \<in> set WRITE_TOOLS" using aud by (simp add: auditable_def)
  obtain args where args: "validated_args M iv = Inr args" using write_args_valid [OF assms(1) w] by blast
  let ?f = "(first_frame s)\<lparr>fr_decision := AD_ALLOWED\<rparr>"
  have "write_gate iv (first_frame s) = (Inr (), ?f)" using gate key by (simp add: write_gate_ok)
  note run = execute_call_def call_body_def run_simps authorise_allowed [OF assms(1)] args w this
  have seen': "map_of (IDEMPOTENCY_STORE (fr_state ?f)) (store_key M iv) = Some (h, res)"
    using seen by (simp add: first_frame_def)
  show ?thesis
  proof (cases "h = iv_input_hash iv")
    case True
    let ?h = "sha256_hex (mv_py M) (mcp_redact (PDict (dset res ''deduplicated'' (PBool True))))"
    have "opt_len_in 1 256 (ostrip (Some ?h))"
      using aud by (simp add: auditable_def sane_platform_def sha256_hex_def opt_len_in_def)
    moreover have "auditable M iv (fr_state ?f)" using aud by (simp add: first_frame_def)
    ultimately obtain f' where "audit M iv (Some ?h) ?f = (Inr (), f')"
      and st: "IDEMPOTENCY_STORE (fr_state f') = IDEMPOTENCY_STORE s"
      using auditable_audit [of M iv ?f "Some ?h"] by (auto simp: first_frame_def)
    then have "replay M iv ?f = (Inr (Some (dset res ''deduplicated'' (PBool True))), f')"
      using True seen' by (simp add: replay_def key run_simps Let_def)
    with True st show ?thesis by (simp add: run)
  next
    case False
    let ?e = "MCPToolError ''conflict'' ''idempotency key already used with different input''"
    let ?g = "?f\<lparr>fr_status := TI_FAILED,
      fr_error := Some [(''code'', PStr (exc_tag ?e)), (''message'', PStr (exc_msg ?e))]\<rparr>"
    have "auditable M iv (fr_state ?g)" using aud by (simp add: first_frame_def)
    then obtain f' where "audit M iv None ?g = (Inr (), f')"
      and st: "IDEMPOTENCY_STORE (fr_state f') = IDEMPOTENCY_STORE s"
      by (rule auditable_audit) (auto simp: opt_len_in_def first_frame_def)
    then have "failed_call M iv ?e ?f = (Inl ?e, f')"
      by (simp add: failed_call_def run_simps MCPToolError_def first_frame_def)
    moreover have "replay M iv ?f = (Inl ?e, ?f)"
      using False seen' by (auto simp: replay_def key run_simps)
    ultimately show ?thesis using False st by (simp add: run is_tool_error_def MCPToolError_def)
  qed
qed

text \<open>A write with a key that returns leaves its result under the key.\<close>

definition others_keep_keys :: "mcp_env \<Rightarrow> bool" where
  "others_keep_keys M \<longleftrightarrow> (\<forall>k s. IDEMPOTENCY_STORE (mv_others M k s) = IDEMPOTENCY_STORE s)"

lemma audit_store: "audit M iv oh f = (r, f') \<Longrightarrow> IDEMPOTENCY_STORE (fr_state f') = IDEMPOTENCY_STORE (fr_state f)"
  by (cases rule: audit_cases [of iv f oh M]) auto

lemma handler_store:
  assumes "call_handler M iv args f = (Inr res, f')" and "others_keep_keys M"
  shows "IDEMPOTENCY_STORE (fr_state f') = IDEMPOTENCY_STORE (fr_state f)"
proof -
  from assms(1) obtain h where h: "map_of HANDLERS (iv_tool iv) = Some h"
    by (auto simp: call_handler_def ok_simps split: option.splits)
  have "IDEMPOTENCY_STORE (snd (h M args s)) = IDEMPOTENCY_STORE s" for s
    using obeysD [OF handler_stores [OF h]] by (simp add: same_stores_def)
  moreover have "h M args (mv_others M (mc_ticks (fr_state f)) (fr_state f)) = (Inr res, fr_state f')"
    using assms(1) by (auto simp: call_handler_def h run_simps on_state_def split: if_splits prod.splits)
  ultimately show ?thesis using assms(2) unfolding others_keep_keys_def by (metis snd_conv)
qed

lemma finish_store:
  assumes "finish_call M iv res0 f = (Inr res, f')" and "iv_tool iv \<in> set WRITE_TOOLS" "truthy (iv_key iv)"
    and "map_of (IDEMPOTENCY_STORE (fr_state f)) (store_key M iv) = None"
  shows "map_of (IDEMPOTENCY_STORE (fr_state f')) (store_key M iv) = Some (iv_input_hash iv, res)"
  using assms unfolding finish_call_def Let_def
  by (elim then_okE) (auto simp: ok_simps on_state_def run_mod update_conv' dest: audit_store)

lemma first_write_stores:
  assumes "call_body M iv f = (Inr res, f')" and w: "iv_tool iv \<in> set WRITE_TOOLS" and k: "truthy (iv_key iv)"
    and "others_keep_keys M" and new: "map_of (IDEMPOTENCY_STORE (fr_state f)) (store_key M iv) = None"
  shows "map_of (IDEMPOTENCY_STORE (fr_state f')) (store_key M iv) = Some (iv_input_hash iv, res)"
proof -
  have rep: "replay M iv g = (Inr None, g)" if "fr_state g = fr_state f" for g
    using new that by (simp add: replay_def k run_simps)
  from assms(1) obtain args res0 g where h: "call_handler M iv args (f\<lparr>fr_decision := AD_ALLOWED\<rparr>) = (Inr res0, g)"
    and fin: "finish_call M iv res0 g = (Inr res, f')"
    unfolding call_body_def
    by (elim then_okE bind_okE) (auto simp: w ok_simps write_gate_ok rep
        dest!: authorise_ok elim!: then_okE bind_okE)
  show ?thesis
    by (rule finish_store [OF fin w k]) (use handler_store [OF h assms(4)] new in simp)
qed


section \<open>Callers of the gateway\<close>

lemma auth_or_401_not_approved:
  assumes "auth_or_401 A hs attached st = (Inr auth, st')"
  shows "\<not> ac_approved auth"
  using assms by (auto simp: auth_or_401_def run_simps from_identity_def Let_def dest: from_headers_not_approved
      split: option.splits if_splits prod.splits sum.splits)

lemma origin_and_auth_not_approved:
  "origin_and_auth A path hs st = (Inr (Proceed (Some auth)), st') \<Longrightarrow> \<not> ac_approved auth"
  by (auto simp: origin_and_auth_def run_simps from_identity_def
      split: option.splits if_splits prod.splits sum.splits)

lemma unapproved_write_refused:
  assumes "\<not> ac_approved auth" and "tool \<in> set WRITE_TOOLS" and "\<not> call_dry_run raw"
  shows "\<exists>e t. execute_tool M tool raw auth ik run tmo s = (Inl e, t)"
proof (cases "execute_tool M tool raw auth ik run tmo s")
  case (Pair r t)
  then show ?thesis
    using result_authorised [of M tool raw auth ik run tmo s _ t] assms by (cases r) auto
qed


end
