(* ===== verification/McpChecks.thy ===== *)
theory McpChecks
  imports McpProps
begin

text \<open>
  Concrete calls of the tool gateway: the properties applied to a ticket and a rollback, and the
  calls on which the gateway departs from its documentation.
\<close>

section \<open>Concrete calls\<close>

definition demo_pydantic :: pydantic where
  "demo_pydantic = \<lparr>px_int = (\<lambda>v. case v of PInt i \<Rightarrow> Some i | _ \<Rightarrow> None),
     px_bool = (\<lambda>v. case v of PBool b \<Rightarrow> Some b | _ \<Rightarrow> None),
     px_aware_datetime = (\<lambda>v. case v of PStr s \<Rightarrow> Some s | _ \<Rightarrow> None),
     px_message = (\<lambda>_ _. ''Field required'')\<rparr>"

definition demo_mcp :: mcp_env where
  "demo_mcp = \<lparr>mv_py = plain_env, mv_pydantic = demo_pydantic,
     mv_repo_env = \<lparr>rv_py = plain_env, rv_clock = int, rv_uuid_hex = (\<lambda>_. replicate 32 (CHR ''a'')),
       rv_redact = (\<lambda>d. d), rv_others = (\<lambda>_ d. d), rv_commit_after_failed_flush = Inr ()\<rparr>,
     mv_clock = int, mv_uuid_hex = (\<lambda>_. replicate 32 (CHR ''a'')), mv_trace_id = (\<lambda>_. None),
     mv_times_out = (\<lambda>delay limit. limit < delay), mv_others = (\<lambda>_ s. s)\<rparr>"

definition demo_stores :: mcp_state where
  "demo_stores = \<lparr>AUDIT_LOG = [], IDEMPOTENCY_STORE = [], INJECTED_DELAYS = [], AUDIT_REPO = None,
     gateway_repo = None, mc_ticks = 0\<rparr>"

definition operator :: "bool \<Rightarrow> AuthContext" where
  "operator approved = \<lparr>ac_tenant_id = ''tenant_a'', ac_scopes = [''tools.write.ticket.create''],
     ac_user_id = ''bob'', ac_approved = approved\<rparr>"

definition ticket_args :: pydict where
  "ticket_args = [(''title'', PStr ''disk''), (''dry_run'', PBool False), (''idempotency_key'', PStr ''k1'')]"

definition ticket_result :: pydict where
  "ticket_result = [(''title'', PStr ''disk''), (''severity'', PStr ''medium''), (''dry_run'', PBool False),
     (''executed'', PBool True), (''ticket_id'', PStr ''ticket-mock-1''), (''ref'', PStr ''ticket://t/1''),
     (''mode'', PStr ''mock'')]"

text \<open>The calls are evaluated step by step; \<open>demo_iv\<close> holds the locals of an approved ticket.\<close>

definition ticket_meta :: ToolMetadata where
  "ticket_meta = snd (catalog_meta ''ticket.create'' ''Create a mock ops ticket (propose-only; approval-gated).''
     WRITE SE_EXTERNAL_WRITE False 60 [''tools.write.ticket.create''] True True ''platform'')"

definition demo_iv :: invocation where
  "demo_iv = \<lparr>iv_tool = ''ticket.create'', iv_meta = ticket_meta,
     iv_raw = ticket_args, iv_auth = operator True, iv_timeout_override = None, iv_started = 0,
     iv_id = ''inv_aaaaaaaaaaaa'', iv_run_id = ''run_aaaaaaaaaaaa'', iv_redacted_in = ticket_args,
     iv_input_hash = replicate 64 (CHR ''0''), iv_dry_run = False, iv_key = PStr ''k1''\<rparr>"

lemma demo_start:
  "start_invocation demo_mcp ''ticket.create'' ticket_meta ticket_args
     (operator True) None None None demo_stores = (Inr demo_iv, demo_stores\<lparr>mc_ticks := 3\<rparr>)"
  by code_simp

lemma demo_meta: "map_of TOOL_METADATA ''ticket.create'' = Some ticket_meta"
  by (simp add: TOOL_METADATA_def catalog_meta_def ticket_meta_def)

lemma demo_sane: "sane_platform demo_mcp"
proof -
  have "list_all id_char (replicate 32 (CHR ''a''))" "len_in 1 256 (strip (replicate 64 (CHR ''0'')))"
    by code_simp+
  then show ?thesis by (simp add: sane_platform_def demo_mcp_def plain_env_def opt_len_in_def)
qed

lemma demo_others [simp]: "others_append demo_mcp" "others_quiet demo_mcp" "others_keep_keys demo_mcp"
  by (simp_all add: others_append_def others_quiet_def others_keep_keys_def demo_mcp_def)

lemma demo_nameable: "nameable (operator b) None"
proof -
  have "ident (strip ''tenant_a'')" by code_simp
  then show ?thesis by (simp add: nameable_def operator_def)
qed

lemma demo_key: "call_key None ticket_args = PStr ''k1''" "\<not> bad_key (PStr ''k1'')"
proof -
  show "call_key None ticket_args = PStr ''k1''" by code_simp
  show "\<not> bad_key (PStr ''k1'')" by code_simp
qed

lemma demo_auditable: "auditable demo_mcp demo_iv (demo_stores\<lparr>mc_ticks := 3\<rparr>)"
  using demo_start demo_sane demo_nameable _ _ demo_meta
  by (rule start_auditable) (simp_all add: demo_key WRITE_TOOLS_def)

lemma demo_finish:
  "\<exists>f. finish_call demo_mcp demo_iv ticket_result (first_frame (demo_stores\<lparr>mc_ticks := 3\<rparr>)) = (Inr ticket_result, f)"
proof -
  have small: "\<not> output_too_large (mv_py demo_mcp) (PDict ticket_result) OUTPUT_MAX_BYTES"
  proof -
    have "length (json_dumps (mv_py demo_mcp) (PDict ticket_result)) < 200" by code_simp
    then show ?thesis by (simp add: output_too_large_def OUTPUT_MAX_BYTES_def)
  qed
  have red: "redact_items ticket_result = ticket_result" by code_simp
  have hash: "opt_len_in 1 256 (ostrip (Some (sha256_hex (mv_py demo_mcp) (PDict ticket_result))))"
    using demo_sane by (simp add: sane_platform_def opt_len_in_def sha256_hex_def)
  let ?s = "(demo_stores\<lparr>mc_ticks := 3\<rparr>)\<lparr>IDEMPOTENCY_STORE :=
     [(store_key demo_mcp demo_iv, iv_input_hash demo_iv, ticket_result)]\<rparr>"
  have "auditable demo_mcp demo_iv (fr_state (first_frame ?s))"
    using demo_auditable by (simp add: auditable_def first_frame_def)
  from this hash obtain f where
    a: "audit demo_mcp demo_iv (Some (sha256_hex (mv_py demo_mcp) (PDict ticket_result))) (first_frame ?s) = (Inr (), f)"
    by (rule auditable_audit)
  have w: "iv_tool demo_iv \<in> set WRITE_TOOLS" "truthy (iv_key demo_iv)"
    by (simp_all add: demo_iv_def WRITE_TOOLS_def)
  have "(first_frame (demo_stores\<lparr>mc_ticks := 3\<rparr>))\<lparr>fr_state := ?s\<rparr> = first_frame ?s"
    by (simp add: first_frame_def)
  with a show ?thesis
    by (simp add: finish_call_def small red Let_def run_simps on_state_def w)
      (simp add: demo_stores_def first_frame_def run_ret)
qed

lemma demo_ticket:
  "fst (execute_tool demo_mcp ''ticket.create'' ticket_args (operator True) None None None demo_stores) =
     Inr ticket_result"
proof -
  let ?f = "first_frame (demo_stores\<lparr>mc_ticks := 3\<rparr>)"
  have "authorise demo_iv ?f = (Inr (), ?f)" "write_gate demo_iv ?f = (Inr (), ?f)"
    "replay demo_mcp demo_iv ?f = (Inr None, ?f)"
    "call_handler demo_mcp demo_iv
       [(''tenant_id'', PStr ''tenant_a''), (''title'', PStr ''disk''), (''severity'', PStr ''medium''),
        (''description'', PNone), (''service'', PNone), (''dry_run'', PBool False),
        (''idempotency_key'', PStr ''k1'')] ?f = (Inr ticket_result, ?f)"
    "validated_args demo_mcp demo_iv = Inr
       [(''tenant_id'', PStr ''tenant_a''), (''title'', PStr ''disk''), (''severity'', PStr ''medium''),
        (''description'', PNone), (''service'', PNone), (''dry_run'', PBool False),
        (''idempotency_key'', PStr ''k1'')]" "iv_tool demo_iv \<in> set WRITE_TOOLS"
    by code_simp+
  with demo_finish show ?thesis
    by (auto simp: execute_tool_def demo_meta run_simps demo_start execute_call_def call_body_def)
qed

lemma demo_ticket_run: "\<exists>t. execute_tool demo_mcp ''ticket.create'' ticket_args (operator True) None None None demo_stores =
    (Inr ticket_result, t)"
  using demo_ticket by (metis prod.collapse)


theorem every_outcome_audited_witness:
  "\<exists>(t :: mcp_state) xs entry. AUDIT_LOG t = xs @ [entry] \<and> entry_of ''ticket.create'' ticket_args (operator True) (Inr ticket_result) entry"
proof -
  from demo_ticket_run obtain t where
    run: "execute_tool demo_mcp ''ticket.create'' ticket_args (operator True) None None None demo_stores =
      (Inr ticket_result, t)" by blast
  from every_outcome_audited [OF _ demo_meta run] show ?thesis by (simp add: demo_stores_def) blast
qed


theorem bad_key_unaudited_witness:
  "AUDIT_LOG (snd (execute_tool demo_mcp ''ticket.create'' ticket_args (operator True)
     (Some (replicate 200 (CHR ''k''))) None None demo_stores)) = []"
proof -
  have "bad_key (call_key (Some (replicate 200 (CHR ''k''))) ticket_args)"
    by code_simp
  from bad_key_unaudited [OF demo_others(2) _ this surjective_pairing] show ?thesis
    by (simp add: WRITE_TOOLS_def demo_stores_def)
qed


section \<open>Deviations\<close>

text \<open>The input model of \<^verbatim>\<open>ticket.create\<close> reads a missing \<^verbatim>\<open>dry_run\<close> as false while the gate reads it as
  true: the ticket is created without approval and without a key, and the call passes the gate as a
  dry run.\<close>

lemma ticket_without_dry_run:
  assumes "iv_tool iv = ''ticket.create''" and "iv_raw iv = [(''title'', PStr title)]"
    and "len_in 1 500 (strip title)" and "iv_dry_run iv = call_dry_run (iv_raw iv)"
  shows "write_gate iv f = (Inr (), f\<lparr>fr_decision := AD_ALLOWED\<rparr>)"
    and "\<exists>args. validated_args M iv = Inr args \<and>
      (\<exists>res. h_ticket_create M args s = (Inr res, s) \<and> dget res ''executed'' = Some (PBool True))"
proof -
  show "write_gate iv f = (Inr (), f\<lparr>fr_decision := AD_ALLOWED\<rparr>)"
    using assms(2,4) by (simp add: write_gate_ok call_dry_run_def)
  have "validated_args M iv = Inr [(''tenant_id'', PStr (ac_tenant_id (iv_auth iv))),
      (''title'', PStr (strip title)), (''severity'', PStr ''medium''), (''description'', PNone),
      (''service'', PNone), (''dry_run'', PBool False), (''idempotency_key'', PNone)]"
    using assms by (simp add: validated_args_def INPUT_MODELS_def parse_model_def TicketCreateInput_def
        parse_field_def TENANT_def idempotency_field_def required_def nullable_def with_default_def
        dget_def dset_def)
  then show "\<exists>args. validated_args M iv = Inr args \<and>
      (\<exists>res. h_ticket_create M args s = (Inr res, s) \<and> dget res ''executed'' = Some (PBool True))"
    by (simp add: h_ticket_create_def run_simps item_def dget_def dget_or_def)
qed

text \<open>A limit of zero asks the audit route for the whole log.\<close>

lemma audit_tail_zero: "audit_tail 0 s = AUDIT_LOG s"
  by (simp add: audit_tail_def slice_from_def)

end
