(* ===== verification/AgUi.thy ===== *)
theory AgUi
  imports Contracts
begin

text \<open>
  \<^verbatim>\<open>packages/protocols/ag_ui.py\<close>: the adapter from the canonical events to those of the user
  interface. An event comes as a dictionary; \<open>event_dump\<close> is the dump of a contract's event, with the
  text of its time as a parameter.
\<close>

section \<open>The mapping\<close>

definition AG_UI_TYPE_BY_CANONICAL :: "(string \<times> string) list" where
  "AG_UI_TYPE_BY_CANONICAL =
     [(EventType_value RUN_STARTED, ''RUN_STARTED''),
      (EventType_value MESSAGE_DELTA, ''TEXT_MESSAGE_CONTENT''),
      (EventType_value TOOL_STARTED, ''TOOL_CALL_START''),
      (EventType_value TOOL_COMPLETED, ''TOOL_CALL_FINISH''),
      (EventType_value AGENT_DELEGATED, ''ACTIVITY''),
      (EventType_value FINDING_CREATED, ''STATE_SNAPSHOT''),
      (EventType_value APPROVAL_REQUIRED, ''FRONTEND_INTERACTION''),
      (EventType_value APPROVAL_RECEIVED, ''STATE_UPDATE''),
      (EventType_value RUN_COMPLETED, ''RUN_FINISHED''),
      (EventType_value RUN_FAILED, ''RUN_ERROR''),
      (EventType_value RUN_CANCELLED, ''RUN_CANCELLED'')]"

definition TERMINAL_AG_UI :: "string list" where
  "TERMINAL_AG_UI = [''RUN_FINISHED'', ''RUN_ERROR'', ''RUN_CANCELLED'']"

definition opt_text_val :: "string option \<Rightarrow> pyval" where
  "opt_text_val v = (case v of None \<Rightarrow> PNone | Some s \<Rightarrow> PStr s)"

text \<open>\<^verbatim>\<open>event.model_dump(mode="json")\<close>, which raises on data that JSON cannot hold.\<close>

definition event_dump :: "(datetime \<Rightarrow> string) \<Rightarrow> AgentEvent \<Rightarrow> pydict presult" where
  "event_dump time_text e =
     (if \<not> json_safe (PDict (ev_data e))
      then Inl (PyExc EValue ''PydanticSerializationError'' ''Unable to serialize unknown type'' [])
      else Inr [(''schema_version'', PStr ''1.0''), (''event_id'', PStr (ev_event_id e)),
        (''run_id'', PStr (ev_run_id e)), (''tenant_id'', PStr (ev_tenant_id e)),
        (''sequence'', PInt (ev_sequence e)), (''type'', PStr (EventType_value (ev_type e))),
        (''timestamp'', PStr (time_text (ev_timestamp e))), (''data'', PDict (ev_data e)),
        (''trace_id'', opt_text_val (ev_trace_id e)), (''correlation_id'', opt_text_val (ev_correlation_id e)),
        (''sensitive'', PBool (ev_sensitive e)), (''safe_for_ui'', PBool (ev_safe_for_ui e))])"

definition is_renderable :: "pydict \<Rightarrow> bool" where
  "is_renderable d =
     (if dget_none d ''sensitive'' = PBool True then False else dget_none d ''safe_for_ui'' = PBool True)"

text \<open>\<^verbatim>\<open>a or b or ...\<close>: the first true value, or the last.\<close>

fun first_true :: "pyval list \<Rightarrow> pyval" where
  "first_true [] = PNone"
| "first_true [v] = v"
| "first_true (v # w # vs) = (if truthy v then v else first_true (w # vs))"

text \<open>The \<^verbatim>\<open>data\<close> of the mapped event.\<close>

definition ui_data :: "string \<Rightarrow> string \<Rightarrow> pydict \<Rightarrow> pydict \<Rightarrow> pydict presult" where
  "ui_data ag_type canonical d data =
     (if ag_type = ''RUN_STARTED'' then Inr (dmerge [(''run_id'', dget_none d ''run_id'')] data)
      else if ag_type = ''TEXT_MESSAGE_CONTENT'' then
        Inr [(''delta'', first_true [dget_none data ''delta'', dget_none data ''text'',
               dget_none data ''clarification_question'', dget_none data ''more_info'',
               dget_none data ''policy_denial'', PStr []]),
             (''raw'', PDict data)]
      else if ag_type = ''TOOL_CALL_START'' \<or> ag_type = ''TOOL_CALL_FINISH'' then
        Inr [(''tool_name'', dget_none data ''tool_name''), (''status'', dget_none data ''status''),
             (''action_id'', dget_none data ''action_id''), (''latency_s'', dget_none data ''latency_s''),
             (''error'', dget_none data ''error''), (''args'', dget_or data ''args'' (PDict []))]
      else if ag_type = ''ACTIVITY'' then
        Inr [(''agent'', dget_none data ''agent''), (''skill_id'', dget_none data ''skill_id''),
             (''task_id'', dget_none data ''task_id''),
             (''status'', dget_or data ''status'' (PStr ''delegated''))]
      else if ag_type = ''STATE_SNAPSHOT'' then
        (case dget_or data ''finding'' (PDict data) of
           PDict finding \<Rightarrow>
             Inr [(''kind'', PStr ''finding''), (''title'', dget_none finding ''title''),
               (''summary'', dget_none finding ''summary''), (''confidence'', dget_none finding ''confidence''),
               (''severity'', dget_none finding ''severity''),
               (''evidence_refs'', dget_or finding ''evidence_refs'' (PList [])),
               (''finding_id'', dget_none finding ''finding_id'')]
         | _ \<Rightarrow> Inl (AttributeError ''object has no attribute 'get' ''))
      else if ag_type = ''FRONTEND_INTERACTION'' then
        Inr [(''kind'', PStr ''approval''), (''actions'', dget_or data ''actions'' (PList [])),
             (''approvals'', dget_or data ''approvals'' (PList []))]
      else if ag_type = ''STATE_UPDATE'' then
        Inr [(''decision'', dget_none data ''decision''), (''approver'', dget_none data ''approver''),
             (''approval_id'', dget_none data ''approval_id'')]
      else if ag_type \<in> set TERMINAL_AG_UI then Inr data
      else Inr [(''canonical_type'', PStr canonical), (''payload'', PDict data)])"

definition ag_type_of :: "string \<Rightarrow> string" where
  "ag_type_of canonical = (case map_of AG_UI_TYPE_BY_CANONICAL canonical of Some t \<Rightarrow> t | None \<Rightarrow> ''UNKNOWN'')"

definition to_ag_ui :: "pyenv \<Rightarrow> pydict \<Rightarrow> pydict option presult" where
  "to_ag_ui E d =
     (if \<not> is_renderable d then Inr None
      else let canonical = py_str E (dget_or d ''type'' (PStr []));
               ag_type = ag_type_of canonical;
               data = (case dget_none d ''data'' of PDict x \<Rightarrow> x | _ \<Rightarrow> [])
        in rbind (ui_data ag_type canonical d data) (\<lambda>ui. Inr (Some
             [(''type'', PStr ag_type), (''sequence'', dget_or d ''sequence'' (PInt 0)),
              (''event_id'', dget_none d ''event_id''), (''run_id'', dget_none d ''run_id''),
              (''timestamp'', dget_none d ''timestamp''), (''trace_id'', dget_none d ''trace_id''),
              (''data'', PDict ui)])))"

text \<open>The events of a batch that are mapped, in their order; then a stable sort by sequence.\<close>

fun map_events :: "pyenv \<Rightarrow> pydict list \<Rightarrow> pydict list presult" where
  "map_events E [] = Inr []"
| "map_events E (e # es) =
     rbind (to_ag_ui E e) (\<lambda>m. rbind (map_events E es) (\<lambda>out.
       Inr (case m of None \<Rightarrow> out | Some x \<Rightarrow> x # out)))"

fun sequence_keys :: "pydict list \<Rightarrow> (int \<times> pydict) list presult" where
  "sequence_keys [] = Inr []"
| "sequence_keys (m # ms) =
     rbind (py_int (dget_or m ''sequence'' (PInt 0))) (\<lambda>k. rbind (sequence_keys ms) (\<lambda>out. Inr ((k, m) # out)))"

definition batch_to_ag_ui :: "pyenv \<Rightarrow> pydict list \<Rightarrow> pydict list presult" where
  "batch_to_ag_ui E events =
     rbind (map_events E events) (\<lambda>out. rbind (sequence_keys out) (\<lambda>ks. Inr (map snd (sort_key fst ks))))"

definition is_terminal_ag_ui :: "pyenv \<Rightarrow> pydict \<Rightarrow> bool" where
  "is_terminal_ag_ui E event = (py_str E (dget_or event ''type'' (PStr [])) \<in> set TERMINAL_AG_UI)"

section \<open>Facts\<close>

lemma dump_fields:
  assumes "event_dump t e = Inr d"
  shows "dget_none d ''sensitive'' = PBool (ev_sensitive e)" "dget_none d ''safe_for_ui'' = PBool (ev_safe_for_ui e)"
    "dget_or d ''type'' v = PStr (EventType_value (ev_type e))" "dget_or d ''sequence'' v = PInt (ev_sequence e)"
    "dget_none d ''event_id'' = PStr (ev_event_id e)" "dget_none d ''data'' = PDict (ev_data e)"
  using assms by (auto simp: event_dump_def split: if_splits)

lemma dump_renderable:
  "event_dump t e = Inr d \<Longrightarrow> is_renderable d \<longleftrightarrow> ev_safe_for_ui e \<and> \<not> ev_sensitive e"
  by (simp add: is_renderable_def dump_fields)

lemma ag_type_known: "ag_type_of (EventType_value ty) \<noteq> ''UNKNOWN''"
  by (cases ty) (simp_all add: ag_type_of_def AG_UI_TYPE_BY_CANONICAL_def)

lemma ag_type_terminal:
  "ag_type_of (EventType_value ty) \<in> set TERMINAL_AG_UI \<longleftrightarrow> ty \<in> {RUN_COMPLETED, RUN_FAILED, RUN_CANCELLED}"
  by (cases ty) (simp_all add: ag_type_of_def AG_UI_TYPE_BY_CANONICAL_def TERMINAL_AG_UI_def)

lemma to_ag_ui_dump:
  assumes "event_dump t e = Inr d" and "to_ag_ui E d = Inr r"
  shows "r = None \<longleftrightarrow> \<not> (ev_safe_for_ui e \<and> \<not> ev_sensitive e)"
    and "r = Some m \<Longrightarrow> dget_or m ''sequence'' v = PInt (ev_sequence e) \<and>
      dget_none m ''event_id'' = PStr (ev_event_id e) \<and>
      dget_or m ''type'' w = PStr (ag_type_of (EventType_value (ev_type e)))"
  using assms(2) dump_renderable [OF assms(1)]
  by (auto simp: to_ag_ui_def Let_def rbind_Inr_iff dump_fields [OF assms(1)] split: if_splits)

text \<open>An event raises in the adapter only where a finding is announced without being a dictionary.\<close>

lemma to_ag_ui_total:
  assumes "event_dump t e = Inr d" and "ev_type e = FINDING_CREATED \<Longrightarrow> is_dict (dget_or (ev_data e) ''finding'' (PDict []))"
  shows "\<exists>r. to_ag_ui E d = Inr r"
proof -
  have "\<exists>ui. ui_data (ag_type_of (EventType_value (ev_type e))) c d (ev_data e) = Inr ui" for c
    using assms(2) by (cases "ev_type e")
      (auto simp: ui_data_def ag_type_of_def AG_UI_TYPE_BY_CANONICAL_def TERMINAL_AG_UI_def dget_or_def
        split: pyval.splits option.splits)
  then show ?thesis
    using dump_fields [OF assms(1)] by (auto simp: to_ag_ui_def Let_def) (metis rbind_simps(2))
qed

lemma map_insort_key:
  "\<forall>x \<in> set (a # xs). k (g x) = j x \<Longrightarrow> map g (insort_key j a xs) = insort_key k (g a) (map g xs)"
  by (induction xs) auto

lemma map_sort_key: "\<forall>x \<in> set xs. k (g x) = j x \<Longrightarrow> map g (sort_key j xs) = sort_key k (map g xs)"
  by (induction xs) (simp_all add: map_insort_key)

lemma map_events_sequences:
  assumes "list_all2 (\<lambda>e d. event_dump t e = Inr d) es ds" and "map_events E ds = Inr out"
  shows "map (\<lambda>m. (dget_or m ''sequence'' (PInt 0), dget_none m ''event_id'')) out =
    map (\<lambda>e. (PInt (ev_sequence e), PStr (ev_event_id e))) (filter (\<lambda>e. ev_safe_for_ui e \<and> \<not> ev_sensitive e) es)"
  using assms
proof (induction arbitrary: out rule: list_all2_induct)
  case Nil
  then show ?case by simp
next
  case (Cons e es d ds)
  then obtain r out' where r: "to_ag_ui E d = Inr r" and o: "map_events E ds = Inr out'"
    and out: "out = (case r of None \<Rightarrow> out' | Some x \<Rightarrow> x # out')"
    by (auto simp: rbind_Inr_iff)
  show ?case
    using Cons.IH [OF o] to_ag_ui_dump [OF Cons(1) r] by (cases r) (auto simp: out)
qed

lemma sequence_keys_ok:
  assumes "\<forall>m \<in> set ms. \<exists>i. dget_or m ''sequence'' (PInt 0) = PInt i"
  shows "sequence_keys ms =
    Inr (map (\<lambda>m. ((case dget_or m ''sequence'' (PInt 0) of PInt i \<Rightarrow> i | _ \<Rightarrow> 0), m)) ms)"
  using assms by (induction ms) auto

text \<open>C32. The user interface gets the events of a run that are marked safe, and no other: mapping a batch
  of event dumps gives one interface event for each event that is marked safe for the interface and
  not sensitive, with its identifier and sequence number, in the order of the sequence numbers (and
  of the batch among equals).\<close>

theorem ui_batch_safe_and_ordered:
  assumes "list_all2 (\<lambda>e d. event_dump t e = Inr d) es ds" and "batch_to_ag_ui E ds = Inr out"
  shows "map (\<lambda>m. (dget_or m ''sequence'' (PInt 0), dget_none m ''event_id'')) out =
    map (\<lambda>e. (PInt (ev_sequence e), PStr (ev_event_id e)))
      (sort_key ev_sequence (filter (\<lambda>e. ev_safe_for_ui e \<and> \<not> ev_sensitive e) es))"
proof -
  let ?safe = "filter (\<lambda>e. ev_safe_for_ui e \<and> \<not> ev_sensitive e) es"
  let ?p = "\<lambda>m. (dget_or m ''sequence'' (PInt 0), dget_none m ''event_id'')"
  let ?q = "\<lambda>e. (PInt (ev_sequence e), PStr (ev_event_id e))"
  let ?k = "\<lambda>v. case v of PInt i \<Rightarrow> i | _ \<Rightarrow> 0"
  from assms(2) obtain ms ks where ms: "map_events E ds = Inr ms" and ks: "sequence_keys ms = Inr ks"
    and out: "out = map snd (sort_key fst ks)" by (auto simp: batch_to_ag_ui_def rbind_Inr_iff)
  note eq = map_events_sequences [OF assms(1) ms]
  have "\<exists>i. dget_or m ''sequence'' (PInt 0) = PInt i" if "m \<in> set ms" for m
  proof -
    from that have "?p m \<in> set (map ?p ms)" by simp
    then show ?thesis unfolding eq by auto
  qed
  then have keys: "ks = map (\<lambda>m. (?k (dget_or m ''sequence'' (PInt 0)), m)) ms"
    using ks sequence_keys_ok by auto
  have "map ?p out = map (\<lambda>(_, m). ?p m) (sort_key fst ks)"
    by (simp add: out split_def)
  also have "\<dots> = sort_key (\<lambda>(v, _). ?k v) (map (\<lambda>(_, m). ?p m) ks)"
    by (rule map_sort_key) (auto simp: keys)
  also have "map (\<lambda>(_, m). ?p m) ks = map ?q ?safe"
    using eq by (simp add: keys comp_def)
  also have "sort_key (\<lambda>(v, _). ?k v) (map ?q ?safe) = map ?q (sort_key ev_sequence ?safe)"
    by (rule map_sort_key [symmetric]) simp
  finally show ?thesis .
qed

section \<open>A concrete batch\<close>

definition ui_event :: "int \<Rightarrow> EventType \<Rightarrow> bool \<Rightarrow> AgentEvent" where
  "ui_event n ty ui = \<lparr>ev_event_id = ''evt_'' @ int_str n, ev_run_id = ''run_1'', ev_tenant_id = ''tenant_a'',
     ev_sequence = n, ev_type = ty, ev_timestamp = 0, ev_data = [(''text'', PStr ''hello'')],
     ev_trace_id = None, ev_correlation_id = None, ev_sensitive = \<not> ui, ev_safe_for_ui = ui\<rparr>"

definition ui_events :: "AgentEvent list" where
  "ui_events = [ui_event 2 RUN_COMPLETED True, ui_event 1 MESSAGE_DELTA True, ui_event 0 RUN_STARTED False]"

definition dumped :: "AgentEvent \<Rightarrow> pydict" where
  "dumped e = (case event_dump (\<lambda>_. ''2026-09-11T12:00:00Z'') e of Inr d \<Rightarrow> d | Inl _ \<Rightarrow> [])"

theorem ui_batch_safe_and_ordered_witness:
  "\<exists>out. batch_to_ag_ui plain_env (map dumped ui_events) = Inr out \<and>
     map (\<lambda>m. dget_none m ''event_id'') out = [PStr ''evt_1'', PStr ''evt_2'']"
proof -
  have dumps: "list_all2 (\<lambda>e d. event_dump (\<lambda>_. ''2026-09-11T12:00:00Z'') e = Inr d) ui_events (map dumped ui_events)"
    by (simp add: ui_events_def dumped_def event_dump_def ui_event_def)
  have "\<not> isl (batch_to_ag_ui plain_env (map dumped ui_events))" by code_simp
  then obtain out where out: "batch_to_ag_ui plain_env (map dumped ui_events) = Inr out"
    by (cases "batch_to_ag_ui plain_env (map dumped ui_events)") auto
  have "map (\<lambda>e. PStr (ev_event_id e))
      (sort_key ev_sequence (filter (\<lambda>e. ev_safe_for_ui e \<and> \<not> ev_sensitive e) ui_events)) =
    [PStr ''evt_1'', PStr ''evt_2'']" by code_simp
  with arg_cong [OF ui_batch_safe_and_ordered [OF dumps out], of "map snd"] out show ?thesis
    by (simp add: comp_def)
qed

end
