(* ===== verification/Runtime.thy ===== *)
theory Runtime
  imports Contracts ExcState
begin

text \<open>
  \<^verbatim>\<open>apps/orchestrator/runtime.py\<close>: model routing, the budget ledger, bounded retry of model calls, the
  deterministic runtime and the provider runtime.

  The state is the ledger and the world outside. Parameters (\<open>rt_env\<close>): the monotonic clock, the
  cancellation event, the event loop's timeout and sleep, the provider's library, and how the
  validation library reads a number, a list of texts or a synthesis from JSON.
\<close>

section \<open>Errors\<close>

text \<open>The tag of a model error is \<open>retryable\<close> or empty; that of a budget error is the budget.\<close>

definition ModelError :: "string \<Rightarrow> bool \<Rightarrow> pyexc" where
  "ModelError m retryable = PyExc ERuntime ''ModelError'' m (if retryable then ''retryable'' else [])"

definition ModelTimeoutError :: pyexc where
  "ModelTimeoutError = PyExc ERuntime ''ModelTimeoutError'' ''model call timed out'' ''retryable''"

definition ModelValidationError :: "string \<Rightarrow> pyexc" where
  "ModelValidationError m = PyExc ERuntime ''ModelValidationError'' m []"

definition BudgetExceeded :: "string \<Rightarrow> string \<Rightarrow> pyexc" where
  "BudgetExceeded m budget = PyExc ERuntime ''BudgetExceeded'' m budget"

text \<open>Not an \<^verbatim>\<open>Exception\<close>: a handler of \<^verbatim>\<open>Exception\<close> does not see it.\<close>

definition CancelledError :: pyexc where
  "CancelledError = PyExc EOther ''CancelledError'' ''run cancelled'' []"

definition is_model_error :: "pyexc \<Rightarrow> bool" where
  "is_model_error e = (exc_name e \<in> {''ModelError'', ''ModelTimeoutError'', ''ModelValidationError''})"

section \<open>Routing\<close>

datatype ModelTask = FAST | REASONING | SUMMARY

fun ModelTask_value :: "ModelTask \<Rightarrow> string" where
  "ModelTask_value FAST = ''fast''"
| "ModelTask_value REASONING = ''reasoning''"
| "ModelTask_value SUMMARY = ''summary''"

definition ModelTask_of :: "string \<Rightarrow> ModelTask presult" where
  "ModelTask_of s = (case find (\<lambda>t. ModelTask_value t = s) [FAST, REASONING, SUMMARY] of
     Some t \<Rightarrow> Inr t | None \<Rightarrow> Inl (ValueError (repr_str s @ '' is not a valid ModelTask'')))"

record ModelRouter =
  fast_model :: string
  reasoning_model :: string
  summary_model :: string

definition default_router :: ModelRouter where
  "default_router = \<lparr>fast_model = ''gpt-4o-mini'', reasoning_model = ''gpt-4o'', summary_model = ''gpt-4o-mini''\<rparr>"

definition route :: "ModelRouter \<Rightarrow> string \<Rightarrow> string presult" where
  "route self task = rbind (ModelTask_of task) (\<lambda>t. Inr
     (if t = FAST then fast_model self else if t = SUMMARY then summary_model self else reasoning_model self))"

definition router_from_env :: "(string \<Rightarrow> string option) \<Rightarrow> ModelRouter" where
  "router_from_env getenv =
     (let get = (\<lambda>k v. case getenv k of Some x \<Rightarrow> x | None \<Rightarrow> v) in
      \<lparr>fast_model = get ''FAST_MODEL'' ''gpt-4o-mini'', reasoning_model = get ''REASONING_MODEL'' ''gpt-4o'',
       summary_model = get ''SUMMARY_MODEL'' ''gpt-4o-mini''\<rparr>)"

section \<open>The budget ledger\<close>

record RuntimeLimits =
  rl_max_model_calls :: int
  rl_max_tool_calls :: int
  rl_max_input_tokens :: int
  rl_max_output_tokens :: int
  rl_max_cost_usd :: pyfloat
  rl_max_duration_s :: pyfloat
  rl_max_delegation_depth :: int

definition default_limits :: RuntimeLimits where
  "default_limits = \<lparr>rl_max_model_calls = 10, rl_max_tool_calls = 20, rl_max_input_tokens = 60000,
     rl_max_output_tokens = 20000, rl_max_cost_usd = 2, rl_max_duration_s = 600,
     rl_max_delegation_depth = 3\<rparr>"

record BudgetSnapshot =
  bs_model_calls :: int
  bs_tool_calls :: int
  bs_input_tokens :: int
  bs_output_tokens :: int
  bs_cost_usd :: pyfloat
  bs_elapsed_s :: pyfloat
  bs_delegation_depth :: int

definition empty_snapshot :: BudgetSnapshot where
  "empty_snapshot = \<lparr>bs_model_calls = 0, bs_tool_calls = 0, bs_input_tokens = 0, bs_output_tokens = 0,
     bs_cost_usd = 0, bs_elapsed_s = 0, bs_delegation_depth = 0\<rparr>"

record BudgetTracker =
  bt_limits :: RuntimeLimits
  bt_snap :: BudgetSnapshot
  bt_start :: pyfloat

record 'w rt =
  rt_tracker :: BudgetTracker
  rt_world :: 'w

datatype structured = SClassification string pyfloat string | SPlan "string list" "string list"
  | SResult AgentResult

datatype response_model = MClassification | MPlan | MResult

record 'w rt_env =
  ru_py :: pyenv
  ru_monotonic :: "'w \<Rightarrow> pyfloat \<times> 'w"
  ru_cancelled :: "'w \<Rightarrow> bool"
  ru_timed_out :: "pyfloat \<Rightarrow> 'w \<Rightarrow> bool"  \<comment> \<open>whether the awaited call outlasts the limit\<close>
  ru_abandon :: "'w \<Rightarrow> 'w"  \<comment> \<open>what a call that is given up has done\<close>
  ru_sleep :: "pyfloat \<Rightarrow> 'w \<Rightarrow> 'w"
  ru_litellm :: bool
  ru_acompletion :: "pydict \<Rightarrow> 'w \<Rightarrow> pyval presult \<times> 'w"
  ru_float :: "pyval \<Rightarrow> pyfloat option"
  ru_result :: "pydict \<Rightarrow> AgentResult option"  \<comment> \<open>the fields of a synthesis, before their checks\<close>
  ru_json_loads :: "string \<Rightarrow> pyval presult"
  ru_message :: "string \<Rightarrow> pydict \<Rightarrow> string"

definition monotonic :: "'w rt_env \<Rightarrow> ('w rt, pyfloat) em" where
  "monotonic R = (\<lambda>s. case ru_monotonic R (rt_world s) of (t, w) \<Rightarrow> (Inr t, s\<lparr>rt_world := w\<rparr>))"

definition snapshot :: "'w rt_env \<Rightarrow> ('w rt, BudgetSnapshot) em" where
  "snapshot R = ebind (monotonic R) (\<lambda>now. ebind (eget rt_tracker) (\<lambda>t.
     eret ((bt_snap t)\<lparr>bs_elapsed_s := now - bt_start t\<rparr>)))"

definition budget_checks :: "pyenv \<Rightarrow> RuntimeLimits \<Rightarrow> BudgetSnapshot \<Rightarrow> unit presult" where
  "budget_checks E lims s =
     rbind (check (bs_model_calls s \<le> rl_max_model_calls lims)
       (BudgetExceeded (''model calls exceeded ('' @ int_str (rl_max_model_calls lims) @ '')'') ''max_model_calls'')) (\<lambda>_.
     rbind (check (bs_tool_calls s \<le> rl_max_tool_calls lims)
       (BudgetExceeded (''tool calls exceeded ('' @ int_str (rl_max_tool_calls lims) @ '')'') ''max_tool_calls'')) (\<lambda>_.
     rbind (check (bs_input_tokens s \<le> rl_max_input_tokens lims)
       (BudgetExceeded ''input token budget exceeded'' ''max_input_tokens'')) (\<lambda>_.
     rbind (check (bs_output_tokens s \<le> rl_max_output_tokens lims)
       (BudgetExceeded ''output token budget exceeded'' ''max_output_tokens'')) (\<lambda>_.
     rbind (check (bs_cost_usd s \<le> rl_max_cost_usd lims)
       (BudgetExceeded (''cost exceeded ($'' @ float_repr E (rl_max_cost_usd lims) @ '')'') ''max_cost_usd'')) (\<lambda>_.
     rbind (check (bs_elapsed_s s \<le> rl_max_duration_s lims)
       (BudgetExceeded ''run duration exceeded'' ''max_duration_s'')) (\<lambda>_.
     check (bs_delegation_depth s \<le> rl_max_delegation_depth lims)
       (BudgetExceeded ''delegation depth exceeded'' ''max_delegation_depth'')))))))"

text \<open>\<^verbatim>\<open>_check(snapshot)\<close>, after which the snapshot is returned.\<close>

definition checked_snapshot :: "'w rt_env \<Rightarrow> ('w rt, BudgetSnapshot) em" where
  "checked_snapshot R = ebind (snapshot R) (\<lambda>s. ebind (eget rt_tracker) (\<lambda>t.
     ethen (elift (budget_checks (ru_py R) (bt_limits t) s)) (eret s)))"

definition budget_check :: "'w rt_env \<Rightarrow> ('w rt, unit) em" where
  "budget_check R = ethen (checked_snapshot R) (eret ())"

definition upd_snap :: "(BudgetSnapshot \<Rightarrow> BudgetSnapshot) \<Rightarrow> ('w rt, unit) em" where
  "upd_snap f = emod (\<lambda>s. s\<lparr>rt_tracker := (rt_tracker s)\<lparr>bt_snap := f (bt_snap (rt_tracker s))\<rparr>\<rparr>)"

definition record_model :: "'w rt_env \<Rightarrow> int \<Rightarrow> int \<Rightarrow> pyfloat \<Rightarrow> ('w rt, BudgetSnapshot) em" where
  "record_model R input_tokens output_tokens cost_usd =
     ethen (upd_snap (\<lambda>b. b\<lparr>bs_model_calls := bs_model_calls b + 1,
        bs_input_tokens := bs_input_tokens b + max 0 input_tokens,
        bs_output_tokens := bs_output_tokens b + max 0 output_tokens,
        bs_cost_usd := bs_cost_usd b + max 0 cost_usd\<rparr>)) (checked_snapshot R)"

definition record_tool :: "'w rt_env \<Rightarrow> int \<Rightarrow> ('w rt, BudgetSnapshot) em" where
  "record_tool R count =
     ethen (upd_snap (\<lambda>b. b\<lparr>bs_tool_calls := bs_tool_calls b + count\<rparr>)) (checked_snapshot R)"

definition record_delegation :: "'w rt_env \<Rightarrow> int \<Rightarrow> ('w rt, BudgetSnapshot) em" where
  "record_delegation R depth =
     ethen (upd_snap (\<lambda>b. b\<lparr>bs_delegation_depth := bs_delegation_depth b + depth\<rparr>)) (checked_snapshot R)"

text \<open>A ledger seeded from a stored budget; the clock is read when it is made.\<close>

definition from_budget_dict :: "pyenv \<Rightarrow> pydict \<Rightarrow> pydict \<Rightarrow> pyfloat \<Rightarrow> BudgetTracker presult" where
  "from_budget_dict E budget overrides now =
     (let i = (\<lambda>d k v. py_int (dget_or d k (PInt v))); f = (\<lambda>d k v. py_float E (dget_or d k (PFloat v))) in
      rbind (i budget ''max_model_calls'' 10) (\<lambda>mc. rbind (i budget ''max_tool_calls'' 20) (\<lambda>tc.
      rbind (f budget ''max_cost_usd'' 2) (\<lambda>cost.
      rbind (i overrides ''max_input_tokens'' 60000) (\<lambda>it.
      rbind (i overrides ''max_output_tokens'' 20000) (\<lambda>ot.
      rbind (f overrides ''max_duration_s'' 600) (\<lambda>dur.
      rbind (i overrides ''max_delegation_depth'' 3) (\<lambda>dep.
      rbind (i budget ''consumed_model_calls'' 0) (\<lambda>cm. rbind (i budget ''consumed_tool_calls'' 0) (\<lambda>ct.
      rbind (f budget ''consumed_cost_usd'' 0) (\<lambda>cc. Inr
        \<lparr>bt_limits = \<lparr>rl_max_model_calls = mc, rl_max_tool_calls = tc, rl_max_input_tokens = it,
           rl_max_output_tokens = ot, rl_max_cost_usd = cost, rl_max_duration_s = dur,
           rl_max_delegation_depth = dep\<rparr>,
         bt_snap = empty_snapshot\<lparr>bs_model_calls := cm, bs_tool_calls := ct, bs_cost_usd := cc\<rparr>,
         bt_start = now\<rparr>)))))))))))"

section \<open>Structured outputs\<close>

definition text_field :: "pydict \<Rightarrow> string \<Rightarrow> string option" where
  "text_field d k = (case dget_none d k of PStr s \<Rightarrow> Some s | _ \<Rightarrow> None)"

text \<open>\<^verbatim>\<open>list[str]\<close> with at most 16 items.\<close>

definition text_list :: "pyval \<Rightarrow> string list option" where
  "text_list v = (case v of PList xs \<Rightarrow>
       if length xs \<le> 16 \<and> list_all (\<lambda>x. case x of PStr _ \<Rightarrow> True | _ \<Rightarrow> False) xs
       then Some (map (\<lambda>x. case x of PStr s \<Rightarrow> s | _ \<Rightarrow> []) xs) else None
     | _ \<Rightarrow> None)"

definition only_keys :: "string list \<Rightarrow> pydict \<Rightarrow> bool" where
  "only_keys ks d = list_all (\<lambda>kv. fst kv \<in> set ks) d"

definition read_classification :: "'w rt_env \<Rightarrow> pydict \<Rightarrow> structured option" where
  "read_classification R d =
     (case (text_field d ''category'', ru_float R (dget_none d ''confidence''),
            text_field [(''reasoning'', dget_or d ''reasoning'' (PStr []))] ''reasoning'') of
        (Some category, Some confidence, Some reasoning) \<Rightarrow>
          if only_keys [''category'', ''confidence'', ''reasoning''] d \<and> len_in 1 128 category \<and>
             0 \<le> confidence \<and> confidence \<le> 1 \<and> length reasoning \<le> 2000
          then Some (SClassification category confidence reasoning) else None
      | _ \<Rightarrow> None)"

definition read_plan :: "pydict \<Rightarrow> structured option" where
  "read_plan d =
     (case (text_list (dget_or d ''steps'' (PList [])), text_list (dget_or d ''risks'' (PList []))) of
        (Some steps, Some risks) \<Rightarrow>
          if only_keys [''steps'', ''risks''] d then Some (SPlan steps risks) else None
      | _ \<Rightarrow> None)"

definition read_result :: "'w rt_env \<Rightarrow> pydict \<Rightarrow> structured option" where
  "read_result R d = (case ru_result R d of None \<Rightarrow> None
     | Some r \<Rightarrow> (case validate_AgentResult (ru_py R) r of Inr r' \<Rightarrow> Some (SResult r') | Inl _ \<Rightarrow> None))"

definition validate_structured :: "'w rt_env \<Rightarrow> pyval \<Rightarrow> response_model \<Rightarrow> structured presult" where
  "validate_structured R v m =
     (let d = (case v of PDict d \<Rightarrow> d | _ \<Rightarrow> []);
          failed = Inl (ModelValidationError (''structured validation failed: '' @ ru_message R ''model'' d)) in
      if \<not> is_dict v then failed
      else case (case m of MClassification \<Rightarrow> read_classification R d | MPlan \<Rightarrow> read_plan d
                   | MResult \<Rightarrow> read_result R d) of Some s \<Rightarrow> Inr s | None \<Rightarrow> failed)"

section \<open>Timeout, retry and cancellation\<close>

definition NO_RETRY_TOOL_CATEGORIES :: "string list" where
  "NO_RETRY_TOOL_CATEGORIES = [''write'', ''destructive'']"

definition retry_allowed_for_tool :: "string \<Rightarrow> bool" where
  "retry_allowed_for_tool category = (category \<notin> set NO_RETRY_TOOL_CATEGORIES)"

definition is_retryable :: "pyexc \<Rightarrow> bool" where
  "is_retryable e =
     (if exc_name e \<in> {''BudgetExceeded'', ''ModelValidationError'', ''CancelledError''} then False
      else if is_model_error e then exc_tag e = ''retryable''
      else if exc_name e \<in> {''RateLimitError'', ''APIConnectionError'', ''InternalServerError'',
        ''ServiceUnavailableError'', ''Timeout'', ''ConnectError'', ''ReadTimeout''} then True
      else exc_class e \<in> {ETimeout, EConnection})"

text \<open>\<open>has_event\<close>: whether the caller gave a cancellation event.\<close>

definition check_cancelled :: "'w rt_env \<Rightarrow> bool \<Rightarrow> ('w rt, unit) em" where
  "check_cancelled R has_event =
     ebind (eget rt_world) (\<lambda>w. elift (check (\<not> (has_event \<and> ru_cancelled R w)) CancelledError))"

definition run_with_timeout :: "'w rt_env \<Rightarrow> ('w rt, 'a) em \<Rightarrow> pyfloat \<Rightarrow> ('w rt, 'a) em" where
  "run_with_timeout R coro timeout_s =
     ebind (eget rt_world) (\<lambda>w.
       if ru_timed_out R timeout_s w
       then ethen (emod (\<lambda>s. s\<lparr>rt_world := ru_abandon R (rt_world s)\<rparr>)) (eraise ModelTimeoutError)
       else etry coro (\<lambda>e. if exc_class e = ETimeout then eraise ModelTimeoutError else eraise e))"

text \<open>The attempts from number \<open>n\<close> on, of which \<open>left\<close> may still follow.\<close>

fun retry_from :: "'w rt_env \<Rightarrow> ('w rt, 'a) em \<Rightarrow> pyfloat \<Rightarrow> bool \<Rightarrow> bool \<Rightarrow> pyfloat \<Rightarrow> pyfloat
    \<Rightarrow> nat \<Rightarrow> nat \<Rightarrow> ('w rt, 'a) em" where
  "retry_from R fn timeout_s is_write has_event base cap n left =
     ethen (check_cancelled R has_event)
     (etry (run_with_timeout R fn timeout_s)
       (\<lambda>e. if exc_name e = ''CancelledError'' \<or> is_write \<or> \<not> is_retryable e then eraise e
            else case left of
              0 \<Rightarrow> eraise e
            | Suc left' \<Rightarrow>
                ethen (emod (\<lambda>s. s\<lparr>rt_world := ru_sleep R (min (base * 2 ^ n) cap) (rt_world s)\<rparr>))
                  (retry_from R fn timeout_s is_write has_event base cap (Suc n) left')))"

declare retry_from.simps [simp del]

definition call_with_retry :: "'w rt_env \<Rightarrow> ('w rt, 'a) em \<Rightarrow> int \<Rightarrow> pyfloat \<Rightarrow> bool \<Rightarrow> bool
    \<Rightarrow> pyfloat \<Rightarrow> pyfloat \<Rightarrow> ('w rt, 'a) em" where
  "call_with_retry R fn max_retries timeout_s is_write has_event base cap =
     (let retries = (if is_write then 0 else max_retries) in
      if retries < 0 then eraise (AssertionError [])
      else retry_from R fn timeout_s is_write has_event base cap 0 (nat retries))"

section \<open>The deterministic runtime\<close>

text \<open>\<^verbatim>\<open>_tick\<close>: a token for four characters, a millionth of a dollar for a token.\<close>

definition fake_tick :: "'w rt_env \<Rightarrow> pyfloat \<Rightarrow> string \<Rightarrow> bool \<Rightarrow> ('w rt, unit) em" where
  "fake_tick R latency_s text has_event =
     ethen (check_cancelled R has_event)
     (ethen (ewhen (latency_s \<noteq> 0) (emod (\<lambda>s. s\<lparr>rt_world := ru_sleep R latency_s (rt_world s)\<rparr>)))
     (ethen (check_cancelled R has_event)
     (let toks = max 1 (int (length text div 4)) in
      ethen (record_model R toks (toks div 2 + 1) (rat_of_int toks / 10 ^ 6))
      (budget_check R))))"

definition deterministic_seed :: "pyenv \<Rightarrow> string list \<Rightarrow> string" where
  "deterministic_seed E parts = sha256_hexdigest E (join ''|'' parts)"

definition any_in :: "string list \<Rightarrow> string \<Rightarrow> bool" where
  "any_in ks s = list_ex (\<lambda>k. str_in k s) ks"

definition fake_category :: "string \<Rightarrow> string \<times> pyfloat" where
  "fake_category objective =
     (let low = lower objective in
      if any_in [''error'', ''latency'', ''outage'', ''incident'', ''alert''] low then (''incident'', 9 / 10)
      else if any_in [''deploy'', ''release'', ''rollback'', ''change''] low then (''change-risk'', 85 / 100)
      else if any_in [''cost'', ''spend'', ''billing''] low then (''cost'', 7 / 10)
      else (''general'', 6 / 10))"

definition fake_classify :: "'w rt_env \<Rightarrow> pyfloat \<Rightarrow> string \<Rightarrow> bool \<Rightarrow> ('w rt, structured) em" where
  "fake_classify R latency_s objective has_event =
     ethen (fake_tick R latency_s objective has_event)
     (let (cat, conf) = fake_category objective in
      elift (validate_structured R (PDict
        [(''category'', PStr cat), (''confidence'', PFloat conf),
         (''reasoning'', PStr (''fake classification (seed='' @
            take 8 (deterministic_seed (ru_py R) [objective]) @ '')''))]) MClassification))"

definition hex_digit_value :: "char \<Rightarrow> nat" where
  "hex_digit_value c = (let n = (of_char c :: nat) in if n < 58 then n - 48 else n - 87)"

definition fake_plan :: "'w rt_env \<Rightarrow> pyfloat \<Rightarrow> string \<Rightarrow> bool \<Rightarrow> ('w rt, structured) em" where
  "fake_plan R latency_s objective has_event =
     ethen (fake_tick R latency_s objective has_event)
     (let seed = deterministic_seed (ru_py R) [objective];
          even_seed = (foldl (\<lambda>n c. 16 * n + hex_digit_value c) 0 (take 2 seed) mod 2 = 0);
          steps = [''retrieve context (services, runbooks)'', ''read-only diagnostics (metrics/logs/traces)'',
            ''delegate to specialist (observability) if needed'', ''correlate evidence and draft findings''] @
            (if even_seed then [''prepare change-review with rollback''] else [])
      in elift (validate_structured R (PDict [(''steps'', PList (map PStr steps)),
           (''risks'', PList [PStr ''incomplete telemetry'', PStr ''conflicting evidence''])]) MPlan))"

text \<open>The dictionary of a synthesis is made of checked findings, so its fields are given as the record.\<close>

definition fake_synthesize ::
  "'w rt_env \<Rightarrow> pyfloat \<Rightarrow> string \<Rightarrow> Finding list \<Rightarrow> string option \<Rightarrow> string option \<Rightarrow> bool
    \<Rightarrow> ('w rt, AgentResult) em" where
  "fake_synthesize R latency_s objective findings run_id tenant_id has_event =
     ethen (fake_tick R latency_s objective has_event)
     (elift (case validate_AgentResult (ru_py R)
         \<lparr>ar_run_id = run_id, ar_tenant_id = tenant_id,
          ar_answer = ''Fake synthesis for: '' @ take 200 objective, ar_findings = findings,
          ar_proposed_actions = [], ar_unresolved_questions = [], ar_trace_id = None,
          ar_correlation_id = None\<rparr> of
        Inr r \<Rightarrow> Inr r
      | Inl e \<Rightarrow> Inl (ModelValidationError (''structured validation failed: '' @ exc_msg e))))"

definition fake_summarize :: "'w rt_env \<Rightarrow> pyfloat \<Rightarrow> string \<Rightarrow> bool \<Rightarrow> ('w rt, string) em" where
  "fake_summarize R latency_s text has_event =
     ethen (fake_tick R latency_s text has_event) (eret (take 500 text))"

section \<open>The provider runtime\<close>

record ModelRequest =
  mr_messages :: "pyval list"
  mr_task :: ModelTask
  mr_response_model :: "response_model option"
  mr_max_tokens :: int
  mr_timeout_s :: pyfloat

record ModelResponse =
  ms_text :: string
  ms_structured :: "structured option"
  ms_model :: string
  ms_input_tokens :: int
  ms_output_tokens :: int
  ms_cost_usd :: pyfloat
  ms_latency_ms :: int

record ProviderRuntime =
  pr_router :: ModelRouter
  pr_max_retries :: int
  pr_timeout_s :: pyfloat
  pr_cost_per_1k_input :: pyfloat
  pr_cost_per_1k_output :: pyfloat

definition default_provider :: "ModelRouter \<Rightarrow> ProviderRuntime" where
  "default_provider router = \<lparr>pr_router = router, pr_max_retries = 2, pr_timeout_s = 30,
     pr_cost_per_1k_input = 1 / 1000, pr_cost_per_1k_output = 2 / 1000\<rparr>"

definition provider_kwargs :: "string \<Rightarrow> ModelRequest \<Rightarrow> pydict" where
  "provider_kwargs model request =
     [(''model'', PStr model), (''messages'', PList (mr_messages request)),
      (''max_tokens'', PInt (mr_max_tokens request))] @
     (if mr_response_model request \<noteq> None
      then [(''response_format'', PDict [(''type'', PStr ''json_object'')])] else [])"

definition provider_call :: "'w rt_env \<Rightarrow> string \<Rightarrow> ModelRequest \<Rightarrow> ('w rt, pyval) em" where
  "provider_call R model request =
     (if \<not> ru_litellm R
      then eraise (ModelError ''litellm is not installed; set LLM_MODE=fake or install litellm'' False)
      else (\<lambda>s. case ru_acompletion R (provider_kwargs model request) (rt_world s) of
        (r, w) \<Rightarrow> (r, s\<lparr>rt_world := w\<rparr>)))"

text \<open>\<^verbatim>\<open>v[k]\<close> and \<^verbatim>\<open>v[0]\<close>; the three errors of indexing are what the caller catches.\<close>

fun index_key :: "string \<Rightarrow> pyval \<Rightarrow> pyval presult" where
  "index_key k (PDict d) = (case dget d k of Some v \<Rightarrow> Inr v | None \<Rightarrow> Inl (KeyError (repr_str k)))"
| "index_key k v = Inl (TypeError ''indices must be integers'')"

fun index_first :: "pyval \<Rightarrow> pyval presult" where
  "index_first (PList (x # xs)) = Inr x"
| "index_first (PList []) = Inl (PyExc EOther ''IndexError'' ''list index out of range'' [])"
| "index_first (PStr (c # cs)) = Inr (PStr [c])"
| "index_first (PStr []) = Inl (PyExc EOther ''IndexError'' ''string index out of range'' [])"
| "index_first (PDict d) = Inl (KeyError ''0'')"
| "index_first v = Inl (TypeError ''object is not subscriptable'')"

definition payload_choice :: "pyval \<Rightarrow> (pyval \<times> pyval) presult" where
  "payload_choice raw =
     (case rbind (index_key ''choices'' raw) (\<lambda>cs. rbind (index_first cs) (\<lambda>c.
           rbind (index_key ''message'' c) (index_key ''content''))) of
        Inl e \<Rightarrow> Inl (ModelValidationError (''unexpected provider payload: '' @ exc_msg e))
      | Inr content \<Rightarrow> rbind (py_get raw ''usage'' PNone) (\<lambda>usage. Inr
          (if truthy content then content else PStr [], if truthy usage then usage else PDict [])))"

definition provider_tokens :: "pyenv \<Rightarrow> pyval \<Rightarrow> pyval \<Rightarrow> string \<Rightarrow> int presult" where
  "provider_tokens E usage choice k =
     rbind (py_get usage k (PInt (max 1 (int (length (py_str E choice) div 4))))) py_int"

text \<open>The text of the answer read as JSON (or the mapping it already is).\<close>

definition provider_structured ::
  "'w rt_env \<Rightarrow> pyval \<Rightarrow> response_model option \<Rightarrow> structured option presult" where
  "provider_structured R choice m =
     (case m of None \<Rightarrow> Inr None
      | Some cls \<Rightarrow>
          (case (case choice of PStr s \<Rightarrow> ru_json_loads R s | PDict d \<Rightarrow> Inr (PDict d)
                 | _ \<Rightarrow> Inl (TypeError ''cannot convert to dict'')) of
             Inl e \<Rightarrow> Inl (ModelValidationError (''provider did not return JSON: '' @ exc_msg e))
           | Inr payload \<Rightarrow> rbind (validate_structured R payload cls) (\<lambda>s. Inr (Some s))))"

definition complete ::
  "'w rt_env \<Rightarrow> ProviderRuntime \<Rightarrow> ModelRequest \<Rightarrow> bool \<Rightarrow> ('w rt, ModelResponse) em" where
  "complete R self request has_event =
     ethen (check_cancelled R has_event)
     (ethen (budget_check R)
     (ebind (elift (route (pr_router self) (ModelTask_value (mr_task request)))) (\<lambda>model.
     ebind (monotonic R) (\<lambda>started.
     ebind (call_with_retry R (provider_call R model request) (pr_max_retries self)
         (if mr_timeout_s request \<noteq> 0 then mr_timeout_s request else pr_timeout_s self) False has_event
         (2 / 10) 4) (\<lambda>raw.
     ethen (check_cancelled R has_event)
     (ebind (monotonic R) (\<lambda>ended.
     ebind (elift (payload_choice raw)) (\<lambda>(choice, usage).
     ebind (elift (provider_tokens (ru_py R) usage choice ''prompt_tokens'')) (\<lambda>in_toks.
     ebind (elift (provider_tokens (ru_py R) usage choice ''completion_tokens'')) (\<lambda>out_toks.
     (let cost = (rat_of_int in_toks / 1000) * pr_cost_per_1k_input self +
                 (rat_of_int out_toks / 1000) * pr_cost_per_1k_output self in
      ethen (record_model R in_toks out_toks cost)
      (ebind (elift (provider_structured R choice (mr_response_model request))) (\<lambda>structured.
       eret \<lparr>ms_text = py_str (ru_py R) choice, ms_structured = structured, ms_model = model,
         ms_input_tokens = in_toks, ms_output_tokens = out_toks, ms_cost_usd = cost,
         ms_latency_ms = \<lfloor>(ended - started) * 1000\<rfloor>\<rparr>)))))))))))))"

definition chat :: "string \<Rightarrow> string \<Rightarrow> ModelTask \<Rightarrow> response_model option \<Rightarrow> ModelRequest" where
  "chat system user task m =
     \<lparr>mr_messages = [PDict [(''role'', PStr ''system''), (''content'', PStr system)],
        PDict [(''role'', PStr ''user''), (''content'', PStr user)]],
      mr_task = task, mr_response_model = m, mr_max_tokens = 1024, mr_timeout_s = 30\<rparr>"

text \<open>\<^verbatim>\<open>assert isinstance(resp.structured, cls)\<close>.\<close>

definition structured_of :: "(structured \<Rightarrow> bool) \<Rightarrow> ModelResponse \<Rightarrow> structured presult" where
  "structured_of p r = (case ms_structured r of
     Some s \<Rightarrow> if p s then Inr s else Inl (AssertionError []) | None \<Rightarrow> Inl (AssertionError []))"

definition provider_classify :: "'w rt_env \<Rightarrow> ProviderRuntime \<Rightarrow> string \<Rightarrow> bool \<Rightarrow> ('w rt, structured) em" where
  "provider_classify R self objective has_event =
     ebind (complete R self (chat
         ''Classify the operations objective. Reply with JSON {category, confidence, reasoning} only.''
         (take 4000 objective) FAST (Some MClassification)) has_event)
       (\<lambda>r. elift (structured_of (\<lambda>s. case s of SClassification _ _ _ \<Rightarrow> True | _ \<Rightarrow> False) r))"

definition provider_plan :: "'w rt_env \<Rightarrow> ProviderRuntime \<Rightarrow> string \<Rightarrow> bool \<Rightarrow> ('w rt, structured) em" where
  "provider_plan R self objective has_event =
     ebind (complete R self (chat
         ''Plan a bounded investigation. Reply with JSON {steps[], risks[]} only.''
         (take 4000 objective) REASONING (Some MPlan)) has_event)
       (\<lambda>r. elift (structured_of (\<lambda>s. case s of SPlan _ _ \<Rightarrow> True | _ \<Rightarrow> False) r))"

definition evidence_text :: "Finding list \<Rightarrow> string" where
  "evidence_text fs = take 4000 (join [CHR 0x0A] (map (\<lambda>f. ''- '' @ fd_title f @ '': '' @ fd_summary f) fs))"

definition provider_synthesize ::
  "'w rt_env \<Rightarrow> ProviderRuntime \<Rightarrow> string \<Rightarrow> Finding list \<Rightarrow> bool \<Rightarrow> ('w rt, structured) em" where
  "provider_synthesize R self objective findings has_event =
     ebind (complete R self (chat
         (''Synthesize a structured incident review. Reply with JSON '' @
          ''{answer, findings[], proposed_actions[], unresolved_questions[]} only.'')
         (''Objective: '' @ take 2000 objective @ [CHR 0x0A] @ ''Evidence:'' @ [CHR 0x0A] @ evidence_text findings)
         REASONING (Some MResult)) has_event)
       (\<lambda>r. elift (structured_of (\<lambda>s. case s of SResult _ \<Rightarrow> True | _ \<Rightarrow> False) r))"

definition provider_summarize :: "'w rt_env \<Rightarrow> ProviderRuntime \<Rightarrow> string \<Rightarrow> bool \<Rightarrow> ('w rt, string) em" where
  "provider_summarize R self text has_event =
     ebind (complete R self (chat ''Summarize concisely.'' (take 8000 text) SUMMARY None) has_event)
       (\<lambda>r. eret (take 2000 (ms_text r)))"

datatype agent_runtime = UseFake | UseProvider

definition runtime_from_env :: "(string \<Rightarrow> string option) \<Rightarrow> agent_runtime" where
  "runtime_from_env getenv =
     (if lower (case getenv ''LLM_MODE'' of Some x \<Rightarrow> x | None \<Rightarrow> ''fake'') = ''fake'' then UseFake else UseProvider)"

section \<open>Retries are bounded\<close>

lemma retry_attempts:
  assumes fn: "\<And>s. c (rt_world (snd (fn s))) \<le> c (rt_world s) + 1"
    and away: "\<And>w. c (ru_abandon R w) \<le> c w + 1" and sleep: "\<And>d w. c (ru_sleep R d w) \<le> c w"
  shows "c (rt_world (snd (retry_from R fn tmo wr ev b cap n left s))) \<le> c (rt_world s) + Suc left"
proof (induction left arbitrary: n s)
  have one: "c (rt_world (snd (run_with_timeout R fn tmo s))) \<le> c (rt_world s) + 1" for s
    using fn [of s] away [of "rt_world s"]
    by (cases "fn s") (auto simp: run_with_timeout_def run_simps split: sum.splits prod.splits)
  have start: "check_cancelled R ev s = (Inr (), s) \<or> (\<exists>e. check_cancelled R ev s = (Inl e, s))" for s
    by (simp add: check_cancelled_def run_simps check_def)
  {
    case 0
    then show ?case
      using one [of s] start [of s] by (cases "run_with_timeout R fn tmo s")
        (auto simp: retry_from.simps run_simps split: sum.splits prod.splits)
  next
    case (Suc left)
    obtain r u where run: "run_with_timeout R fn tmo s = (r, u)" by fastforce
    with one [of s] have u: "c (rt_world u) \<le> c (rt_world s) + 1" by simp
    have "c (rt_world (snd (retry_from R fn tmo wr ev b cap (Suc n) left
        (u\<lparr>rt_world := ru_sleep R (min (b * 2 ^ n) cap) (rt_world u)\<rparr>)))) \<le> c (rt_world u) + Suc left"
      using Suc.IH [of "Suc n" "u\<lparr>rt_world := ru_sleep R (min (b * 2 ^ n) cap) (rt_world u)\<rparr>"]
        sleep [of "min (b * 2 ^ n) cap" "rt_world u"] by simp
    with u show ?case
      using start [of s] by (subst retry_from.simps) (auto simp: run_simps run split: sum.splits)
  }
qed

text \<open>Retries are bounded and writes are tried once: for every way of counting attempts in the world
  outside, a call with retry makes at most one attempt more than the retries it is given; as a write
  it is a single attempt under the time limit, whatever error that ends with.\<close>

theorem retries_bounded:
  assumes "\<And>s. c (rt_world (snd (fn s))) \<le> c (rt_world s) + 1"
    and "\<And>w. c (ru_abandon R w) \<le> c w + 1" and "\<And>d w. c (ru_sleep R d w) \<le> c w"
  shows "c (rt_world (snd (call_with_retry R fn max_retries tmo is_write ev base cap s)))
      \<le> c (rt_world s) + (if is_write then 1 else nat (max_retries + 1)) \<and>
    call_with_retry R fn max_retries tmo True ev base cap s =
      ethen (check_cancelled R ev) (run_with_timeout R fn tmo) s"
proof
  have att: "c (rt_world (snd (retry_from R fn tmo is_write ev base cap 0 k s))) \<le> c (rt_world s) + Suc k" for k
    by (rule retry_attempts) (use assms in auto)
  from att [of 0] att [of "nat max_retries"]
  show "c (rt_world (snd (call_with_retry R fn max_retries tmo is_write ev base cap s)))
      \<le> c (rt_world s) + (if is_write then 1 else nat (max_retries + 1))"
    by (auto simp: call_with_retry_def Let_def run_raise nat_add_distrib)
  show "call_with_retry R fn max_retries tmo True ev base cap s =
      ethen (check_cancelled R ev) (run_with_timeout R fn tmo) s"
    by (auto simp: call_with_retry_def retry_from.simps run_simps split: sum.splits prod.splits)
qed

text \<open>An error that is not retryable ends the call at once.\<close>

lemma not_retried:
  assumes "check_cancelled R ev s = (Inr (), s)" and "run_with_timeout R fn tmo s = (Inl e, t)"
    and "\<not> is_retryable e" and "0 \<le> max_retries"
  shows "call_with_retry R fn max_retries tmo is_write ev base cap s = (Inl e, t)"
  using assms by (simp add: call_with_retry_def retry_from.simps run_simps)

section \<open>The ledger\<close>

definition same_ledger :: "'w rt \<Rightarrow> 'w rt \<Rightarrow> bool" where
  "same_ledger s t \<longleftrightarrow> rt_tracker t = rt_tracker s"

interpretation ledger: step_relation same_ledger
  by unfold_locales (auto simp: same_ledger_def)

lemma ledger_prims:
  "obeys same_ledger (monotonic R)" "obeys same_ledger (emod (\<lambda>s. s\<lparr>rt_world := f (rt_world s)\<rparr>))"
  "obeys same_ledger (provider_call R model request)"
  by (auto simp: obeys_def same_ledger_def monotonic_def run_mod provider_call_def run_raise split: prod.splits)

lemma ledger_check: "obeys same_ledger (check_cancelled R ev)" "obeys same_ledger (checked_snapshot R)"
  "obeys same_ledger (budget_check R)"
  unfolding check_cancelled_def budget_check_def checked_snapshot_def snapshot_def
  by (intro ledger.obeys_intros ledger_prims)+

lemma ledger_retry:
  assumes "obeys same_ledger fn"
  shows "obeys same_ledger (retry_from R fn tmo wr ev b cap n left)"
proof (induction left arbitrary: n)
  have one: "obeys same_ledger (run_with_timeout R fn tmo)"
    unfolding run_with_timeout_def by (intro ledger.obeys_intros ledger_prims assms)
  {
    case 0
    then show ?case by (subst retry_from.simps) (auto intro!: ledger.obeys_intros one ledger_check)
  next
    case (Suc left)
    then show ?case
      by (subst retry_from.simps) (auto intro!: ledger.obeys_intros one ledger_check ledger_prims)
  }
qed

lemma ledger_call: "obeys same_ledger fn \<Longrightarrow> obeys same_ledger (call_with_retry R fn k tmo wr ev b cap)"
  unfolding call_with_retry_def Let_def by (intro ledger.obeys_intros ledger_retry)

text \<open>What one model call adds to the ledger.\<close>

definition billed :: "BudgetSnapshot \<Rightarrow> int \<Rightarrow> int \<Rightarrow> pyfloat \<Rightarrow> BudgetSnapshot" where
  "billed b i out cost = b\<lparr>bs_model_calls := bs_model_calls b + 1,
     bs_input_tokens := bs_input_tokens b + max 0 i, bs_output_tokens := bs_output_tokens b + max 0 out,
     bs_cost_usd := bs_cost_usd b + max 0 cost\<rparr>"

lemma checked_ok:
  assumes "checked_snapshot R s = (Inr b, t)"
  shows "rt_tracker t = rt_tracker s" "b = (bt_snap (rt_tracker s))\<lparr>bs_elapsed_s := bs_elapsed_s b\<rparr>"
    "budget_checks (ru_py R) (bt_limits (rt_tracker s)) b = Inr ()"
proof -
  show t: "rt_tracker t = rt_tracker s"
    using obeys_eq [OF ledger_check(2) assms] by (simp add: same_ledger_def)
  show "b = (bt_snap (rt_tracker s))\<lparr>bs_elapsed_s := bs_elapsed_s b\<rparr>"
    "budget_checks (ru_py R) (bt_limits (rt_tracker s)) b = Inr ()"
    using assms by (auto simp: checked_snapshot_def snapshot_def monotonic_def run_simps
        split: prod.splits sum.splits)
qed

lemma record_model_ok:
  assumes "record_model R i out cost s = (Inr b, t)"
  shows "bt_limits (rt_tracker t) = bt_limits (rt_tracker s)"
    "bt_snap (rt_tracker t) = billed (bt_snap (rt_tracker s)) i out cost"
    "\<exists>el. budget_checks (ru_py R) (bt_limits (rt_tracker t)) ((bt_snap (rt_tracker t))\<lparr>bs_elapsed_s := el\<rparr>) = Inr ()"
proof -
  let ?s = "s\<lparr>rt_tracker := (rt_tracker s)\<lparr>bt_snap := billed (bt_snap (rt_tracker s)) i out cost\<rparr>\<rparr>"
  from assms have c: "checked_snapshot R ?s = (Inr b, t)"
    by (simp add: record_model_def upd_snap_def run_simps billed_def)
  from checked_ok [OF c] show "bt_limits (rt_tracker t) = bt_limits (rt_tracker s)"
    "bt_snap (rt_tracker t) = billed (bt_snap (rt_tracker s)) i out cost"
    "\<exists>el. budget_checks (ru_py R) (bt_limits (rt_tracker t)) ((bt_snap (rt_tracker t))\<lparr>bs_elapsed_s := el\<rparr>) = Inr ()"
    by (auto intro: exI [of _ "bs_elapsed_s b"])
qed

text \<open>C31. A model call that returns is billed once and within the limits: the ledger grows by one call, by
  the tokens and the cost of the response (never by a negative amount), its limits stay, and every
  limit held after the call; where a structured answer was asked for, the response has one.\<close>

theorem model_call_billed:
  assumes "complete R self request has_event s = (Inr resp, t)"
  shows "bt_limits (rt_tracker t) = bt_limits (rt_tracker s) \<and>
    bt_snap (rt_tracker t) =
      billed (bt_snap (rt_tracker s)) (ms_input_tokens resp) (ms_output_tokens resp) (ms_cost_usd resp) \<and>
    (\<exists>el. budget_checks (ru_py R) (bt_limits (rt_tracker t)) ((bt_snap (rt_tracker t))\<lparr>bs_elapsed_s := el\<rparr>) = Inr ()) \<and>
    (mr_response_model request \<noteq> None \<longrightarrow> ms_structured resp \<noteq> None)"
proof -
  from assms obtain s1 s2 s3 s4 s5 raw model started ended choice usage i out b st where
    steps: "check_cancelled R has_event s = (Inr (), s1)" "budget_check R s1 = (Inr (), s2)"
      "monotonic R s2 = (Inr started, s3)"
      "call_with_retry R (provider_call R model request) (pr_max_retries self)
         (if mr_timeout_s request \<noteq> 0 then mr_timeout_s request else pr_timeout_s self) False has_event
         (2 / 10) 4 s3 = (Inr raw, s4)" "ethen (check_cancelled R has_event) (monotonic R) s4 = (Inr ended, s5)"
    and bill: "record_model R i out ((rat_of_int i / 1000) * pr_cost_per_1k_input self +
         (rat_of_int out / 1000) * pr_cost_per_1k_output self) s5 = (Inr b, t)"
    and str: "provider_structured R choice (mr_response_model request) = Inr st"
    and resp: "ms_input_tokens resp = i" "ms_output_tokens resp = out" "ms_structured resp = st"
      "ms_cost_usd resp = (rat_of_int i / 1000) * pr_cost_per_1k_input self +
         (rat_of_int out / 1000) * pr_cost_per_1k_output self"
    unfolding complete_def Let_def
    by (elim then_okE bind_okE) (auto simp: ok_simps run_then split: prod.splits elim!: then_okE bind_okE)
  have "obeys same_ledger (ethen (check_cancelled R has_event) (monotonic R))"
    by (intro ledger.obeys_intros ledger_check ledger_prims)
  from obeys_eq [OF ledger_check(1) steps(1)] obeys_eq [OF ledger_check(3) steps(2)]
    obeys_eq [OF ledger_prims(1) steps(3)] obeys_eq [OF ledger_call [OF ledger_prims(3)] steps(4)]
    obeys_eq [OF this steps(5)]
  have "rt_tracker s5 = rt_tracker s" by (simp add: same_ledger_def)
  moreover have "mr_response_model request \<noteq> None \<longrightarrow> st \<noteq> None"
    using str by (auto simp: provider_structured_def rbind_Inr_iff split: sum.splits)
  ultimately show ?thesis using record_model_ok [OF bill] by (simp add: resp)
qed

section \<open>A concrete provider\<close>

text \<open>The world counts the calls of the provider.\<close>

definition demo_answer :: pyval where
  "demo_answer = PDict [(''choices'', PList [PDict [(''message'', PDict [(''content'', PStr ''ok'')])]]),
     (''usage'', PDict [(''prompt_tokens'', PInt 12), (''completion_tokens'', PInt 3)])]"

definition demo_rt :: "nat rt_env" where
  "demo_rt = \<lparr>ru_py = plain_env, ru_monotonic = (\<lambda>w. (0, w)), ru_cancelled = (\<lambda>_. False),
     ru_timed_out = (\<lambda>_ _. False), ru_abandon = Suc, ru_sleep = (\<lambda>_ w. w), ru_litellm = True,
     ru_acompletion = (\<lambda>_ w. (Inr demo_answer, Suc w)), ru_float = (\<lambda>_. None), ru_result = (\<lambda>_. None),
     ru_json_loads = (\<lambda>_. Inr PNone), ru_message = (\<lambda>_ _. [])\<rparr>"

definition demo_ledger :: "nat rt" where
  "demo_ledger = \<lparr>rt_tracker = \<lparr>bt_limits = default_limits, bt_snap = empty_snapshot, bt_start = 0\<rparr>,
     rt_world = 0\<rparr>"

definition unreachable :: "(nat rt, pyval) em" where
  "unreachable = (\<lambda>s. (Inl (PyExc EConnection ''ConnectionError'' ''refused'' []), s\<lparr>rt_world := Suc (rt_world s)\<rparr>))"

theorem retries_bounded_witness:
  "rt_world (snd (call_with_retry demo_rt unreachable 2 30 False False (2 / 10) 4 demo_ledger)) \<le> 3"
  using retries_bounded [of "\<lambda>w. w" unreachable demo_rt 2 30 False False "2 / 10" 4 demo_ledger]
  by (simp add: unreachable_def demo_rt_def demo_ledger_def)

theorem model_call_billed_witness:
  "\<exists>t. bt_snap (rt_tracker t) = billed empty_snapshot 12 3 (18 / 10 ^ 6) \<and>
     snd (complete demo_rt (default_provider default_router) (chat [] ''hello'' SUMMARY None) False demo_ledger) = t"
proof -
  let ?m = "complete demo_rt (default_provider default_router) (chat [] ''hello'' SUMMARY None) False demo_ledger"
  have "fst ?m = Inr \<lparr>ms_text = ''ok'', ms_structured = None, ms_model = ''gpt-4o-mini'',
      ms_input_tokens = 12, ms_output_tokens = 3, ms_cost_usd = 18 / 10 ^ 6, ms_latency_ms = 0\<rparr>"
  proof -
    have choice: "payload_choice demo_answer = Inr (PStr ''ok'',
        PDict [(''prompt_tokens'', PInt 12), (''completion_tokens'', PInt 3)])"
      "route default_router ''summary'' = Inr ''gpt-4o-mini''" by code_simp+
    show ?thesis
      by (simp add: complete_def run_simps Let_def check_cancelled_def budget_check_def checked_snapshot_def
          snapshot_def monotonic_def demo_rt_def demo_ledger_def default_limits_def empty_snapshot_def
          budget_checks_def check_def call_with_retry_def retry_from.simps run_with_timeout_def
          provider_call_def choice chat_def default_provider_def provider_tokens_def record_model_def
          upd_snap_def provider_structured_def)
  qed
  then have "?m = (Inr \<lparr>ms_text = ''ok'', ms_structured = None, ms_model = ''gpt-4o-mini'',
      ms_input_tokens = 12, ms_output_tokens = 3, ms_cost_usd = 18 / 10 ^ 6, ms_latency_ms = 0\<rparr>, snd ?m)"
    by (metis prod.collapse)
  from model_call_billed [OF this] show ?thesis by (simp add: demo_ledger_def)
qed

end
