(* ===== verification/ApiStore.thy ===== *)
theory ApiStore
  imports GraphFakes RepoAudit Identity
begin

text \<open>
  \<^verbatim>\<open>apps/api/store.py\<close> and the wiring of the graph in the API and the worker: the caches of one API
  process, the repository behind them, and \<open>RepositoryStore\<close>, through which the graph persists its
  state and publishes its events.

  The requests and background tasks of one process are taken one after the other; other processes
  act on the database only, through the sessions of \<open>repo_env\<close>. The run state in \<open>RUN_STATES\<close> is the
  object the graph works on, so what a run leaves is what the cache holds afterwards.
\<close>

section \<open>State\<close>

record api =
  ai_repo :: repo
  RUN_STATES :: "(string \<times> RunState) list"
  CANCEL_FLAGS :: "string list"
  DECIDE_IDEMPOTENCY :: "((string \<times> string) \<times> pydict) list"
  A2A_CANCELLED :: "string list"
  ai_background :: "(string \<times> string) list"  \<comment> \<open>tasks enqueued with a response: run and tenant\<close>
  ai_ticks :: nat

record api_env =
  pv_py :: pyenv
  pv_repo_env :: repo_env
  pv_clock :: "nat \<Rightarrow> datetime"
  pv_monotonic :: "nat \<Rightarrow> pyfloat"
  pv_uuid_hex :: "nat \<Rightarrow> string"
  pv_time_text :: "datetime \<Rightarrow> string"  \<comment> \<open>a time in a JSON dump\<close>

definition api_tick :: "(nat \<Rightarrow> 'a) \<Rightarrow> (api, 'a) em" where
  "api_tick f = ebind (eget ai_ticks) (\<lambda>k. ethen (emod (\<lambda>s. s\<lparr>ai_ticks := Suc (ai_ticks s)\<rparr>)) (eret (f k)))"

definition on_repo :: "(repo, 'a) em \<Rightarrow> (api, 'a) em" where
  "on_repo m = (\<lambda>s. case m (ai_repo s) of (r, d) \<Rightarrow> (r, s\<lparr>ai_repo := d\<rparr>))"

text \<open>\<^verbatim>\<open>contextlib.suppress(...)\<close>.\<close>

definition suppress :: "(pyexc \<Rightarrow> bool) \<Rightarrow> ('s, 'a) em \<Rightarrow> ('s, unit) em" where
  "suppress p m = etry (ethen m (eret ())) (\<lambda>e. if p e then eret () else eraise e)"

abbreviation suppress_all :: "('s, 'a) em \<Rightarrow> ('s, unit) em" where
  "suppress_all \<equiv> suppress (\<lambda>_. True)"

definition is_not_found :: "pyexc \<Rightarrow> bool" where
  "is_not_found e = (exc_name e = ''NotFoundError'')"

definition is_conflict :: "pyexc \<Rightarrow> bool" where
  "is_conflict e = (exc_name e = ''ConflictError'')"

definition get_database_url :: "(string \<Rightarrow> string option) \<Rightarrow> string" where
  "get_database_url environ =
     (let url = strip (case environ ''DATABASE_URL'' of Some v \<Rightarrow> v | None \<Rightarrow> []) in
      if url \<noteq> [] then url
      else if (case environ ''APP_ENV'' of Some v \<Rightarrow> v | None \<Rightarrow> ''local'') = ''test'' then ''sqlite:///:memory:''
      else ''sqlite:///./workbench.db'')"

text \<open>The test hook: an empty database and empty caches.\<close>

definition reset_repository :: "(api, unit) em" where
  "reset_repository = emod (\<lambda>s. s\<lparr>ai_repo := (ai_repo s)\<lparr>rp_db := empty_db\<rparr>, RUN_STATES := [],
     CANCEL_FLAGS := [], DECIDE_IDEMPOTENCY := [], A2A_CANCELLED := []\<rparr>)"

section \<open>Cancellation\<close>

definition obs_task :: "string \<Rightarrow> string" where
  "obs_task rid = rid @ ''-obs-1''"

definition request_cancel :: "string \<Rightarrow> (api, unit) em" where
  "request_cancel rid = emod (\<lambda>s. s\<lparr>
     CANCEL_FLAGS := List.insert rid (CANCEL_FLAGS s),
     RUN_STATES := (case map_of (RUN_STATES s) rid of None \<Rightarrow> RUN_STATES s
       | Some st \<Rightarrow> AList.update rid (st\<lparr>st_cancelled := True\<rparr>) (RUN_STATES s)),
     A2A_CANCELLED := (if obs_task rid \<in> set (A2A_CANCELLED s) then A2A_CANCELLED s
       else A2A_CANCELLED s @ [obs_task rid])\<rparr>)"

section \<open>RepositoryStore\<close>

definition state_budget :: "RunState \<Rightarrow> pydict" where
  "state_budget st =
     [(''max_tool_calls'', PInt (max_tool_calls (st_limits st))),
      (''max_model_calls'', PInt (max_model_calls (st_limits st))),
      (''max_cost_usd'', PFloat (max_cost_usd (st_limits st))),
      (''consumed_tool_calls'', PInt (tool_calls (st_usage st))),
      (''consumed_model_calls'', PInt (model_calls (st_usage st))),
      (''consumed_cost_usd'', PFloat (cost_usd (st_usage st)))]"

text \<open>The approval dictionaries of the graph hold times as text.\<close>

definition parse_dt :: "pyenv \<Rightarrow> string option \<Rightarrow> datetime option" where
  "parse_dt E v = (case v of None \<Rightarrow> None | Some t \<Rightarrow> fromisoformat E t)"

definition coerce_decision :: "string \<Rightarrow> ApprovalDecision" where
  "coerce_decision v = (case ApprovalDecision_of v of Inr d \<Rightarrow> d | Inl _ \<Rightarrow> PENDING)"

definition half_hour :: int where
  "half_hour = 30 * 60 * 1000000"

definition upsert_approval ::
  "api_env \<Rightarrow> string \<Rightarrow> string \<Rightarrow> RunState \<Rightarrow> wf_approval \<Rightarrow> (api, unit) em" where
  "upsert_approval E rid tenant st ap =
     (if wa_approval_id ap = [] then eret ()
      else ebind (case parse_dt (pv_py E) (Some (wa_requested_at ap)) of
             Some t \<Rightarrow> eret t | None \<Rightarrow> api_tick (pv_clock E)) (\<lambda>requested_at.
        ebind (elift (validate_Approval
          \<lparr>ap_approval_id = wa_approval_id ap, ap_run_id = rid, ap_tenant_id = tenant,
           ap_action_id = wa_action_id ap, ap_requested_by = wa_requested_by ap,
           ap_approver = map_option fst (wa_decided_by ap),
           ap_decision = coerce_decision (wa_decision ap),
           ap_reason = (case wa_decided_by ap of Some (_, why) \<Rightarrow> why | None \<Rightarrow> None),
           ap_requested_at = requested_at, ap_decided_at = None,
           ap_expires_at = Some (requested_at + half_hour), ap_trace_id = st_trace_id st,
           ap_correlation_id = st_correlation_id st\<rparr>)) (\<lambda>approval.
        suppress is_conflict (on_repo (create_approval approval)))))"

definition store_save :: "api_env \<Rightarrow> string \<Rightarrow> string \<Rightarrow> RunState \<Rightarrow> (api, unit) em" where
  "store_save E rid tenant st =
     ethen (emod (\<lambda>s. s\<lparr>RUN_STATES := AList.update rid st (RUN_STATES s)\<rparr>))
     (ethen (suppress_all (on_repo (update_run (pv_repo_env E) rid tenant
        [F_status (RunStatus_value (st_status st)), F_current_state (wf_name (st_current st)),
         F_budget_json (state_budget st)])))
     (efor (st_approvals st) (\<lambda>ap. suppress_all (upsert_approval E rid tenant st ap))))"

definition store_append :: "api_env \<Rightarrow> string \<Rightarrow> string \<Rightarrow> AgentEvent \<Rightarrow> (api, unit) em" where
  "store_append E rid tenant ev = suppress_all (on_repo (append_next_event (pv_repo_env E)
     \<lparr>ne_run_id = rid, ne_tenant_id = tenant, ne_type = EventType_value (ev_type ev),
      ne_data = ev_data ev, ne_event_id = Some (ev_event_id ev), ne_trace_id = ev_trace_id ev,
      ne_correlation_id = ev_correlation_id ev, ne_sensitive = ev_sensitive ev,
      ne_safe_for_ui = (ev_safe_for_ui ev \<and> \<not> ev_sensitive ev)\<rparr>))"

section \<open>The graph over the store\<close>

text \<open>The world of a run: the deterministic clients, made anew for it, and the process.\<close>

definition on_fakes :: "(fakes, 'a) em \<Rightarrow> (fakes \<times> api, 'a) em" where
  "on_fakes m = (\<lambda>(f, a). case m f of (r, f') \<Rightarrow> (r, (f', a)))"

definition on_api :: "(api, 'a) em \<Rightarrow> (fakes \<times> api, 'a) em" where
  "on_api m = (\<lambda>(f, a). case m a of (r, a') \<Rightarrow> (r, (f, a')))"

definition read_tick :: "(nat \<Rightarrow> 'a) \<Rightarrow> fakes \<times> api \<Rightarrow> 'a \<times> (fakes \<times> api)" where
  "read_tick g w = (g (ai_ticks (snd w)), (fst w, (snd w)\<lparr>ai_ticks := Suc (ai_ticks (snd w))\<rparr>))"

definition make_prod_graph :: "api_env \<Rightarrow> string \<Rightarrow> string \<Rightarrow> (fakes \<times> api) graph_deps" where
  "make_prod_graph E rid tenant =
     \<lparr>d_env = pv_py E, d_invoke = (\<lambda>tool args t. on_fakes (fake_invoke (pv_py E) tool args t)),
      d_delegate = (\<lambda>request t. on_fakes (fake_delegate (pv_py E) request t)),
      d_cancel = Some (\<lambda>task. on_fakes (fake_cancel task)),
      d_policy = (\<lambda>action env. on_fakes (fake_policy action env)),
      d_append = (\<lambda>ev. on_api (store_append E rid tenant ev)),
      d_save = (\<lambda>st. on_api (store_save E rid tenant st)),
      d_classify = (\<lambda>objective ctx. eret (fake_classify objective ctx)),
      d_plan = (\<lambda>objective classification. eret (fake_plan objective classification)),
      d_now = read_tick (pv_clock E), d_utcnow = read_tick (pv_clock E),
      d_monotonic = read_tick (pv_monotonic E), d_cancel_requested = (\<lambda>_. False)\<rparr>"

text \<open>\<^verbatim>\<open>graph.run(state)\<close> on a cached state.\<close>

definition run_graph :: "api_env \<Rightarrow> string \<Rightarrow> string \<Rightarrow> RunState \<Rightarrow> (api, RunState) em" where
  "run_graph E run_id tenant st = (\<lambda>s.
     case run (make_prod_graph E run_id tenant) (new_graph st (default_fakes 0, s)) of
       (r, t) \<Rightarrow> (case r of Inl e \<Rightarrow> Inl e | Inr _ \<Rightarrow> Inr (g_state t),
         (snd (g_world t))\<lparr>RUN_STATES := AList.update run_id (g_state t) (RUN_STATES (snd (g_world t)))\<rparr>))"

section \<open>The worker\<close>

text \<open>\<^verbatim>\<open>apps/worker/worker.py\<close>.\<close>

record RunJob =
  rj_run_id :: string
  rj_tenant_id :: string
  rj_objective :: string
  rj_context :: pydict
  rj_limits :: BudgetLimits
  rj_trace_id :: "string option"
  rj_correlation_id :: "string option"

definition job_state :: "RunJob \<Rightarrow> datetime \<Rightarrow> RunState" where
  "job_state job now = (new_RunState (rj_run_id job) (rj_tenant_id job) (rj_objective job)
     (rj_context job) now)\<lparr>st_limits := rj_limits job, st_trace_id := rj_trace_id job,
       st_correlation_id := rj_correlation_id job\<rparr>"

definition propagate_cancel :: "string \<Rightarrow> (api, bool) em" where
  "propagate_cancel rid = ethen (request_cancel rid)
     (ethen (emod (\<lambda>s. s\<lparr>A2A_CANCELLED := (if obs_task rid \<in> set (A2A_CANCELLED s) then A2A_CANCELLED s
        else A2A_CANCELLED s @ [obs_task rid])\<rparr>)) (eret True))"

definition run_repository_job :: "api_env \<Rightarrow> RunJob \<Rightarrow> (api, RunState) em" where
  "run_repository_job E job =
     ebind (eget (\<lambda>s. map_of (RUN_STATES s) (rj_run_id job))) (\<lambda>cached.
     ebind (case cached of
         Some st \<Rightarrow> eret st
       | None \<Rightarrow> ebind (api_tick (pv_clock E)) (\<lambda>now.
           ethen (emod (\<lambda>s. s\<lparr>RUN_STATES := AList.update (rj_run_id job) (job_state job now) (RUN_STATES s)\<rparr>))
             (eret (job_state job now)))) (\<lambda>state.
     ebind (run_graph E (rj_run_id job) (rj_tenant_id job) state) (\<lambda>out.
     ethen (suppress_all (on_repo (update_run (pv_repo_env E) (rj_run_id job) (rj_tenant_id job)
        [F_status (RunStatus_value (st_status out)), F_current_state (wf_name (st_current out))])))
     (eret out))))"

text \<open>The queue of the tests, over the in-memory persistence of the graph; the other clients are made
  anew for each graph.\<close>

record run_queue =
  qu_jobs :: "RunJob list"
  qu_states :: "(string \<times> RunState) list"
  qu_store :: fakes

definition enqueue :: "RunJob \<Rightarrow> datetime \<Rightarrow> (run_queue, unit) em" where
  "enqueue job now = emod (\<lambda>q. q\<lparr>qu_states := AList.update (rj_run_id job) (job_state job now) (qu_states q),
     qu_jobs := qu_jobs q @ [job]\<rparr>)"

definition queue_request_cancel :: "string \<Rightarrow> (run_queue, bool) em" where
  "queue_request_cancel rid = ebind (eget (\<lambda>q. map_of (qu_states q) rid)) (\<lambda>cached. case cached of
     None \<Rightarrow> eret False
   | Some st \<Rightarrow> ethen (emod (\<lambda>q. q\<lparr>qu_states := AList.update rid (st\<lparr>st_cancelled := True\<rparr>) (qu_states q)\<rparr>))
       (eret True))"

definition on_queue :: "(fakes, unit) gm \<Rightarrow> string \<Rightarrow> RunState \<Rightarrow> (run_queue, RunState) em" where
  "on_queue m rid st = (\<lambda>q.
     case m (new_graph st ((default_fakes 0)\<lparr>fk_saves := fk_saves (qu_store q), fk_events := fk_events (qu_store q)\<rparr>)) of
     (r, t) \<Rightarrow> (case r of Inl e \<Rightarrow> Inl e | Inr _ \<Rightarrow> Inr (g_state t),
       q\<lparr>qu_states := AList.update rid (g_state t) (qu_states q), qu_store := g_world t\<rparr>))"

definition queue_decide_approval ::
  "pyenv \<Rightarrow> string \<Rightarrow> string \<Rightarrow> string \<Rightarrow> string option \<Rightarrow> (run_queue, RunState) em" where
  "queue_decide_approval E rid decision approver reason =
     ebind (eget (\<lambda>q. map_of (qu_states q) rid)) (\<lambda>cached. case cached of
       None \<Rightarrow> eraise (KeyError (repr_str (''unknown rid '' @ rid)))
     | Some st \<Rightarrow> on_queue (resume_after_approval (fake_deps E) decision approver reason) rid st)"

definition process_one :: "pyenv \<Rightarrow> (run_queue, RunState option) em" where
  "process_one E = ebind (eget qu_jobs) (\<lambda>jobs. case jobs of
     [] \<Rightarrow> eret None
   | job # rest \<Rightarrow>
       ethen (emod (\<lambda>q. q\<lparr>qu_jobs := rest\<rparr>))
       (ebind (eget (\<lambda>q. map_of (qu_states q) (rj_run_id job))) (\<lambda>cached. case cached of
          None \<Rightarrow> eraise (KeyError (repr_str (rj_run_id job)))
        | Some st \<Rightarrow> ebind (on_queue (run (fake_deps E)) (rj_run_id job) (st\<lparr>st_limits := rj_limits job\<rparr>))
            (\<lambda>out. eret (Some out)))))"

definition pending :: "run_queue \<Rightarrow> nat" where
  "pending q = length (qu_jobs q)"

end
