(* ===== verification/ApiRoutes.thy ===== *)
theory ApiRoutes
  imports ApiStore Authz AgUi Runtime
begin

text \<open>
  \<^verbatim>\<open>apps/api/dependencies.py\<close>, \<^verbatim>\<open>main.py\<close> and \<^verbatim>\<open>routes/\<close>: the endpoints of the gateway over the store of
  one process.

  A request comes with the identity that the middleware left on it, if any, and its body parsed.
  An endpoint returns its body or raises; \<open>respond\<close> is the application around it.
\<close>

section \<open>Identity of a request\<close>

definition mock_identity :: "(string \<Rightarrow> string option) \<Rightarrow> Identity" where
  "mock_identity environ = \<lparr>
     id_user_id = (case environ ''MOCK_USER_ID'' of Some v \<Rightarrow> v | None \<Rightarrow> ''analyst-local''),
     id_tenant_id = (case environ ''MOCK_TENANT_ID'' of Some v \<Rightarrow> v | None \<Rightarrow> ''tenant-local''),
     id_scopes = [''case.read'', ''case.write'', ''case.approve'', ''tools.read''], id_mode = ''mock'',
     id_expires_at = None\<rparr>"

definition get_identity :: "(string \<Rightarrow> string option) \<Rightarrow> Identity option \<Rightarrow> Identity" where
  "get_identity environ who = (case who of Some i \<Rightarrow> i | None \<Rightarrow> mock_identity environ)"

definition get_tenant_id ::
  "(string \<Rightarrow> string option) \<Rightarrow> Identity option \<Rightarrow> string option \<Rightarrow> string presult" where
  "get_tenant_id environ who x_tenant_id =
     (let i = get_identity environ who in
      if x_tenant_id \<noteq> None \<and> x_tenant_id \<noteq> Some [] \<and> x_tenant_id \<noteq> Some (id_tenant_id i)
      then Inl (HttpExc EOther ''AuthorizationError'' ''tenant mismatch'' ''not_found'' 404)
      else Inr (id_tenant_id i))"

definition get_user_id ::
  "(string \<Rightarrow> string option) \<Rightarrow> Identity option \<Rightarrow> string option \<Rightarrow> string" where
  "get_user_id environ who x_user_id =
     (case x_user_id of Some v \<Rightarrow> if v \<noteq> [] then v else id_user_id (get_identity environ who)
      | None \<Rightarrow> id_user_id (get_identity environ who))"

definition require_scope :: "string list \<Rightarrow> Identity \<Rightarrow> Identity presult" where
  "require_scope scopes identity = rbind (require_scopes identity scopes) (\<lambda>_. Inr identity)"

section \<open>Errors to responses\<close>

record response =
  rs_status :: nat
  rs_body :: pyval

definition envelope :: "string \<Rightarrow> string \<Rightarrow> bool \<Rightarrow> pydict" where
  "envelope code message retryable =
     [(''code'', PStr code), (''message'', PStr message), (''retryable'', PBool retryable)]"

text \<open>The tag of an \<^verbatim>\<open>HTTPException\<close> is the code of its detail, or empty when the detail is a text.\<close>

definition HTTPException :: "nat \<Rightarrow> string \<Rightarrow> string \<Rightarrow> pyexc" where
  "HTTPException status code message = HttpExc EOther ''HTTPException'' message code status"

definition not_found :: pyexc where
  "not_found = HTTPException 404 ''not_found'' ''not found''"

definition default_code :: "nat \<Rightarrow> string" where
  "default_code status =
     (if status = 400 then ''validation_error'' else if status = 404 then ''not_found''
      else if status = 409 then ''conflict'' else ''internal_error'')"

definition error_response :: "pyexc \<Rightarrow> response" where
  "error_response e =
     (let reply = (\<lambda>st code retry. \<lparr>rs_status = st, rs_body = PDict (envelope code (exc_msg e) retry)\<rparr>) in
      if exc_name e = ''AuthorizationError'' \<or> exc_name e = ''IdentityError''
      then reply (exc_status e) (exc_tag e) False
      else if exc_name e = ''RateLimitError'' then reply 429 ''rate_limited'' True
      else if exc_name e = ''LimitExceededError'' then reply 400 (exc_tag e) False
      else if exc_name e = ''HTTPException''
      then reply (exc_status e) (if exc_tag e \<noteq> [] then exc_tag e else default_code (exc_status e)) False
      else \<lparr>rs_status = 500, rs_body = PStr ''Internal Server Error''\<rparr>)"

definition respond :: "nat \<Rightarrow> ('s, pyval) em \<Rightarrow> ('s, response) em" where
  "respond status m = (\<lambda>s. case m s of
     (Inr b, t) \<Rightarrow> (Inr \<lparr>rs_status = status, rs_body = b\<rparr>, t) | (Inl e, t) \<Rightarrow> (Inr (error_response e), t))"

text \<open>\<^verbatim>\<open>except NotFoundError: raise HTTPException(404)\<close>.\<close>

definition or_404 :: "('s, 'a) em \<Rightarrow> ('s, 'a) em" where
  "or_404 m = etry m (\<lambda>e. if is_not_found e then eraise not_found else eraise e)"

definition health :: pydict where
  "health = [(''status'', PStr ''ok''), (''service'', PStr ''agent-api'')]"

definition ready :: "(string \<Rightarrow> string option) \<Rightarrow> pydict" where
  "ready environ = [(''status'', PStr ''ready''),
     (''mode'', PStr (case environ ''APP_ENV'' of Some v \<Rightarrow> v | None \<Rightarrow> ''local'')),
     (''checks'', PDict [(''postgres'', PStr ''mock-ok''), (''mcp'', PStr ''mock-ok''), (''a2a'', PStr ''mock-ok'')])]"

section \<open>Creating a run\<close>

definition SCHEMA_VERSION :: string where
  "SCHEMA_VERSION = ''1.0''"

record CreateRunRequest =
  cr_objective :: string
  cr_context :: pydict
  cr_max_tool_calls :: int
  cr_max_model_calls :: int
  cr_max_cost_usd :: pyfloat
  cr_schema_version :: string

text \<open>A body that fails the model is answered by the framework with 422.\<close>

definition validate_CreateRunRequest :: "CreateRunRequest \<Rightarrow> CreateRunRequest presult" where
  "validate_CreateRunRequest r =
     (if len_in 1 8000 (cr_objective r) \<and> 1 \<le> cr_max_tool_calls r \<and> cr_max_tool_calls r \<le> 100 \<and>
         1 \<le> cr_max_model_calls r \<and> cr_max_model_calls r \<le> 50 \<and>
         0 \<le> cr_max_cost_usd r \<and> cr_max_cost_usd r \<le> 1000
      then Inr r else Inl (HTTPException 422 ''validation_error'' ''request body''))"

definition new_run_id :: "api_env \<Rightarrow> (api, string) em" where
  "new_run_id E = api_tick (\<lambda>k. ''run_'' @ take 12 (pv_uuid_hex E k))"

definition initial_budget :: "CreateRunRequest \<Rightarrow> pydict" where
  "initial_budget body =
     [(''max_tool_calls'', PInt (cr_max_tool_calls body)), (''max_model_calls'', PInt (cr_max_model_calls body)),
      (''max_cost_usd'', PFloat (cr_max_cost_usd body)), (''consumed_tool_calls'', PInt 0),
      (''consumed_model_calls'', PInt 0), (''consumed_cost_usd'', PFloat 0)]"

text \<open>The request as a contract, and a fresh ledger that must not be over its limits.\<close>

definition check_request ::
  "api_env \<Rightarrow> Identity \<Rightarrow> string \<Rightarrow> CreateRunRequest \<Rightarrow> string option \<Rightarrow> (api, unit) em" where
  "check_request E identity run_id body key =
     ebind (elift (validate_AgentRequest (pv_py E)
       \<lparr>rq_run_id = run_id, rq_tenant_id = id_tenant_id identity, rq_user_id = id_user_id identity,
        rq_objective = cr_objective body, rq_context = cr_context body,
        rq_max_tool_calls = cr_max_tool_calls body, rq_max_model_calls = cr_max_model_calls body,
        rq_max_cost_usd = cr_max_cost_usd body, rq_idempotency_key = key, rq_trace_id = None,
        rq_correlation_id = None\<rparr>)) (\<lambda>req.
     ebind (api_tick (pv_monotonic E)) (\<lambda>start.
     ebind (elift (from_budget_dict (pv_py E)
       [(''max_tool_calls'', PInt (rq_max_tool_calls req)), (''max_model_calls'', PInt (rq_max_model_calls req)),
        (''max_cost_usd'', PFloat (rq_max_cost_usd req))] [] start)) (\<lambda>tracker.
     ebind (api_tick (pv_monotonic E)) (\<lambda>now.
       elift (budget_checks (pv_py E) (bt_limits tracker) ((bt_snap tracker)\<lparr>bs_elapsed_s := now - bt_start tracker\<rparr>))))))"

definition created_response :: "string \<Rightarrow> string \<Rightarrow> pyval" where
  "created_response run_id status = PDict [(''run_id'', PStr run_id), (''status'', PStr status),
     (''stream_url'', PStr (''/v1/runs/'' @ run_id @ ''/events'')), (''schema_version'', PStr SCHEMA_VERSION)]"

text \<open>An event that the gateway itself appends.\<close>

definition api_event :: "string \<Rightarrow> string \<Rightarrow> EventType \<Rightarrow> pydict \<Rightarrow> new_event" where
  "api_event run_id tenant ty data = \<lparr>ne_run_id = run_id, ne_tenant_id = tenant,
     ne_type = EventType_value ty, ne_data = data, ne_event_id = None, ne_trace_id = None,
     ne_correlation_id = None, ne_sensitive = False, ne_safe_for_ui = False\<rparr>"

definition fresh_state :: "string \<Rightarrow> string \<Rightarrow> CreateRunRequest \<Rightarrow> datetime \<Rightarrow> RunState" where
  "fresh_state run_id tenant body now =
     (new_RunState run_id tenant (cr_objective body) (cr_context body) now)\<lparr>st_limits := RunState.default_limits\<lparr>
        max_model_calls := cr_max_model_calls body, max_tool_calls := cr_max_tool_calls body,
        max_cost_usd := cr_max_cost_usd body\<rparr>\<rparr>"

definition cache_state :: "string \<Rightarrow> RunState \<Rightarrow> (api, unit) em" where
  "cache_state run_id st = emod (\<lambda>s. s\<lparr>RUN_STATES := AList.update run_id st (RUN_STATES s)\<rparr>)"

definition start_run ::
  "api_env \<Rightarrow> string \<Rightarrow> string \<Rightarrow> CreateRunRequest \<Rightarrow> (api, pyval) em" where
  "start_run E run_id tenant body =
     ethen (on_repo (append_next_event (pv_repo_env E)
       (api_event run_id tenant RUN_STARTED [(''objective'', PStr (cr_objective body))])))
     (ebind (api_tick (pv_clock E)) (\<lambda>now.
     ethen (cache_state run_id (fresh_state run_id tenant body now))
     (ethen (emod (\<lambda>s. s\<lparr>ai_background := ai_background s @ [(run_id, tenant)]\<rparr>))
     (eret (created_response run_id ''created'')))))"

definition create_run_route ::
  "api_env \<Rightarrow> Identity \<Rightarrow> CreateRunRequest \<Rightarrow> string option \<Rightarrow> (api, pyval) em" where
  "create_run_route E identity body key =
     ethen (elift (validate_CreateRunRequest body))
     (ethen (elift (require_scopes identity [''case.write'']))
     (ethen (elift (check (cr_schema_version body = SCHEMA_VERSION)
        (HTTPException 400 ''validation_error'' ''stale schema_version; expected 1.0'')))
     (ebind (new_run_id E) (\<lambda>run_id.
      ethen (check_request E identity run_id body key)
      (ebind (on_repo (create_run (pv_repo_env E)
        \<lparr>nr_run_id = run_id, nr_tenant_id = id_tenant_id identity, nr_created_by = id_user_id identity,
         nr_objective = cr_objective body, nr_budget = initial_budget body, nr_current_state = ''created'',
         nr_trace_id = None, nr_correlation_id = None, nr_idempotency_key = key\<rparr>)) (\<lambda>row.
      if rn_id row \<noteq> run_id then eret (created_response (rn_id row) (rn_status row))
      else start_run E (rn_id row) (id_tenant_id identity) body))))))"

text \<open>The background task.\<close>

definition execute_run :: "api_env \<Rightarrow> string \<Rightarrow> string \<Rightarrow> (api, unit) em" where
  "execute_run E run_id tenant =
     ebind (eget (\<lambda>s. map_of (RUN_STATES s) run_id)) (\<lambda>cached. case cached of
       None \<Rightarrow> eret ()
     | Some st0 \<Rightarrow> ebind (eget CANCEL_FLAGS) (\<lambda>flags.
         let st = (if run_id \<in> set flags then st0\<lparr>st_cancelled := True\<rparr> else st0)
         in ethen (cache_state run_id st) (suppress_all (run_graph E run_id tenant st))))"

section \<open>Reading a run\<close>

text \<open>\<^verbatim>\<open>Approval.model_dump(mode="json")\<close>.\<close>

definition opt_time :: "(datetime \<Rightarrow> string) \<Rightarrow> datetime option \<Rightarrow> pyval" where
  "opt_time f t = (case t of None \<Rightarrow> PNone | Some x \<Rightarrow> PStr (f x))"

definition approval_dump :: "(datetime \<Rightarrow> string) \<Rightarrow> Approval \<Rightarrow> pydict" where
  "approval_dump f a =
     [(''schema_version'', PStr ''1.0''), (''approval_id'', PStr (ap_approval_id a)),
      (''run_id'', PStr (ap_run_id a)), (''tenant_id'', PStr (ap_tenant_id a)),
      (''action_id'', PStr (ap_action_id a)), (''requested_by'', PStr (ap_requested_by a)),
      (''approver'', opt_text_val (ap_approver a)),
      (''decision'', PStr (ApprovalDecision_value (ap_decision a))), (''reason'', opt_text_val (ap_reason a)),
      (''requested_at'', PStr (f (ap_requested_at a))), (''decided_at'', opt_time f (ap_decided_at a)),
      (''expires_at'', opt_time f (ap_expires_at a)), (''trace_id'', opt_text_val (ap_trace_id a)),
      (''correlation_id'', opt_text_val (ap_correlation_id a))]"

definition dict_items :: "pyval list \<Rightarrow> pyval list" where
  "dict_items vs = filter is_dict vs"

definition event_findings :: "AgentEvent \<Rightarrow> pyval list" where
  "event_findings e = (if ev_type e = FINDING_CREATED then dict_items [dget_none (ev_data e) ''finding''] else [])"

definition event_actions :: "AgentEvent \<Rightarrow> pyval list" where
  "event_actions e = (if ev_type e = APPROVAL_REQUIRED
     then case dget_none (ev_data e) ''actions'' of PList acts \<Rightarrow> dict_items acts | _ \<Rightarrow> [] else [])"

definition findings_from_events :: "string \<Rightarrow> string \<Rightarrow> (api, pyval list \<times> pyval list) em" where
  "findings_from_events run_id tenant =
     etry (ebind (on_repo (list_events run_id tenant (- 1) 1000)) (\<lambda>events.
         eret (concat (map event_findings events), concat (map event_actions events))))
       (\<lambda>e. if is_not_found e then eret ([], []) else eraise e)"

definition run_detail :: "api_env \<Rightarrow> string \<Rightarrow> string \<Rightarrow> (api, pyval) em" where
  "run_detail E run_id tenant =
     ebind (or_404 (on_repo (get_run run_id tenant))) (\<lambda>row.
     ebind (or_404 (on_repo (list_approvals run_id tenant))) (\<lambda>approvals.
     ebind (eget (\<lambda>s. map_of (RUN_STATES s) run_id)) (\<lambda>cached.
     ebind (case cached of
         Some st \<Rightarrow> eret (map (\<lambda>f. PDict (finding_dict f)) (st_findings st),
           map (\<lambda>a. PDict (action_dict a)) (st_proposed_actions st), wf_name (st_current st),
           if rn_status row = ''cancelled'' then ''cancelled'' else RunStatus_value (st_status st))
       | None \<Rightarrow> ebind (findings_from_events run_id tenant) (\<lambda>(findings, proposed).
           eret (findings, proposed, rn_current_state row, rn_status row)))
       (\<lambda>(findings, proposed, current, status).
     eret (PDict
       [(''run_id'', PStr run_id), (''status'', PStr status), (''current_state'', PStr current),
        (''findings'', PList findings), (''proposed_actions'', PList proposed),
        (''approvals'', PList (map (\<lambda>a. PDict (approval_dump (pv_time_text E) a)) approvals)),
        (''budgets'', PDict (rn_budget_json row)), (''trace_id'', opt_text_val (rn_trace_id row))])))))"

definition get_run_route :: "api_env \<Rightarrow> Identity \<Rightarrow> string \<Rightarrow> (api, pyval) em" where
  "get_run_route E identity run_id =
     ethen (elift (require_scopes identity [''case.read''])) (run_detail E run_id (id_tenant_id identity))"

section \<open>Cancelling a run\<close>

definition expected_error :: "pyexc \<Rightarrow> bool" where
  "expected_error e = (is_not_found e \<or> is_conflict e)"

definition set_cached :: "string \<Rightarrow> (RunState \<Rightarrow> RunState) \<Rightarrow> (api, unit) em" where
  "set_cached run_id f = emod (\<lambda>s. s\<lparr>RUN_STATES := (case map_of (RUN_STATES s) run_id of
     None \<Rightarrow> RUN_STATES s | Some st \<Rightarrow> AList.update run_id (f st) (RUN_STATES s))\<rparr>)"

definition mark_cancelled :: "api_env \<Rightarrow> string \<Rightarrow> string \<Rightarrow> (api, unit) em" where
  "mark_cancelled E run_id tenant =
     ethen (on_repo (update_run (pv_repo_env E) run_id tenant [F_status ''cancelled'']))
       (suppress expected_error (on_repo (append_next_event (pv_repo_env E)
         (api_event run_id tenant RUN_CANCELLED [(''reason'', PStr ''cancel requested'')]))))"

definition cancel_run :: "api_env \<Rightarrow> Identity \<Rightarrow> string \<Rightarrow> (api, pyval) em" where
  "cancel_run E identity run_id =
     ethen (elift (require_scopes identity [''case.write'']))
     (ebind (or_404 (on_repo (get_run run_id (id_tenant_id identity)))) (\<lambda>row.
      ethen (ewhen (rn_status row \<noteq> ''cancelled'') (mark_cancelled E run_id (id_tenant_id identity)))
      (ethen (ApiStore.request_cancel run_id)
      (ethen (set_cached run_id (\<lambda>st. st\<lparr>st_status := CANCELLED\<rparr>))
      (ethen (suppress_all (propagate_cancel run_id))
      (eret (PDict [(''run_id'', PStr run_id), (''status'', PStr ''cancelled'')])))))))"

section \<open>Events\<close>

definition sequence_for_event_id :: "string \<Rightarrow> string \<Rightarrow> string \<Rightarrow> (api, int option) em" where
  "sequence_for_event_id run_id tenant event_id =
     etry (ebind (on_repo (list_events run_id tenant (- 1) 1000)) (\<lambda>events.
         eret (map_option ev_sequence (find (\<lambda>e. ev_event_id e = event_id) events))))
       (\<lambda>_. eret None)"

definition TERMINAL_EVENTS :: "string list" where
  "TERMINAL_EVENTS = map EventType_value [RUN_COMPLETED, RUN_FAILED, RUN_CANCELLED]"

definition newline :: string where
  "newline = [CHR 0x0A]"

definition sse_event :: "pyenv \<Rightarrow> pydict \<Rightarrow> string" where
  "sse_event E e = ''id: '' @ py_str E (dget_or e ''sequence'' (PInt 0)) @ newline @
     ''event: '' @ py_str E (dget_none e ''type'') @ newline @ ''data: '' @ json_dumps E (PDict e) @ newline @ newline"

definition sse_response :: "pyenv \<Rightarrow> pydict list \<Rightarrow> string" where
  "sse_response E events = concat (map (sse_event E) events) @
     (if list_ex (\<lambda>e. py_str E (dget_none e ''type'') \<in> set TERMINAL_EVENTS) events
      then ''event: close'' @ newline @ ''data: {}'' @ newline @ newline else [])"

text \<open>A resume point: the query parameter, or the header when the parameter is zero.\<close>

definition resume_point :: "string \<Rightarrow> string \<Rightarrow> int \<Rightarrow> string option \<Rightarrow> (api, int) em" where
  "resume_point run_id tenant after_sequence header =
     (case header of None \<Rightarrow> eret after_sequence
      | Some h \<Rightarrow> if after_sequence = 0 \<and> h \<noteq> []
          then (case parse_int h of Some i \<Rightarrow> eret i
            | None \<Rightarrow> ebind (sequence_for_event_id run_id tenant h) (\<lambda>seq.
                eret (case seq of Some i \<Rightarrow> i | None \<Rightarrow> after_sequence)))
          else eret after_sequence)"

definition event_payload :: "api_env \<Rightarrow> AgentEvent list \<Rightarrow> pydict list presult" where
  "event_payload E events = all_results (map (event_dump (pv_time_text E)) events)"

definition run_events ::
  "api_env \<Rightarrow> Identity \<Rightarrow> string \<Rightarrow> int \<Rightarrow> string option \<Rightarrow> bool \<Rightarrow> (api, pyval) em" where
  "run_events E identity run_id after_sequence last_event_id stream =
     (let tenant = id_tenant_id identity in
      ethen (elift (check (0 \<le> after_sequence) (HTTPException 422 ''validation_error'' ''after_sequence'')))
      (ethen (elift (require_scopes identity [''case.read'']))
      (ethen (or_404 (on_repo (get_run run_id tenant)))
      (ebind (resume_point run_id tenant after_sequence last_event_id) (\<lambda>effective_after.
       ebind (or_404 (on_repo (list_events run_id tenant effective_after 1000))) (\<lambda>events.
       ebind (elift (event_payload E events)) (\<lambda>payload.
       eret (if stream then PStr (sse_response (pv_py E) payload)
         else PDict [(''run_id'', PStr run_id), (''after_sequence'', PInt effective_after),
           (''events'', PList (map PDict payload))]))))))))"

section \<open>Approvals\<close>

record DecideRequest =
  dr_decision :: string
  dr_approver :: string
  dr_reason :: "string option"
  dr_schema_version :: string

definition validate_DecideRequest :: "DecideRequest \<Rightarrow> DecideRequest presult" where
  "validate_DecideRequest r =
     (if len_in 1 256 (dr_approver r) \<and> opt_len_in 0 2000 (dr_reason r) then Inr r
      else Inl (HTTPException 422 ''validation_error'' ''request body''))"

definition list_approvals_route :: "api_env \<Rightarrow> Identity \<Rightarrow> string \<Rightarrow> (api, pyval) em" where
  "list_approvals_route E identity run_id =
     ethen (elift (require_scopes identity [''case.read'']))
     (ebind (or_404 (on_repo (list_approvals run_id (id_tenant_id identity)))) (\<lambda>rows.
      eret (PDict [(''run_id'', PStr run_id),
        (''approvals'', PList (map (\<lambda>a. PDict (approval_dump (pv_time_text E) a)) rows))])))"

text \<open>The guards of a decision, in their order.\<close>

definition decide_guards :: "Identity \<Rightarrow> DecideRequest \<Rightarrow> string option \<Rightarrow> unit presult" where
  "decide_guards identity body key =
     (let invalid = HTTPException 400 ''validation_error'' in
      rbind (require_scopes identity [''case.approve'']) (\<lambda>_.
      rbind (check (dr_schema_version body = ''1.0'') (invalid ''stale schema_version; expected 1.0'')) (\<lambda>_.
      rbind (check (strip (dr_approver body) \<noteq> []) (invalid ''approver is required'')) (\<lambda>_.
      rbind (check (key \<noteq> None \<and> key \<noteq> Some []) (invalid ''Idempotency-Key header is required'')) (\<lambda>_.
      check (dr_decision body = ''approved'' \<or> dr_decision body = ''rejected'')
        (invalid ''decision must be approved|rejected''))))))"

text \<open>\<^verbatim>\<open>p in s\<close> for texts.\<close>

definition occurs_in :: "string \<Rightarrow> string \<Rightarrow> bool" where
  "occurs_in p s = list_ex (\<lambda>k. take (length p) (drop k s) = p) [0..<Suc (length s)]"

definition decide_errors :: "(api, 'a) em \<Rightarrow> (api, 'a) em" where
  "decide_errors m = etry m (\<lambda>e.
     if is_not_found e then eraise not_found
     else if is_conflict e then eraise (HTTPException 409
       (if occurs_in ''expir'' (lower (exc_msg e)) then ''approval_expired'' else ''conflict'') (exc_msg e))
     else eraise e)"

text \<open>The cached approvals take the decisions that are stored.\<close>

definition sync_approval :: "Approval list \<Rightarrow> wf_approval \<Rightarrow> wf_approval" where
  "sync_approval rows ap =
     (case find (\<lambda>a. ap_approval_id a = wa_approval_id ap) (rev rows) of
        None \<Rightarrow> ap
      | Some row \<Rightarrow> ap\<lparr>wa_decision := ApprovalDecision_value (ap_decision row),
          wa_decided_by := map_option (\<lambda>who. (who, ap_reason row)) (ap_approver row)\<rparr>)"

definition sync_approvals :: "string \<Rightarrow> string \<Rightarrow> (api, unit) em" where
  "sync_approvals run_id tenant = suppress_all
     (ebind (on_repo (list_approvals run_id tenant)) (\<lambda>rows.
       set_cached run_id (\<lambda>st. st\<lparr>st_approvals := map (sync_approval rows) (st_approvals st)\<rparr>)))"

definition resume_rejected :: "api_env \<Rightarrow> string \<Rightarrow> string \<Rightarrow> RunState \<Rightarrow> (api, unit) em" where
  "resume_rejected E run_id tenant st =
     (let st' = st\<lparr>st_status := COMPLETED, st_outcome := Some ''rejected''\<rparr> in
      ethen (store_save E run_id tenant st')
      (suppress_all (ethen (on_repo (append_next_event (pv_repo_env E) (api_event run_id tenant RUN_COMPLETED
          [(''outcome'', PStr ''rejected''), (''executed'', PBool False)])))
        (on_repo (update_run (pv_repo_env E) run_id tenant [F_status ''completed''])))))"

definition resume_approved :: "api_env \<Rightarrow> string \<Rightarrow> string \<Rightarrow> RunState \<Rightarrow> (api, unit) em" where
  "resume_approved E run_id tenant st =
     (let st' = st\<lparr>st_current := ExecuteApproved, st_status := RUNNING\<rparr> in
      ethen (cache_state run_id st') (ethen (run_graph E run_id tenant st') (eret ())))"

definition maybe_resume :: "api_env \<Rightarrow> string \<Rightarrow> string \<Rightarrow> string \<Rightarrow> (api, unit) em" where
  "maybe_resume E run_id tenant decision =
     ebind (eget (\<lambda>s. map_of (RUN_STATES s) run_id)) (\<lambda>cached. case cached of
       None \<Rightarrow> eret ()
     | Some _ \<Rightarrow> suppress_all (ethen (sync_approvals run_id tenant)
         (ebind (eget (\<lambda>s. map_of (RUN_STATES s) run_id)) (\<lambda>synced. case synced of
            None \<Rightarrow> eret ()
          | Some st \<Rightarrow>
              if st_current st \<noteq> ApprovalPause then eret ()
              else if decision = ''rejected'' then resume_rejected E run_id tenant st
              else resume_approved E run_id tenant st))))"

definition decision_result :: "string \<Rightarrow> string \<Rightarrow> DecideRequest \<Rightarrow> pydict" where
  "decision_result approval_id run_id body =
     [(''approval_id'', PStr approval_id), (''run_id'', PStr run_id), (''decision'', PStr (dr_decision body)),
      (''approver'', PStr (dr_approver body)), (''reason'', opt_text_val (dr_reason body))]"

text \<open>The decision proper, after the cache of outcomes.\<close>

definition decide_stored ::
  "api_env \<Rightarrow> Identity \<Rightarrow> string \<Rightarrow> string \<Rightarrow> DecideRequest \<Rightarrow> string \<Rightarrow> (api, pyval) em" where
  "decide_stored E identity run_id approval_id body key =
     (let tenant = id_tenant_id identity; result = decision_result approval_id run_id body in
      ethen (or_404 (on_repo (get_run run_id tenant)))
      (ebind (decide_errors (on_repo (decide_approval (pv_repo_env E) approval_id tenant
          (dr_decision body) (dr_approver body) (dr_reason body)))) (\<lambda>decided.
       ethen (elift (check (ap_run_id decided = run_id) not_found))
       (ethen (suppress expected_error (on_repo (append_next_event (pv_repo_env E)
          (api_event run_id tenant APPROVAL_RECEIVED [(''approval_id'', PStr approval_id),
            (''decision'', PStr (dr_decision body)), (''approver'', PStr (dr_approver body))]))))
       (ethen (emod (\<lambda>s. s\<lparr>DECIDE_IDEMPOTENCY := AList.update (approval_id, key) result (DECIDE_IDEMPOTENCY s)\<rparr>))
       (ethen (maybe_resume E run_id tenant (dr_decision body))
       (eret (PDict result))))))))"

definition decide ::
  "api_env \<Rightarrow> Identity \<Rightarrow> string \<Rightarrow> string \<Rightarrow> DecideRequest \<Rightarrow> string option \<Rightarrow> (api, pyval) em" where
  "decide E identity run_id approval_id body idempotency_key =
     (let key = (case idempotency_key of Some k \<Rightarrow> k | None \<Rightarrow> []) in
      ethen (elift (validate_DecideRequest body))
      (ethen (elift (decide_guards identity body idempotency_key))
      (ebind (eget (\<lambda>s. map_of (DECIDE_IDEMPOTENCY s) (approval_id, key))) (\<lambda>hit.
       case hit of
         Some cached \<Rightarrow> if dget_none cached ''run_id'' = PStr run_id then eret (PDict cached)
           else decide_stored E identity run_id approval_id body key
       | None \<Rightarrow> decide_stored E identity run_id approval_id body key))))"

end
