(* ===== verification/GraphWorld.thy ===== *)
theory GraphWorld
  imports GraphRun
begin

text \<open>
  What a run may do to the world of its clients: a preorder on worlds that every call of a client
  obeys is obeyed by whole runs. The composition of the graph with the store of the gateway rests on
  this interface.
\<close>

locale world_frame =
  fixes W :: "'w \<Rightarrow> 'w \<Rightarrow> bool" and D :: "'w graph_deps"
  assumes W_refl: "W w w"
    and W_trans: "W u v \<Longrightarrow> W v w \<Longrightarrow> W u w"
    and W_moves: "world_moves D w w' \<Longrightarrow> W w w'"
begin

abbreviation RW :: "'w gst \<Rightarrow> 'w gst \<Rightarrow> bool" where
  "RW s t \<equiv> W (g_world s) (g_world t)"

lemma w_relation: "step_relation RW"
  by unfold_locales (blast intro: W_refl W_trans)+

lemma w_prims:
  "obeys RW (upd f)" "obeys RW (upd_usage u)" "obeys RW (log_call c)" "obeys RW (on_breaker b)"
  "obeys RW get_state"
  by (simp_all add: obeys_def gm_prim_defs upd_usage_def py_defs W_refl)

lemma w_client: "(\<And>w. world_moves D w (snd (m w))) \<Longrightarrow> obeys RW (on_world m)"
  by (rule obeysI) (simp add: on_world_def split_def W_moves)

lemma w_clock: "(\<And>w. world_moves D w (snd (f w))) \<Longrightarrow> obeys RW (read_clock f)"
  unfolding read_clock_def by (rule w_client) (simp add: split_def)

lemma w_emit: "obeys RW (emit D ty data)"
  unfolding emit_def emit_full_def
  by (intro step_relation.obeys_intros [OF w_relation] w_prims w_client w_clock client_moves)

lemma w_quiet: "quiet_steps RW D"
  by (rule quiet_steps.intro [OF w_relation], rule quiet_steps_axioms.intro)
    (simp_all add: W_refl W_moves w_emit)

lemmas w_intros = w_prims w_client w_clock client_moves quiet_steps.q_intros [OF w_quiet]

lemma w_spend: "obeys RW (spend_model D)" "obeys RW (spend_tool D)" "obeys RW (spend_delegation D)"
  unfolding spend_model_def spend_tool_def spend_delegation_def by (intro w_intros)+

lemma w_attempt: "obeys RW (mcp_attempt D tool args)"
  unfolding mcp_attempt_def invoke_def by (intro w_intros w_spend)

lemma w_delegate: "obeys RW (delegate_call D)"
  unfolding delegate_call_def call_delegate_def Let_def
  by (intro w_intros w_spend quiet_steps.q_delegate_result [OF w_quiet])

lemma w_execute: "obeys RW (execute_one D ids a)"
  unfolding execute_one_def invoke_def Let_def by (intro w_intros w_spend)

end

sublocale world_frame \<subseteq> world: driving_steps RW D
proof (intro driving_steps.intro moving_steps.intro spending_steps.intro w_quiet
    spending_steps_axioms.intro moving_steps_axioms.intro driving_steps_axioms.intro w_spend w_attempt w_delegate)
  fix s :: "'w gst"
  have "obeys RW (efor (st_proposed_actions (g_state s)) (execute_one D (approved_ids (g_state s))))"
    by (intro w_intros w_execute)
  then show "RW s (snd (efor (st_proposed_actions (g_state s)) (execute_one D (approved_ids (g_state s))) s))"
    by (rule obeysD)
qed (simp_all add: W_refl)

text \<open>The worlds of a run, and of a resumed one, are related.\<close>

context world_frame
begin

lemma run_world: "run D s = (r, t) \<Longrightarrow> W (g_world s) (g_world t)"
  using obeys_eq [OF world.m_run] by blast

lemma resume_world: "resume_after_approval D d a why s = (r, t) \<Longrightarrow> W (g_world s) (g_world t)"
  using obeys_eq [OF world.m_resume] by blast

end

end
