(* ===== verification/RepoSteps.thy ===== *)
theory RepoSteps
  imports RepoAudit
begin

text \<open>
  The abstract specification of the repository: what a committed write may be. A step belongs to a
  tenant; it adds a row under a fresh key to a run of that tenant, or changes a row of that tenant
  in the columns a method may set. Every method, with whatever its concurrent sessions commit, is a
  sequence of such steps; what holds of the steps holds of every history of the database.
\<close>

section \<open>Returning and failing\<close>

lemma transaction_ok: "transaction m s = (Inr x, t) \<longleftrightarrow> m s = (Inr x, t)"
  by (auto simp: transaction_def split: prod.splits sum.splits)

lemma transaction_failed: "transaction m s = (Inl e, t) \<Longrightarrow> rp_db t = rp_db s"
  by (auto simp: transaction_def split: prod.splits sum.splits)

text \<open>A method that checks its arguments before it opens a transaction.\<close>

lemma guarded_ok:
  "(if c then eraise e else transaction m) s = (Inr x, t) \<longleftrightarrow> \<not> c \<and> m s = (Inr x, t)"
  by (simp add: eraise_def transaction_ok)

lemma guarded_failed: "(if c then eraise e else transaction m) s = (Inl e', t) \<Longrightarrow> rp_db t = rp_db s"
  by (cases c) (auto simp: eraise_def dest: transaction_failed)

lemma modify_db_ok: "modify_db f s = (Inr u, t) \<longleftrightarrow> t = s\<lparr>rp_db := f (rp_db s)\<rparr>"
  by (auto simp: modify_db_def emod_def)

lemma tick_ok: "tick s = (Inr n, t) \<longleftrightarrow> n = rp_ticks s \<and> t = s\<lparr>rp_ticks := Suc (rp_ticks s)\<rparr>"
  by (auto simp: tick_def)

lemma repo_now_ok:
  "repo_now E s = (Inr x, t) \<longleftrightarrow> x = rv_clock E (rp_ticks s) \<and> t = s\<lparr>rp_ticks := Suc (rp_ticks s)\<rparr>"
  by (auto simp: repo_now_def ebind_def tick_def eret_def)

lemma id_or_new_db: "id_or_new E k p s = (r, t) \<Longrightarrow> rp_db t = rp_db s \<and> (\<exists>x. r = Inr x)"
  by (auto simp: id_or_new_def new_id_def ebind_def tick_def eret_def split: option.splits if_splits)

lemma get_run_row_ok:
  "get_run_row r tn s = (Inr row, t) \<longleftrightarrow>
     t = s \<and> find_run (rp_db s) r = Some row \<and> rn_tenant_id row = tn"
  by (auto simp: get_run_row_def ebind_def eget_def eret_def eraise_def split: option.splits)

lemma get_run_row_failed:
  "get_run_row r tn s = (Inl e, t) \<Longrightarrow> t = s \<and> e = NotFoundError (''run '' @ r @ '' not found'')"
  by (auto simp: get_run_row_def ebind_def eget_def eret_def eraise_def split: option.splits if_splits)

lemma get_approval_row_ok:
  "get_approval_row a tn s = (Inr row, t) \<longleftrightarrow>
     t = s \<and> find_approval (rp_db s) a = Some row \<and> av_tenant_id row = tn"
  by (auto simp: get_approval_row_def ebind_def eget_def eret_def eraise_def split: option.splits)

lemmas repo_ok = ok_simps modify_db_ok tick_ok repo_now_ok get_run_row_ok get_approval_row_ok

text \<open>The frame of a transaction: a property of first and last database that is reflexive needs
  proof for the computations that return only.\<close>

lemma transaction_frame:
  assumes "transaction m s = (r, t)" and "\<And>d. P d d"
    and "\<And>x. m s = (Inr x, t) \<Longrightarrow> P (rp_db s) (rp_db t)"
  shows "P (rp_db s) (rp_db t)"
proof (cases r)
  case (Inl e)
  with assms(1) have "rp_db t = rp_db s" by (simp add: transaction_failed)
  with assms(2) show ?thesis by simp
next
  case (Inr x)
  with assms(1,3) show ?thesis by (simp add: transaction_ok)
qed

section \<open>Steps\<close>

definition run_of_tenant :: "db \<Rightarrow> string \<Rightarrow> string \<Rightarrow> bool" where
  "run_of_tenant d run tenant = (\<exists>row. find_run d run = Some row \<and> rn_tenant_id row = tenant)"

inductive db_step :: "string \<Rightarrow> db \<Rightarrow> db \<Rightarrow> bool" for tn :: string where
  tenant: "find (\<lambda>r. tn_id r = tn) (tb_tenants d) = None \<Longrightarrow> tn_id row = tn \<Longrightarrow>
     db_step tn d (d\<lparr>tb_tenants := tb_tenants d @ [row]\<rparr>)"
| run: "find_run d (rn_id row) = None \<Longrightarrow> rn_tenant_id row = tn \<Longrightarrow>
     find (\<lambda>r. tn_id r = tn) (tb_tenants d) \<noteq> None \<Longrightarrow>
     db_step tn d (d\<lparr>tb_runs := tb_runs d @ [row]\<rparr>)"
| set_run: "find_run d run = Some row \<Longrightarrow> rn_tenant_id row = tn \<Longrightarrow> rn_id row' = rn_id row \<Longrightarrow>
     rn_tenant_id row' = tn \<Longrightarrow> rn_created_by row' = rn_created_by row \<Longrightarrow>
     rn_idempotency_key row' = rn_idempotency_key row \<Longrightarrow> rn_created_at row' = rn_created_at row \<Longrightarrow>
     db_step tn d (d\<lparr>tb_runs := update_first (\<lambda>r. rn_id r = run) (\<lambda>_. row') (tb_runs d)\<rparr>)"
| event: "run_of_tenant d (re_run_id row) tn \<Longrightarrow> re_tenant_id row = tn \<Longrightarrow> \<not> event_collides row d \<Longrightarrow>
     db_step tn d (d\<lparr>tb_events := tb_events d @ [row]\<rparr>)"
| task: "run_of_tenant d (at_run_id row) tn \<Longrightarrow> at_tenant_id row = tn \<Longrightarrow>
     find (\<lambda>r. at_task_id r = at_task_id row) (tb_tasks d) = None \<Longrightarrow>
     db_step tn d (d\<lparr>tb_tasks := tb_tasks d @ [row]\<rparr>)"
| set_task: "find (\<lambda>r. at_task_id r = k) (tb_tasks d) = Some row \<Longrightarrow> at_tenant_id row = tn \<Longrightarrow>
     at_task_id row' = k \<Longrightarrow> at_run_id row' = at_run_id row \<Longrightarrow> at_tenant_id row' = tn \<Longrightarrow>
     db_step tn d (d\<lparr>tb_tasks := update_first (\<lambda>r. at_task_id r = k) (\<lambda>_. row') (tb_tasks d)\<rparr>)"
| invocation: "run_of_tenant d (tv_run_id row) tn \<Longrightarrow> tv_tenant_id row = tn \<Longrightarrow>
     find (\<lambda>r. tv_invocation_id r = tv_invocation_id row) (tb_invocations d) = None \<Longrightarrow>
     db_step tn d (d\<lparr>tb_invocations := tb_invocations d @ [row]\<rparr>)"
| set_invocation: "find (\<lambda>r. tv_invocation_id r = k) (tb_invocations d) = Some row \<Longrightarrow>
     tv_tenant_id row = tn \<Longrightarrow> tv_invocation_id row' = k \<Longrightarrow> tv_run_id row' = tv_run_id row \<Longrightarrow>
     tv_tenant_id row' = tn \<Longrightarrow>
     db_step tn d (d\<lparr>tb_invocations :=
       update_first (\<lambda>r. tv_invocation_id r = k) (\<lambda>_. row') (tb_invocations d)\<rparr>)"
| approval: "run_of_tenant d (av_run_id row) tn \<Longrightarrow> av_tenant_id row = tn \<Longrightarrow>
     find_approval d (av_approval_id row) = None \<Longrightarrow>
     db_step tn d (d\<lparr>tb_approvals := tb_approvals d @ [row]\<rparr>)"
| decide: "find_approval d k = Some row \<Longrightarrow> av_tenant_id row = tn \<Longrightarrow> av_decision row = ''pending'' \<Longrightarrow>
     row' = row\<lparr>av_decision := dec, av_approver := Some who, av_reason := why, av_decided_at := Some now\<rparr> \<Longrightarrow>
     dec \<in> {''approved'', ''rejected''} \<Longrightarrow>
     \<not> (case av_expires_at row of None \<Rightarrow> False | Some x \<Rightarrow> x < now) \<Longrightarrow>
     db_step tn d (d\<lparr>tb_approvals := update_first (\<lambda>r. av_approval_id r = k) (\<lambda>_. row') (tb_approvals d)\<rparr>)"
| finding: "run_of_tenant d (fr_run_id row) tn \<Longrightarrow> fr_tenant_id row = tn \<Longrightarrow>
     find (\<lambda>r. fr_finding_id r = fr_finding_id row) (tb_findings d) = None \<Longrightarrow>
     db_step tn d (d\<lparr>tb_findings := tb_findings d @ [row]\<rparr>)"
| evidence: "run_of_tenant d (ef_run_id row) tn \<Longrightarrow> ef_tenant_id row = tn \<Longrightarrow>
     find (\<lambda>r. ef_ref_id r = ef_ref_id row) (tb_evidence d) = None \<Longrightarrow>
     db_step tn d (d\<lparr>tb_evidence := tb_evidence d @ [row]\<rparr>)"
| model_call: "run_of_tenant d (mc_run_id row) tn \<Longrightarrow> mc_tenant_id row = tn \<Longrightarrow>
     find (\<lambda>r. mc_call_id r = mc_call_id row) (tb_model_calls d) = None \<Longrightarrow>
     db_step tn d (d\<lparr>tb_model_calls := tb_model_calls d @ [row]\<rparr>)"
| audit: "(case au_run_id row of None \<Rightarrow> True | Some run \<Rightarrow> run_of_tenant d run tn) \<Longrightarrow>
     au_tenant_id row = tn \<Longrightarrow> find (\<lambda>r. au_audit_id r = au_audit_id row) (tb_audit d) = None \<Longrightarrow>
     db_step tn d (d\<lparr>tb_audit := tb_audit d @ [row]\<rparr>)"

text \<open>A history in which only tenants of \<open>T\<close> write.\<close>

inductive db_steps :: "string set \<Rightarrow> db \<Rightarrow> db \<Rightarrow> bool" for T :: "string set" where
  none: "db_steps T d d"
| more: "db_steps T d d' \<Longrightarrow> tn \<in> T \<Longrightarrow> db_step tn d' d'' \<Longrightarrow> db_steps T d d''"

lemma db_steps_one: "tn \<in> T \<Longrightarrow> db_step tn d d' \<Longrightarrow> db_steps T d d'"
  by (rule db_steps.more [OF db_steps.none])

lemma db_steps_trans: "db_steps T d d' \<Longrightarrow> db_steps T d' d'' \<Longrightarrow> db_steps T d d''"
  by (rotate_tac, induction rule: db_steps.induct) (auto intro: db_steps.more)

lemma db_steps_mono: "db_steps T d d' \<Longrightarrow> T \<subseteq> U \<Longrightarrow> db_steps U d d'"
  by (induction rule: db_steps.induct) (auto intro: db_steps.intros)

text \<open>A reflexive and transitive relation that every step obeys, every history obeys.\<close>

lemma db_steps_relation:
  assumes "db_steps T d d'" and "\<And>d. R d d" and "\<And>a b c. R a b \<Longrightarrow> R b c \<Longrightarrow> R a c"
    and "\<And>tn a b. tn \<in> T \<Longrightarrow> db_step tn a b \<Longrightarrow> R a b"
  shows "R d d'"
  using assms(1) by (induction rule: db_steps.induct) (use assms(2-4) in blast)+

section \<open>Every method is a sequence of steps\<close>

text \<open>The other sessions of the environment write only for tenants of \<open>T\<close>.\<close>

definition others_within :: "repo_env \<Rightarrow> string set \<Rightarrow> bool" where
  "others_within E T = (\<forall>n d. db_steps T d (rv_others E n d))"

named_theorems op_steps \<open>each method is a sequence of steps\<close>

lemma ensure_tenant_in_steps:
  assumes "ensure_tenant_in E tn name s = (r, t)"
  shows "db_steps {tn} (rp_db s) (rp_db t)" and "\<exists>u. r = Inr u"
    and "find (\<lambda>r. tn_id r = tn) (tb_tenants (rp_db t)) \<noteq> None" and "tb_runs (rp_db t) = tb_runs (rp_db s)"
proof -
  have "r = Inr () \<and> (find (\<lambda>r. tn_id r = tn) (tb_tenants (rp_db s)) \<noteq> None \<and> t = s \<or>
     find (\<lambda>r. tn_id r = tn) (tb_tenants (rp_db s)) = None \<and>
     (\<exists>row. tn_id row = tn \<and> rp_db t = (rp_db s)\<lparr>tb_tenants := tb_tenants (rp_db s) @ [row]\<rparr>))"
    using assms unfolding ensure_tenant_in_def modify_db_def repo_now_def tick_def
    by (auto simp: run_simps split: if_splits) (rule exI, rule conjI [rotated], rule refl, simp)+
  then show "db_steps {tn} (rp_db s) (rp_db t)" "\<exists>u. r = Inr u"
    "find (\<lambda>r. tn_id r = tn) (tb_tenants (rp_db t)) \<noteq> None" "tb_runs (rp_db t) = tb_runs (rp_db s)"
    by (auto intro: db_steps.none db_steps_one [OF singletonI db_step.tenant] simp: find_append_new)
qed

lemma ensure_tenant_steps [op_steps]:
  "ensure_tenant E tn name s = (r, t) \<Longrightarrow> db_steps {tn} (rp_db s) (rp_db t)"
  unfolding ensure_tenant_def
  by (erule transaction_frame) (auto intro: db_steps.none dest: ensure_tenant_in_steps)

lemma insert_run_ok:
  "insert_run E n s = (Inr row, t) \<Longrightarrow>
     rp_db t = (rp_db s)\<lparr>tb_runs := tb_runs (rp_db s) @ [row]\<rparr> \<and>
     rn_id row = nr_run_id n \<and> rn_tenant_id row = nr_tenant_id n \<and> rn_status row = ''created'' \<and>
     rn_idempotency_key row = nr_idempotency_key n \<and> rn_objective row = nr_objective n"
  unfolding insert_run_def Let_def by (elim bind_okE then_okE) (auto simp: repo_ok)

lemma create_run_steps [op_steps]:
  assumes "create_run E n s = (r, t)"
  shows "db_steps {nr_tenant_id n} (rp_db s) (rp_db t)"
  using assms unfolding create_run_def
proof (rule transaction_frame)
  fix row
  assume "ethen (ensure_tenant_in E (nr_tenant_id n) []) (ebind (eget rp_db) (\<lambda>d.
         case (if given_key (nr_idempotency_key n)
               then find (\<lambda>r. rn_tenant_id r = nr_tenant_id n \<and>
                      rn_idempotency_key r = nr_idempotency_key n) (tb_runs d) else None) of
           Some existing \<Rightarrow> eret existing
         | None \<Rightarrow>
             if find_run d (nr_run_id n) \<noteq> None
             then eraise (ConflictError (''run '' @ nr_run_id n @ '' already exists''))
             else insert_run E n)) s = (Inr row, t)"
  then obtain u v where e: "ensure_tenant_in E (nr_tenant_id n) [] s = (Inr u, v)"
    and c: "t = v \<or> find_run (rp_db v) (nr_run_id n) = None \<and> insert_run E n v = (Inr row, t)"
    by (elim then_okE bind_okE) (auto simp: repo_ok split: option.splits if_splits)
  note ens = ensure_tenant_in_steps [OF e]
  from c show "db_steps {nr_tenant_id n} (rp_db s) (rp_db t)"
  proof
    assume "t = v"
    with ens show ?thesis by simp
  next
    assume i: "find_run (rp_db v) (nr_run_id n) = None \<and> insert_run E n v = (Inr row, t)"
    with insert_run_ok [of E n v row t] ens(3) have "db_step (nr_tenant_id n) (rp_db v) (rp_db t)"
      by (auto intro: db_step.run)
    with ens(1) show ?thesis by (auto intro: db_steps.more)
  qed
qed (rule db_steps.none)

lemma set_field_keeps:
  "rn_id (set_field f r) = rn_id r \<and> rn_tenant_id (set_field f r) = rn_tenant_id r \<and>
   rn_created_by (set_field f r) = rn_created_by r \<and>
   rn_idempotency_key (set_field f r) = rn_idempotency_key r \<and> rn_created_at (set_field f r) = rn_created_at r"
  by (cases f) simp_all

lemma fold_set_field_keeps:
  "rn_id (fold set_field fs r) = rn_id r \<and> rn_tenant_id (fold set_field fs r) = rn_tenant_id r \<and>
   rn_created_by (fold set_field fs r) = rn_created_by r \<and>
   rn_idempotency_key (fold set_field fs r) = rn_idempotency_key r \<and>
   rn_created_at (fold set_field fs r) = rn_created_at r"
  by (induction fs arbitrary: r) (simp_all add: set_field_keeps)

lemma update_run_ok:
  assumes "update_run E run tn fs s = (Inr row', t)"
  obtains row now where "find_run (rp_db s) run = Some row" "rn_tenant_id row = tn"
    "row' = (fold set_field fs row)\<lparr>rn_updated_at := now\<rparr>"
    "rp_db t = (rp_db s)\<lparr>tb_runs := update_first (\<lambda>r. rn_id r = run) (\<lambda>_. row') (tb_runs (rp_db s))\<rparr>"
proof -
  from assms obtain row u now v where "get_run_row run tn s = (Inr row, u)" "repo_now E u = (Inr now, v)"
    and row': "row' = (fold set_field fs row)\<lparr>rn_updated_at := now\<rparr>"
    and m: "modify_db (\<lambda>d. d\<lparr>tb_runs := update_first (\<lambda>r. rn_id r = run) (\<lambda>_. row') (tb_runs d)\<rparr>) v = (Inr (), t)"
    unfolding update_run_def Let_def guarded_ok by (elim conjE bind_okE then_okE) (auto simp: ok_simps)
  then show thesis using that [OF _ _ row'] by (simp add: repo_ok)
qed

lemma update_run_failed: "update_run E run tn fs s = (Inl e, t) \<Longrightarrow> rp_db t = rp_db s"
  unfolding update_run_def by (rule guarded_failed)

text \<open>Methods that fail change nothing; what they change when they return is a step.\<close>

lemma steps_by_cases:
  assumes "m s = (r, t)" and "\<And>e. m s = (Inl e, t) \<Longrightarrow> rp_db t = rp_db s"
    and "\<And>x. m s = (Inr x, t) \<Longrightarrow> db_step tn (rp_db s) (rp_db t) \<or> rp_db t = rp_db s"
  shows "db_steps {tn} (rp_db s) (rp_db t)"
proof -
  from assms have "db_step tn (rp_db s) (rp_db t) \<or> rp_db t = rp_db s" by (cases r) simp_all
  then show ?thesis
  proof
    assume "db_step tn (rp_db s) (rp_db t)"
    then show ?thesis by (rule db_steps_one [OF singletonI])
  next
    assume "rp_db t = rp_db s"
    then show ?thesis by (simp add: db_steps.none)
  qed
qed

lemma update_run_steps [op_steps]:
  assumes "update_run E run tn fs s = (r, t)"
  shows "db_steps {tn} (rp_db s) (rp_db t)"
  using assms
proof (rule steps_by_cases)
  fix row'
  assume "update_run E run tn fs s = (Inr row', t)"
  then obtain row now where r: "find_run (rp_db s) run = Some row" "rn_tenant_id row = tn"
    and row': "row' = (fold set_field fs row)\<lparr>rn_updated_at := now\<rparr>"
    and t: "rp_db t = (rp_db s)\<lparr>tb_runs := update_first (\<lambda>r. rn_id r = run) (\<lambda>_. row') (tb_runs (rp_db s))\<rparr>"
    by (rule update_run_ok)
  have "db_step tn (rp_db s) (rp_db t)" unfolding t
    by (rule db_step.set_run [OF r]) (simp_all add: row' fold_set_field_keeps r)
  then show "db_step tn (rp_db s) (rp_db t) \<or> rp_db t = rp_db s" ..
qed (rule update_run_failed)

text \<open>Adding a row to a run of the tenant: the shape of seven methods.\<close>

lemma event_collides_find:
  "\<not> event_collides row d \<Longrightarrow> find (\<lambda>r. re_event_id r = re_event_id row) (tb_events d) = None"
  by (auto simp: event_collides_def list_ex_iff find_None_iff)

lemma flush_event_ok:
  "flush_event row s = (Inr u, t) \<longleftrightarrow> \<not> event_collides row (rp_db s) \<and>
     t = s\<lparr>rp_db := (rp_db s)\<lparr>tb_events := tb_events (rp_db s) @ [row]\<rparr>\<rparr>"
  by (auto simp: flush_event_def ebind_def eget_def eraise_def modify_db_def emod_def)

lemma flush_event_failed:
  "flush_event row s = (Inl e, t) \<longleftrightarrow> event_collides row (rp_db s) \<and> t = s \<and>
     e = IntegrityError ''UNIQUE constraint failed: run_events''"
  by (auto simp: flush_event_def ebind_def eget_def eraise_def modify_db_def emod_def)

lemma append_event_ok:
  assumes "append_event ev s = (Inr e, t)"
  obtains (dup) dup where "find (\<lambda>r. re_event_id r = ev_event_id ev) (tb_events (rp_db s)) = Some dup"
      "row_to_event dup = Inr e" "t = s"
    | (new) "find (\<lambda>r. re_event_id r = ev_event_id ev) (tb_events (rp_db s)) = None"
      "run_of_tenant (rp_db s) (ev_run_id ev) (ev_tenant_id ev)"
      "\<not> event_collides (event_row ev) (rp_db s)" "e = ev"
      "t = s\<lparr>rp_db := (rp_db s)\<lparr>tb_events := tb_events (rp_db s) @ [event_row ev]\<rparr>\<rparr>"
proof -
  from assms obtain row where run: "find_run (rp_db s) (ev_run_id ev) = Some row" "rn_tenant_id row = ev_tenant_id ev"
    and c: "(case find (\<lambda>r. re_event_id r = ev_event_id ev) (tb_events (rp_db s)) of
             Some dup \<Rightarrow> elift (row_to_event dup)
           | None \<Rightarrow>
               ethen (etry (flush_event (event_row ev))
                 (\<lambda>e. if exc_name e = ''IntegrityError''
                      then eraise (ConflictError (''event sequence conflict run='' @ ev_run_id ev @
                             '' seq='' @ int_str (ev_sequence ev)))
                      else eraise e))
               (eret ev)) s = (Inr e, t)"
    unfolding append_event_def guarded_ok by (elim conjE bind_okE then_okE) (simp add: repo_ok)
  show thesis
  proof (cases "find (\<lambda>r. re_event_id r = ev_event_id ev) (tb_events (rp_db s))")
    case (Some d)
    with c dup show ?thesis by (simp add: ok_simps)
  next
    case None
    with c obtain u where "etry (flush_event (event_row ev)) (\<lambda>e. if exc_name e = ''IntegrityError''
                      then eraise (ConflictError (''event sequence conflict run='' @ ev_run_id ev @
                             '' seq='' @ int_str (ev_sequence ev)))
                      else eraise e) s = (Inr u, t)" "e = ev"
      by (auto simp: ok_simps elim!: then_okE)
    then have "flush_event (event_row ev) s = (Inr u, t)"
      by (auto simp: etry_def eraise_def split: prod.splits sum.splits if_splits)
    with None new run \<open>e = ev\<close> show ?thesis by (simp add: flush_event_ok run_of_tenant_def)
  qed
qed

lemma append_event_failed: "append_event ev s = (Inl e, t) \<Longrightarrow> rp_db t = rp_db s"
  unfolding append_event_def by (rule guarded_failed)

lemma append_event_steps [op_steps]:
  assumes "append_event ev s = (r, t)"
  shows "db_steps {ev_tenant_id ev} (rp_db s) (rp_db t)"
  using assms
proof (rule steps_by_cases)
  fix e
  assume "append_event ev s = (Inr e, t)"
  then show "db_step (ev_tenant_id ev) (rp_db s) (rp_db t) \<or> rp_db t = rp_db s"
    by (cases rule: append_event_ok) (auto intro!: db_step.event simp: event_row_def)
qed (rule append_event_failed)

section \<open>Appending the next event\<close>

lemma find_append_old: "find p rs = Some r \<Longrightarrow> find p (rs @ rs') = Some r"
  by (induction rs) auto

lemma find_update_other:
  assumes "\<And>r. p r \<Longrightarrow> \<not> q r" and "\<not> q row'"
  shows "find q (update_first p (\<lambda>_. row') rs) = find q rs"
  using assms by (induction rs) auto

lemma find_run_update:
  assumes "find_run d run = Some row" and "rn_id row' = rn_id row"
  shows "find_run (d\<lparr>tb_runs := update_first (\<lambda>r. rn_id r = run) (\<lambda>_. row') (tb_runs d)\<rparr>) x =
    (if x = run then Some row' else find_run d x)"
proof -
  have id: "rn_id row' = run"
    using find_SomeD [OF assms(1) [unfolded find_run_def]] assms(2) by simp
  show ?thesis
  proof (cases "x = run")
    case True
    have "find (\<lambda>r. rn_id r = run) (update_first (\<lambda>r. rn_id r = run) (\<lambda>_. row') (tb_runs d)) = Some row'"
      by (rule find_update_first [OF assms(1) [unfolded find_run_def]]) (rule id)
    with True show ?thesis by (simp add: find_run_def)
  next
    case False
    with id have "find (\<lambda>r. rn_id r = x) (update_first (\<lambda>r. rn_id r = run) (\<lambda>_. row') (tb_runs d)) =
      find (\<lambda>r. rn_id r = x) (tb_runs d)"
      by (intro find_update_other) auto
    with False show ?thesis by (simp add: find_run_def)
  qed
qed

text \<open>Runs are never removed and never change tenant.\<close>

lemma db_step_run:
  assumes "db_step tn d d'" and "find_run d run = Some row"
  shows "\<exists>row'. find_run d' run = Some row' \<and> rn_tenant_id row' = rn_tenant_id row \<and>
    rn_id row' = rn_id row \<and> rn_created_by row' = rn_created_by row \<and>
    rn_idempotency_key row' = rn_idempotency_key row \<and> rn_created_at row' = rn_created_at row"
  using assms
proof (cases rule: db_step.cases)
  case (run r)
  then show ?thesis using assms(2) by (simp add: find_run_def find_append_old)
next
  case (set_run x r r')
  show ?thesis
  proof (cases "run = x")
    case True
    with set_run assms(2) have "row = r" by simp
    with True set_run show ?thesis by (simp add: find_run_update [OF set_run(2)])
  next
    case False
    with set_run assms(2) show ?thesis by (simp add: find_run_update [OF set_run(2)])
  qed
qed (use assms(2) in \<open>auto simp: find_run_def\<close>)

lemma db_steps_run_of_tenant:
  "db_steps T d d' \<Longrightarrow> run_of_tenant d run tn \<Longrightarrow> run_of_tenant d' run tn"
  by (induction rule: db_steps.induct) (auto simp: run_of_tenant_def dest: db_step_run)

lemma append_next_write_ok:
  assumes "append_next_write E n eid seq s = (Inr r, t)"
  obtains (written) e now where "r = Some e" "\<not> event_collides (next_row E n eid seq now) (rp_db s)"
      "row_to_event (next_row E n eid seq now) = Inr e" "now = rv_clock E (rp_ticks s)"
      "rp_db t = (rp_db s)\<lparr>tb_events := tb_events (rp_db s) @ [next_row E n eid seq now]\<rparr>"
    | (again) "r = None" "rp_db t = rp_db s" "rv_commit_after_failed_flush E = Inr ()"
      "event_collides (next_row E n eid seq (rv_clock E (rp_ticks s))) (rp_db s)"
proof -
  let ?row = "next_row E n eid seq (rv_clock E (rp_ticks s))"
  let ?u = "s\<lparr>rp_ticks := Suc (rp_ticks s)\<rparr>"
  from assms obtain b v where
    f: "etry (ethen (flush_event ?row) (eret True))
          (\<lambda>e. if exc_name e = ''IntegrityError'' then eret False else eraise e) ?u = (Inr b, v)"
    and c: "(if b then ebind (elift (row_to_event ?row)) (\<lambda>e. eret (Some e))
         else ethen (elift (rv_commit_after_failed_flush E)) (eret None)) v = (Inr r, t)"
    unfolding append_next_write_def Let_def by (elim bind_okE) (auto simp: repo_ok)
  have "b \<and> flush_event ?row ?u = (Inr (), v) \<or> \<not> b \<and> event_collides ?row (rp_db s) \<and> v = ?u"
    using f by (auto simp: etry_def ethen_def ebind_def eret_def eraise_def flush_event_failed
        split: prod.splits sum.splits if_splits)
  then show thesis
  proof
    assume w: "b \<and> flush_event ?row ?u = (Inr (), v)"
    with c obtain e where "row_to_event ?row = Inr e" "r = Some e" "t = v"
      by (auto simp: ok_simps elim!: bind_okE)
    with w show thesis using written [of e] by (simp add: flush_event_ok)
  next
    assume w: "\<not> b \<and> event_collides ?row (rp_db s) \<and> v = ?u"
    with c have "r = None" "t = ?u" "rv_commit_after_failed_flush E = Inr ()"
      by (auto simp: ok_simps elim!: then_okE)
    with w show thesis using again by simp
  qed
qed

lemma append_next_write_steps:
  assumes "transaction (append_next_write E n eid seq) s = (r, t)"
    and "run_of_tenant (rp_db s) (ne_run_id n) (ne_tenant_id n)"
  shows "db_steps {ne_tenant_id n} (rp_db s) (rp_db t)"
  using assms(1)
proof (rule steps_by_cases)
  fix x
  assume "transaction (append_next_write E n eid seq) s = (Inr x, t)"
  then have "append_next_write E n eid seq s = (Inr x, t)" by (simp add: transaction_ok)
  then show "db_step (ne_tenant_id n) (rp_db s) (rp_db t) \<or> rp_db t = rp_db s"
    by (cases rule: append_next_write_ok)
      (use assms(2) in \<open>auto intro!: db_step.event simp: next_row_def\<close>)
qed (rule transaction_failed)

text \<open>The state the write starts from: the other sessions have written since the reads.\<close>

lemma append_next_pass_cases:
  assumes "append_next_pass E n s = (r, t)"
  obtains (no_run) "rp_db t = rp_db s" "r = Inl (NotFoundError (''run '' @ ne_run_id n @ '' not found''))"
    | (dup) d where "rp_db t = rp_db s" "d \<in> set (tb_events (rp_db s))"
        "r = rbind (row_to_event d) (\<lambda>e. Inr (Some e))" "\<forall>k. ne_event_id n = Some k \<and> k \<noteq> [] \<longrightarrow> re_event_id d = k"
    | (attempt) u eid k where "run_of_tenant (rp_db s) (ne_run_id n) (ne_tenant_id n)"
        "rp_db u = rv_others E k (rp_db s)"
        "find (\<lambda>r. re_event_id r = eid) (tb_events (rp_db s)) = None"
        "transaction (append_next_write E n eid (next_sequence_in (rp_db s) (ne_run_id n))) u = (r, t)"
proof (cases "get_run_row (ne_run_id n) (ne_tenant_id n) s")
  case (Pair a s1)
  show thesis
  proof (cases a)
    case (Inl e)
    with assms Pair have "r = Inl e" "t = s1" by (simp_all add: append_next_pass_def run_then)
    moreover from Inl Pair have "s1 = s \<and> e = NotFoundError (''run '' @ ne_run_id n @ '' not found'')"
      by (intro get_run_row_failed) simp
    ultimately show thesis by (intro no_run) simp_all
  next
    case (Inr row)
    with Pair have s1: "s1 = s" and run: "run_of_tenant (rp_db s) (ne_run_id n) (ne_tenant_id n)"
      by (auto simp: repo_ok run_of_tenant_def)
    obtain eid s2 where i: "id_or_new E (ne_event_id n) ''evt'' s = (Inr eid, s2)" and s2: "rp_db s2 = rp_db s"
      using id_or_new_db by (metis surj_pair)
    have eid: "\<forall>k. ne_event_id n = Some k \<and> k \<noteq> [] \<longrightarrow> eid = k"
      using i by (auto simp: id_or_new_def eret_def)
    show thesis
    proof (cases "find (\<lambda>r. re_event_id r = eid) (tb_events (rp_db s))")
      case (Some d)
      with assms Pair Inr s1 i s2 have "t = s2" "r = rbind (row_to_event d) (\<lambda>e. Inr (Some e))"
        by (auto simp: append_next_pass_def run_simps rbind_def split: sum.splits)
      with s2 find_SomeD [OF Some] eid show thesis by (intro dup [of d]) auto
    next
      case None
      define u where "u = s2\<lparr>rp_ticks := Suc (rp_ticks s2), rp_db := rv_others E (rp_ticks s2) (rp_db s2)\<rparr>"
      from None assms Pair Inr s1 i s2
      have "transaction (append_next_write E n eid (next_sequence_in (rp_db s) (ne_run_id n))) u = (r, t)"
        by (simp add: append_next_pass_def run_simps tick_def modify_db_def u_def)
      moreover have "rp_db u = rv_others E (rp_ticks s2) (rp_db s)" by (simp add: u_def s2)
      ultimately show thesis using None run by (intro attempt) auto
    qed
  qed
qed

lemma append_next_pass_steps:
  assumes "append_next_pass E n s = (r, t)" and "others_within E T"
  shows "db_steps (insert (ne_tenant_id n) T) (rp_db s) (rp_db t)"
  using assms(1)
proof (cases rule: append_next_pass_cases)
  case (attempt u eid k)
  from assms(2) attempt(2) have o: "db_steps T (rp_db s) (rp_db u)" by (simp add: others_within_def)
  from append_next_write_steps [OF attempt(4) db_steps_run_of_tenant [OF o attempt(1)]]
  have "db_steps {ne_tenant_id n} (rp_db u) (rp_db t)" .
  with o show ?thesis by (meson db_steps_mono db_steps_trans insert_subset subset_insertI empty_subsetI insertI1)
qed (simp_all add: db_steps.none)

lemma append_next_loop_steps:
  assumes "others_within E T"
  shows "append_next_loop k E n s = (r, t) \<Longrightarrow> db_steps (insert (ne_tenant_id n) T) (rp_db s) (rp_db t)"
proof (induction k arbitrary: s)
  case 0
  then show ?case by (auto simp: eraise_def intro: db_steps.none)
next
  case (Suc k)
  obtain p u where p: "append_next_pass E n s = (p, u)" by (cases "append_next_pass E n s")
  from append_next_pass_steps [OF p assms] have 1: "db_steps (insert (ne_tenant_id n) T) (rp_db s) (rp_db u)" .
  from Suc.prems p have "t = u \<or> append_next_loop k E n u = (r, t)"
    by (auto simp: run_simps split: sum.splits option.splits)
  with 1 Suc.IH show ?case by (blast intro: db_steps_trans)
qed

lemma append_next_event_steps:
  assumes "append_next_event E n s = (r, t)" and "others_within E T"
  shows "db_steps (insert (ne_tenant_id n) T) (rp_db s) (rp_db t)"
proof (cases "ne_sensitive n \<and> ne_safe_for_ui n")
  case True
  with assms(1) show ?thesis by (auto simp: append_next_event_def eraise_def intro: db_steps.none)
next
  case False
  with assms append_next_loop_steps show ?thesis by (simp only: append_next_event_def if_False)
qed

section \<open>The other methods\<close>

lemma transaction_steps:
  assumes "transaction m s = (r, t)"
    and "\<And>x. m s = (Inr x, t) \<Longrightarrow> db_step tn (rp_db s) (rp_db t) \<or> rp_db t = rp_db s"
  shows "db_steps {tn} (rp_db s) (rp_db t)"
  using assms(1) by (rule steps_by_cases) (use assms(2) in \<open>auto simp: transaction_ok dest: transaction_failed\<close>)

lemma create_approval_ok:
  "create_approval a s = (Inr a', t) \<longleftrightarrow>
     run_of_tenant (rp_db s) (ap_run_id a) (ap_tenant_id a) \<and>
     find_approval (rp_db s) (ap_approval_id a) = None \<and> a' = a \<and>
     t = s\<lparr>rp_db := (rp_db s)\<lparr>tb_approvals := tb_approvals (rp_db s) @ [approval_row a]\<rparr>\<rparr>"
  unfolding create_approval_def transaction_ok get_run_row_def
  by (auto simp: run_simps modify_db_def run_of_tenant_def split: option.splits if_splits)

lemma create_approval_steps [op_steps]:
  assumes "create_approval a s = (r, t)"
  shows "db_steps {ap_tenant_id a} (rp_db s) (rp_db t)"
  using assms
proof (rule steps_by_cases)
  fix a'
  assume "create_approval a s = (Inr a', t)"
  then show "db_step (ap_tenant_id a) (rp_db s) (rp_db t) \<or> rp_db t = rp_db s"
    unfolding create_approval_ok by (auto intro!: db_step.approval simp: approval_row_def)
qed (simp add: create_approval_def transaction_failed)

lemma decide_approval_ok:
  assumes "decide_approval E k tn dec who why s = (Inr a, t)"
  obtains row row' now where "find_approval (rp_db s) k = Some row" "av_tenant_id row = tn"
    "av_decision row = ''pending''" "dec \<in> {''approved'', ''rejected''}" "now = rv_clock E (rp_ticks s)"
    "\<not> (case av_expires_at row of None \<Rightarrow> False | Some x \<Rightarrow> x < now)"
    "row' = row\<lparr>av_decision := dec, av_approver := Some who, av_reason := why, av_decided_at := Some now\<rparr>"
    "row_to_approval row' = Inr a"
    "rp_db t = (rp_db s)\<lparr>tb_approvals := update_first (\<lambda>r. av_approval_id r = k) (\<lambda>_. row') (tb_approvals (rp_db s))\<rparr>"
proof -
  from assms have dec: "dec \<in> {''approved'', ''rejected''}" unfolding decide_approval_def guarded_ok by auto
  from assms obtain row where row: "find_approval (rp_db s) k = Some row" "av_tenant_id row = tn"
    and c: "(if av_decision row \<noteq> ApprovalDecision_value PENDING
          then eraise (ConflictError (''approval '' @ k @ '' already decided''))
          else ebind (repo_now E) (\<lambda>now.
            if (case av_expires_at row of None \<Rightarrow> False | Some x \<Rightarrow> x < now)
            then ethen (put_approval k (row\<lparr>av_decision := ApprovalDecision_value EXPIRED,
                   av_decided_at := Some now\<rparr>))
                 (eraise (ConflictError (''approval '' @ k @ '' expired'')))
            else let row' = row\<lparr>av_decision := dec, av_approver := Some who,
                       av_reason := why, av_decided_at := Some now\<rparr>
              in ethen (put_approval k row') (elift (row_to_approval row')))) s = (Inr a, t)"
    unfolding decide_approval_def guarded_ok by (elim conjE bind_okE) (simp add: repo_ok)
  let ?now = "rv_clock E (rp_ticks s)"
  let ?row' = "row\<lparr>av_decision := dec, av_approver := Some who, av_reason := why, av_decided_at := Some ?now\<rparr>"
  from c have p: "av_decision row = ''pending''" by (auto simp: eraise_def split: if_splits)
  with c have x: "\<not> (case av_expires_at row of None \<Rightarrow> False | Some x \<Rightarrow> x < ?now)"
    and u: "row_to_approval ?row' = Inr a"
    and t: "rp_db t = (rp_db s)\<lparr>tb_approvals := update_first (\<lambda>r. av_approval_id r = k) (\<lambda>_. ?row') (tb_approvals (rp_db s))\<rparr>"
    by (auto simp: run_simps repo_now_def tick_def put_approval_def modify_db_def Let_def split: if_splits)
  show thesis by (rule that [OF row p dec refl x refl u t])
qed

lemma decide_approval_failed: "decide_approval E k tn dec who why s = (Inl e, t) \<Longrightarrow> rp_db t = rp_db s"
  unfolding decide_approval_def by (rule guarded_failed)

lemma decide_approval_steps [op_steps]:
  assumes "decide_approval E k tn dec who why s = (r, t)"
  shows "db_steps {tn} (rp_db s) (rp_db t)"
  using assms
proof (rule steps_by_cases)
  fix a
  assume "decide_approval E k tn dec who why s = (Inr a, t)"
  then show "db_step tn (rp_db s) (rp_db t) \<or> rp_db t = rp_db s"
    by (cases rule: decide_approval_ok) (auto intro!: db_step.decide)
qed (rule decide_approval_failed)

lemma record_tool_failed: "record_tool_invocation E i ri ro s = (Inl e, t) \<Longrightarrow> rp_db t = rp_db s"
  unfolding record_tool_invocation_def Let_def by (rule guarded_failed)

lemma record_tool_ok:
  assumes "record_tool_invocation E i ri ro s = (Inr x, t)"
  obtains (dup) dup where "given_key (ti_idempotency_key i)" "t = s"
      "find (\<lambda>r. tv_run_id r = ti_run_id i \<and> tv_idempotency_key r = ti_idempotency_key i) (tb_invocations (rp_db s)) = Some dup"
      "row_to_tool_invocation dup = Inr x"
    | (new) src row where "src = (case ri of Some d \<Rightarrow> d | None \<Rightarrow> ti_redacted_input i)"
      "\<not> contains_bare_secret_marker (PDict (rv_redact E src))"
      "row = invocation_row i (hash_payload (rv_py E) (PDict src)) (rv_redact E src)
         (case ro of Some d \<Rightarrow> Some (hash_payload (rv_py E) (PDict d)) | None \<Rightarrow> ti_output_hash i)
         (map_option (rv_redact E) ro)"
      "run_of_tenant (rp_db s) (ti_run_id i) (ti_tenant_id i)"
      "find (\<lambda>r. tv_invocation_id r = ti_invocation_id i) (tb_invocations (rp_db s)) = None"
      "given_key (ti_idempotency_key i) \<longrightarrow>
         find (\<lambda>r. tv_run_id r = ti_run_id i \<and> tv_idempotency_key r = ti_idempotency_key i) (tb_invocations (rp_db s)) = None"
      "x = i\<lparr>ti_input_hash := tv_input_hash row, ti_redacted_input := tv_redacted_input_json row,
             ti_output_hash := tv_output_hash row\<rparr>"
      "t = s\<lparr>rp_db := (rp_db s)\<lparr>tb_invocations := tb_invocations (rp_db s) @ [row]\<rparr>\<rparr>"
proof -
  define src where "src = (case ri of Some d \<Rightarrow> d | None \<Rightarrow> ti_redacted_input i)"
  define oh where "oh = (case ro of Some d \<Rightarrow> Some (hash_payload (rv_py E) (PDict d)) | None \<Rightarrow> ti_output_hash i)"
  define row where "row = invocation_row i (hash_payload (rv_py E) (PDict src)) (rv_redact E src) oh
         (map_option (rv_redact E) ro)"
  have cols: "tv_input_hash row = hash_payload (rv_py E) (PDict src)"
    "tv_redacted_input_json row = rv_redact E src" "tv_output_hash row = oh"
    by (simp_all add: row_def invocation_row_def)
  let ?f = "if given_key (ti_idempotency_key i)
     then find (\<lambda>r. tv_run_id r = ti_run_id i \<and> tv_idempotency_key r = ti_idempotency_key i) (tb_invocations (rp_db s))
     else None"
  from assms have sec: "\<not> contains_bare_secret_marker (PDict (rv_redact E src))"
    unfolding record_tool_invocation_def Let_def guarded_ok src_def by (rule conjunct1)
  from assms obtain run where run: "find_run (rp_db s) (ti_run_id i) = Some run" "rn_tenant_id run = ti_tenant_id i"
    and c: "(case ?f of Some dup \<Rightarrow> elift (row_to_tool_invocation dup)
       | None \<Rightarrow> if find (\<lambda>r. tv_invocation_id r = ti_invocation_id i) (tb_invocations (rp_db s)) \<noteq> None
           then eraise (ConflictError (''tool invocation '' @ ti_invocation_id i @ '' exists''))
           else ethen (modify_db (\<lambda>d. d\<lparr>tb_invocations := tb_invocations d @ [row]\<rparr>))
                (eret (i\<lparr>ti_input_hash := hash_payload (rv_py E) (PDict src),
                   ti_redacted_input := rv_redact E src, ti_output_hash := oh\<rparr>))) s = (Inr x, t)"
    unfolding record_tool_invocation_def Let_def guarded_ok row_def src_def oh_def
    by (elim conjE then_okE bind_okE) (clarsimp simp: repo_ok)
  show thesis
  proof (cases ?f)
    case (Some d)
    with c dup show ?thesis by (simp add: ok_simps split: if_splits)
  next
    case None
    with c have "find (\<lambda>r. tv_invocation_id r = ti_invocation_id i) (tb_invocations (rp_db s)) = None"
      and "x = i\<lparr>ti_input_hash := tv_input_hash row, ti_redacted_input := tv_redacted_input_json row,
                   ti_output_hash := tv_output_hash row\<rparr>"
      and "t = s\<lparr>rp_db := (rp_db s)\<lparr>tb_invocations := tb_invocations (rp_db s) @ [row]\<rparr>\<rparr>"
      by (auto simp: run_simps modify_db_def cols split: if_splits)
    with None run sec show ?thesis
      by (intro new [OF src_def _ row_def [unfolded oh_def]])
        (auto simp: run_of_tenant_def row_def oh_def split: if_splits)
  qed
qed

lemma record_tool_steps [op_steps]:
  assumes "record_tool_invocation E i ri ro s = (r, t)"
  shows "db_steps {ti_tenant_id i} (rp_db s) (rp_db t)"
  using assms
proof (rule steps_by_cases)
  fix x
  assume "record_tool_invocation E i ri ro s = (Inr x, t)"
  then show "db_step (ti_tenant_id i) (rp_db s) (rp_db t) \<or> rp_db t = rp_db s"
    by (cases rule: record_tool_ok) (auto intro!: db_step.invocation simp: invocation_row_def)
qed (rule record_tool_failed)

lemma complete_tool_failed: "complete_tool_invocation E k tn st ro er s = (Inl e, t) \<Longrightarrow> rp_db t = rp_db s"
  unfolding complete_tool_invocation_def
  by (cases "ToolInvocationStatus_of st") (simp_all add: eraise_def transaction_failed)

lemma complete_tool_ok:
  assumes "complete_tool_invocation E k tn st ro er s = (Inr x, t)"
  obtains row row' where "find (\<lambda>r. tv_invocation_id r = k) (tb_invocations (rp_db s)) = Some row"
    "tv_tenant_id row = tn" "tv_invocation_id row' = k" "tv_run_id row' = tv_run_id row" "tv_tenant_id row' = tn"
    "row_to_tool_invocation row' = Inr x" "tv_status row' = st"
    "tv_redacted_output_json row' = (case ro of None \<Rightarrow> tv_redacted_output_json row | Some d \<Rightarrow> Some (rv_redact E d))"
    "tv_error_json row' = (case er of None \<Rightarrow> tv_error_json row | Some d \<Rightarrow> Some (rv_redact E d))"
    "tv_redacted_input_json row' = tv_redacted_input_json row"
    "rp_db t = (rp_db s)\<lparr>tb_invocations :=
       update_first (\<lambda>r. tv_invocation_id r = k) (\<lambda>_. row') (tb_invocations (rp_db s))\<rparr>"
proof -
  have st: "ToolInvocationStatus_of v = Inr y \<Longrightarrow> ToolInvocationStatus_value y = v" for v y
    by (auto simp: ToolInvocationStatus_of_def find_Some_iff split: option.splits)
  from assms obtain y where y: "ToolInvocationStatus_of st = Inr y"
    by (cases "ToolInvocationStatus_of st") (auto simp: complete_tool_invocation_def eraise_def)
  show thesis
  proof (cases "find (\<lambda>r. tv_invocation_id r = k) (tb_invocations (rp_db s))")
    case None
    with assms y show ?thesis by (simp add: complete_tool_invocation_def transaction_ok run_simps)
  next
    case (Some row)
    from find_SomeD [OF Some] have k: "tv_invocation_id row = k" by simp
    from assms y Some have tn: "tv_tenant_id row = tn"
      by (simp add: complete_tool_invocation_def transaction_ok run_simps split: if_splits)
    define row' where "row' = (case er of None \<Rightarrow> (case ro of None \<Rightarrow> row\<lparr>tv_status := ToolInvocationStatus_value y\<rparr>
         | Some o' \<Rightarrow> row\<lparr>tv_status := ToolInvocationStatus_value y, tv_redacted_output_json := Some (rv_redact E o'),
              tv_output_hash := Some (hash_payload (rv_py E) (PDict o'))\<rparr>)
       | Some er' \<Rightarrow> (case ro of None \<Rightarrow> row\<lparr>tv_status := ToolInvocationStatus_value y\<rparr>
         | Some o' \<Rightarrow> row\<lparr>tv_status := ToolInvocationStatus_value y, tv_redacted_output_json := Some (rv_redact E o'),
              tv_output_hash := Some (hash_payload (rv_py E) (PDict o'))\<rparr>)\<lparr>tv_error_json := Some (rv_redact E er')\<rparr>)
       \<lparr>tv_completed_at := Some (rv_clock E (rp_ticks s))\<rparr>"
    have "row_to_tool_invocation row' = Inr x \<and> rp_db t = (rp_db s)\<lparr>tb_invocations :=
       update_first (\<lambda>r. tv_invocation_id r = k) (\<lambda>_. row') (tb_invocations (rp_db s))\<rparr>"
      using assms y Some tn
      by (auto simp: complete_tool_invocation_def transaction_ok run_simps repo_now_def tick_def modify_db_def
          Let_def row'_def)
    then show ?thesis
      by (intro that [OF Some tn, of row']) (auto simp: row'_def k tn st [OF y] split: option.splits)
  qed
qed

lemma complete_tool_steps [op_steps]:
  assumes "complete_tool_invocation E k tn st ro er s = (r, t)"
  shows "db_steps {tn} (rp_db s) (rp_db t)"
  using assms
proof (rule steps_by_cases)
  fix x
  assume "complete_tool_invocation E k tn st ro er s = (Inr x, t)"
  then show "db_step tn (rp_db s) (rp_db t) \<or> rp_db t = rp_db s"
  proof (cases rule: complete_tool_ok)
    case (1 row row')
    then show ?thesis by (simp add: db_step.set_invocation)
  qed
qed (rule complete_tool_failed)

lemma save_finding_steps [op_steps]:
  assumes "save_finding E f s = (r, t)"
  shows "db_steps {fr_tenant_id f} (rp_db s) (rp_db t)"
  using assms unfolding save_finding_def
proof (rule transaction_steps, elim then_okE bind_okE)
qed (auto simp: repo_ok run_of_tenant_def split: if_splits elim!: then_okE bind_okE intro!: db_step.finding)

lemma save_evidence_steps [op_steps]:
  assumes "save_evidence_ref e s = (r, t)"
  shows "db_steps {ef_tenant_id e} (rp_db s) (rp_db t)"
  using assms unfolding save_evidence_ref_def
proof (rule transaction_steps, elim then_okE bind_okE)
qed (auto simp: repo_ok run_of_tenant_def split: if_splits elim!: then_okE bind_okE intro!: db_step.evidence)

lemma save_task_steps [op_steps]:
  assumes "save_agent_task E n s = (r, t)"
  shows "db_steps {nt_tenant_id n} (rp_db s) (rp_db t)"
  using assms unfolding save_agent_task_def Let_def
proof (rule transaction_steps, elim then_okE bind_okE)
qed (auto simp: repo_ok run_of_tenant_def split: if_splits elim!: then_okE bind_okE intro!: db_step.task)

lemma update_task_steps [op_steps]:
  assumes "update_agent_task E k tn st ro er s = (r, t)"
  shows "db_steps {tn} (rp_db s) (rp_db t)"
  using assms unfolding update_agent_task_def
proof (rule transaction_steps)
  fix x
  assume a: "ebind (eget rp_db) (\<lambda>d.
       case find (\<lambda>r. at_task_id r = k) (tb_tasks d) of
         None \<Rightarrow> eraise (NotFoundError (''task '' @ k @ '' not found''))
       | Some row \<Rightarrow>
           if at_tenant_id row \<noteq> tn then eraise (NotFoundError (''task '' @ k @ '' not found''))
           else ebind (repo_now E) (\<lambda>now.
             let row1 = row\<lparr>at_status := st\<rparr>;
                 row2 = (case ro of None \<Rightarrow> row1
                   | Some o' \<Rightarrow> row1\<lparr>at_redacted_output_json := Some (rv_redact E o'),
                       at_output_hash := Some (hash_payload (rv_py E) (PDict o'))\<rparr>);
                 row3 = (case er of None \<Rightarrow> row2
                   | Some er \<Rightarrow> row2\<lparr>at_error_json := Some (rv_redact E er)\<rparr>)
             in modify_db (\<lambda>d. d\<lparr>tb_tasks := update_first (\<lambda>r. at_task_id r = k)
                  (\<lambda>_. row3\<lparr>at_updated_at := now\<rparr>) (tb_tasks d)\<rparr>))) s = (Inr x, t)"
  then obtain row where row: "find (\<lambda>r. at_task_id r = k) (tb_tasks (rp_db s)) = Some row" "at_tenant_id row = tn"
    by (auto simp: run_simps split: option.splits if_splits)
  from find_SomeD [OF row(1)] have k: "at_task_id row = k" by simp
  define row' where "row' = (case er of None \<Rightarrow> (case ro of None \<Rightarrow> row\<lparr>at_status := st\<rparr>
         | Some o' \<Rightarrow> row\<lparr>at_status := st, at_redacted_output_json := Some (rv_redact E o'),
              at_output_hash := Some (hash_payload (rv_py E) (PDict o'))\<rparr>)
       | Some er' \<Rightarrow> (case ro of None \<Rightarrow> row\<lparr>at_status := st\<rparr>
         | Some o' \<Rightarrow> row\<lparr>at_status := st, at_redacted_output_json := Some (rv_redact E o'),
              at_output_hash := Some (hash_payload (rv_py E) (PDict o'))\<rparr>)\<lparr>at_error_json := Some (rv_redact E er')\<rparr>)
       \<lparr>at_updated_at := rv_clock E (rp_ticks s)\<rparr>"
  have t: "rp_db t = (rp_db s)\<lparr>tb_tasks := update_first (\<lambda>r. at_task_id r = k) (\<lambda>_. row') (tb_tasks (rp_db s))\<rparr>"
    using a row by (auto simp: run_simps repo_now_def tick_def modify_db_def Let_def row'_def)
  have "at_task_id row' = k \<and> at_run_id row' = at_run_id row \<and> at_tenant_id row' = tn"
    using k row by (simp add: row'_def split: option.splits)
  with row show "db_step tn (rp_db s) (rp_db t) \<or> rp_db t = rp_db s"
    unfolding t by (intro disjI1 db_step.set_task) auto
qed

lemma bind_run: "m s = (Inr x, u) \<Longrightarrow> ebind m f s = f x u"
  by (simp add: ebind_def)

lemma model_call_steps [op_steps]:
  assumes "record_model_call E c m p s = (r, t)"
  shows "db_steps {mc_tenant_id m} (rp_db s) (rp_db t)"
proof -
  obtain cid u where u: "id_or_new E c ''mcall'' s = (Inr cid, u)" "rp_db u = rp_db s"
    using id_or_new_db by (metis surj_pair)
  have "db_steps {mc_tenant_id m} (rp_db u) (rp_db t)"
    using assms unfolding record_model_call_def bind_run [of "id_or_new E c ''mcall''", OF u(1)]
    by - (erule transaction_steps, elim then_okE bind_okE,
      auto simp: repo_ok run_of_tenant_def split: if_splits elim!: then_okE bind_okE intro!: db_step.model_call)
  with u show ?thesis by simp
qed

lemma audit_steps [op_steps]:
  assumes "write_audit E k a dec s = (r, t)"
  shows "db_steps {au_tenant_id a} (rp_db s) (rp_db t)"
proof -
  obtain aid u where u: "id_or_new E k ''audit'' s = (Inr aid, u)" "rp_db u = rp_db s"
    using id_or_new_db by (metis surj_pair)
  have "db_steps {au_tenant_id a} (rp_db u) (rp_db t)"
    using assms unfolding write_audit_def bind_run [of "id_or_new E k ''audit''", OF u(1)]
    by - (erule transaction_steps, elim then_okE bind_okE,
      auto simp: repo_ok run_of_tenant_def split: if_splits option.splits elim!: then_okE bind_okE intro!: db_step.audit)
  with u show ?thesis by simp
qed

section \<open>The whole interface\<close>

lemma void_db: "void m s = (r, t) \<Longrightarrow> \<exists>r'. m s = (r', t)"
  by (auto simp: void_def run_simps split: prod.splits sum.splits)

lemma singleton_steps: "db_steps {tn} d d' \<Longrightarrow> db_steps (insert tn T) d d'"
  by (erule db_steps_mono) simp

text \<open>Refinement: whatever method is called, and whatever the concurrent sessions commit meanwhile,
  the database moves by steps of the caller's tenant and of theirs.\<close>

lemma exec_op_steps:
  assumes "others_within E T" and "exec_op E op s = (r, t)"
  shows "db_steps (insert (op_tenant op) T) (rp_db s) (rp_db t)"
proof (cases op)
  case (OAppendNextEvent n)
  with assms obtain r' where "append_next_event E n s = (r', t)" by (auto dest: void_db)
  from append_next_event_steps [OF this assms(1)] OAppendNextEvent show ?thesis by simp
qed (use assms(2) in \<open>auto dest!: void_db op_steps intro: singleton_steps\<close>)

end
