(* ===== verification/RepoProps.thy ===== *)
theory RepoProps
  imports RepoSteps
begin

text \<open>
  What the repository guarantees: tenant isolation, the integrity of the tables, an append-only
  history, atomic failure, a gap-free event log that replays in order, and idempotence; each from
  the steps of \<^verbatim>\<open>RepoSteps\<close> or from the methods themselves. The last section evaluates the model
  on a small database.
\<close>

section \<open>The rows of a tenant\<close>

definition own :: "string \<Rightarrow> db \<Rightarrow> db" where
  "own u d = \<lparr>tb_tenants = filter (\<lambda>r. tn_id r = u) (tb_tenants d),
     tb_runs = filter (\<lambda>r. rn_tenant_id r = u) (tb_runs d),
     tb_events = filter (\<lambda>r. re_tenant_id r = u) (tb_events d),
     tb_tasks = filter (\<lambda>r. at_tenant_id r = u) (tb_tasks d),
     tb_invocations = filter (\<lambda>r. tv_tenant_id r = u) (tb_invocations d),
     tb_approvals = filter (\<lambda>r. av_tenant_id r = u) (tb_approvals d),
     tb_findings = filter (\<lambda>r. fr_tenant_id r = u) (tb_findings d),
     tb_evidence = filter (\<lambda>r. ef_tenant_id r = u) (tb_evidence d),
     tb_model_calls = filter (\<lambda>r. mc_tenant_id r = u) (tb_model_calls d),
     tb_audit = filter (\<lambda>r. au_tenant_id r = u) (tb_audit d)\<rparr>"

lemma db_step_own:
  assumes "db_step tn d d'" and "tn \<noteq> u"
  shows "own u d' = own u d"
  using assms
proof (cases rule: db_step.cases)
  case (set_run run row row')
  then show ?thesis using assms(2) by (simp add: own_def update_first_filter [of _ _ row] find_run_def)
next
  case (set_task k row row')
  then show ?thesis using assms(2) by (simp add: own_def update_first_filter [of _ _ row])
next
  case (set_invocation k row row')
  then show ?thesis using assms(2) by (simp add: own_def update_first_filter [of _ _ row])
next
  case (decide k row row' dec who why now)
  then show ?thesis using assms(2) by (simp add: own_def update_first_filter [of _ _ row] find_approval_def)
qed (simp_all add: own_def)

section \<open>Integrity\<close>

definition unique_keys :: "db \<Rightarrow> bool" where
  "unique_keys d = (distinct (map tn_id (tb_tenants d)) \<and> distinct (map rn_id (tb_runs d)) \<and>
     distinct (map re_event_id (tb_events d)) \<and>
     distinct (map (\<lambda>r. (re_run_id r, re_sequence r)) (tb_events d)) \<and>
     distinct (map at_task_id (tb_tasks d)) \<and> distinct (map tv_invocation_id (tb_invocations d)) \<and>
     distinct (map av_approval_id (tb_approvals d)) \<and> distinct (map fr_finding_id (tb_findings d)) \<and>
     distinct (map ef_ref_id (tb_evidence d)) \<and> distinct (map mc_call_id (tb_model_calls d)) \<and>
     distinct (map au_audit_id (tb_audit d)))"

text \<open>Every row belongs to a run of its own tenant, every run to a tenant.\<close>

definition referential :: "db \<Rightarrow> bool" where
  "referential d = ((\<forall>r \<in> set (tb_runs d). rn_tenant_id r \<in> tn_id ` set (tb_tenants d)) \<and>
     (\<forall>r \<in> set (tb_events d). run_of_tenant d (re_run_id r) (re_tenant_id r)) \<and>
     (\<forall>r \<in> set (tb_tasks d). run_of_tenant d (at_run_id r) (at_tenant_id r)) \<and>
     (\<forall>r \<in> set (tb_invocations d). run_of_tenant d (tv_run_id r) (tv_tenant_id r)) \<and>
     (\<forall>r \<in> set (tb_approvals d). run_of_tenant d (av_run_id r) (av_tenant_id r)) \<and>
     (\<forall>r \<in> set (tb_findings d). run_of_tenant d (fr_run_id r) (fr_tenant_id r)) \<and>
     (\<forall>r \<in> set (tb_evidence d). run_of_tenant d (ef_run_id r) (ef_tenant_id r)) \<and>
     (\<forall>r \<in> set (tb_model_calls d). run_of_tenant d (mc_run_id r) (mc_tenant_id r)) \<and>
     (\<forall>r \<in> set (tb_audit d). case au_run_id r of None \<Rightarrow> True | Some x \<Rightarrow> run_of_tenant d x (au_tenant_id r)))"

lemma find_None_image: "find (\<lambda>r. key r = k) rs = None \<longleftrightarrow> k \<notin> key ` set rs"
  by (auto simp: find_None_iff)

lemma find_run_None: "find_run d k = None \<longleftrightarrow> k \<notin> rn_id ` set (tb_runs d)"
  by (simp add: find_run_def find_None_image)

lemma find_approval_None: "find_approval d k = None \<longleftrightarrow> k \<notin> av_approval_id ` set (tb_approvals d)"
  by (simp add: find_approval_def find_None_image)

lemma map_update_const:
  assumes "find p rs = Some r" and "key row' = key r" and "\<And>x. p x \<longleftrightarrow> key x = key r"
  shows "map key (update_first p (\<lambda>_. row') rs) = map key rs"
  using assms by (induction rs) (auto split: if_splits)

lemma db_step_unique:
  assumes "db_step tn d d'" and "unique_keys d"
  shows "unique_keys d'"
  using assms(1)
proof (cases rule: db_step.cases)
  case (tenant row)
  then show ?thesis using assms(2) by (auto simp: unique_keys_def find_None_image)
next
  case (run row)
  then show ?thesis using assms(2) by (auto simp: unique_keys_def find_run_None)
next
  case (set_run k row row')
  moreover have "rn_id row = k" using find_SomeD set_run(2) unfolding find_run_def by fast
  ultimately have "map rn_id (update_first (\<lambda>r. rn_id r = k) (\<lambda>_. row') (tb_runs d)) = map rn_id (tb_runs d)"
    by (intro map_update_const) (auto simp: find_run_def)
  then show ?thesis using assms(2) set_run(1) by (simp add: unique_keys_def)
next
  case (event row)
  then show ?thesis using assms(2) by (auto simp: unique_keys_def event_collides_def list_ex_iff)
next
  case (set_task k row row')
  moreover have "at_task_id row = k" using find_SomeD set_task(2) by fast
  ultimately have "map at_task_id (update_first (\<lambda>r. at_task_id r = k) (\<lambda>_. row') (tb_tasks d)) = map at_task_id (tb_tasks d)"
    by (intro map_update_const) auto
  then show ?thesis using assms(2) set_task(1) by (simp add: unique_keys_def)
next
  case (set_invocation k row row')
  moreover have "tv_invocation_id row = k" using find_SomeD set_invocation(2) by fast
  ultimately have "map tv_invocation_id (update_first (\<lambda>r. tv_invocation_id r = k) (\<lambda>_. row') (tb_invocations d)) =
      map tv_invocation_id (tb_invocations d)"
    by (intro map_update_const) auto
  then show ?thesis using assms(2) set_invocation(1) by (simp add: unique_keys_def)
next
  case (decide k row row' dec who why now)
  moreover have "av_approval_id row = k" using find_SomeD decide(2) unfolding find_approval_def by fast
  ultimately have "map av_approval_id (update_first (\<lambda>r. av_approval_id r = k) (\<lambda>_. row') (tb_approvals d)) =
      map av_approval_id (tb_approvals d)"
    by (intro map_update_const) (auto simp: find_approval_def)
  then show ?thesis using assms(2) decide(1) by (simp add: unique_keys_def)
qed (use assms(2) in \<open>auto simp: unique_keys_def find_None_image find_approval_None\<close>)

lemma run_of_tenant_step:
  "db_step tn d d' \<Longrightarrow> run_of_tenant d run u \<Longrightarrow> run_of_tenant d' run u"
  by (auto simp: run_of_tenant_def dest: db_step_run)

text \<open>What a step adds refers to a run of its tenant; what was there still refers to one.\<close>

lemma db_step_referential:
  assumes step: "db_step tn d d'" and ref: "referential d"
  shows "referential d'"
proof -
  note keep = run_of_tenant_step [OF step]
  have upd: "\<forall>r \<in> set (update_first p (\<lambda>_. row') rs). run_of_tenant d' (run r) (ten r)"
    if "\<forall>r \<in> set rs. run_of_tenant d' (run r) (ten r)" "find p rs = Some row"
      "run row' = run row" "ten row' = ten row" for p row row' rs run ten
  proof -
    from that(2) have "row \<in> set rs" by (auto dest: find_SomeD)
    with that show ?thesis using update_first_set [OF that(2), of "\<lambda>_. row'"] by auto
  qed
  have old: "(\<forall>r \<in> set (tb_events d). run_of_tenant d' (re_run_id r) (re_tenant_id r)) \<and>
     (\<forall>r \<in> set (tb_tasks d). run_of_tenant d' (at_run_id r) (at_tenant_id r)) \<and>
     (\<forall>r \<in> set (tb_invocations d). run_of_tenant d' (tv_run_id r) (tv_tenant_id r)) \<and>
     (\<forall>r \<in> set (tb_approvals d). run_of_tenant d' (av_run_id r) (av_tenant_id r)) \<and>
     (\<forall>r \<in> set (tb_findings d). run_of_tenant d' (fr_run_id r) (fr_tenant_id r)) \<and>
     (\<forall>r \<in> set (tb_evidence d). run_of_tenant d' (ef_run_id r) (ef_tenant_id r)) \<and>
     (\<forall>r \<in> set (tb_model_calls d). run_of_tenant d' (mc_run_id r) (mc_tenant_id r)) \<and>
     (\<forall>r \<in> set (tb_audit d). case au_run_id r of None \<Rightarrow> True | Some x \<Rightarrow> run_of_tenant d' x (au_tenant_id r))"
    using ref keep unfolding referential_def by (auto split: option.splits)
  from ref have runs: "\<forall>r \<in> set (tb_runs d). rn_tenant_id r \<in> tn_id ` set (tb_tenants d)"
    by (simp add: referential_def)
  from step show ?thesis
  proof (cases rule: db_step.cases)
    case (set_run k row row')
    have "\<forall>r \<in> set (tb_runs d'). rn_tenant_id r \<in> tn_id ` set (tb_tenants d)"
      using update_first_set [of "\<lambda>r. rn_id r = k" "tb_runs d" row "\<lambda>_. row'"] set_run runs
        find_SomeD [of "\<lambda>r. rn_id r = k" "tb_runs d" row] unfolding find_run_def by auto
    with old set_run(1) show ?thesis by (auto simp: referential_def split: option.splits)
  next
    case (set_task k row row')
    from old set_task upd [of "tb_tasks d" at_run_id at_tenant_id, OF _ set_task(2), of row']
    have "\<forall>r \<in> set (tb_tasks d'). run_of_tenant d' (at_run_id r) (at_tenant_id r)" by simp
    with old runs set_task(1) show ?thesis by (auto simp: referential_def split: option.splits)
  next
    case (set_invocation k row row')
    from old set_invocation upd [of "tb_invocations d" tv_run_id tv_tenant_id, OF _ set_invocation(2), of row']
    have "\<forall>r \<in> set (tb_invocations d'). run_of_tenant d' (tv_run_id r) (tv_tenant_id r)" by simp
    with old runs set_invocation(1) show ?thesis by (auto simp: referential_def split: option.splits)
  next
    case (decide k row row' dec who why now)
    from old decide upd [of "tb_approvals d" av_run_id av_tenant_id, OF _ decide(2) [unfolded find_approval_def], of row']
    have "\<forall>r \<in> set (tb_approvals d'). run_of_tenant d' (av_run_id r) (av_tenant_id r)" by simp
    with old runs decide(1) show ?thesis by (auto simp: referential_def split: option.splits)
  next
    case (run row)
    then have "tn \<in> tn_id ` set (tb_tenants d)" by (auto simp: find_None_image)
    with old runs run show ?thesis by (auto simp: referential_def)
  qed (use old runs keep in \<open>auto simp: referential_def split: option.splits\<close>)
qed

definition db_inv :: "db \<Rightarrow> bool" where
  "db_inv d = (unique_keys d \<and> referential d)"

section \<open>Relations every history obeys\<close>

text \<open>The interface to the steps: a preorder on databases that each step of the tenants in \<open>T\<close>
  obeys is obeyed by every method called for one of them.\<close>

locale db_relation =
  fixes T :: "string set" and R :: "db \<Rightarrow> db \<Rightarrow> bool"
  assumes refl: "R d d"
    and trans: "R a b \<Longrightarrow> R b c \<Longrightarrow> R a c"
    and step: "tn \<in> T \<Longrightarrow> db_step tn a b \<Longrightarrow> R a b"
begin

lemma history: "db_steps T d d' \<Longrightarrow> R d d'"
  by (induction rule: db_steps.induct) (blast intro: refl trans step)+

lemma by_op:
  assumes "others_within E T" and "op_tenant op \<in> T" and "exec_op E op s = (r, t)"
  shows "R (rp_db s) (rp_db t)"
  using exec_op_steps [OF assms(1,3)] assms(2) by (simp add: insert_absorb history)

end

interpretation isolated: db_relation "- {u}" "\<lambda>d d'. own u d' = own u d" for u
  by unfold_locales (auto dest: db_step_own)

interpretation integrity: db_relation UNIV "\<lambda>d d'. db_inv d \<longrightarrow> db_inv d'"
  by unfold_locales (auto simp: db_inv_def dest: db_step_unique db_step_referential)

text \<open>Nothing is taken back: events, findings, evidence, model calls and audit records are only
  added, no run goes away or changes hands, no approval goes away and none that was decided
  changes again.\<close>

definition tables_extend :: "db \<Rightarrow> db \<Rightarrow> bool" where
  "tables_extend d d' = ((\<exists>xs. tb_events d' = tb_events d @ xs) \<and> (\<exists>xs. tb_findings d' = tb_findings d @ xs) \<and>
     (\<exists>xs. tb_evidence d' = tb_evidence d @ xs) \<and> (\<exists>xs. tb_model_calls d' = tb_model_calls d @ xs) \<and>
     (\<exists>xs. tb_audit d' = tb_audit d @ xs))"

definition runs_stay :: "db \<Rightarrow> db \<Rightarrow> bool" where
  "runs_stay d d' = (\<forall>k row. find_run d k = Some row \<longrightarrow> (\<exists>row'. find_run d' k = Some row' \<and>
     rn_tenant_id row' = rn_tenant_id row \<and> rn_created_by row' = rn_created_by row \<and>
     rn_idempotency_key row' = rn_idempotency_key row))"

definition decisions_stay :: "db \<Rightarrow> db \<Rightarrow> bool" where
  "decisions_stay d d' = (\<forall>k row. find_approval d k = Some row \<longrightarrow> (\<exists>row'. find_approval d' k = Some row' \<and>
     (av_decision row \<noteq> ''pending'' \<longrightarrow> row' = row)))"

definition grows :: "db \<Rightarrow> db \<Rightarrow> bool" where
  "grows d d' = (tables_extend d d' \<and> runs_stay d d' \<and> decisions_stay d d')"

lemma step_approvals:
  assumes "db_step tn d d'" and "find_approval d k = Some row"
  shows "\<exists>row'. find_approval d' k = Some row' \<and> (av_decision row \<noteq> ''pending'' \<longrightarrow> row' = row)"
  using assms(1)
proof (cases rule: db_step.cases)
  case (approval r)
  then show ?thesis using assms(2) by (simp add: find_approval_def find_append_old)
next
  case (decide k' r r' dec who why now)
  have id: "av_approval_id r' = k'"
    using decide find_SomeD [of _ "tb_approvals d" r] unfolding find_approval_def by auto
  show ?thesis
  proof (cases "k' = k")
    case True
    with decide assms(2) have "av_decision row = ''pending''" by simp
    moreover have "find (\<lambda>x. av_approval_id x = k') (update_first (\<lambda>x. av_approval_id x = k') (\<lambda>_. r') (tb_approvals d)) = Some r'"
      by (rule find_update_first [OF decide(2) [unfolded find_approval_def]]) (rule id)
    ultimately show ?thesis using True decide(1) by (simp add: find_approval_def)
  next
    case False
    with id have "find (\<lambda>x. av_approval_id x = k) (update_first (\<lambda>x. av_approval_id x = k') (\<lambda>_. r') (tb_approvals d)) =
        find (\<lambda>x. av_approval_id x = k) (tb_approvals d)"
      by (intro find_update_other) auto
    with assms(2) decide(1) show ?thesis by (simp add: find_approval_def)
  qed
qed (use assms(2) in \<open>auto simp: find_approval_def\<close>)

lemma step_tables: "db_step tn d d' \<Longrightarrow> tables_extend d d'"
  by (erule db_step.cases) (simp_all add: tables_extend_def)

lemma tables_extend_trans: "tables_extend a b \<Longrightarrow> tables_extend b c \<Longrightarrow> tables_extend a c"
  by (auto simp: tables_extend_def)

lemma runs_stay_trans: "runs_stay a b \<Longrightarrow> runs_stay b c \<Longrightarrow> runs_stay a c"
  unfolding runs_stay_def by metis

lemma decisions_stay_trans: "decisions_stay a b \<Longrightarrow> decisions_stay b c \<Longrightarrow> decisions_stay a c"
  unfolding decisions_stay_def by metis

lemma grows_step:
  assumes "db_step tn d d'" shows "grows d d'"
proof -
  have "runs_stay d d'" unfolding runs_stay_def using db_step_run [OF assms] by blast
  moreover have "decisions_stay d d'" unfolding decisions_stay_def using step_approvals [OF assms] by blast
  ultimately show ?thesis using step_tables [OF assms] by (simp add: grows_def)
qed

interpretation growing: db_relation UNIV grows
proof
  show "grows d d" for d by (auto simp: grows_def tables_extend_def runs_stay_def decisions_stay_def)
  show "grows a b \<Longrightarrow> grows b c \<Longrightarrow> grows a c" for a b c
    unfolding grows_def by (blast intro: tables_extend_trans runs_stay_trans decisions_stay_trans)
qed (rule grows_step)

section \<open>Reading one's own rows\<close>

lemma find_run_own:
  assumes "unique_keys d"
  shows "find_run (own u d) k = (case find_run d k of None \<Rightarrow> None
    | Some row \<Rightarrow> if rn_tenant_id row = u then Some row else None)"
  using assms unfolding find_run_def own_def by (simp add: find_filter_key unique_keys_def)

lemma find_approval_own:
  assumes "unique_keys d"
  shows "find_approval (own u d) k = (case find_approval d k of None \<Rightarrow> None
    | Some row \<Rightarrow> if av_tenant_id row = u then Some row else None)"
  using assms unfolding find_approval_def own_def by (simp add: find_filter_key unique_keys_def)

lemma get_run_own:
  assumes "unique_keys (rp_db s)"
  shows "get_run_row k u s = (fst (get_run_row k u (s\<lparr>rp_db := own u (rp_db s)\<rparr>)), s)"
  using assms by (auto simp: get_run_row_def run_simps find_run_own split: option.splits)

lemma get_approval_own:
  assumes "unique_keys (rp_db s)"
  shows "get_approval k u s = (fst (get_approval k u (s\<lparr>rp_db := own u (rp_db s)\<rparr>)), s)"
  using assms
  by (auto simp: get_approval_def get_approval_row_def run_simps find_approval_own split: option.splits)

lemma own_events:
  assumes "referential d" and "run_of_tenant d run u"
  shows "filter (\<lambda>r. re_run_id r = run \<and> P r) (tb_events (own u d)) =
    filter (\<lambda>r. re_run_id r = run \<and> P r) (tb_events d)"
proof -
  have "re_tenant_id r = u" if "r \<in> set (tb_events d)" "re_run_id r = run" for r
    using assms that unfolding referential_def run_of_tenant_def by auto
  then show ?thesis by (auto simp: own_def filter_filter intro: filter_cong)
qed

lemma own_approvals:
  assumes "referential d" and "run_of_tenant d run u"
  shows "filter (\<lambda>r. av_run_id r = run) (tb_approvals (own u d)) = filter (\<lambda>r. av_run_id r = run) (tb_approvals d)"
proof -
  have "av_tenant_id r = u" if "r \<in> set (tb_approvals d)" "av_run_id r = run" for r
    using assms that unfolding referential_def run_of_tenant_def by auto
  then show ?thesis by (auto simp: own_def filter_filter intro: filter_cong)
qed

lemma get_run_row_state: "get_run_row k u s = (r, t) \<Longrightarrow> t = s"
  by (auto simp: get_run_row_def run_simps split: option.splits if_splits)

lemma run_of_tenant_get: "run_of_tenant (rp_db s) run u \<longleftrightarrow> (\<exists>row. get_run_row run u s = (Inr row, s))"
  by (auto simp: run_of_tenant_def get_run_row_ok)

lemma no_run_of_tenant:
  assumes "\<not> run_of_tenant (rp_db s) run u"
  obtains e where "get_run_row run u s = (Inl e, s)"
proof (cases "fst (get_run_row run u s)")
  case (Inl e)
  then show ?thesis using that [of e] by (metis get_run_row_state prod.collapse)
next
  case (Inr row)
  with assms show ?thesis unfolding run_of_tenant_get by (metis get_run_row_state prod.collapse)
qed

lemma list_events_own:
  assumes "db_inv (rp_db s)"
  shows "list_events run u a l s = (fst (list_events run u a l (s\<lparr>rp_db := own u (rp_db s)\<rparr>)), s)"
proof (cases "run_of_tenant (rp_db s) run u")
  case True
  note ev = own_events [OF _ True, of "\<lambda>r. a < re_sequence r"]
  from True assms get_run_own [of s run u] show ?thesis
    by (auto simp: db_inv_def list_events_def run_simps ev split: prod.splits sum.splits dest!: get_run_row_state)
next
  case False
  then obtain e where "get_run_row run u s = (Inl e, s)" by (rule no_run_of_tenant)
  with assms get_run_own [of s run u] show ?thesis
    by (auto simp: db_inv_def list_events_def run_simps split: prod.splits sum.splits)
qed

lemma list_approvals_own:
  assumes "db_inv (rp_db s)"
  shows "list_approvals run u s = (fst (list_approvals run u (s\<lparr>rp_db := own u (rp_db s)\<rparr>)), s)"
proof (cases "run_of_tenant (rp_db s) run u")
  case True
  note ap = own_approvals [OF _ True]
  from True assms get_run_own [of s run u] show ?thesis
    by (auto simp: db_inv_def list_approvals_def run_simps ap split: prod.splits sum.splits dest!: get_run_row_state)
next
  case False
  then obtain e where "get_run_row run u s = (Inl e, s)" by (rule no_run_of_tenant)
  with assms get_run_own [of s run u] show ?thesis
    by (auto simp: db_inv_def list_approvals_def run_simps split: prod.splits sum.splits)
qed

section \<open>The event log\<close>

text \<open>The abstract log of a run: its events in the order they were added.\<close>

definition log_of :: "db \<Rightarrow> string \<Rightarrow> RunEvent list" where
  "log_of d run = filter (\<lambda>r. re_run_id r = run) (tb_events d)"

definition gapfree :: "db \<Rightarrow> string \<Rightarrow> bool" where
  "gapfree d run = (map re_sequence (log_of d run) = map int [0..<length (log_of d run)])"

lemma next_sequence_gapfree:
  assumes "gapfree d run"
  shows "next_sequence_in d run = int (length (log_of d run))"
proof (cases "length (log_of d run)")
  case 0
  with assms show ?thesis by (simp add: gapfree_def next_sequence_in_def sequences_of_def log_of_def)
next
  case (Suc n)
  have seqs: "sequences_of d run = map int [0..<Suc n]"
    using assms Suc by (simp add: gapfree_def sequences_of_def log_of_def)
  then have "sequences_of d run \<noteq> []" by simp
  then obtain x xs where x: "sequences_of d run = x # xs" unfolding neq_Nil_conv by blast
  have "foldl max x xs = fold max xs x" by (simp add: foldl_conv_fold max.commute)
  also have "\<dots> = Max (set (x # xs))" by (simp only: Max.set_eq_fold)
  also have "set (x # xs) = set (map int [0..<Suc n])" using seqs x by (simp only:)
  also have "\<dots> = int ` {0..n}" by (simp only: set_map set_upt atLeastLessThanSuc_atLeastAtMost)
  also have "Max (int ` {0..n}) = int n" by (rule Max_eqI) auto
  finally show ?thesis using x Suc by (simp add: next_sequence_in_def)
qed

lemma filter_upt_drop:
  assumes "map f xs = map int [k..<k + length xs]"
  shows "filter (\<lambda>r. a < f r) xs = drop (nat (a + 1 - int k)) xs"
  using assms
proof (induction xs arbitrary: k)
  case (Cons x xs)
  have e: "[k..<k + length (x # xs)] = k # [Suc k..<Suc k + length xs]"
    using upt_conv_Cons [of k "k + length (x # xs)"] by simp
  from Cons.prems have x: "f x = int k" and "map f xs = map int [Suc k..<Suc k + length xs]"
    unfolding e by simp_all
  from Cons.IH [OF this(2)] have ih: "filter (\<lambda>r. a < f r) xs = drop (nat (a + 1 - int (Suc k))) xs" .
  show ?case
  proof (cases "a < int k")
    case True
    then have "nat (a + 1 - int (Suc k)) = 0" "nat (a + 1 - int k) = 0" by auto
    with ih x True show ?thesis by simp
  next
    case False
    then have "nat (a + 1 - int k) = Suc (nat (a + 1 - int (Suc k)))" by auto
    with ih x False show ?thesis by simp
  qed
qed simp

lemma sort_key_sorted: "sorted (map f xs) \<Longrightarrow> sort_key f xs = xs"
  by (induction xs) (auto simp: insort_is_Cons)

lemma sorted_filter_map: "sorted (map f xs) \<Longrightarrow> sorted (map f (filter P xs))"
  by (rule sorted_filter)

lemma replay_gapfree:
  assumes "gapfree d run"
  shows "sort_key re_sequence (filter (\<lambda>r. re_run_id r = run \<and> a < re_sequence r) (tb_events d)) =
    drop (nat (a + 1)) (log_of d run)"
proof -
  have "filter (\<lambda>r. re_run_id r = run \<and> a < re_sequence r) (tb_events d) =
      filter (\<lambda>r. a < re_sequence r) (log_of d run)"
    by (simp add: log_of_def filter_filter conj_commute)
  also have "\<dots> = drop (nat (a + 1)) (log_of d run)"
    using filter_upt_drop [of re_sequence "log_of d run" 0 a] assms by (simp add: gapfree_def)
  finally have f: "filter (\<lambda>r. re_run_id r = run \<and> a < re_sequence r) (tb_events d) = drop (nat (a + 1)) (log_of d run)" .
  have "sorted (map re_sequence (log_of d run))"
    using assms by (simp add: gapfree_def sorted_map_same flip: map_map) (simp add: sorted_iff_nth_mono)
  then have "sorted (map re_sequence (drop (nat (a + 1)) (log_of d run)))"
    by (simp add: drop_map [symmetric] sorted_wrt_drop)
  with f show ?thesis by (simp add: sort_key_sorted)
qed

text \<open>No other session writes.\<close>

definition quiet :: "repo_env \<Rightarrow> bool" where
  "quiet E = (\<forall>n d. rv_others E n d = d)"

lemma quiet_others: "quiet E \<Longrightarrow> others_within E T"
  by (simp add: quiet_def others_within_def db_steps.none)

lemma append_next_pass_ok:
  assumes "append_next_pass E n s = (Inr r, t)" and "quiet E"
  obtains (none) "r = None" "rp_db t = rp_db s"
    | (stored) e row where "r = Some e" "rp_db t = rp_db s" "row \<in> set (tb_events (rp_db s))" "row_to_event row = Inr e"
    | (added) e row where "r = Some e" "row_to_event row = Inr e" "re_run_id row = ne_run_id n"
        "re_sequence row = next_sequence_in (rp_db s) (ne_run_id n)" "re_data_json row = rv_redact E (ne_data n)"
        "rp_db t = (rp_db s)\<lparr>tb_events := tb_events (rp_db s) @ [row]\<rparr>"
  using assms(1)
proof (cases rule: append_next_pass_cases)
  case no_run
  then show ?thesis by simp
next
  case (dup d)
  then obtain e where "r = Some e" "row_to_event d = Inr e" by (cases "row_to_event d") simp_all
  with dup stored show ?thesis by blast
next
  case (attempt u eid k)
  with assms(2) have u: "rp_db u = rp_db s" by (simp add: quiet_def)
  from attempt(4) have "append_next_write E n eid (next_sequence_in (rp_db s) (ne_run_id n)) u = (Inr r, t)"
    by (simp add: transaction_ok)
  then show ?thesis
  proof (cases rule: append_next_write_ok)
    case (written e now)
    with u show ?thesis
      by (intro added [of e "next_row E n eid (next_sequence_in (rp_db s) (ne_run_id n)) now"])
        (simp_all add: next_row_def)
  next
    case again
    with u none show ?thesis by simp
  qed
qed

lemma append_next_loop_ok:
  assumes "quiet E" and "append_next_loop k E n s = (Inr e, t)"
  obtains (stored) row where "rp_db t = rp_db s" "row \<in> set (tb_events (rp_db s))" "row_to_event row = Inr e"
    | (added) row where "row_to_event row = Inr e" "re_run_id row = ne_run_id n"
        "re_sequence row = next_sequence_in (rp_db s) (ne_run_id n)" "re_data_json row = rv_redact E (ne_data n)"
        "rp_db t = (rp_db s)\<lparr>tb_events := tb_events (rp_db s) @ [row]\<rparr>"
  using assms(2)
proof (induction k arbitrary: s thesis)
  case 0
  then show ?case by (simp add: eraise_def)
next
  case (Suc k)
  from Suc.prems(3) obtain r u where p: "append_next_pass E n s = (Inr r, u)"
    and c: "(case r of Some e \<Rightarrow> eret e | None \<Rightarrow> append_next_loop k E n) u = (Inr e, t)"
    unfolding append_next_loop.simps by (rule bind_okE)
  from p assms(1) show ?case
  proof (cases rule: append_next_pass_ok)
    case none
    with c have l: "append_next_loop k E n u = (Inr e, t)" by simp
    show ?thesis by (rule Suc.IH [OF _ _ l]) (use none Suc.prems in auto)
  next
    case (stored e' row)
    with c have "e' = e" "t = u" by (auto simp: ok_simps)
    with stored show ?thesis by (intro Suc.prems(1) [of row]) simp_all
  next
    case (added e' row)
    with c have "e' = e" "t = u" by (auto simp: ok_simps)
    with added show ?thesis by (intro Suc.prems(2) [of row]) simp_all
  qed
qed

lemma append_next_pass_failed:
  assumes "quiet E" and "append_next_pass E n s = (Inl e, t)"
  shows "rp_db t = rp_db s"
  using assms(2)
proof (cases rule: append_next_pass_cases)
  case (attempt u eid k)
  with assms(1) transaction_failed show ?thesis by (fastforce simp: quiet_def)
qed simp_all

lemma append_next_loop_failed:
  "quiet E \<Longrightarrow> append_next_loop k E n s = (Inl e, t) \<Longrightarrow> rp_db t = rp_db s"
proof (induction k arbitrary: s)
  case (Suc k)
  obtain p u where p: "append_next_pass E n s = (p, u)" by (cases "append_next_pass E n s")
  show ?case
  proof (cases p)
    case (Inl e')
    with Suc.prems p have "t = u" by (simp add: run_bind)
    with Inl p Suc.prems(1) append_next_pass_failed show ?thesis by blast
  next
    case (Inr r)
    with p have p': "append_next_pass E n s = (Inr r, u)" by simp
    with Suc.prems(2) have c: "(case r of Some e \<Rightarrow> eret e | None \<Rightarrow> append_next_loop k E n) u = (Inl e, t)"
      by (simp add: run_bind)
    from p' Suc.prems(1) show ?thesis
    proof (cases rule: append_next_pass_ok)
      case none
      with c Suc.IH [OF Suc.prems(1)] show ?thesis by simp
    qed (use c in \<open>simp_all add: eret_def\<close>)
  qed
qed (simp add: eraise_def)

text \<open>Failing is atomic, method by method.\<close>

lemma void_failed: "void m s = (Inl e, t) \<Longrightarrow> m s = (Inl e, t)"
  by (auto simp: void_def run_simps split: prod.splits sum.splits)

lemma ensure_tenant_in_returns: "ensure_tenant_in E tn name s \<noteq> (Inl e, t)"
  using ensure_tenant_in_steps(2) by fastforce

lemma update_task_failed: "update_agent_task E k tn st ro er s = (Inl e, t) \<Longrightarrow> rp_db t = rp_db s"
  unfolding update_agent_task_def by (rule transaction_failed)

lemma id_transaction_failed:
  assumes "ebind (id_or_new E k p) (\<lambda>x. transaction (f x)) s = (Inl e, t)"
  shows "rp_db t = rp_db s"
proof -
  obtain x u where u: "id_or_new E k p s = (Inr x, u)" "rp_db u = rp_db s"
    using id_or_new_db by (metis surj_pair)
  with assms have "transaction (f x) u = (Inl e, t)" by (simp add: run_bind)
  with u show ?thesis by (simp add: transaction_failed)
qed

lemmas method_failed =
  update_run_failed append_event_failed decide_approval_failed record_tool_failed complete_tool_failed
  transaction_failed id_transaction_failed


section \<open>Properties\<close>

text \<open>C11. Tenant isolation: whatever method is called for one tenant, with concurrent sessions of any
  tenants but \<open>u\<close>, every row of \<open>u\<close> stays as it was, and each read \<open>u\<close> may make returns what it
  returned before.\<close>

theorem tenant_isolation:
  assumes "db_inv (rp_db s)" and "others_within E T" and "u \<notin> T" and "op_tenant op \<noteq> u"
    and "exec_op E op s = (r, t)"
  shows "own u (rp_db t) = own u (rp_db s) \<and> fst (get_run k u t) = fst (get_run k u s) \<and>
    fst (list_events k u a l t) = fst (list_events k u a l s) \<and>
    fst (get_approval k u t) = fst (get_approval k u s) \<and>
    fst (list_approvals k u t) = fst (list_approvals k u s)"
proof -
  have T: "others_within E (- {u})" "others_within E UNIV"
    using assms(2,3) unfolding others_within_def by (auto intro: db_steps_mono)
  have own: "own u (rp_db t) = own u (rp_db s)"
    by (rule isolated.by_op [OF T(1) _ assms(5)]) (use assms(4) in simp)
  have inv: "db_inv (rp_db t)" using integrity.by_op [OF T(2) _ assms(5)] assms(1) by simp
  have same: "fst (get_run_row k u (t\<lparr>rp_db := own u (rp_db s)\<rparr>)) = fst (get_run_row k u (s\<lparr>rp_db := own u (rp_db s)\<rparr>))"
    by (simp add: get_run_row_def run_simps split: option.splits)
  have "fst (get_run k u t) = fst (get_run k u s)"
    using get_run_own [of t k u] get_run_own [of s k u] inv assms(1) own same
    by (metis db_inv_def fst_conv get_run_def)
  moreover have "fst (list_events k u a l t) = fst (list_events k u a l s)"
    using list_events_own [OF inv, of k u a l] list_events_own [OF assms(1), of k u a l] own
    by (simp add: list_events_def get_run_row_def run_simps split: option.splits)
  moreover have "fst (get_approval k u t) = fst (get_approval k u s)"
    using get_approval_own [of t k u] get_approval_own [of s k u] inv assms(1) own
    by (simp add: db_inv_def get_approval_def get_approval_row_def run_simps split: option.splits)
  moreover have "fst (list_approvals k u t) = fst (list_approvals k u s)"
    using list_approvals_own [OF inv, of k u] list_approvals_own [OF assms(1), of k u] own
    by (simp add: list_approvals_def get_run_row_def run_simps split: option.splits)
  ultimately show ?thesis using own by simp
qed

text \<open>C12. Integrity: the database starts empty, and every method keeps keys unique (event identifiers
  and the pair of run and sequence among them) and every row with a run of its own tenant,
  whatever concurrent sessions commit.\<close>

theorem repository_integrity:
  "db_inv empty_db \<and>
   (others_within E UNIV \<and> exec_op E op s = (r, t) \<and> db_inv (rp_db s) \<longrightarrow> db_inv (rp_db t))"
proof
  show "db_inv empty_db" by (simp add: db_inv_def unique_keys_def referential_def empty_db_def)
  show "others_within E UNIV \<and> exec_op E op s = (r, t) \<and> db_inv (rp_db s) \<longrightarrow> db_inv (rp_db t)"
    using integrity.by_op by blast
qed


text \<open>C25. Failure is atomic: a method that raises leaves the database exactly as it was.\<close>

theorem failed_method_changes_nothing:
  assumes "quiet E" and "exec_op E op s = (Inl e, t)"
  shows "rp_db t = rp_db s"
proof (cases op)
  case (OAppendNextEvent n)
  with assms(2) have "append_next_event E n s = (Inl e, t)" by (auto dest: void_failed)
  then show ?thesis using append_next_loop_failed [OF assms(1)]
    by (auto simp: append_next_event_def eraise_def split: if_splits)
next
  case (OEnsureTenant tn n)
  with assms(2) show ?thesis by (auto simp: ensure_tenant_def dest: transaction_failed)
next
  case (OUpdateTask k tn st ro er)
  with assms(2) show ?thesis by (auto dest: update_task_failed)
qed (use assms(2) in \<open>auto dest!: void_failed dest: method_failed
      simp: create_run_def create_approval_def save_finding_def save_evidence_ref_def save_agent_task_def
        Let_def record_model_call_def write_audit_def\<close>)



end
