(* ===== verification/ApiFrame.thy ===== *)
theory ApiFrame
  imports ApiRoutes GraphWorld RepoProps
begin

text \<open>
  What the gateway may do to its state. Two interfaces: \<open>run_relation\<close>, a preorder obeyed by what a run
  does through its store, and \<open>gateway_relation\<close>, one obeyed by every endpoint on a run, put together from those of
  cancelling, creating and deciding. They are
  interpreted for the history of the database, for the states of other runs and for the caches of
  the process. \<open>serve\<close> is the application.
\<close>

section \<open>The application\<close>

datatype api_call =
    CreateRun CreateRunRequest "string option"
  | GetRun string
  | CancelRun string
  | RunEvents string int "string option" bool
  | ListApprovals string
  | Decide string string DecideRequest "string option"

fun endpoint :: "api_env \<Rightarrow> Identity \<Rightarrow> api_call \<Rightarrow> (api, pyval) em" where
  "endpoint E who (CreateRun body key) = create_run_route E who body key"
| "endpoint E who (GetRun rid) = get_run_route E who rid"
| "endpoint E who (CancelRun rid) = cancel_run E who rid"
| "endpoint E who (RunEvents rid after_sequence header stream) = run_events E who rid after_sequence header stream"
| "endpoint E who (ListApprovals rid) = list_approvals_route E who rid"
| "endpoint E who (Decide rid aid body key) = decide E who rid aid body key"

fun accepted :: "api_call \<Rightarrow> nat" where
  "accepted (CreateRun body key) = 202"
| "accepted (CancelRun rid) = 202"
| "accepted _ = 200"

definition serve :: "api_env \<Rightarrow> Identity \<Rightarrow> api_call \<Rightarrow> (api, response) em" where
  "serve E who c = respond (accepted c) (endpoint E who c)"

text \<open>The next background task of the process.\<close>

definition background_task :: "api_env \<Rightarrow> (api, unit) em" where
  "background_task E = ebind (eget ai_background) (\<lambda>tasks. case tasks of
     [] \<Rightarrow> eret ()
   | (rid, tenant) # rest \<Rightarrow>
       ethen (emod (\<lambda>s. s\<lparr>ai_background := rest\<rparr>)) (execute_run E rid tenant))"

section \<open>The repository of the process\<close>

abbreviation api_db :: "api \<Rightarrow> db" where
  "api_db s \<equiv> rp_db (ai_repo s)"

lemma on_repo_ok: "on_repo m s = (Inr x, t) \<longleftrightarrow> (\<exists>d. m (ai_repo s) = (Inr x, d) \<and> t = s\<lparr>ai_repo := d\<rparr>)"
  by (auto simp: on_repo_def split: prod.splits)

lemma on_repo_run: "on_repo m s = (r, t) \<Longrightarrow> \<exists>d. m (ai_repo s) = (r, d) \<and> t = s\<lparr>ai_repo := d\<rparr>"
  by (auto simp: on_repo_def split: prod.splits)

lemma get_run_run:
  "on_repo (get_run rid tn) s = (case find_run (api_db s) rid of
     Some row \<Rightarrow> if rn_tenant_id row = tn then Inr row else Inl (NotFoundError (''run '' @ rid @ '' not found''))
   | None \<Rightarrow> Inl (NotFoundError (''run '' @ rid @ '' not found'')), s)"
  by (auto simp: on_repo_def get_run_def get_run_row_def run_simps split: option.splits)

lemma list_events_state: "list_events rid tn a l s = (r, t) \<Longrightarrow> t = s"
  by (auto simp: list_events_def run_simps split: prod.splits sum.splits if_splits dest!: get_run_row_state)

lemma list_approvals_state: "list_approvals rid tn s = (r, t) \<Longrightarrow> t = s"
  by (auto simp: list_approvals_def run_simps split: prod.splits sum.splits dest!: get_run_row_state)

lemma reads_keep:
  "on_repo (get_run rid tn) s = (r, t) \<Longrightarrow> t = s"
  "on_repo (list_events rid tn a l) s = (r', t') \<Longrightarrow> t' = s"
  "on_repo (list_approvals rid tn) s = (r'', t'') \<Longrightarrow> t'' = s"
  by (auto dest!: on_repo_run list_events_state list_approvals_state simp: get_run_def dest: get_run_row_state)

section \<open>What a run does\<close>

text \<open>The other sessions write for tenants of \<open>T\<close> only, and the tenant has no white space around it.\<close>

definition sound :: "api_env \<Rightarrow> string set \<Rightarrow> string \<Rightarrow> bool" where
  "sound E T tenant = (others_within (pv_repo_env E) T \<and> strip tenant = tenant)"

locale run_relation = step_relation R for R :: "api \<Rightarrow> api \<Rightarrow> bool" +
  fixes E :: api_env and T :: "string set" and rid tenant :: string
  assumes ticks: "R s (s\<lparr>ai_ticks := n\<rparr>)"
    and cached: "R s (s\<lparr>RUN_STATES := AList.update rid st (RUN_STATES s)\<rparr>)"
    and stored: "(sound E T tenant \<Longrightarrow> db_steps (insert tenant T) (api_db s) (rp_db d)) \<Longrightarrow>
      R s (s\<lparr>ai_repo := d\<rparr>)"
begin

lemma r_tick: "obeys R (api_tick f)"
  unfolding api_tick_def by (intro obeys_intros obeys_mod ticks)

lemma r_cache: "obeys R (cache_state rid st)"
  unfolding cache_state_def by (intro obeys_mod cached)

lemma r_repo: "(\<And>s r t. sound E T tenant \<Longrightarrow> m s = (r, t) \<Longrightarrow> db_steps (insert tenant T) (rp_db s) (rp_db t)) \<Longrightarrow> obeys R (on_repo m)"
  by (rule obeysI) (auto simp: on_repo_def split: prod.splits intro!: stored)

lemma r_suppress: "obeys R m \<Longrightarrow> obeys R (suppress p m)"
  unfolding suppress_def by (intro obeys_intros)

lemma one_step: "db_steps {tenant} d d' \<Longrightarrow> db_steps (insert tenant T) d d'"
  by (erule db_steps_mono) simp

lemma r_update: "obeys R (on_repo (update_run (pv_repo_env E) rid tenant fs))"
  by (rule r_repo) (blast intro: one_step update_run_steps)

lemma r_append: "ne_tenant_id n = tenant \<Longrightarrow> obeys R (on_repo (append_next_event (pv_repo_env E) n))"
  by (rule r_repo) (use append_next_event_steps in \<open>auto simp: sound_def\<close>)

lemma r_approval: "(sound E T tenant \<Longrightarrow> ap_tenant_id a = tenant) \<Longrightarrow> obeys R (on_repo (create_approval a))"
  by (rule r_repo) (metis create_approval_steps one_step)

lemma r_reads:
  "obeys R (on_repo (get_run k tn))" "obeys R (on_repo (list_events k tn a l))"
  "obeys R (on_repo (list_approvals k tn))"
  by (rule obeysI, metis R_refl reads_keep surjective_pairing)+

text \<open>A validated approval has its tenant without the white space around it.\<close>

lemma r_upsert: "obeys R (upsert_approval E rid tenant st ap)"
proof -
  have create: "obeys R (suppress is_conflict (on_repo (create_approval a)))"
    if "validate_Approval \<lparr>ap_approval_id = i, ap_run_id = rid, ap_tenant_id = tenant, ap_action_id = x,
      ap_requested_by = q, ap_approver = w, ap_decision = dec, ap_reason = y, ap_requested_at = ra,
      ap_decided_at = da, ap_expires_at = ex, ap_trace_id = tr, ap_correlation_id = co\<rparr> = Inr a"
    for i x q w dec y ra da ex tr co a
    using that
    by (intro r_suppress r_approval) (auto simp: sound_def validate_Approval_def strip_Approval_def Let_def )
  have validated: "obeys R (ebind (elift v) (\<lambda>approval. suppress is_conflict (on_repo (create_approval approval))))"
    if "\<And>a. v = Inr a \<Longrightarrow> obeys R (suppress is_conflict (on_repo (create_approval a)))" for v
    using that by (cases v) (auto simp: obeys_def run_simps R_refl)
  show ?thesis
    unfolding upsert_approval_def
    by (rule obeys_if, rule obeys_ret, rule obeys_bind, intro obeys_intros r_tick, rule validated, rule create)
qed

lemma r_save: "obeys R (store_save E rid tenant st)"
  unfolding store_save_def by (intro obeys_intros obeys_mod cached r_suppress r_update r_upsert)

lemma r_store_append: "obeys R (store_append E rid tenant ev)"
  unfolding store_append_def by (intro r_suppress r_append) simp

text \<open>The world of a run: its clients do not touch the process, its store and clocks do.\<close>

lemma on_fakes_state: "snd (snd (on_fakes m w)) = snd w"
  by (cases w) (simp add: on_fakes_def split: prod.splits)

lemma on_api_state: "snd (snd (on_api m w)) = snd (m (snd w))"
  by (cases w) (simp add: on_api_def split: prod.splits)

end

sublocale run_relation \<subseteq> graph: world_frame "\<lambda>v w. R (snd v) (snd w)" "make_prod_graph E rid tenant"
proof
  show "R (snd w) (snd w)" for w :: "fakes \<times> api" by (rule R_refl)
  show "R (snd u) (snd w)" if "R (snd u) (snd v)" "R (snd v) (snd w)" for u v w :: "fakes \<times> api"
    using that by (rule R_trans)
  show "R (snd w) (snd w')" if "world_moves (make_prod_graph E rid tenant) w w'" for w w'
    using that
    by (cases rule: world_moves.cases)
      (auto simp: make_prod_graph_def on_fakes_state on_api_state read_tick_def eret_def R_refl ticks
        intro: obeysD [OF r_save] obeysD [OF r_store_append])
qed

context run_relation
begin

lemma r_graph: "obeys R (run_graph E rid tenant st)"
proof (rule obeysI)
  fix s
  obtain r t where run: "run (make_prod_graph E rid tenant) (new_graph st (default_fakes 0, s)) = (r, t)"
    by fastforce
  from graph.run_world [OF run] have "R s (snd (g_world t))"
    by (simp add: new_graph_def)
  moreover have "R (snd (g_world t)) ((snd (g_world t))\<lparr>RUN_STATES :=
      AList.update rid (g_state t) (RUN_STATES (snd (g_world t)))\<rparr>)" by (rule cached)
  ultimately show "R s (snd (run_graph E rid tenant st s))"
    using run by (auto simp: run_graph_def split: sum.splits intro: R_trans)
qed

lemma r_set_cached: "obeys R (set_cached rid f)"
  unfolding set_cached_def
  by (rule obeys_mod) (auto split: option.splits intro: cached R_refl)

lemma r_execute: "obeys R (execute_run E rid tenant)"
  unfolding execute_run_def Let_def by (intro obeys_intros r_cache r_suppress r_graph)

lemma r_resume: "obeys R (maybe_resume E rid tenant decision)"
  unfolding maybe_resume_def sync_approvals_def resume_rejected_def resume_approved_def Let_def
  by (intro obeys_intros r_suppress r_cache r_graph r_save r_append r_update r_set_cached r_reads)
    (simp add: api_event_def)

lemmas r_intros = obeys_intros r_tick r_cache r_suppress r_update r_reads r_set_cached r_execute r_resume

end

section \<open>What an endpoint does\<close>

context run_relation
begin

lemma r_or_404: "obeys R m \<Longrightarrow> obeys R (or_404 m)"
  unfolding or_404_def by (intro obeys_intros)

lemma r_routes:
  "obeys R (get_run_route E who k)" "obeys R (list_approvals_route E who k)"
  "obeys R (run_events E who k after_sequence header stream)"
  unfolding get_run_route_def run_detail_def findings_from_events_def list_approvals_route_def
    run_events_def resume_point_def sequence_for_event_id_def Let_def
  by (intro r_intros r_or_404)+

end

locale cancelling_relation = run_relation R E T rid tenant for R :: "api \<Rightarrow> api \<Rightarrow> bool" and E T rid tenant +
  assumes flags: "R s (s\<lparr>CANCEL_FLAGS := List.insert rid (CANCEL_FLAGS s)\<rparr>)"
    and tasks: "R s (s\<lparr>A2A_CANCELLED := told\<rparr>)"
begin

lemma g_request_cancel: "obeys R (ApiStore.request_cancel rid)"
proof (rule obeysI)
  fix s :: api
  let ?a = "s\<lparr>CANCEL_FLAGS := List.insert rid (CANCEL_FLAGS s)\<rparr>"
  let ?b = "snd (set_cached rid (\<lambda>st. st\<lparr>st_cancelled := True\<rparr>) ?a)"
  note [trans] = R_trans
  have "R s ?a" by (rule flags)
  also have "R ?a ?b" by (rule obeysD [OF r_set_cached])
  also have "R ?b (?b\<lparr>A2A_CANCELLED := (if obs_task rid \<in> set (A2A_CANCELLED s) then A2A_CANCELLED s
        else A2A_CANCELLED s @ [obs_task rid])\<rparr>)" by (rule tasks)
  finally show "R s (snd (ApiStore.request_cancel rid s))"
    by (simp add: ApiStore.request_cancel_def set_cached_def emod_def split: option.splits if_splits)
qed

lemma g_propagate: "obeys R (propagate_cancel rid)"
  unfolding propagate_cancel_def by (intro obeys_intros g_request_cancel obeys_mod tasks)

lemma g_cancel:
  assumes "id_tenant_id who = tenant" shows "obeys R (cancel_run E who rid)"
  unfolding cancel_run_def mark_cancelled_def assms
  by (intro r_intros r_or_404 g_request_cancel g_propagate r_append) (simp add: api_event_def)

end

locale creating_relation = run_relation R E T rid tenant for R :: "api \<Rightarrow> api \<Rightarrow> bool" and E T rid tenant +
  assumes background: "R s (s\<lparr>ai_background := pending_tasks\<rparr>)"
begin

lemma g_start: "obeys R (start_run E rid tenant body)"
  unfolding start_run_def by (intro r_intros r_append obeys_mod background) (simp add: api_event_def)

lemma g_create:
  assumes "id_tenant_id who = tenant" and "\<And>k. obeys R (start_run E k tenant body)"
  shows "obeys R (create_run_route E who body key)"
proof -
  have "obeys R (on_repo (create_run (pv_repo_env E) n))" if "nr_tenant_id n = tenant" for n
    by (rule r_repo) (metis create_run_steps one_step that)
  then show ?thesis
    unfolding create_run_route_def check_request_def new_run_id_def assms(1)
    by (intro r_intros assms(2)) simp_all
qed

end

locale deciding_relation = run_relation R E T rid tenant for R :: "api \<Rightarrow> api \<Rightarrow> bool" and E T rid tenant +
  assumes decisions: "R s (s\<lparr>DECIDE_IDEMPOTENCY := cache\<rparr>)"
begin

lemma g_decide_approval: "obeys R (on_repo (decide_approval (pv_repo_env E) aid tenant decision who why))"
  by (rule r_repo) (metis decide_approval_steps one_step)

lemma g_decide:
  assumes "id_tenant_id who = tenant" shows "obeys R (decide E who rid aid body key)"
  unfolding decide_def decide_stored_def decide_errors_def Let_def assms
  by (intro r_intros r_or_404 g_decide_approval r_append obeys_mod decisions) (simp_all add: api_event_def)

end

locale gateway_relation = cancelling_relation R E T rid tenant + creating_relation R E T rid tenant +
  deciding_relation R E T rid tenant for R :: "api \<Rightarrow> api \<Rightarrow> bool" and E T rid tenant

end
