(* ===== verification/ApiProps.thy ===== *)
theory ApiProps
  imports ApiFrame
begin

text \<open>
  What the gateway guarantees: the interfaces of \<open>ApiFrame\<close> interpreted for the history of the
  database, the states of other runs and the caches, and the properties of the endpoints.
\<close>

section \<open>The frames\<close>

interpretation history: gateway_relation
  "\<lambda>s t. sound E T tenant \<longrightarrow> db_steps (insert tenant T) (api_db s) (api_db t)" E T rid tenant for E T rid tenant
  by unfold_locales (auto intro: db_steps.none db_steps_trans)

definition same_states :: "(string \<Rightarrow> bool) \<Rightarrow> api \<Rightarrow> api \<Rightarrow> bool" where
  "same_states P s t = (\<forall>k. P k \<longrightarrow> map_of (RUN_STATES t) k = map_of (RUN_STATES s) k)"

interpretation other_runs: gateway_relation "same_states (\<lambda>k. k \<noteq> rid)" E T rid tenant for E T rid tenant
  by unfold_locales (auto simp: same_states_def update_conv)

definition same_caches :: "api \<Rightarrow> api \<Rightarrow> bool" where
  "same_caches s t = (DECIDE_IDEMPOTENCY t = DECIDE_IDEMPOTENCY s \<and> CANCEL_FLAGS t = CANCEL_FLAGS s \<and>
     ai_background t = ai_background s)"

interpretation caches: run_relation same_caches E T rid tenant for E T rid tenant
  by unfold_locales (auto simp: same_caches_def)

lemma same_states_if: "same_states P s t \<Longrightarrow> (\<And>k. Q k \<Longrightarrow> P k) \<Longrightarrow> same_states Q s t"
  by (simp add: same_states_def)

lemma run_of_tenant_unique: "run_of_tenant d k u \<Longrightarrow> run_of_tenant d k v \<Longrightarrow> u = v"
  by (auto simp: run_of_tenant_def)

lemma respond_run: "respond n m s = (r, t) \<Longrightarrow> \<exists>r'. m s = (r', t)"
  by (auto simp: respond_def split: prod.splits sum.splits)

text \<open>What a request does to the database is a history of its tenant and of the other sessions.\<close>

lemma endpoint_history:
  assumes "sound E T (id_tenant_id who)" and "endpoint E who c s = (r, t)"
  shows "db_steps (insert (id_tenant_id who) T) (api_db s) (api_db t)"
proof -
  let ?R = "\<lambda>s t. sound E T (id_tenant_id who) \<longrightarrow> db_steps (insert (id_tenant_id who) T) (api_db s) (api_db t)"
  have "obeys ?R (endpoint E who c)"
    by (cases c) (simp_all add: history.g_create [OF refl history.g_start] history.g_cancel history.g_decide
        history.r_routes)
  from obeys_eq [OF this assms(2)] assms(1) show ?thesis by blast
qed

text \<open>A request on a run that is not the caller's touches no cached state.\<close>

lemma or_404_get:
  "or_404 (on_repo (get_run rid tn)) s = (case find_run (api_db s) rid of
     Some row \<Rightarrow> if rn_tenant_id row = tn then Inr row else Inl not_found | None \<Rightarrow> Inl not_found, s)"
  by (simp add: or_404_def run_simps get_run_run is_not_found_def split: option.splits)

lemma not_own: "\<not> run_of_tenant (api_db s) rid tn \<Longrightarrow> or_404 (on_repo (get_run rid tn)) s = (Inl not_found, s)"
  by (auto simp: or_404_get run_of_tenant_def split: option.splits)

lemma reads_unchanged:
  "obeys (keeps (\<lambda>s. s)) (get_run_route E who rid)" "obeys (keeps (\<lambda>s. s)) (list_approvals_route E who rid)"
  "obeys (keeps (\<lambda>s. s)) (run_events E who rid after_sequence header stream)"
proof -
  have prims: "obeys (keeps (\<lambda>s. s)) (on_repo (get_run k tn))" "obeys (keeps (\<lambda>s. s)) (on_repo (list_events k tn a l))"
    "obeys (keeps (\<lambda>s. s)) (on_repo (list_approvals k tn))" for k tn a l
    by (rule obeysI, metis keeps_def reads_keep surjective_pairing)+
  show "obeys (keeps (\<lambda>s. s)) (get_run_route E who rid)" "obeys (keeps (\<lambda>s. s)) (list_approvals_route E who rid)"
    "obeys (keeps (\<lambda>s. s)) (run_events E who rid after_sequence header stream)"
    unfolding get_run_route_def run_detail_def findings_from_events_def list_approvals_route_def or_404_def
      run_events_def resume_point_def sequence_for_event_id_def Let_def
    by (intro keep.obeys_intros prims)+
qed

lemma cancel_foreign:
  assumes "\<not> run_of_tenant (api_db s) rid (id_tenant_id who)"
  shows "\<exists>e. cancel_run E who rid s = (Inl e, s)"
  using not_own [OF assms] by (cases "require_scopes who [''case.write'']") (auto simp: cancel_run_def run_simps)

lemma decide_foreign:
  assumes "\<not> run_of_tenant (api_db s) rid (id_tenant_id who)"
  shows "snd (decide E who rid aid body key s) = s"
proof -
  have "decide_stored E who rid aid body k s = (Inl not_found, s)" for k
    using not_own [OF assms] by (simp add: decide_stored_def Let_def run_simps)
  then show ?thesis
    by (auto simp: decide_def Let_def run_simps split: sum.splits option.splits)
qed

text \<open>A run is created, or found by its tenant and key.\<close>

lemma create_run_cases:
  assumes "create_run E n s = (Inr row, t)"
  obtains (found) "given_key (nr_idempotency_key n)" "row \<in> set (tb_runs (rp_db s))"
      "find (\<lambda>r. rn_tenant_id r = nr_tenant_id n \<and> rn_idempotency_key r = nr_idempotency_key n) (tb_runs (rp_db s)) = Some row"
      "rn_tenant_id row = nr_tenant_id n" "tb_runs (rp_db t) = tb_runs (rp_db s)"
  | (fresh) "find_run (rp_db s) (nr_run_id n) = None" "rn_id row = nr_run_id n" "rn_tenant_id row = nr_tenant_id n"
      "rn_idempotency_key row = nr_idempotency_key n" "tb_runs (rp_db t) = tb_runs (rp_db s) @ [row]"
      "given_key (nr_idempotency_key n) \<Longrightarrow>
        find (\<lambda>r. rn_tenant_id r = nr_tenant_id n \<and> rn_idempotency_key r = nr_idempotency_key n) (tb_runs (rp_db s)) = None"
proof -
  let ?find = "\<lambda>d. find (\<lambda>r. rn_tenant_id r = nr_tenant_id n \<and> rn_idempotency_key r = nr_idempotency_key n) (tb_runs d)"
  from assms obtain u v where e: "ensure_tenant_in E (nr_tenant_id n) [] s = (Inr u, v)"
    and c: "(given_key (nr_idempotency_key n) \<and> ?find (rp_db v) = Some row \<and> t = v) \<or>
      ((given_key (nr_idempotency_key n) \<longrightarrow> ?find (rp_db v) = None) \<and> find_run (rp_db v) (nr_run_id n) = None \<and>
        insert_run E n v = (Inr row, t))"
    unfolding create_run_def transaction_ok
    by (elim then_okE bind_okE) (auto simp: repo_ok split: option.splits if_splits)
  note runs = ensure_tenant_in_steps(4) [OF e]
  from c show thesis
  proof
    assume *: "given_key (nr_idempotency_key n) \<and> ?find (rp_db v) = Some row \<and> t = v"
    then have "row \<in> set (tb_runs (rp_db s)) \<and> rn_tenant_id row = nr_tenant_id n"
      using runs find_SomeD [of _ "tb_runs (rp_db s)" row] by auto
    with * runs show thesis by (intro found) simp_all
  next
    assume *: "(given_key (nr_idempotency_key n) \<longrightarrow> ?find (rp_db v) = None) \<and>
      find_run (rp_db v) (nr_run_id n) = None \<and> insert_run E n v = (Inr row, t)"
    with insert_run_ok [of E n v row t] runs show thesis by (intro fresh) (simp_all add: find_run_def)
  qed
qed

lemma find_run_member: "unique_keys d \<Longrightarrow> row \<in> set (tb_runs d) \<Longrightarrow> find_run d (rn_id row) = Some row"
  by (simp add: find_run_def unique_keys_def find_key_unique)

lemma create_run_own:
  assumes "create_run E n s = (Inr row, t)" and "unique_keys (rp_db s)"
  shows "run_of_tenant (rp_db t) (rn_id row) (nr_tenant_id n)"
  using assms(1)
proof (cases rule: create_run_cases)
  case found
  with assms(2) show ?thesis
    using find_run_member [OF assms(2) found(2)] by (simp add: run_of_tenant_def find_run_def)
next
  case fresh
  then show ?thesis by (simp add: run_of_tenant_def find_run_def find_append_new)
qed

section \<open>Creating a run\<close>

text \<open>The route up to the row, and what follows.\<close>

definition admitted :: "api_env \<Rightarrow> Identity \<Rightarrow> CreateRunRequest \<Rightarrow> string option \<Rightarrow> (api, string) em" where
  "admitted E who body key =
     ethen (elift (validate_CreateRunRequest body))
     (ethen (elift (require_scopes who [''case.write'']))
     (ethen (elift (check (cr_schema_version body = SCHEMA_VERSION)
        (HTTPException 400 ''validation_error'' ''stale schema_version; expected 1.0'')))
     (ebind (new_run_id E) (\<lambda>run_id. ethen (check_request E who run_id body key) (eret run_id)))))"

definition row_of_request :: "Identity \<Rightarrow> CreateRunRequest \<Rightarrow> string option \<Rightarrow> string \<Rightarrow> new_run" where
  "row_of_request who body key run_id =
     \<lparr>nr_run_id = run_id, nr_tenant_id = id_tenant_id who, nr_created_by = id_user_id who,
      nr_objective = cr_objective body, nr_budget = initial_budget body, nr_current_state = ''created'',
      nr_trace_id = None, nr_correlation_id = None, nr_idempotency_key = key\<rparr>"

lemma create_route_split:
  "create_run_route E who body key = ebind (admitted E who body key) (\<lambda>run_id.
     ebind (on_repo (create_run (pv_repo_env E) (row_of_request who body key run_id))) (\<lambda>row.
       if rn_id row \<noteq> run_id then eret (created_response (rn_id row) (rn_status row))
       else start_run E (rn_id row) (id_tenant_id who) body))"
  by (simp add: create_run_route_def admitted_def row_of_request_def ethen_def ebind_assoc)

definition same_but_ticks :: "api \<Rightarrow> api \<Rightarrow> bool" where
  "same_but_ticks s t = (\<exists>n. t = s\<lparr>ai_ticks := n\<rparr>)"

lemma same_but_ticks_refl: "same_but_ticks s s"
  unfolding same_but_ticks_def by (rule exI [of _ "ai_ticks s"]) simp

interpretation ticking: step_relation same_but_ticks
  by unfold_locales (simp_all add: same_but_ticks_refl, auto simp: same_but_ticks_def)

lemma admitted_ticks:
  assumes "admitted E who body key s = (r, t)" shows "same_but_ticks s t"
proof -
  have tick: "obeys same_but_ticks (api_tick f)" for f :: "nat \<Rightarrow> 'z"
    unfolding api_tick_def by (intro ticking.obeys_intros ticking.obeys_mod) (auto simp: same_but_ticks_def)
  have "obeys same_but_ticks (admitted E who body key)"
    unfolding admitted_def new_run_id_def check_request_def by (intro ticking.obeys_intros tick)
  from obeys_eq [OF this assms] show ?thesis .
qed

lemma bind_cases:
  assumes "ebind m f s = (r, t)"
  obtains (raised) e where "m s = (Inl e, t)" "r = Inl e" | (went_on) x u where "m s = (Inr x, u)" "f x u = (r, t)"
  using assms by (auto simp: run_bind split: prod.splits sum.splits)

lemma create_route_cases:
  assumes "create_run_route E who body key s = (r, t)"
  obtains (stopped) "RUN_STATES t = RUN_STATES s" "ai_background t = ai_background s"
  | (started) u row v where "RUN_STATES u = RUN_STATES s" "start_run E (rn_id row) (id_tenant_id who) body u = (r, t)"
      "on_repo (create_run (pv_repo_env E) (row_of_request who body key (rn_id row))) v = (Inr row, u)" "api_db v = api_db s"
      "ai_background u = ai_background s"
  using assms unfolding create_route_split
proof (cases rule: bind_cases)
  case (raised e)
  then show thesis using admitted_ticks [OF raised(1)] by (intro stopped) (auto simp: same_but_ticks_def)
next
  case (went_on run_id v)
  have v: "RUN_STATES v = RUN_STATES s" "ai_background v = ai_background s" "api_db v = api_db s"
    using admitted_ticks [OF went_on(1)] by (auto simp: same_but_ticks_def)
  from went_on(2) show thesis
  proof (cases rule: bind_cases)
    case (raised e)
    with v show thesis by (intro stopped) (auto dest!: on_repo_run)
  next
    case (went_on row u)
    have u: "RUN_STATES u = RUN_STATES s" "ai_background u = ai_background s" using on_repo_run [OF went_on(1)] v by auto
    show thesis
    proof (cases "rn_id row = run_id")
      case True
      with went_on u v show thesis by (intro started [of u row v]) simp_all
    next
      case False
      with went_on(2) u show thesis by (intro stopped) (simp_all add: eret_def)
    qed
  qed
qed

text \<open>The cached states of the runs of another tenant.\<close>

lemma create_states:
  assumes "unique_keys (api_db s)" and "u \<noteq> id_tenant_id who" and "create_run_route E who body key s = (r, t)"
  shows "same_states (\<lambda>k. run_of_tenant (api_db s) k u) s t"
  using assms(3)
proof (cases rule: create_route_cases)
  case stopped
  then show ?thesis by (simp add: same_states_def)
next
  case (started v row w)
  from started(3) obtain d where d: "create_run (pv_repo_env E) (row_of_request who body key (rn_id row)) (ai_repo w) = (Inr row, d)"
    by (auto simp only: on_repo_ok)
  have tn: "nr_tenant_id (row_of_request who body key (rn_id row)) = id_tenant_id who" by (simp add: row_of_request_def)
  from create_run_own [OF d, unfolded tn started(4)] assms(1)
  have o: "run_of_tenant (rp_db d) (rn_id row) (id_tenant_id who)" by (simp only:)
  have "k \<noteq> rn_id row" if "run_of_tenant (api_db s) k u" for k
    using db_steps_run_of_tenant [OF create_run_steps [OF d, unfolded started(4)] that] o assms(2) run_of_tenant_unique
    by blast
  moreover have "same_states (\<lambda>k. k \<noteq> rn_id row) v t"
    by (rule obeys_eq [OF other_runs.g_start started(2)])
  ultimately show ?thesis unfolding same_states_def started(1) by blast
qed

lemma cancel_states:
  assumes "u \<noteq> id_tenant_id who" and "cancel_run E who rid s = (r, t)"
  shows "same_states (\<lambda>k. run_of_tenant (api_db s) k u) s t"
proof (cases "run_of_tenant (api_db s) rid (id_tenant_id who)")
  case True
  from obeys_eq [OF other_runs.g_cancel [OF refl] assms(2)] show ?thesis
    by (rule same_states_if) (use True assms(1) run_of_tenant_unique in blast)
next
  case False
  from cancel_foreign [OF this, of E] assms(2) show ?thesis by (auto simp: same_states_def)
qed

lemma decide_states:
  assumes "u \<noteq> id_tenant_id who" and "decide E who rid aid body key s = (r, t)"
  shows "same_states (\<lambda>k. run_of_tenant (api_db s) k u) s t"
proof (cases "run_of_tenant (api_db s) rid (id_tenant_id who)")
  case True
  from obeys_eq [OF other_runs.g_decide [OF refl] assms(2)] show ?thesis
    by (rule same_states_if) (use True assms(1) run_of_tenant_unique in blast)
next
  case False
  from decide_foreign [OF this, of E aid body key] assms(2) show ?thesis by (simp add: same_states_def)
qed

lemma endpoint_states:
  assumes "unique_keys (api_db s)" and "u \<noteq> id_tenant_id who" and "endpoint E who c s = (r, t)"
  shows "same_states (\<lambda>k. run_of_tenant (api_db s) k u) s t"
proof -
  have reads: "obeys (keeps (\<lambda>s. s)) m \<Longrightarrow> m s = (r, t) \<Longrightarrow> ?thesis" for m :: "(api, pyval) em"
    by (drule (1) obeys_eq) (simp add: keeps_def same_states_def)
  show ?thesis
    using assms(3)
    by (cases c) (simp_all only: endpoint.simps create_states [OF assms(1,2)] cancel_states [OF assms(2)]
        decide_states [OF assms(2)] reads [OF reads_unchanged(1)] reads [OF reads_unchanged(2)]
        reads [OF reads_unchanged(3)])
qed

section \<open>Properties\<close>

text \<open>C2. Isolation of tenants, end to end: whatever a request asks, with other processes that write for
  any tenants but \<open>u\<close>, the database rows of another tenant \<open>u\<close> stay as they were, the states that
  the process keeps of the runs of \<open>u\<close> stay as they were, the database keeps its integrity, and
  nothing stored is taken back; a graph started by a decision is included.\<close>

theorem gateway_isolation:
  assumes "db_inv (api_db s)" and "strip (id_tenant_id who) = id_tenant_id who"
    and "others_within (pv_repo_env E) T" and "u \<notin> T" and "u \<noteq> id_tenant_id who"
    and "serve E who c s = (r, t)"
  shows "own u (api_db t) = own u (api_db s) \<and>
    (\<forall>k. run_of_tenant (api_db s) k u \<longrightarrow> map_of (RUN_STATES t) k = map_of (RUN_STATES s) k) \<and>
    db_inv (api_db t) \<and> grows (api_db s) (api_db t)"
proof -
  from assms(6) obtain r' where c: "endpoint E who c s = (r', t)" unfolding serve_def by (blast dest: respond_run)
  have sound: "sound E T (id_tenant_id who)" using assms(2,3) by (simp add: sound_def)
  note steps = endpoint_history [OF sound c]
  have "db_steps (- {u}) (api_db s) (api_db t)" by (rule db_steps_mono [OF steps]) (use assms(4,5) in auto)
  then have "own u (api_db t) = own u (api_db s)" by (rule isolated.history)
  moreover have any: "db_steps UNIV (api_db s) (api_db t)" by (rule db_steps_mono [OF steps]) simp
  from integrity.history [OF any] growing.history [OF any] assms(1)
  have "db_inv (api_db t)" "grows (api_db s) (api_db t)" by simp_all
  ultimately show ?thesis using endpoint_states [OF _ assms(5) c] assms(1) by (simp add: same_states_def db_inv_def)
qed

section \<open>Access\<close>

fun needs :: "api_call \<Rightarrow> string" where
  "needs (CreateRun body key) = ''case.write''"
| "needs (CancelRun rid) = ''case.write''"
| "needs (Decide rid aid body key) = ''case.approve''"
| "needs _ = ''case.read''"

fun well_formed :: "api_call \<Rightarrow> bool" where
  "well_formed (CreateRun body key) = (validate_CreateRunRequest body = Inr body)"
| "well_formed (RunEvents rid after_sequence header stream) = (0 \<le> after_sequence)"
| "well_formed (Decide rid aid body key) = (validate_DecideRequest body = Inr body)"
| "well_formed _ = True"

text \<open>The run a request needs to be the caller's; a decision whose outcome is cached needs none.\<close>

fun about :: "api \<Rightarrow> Identity \<Rightarrow> api_call \<Rightarrow> string option" where
  "about s who (CreateRun body key) = None"
| "about s who (GetRun rid) = Some rid"
| "about s who (CancelRun rid) = Some rid"
| "about s who (RunEvents rid after_sequence header stream) = Some rid"
| "about s who (ListApprovals rid) = Some rid"
| "about s who (Decide rid aid body key) =
     (if decide_guards who body key = Inr () \<and>
         map_of (DECIDE_IDEMPOTENCY s) (aid, case key of Some k \<Rightarrow> k | None \<Rightarrow> []) = None then Some rid else None)"

definition forbidden :: "string \<Rightarrow> response" where
  "forbidden scope = \<lparr>rs_status = 403,
     rs_body = PDict (envelope ''forbidden'' (''missing required scope(s): '' @ scope) False)\<rparr>"

definition hidden :: response where
  "hidden = \<lparr>rs_status = 404, rs_body = PDict (envelope ''not_found'' ''not found'' False)\<rparr>"

lemma require_one: "require_scopes who [x] =
    (if has_scope who x then Inr () else Inl (AuthorizationError (''missing required scope(s): '' @ x)))"
  by (auto simp: require_scopes_def has_scope_def Let_def)

lemma no_scope_endpoint:
  assumes "well_formed c" and "\<not> has_scope who (needs c)"
  shows "endpoint E who c s = (Inl (AuthorizationError (''missing required scope(s): '' @ needs c)), s)"
  using assms
  by (cases c) (simp_all add: create_run_route_def get_run_route_def cancel_run_def run_events_def
      list_approvals_route_def decide_def decide_guards_def Let_def require_one run_simps check_def)

lemma list_approvals_hidden:
  "\<not> run_of_tenant (api_db s) rid tn \<Longrightarrow> or_404 (on_repo (list_approvals rid tn)) s = (Inl not_found, s)"
  by (auto simp: or_404_def on_repo_def list_approvals_def get_run_row_def run_simps is_not_found_def
      run_of_tenant_def split: option.splits)

lemma hidden_endpoint:
  assumes "well_formed c" and "has_scope who (needs c)" and "about s who c = Some rid"
    and "\<not> run_of_tenant (api_db s) rid (id_tenant_id who)"
  shows "endpoint E who c s = (Inl not_found, s)"
proof (cases c)
  case (Decide k aid body key)
  with assms(3) have k: "k = rid" "decide_guards who body key = Inr ()"
    "map_of (DECIDE_IDEMPOTENCY s) (aid, case key of Some k \<Rightarrow> k | None \<Rightarrow> []) = None"
    by (auto split: if_splits)
  with Decide assms(1) not_own [OF assms(4)] show ?thesis
    by (simp add: decide_def decide_stored_def Let_def run_simps)
qed (use assms not_own [OF assms(4)] list_approvals_hidden [OF assms(4)] in
  \<open>simp_all add: get_run_route_def run_detail_def cancel_run_def run_events_def list_approvals_route_def
    Let_def require_one run_simps check_def\<close>)


lemma run_checks_failed:
  assumes "\<not> (\<forall>c \<in> set cs. fst c)" shows "\<exists>m. run_checks cs x = Inl (ValidationError m)"
proof (cases "filter (\<lambda>c. \<not> fst c) cs")
  case Nil
  with assms show ?thesis by (auto simp: filter_empty_conv)
qed (simp add: run_checks_def)

text \<open>A request that the contract rejects is an internal error: an objective of spaces passes the
  model of the route, fails the model of the contract, and is answered 500; nothing is stored.\<close>

theorem blank_objective_is_500:
  assumes "validate_CreateRunRequest body = Inr body" and "strip (cr_objective body) = []"
    and "has_scope who ''case.write''" and "cr_schema_version body = SCHEMA_VERSION"
  shows "\<exists>t. serve E who (CreateRun body key) s =
      (Inr \<lparr>rs_status = 500, rs_body = PStr ''Internal Server Error''\<rparr>, t) \<and>
    api_db t = api_db s \<and> RUN_STATES t = RUN_STATES s"
proof -
  let ?rq = "\<lambda>run_id. \<lparr>rq_run_id = run_id, rq_tenant_id = id_tenant_id who, rq_user_id = id_user_id who,
    rq_objective = cr_objective body, rq_context = cr_context body, rq_max_tool_calls = cr_max_tool_calls body,
    rq_max_model_calls = cr_max_model_calls body, rq_max_cost_usd = cr_max_cost_usd body,
    rq_idempotency_key = key, rq_trace_id = None, rq_correlation_id = None\<rparr>"
  have "\<exists>m. validate_AgentRequest (pv_py E) (?rq run_id) = Inl (ValidationError m)" for run_id
    using assms(2) unfolding validate_AgentRequest_def Let_def
    by (intro run_checks_failed) (simp add: len_in_def)
  then obtain m where m: "\<And>run_id. validate_AgentRequest (pv_py E) (?rq run_id) = Inl (ValidationError (m run_id))"
    by metis
  then show ?thesis
    using assms(1,3,4)
    by (simp add: serve_def respond_def create_run_route_def new_run_id_def api_tick_def check_request_def
        run_simps require_one check_def error_response_def)
qed

section \<open>Decisions\<close>

text \<open>A decision that is stored: what it met, and what it leaves.\<close>

lemma decide_stored_ok:
  assumes "decide_stored E who rid aid body key s = (Inr b, t)"
  obtains a u v w where "run_of_tenant (api_db s) rid (id_tenant_id who)"
    "decide_approval (pv_repo_env E) aid (id_tenant_id who) (dr_decision body) (dr_approver body) (dr_reason body)
      (ai_repo s) = (Inr a, u)" "ap_run_id a = rid"
    "v = (s\<lparr>ai_repo := u\<rparr>)"
    "suppress expected_error (on_repo (append_next_event (pv_repo_env E) (api_event rid (id_tenant_id who)
       APPROVAL_RECEIVED [(''approval_id'', PStr aid), (''decision'', PStr (dr_decision body)),
         (''approver'', PStr (dr_approver body))]))) v = (Inr (), w)"
    "maybe_resume E rid (id_tenant_id who) (dr_decision body) (w\<lparr>DECIDE_IDEMPOTENCY :=
       AList.update (aid, key) (decision_result aid rid body) (DECIDE_IDEMPOTENCY w)\<rparr>) = (Inr (), t)"
    "b = PDict (decision_result aid rid body)"
proof -
  let ?tn = "id_tenant_id who"
  have own: "run_of_tenant (api_db s) rid ?tn"
  proof (rule ccontr)
    assume "\<not> run_of_tenant (api_db s) rid ?tn"
    from not_own [OF this] assms show False by (simp add: decide_stored_def Let_def run_then)
  qed
  then have g: "\<exists>row. or_404 (on_repo (get_run rid ?tn)) s = (Inr row, s)"
    by (auto simp: or_404_get run_of_tenant_def)
  from assms g obtain a v where a: "decide_errors (on_repo (decide_approval (pv_repo_env E) aid ?tn (dr_decision body)
      (dr_approver body) (dr_reason body))) s = (Inr a, v)" and rest:
    "ethen (elift (check (ap_run_id a = rid) not_found))
       (ethen (suppress expected_error (on_repo (append_next_event (pv_repo_env E)
          (api_event rid ?tn APPROVAL_RECEIVED [(''approval_id'', PStr aid),
            (''decision'', PStr (dr_decision body)), (''approver'', PStr (dr_approver body))]))))
       (ethen (emod (\<lambda>s. s\<lparr>DECIDE_IDEMPOTENCY := AList.update (aid, key) (decision_result aid rid body) (DECIDE_IDEMPOTENCY s)\<rparr>))
       (ethen (maybe_resume E rid ?tn (dr_decision body))
       (eret (PDict (decision_result aid rid body)))))) v = (Inr b, t)"
    unfolding decide_stored_def Let_def by (auto simp: run_then run_bind split: prod.splits sum.splits)
  from a obtain u where u: "decide_approval (pv_repo_env E) aid ?tn (dr_decision body) (dr_approver body) (dr_reason body)
      (ai_repo s) = (Inr a, u)" "v = (s\<lparr>ai_repo := u\<rparr>)"
    by (auto simp: decide_errors_def run_try on_repo_def eraise_def split: prod.splits sum.splits if_splits)
  from rest show thesis
    by (elim then_okE) (auto simp: check_def lift_ok emod_def ret_ok intro: that [OF own u(1) _ u(2)] split: if_splits)
qed

text \<open>What a stored decision met and leaves, the graph it resumes included.\<close>

lemma decide_stored_records:
  assumes st: "decide_stored E who rid aid body key s = (Inr b, t)"
    and sound: "sound E UNIV (id_tenant_id who)"
  shows "run_of_tenant (api_db s) rid (id_tenant_id who) \<and> (\<exists>row row'. find_approval (api_db s) aid = Some row \<and>
      av_tenant_id row = id_tenant_id who \<and> av_decision row = ''pending'' \<and>
      (\<forall>x. av_expires_at row = Some x \<longrightarrow> rv_clock (pv_repo_env E) (rp_ticks (ai_repo s)) \<le> x) \<and>
      find_approval (api_db t) aid = Some row' \<and> av_decision row' = dr_decision body \<and>
      dr_decision body \<in> {''approved'', ''rejected''} \<and> av_approver row' = Some (dr_approver body))"
  using st
proof (cases rule: decide_stored_ok)
  case (1 a u v w)
  from 1(2) obtain row row' where row: "find_approval (api_db s) aid = Some row" "av_tenant_id row = (id_tenant_id who)"
    "av_decision row = ''pending''" "dr_decision body \<in> {''approved'', ''rejected''}"
    "\<not> (case av_expires_at row of None \<Rightarrow> False | Some x \<Rightarrow> x < rv_clock (pv_repo_env E) (rp_ticks (ai_repo s)))"
    and row': "row' = row\<lparr>av_decision := dr_decision body, av_approver := Some (dr_approver body),
      av_reason := dr_reason body, av_decided_at := Some (rv_clock (pv_repo_env E) (rp_ticks (ai_repo s)))\<rparr>"
    and u: "rp_db u = (api_db s)\<lparr>tb_approvals := update_first (\<lambda>r. av_approval_id r = aid) (\<lambda>_. row') (tb_approvals (api_db s))\<rparr>"
    by (rule decide_approval_ok) blast
  have "av_approval_id row = aid" using row(1) find_SomeD unfolding find_approval_def by force
  then have at_u: "find_approval (rp_db u) aid = Some row'"
    using find_update_first [OF row(1) [unfolded find_approval_def], of "\<lambda>_. row'"]
    by (simp add: find_approval_def u row')
  have "obeys (\<lambda>s t. sound E UNIV (id_tenant_id who) \<longrightarrow> db_steps (insert (id_tenant_id who) UNIV) (api_db s) (api_db t))
      (suppress expected_error (on_repo (append_next_event (pv_repo_env E) (api_event rid (id_tenant_id who)
        APPROVAL_RECEIVED [(''approval_id'', PStr aid), (''decision'', PStr (dr_decision body)),
          (''approver'', PStr (dr_approver body))]))))"
    by (intro history.r_suppress history.r_append) (simp add: api_event_def)
  from obeys_eq [OF this 1(5)] sound have "db_steps UNIV (rp_db u) (api_db w)" by (simp add: 1(4))
  moreover from obeys_eq [OF history.r_resume [where T = UNIV] 1(6)] sound have "db_steps UNIV (api_db w) (api_db t)" by simp
  ultimately have "grows (rp_db u) (api_db t)" by (intro growing.history) (rule db_steps_trans)
  with at_u row(4) row' have "find_approval (api_db t) aid = Some row'"
    unfolding grows_def decisions_stay_def by force
  with row row' 1(1) show ?thesis by (auto split: option.splits)
qed

text \<open>The outcome of a decision in the cache.\<close>

lemma decide_cached:
  assumes "decide E who rid aid body (Some key) s = (Inr b, t)"
  obtains res where "map_of (DECIDE_IDEMPOTENCY t) (aid, key) = Some res" "dget_none res ''run_id'' = PStr rid"
    "b = PDict res"
proof -
  from assms consider res where "map_of (DECIDE_IDEMPOTENCY s) (aid, key) = Some res" "dget_none res ''run_id'' = PStr rid"
      "b = PDict res" "t = s"
    | "decide_stored E who rid aid body key s = (Inr b, t)"
    unfolding decide_def Let_def
    by (auto simp: run_simps split: sum.splits option.splits if_splits)
  then show thesis
  proof cases
    case 2
    then show thesis
    proof (cases rule: decide_stored_ok)
      case (1 a u v w)
      from obeys_eq [OF caches.r_resume 1(6)]
      have "DECIDE_IDEMPOTENCY t = AList.update (aid, key) (decision_result aid rid body) (DECIDE_IDEMPOTENCY w)"
        by (simp add: same_caches_def)
      with 1(7) show thesis by (intro that) (simp_all add: update_conv decision_result_def)
    qed
  qed (use that in blast)
qed

text \<open>Decisions are idempotent: once a decision on an approval has been answered, every later one
  with the same key on that run is answered with the same body and changes nothing. The caller
  of the later request is not compared with that of the first, nor its tenant, nor its decision:
  the cached outcome is given before the run is looked up.\<close>

theorem decide_replays:
  assumes "decide E who rid aid body (Some key) s = (Inr b, t)"
    and "validate_DecideRequest body' = Inr body'" and "decide_guards who' body' (Some key) = Inr ()"
  shows "serve E who' (Decide rid aid body' (Some key)) t = (Inr \<lparr>rs_status = 200, rs_body = b\<rparr>, t)"
proof -
  from assms(1) obtain res where "map_of (DECIDE_IDEMPOTENCY t) (aid, key) = Some res"
    "dget_none res ''run_id'' = PStr rid" "b = PDict res" by (rule decide_cached)
  then have "decide E who' rid aid body' (Some key) t = (Inr b, t)"
    using assms(2,3) by (simp add: decide_def Let_def run_simps)
  then show ?thesis by (simp add: serve_def respond_def)
qed

text \<open>C8. A decision is made once, on a pending approval: a request that is not answered from the cache
  and succeeds comes with the scope for approvals, a named approver, and a run of the caller's
  tenant; the approval was pending and not expired, and afterwards, whatever the resumed graph and
  other processes do, it carries this decision and this approver.\<close>

theorem decision_is_recorded:
  assumes "decide E who rid aid body (Some key) s = (Inr b, t)" and "map_of (DECIDE_IDEMPOTENCY s) (aid, key) = None"
    and "strip (id_tenant_id who) = id_tenant_id who" and "others_within (pv_repo_env E) UNIV"
  shows "has_scope who ''case.approve'' \<and> strip (dr_approver body) \<noteq> [] \<and>
    run_of_tenant (api_db s) rid (id_tenant_id who) \<and>
    (\<exists>row row'. find_approval (api_db s) aid = Some row \<and> av_tenant_id row = id_tenant_id who \<and>
      av_decision row = ''pending'' \<and>
      (\<forall>x. av_expires_at row = Some x \<longrightarrow> rv_clock (pv_repo_env E) (rp_ticks (ai_repo s)) \<le> x) \<and>
      find_approval (api_db t) aid = Some row' \<and> av_decision row' = dr_decision body \<and>
      dr_decision body \<in> {''approved'', ''rejected''} \<and> av_approver row' = Some (dr_approver body))"
proof -
  from assms(1,2) have guards: "decide_guards who body (Some key) = Inr ()"
    and st: "decide_stored E who rid aid body key s = (Inr b, t)"
    unfolding decide_def Let_def by (auto simp: run_simps split: sum.splits option.splits if_splits)
  from guards have "has_scope who ''case.approve''" "strip (dr_approver body) \<noteq> []"
    by (auto simp: decide_guards_def Let_def rbind_Inr_iff require_one split: if_splits)
  with decide_stored_records [OF st] assms(3,4) show ?thesis by (simp add: sound_def)
qed

end
