(* ===== verification/ApiRuns.thy ===== *)
theory ApiRuns
  imports ApiProps GraphProps
begin

text \<open>
  The life of a run at the gateway: creating it once for a key, cancelling it before it starts,
  replaying its events, and what holds of every state the process reaches.
\<close>

section \<open>Creating once\<close>

text \<open>The run found for a tenant and a key stays the one found.\<close>

definition keyed :: "string \<Rightarrow> string option \<Rightarrow> RunRow \<Rightarrow> bool" where
  "keyed tn key r = (rn_tenant_id r = tn \<and> rn_idempotency_key r = key)"

definition keyed_stays :: "string \<Rightarrow> string option \<Rightarrow> db \<Rightarrow> db \<Rightarrow> bool" where
  "keyed_stays tn key d d' = (\<forall>row. find (keyed tn key) (tb_runs d) = Some row \<longrightarrow>
     (\<exists>row'. find (keyed tn key) (tb_runs d') = Some row' \<and> rn_id row' = rn_id row))"

lemma find_update_first_keyed:
  assumes "find p rs = Some old" and "\<And>q. q = old \<Longrightarrow> P new = P q \<and> key new = key q"
  shows "map_option key (find P (update_first p (\<lambda>_. new) rs)) = map_option key (find P rs)"
  using assms by (induction rs) (auto split: if_splits)

interpretation keys: db_relation UNIV "keyed_stays tn key" for tn key
proof
  fix a b :: db and t
  assume "db_step t a b"
  then show "keyed_stays tn key a b"
  proof (cases rule: db_step.cases)
    case (run row)
    then show ?thesis by (auto simp: keyed_stays_def find_append_old)
  next
    case (set_run k row row')
    then have "map_option rn_id (find (keyed tn key) (update_first (\<lambda>r. rn_id r = k) (\<lambda>_. row') (tb_runs a))) =
        map_option rn_id (find (keyed tn key) (tb_runs a))"
      by (intro find_update_first_keyed [where old = row]) (auto simp: find_run_def keyed_def)
    with set_run(1) show ?thesis by (auto simp: keyed_stays_def)
  qed (simp_all add: keyed_stays_def)
next
  show "keyed_stays tn key a c" if "keyed_stays tn key a b" "keyed_stays tn key b c" for a b c
    using that unfolding keyed_stays_def by metis
qed (simp add: keyed_stays_def)

lemma run_id_shape:
  "admitted E who body key s = (Inr run_id, t) \<Longrightarrow> run_id = ''run_'' @ take 12 (pv_uuid_hex E (ai_ticks s))"
  unfolding admitted_def new_run_id_def api_tick_def
  by (elim then_okE bind_okE) (auto simp: ok_simps emod_def ethen_def ebind_def eget_def eret_def)

lemma keyed_row:
  "keyed (id_tenant_id who) key =
     (\<lambda>r. rn_tenant_id r = nr_tenant_id (row_of_request who body key k) \<and>
        rn_idempotency_key r = nr_idempotency_key (row_of_request who body key k))"
  by (simp add: fun_eq_iff keyed_def row_of_request_def)

lemma keyed_create_run:
  assumes "given_key (nr_idempotency_key n)"
    and "find (\<lambda>r. rn_tenant_id r = nr_tenant_id n \<and> rn_idempotency_key r = nr_idempotency_key n) (tb_runs (rp_db s)) = Some row"
  shows "\<exists>t. create_run E n s = (Inr row, t) \<and> tb_runs (rp_db t) = tb_runs (rp_db s) \<and>
    tb_events (rp_db t) = tb_events (rp_db s)"
proof -
  have "\<exists>t. ensure_tenant_in E (nr_tenant_id n) [] s = (Inr (), t) \<and> tb_runs (rp_db t) = tb_runs (rp_db s) \<and>
      tb_events (rp_db t) = tb_events (rp_db s)"
    by (simp add: ensure_tenant_in_def run_simps repo_now_def tick_def modify_db_def)
  with assms show ?thesis
    by (auto simp: create_run_def transaction_def run_simps split: option.splits)
qed

lemma start_run_response:
  "start_run E rid tn body s = (Inr b, t) \<Longrightarrow> b = created_response rid ''created''"
  unfolding start_run_def by (elim then_okE bind_okE) (simp add: ret_ok)

text \<open>What an accepted request with a key leaves: the run it names is the one found for the key.\<close>

lemma accepted_run_found:
  assumes "create_run_route E who body (Some key) s = (Inr b, t)" and "sound E UNIV (id_tenant_id who)"
    and "key \<noteq> []"
  obtains row status where "find (keyed (id_tenant_id who) (Some key)) (tb_runs (api_db t)) = Some row"
    "b = created_response (rn_id row) status"
proof -
  from assms(1) obtain run_id v row u
    where c: "on_repo (create_run (pv_repo_env E) (row_of_request who body (Some key) run_id)) v = (Inr row, u)"
      and r: "(if rn_id row \<noteq> run_id then eret (created_response (rn_id row) (rn_status row))
        else start_run E (rn_id row) (id_tenant_id who) body) u = (Inr b, t)"
    unfolding create_route_split by (elim bind_okE) blast
  from c obtain d where d: "create_run (pv_repo_env E) (row_of_request who body (Some key) run_id) (ai_repo v) = (Inr row, d)"
    "u = (v\<lparr>ai_repo := d\<rparr>)" by (auto simp only: on_repo_ok)
  have key: "given_key (nr_idempotency_key (row_of_request who body (Some key) run_id))"
    using assms(3) by (simp add: row_of_request_def given_key_def)
  have f: "find (keyed (id_tenant_id who) (Some key)) (tb_runs (api_db u)) = Some row"
    using d(1)
  proof (cases rule: create_run_cases)
    case found
    then show ?thesis using d(2) by (simp add: keyed_row [where body = body and k = run_id])
  next
    case fresh
    then show ?thesis using d(2) key
      by (simp add: keyed_row [where body = body and k = run_id] find_append_new)
  qed
  show thesis
  proof (cases "rn_id row = run_id")
    case False
    with r f show thesis by (intro that) (auto simp: ret_ok)
  next
    case True
    with r have s: "start_run E (rn_id row) (id_tenant_id who) body u = (Inr b, t)" by simp
    from obeys_eq [OF history.g_start [where T = UNIV] s] assms(2) have "db_steps UNIV (api_db u) (api_db t)" by simp
    with f obtain row' where "find (keyed (id_tenant_id who) (Some key)) (tb_runs (api_db t)) = Some row'" "rn_id row' = rn_id row"
      using keys.history unfolding keyed_stays_def by blast
    with start_run_response [OF s] show thesis by (intro that [of row' "''created''"]) simp_all
  qed
qed

text \<open>C30. Creating a run is idempotent: after a request with a key has been accepted, another request of
  the same tenant with that key is answered with the same run; it adds no run and no event,
  schedules no second execution and leaves every cached state, even where its objective differs
  and other processes write for other tenants. The new identifier has to be unused.\<close>

theorem create_run_replays:
  assumes "create_run_route E who body (Some key) s = (Inr b, t)" and "key \<noteq> []"
    and "strip (id_tenant_id who) = id_tenant_id who" and "others_within (pv_repo_env E) UNIV"
    and "id_tenant_id who' = id_tenant_id who" and "admitted E who' body' (Some key) t = (Inr run_id', v)"
    and "find_run (api_db t) (''run_'' @ take 12 (pv_uuid_hex E (ai_ticks t))) = None"
  shows "\<exists>run_id status status' u. b = created_response run_id status \<and>
    create_run_route E who' body' (Some key) t = (Inr (created_response run_id status'), u) \<and>
    tb_runs (api_db u) = tb_runs (api_db t) \<and> tb_events (api_db u) = tb_events (api_db t) \<and>
    RUN_STATES u = RUN_STATES t \<and> ai_background u = ai_background t"
proof -
  let ?tn = "id_tenant_id who" and ?n = "row_of_request who' body' (Some key) run_id'"
  have "sound E UNIV ?tn" using assms(3,4) by (simp add: sound_def)
  from accepted_run_found [OF assms(1) this assms(2)] obtain row status
    where row: "find (keyed ?tn (Some key)) (tb_runs (api_db t)) = Some row" "b = created_response (rn_id row) status" .
  obtain n where v: "v = t\<lparr>ai_ticks := n\<rparr>" using admitted_ticks [OF assms(6)] by (auto simp: same_but_ticks_def)
  have "find (keyed (id_tenant_id who') (Some key)) (tb_runs (api_db v)) = Some row" using row(1) v assms(5) by simp
  then have "\<exists>d. create_run (pv_repo_env E) ?n (ai_repo v) = (Inr row, d) \<and>
      tb_runs (rp_db d) = tb_runs (api_db v) \<and> tb_events (rp_db d) = tb_events (api_db v)"
    unfolding keyed_row [where body = body' and k = run_id']
    by (intro keyed_create_run) (simp_all add: row_of_request_def given_key_def assms(2))
  then obtain d where d: "create_run (pv_repo_env E) ?n (ai_repo v) = (Inr row, d)"
    "tb_runs (rp_db d) = tb_runs (api_db t)" "tb_events (rp_db d) = tb_events (api_db t)" using v by auto
  have "rn_id row \<in> rn_id ` set (tb_runs (api_db t))" using find_SomeD [OF row(1)] by simp
  with assms(7) run_id_shape [OF assms(6)] have "rn_id row \<noteq> run_id'" by (auto simp: find_run_None)
  then have "create_run_route E who' body' (Some key) t = (Inr (created_response (rn_id row) (rn_status row)), v\<lparr>ai_repo := d\<rparr>)"
    using assms(6) d(1) by (simp add: create_route_split run_bind on_repo_def eret_def)
  with row(2) d v show ?thesis by auto
qed

section \<open>Cancelling\<close>

text \<open>However the handler ends, it has set the outcome first.\<close>

lemma cancelled_handler_so: "so (g_state (snd (on_cancelled D s))) = (CANCELLED, Some ''cancelled'')"
proof -
  let ?rest = "ethen (emit D RUN_CANCELLED [(''reason'', PStr ''cancel requested'')]) (ethen (save D)
     (case d_cancel D of None \<Rightarrow> eret ()
      | Some cancel \<Rightarrow> ebind get_state (\<lambda>st. etry (on_world (cancel (st_run_id st @ ''-obs-1''))) (\<lambda>_. eret ()))))"
  let ?v = "s\<lparr>g_state := (g_state s)\<lparr>st_status := CANCELLED, st_outcome := Some ''cancelled''\<rparr>\<rparr>"
  have "obeys (keeps (\<lambda>s. so (g_state s))) ?rest" by (intro so.k_intros so.view.q_intros)
  from obeysD [OF this, of ?v] show ?thesis by (simp add: on_cancelled_def run_then upd_def emod_def keeps_def)
qed

lemma run_of_cancelled:
  assumes "st_cancelled (g_state s)" and "st_status (g_state s) \<noteq> CREATED"
  shows "so (g_state (snd (run D s))) = (CANCELLED, Some ''cancelled'')"
proof -
  from run_loop_cancelled [of s D] assms(1) obtain v
    where "run_loop D s = (Inl (RunCancelledError ''run was cancelled''), v)" by blast
  then have "run D s = on_cancelled D v"
    by (simp add: run_alt run_then run_start_not_created [OF assms(2)] run_try run_handler_def)
  then show ?thesis using cancelled_handler_so by simp
qed

text \<open>What the route leaves in the process.\<close>

lemma cancel_run_leaves:
  assumes "cancel_run E who rid s = (Inr b, t)"
  shows "rid \<in> set (CANCEL_FLAGS t)"
    and "map_of (RUN_STATES t) rid = Some st \<Longrightarrow> st_cancelled st \<and> st_status st = CANCELLED"
proof -
  from assms obtain v v' v'' where v: "ApiStore.request_cancel rid v = (Inr (), v')"
    "set_cached rid (\<lambda>st. st\<lparr>st_status := CANCELLED\<rparr>) v' = (Inr (), v'')"
    "suppress_all (propagate_cancel rid) v'' = (Inr (), t)"
    unfolding cancel_run_def by (elim then_okE bind_okE) (auto simp: ret_ok)
  show "rid \<in> set (CANCEL_FLAGS t)" "map_of (RUN_STATES t) rid = Some st \<Longrightarrow> st_cancelled st \<and> st_status st = CANCELLED"
    using v by (auto simp: run_simps ApiStore.request_cancel_def set_cached_def suppress_def propagate_cancel_def update_conv
        split: option.splits)
qed

lemma update_same: "map_of xs k = Some v \<Longrightarrow> AList.update k v xs = xs"
  by (induction xs) auto

text \<open>C15. A run that is cancelled before its background task starts does nothing: the task returns, the
  graph makes no tool call and no delegation, and the run the process holds ends cancelled,
  whether or not its events can be stored.\<close>

theorem cancelled_before_start:
  assumes "cancel_run E who rid s = (Inr b, t)" and "map_of (RUN_STATES t) rid = Some st"
  shows "list_all silent_call (g_trace (snd (run (make_prod_graph E rid tn) (new_graph st (default_fakes 0, t))))) \<and>
    (\<exists>u st'. execute_run E rid tn t = (Inr (), u) \<and> map_of (RUN_STATES u) rid = Some st' \<and>
      st_status st' = CANCELLED \<and> st_outcome st' = Some ''cancelled'')"
proof -
  let ?D = "make_prod_graph E rid tn" and ?G = "new_graph st (default_fakes 0, t)"
  from cancel_run_leaves [OF assms(1)] assms(2)
  have f: "rid \<in> set (CANCEL_FLAGS t)" and st: "st_cancelled st" "st_status st = CANCELLED" by auto
  obtain r g where g: "run ?D ?G = (r, g)" by fastforce
  from run_of_cancelled [of ?G ?D] st g have so: "so (g_state g) = (CANCELLED, Some ''cancelled'')"
    by (simp add: new_graph_def)
  from cancelled_run_silent [of ?G ?D] st(1) g obtain xs where tr: "list_all silent_call (new_calls ?G g)"
    by (simp add: new_graph_def)
  have flagged: "st\<lparr>st_cancelled := True\<rparr> = st" using st(1) by simp
  have kept: "t\<lparr>RUN_STATES := AList.update rid st (RUN_STATES t)\<rparr> = t" using update_same [OF assms(2)] by simp
  from g f flagged kept assms(2)
  have "execute_run E rid tn t = (Inr (), (snd (g_world g))\<lparr>RUN_STATES :=
      AList.update rid (g_state g) (RUN_STATES (snd (g_world g)))\<rparr>)"
    by (auto simp: execute_run_def Let_def run_simps cache_state_def suppress_def run_graph_def split: sum.splits)
  with so tr g show ?thesis by (auto simp: update_conv new_graph_def new_calls_def)
qed

section \<open>Replaying events\<close>

lemma all_results_ok: "all_results rs = Inr xs \<longleftrightarrow> list_all2 (\<lambda>r x. r = Inr x) rs xs"
proof (induction rs arbitrary: xs)
  case Nil
  then show ?case by (auto simp: all_results_def)
next
  case (Cons r rs)
  have step: "all_results (r # rs) = rbind r (\<lambda>x. rbind (all_results rs) (\<lambda>xs. Inr (x # xs)))"
    by (simp add: all_results_def)
  show ?case by (cases xs) (auto simp: step rbind_Inr_iff Cons.IH)
qed

lemma list_events_ok:
  "list_events rid tn a 1000 s = (Inr es, t) \<longleftrightarrow> t = s \<and> run_of_tenant (rp_db s) rid tn \<and>
     list_all2 (\<lambda>r e. row_to_event r = Inr e) (take 1000 (sort_key re_sequence
       (filter (\<lambda>r. re_run_id r = rid \<and> a < re_sequence r) (tb_events (rp_db s))))) es"
  by (auto simp: list_events_def get_run_row_def run_simps run_of_tenant_def all_results_ok list_all2_map1
      split: option.splits sum.splits)

lemma or_404_ok: "or_404 m s = (Inr x, t) \<longleftrightarrow> m s = (Inr x, t)"
  by (auto simp: or_404_def run_try eraise_def split: prod.splits sum.splits)

lemma resume_point_state: "resume_point rid tn n header s = (r, t) \<Longrightarrow> t = s"
  using reads_keep(2) by (fastforce simp: resume_point_def sequence_for_event_id_def run_simps
      split: option.splits if_splits prod.splits sum.splits)

lemma row_to_event_sequence: "row_to_event r = Inr e \<Longrightarrow> ev_sequence e = re_sequence r"
  by (auto simp: row_to_event_def rbind_Inr_iff validate_AgentEvent_def strip_AgentEvent_def Let_def)

lemma run_events_ok:
  assumes "run_events E who rid n header False s = (Inr b, t)"
  obtains a es ds where "t = s" "has_scope who ''case.read''" "run_of_tenant (api_db s) rid (id_tenant_id who)"
    "list_all2 (\<lambda>r e. row_to_event r = Inr e) (take 1000 (sort_key re_sequence
       (filter (\<lambda>r. re_run_id r = rid \<and> a < re_sequence r) (tb_events (api_db s))))) es"
    "list_all2 (\<lambda>e d. event_dump (pv_time_text E) e = Inr d) es ds"
    "b = PDict [(''run_id'', PStr rid), (''after_sequence'', PInt a), (''events'', PList (map PDict ds))]"
    "header = None \<or> n \<noteq> 0 \<Longrightarrow> a = n"
proof -
  let ?tn = "id_tenant_id who"
  from assms obtain a v es ds where scope: "require_scopes who [''case.read''] = Inr ()"
    and a: "resume_point rid ?tn n header s = (Inr a, v)"
    and es: "or_404 (on_repo (list_events rid ?tn a 1000)) v = (Inr es, t)"
    and ds: "event_payload E es = Inr ds"
    and b: "b = PDict [(''run_id'', PStr rid), (''after_sequence'', PInt a), (''events'', PList (map PDict ds))]"
    unfolding run_events_def Let_def
    by (elim then_okE bind_okE) (auto simp: lift_ok ret_ok or_404_ok dest!: reads_keep(1))
  from resume_point_state [OF a] have v: "v = s" .
  from es v obtain d where "list_events rid ?tn a 1000 (ai_repo s) = (Inr es, d)" "t = s\<lparr>ai_repo := d\<rparr>"
    by (auto simp: or_404_ok on_repo_ok)
  moreover from ds have "list_all2 (\<lambda>e d. event_dump (pv_time_text E) e = Inr d) es ds"
    by (simp add: event_payload_def all_results_ok list_all2_map1)
  moreover have "header = None \<or> n \<noteq> 0 \<Longrightarrow> a = n"
    using a by (auto simp: resume_point_def ret_ok split: option.splits)
  moreover have "has_scope who ''case.read''" using scope by (simp add: require_one split: if_splits)
  ultimately show thesis using b by (intro that [of a es ds]) (auto simp: list_events_ok)
qed

text \<open>The event route replays what is stored after the resume point: it changes nothing, needs the
  scope and a run of the caller's tenant, and its events are the first thousand stored events of the
  run with a larger sequence, in the order of their sequence. The default resume point is 0, and
  the first event of every run has sequence 0: a replay from the start leaves it out.\<close>

theorem replay_leaves_first_event_out:
  assumes "run_events E who rid 0 None False s = (Inr b, t)"
  shows "t = s \<and> has_scope who ''case.read'' \<and> run_of_tenant (api_db s) rid (id_tenant_id who) \<and>
    (\<exists>ds. b = PDict [(''run_id'', PStr rid), (''after_sequence'', PInt 0), (''events'', PList (map PDict ds))] \<and>
      map (\<lambda>d. dget_none d ''sequence'') ds = map (\<lambda>r. PInt (re_sequence r)) (take 1000 (sort_key re_sequence
        (filter (\<lambda>r. re_run_id r = rid \<and> 0 < re_sequence r) (tb_events (api_db s)))))) \<and>
    (sequences_of d rid = [] \<longrightarrow> next_sequence_in d rid = 0)"
  using assms
proof (cases rule: run_events_ok)
  case (1 a es ds)
  let ?rows = "take 1000 (sort_key re_sequence (filter (\<lambda>r. re_run_id r = rid \<and> 0 < re_sequence r) (tb_events (api_db s))))"
  have a: "a = 0" by (rule 1(7)) simp
  have "map ev_sequence es = map re_sequence ?rows"
    using 1(4) unfolding a by (induction rule: list_all2_induct) (auto dest: row_to_event_sequence)
  moreover have "map (\<lambda>d. dget_none d ''sequence'') ds = map PInt (map ev_sequence es)"
    using 1(5) by (induction rule: list_all2_induct) (auto simp: event_dump_def split: if_splits)
  ultimately have "map (\<lambda>d. dget_none d ''sequence'') ds = map (\<lambda>r. PInt (re_sequence r)) ?rows"
    by (simp only: map_map comp_def)
  with 1(1-3) 1(6) a have "t = s \<and> has_scope who ''case.read'' \<and> run_of_tenant (api_db s) rid (id_tenant_id who) \<and>
      (\<exists>ds. b = PDict [(''run_id'', PStr rid), (''after_sequence'', PInt 0), (''events'', PList (map PDict ds))] \<and>
      map (\<lambda>d. dget_none d ''sequence'') ds = map (\<lambda>r. PInt (re_sequence r)) ?rows)" by blast
  then show ?thesis by (simp add: next_sequence_in_def)
qed

end
