(* ===== verification/ApiInv.thy ===== *)
theory ApiInv
  imports ApiProps
begin

text \<open>
  What holds of every state a process of the gateway reaches, by its requests, its background tasks
  and the writes of other processes.
\<close>

section \<open>Reachable states\<close>

inductive reachable :: "api_env \<Rightarrow> api \<Rightarrow> bool" for E :: api_env where
  start: "api_db s = empty_db \<Longrightarrow> RUN_STATES s = [] \<Longrightarrow> DECIDE_IDEMPOTENCY s = [] \<Longrightarrow>
     ai_background s = [] \<Longrightarrow> reachable E s"
| request: "reachable E s \<Longrightarrow> strip (id_tenant_id who) = id_tenant_id who \<Longrightarrow> serve E who c s = (r, t) \<Longrightarrow>
     reachable E t"
| background: "reachable E s \<Longrightarrow> background_task E s = (r, t) \<Longrightarrow> reachable E t"
| elsewhere: "reachable E s \<Longrightarrow> db_steps UNIV (api_db s) d \<Longrightarrow> reachable E (s\<lparr>ai_repo := (ai_repo s)\<lparr>rp_db := d\<rparr>\<rparr>)"

section \<open>The invariant\<close>

definition scheduled :: "db \<Rightarrow> string \<times> string \<Rightarrow> bool" where
  "scheduled d = (\<lambda>(rid, tn). strip tn = tn \<and> run_of_tenant d rid tn)"

definition outcome_stored :: "db \<Rightarrow> string \<times> string \<Rightarrow> pydict \<Rightarrow> bool" where
  "outcome_stored d k res = (\<exists>row by. find_approval d (fst k) = Some row \<and>
     av_decision row \<in> {''approved'', ''rejected''} \<and> dget_none res ''decision'' = PStr (av_decision row) \<and>
     av_approver row = Some by \<and> dget_none res ''approver'' = PStr by)"

definition gateway_inv :: "api \<Rightarrow> bool" where
  "gateway_inv s = (db_inv (api_db s) \<and> (\<forall>task \<in> set (ai_background s). scheduled (api_db s) task) \<and>
     (\<forall>rid st. map_of (RUN_STATES s) rid = Some st \<longrightarrow> (\<exists>tn. run_of_tenant (api_db s) rid tn)) \<and>
     (\<forall>k res. map_of (DECIDE_IDEMPOTENCY s) k = Some res \<longrightarrow> outcome_stored (api_db s) k res))"

lemma outcome_stays: "db_steps UNIV d d' \<Longrightarrow> outcome_stored d k res \<Longrightarrow> outcome_stored d' k res"
  using growing.history unfolding outcome_stored_def grows_def decisions_stay_def by fastforce

lemma scheduled_stays: "db_steps T d d' \<Longrightarrow> scheduled d task \<Longrightarrow> scheduled d' task"
  unfolding scheduled_def by (auto dest: db_steps_run_of_tenant)

text \<open>Whatever was scheduled, cached or decided stays so; a step answers for what it adds.\<close>

lemma inv_step:
  assumes "gateway_inv s" and "db_steps UNIV (api_db s) (api_db t)"
    and "\<And>task. task \<in> set (ai_background t) \<Longrightarrow> task \<in> set (ai_background s) \<or> scheduled (api_db t) task"
    and "\<And>k. map_of (RUN_STATES t) k \<noteq> map_of (RUN_STATES s) k \<Longrightarrow> \<exists>tn. run_of_tenant (api_db t) k tn"
    and "\<And>k res. map_of (DECIDE_IDEMPOTENCY t) k = Some res \<Longrightarrow>
      map_of (DECIDE_IDEMPOTENCY s) k = Some res \<or> outcome_stored (api_db t) k res"
  shows "gateway_inv t"
proof -
  have "db_inv (api_db t)" using integrity.history [OF assms(2)] assms(1) by (simp add: gateway_inv_def)
  moreover have "scheduled (api_db t) task" if "task \<in> set (ai_background t)" for task
    using assms(3) [OF that] scheduled_stays [OF assms(2)] assms(1) unfolding gateway_inv_def by blast
  moreover have "\<exists>tn. run_of_tenant (api_db t) k tn" if "map_of (RUN_STATES t) k = Some st" for k st
    using assms(1,4) that db_steps_run_of_tenant [OF assms(2)] unfolding gateway_inv_def by metis
  moreover have "outcome_stored (api_db t) k res" if "map_of (DECIDE_IDEMPOTENCY t) k = Some res" for k res
    using assms(5) [OF that] outcome_stays [OF assms(2)] assms(1) unfolding gateway_inv_def by blast
  ultimately show ?thesis by (auto simp: gateway_inv_def)
qed

interpretation outcomes: cancelling_relation "\<lambda>s t. DECIDE_IDEMPOTENCY t = DECIDE_IDEMPOTENCY s" E T rid tenant for E T rid tenant
  by unfold_locales simp_all

interpretation outcomes: creating_relation "\<lambda>s t. DECIDE_IDEMPOTENCY t = DECIDE_IDEMPOTENCY s" E T rid tenant for E T rid tenant
  by unfold_locales simp_all

interpretation schedule: cancelling_relation "\<lambda>s t. ai_background t = ai_background s" E T rid tenant for E T rid tenant
  by unfold_locales simp_all

interpretation schedule: deciding_relation "\<lambda>s t. ai_background t = ai_background s" E T rid tenant for E T rid tenant
  by unfold_locales simp_all

lemma cancel_inv:
  assumes "gateway_inv s" and "sound E UNIV (id_tenant_id who)" and "cancel_run E who rid s = (r, t)"
  shows "gateway_inv t"
proof (cases "run_of_tenant (api_db s) rid (id_tenant_id who)")
  case True
  have steps: "db_steps UNIV (api_db s) (api_db t)"
    using obeys_eq [OF history.g_cancel [OF refl, where T = UNIV] assms(3)] assms(2) by simp
  show ?thesis
  proof (rule inv_step [OF assms(1) steps])
    show "\<exists>tn. run_of_tenant (api_db t) k tn" if "map_of (RUN_STATES t) k \<noteq> map_of (RUN_STATES s) k" for k
      using that obeys_eq [OF other_runs.g_cancel [OF refl] assms(3)] db_steps_run_of_tenant [OF steps True]
      by (auto simp: same_states_def)
  qed (use obeys_eq [OF schedule.g_cancel [OF refl] assms(3)] obeys_eq [OF outcomes.g_cancel [OF refl] assms(3)] in simp_all)
next
  case False
  from cancel_foreign [OF this, of E] assms(1,3) show ?thesis by auto
qed

text \<open>A decision enters the cache only when it is stored and answered.\<close>

definition fails_quietly :: "(api, 'a) em \<Rightarrow> bool" where
  "fails_quietly m = (\<forall>s e t. m s = (Inl e, t) \<longrightarrow> DECIDE_IDEMPOTENCY t = DECIDE_IDEMPOTENCY s)"

lemma fails_bind:
  assumes "obeys (\<lambda>s t. DECIDE_IDEMPOTENCY t = DECIDE_IDEMPOTENCY s) m" and "\<And>x. fails_quietly (f x)"
  shows "fails_quietly (ebind m f)"
  unfolding fails_quietly_def
proof (intro allI impI)
  fix s e t
  assume "ebind m f s = (Inl e, t)"
  then show "DECIDE_IDEMPOTENCY t = DECIDE_IDEMPOTENCY s"
  proof (cases rule: bind_cases)
    case (raised e')
    then show ?thesis using obeys_eq [OF assms(1)] by blast
  next
    case (went_on x u)
    from assms(2) [of x] went_on(2) have "DECIDE_IDEMPOTENCY t = DECIDE_IDEMPOTENCY u" by (simp add: fails_quietly_def)
    with obeys_eq [OF assms(1) went_on(1)] show ?thesis by simp
  qed
qed

lemma fails_then:
  "obeys (\<lambda>s t. DECIDE_IDEMPOTENCY t = DECIDE_IDEMPOTENCY s) m \<Longrightarrow> fails_quietly n \<Longrightarrow> fails_quietly (ethen m n)"
  unfolding ethen_def by (rule fails_bind)

lemma suppress_all_returns: "\<exists>t. suppress_all m s = (Inr (), t)"
proof -
  obtain r t where "m s = (r, t)" by fastforce
  then show ?thesis by (cases r) (simp_all add: suppress_def run_try run_then run_ret)
qed

lemma maybe_resume_returns: "\<exists>t. maybe_resume E rid tn decision s = (Inr (), t)"
  unfolding maybe_resume_def run_bind run_get
  by (simp add: suppress_all_returns run_ret split: option.split)

lemma fails_last: "fails_quietly (ethen (emod f) (ethen (maybe_resume E rid tn decision) (eret b)))"
proof -
  have "\<exists>t. ethen (emod f) (ethen (maybe_resume E rid tn decision) (eret b)) s = (Inr b, t)" for s
    using maybe_resume_returns [of E rid tn decision "f s"] by (auto simp: run_then run_mod run_ret)
  then show ?thesis unfolding fails_quietly_def by (metis prod.inject sum.distinct(1))
qed

lemma repo_keeps: "obeys (\<lambda>s t. DECIDE_IDEMPOTENCY t = DECIDE_IDEMPOTENCY s) (on_repo m)"
  by (rule obeysI) (simp add: on_repo_def split: prod.splits)

lemma decide_stored_fails: "fails_quietly (decide_stored E who rid aid body key)"
  unfolding decide_stored_def decide_errors_def Let_def
  by (rule fails_then [OF _ fails_bind [OF _ fails_then [OF _ fails_then [OF _ fails_last]]]])
    (intro outcomes.obeys_intros outcomes.r_or_404 outcomes.r_suppress repo_keeps)+

lemma decide_stored_outcomes:
  assumes "decide_stored E who rid aid body key s = (r, t)"
  shows "DECIDE_IDEMPOTENCY t = DECIDE_IDEMPOTENCY s \<or> (\<exists>b. r = Inr b \<and>
    DECIDE_IDEMPOTENCY t = AList.update (aid, key) (decision_result aid rid body) (DECIDE_IDEMPOTENCY s))"
proof (cases r)
  case (Inr b)
  with assms have "decide_stored E who rid aid body key s = (Inr b, t)" by simp
  then show ?thesis
  proof (cases rule: decide_stored_ok)
    case (1 a u v w)
    have "obeys (\<lambda>s t. DECIDE_IDEMPOTENCY t = DECIDE_IDEMPOTENCY s)
        (suppress expected_error (on_repo (append_next_event (pv_repo_env E) (api_event rid (id_tenant_id who)
          APPROVAL_RECEIVED [(''approval_id'', PStr aid), (''decision'', PStr (dr_decision body)),
            (''approver'', PStr (dr_approver body))]))))"
      by (intro outcomes.r_suppress outcomes.r_append) (simp add: api_event_def)
    from obeys_eq [OF this 1(5)] obeys_eq [OF outcomes.r_resume 1(6)] Inr show ?thesis by (simp add: 1(4))
  qed
next
  case (Inl e)
  with assms decide_stored_fails [of E who rid aid body key] show ?thesis by (auto simp: fails_quietly_def)
qed

lemma decide_outcomes:
  assumes "decide E who rid aid body key s = (r, t)"
  shows "DECIDE_IDEMPOTENCY t = DECIDE_IDEMPOTENCY s \<or> (\<exists>b k. decide_stored E who rid aid body k s = (Inr b, t) \<and>
    DECIDE_IDEMPOTENCY t = AList.update (aid, k) (decision_result aid rid body) (DECIDE_IDEMPOTENCY s))"
proof -
  from assms have "t = s \<or> (\<exists>k. decide_stored E who rid aid body k s = (r, t))"
    unfolding decide_def Let_def by (auto simp: run_simps split: sum.splits option.splits if_splits)
  then show ?thesis using decide_stored_outcomes by blast
qed

lemma decide_inv:
  assumes "gateway_inv s" and "sound E UNIV (id_tenant_id who)" and "decide E who rid aid body key s = (r, t)"
  shows "gateway_inv t"
proof (cases "run_of_tenant (api_db s) rid (id_tenant_id who)")
  case True
  have steps: "db_steps UNIV (api_db s) (api_db t)"
    using obeys_eq [OF history.g_decide [OF refl, where T = UNIV] assms(3)] assms(2) by simp
  show ?thesis
  proof (rule inv_step [OF assms(1) steps])
    show "\<exists>tn. run_of_tenant (api_db t) k tn" if "map_of (RUN_STATES t) k \<noteq> map_of (RUN_STATES s) k" for k
      using that obeys_eq [OF other_runs.g_decide [OF refl] assms(3)] db_steps_run_of_tenant [OF steps True]
      by (auto simp: same_states_def)
    show "map_of (DECIDE_IDEMPOTENCY s) k = Some res \<or> outcome_stored (api_db t) k res"
      if "map_of (DECIDE_IDEMPOTENCY t) k = Some res" for k res
      using decide_outcomes [OF assms(3)]
    proof (elim disjE exE conjE)
      fix b i
      assume st: "decide_stored E who rid aid body i s = (Inr b, t)"
        and d: "DECIDE_IDEMPOTENCY t = AList.update (aid, i) (decision_result aid rid body) (DECIDE_IDEMPOTENCY s)"
      from decide_stored_records [OF st assms(2)] obtain row where "find_approval (api_db t) aid = Some row"
        "av_decision row = dr_decision body" "dr_decision body \<in> {''approved'', ''rejected''}"
        "av_approver row = Some (dr_approver body)" by blast
      then have "outcome_stored (api_db t) (aid, i) (decision_result aid rid body)"
        by (simp add: outcome_stored_def decision_result_def)
      with d that show ?thesis by (auto simp: update_conv split: if_splits)
    qed (use that in simp)
  qed (use obeys_eq [OF schedule.g_decide [OF refl] assms(3)] in simp)
next
  case False
  from decide_foreign [OF this, of E aid body key] assms(1,3) show ?thesis by simp
qed

text \<open>What a created run is scheduled with.\<close>

definition schedules :: "string \<times> string \<Rightarrow> api \<Rightarrow> api \<Rightarrow> bool" where
  "schedules task s t = (set (ai_background t) \<subseteq> insert task (set (ai_background s)))"

interpretation schedules: run_relation "schedules (rid, tenant)" E T rid tenant for E T rid tenant
  by unfold_locales (auto simp: schedules_def)

lemma start_schedules: "obeys (schedules (rid, tn)) (start_run E rid tn body)"
  unfolding start_run_def
  by (intro schedules.r_intros schedules.r_append schedules.obeys_mod) (auto simp: api_event_def schedules_def)

lemma create_inv:
  assumes "gateway_inv s" and "sound E UNIV (id_tenant_id who)" and "create_run_route E who body key s = (r, t)"
  shows "gateway_inv t"
proof -
  have steps: "db_steps UNIV (api_db s) (api_db t)"
    using obeys_eq [OF history.g_create [OF refl history.g_start, where T = UNIV] assms(3)] assms(2) by simp
  have outcomes: "DECIDE_IDEMPOTENCY t = DECIDE_IDEMPOTENCY s"
    using obeys_eq [OF outcomes.g_create [OF refl outcomes.g_start] assms(3)] .
  show ?thesis
    using assms(3)
  proof (cases rule: create_route_cases)
    case stopped
    with outcomes show ?thesis by (intro inv_step [OF assms(1) steps]) simp_all
  next
    case (started u row v)
    from started(3) obtain d where d: "create_run (pv_repo_env E) (row_of_request who body key (rn_id row)) (ai_repo v) = (Inr row, d)"
      "ai_repo u = d" by (auto simp: on_repo_ok)
    have uk: "unique_keys (api_db v)" using assms(1) started(4) by (simp add: gateway_inv_def db_inv_def)
    have tn: "nr_tenant_id (row_of_request who body key (rn_id row)) = id_tenant_id who" by (simp add: row_of_request_def)
    have "db_steps UNIV (api_db u) (api_db t)"
      using obeys_eq [OF history.g_start [where T = UNIV] started(2)] assms(2) by simp
    from db_steps_run_of_tenant [OF this] create_run_own [OF d(1) uk, unfolded tn] d(2)
    have own: "run_of_tenant (api_db t) (rn_id row) (id_tenant_id who)" by simp
    have trim: "strip (id_tenant_id who) = id_tenant_id who" using assms(2) by (simp add: sound_def)
    show ?thesis
    proof (rule inv_step [OF assms(1) steps])
      show "task \<in> set (ai_background s) \<or> scheduled (api_db t) task" if "task \<in> set (ai_background t)" for task
        using that obeys_eq [OF start_schedules started(2)] own trim started(5)
        by (auto simp: schedules_def scheduled_def)
      show "\<exists>tn. run_of_tenant (api_db t) k tn" if "map_of (RUN_STATES t) k \<noteq> map_of (RUN_STATES s) k" for k
      proof -
        from that obeys_eq [OF other_runs.g_start started(2)] started(1) have "k = rn_id row"
          by (auto simp: same_states_def)
        with own show ?thesis by auto
      qed
    qed (simp add: outcomes)
  qed
qed

lemma endpoint_inv:
  assumes "gateway_inv s" and "sound E UNIV (id_tenant_id who)" and "endpoint E who c s = (r, t)"
  shows "gateway_inv t"
proof -
  have reads: "obeys (keeps (\<lambda>s. s)) m \<Longrightarrow> m s = (r, t) \<Longrightarrow> ?thesis" for m :: "(api, pyval) em"
    by (drule (1) obeys_eq) (simp add: keeps_def assms(1))
  show ?thesis
    using assms(3)
    by (cases c) (simp_all only: endpoint.simps create_inv [OF assms(1,2)] cancel_inv [OF assms(1,2)]
        decide_inv [OF assms(1,2)] reads [OF reads_unchanged(1)] reads [OF reads_unchanged(2)]
        reads [OF reads_unchanged(3)])
qed

lemma background_inv:
  assumes "gateway_inv s" and "others_within (pv_repo_env E) UNIV" and "background_task E s = (r, t)"
  shows "gateway_inv t"
proof (cases "ai_background s")
  case Nil
  with assms(1,3) show ?thesis by (simp add: background_task_def run_simps)
next
  case (Cons task rest)
  obtain rid tn where task: "task = (rid, tn)" by fastforce
  let ?s = "s\<lparr>ai_background := rest\<rparr>"
  from assms(3) Cons task have e: "execute_run E rid tn ?s = (r, t)" by (simp add: background_task_def run_simps)
  from assms(1) Cons task have own: "strip tn = tn" "run_of_tenant (api_db s) rid tn"
    by (auto simp: gateway_inv_def scheduled_def)
  have "gateway_inv ?s" using assms(1) Cons by (auto simp: gateway_inv_def)
  moreover have steps: "db_steps UNIV (api_db ?s) (api_db t)"
    using obeys_eq [OF history.r_execute [where T = UNIV] e] own(1) assms(2) by (simp add: sound_def)
  ultimately show ?thesis
  proof (rule inv_step)
    show "\<exists>tn. run_of_tenant (api_db t) k tn" if "map_of (RUN_STATES t) k \<noteq> map_of (RUN_STATES ?s) k" for k
    proof -
      from that obeys_eq [OF other_runs.r_execute e] have "k = rid" by (auto simp: same_states_def)
      with db_steps_run_of_tenant [OF steps, of rid tn] own(2) show ?thesis by auto
    qed
  qed (use obeys_eq [OF caches.r_execute e] in \<open>simp_all add: same_caches_def\<close>)
qed

text \<open>C6. What holds of every state a gateway process reaches, from an empty database, by any sequence of
  requests, background tasks and writes of other processes: the database has its integrity, every
  scheduled execution and every cached run state is of a stored run, the scheduled one under the tenant
  of that run, and every cached outcome of a decision is the decision and the approver that the
  approval carries in the database.\<close>

theorem gateway_invariant:
  assumes "reachable E s" and "others_within (pv_repo_env E) UNIV"
  shows "gateway_inv s"
  using assms(1)
proof (induction rule: reachable.induct)
  case (start s)
  have "db_inv empty_db" by (simp add: db_inv_def unique_keys_def referential_def empty_db_def)
  with start show ?case by (simp add: gateway_inv_def)
next
  case (request s who c r t)
  from request(3) obtain r' where e: "endpoint E who c s = (r', t)" unfolding serve_def by (blast dest: respond_run)
  have "sound E UNIV (id_tenant_id who)" using request(2) assms(2) by (simp add: sound_def)
  from endpoint_inv [OF request(4) this e] show ?case .
next
  case (background s r t)
  from background_inv [OF background(3) assms(2) background(2)] show ?case .
next
  case (elsewhere s d)
  show ?case by (rule inv_step [OF elsewhere(3)]) (use elsewhere(2) in auto)
qed

end
