(* ===== verification/RepoChecks.thy ===== *)
theory RepoChecks
  imports RepoProps
begin

text \<open>
  Round trips and idempotence of the repository, what its audit rows hold, the places where it
  departs from its documentation, and the evaluation of the model on a small database of two
  tenants.
\<close>

section \<open>Facts\<close>

lemma EventType_roundtrip: "EventType_of (EventType_value ty) = Inr ty"
  by (cases ty) (simp_all add: EventType_of_def all_EventType_def)

lemma ApprovalDecision_roundtrip: "ApprovalDecision_of (ApprovalDecision_value x) = Inr x"
  by (cases x) (simp_all add: ApprovalDecision_of_def all_ApprovalDecision_def)

lemma event_row_roundtrip: "validate_AgentEvent e = Inr e \<Longrightarrow> row_to_event (event_row e) = Inr e"
  by (cases e) (simp add: row_to_event_def event_row_def EventType_roundtrip)

lemma approval_row_roundtrip: "validate_Approval a = Inr a \<Longrightarrow> row_to_approval (approval_row a) = Inr a"
  by (cases a) (simp add: row_to_approval_def approval_row_def ApprovalDecision_roundtrip)

text \<open>The least element of a table by a key, when it is the only one with its key.\<close>

lemma take_sort_key:
  assumes "x \<in> set xs" and "\<And>y. y \<in> set xs \<Longrightarrow> f x \<le> f y" and "\<And>y. y \<in> set xs \<Longrightarrow> f y = f x \<Longrightarrow> y = x"
  shows "take 1 (sort_key f xs) = [x]"
proof -
  obtain y ys where y: "sort_key f xs = y # ys"
    using assms(1) by (cases "sort_key f xs") (auto simp flip: set_sort [of f xs])
  have "sorted (map f (y # ys))" unfolding y [symmetric] by (rule sorted_sort_key)
  then have "f y \<le> f z" if "z \<in> set (y # ys)" for z using that by auto
  moreover have s: "set (y # ys) = set xs" unfolding y [symmetric] by simp
  ultimately have "f y \<le> f x" using assms(1) by blast
  moreover have "y \<in> set xs" using s by auto
  ultimately have "y = x" using assms(2,3) by (meson order.antisym)
  with y show ?thesis by simp
qed

lemma find_append_event:
  "find (\<lambda>r. re_event_id r = k) rs = None \<Longrightarrow> re_event_id row = k \<Longrightarrow>
   find (\<lambda>r. re_event_id r = k) (rs @ [row]) = Some row"
  by (simp add: find_append_new)

lemma append_event_replay:
  assumes "append_event ev s = (Inr e, t)" and "validate_AgentEvent ev = Inr ev"
  shows "append_event ev t = (Inr e, t)"
proof -
  have ok: "\<not> (ev_sensitive ev \<and> ev_safe_for_ui ev)" using assms(1) unfolding append_event_def guarded_ok by blast
  have run: "run_of_tenant (rp_db s) (ev_run_id ev) (ev_tenant_id ev)"
    using assms(1) unfolding append_event_def guarded_ok by (elim conjE then_okE) (auto simp: repo_ok run_of_tenant_def)
  have again: "append_event ev u = (Inr e, u)"
    if "run_of_tenant (rp_db u) (ev_run_id ev) (ev_tenant_id ev)"
      "find (\<lambda>r. re_event_id r = ev_event_id ev) (tb_events (rp_db u)) = Some d" "row_to_event d = Inr e" for u d
    using that ok unfolding append_event_def guarded_ok run_of_tenant_get by (auto simp: run_simps transaction_def)
  from assms(1) show ?thesis
  proof (cases rule: append_event_ok)
    case (dup d)
    with again [of s d] run show ?thesis by simp
  next
    case new
    have "find (\<lambda>r. re_event_id r = ev_event_id ev) (tb_events (rp_db t)) = Some (event_row ev)"
      using new by (simp add: find_append_new event_row_def)
    moreover have "run_of_tenant (rp_db t) (ev_run_id ev) (ev_tenant_id ev)"
      using new by (simp add: run_of_tenant_def find_run_def)
    ultimately show ?thesis using again [of t "event_row ev"] event_row_roundtrip [OF assms(2)] new by simp
  qed
qed

lemma append_event_listed:
  assumes "append_event ev s = (Inr ev, t)" and "validate_AgentEvent ev = Inr ev" and "unique_keys (rp_db s)"
    and "find (\<lambda>r. re_event_id r = ev_event_id ev) (tb_events (rp_db s)) = None"
  shows "list_events (ev_run_id ev) (ev_tenant_id ev) (ev_sequence ev - 1) 1 t = (Inr [ev], t)"
  using assms(1)
proof (cases rule: append_event_ok)
  case (dup d)
  with assms(4) show ?thesis by simp
next
  case new
  let ?f = "filter (\<lambda>r. re_run_id r = ev_run_id ev \<and> ev_sequence ev - 1 < re_sequence r) (tb_events (rp_db t))"
  have ids: "re_run_id (event_row ev) = ev_run_id ev" "re_sequence (event_row ev) = ev_sequence ev"
    by (simp_all add: event_row_def)
  have t: "tb_events (rp_db t) = tb_events (rp_db s) @ [event_row ev]" using new by simp
  have "take 1 (sort_key re_sequence ?f) = [event_row ev]"
  proof (rule take_sort_key)
    show "event_row ev \<in> set ?f" using t ids by simp
    show "re_sequence (event_row ev) \<le> re_sequence y" if "y \<in> set ?f" for y using that ids by auto
    show "y = event_row ev" if "y \<in> set ?f" "re_sequence y = re_sequence (event_row ev)" for y
      using that ids t new(3) by (auto simp: event_collides_def list_ex_iff)
  qed
  moreover have "run_of_tenant (rp_db t) (ev_run_id ev) (ev_tenant_id ev)"
    using new by (simp add: run_of_tenant_def find_run_def)
  then obtain row where "get_run_row (ev_run_id ev) (ev_tenant_id ev) t = (Inr row, t)"
    unfolding run_of_tenant_get by blast
  ultimately show ?thesis
    by (simp add: list_events_def run_simps all_results_def event_row_roundtrip [OF assms(2)])
qed

section \<open>A small database\<close>

definition pending_rollback :: pyexc where
  "pending_rollback = PyExc EOther ''PendingRollbackError''
     ''This Session's transaction has been rolled back due to a previous exception during flush.'' []"

definition quiet_env :: repo_env where
  "quiet_env = \<lparr>rv_py = plain_env, rv_clock = (\<lambda>n. int n), rv_uuid_hex = nat_str,
     rv_redact = redact_dict, rv_others = (\<lambda>_ d. d),
     rv_commit_after_failed_flush = Inl pending_rollback\<rparr>"

definition run_row :: "string \<Rightarrow> string \<Rightarrow> RunRow" where
  "run_row run tn = \<lparr>rn_id = run, rn_tenant_id = tn, rn_created_by = ''user'', rn_objective = ''o'',
     rn_status = ''created'', rn_current_state = ''created'', rn_budget_json = [],
     rn_idempotency_key = Some ''key'', rn_trace_id = None, rn_correlation_id = None,
     rn_created_at = 0, rn_updated_at = 0, rn_completed_at = None\<rparr>"

definition demo_approval :: Approval where
  "demo_approval = \<lparr>ap_approval_id = ''appr_1'', ap_run_id = ''run_1'', ap_tenant_id = ''tenant_a'',
     ap_action_id = ''act_1'', ap_requested_by = ''agent'', ap_approver = None, ap_decision = PENDING,
     ap_reason = None, ap_requested_at = 0, ap_decided_at = None, ap_expires_at = Some 5,
     ap_trace_id = None, ap_correlation_id = None\<rparr>"

definition demo_event :: "string \<Rightarrow> string \<Rightarrow> string \<Rightarrow> int \<Rightarrow> AgentEvent" where
  "demo_event k run tn seq = \<lparr>ev_event_id = k, ev_run_id = run, ev_tenant_id = tn, ev_sequence = seq,
     ev_type = MESSAGE_DELTA, ev_timestamp = 0, ev_data = [(''token'', PStr ''hunter2'')],
     ev_trace_id = None, ev_correlation_id = None, ev_sensitive = False, ev_safe_for_ui = False\<rparr>"

definition demo_db :: db where
  "demo_db = empty_db\<lparr>
     tb_tenants := [\<lparr>tn_id = ''tenant_a'', tn_name = ''tenant_a'', tn_created_at = 0\<rparr>,
                    \<lparr>tn_id = ''tenant_b'', tn_name = ''tenant_b'', tn_created_at = 0\<rparr>],
     tb_runs := [run_row ''run_1'' ''tenant_a'', run_row ''run_2'' ''tenant_b''],
     tb_events := [event_row (demo_event ''evt_b'' ''run_2'' ''tenant_b'' 0)],
     tb_approvals := [approval_row demo_approval]\<rparr>"

definition demo_repo :: repo where
  "demo_repo = \<lparr>rp_db = demo_db, rp_ticks = 0\<rparr>"

definition next_delta :: new_event where
  "next_delta = \<lparr>ne_run_id = ''run_1'', ne_tenant_id = ''tenant_a'', ne_type = ''message.delta'',
     ne_data = [(''token'', PStr ''hunter2''), (''text'', PStr ''ok'')], ne_event_id = None,
     ne_trace_id = None, ne_correlation_id = None, ne_sensitive = False, ne_safe_for_ui = False\<rparr>"

lemma quiet_env_quiet: "quiet quiet_env"
  by (simp add: quiet_def quiet_env_def)

lemma quiet_env_others: "others_within quiet_env T"
  by (rule quiet_others [OF quiet_env_quiet])

lemma demo_inv: "db_inv demo_db"
proof -
  have "run_of_tenant demo_db ''run_1'' ''tenant_a''" "run_of_tenant demo_db ''run_2'' ''tenant_b''"
    by (simp_all add: run_of_tenant_def find_run_def demo_db_def run_row_def)
  then show ?thesis
    by (simp add: db_inv_def unique_keys_def referential_def demo_db_def empty_db_def run_row_def
        event_row_def demo_event_def approval_row_def demo_approval_def)
qed

lemma event_ok: "validate_AgentEvent (demo_event ''evt_1'' ''run_1'' ''tenant_a'' 0) =
    Inr (demo_event ''evt_1'' ''run_1'' ''tenant_a'' 0)"
  by code_simp

section \<open>Witnesses of the general properties\<close>

theorem tenant_isolation_witness:
  "own ''tenant_b'' (rp_db (snd (exec_op quiet_env (OAppendNextEvent next_delta) demo_repo))) =
   own ''tenant_b'' demo_db"
  using tenant_isolation [of demo_repo quiet_env "{}" "''tenant_b''" "OAppendNextEvent next_delta"
      "fst (exec_op quiet_env (OAppendNextEvent next_delta) demo_repo)"
      "snd (exec_op quiet_env (OAppendNextEvent next_delta) demo_repo)"]
    demo_inv quiet_env_others by (simp add: demo_repo_def next_delta_def)

theorem repository_integrity_witness:
  "db_inv (rp_db (snd (exec_op quiet_env (OAppendNextEvent next_delta) demo_repo)))"
  using repository_integrity [of quiet_env "OAppendNextEvent next_delta" demo_repo
      "fst (exec_op quiet_env (OAppendNextEvent next_delta) demo_repo)"
      "snd (exec_op quiet_env (OAppendNextEvent next_delta) demo_repo)"]
    demo_inv quiet_env_others by (simp add: demo_repo_def)


theorem failed_method_changes_nothing_witness:
  "rp_db (snd (exec_op quiet_env (OUpdateRun ''run_2'' ''tenant_a'' [F_status ''failed'']) demo_repo)) = demo_db"
proof -
  have "exec_op quiet_env (OUpdateRun ''run_2'' ''tenant_a'' [F_status ''failed'']) demo_repo =
      (Inl (NotFoundError ''run run_2 not found''), demo_repo)"
    by (simp add: update_run_def unknown_fields_def transaction_def run_simps get_run_row_def find_run_def
        demo_repo_def demo_db_def run_row_def void_def)
  from failed_method_changes_nothing [OF quiet_env_quiet this] show ?thesis
    by (simp add: demo_repo_def update_run_def unknown_fields_def transaction_def run_simps get_run_row_def find_run_def
        demo_db_def run_row_def void_def)
qed



section \<open>Round trips and idempotence\<close>



text \<open>An approval written is the approval read: after \<^verbatim>\<open>create_approval\<close> returns, \<^verbatim>\<open>get_approval\<close> gives
  the same approval to its tenant and not found to every other.\<close>

theorem approval_roundtrip:
  assumes "validate_Approval a = Inr a" and "create_approval a s = (Inr a', t)"
  shows "get_approval (ap_approval_id a) u t =
    (if u = ap_tenant_id a then Inr a
     else Inl (NotFoundError (''approval '' @ ap_approval_id a @ '' not found'')), t)"
proof -
  from assms(2) have "find_approval (rp_db s) (ap_approval_id a) = None"
    and t: "tb_approvals (rp_db t) = tb_approvals (rp_db s) @ [approval_row a]"
    unfolding create_approval_ok by simp_all
  then have "find_approval (rp_db t) (ap_approval_id a) = Some (approval_row a)"
    by (simp add: find_approval_def find_append_new approval_row_def)
  then show ?thesis using approval_row_roundtrip [OF assms(1)]
    by (simp add: get_approval_def get_approval_row_def run_simps approval_row_def)
qed

theorem approval_roundtrip_witness:
  "\<exists>t. get_approval ''appr_2'' ''tenant_a'' t = (Inr (demo_approval\<lparr>ap_approval_id := ''appr_2''\<rparr>), t)"
proof -
  let ?a = "demo_approval\<lparr>ap_approval_id := ''appr_2''\<rparr>"
  have "fst (create_approval ?a demo_repo) = Inr ?a" by code_simp
  then obtain t where "create_approval ?a demo_repo = (Inr ?a, t)" by (metis prod.collapse)
  moreover have "validate_Approval ?a = Inr ?a" by code_simp
  ultimately have "get_approval (ap_approval_id ?a) ''tenant_a'' t =
      (if ''tenant_a'' = ap_tenant_id ?a then Inr ?a
       else Inl (NotFoundError (''approval '' @ ap_approval_id ?a @ '' not found'')), t)"
    by (intro approval_roundtrip)
  then show ?thesis by (intro exI [of _ t]) (simp add: demo_approval_def)
qed

text \<open>A run created under an idempotency key is found again under it.\<close>

lemma create_run_found:
  assumes "create_run E n s = (Inr row, t)" and "given_key (nr_idempotency_key n)"
  shows "find (\<lambda>r. rn_tenant_id r = nr_tenant_id n \<and> rn_idempotency_key r = nr_idempotency_key n)
      (tb_runs (rp_db t)) = Some row"
    and "find (\<lambda>r. tn_id r = nr_tenant_id n) (tb_tenants (rp_db t)) \<noteq> None"
proof -
  let ?p = "\<lambda>r. rn_tenant_id r = nr_tenant_id n \<and> rn_idempotency_key r = nr_idempotency_key n"
  from assms obtain u v where e: "ensure_tenant_in E (nr_tenant_id n) [] s = (Inr u, v)"
    and c: "(case find ?p (tb_runs (rp_db v)) of Some existing \<Rightarrow> eret existing
         | None \<Rightarrow> if find_run (rp_db v) (nr_run_id n) \<noteq> None
             then eraise (ConflictError (''run '' @ nr_run_id n @ '' already exists''))
             else insert_run E n) v = (Inr row, t)"
    unfolding create_run_def transaction_ok by (elim then_okE bind_okE) (clarsimp simp: ok_simps)
  have "find ?p (tb_runs (rp_db t)) = Some row \<and> tb_tenants (rp_db t) = tb_tenants (rp_db v)"
  proof (cases "find ?p (tb_runs (rp_db v))")
    case (Some r)
    with c show ?thesis by (auto simp: ok_simps)
  next
    case None
    with c have "insert_run E n v = (Inr row, t)" by (auto simp: ok_simps split: if_splits)
    from insert_run_ok [OF this] None show ?thesis by (simp add: find_append_new)
  qed
  with ensure_tenant_in_steps(3) [OF e] show "find ?p (tb_runs (rp_db t)) = Some row"
    "find (\<lambda>r. tn_id r = nr_tenant_id n) (tb_tenants (rp_db t)) \<noteq> None" by simp_all
qed

text \<open>Creating a run is idempotent on the tenant and its idempotency key: once a call has returned a
  run, every later call of that tenant with that key returns the same run and changes nothing,
  whatever run identifier, objective or budget it carries.\<close>

theorem create_run_idempotent:
  assumes "create_run E n s = (Inr row, t)" and "given_key (nr_idempotency_key n)"
    and "nr_tenant_id m = nr_tenant_id n" and "nr_idempotency_key m = nr_idempotency_key n"
  shows "create_run E' m t = (Inr row, t)"
proof -
  note f = create_run_found [OF assms(1,2)]
  from f(2) assms(3) have "ensure_tenant_in E' (nr_tenant_id m) [] t = (Inr (), t)"
    by (auto simp: ensure_tenant_in_def run_simps)
  with f(1) assms(2-4) show ?thesis by (simp add: create_run_def transaction_def run_simps)
qed

definition keyed_run :: "string \<Rightarrow> new_run" where
  "keyed_run run = \<lparr>nr_run_id = run, nr_tenant_id = ''tenant_a'', nr_created_by = ''user'',
     nr_objective = ''Investigate'', nr_budget = [], nr_current_state = ''created'',
     nr_trace_id = None, nr_correlation_id = None, nr_idempotency_key = Some ''new-key''\<rparr>"

theorem create_run_idempotent_witness:
  "\<exists>row t. create_run quiet_env (keyed_run ''run_8'') t = (Inr row, t)"
proof -
  have "\<not> isl (fst (create_run quiet_env (keyed_run ''run_7'') demo_repo))" by code_simp
  then obtain row t where "create_run quiet_env (keyed_run ''run_7'') demo_repo = (Inr row, t)"
    by (metis prod.collapse sum.collapse(2))
  from create_run_idempotent [OF this, of "keyed_run ''run_8''" quiet_env] show ?thesis
    by (auto simp: keyed_run_def given_key_def)
qed

lemma run_checks_class: "run_checks cs x = Inl e \<Longrightarrow> exc_class e = EValue"
  by (auto simp: run_checks_def split: list.splits)

lemma status_class: "ToolInvocationStatus_of v = Inl e \<Longrightarrow> exc_class e = EValue"
  by (auto simp: ToolInvocationStatus_of_def split: option.splits)

lemma decision_class: "AuthorizationDecision_of v = Inl e \<Longrightarrow> exc_class e = EValue"
  by (auto simp: AuthorizationDecision_of_def split: option.splits)

lemma invocation_class: "validate_ToolInvocation i = Inl e \<Longrightarrow> exc_class e = EValue"
  unfolding validate_ToolInvocation_def Let_def by (rule run_checks_class)

lemma rbind_InlE:
  assumes "rbind m f = Inl e"
  obtains "m = Inl e" | x where "m = Inr x" "f x = Inl e"
  using assms by (cases m) auto

lemma validation_not_hook: "row_to_tool_invocation r = Inl e \<Longrightarrow> exc_class e = EValue"
  unfolding row_to_tool_invocation_def
  by (elim rbind_InlE) (auto simp: status_class invocation_class decision_class map_sum_def
      split: option.splits if_splits sum.splits)

text \<open>With the default hook the audit never fails to mask: recording a tool invocation stores under a
  fresh identifier only redacted payloads (no secret pattern in any text, nothing bare under a
  sensitive key) with the hash of the raw input, and the guard on the hook never fires.\<close>

theorem tool_audit_redacted:
  assumes "rv_redact E = redact_dict"
  shows "fst (record_tool_invocation E i ri ro s) \<noteq> Inl (RepositoryError ''redaction hook failed to mask secrets'') \<and>
    (\<forall>x t. record_tool_invocation E i ri ro s = (Inr x, t) \<and> rp_db t \<noteq> rp_db s \<longrightarrow>
      (\<exists>row. tb_invocations (rp_db t) = tb_invocations (rp_db s) @ [row] \<and>
         \<not> contains_bare_secret_marker (PDict (tv_redacted_input_json row)) \<and>
         list_all leaf_clean (str_leaves (PDict (tv_redacted_input_json row))) \<and>
         (\<forall>d. tv_redacted_output_json row = Some d \<longrightarrow> list_all leaf_clean (str_leaves (PDict d))) \<and>
         tv_input_hash row = hash_payload (rv_py E) (PDict (case ri of Some d \<Rightarrow> d | None \<Rightarrow> ti_redacted_input i))))"
proof -
  have rd: "PDict (redact_dict d) = default_redact (PDict d)" for d
    by (simp add: redact_dict_def default_redact_def)
  have "fst (record_tool_invocation E i ri ro s) \<noteq> Inl (RepositoryError ''redaction hook failed to mask secrets'')"
    using validation_not_hook
    by (fastforce simp: record_tool_invocation_def Let_def assms rd bare_walk_default
        transaction_def run_simps get_run_row_def modify_db_def split: option.splits if_splits sum.splits)
  moreover have "\<exists>row. tb_invocations (rp_db t) = tb_invocations (rp_db s) @ [row] \<and>
         \<not> contains_bare_secret_marker (PDict (tv_redacted_input_json row)) \<and>
         list_all leaf_clean (str_leaves (PDict (tv_redacted_input_json row))) \<and>
         (\<forall>d. tv_redacted_output_json row = Some d \<longrightarrow> list_all leaf_clean (str_leaves (PDict d))) \<and>
         tv_input_hash row = hash_payload (rv_py E) (PDict (case ri of Some d \<Rightarrow> d | None \<Rightarrow> ti_redacted_input i))"
    if "record_tool_invocation E i ri ro s = (Inr x, t)" "rp_db t \<noteq> rp_db s" for x t
    using that(1)
  proof (cases rule: record_tool_ok)
    case (dup d)
    with that(2) show ?thesis by simp
  next
    case (new src row)
    have clean: "list_all leaf_clean (str_leaves (PDict (redact_dict d)))" for d
      unfolding rd by (rule default_redact_clean)
    have cols: "tv_redacted_input_json row = redact_dict src" "tv_redacted_output_json row = map_option redact_dict ro"
      "tv_input_hash row = hash_payload (rv_py E) (PDict src)"
      using new(3) by (simp_all add: invocation_row_def assms)
    have "\<not> contains_bare_secret_marker (PDict (redact_dict src))" unfolding rd by (rule bare_walk_default)
    with new(1,8) cols clean show ?thesis by (intro exI [of _ row]) (auto simp del: str_leaves.simps)
  qed
  ultimately show ?thesis by blast
qed

definition demo_call :: ToolInvocation where
  "demo_call = \<lparr>ti_invocation_id = ''inv_1'', ti_run_id = ''run_1'', ti_tenant_id = ''tenant_a'',
     ti_tool_name = ''knowledge.search'', ti_tool_version = ''1.0.0'', ti_input_hash = ''h'',
     ti_redacted_input = [], ti_output_hash = None, ti_status = TI_PENDING,
     ti_authorization_decision = None, ti_idempotency_key = None, ti_dry_run = False,
     ti_started_at = 0, ti_completed_at = None, ti_trace_id = None, ti_correlation_id = None,
     ti_error = None\<rparr>"

theorem tool_audit_redacted_witness:
  "fst (record_tool_invocation quiet_env demo_call (Some [(''token'', PStr ''hunter2'')]) None demo_repo) \<noteq>
     Inl (RepositoryError ''redaction hook failed to mask secrets'')"
  using tool_audit_redacted [of quiet_env] by (simp add: quiet_env_def)

section \<open>Where the code departs from its documentation\<close>

text \<open>An expired approval is not recorded as expired: deciding it marks the row expired and raises
  inside the transaction, whose rollback takes the mark back, so the row stays pending.\<close>

theorem expired_decision_rolled_back:
  assumes "find_approval (rp_db s) k = Some row" and "av_tenant_id row = tn"
    and "av_decision row = ''pending''" and "av_expires_at row = Some x" and "x < rv_clock E (rp_ticks s)"
    and "dec \<in> {''approved'', ''rejected''}"
  shows "\<exists>t. decide_approval E k tn dec who why s = (Inl (ConflictError (''approval '' @ k @ '' expired'')), t) \<and>
    rp_db t = rp_db s \<and> find_approval (rp_db t) k = Some row"
proof -
  from assms have "fst (decide_approval E k tn dec who why s) = Inl (ConflictError (''approval '' @ k @ '' expired''))"
    by (auto simp: decide_approval_def transaction_def run_simps get_approval_row_def repo_now_def tick_def
        put_approval_def modify_db_def)
  then obtain t where t: "decide_approval E k tn dec who why s = (Inl (ConflictError (''approval '' @ k @ '' expired'')), t)"
    by (metis prod.collapse)
  with decide_approval_failed [OF t] assms(1) show ?thesis by auto
qed

theorem expired_decision_rolled_back_witness:
  "\<exists>t. decide_approval quiet_env ''appr_1'' ''tenant_a'' ''approved'' ''boss'' None (demo_repo\<lparr>rp_ticks := 9\<rparr>) =
     (Inl (ConflictError (''approval '' @ ''appr_1'' @ '' expired'')), t) \<and> rp_db t = demo_db"
  using expired_decision_rolled_back [of "demo_repo\<lparr>rp_ticks := 9\<rparr>" "''appr_1''" "approval_row demo_approval"
      "''tenant_a''" 5 quiet_env "''approved''" "''boss''" None]
  by (auto simp: demo_repo_def demo_db_def find_approval_def approval_row_def demo_approval_def quiet_env_def)

text \<open>The duplicate check of \<^verbatim>\<open>append_event\<close> looks through the events of every tenant: a caller whose
  event identifier is already used in another tenant's run is given that tenant's event.\<close>

theorem foreign_event_returned:
  assumes "run_of_tenant (rp_db s) (ev_run_id ev) (ev_tenant_id ev)" and "\<not> (ev_sensitive ev \<and> ev_safe_for_ui ev)"
    and "find (\<lambda>r. re_event_id r = ev_event_id ev) (tb_events (rp_db s)) = Some dup"
    and "re_tenant_id dup \<noteq> ev_tenant_id ev" and "row_to_event dup = Inr foreign"
  shows "append_event ev s = (Inr foreign, s)"
proof -
  from assms(1) obtain row where "get_run_row (ev_run_id ev) (ev_tenant_id ev) s = (Inr row, s)"
    unfolding run_of_tenant_get by blast
  with assms(2,3,5) show ?thesis by (simp add: append_event_def transaction_def run_simps)
qed

theorem foreign_event_returned_witness:
  "append_event (demo_event ''evt_b'' ''run_1'' ''tenant_a'' 0) demo_repo =
     (Inr (demo_event ''evt_b'' ''run_2'' ''tenant_b'' 0), demo_repo)"
proof (rule foreign_event_returned)
  show "run_of_tenant (rp_db demo_repo) (ev_run_id (demo_event ''evt_b'' ''run_1'' ''tenant_a'' 0))
      (ev_tenant_id (demo_event ''evt_b'' ''run_1'' ''tenant_a'' 0))"
    by (simp add: run_of_tenant_def find_run_def demo_repo_def demo_db_def run_row_def demo_event_def)
  show "row_to_event (event_row (demo_event ''evt_b'' ''run_2'' ''tenant_b'' 0)) =
      Inr (demo_event ''evt_b'' ''run_2'' ''tenant_b'' 0)" by code_simp
qed (simp_all add: demo_repo_def demo_db_def event_row_def demo_event_def)

text \<open>A sequence race is not retried: when another session takes the sequence between the reads and
  the write, the flush fails, leaving the block commits the failed session, and what SQLAlchemy
  raises for that ends the call instead of the next of the four attempts.\<close>

theorem sequence_race_not_retried:
  assumes "rv_commit_after_failed_flush E = Inl pend"
    and "run_of_tenant (rp_db s) (ne_run_id n) (ne_tenant_id n)" and "\<not> (ne_sensitive n \<and> ne_safe_for_ui n)"
    and "ne_event_id n = Some eid" and "eid \<noteq> []"
    and "find (\<lambda>r. re_event_id r = eid) (tb_events (rp_db s)) = None"
    and "event_collides (next_row E n eid (next_sequence_in (rp_db s) (ne_run_id n)) (rv_clock E (Suc (rp_ticks s))))
       (rv_others E (rp_ticks s) (rp_db s))"
  shows "\<exists>t. append_next_event E n s = (Inl pend, t) \<and> rp_db t = rv_others E (rp_ticks s) (rp_db s)"
proof -
  from assms(2) obtain row where g: "get_run_row (ne_run_id n) (ne_tenant_id n) s = (Inr row, s)"
    unfolding run_of_tenant_get by blast
  have "\<exists>t. append_next_pass E n s = (Inl pend, t) \<and> rp_db t = rv_others E (rp_ticks s) (rp_db s)"
    using g assms(1,4-7)
    by (auto simp: append_next_pass_def run_simps id_or_new_def tick_def modify_db_def transaction_def
        append_next_write_def repo_now_def Let_def flush_event_def)
  then obtain t where t: "append_next_pass E n s = (Inl pend, t)" "rp_db t = rv_others E (rp_ticks s) (rp_db s)"
    by blast
  have four: "(4::nat) = Suc 3" by simp
  have "append_next_loop 4 E n s = (Inl pend, t)" unfolding four append_next_loop.simps using t by (simp add: run_bind)
  then have "append_next_event E n s = (Inl pend, t)" using assms(3) by (simp only: append_next_event_def if_False)
  with t(2) show ?thesis by blast
qed

definition racing_env :: repo_env where
  "racing_env = quiet_env\<lparr>rv_others := (\<lambda>_ d. d\<lparr>tb_events := tb_events d @
     [event_row (demo_event ''evt_race'' ''run_1'' ''tenant_a'' 0)]\<rparr>)\<rparr>"

theorem sequence_race_not_retried_witness:
  "\<exists>t. append_next_event racing_env (next_delta\<lparr>ne_event_id := Some ''evt_9''\<rparr>) demo_repo =
     (Inl pending_rollback, t)"
proof -
  let ?n = "next_delta\<lparr>ne_event_id := Some ''evt_9''\<rparr>"
  have "event_collides (next_row racing_env ?n ''evt_9'' (next_sequence_in (rp_db demo_repo) (ne_run_id ?n))
      (rv_clock racing_env (Suc (rp_ticks demo_repo)))) (rv_others racing_env (rp_ticks demo_repo) (rp_db demo_repo))"
    by code_simp
  from sequence_race_not_retried [OF _ _ _ _ _ _ this, of pending_rollback] show ?thesis
    by (auto simp: racing_env_def quiet_env_def next_delta_def run_of_tenant_def find_run_def demo_repo_def demo_db_def
        run_row_def event_row_def demo_event_def)
qed

end
