(* ===== verification/ApiChecks.thy ===== *)
theory ApiChecks
  imports ApiRuns ApiInv RepoChecks
begin

text \<open>The properties of the gateway at concrete requests: two tenants, a run each, one approval.\<close>

section \<open>A small gateway\<close>

definition alice :: Identity where
  "alice = \<lparr>id_user_id = ''alice'', id_tenant_id = ''tenant_a'',
     id_scopes = [''case.read'', ''case.write'', ''case.approve''], id_mode = ''oidc'', id_expires_at = None\<rparr>"

definition mallory :: Identity where
  "mallory = alice\<lparr>id_user_id := ''mallory'', id_tenant_id := ''tenant_b''\<rparr>"

text \<open>A repository without a redaction hook.\<close>

definition plain_repo_env :: repo_env where
  "plain_repo_env = quiet_env\<lparr>rv_redact := (\<lambda>d. d)\<rparr>"

definition demo_api_env :: api_env where
  "demo_api_env = \<lparr>pv_py = plain_env, pv_repo_env = plain_repo_env, pv_clock = int, pv_monotonic = (\<lambda>_. 0),
     pv_uuid_hex = (\<lambda>n. replicate 11 (CHR ''0'') @ nat_str n), pv_time_text = (\<lambda>_. ''2026-09-11T12:00:00Z'')\<rparr>"

definition demo_api :: api where
  "demo_api = \<lparr>ai_repo = demo_repo, RUN_STATES = [(''run_1'', demo_state)], CANCEL_FLAGS = [],
     DECIDE_IDEMPOTENCY = [], A2A_CANCELLED = [], ai_background = [(''run_1'', ''tenant_a'')], ai_ticks = 0\<rparr>"

definition empty_api :: api where
  "empty_api = demo_api\<lparr>ai_repo := \<lparr>rp_db = empty_db, rp_ticks = 0\<rparr>, RUN_STATES := [], ai_background := []\<rparr>"

definition demo_body :: CreateRunRequest where
  "demo_body = \<lparr>cr_objective = ''Investigate'', cr_context = [], cr_max_tool_calls = 20, cr_max_model_calls = 10,
     cr_max_cost_usd = 2, cr_schema_version = ''1.0''\<rparr>"

definition demo_decision :: DecideRequest where
  "demo_decision = \<lparr>dr_decision = ''approved'', dr_approver = ''boss'', dr_reason = None, dr_schema_version = ''1.0''\<rparr>"

definition succeeds :: "('s, 'a) em \<Rightarrow> 's \<Rightarrow> bool" where
  "succeeds m s = (case fst (m s) of Inr _ \<Rightarrow> True | Inl _ \<Rightarrow> False)"

lemma succeedsD: "succeeds m s \<Longrightarrow> m s = (Inr (projr (fst (m s))), snd (m s))"
  by (cases "m s"; cases "fst (m s)") (auto simp: succeeds_def)

lemma api_env_others: "others_within (pv_repo_env demo_api_env) T"
  using quiet_env_others [of T] by (simp add: demo_api_env_def plain_repo_env_def others_within_def)

lemma cancel_ok: "succeeds (cancel_run demo_api_env alice ''run_1'') demo_api"
  by code_simp

lemma events_ok: "succeeds (run_events demo_api_env mallory ''run_2'' 0 None False) demo_api"
  by code_simp

text \<open>A decision, part by part: the approval, the event, and no run to resume.\<close>

definition decided_repo :: repo where
  "decided_repo = \<lparr>rp_db = demo_db\<lparr>tb_approvals := [(approval_row demo_approval)\<lparr>av_decision := ''approved'',
     av_approver := Some ''boss'', av_decided_at := Some 0\<rparr>]\<rparr>, rp_ticks = 1\<rparr>"

definition received :: new_event where
  "received = api_event ''run_1'' ''tenant_a'' APPROVAL_RECEIVED [(''approval_id'', PStr ''appr_1''),
     (''decision'', PStr ''approved''), (''approver'', PStr ''boss'')]"

lemma decided_run:
  "decide_approval plain_repo_env ''appr_1'' ''tenant_a'' ''approved'' ''boss'' None demo_repo =
     (Inr (demo_approval\<lparr>ap_approver := Some ''boss'', ap_decision := APPROVED, ap_decided_at := Some 0\<rparr>), decided_repo)"
  by code_simp

lemma received_ok: "succeeds (append_next_event plain_repo_env received) decided_repo"
  by code_simp

lemma decide_ok: "succeeds (decide demo_api_env alice ''run_1'' ''appr_1'' demo_decision (Some ''k1''))
    (demo_api\<lparr>RUN_STATES := []\<rparr>)"
proof -
  let ?s = "demo_api\<lparr>RUN_STATES := []\<rparr>"
  have g: "or_404 (on_repo (get_run ''run_1'' ''tenant_a'')) ?s = (Inr (run_row ''run_1'' ''tenant_a''), ?s)"
    by (simp add: or_404_get demo_api_def demo_repo_def demo_db_def find_run_def run_row_def)
  have guards: "decide_guards alice demo_decision (Some ''k1'') = Inr ()" "validate_DecideRequest demo_decision = Inr demo_decision"
    by code_simp+
  from succeedsD [OF received_ok] obtain x u where ev: "append_next_event plain_repo_env received decided_repo = (Inr x, u)"
    by blast
  then show ?thesis
    using g guards decided_run
    by (simp add: succeeds_def decide_def decide_stored_def Let_def run_simps demo_api_def alice_def
        decide_errors_def on_repo_def demo_api_env_def demo_decision_def suppress_def received_def [symmetric]
        demo_approval_def check_def maybe_resume_def)
qed

text \<open>A run, part by part: the contract, the ledger, the row and the event. The identifier of a new run
  depends on how often the process has read a clock.\<close>

definition demo_request :: "string \<Rightarrow> AgentRequest" where
  "demo_request rid = \<lparr>rq_run_id = rid, rq_tenant_id = ''tenant_a'', rq_user_id = ''alice'',
     rq_objective = ''Investigate'', rq_context = [], rq_max_tool_calls = 20, rq_max_model_calls = 10,
     rq_max_cost_usd = 2, rq_idempotency_key = Some ''k1'', rq_trace_id = None, rq_correlation_id = None\<rparr>"

lemma request_ok:
  assumes "ident rid" shows "validate_AgentRequest plain_env (demo_request rid) = Inr (demo_request rid)"
proof -
  have "ident ''tenant_a''" "strip ''tenant_a'' = ''tenant_a''" "strip ''alice'' = ''alice''"
    "strip ''Investigate'' = ''Investigate''" "strip ''k1'' = ''k1''" "json_dumps plain_env (PDict []) = ''{}''" by code_simp+
  with assms show ?thesis
    by (simp add: validate_AgentRequest_def Let_def demo_request_def len_in_def opt_len_in_def)
qed

lemma ledger_ok:
  "rbind (from_budget_dict plain_env [(''max_tool_calls'', PInt 20), (''max_model_calls'', PInt 10),
     (''max_cost_usd'', PFloat 2)] [] 0) (\<lambda>t. budget_checks plain_env (bt_limits t) ((bt_snap t)\<lparr>bs_elapsed_s := 0 - bt_start t\<rparr>))
   = Inr ()"
  by (simp add: from_budget_dict_def Let_def dget_or_def dget_def budget_checks_def check_def empty_snapshot_def)

definition uuid_at :: "nat \<Rightarrow> string" where
  "uuid_at n = ''run_'' @ take 12 (replicate 11 (CHR ''0'') @ nat_str n)"

lemma admitted_ok:
  assumes "ident (uuid_at (ai_ticks s))"
  shows "admitted demo_api_env alice demo_body (Some ''k1'') s = (Inr (uuid_at (ai_ticks s)), s\<lparr>ai_ticks := ai_ticks s + 3\<rparr>)"
proof -
  have body: "validate_CreateRunRequest demo_body = Inr demo_body"
    by (simp add: validate_CreateRunRequest_def demo_body_def len_in_def)
  from ledger_ok obtain t where t: "from_budget_dict plain_env [(''max_tool_calls'', PInt 20), (''max_model_calls'', PInt 10),
       (''max_cost_usd'', PFloat 2)] [] 0 = Inr t"
    "budget_checks plain_env (bt_limits t) ((bt_snap t)\<lparr>bs_elapsed_s := 0 - bt_start t\<rparr>) = Inr ()"
    by (auto simp: rbind_Inr_iff)
  from request_ok [OF assms] have rq: "validate_AgentRequest plain_env \<lparr>rq_run_id = uuid_at (ai_ticks s),
     rq_tenant_id = ''tenant_a'', rq_user_id = ''alice'', rq_objective = ''Investigate'', rq_context = [],
     rq_max_tool_calls = 20, rq_max_model_calls = 10, rq_max_cost_usd = 2, rq_idempotency_key = Some ''k1'',
     rq_trace_id = None, rq_correlation_id = None\<rparr> = Inr (demo_request (uuid_at (ai_ticks s)))"
    by (simp add: demo_request_def)
  show ?thesis
    using body t rq
    by (simp add: admitted_def new_run_id_def api_tick_def check_request_def run_simps require_one check_def
        demo_api_env_def has_scope_def alice_def demo_body_def SCHEMA_VERSION_def demo_request_def uuid_at_def)
qed

lemma uuids: "uuid_at 0 = ''run_000000000000''" "uuid_at 4 = ''run_000000000004''" "ident (uuid_at 0)" "ident (uuid_at 4)"
  by code_simp+

definition created_row :: RunRow where
  "created_row = \<lparr>rn_id = ''run_000000000000'', rn_tenant_id = ''tenant_a'', rn_created_by = ''alice'',
     rn_objective = ''Investigate'', rn_status = ''created'', rn_current_state = ''created'',
     rn_budget_json = initial_budget demo_body, rn_idempotency_key = Some ''k1'', rn_trace_id = None,
     rn_correlation_id = None, rn_created_at = 1, rn_updated_at = 2, rn_completed_at = None\<rparr>"

definition created_repo :: repo where
  "created_repo = \<lparr>rp_db = empty_db\<lparr>tb_tenants := [\<lparr>tn_id = ''tenant_a'', tn_name = ''tenant_a'', tn_created_at = 0\<rparr>],
     tb_runs := [created_row]\<rparr>, rp_ticks = 3\<rparr>"

lemma created: "create_run plain_repo_env (row_of_request alice demo_body (Some ''k1'') ''run_000000000000'')
    \<lparr>rp_db = empty_db, rp_ticks = 0\<rparr> = (Inr created_row, created_repo)"
  by (simp add: create_run_def transaction_def run_simps ensure_tenant_in_def repo_now_def tick_def modify_db_def
      insert_run_def Let_def row_of_request_def alice_def demo_body_def plain_repo_env_def quiet_env_def empty_db_def
      find_run_def given_key_def created_repo_def created_row_def)

lemma started_ok: "succeeds (append_next_event plain_repo_env (api_event ''run_000000000000'' ''tenant_a'' RUN_STARTED
    [(''objective'', PStr ''Investigate'')])) created_repo"
  by code_simp

lemma started_runs: "map rn_id (tb_runs (rp_db (snd (append_next_event plain_repo_env (api_event ''run_000000000000'' ''tenant_a''
    RUN_STARTED [(''objective'', PStr ''Investigate'')]) created_repo)))) = [''run_000000000000'']"
  by code_simp

lemma create_ok:
  obtains b t where "create_run_route demo_api_env alice demo_body (Some ''k1'') empty_api = (Inr b, t)"
    "ai_ticks t = 4" "map rn_id (tb_runs (api_db t)) = [''run_000000000000'']"
proof -
  from succeedsD [OF started_ok] obtain x u where u: "append_next_event plain_repo_env (api_event ''run_000000000000''
    ''tenant_a'' RUN_STARTED [(''objective'', PStr ''Investigate'')]) created_repo = (Inr x, u)" by blast
  have "ai_ticks empty_api = 0" by (simp add: empty_api_def demo_api_def)
  with admitted_ok [of empty_api] uuids
  have a: "admitted demo_api_env alice demo_body (Some ''k1'') empty_api = (Inr ''run_000000000000'', empty_api\<lparr>ai_ticks := 3\<rparr>)"
    by simp
  from u a created have "\<exists>b t. create_run_route demo_api_env alice demo_body (Some ''k1'') empty_api = (Inr b, t) \<and>
      ai_ticks t = 4 \<and> api_db t = rp_db u"
    by (simp add: create_route_split run_simps on_repo_def demo_api_env_def empty_api_def demo_api_def
        created_row_def start_run_def alice_def demo_body_def api_tick_def cache_state_def)
  with started_runs u show thesis by (auto intro: that)
qed

section \<open>Witnesses\<close>

theorem gateway_isolation_witness:
  "own ''tenant_b'' (api_db (snd (serve demo_api_env alice (CancelRun ''run_1'') demo_api))) = own ''tenant_b'' demo_db"
proof -
  have "strip (id_tenant_id alice) = id_tenant_id alice" by code_simp
  moreover have "db_inv (api_db demo_api)" using demo_inv by (simp add: demo_api_def demo_repo_def)
  ultimately show ?thesis
    using gateway_isolation [OF _ _ api_env_others [of "{}"], of demo_api alice "''tenant_b''" "CancelRun ''run_1''"
        "fst (serve demo_api_env alice (CancelRun ''run_1'') demo_api)"]
    by (simp add: alice_def demo_api_def demo_repo_def)
qed


theorem blank_objective_is_500_witness:
  "\<exists>t. serve demo_api_env alice (CreateRun (demo_body\<lparr>cr_objective := '' ''\<rparr>) None) demo_api =
     (Inr \<lparr>rs_status = 500, rs_body = PStr ''Internal Server Error''\<rparr>, t)"
proof -
  have "strip '' '' = []" by code_simp
  then show ?thesis
    using blank_objective_is_500 [of "demo_body\<lparr>cr_objective := '' ''\<rparr>" alice demo_api_env None demo_api]
    by (auto simp: validate_CreateRunRequest_def demo_body_def len_in_def alice_def has_scope_def SCHEMA_VERSION_def)
qed

theorem decide_replays_witness:
  "\<exists>b t. serve demo_api_env mallory (Decide ''run_1'' ''appr_1'' (demo_decision\<lparr>dr_decision := ''rejected''\<rparr>) (Some ''k1'')) t =
     (Inr \<lparr>rs_status = 200, rs_body = b\<rparr>, t)"
proof -
  have "decide_guards mallory (demo_decision\<lparr>dr_decision := ''rejected''\<rparr>) (Some ''k1'') = Inr ()"
    "validate_DecideRequest (demo_decision\<lparr>dr_decision := ''rejected''\<rparr>) = Inr (demo_decision\<lparr>dr_decision := ''rejected''\<rparr>)"
    by code_simp+
  with decide_replays [OF succeedsD [OF decide_ok]] show ?thesis by blast
qed

theorem decision_is_recorded_witness:
  "\<exists>t row'. decide demo_api_env alice ''run_1'' ''appr_1'' demo_decision (Some ''k1'') (demo_api\<lparr>RUN_STATES := []\<rparr>) = t \<and>
     find_approval (api_db (snd t)) ''appr_1'' = Some row' \<and> av_decision row' = ''approved''"
proof -
  have "strip (id_tenant_id alice) = id_tenant_id alice" by code_simp
  then show ?thesis
    using decision_is_recorded [OF succeedsD [OF decide_ok] _ _ api_env_others]
    by (auto simp: demo_api_def demo_decision_def)
qed

lemma cancel_cached:
  "map_option st_status (map_of (RUN_STATES (snd (cancel_run demo_api_env alice ''run_1'' demo_api))) ''run_1'') = Some CANCELLED"
  by code_simp

theorem cancelled_before_start_witness:
  "\<exists>u st'. execute_run demo_api_env ''run_1'' ''tenant_a'' (snd (cancel_run demo_api_env alice ''run_1'' demo_api)) = (Inr (), u) \<and>
     map_of (RUN_STATES u) ''run_1'' = Some st' \<and> st_status st' = CANCELLED"
proof -
  from cancel_cached obtain st where "map_of (RUN_STATES (snd (cancel_run demo_api_env alice ''run_1'' demo_api))) ''run_1'' = Some st"
    by auto
  from cancelled_before_start [OF succeedsD [OF cancel_ok] this] show ?thesis by blast
qed

theorem replay_leaves_first_event_out_witness:
  "snd (run_events demo_api_env mallory ''run_2'' 0 None False demo_api) = demo_api \<and>
   (\<exists>ds. fst (run_events demo_api_env mallory ''run_2'' 0 None False demo_api) = Inr (PDict [(''run_id'', PStr ''run_2''),
      (''after_sequence'', PInt 0), (''events'', PList (map PDict ds))]))"
proof -
  let ?m = "run_events demo_api_env mallory ''run_2'' 0 None False demo_api"
  obtain b t where m: "?m = (Inr b, t)" using succeedsD [OF events_ok] by blast
  from replay_leaves_first_event_out [OF m, of demo_db] show ?thesis unfolding m by auto
qed

theorem create_run_replays_witness:
  "\<exists>run_id status status' t u. create_run_route demo_api_env alice demo_body (Some ''k1'') empty_api =
      (Inr (created_response run_id status), t) \<and>
    create_run_route demo_api_env alice demo_body (Some ''k1'') t = (Inr (created_response run_id status'), u) \<and>
    ai_background u = ai_background t"
proof -
  obtain b t where c: "create_run_route demo_api_env alice demo_body (Some ''k1'') empty_api = (Inr b, t)"
    "ai_ticks t = 4" "map rn_id (tb_runs (api_db t)) = [''run_000000000000'']" by (rule create_ok)
  have a: "admitted demo_api_env alice demo_body (Some ''k1'') t = (Inr (uuid_at (ai_ticks t)), t\<lparr>ai_ticks := ai_ticks t + 3\<rparr>)"
    by (rule admitted_ok, unfold c(2)) (rule uuids(4))
  have "rn_id ` set (tb_runs (api_db t)) = {''run_000000000000''}" using c(3) by (metis list.set(1,2) list.set_map)
  then have "find_run (api_db t) (uuid_at (ai_ticks t)) = None" by (simp add: find_run_None c(2) uuids)
  then have "find_run (api_db t) (''run_'' @ take 12 (pv_uuid_hex demo_api_env (ai_ticks t))) = None"
    by (simp add: uuid_at_def demo_api_env_def)
  moreover have "strip (id_tenant_id alice) = id_tenant_id alice" by code_simp
  ultimately show ?thesis
    using create_run_replays [OF c(1) _ _ api_env_others refl a] c(1) by blast
qed

theorem gateway_invariant_witness:
  "gateway_inv (snd (serve demo_api_env alice (CreateRun demo_body (Some ''k1'')) empty_api))"
proof -
  have "reachable demo_api_env empty_api" by (rule reachable.start) (simp_all add: empty_api_def demo_api_def)
  moreover have "strip (id_tenant_id alice) = id_tenant_id alice" by code_simp
  ultimately have "reachable demo_api_env (snd (serve demo_api_env alice (CreateRun demo_body (Some ''k1'')) empty_api))"
    by (rule reachable.request) (rule prod.collapse [symmetric])
  then show ?thesis by (rule gateway_invariant) (rule api_env_others)
qed

end
