(* ===== verification/Agent.thy ===== *)
theory Agent
  imports ApiStore Runtime AgUi
begin

text \<open>
  \<^verbatim>\<open>apps/a2a_agents/observability/agent.py\<close>: the specialist to which the orchestrator delegates. Its
  contracts, the deterministic correlation, the store of tasks with its write-through to the
  repository, and the routes.

  A task is worked on by a coroutine that waits once, for the correlation in a thread: the request is
  taken in two parts, before and after the wait, and between them the process serves other requests
  (\<open>create_begin\<close>, \<open>create_end\<close>). The clock, how a wait ends, what the validation library takes for an
  aware time and the text of its errors are parameters (\<open>agent_env\<close>).
\<close>

section \<open>Constants\<close>

definition AGENT_NAME :: string where "AGENT_NAME = ''observability-agent''"

definition AGENT_VERSION :: string where "AGENT_VERSION = ''1.0.0''"

definition SKILL_ID :: string where "SKILL_ID = ''correlate-service-symptoms''"

definition SKILL_TIMEOUT_SECONDS :: pyfloat where "SKILL_TIMEOUT_SECONDS = 30"

definition SKILL_MAX_TIMEOUT_SECONDS :: pyfloat where "SKILL_MAX_TIMEOUT_SECONDS = 120"

definition ALLOWED_MCP_TOOLS :: "string list" where
  "ALLOWED_MCP_TOOLS =
     [''telemetry.query_metrics'', ''telemetry.query_logs'', ''telemetry.get_trace'', ''service.get_health'',
      ''knowledge.search'', ''knowledge.get_runbook'', ''deployment.get_current_release'']"

definition FORBIDDEN_MCP_TOOLS :: "string list" where
  "FORBIDDEN_MCP_TOOLS =
     [''ticket.create'', ''incident.update'', ''deployment.rollback'', ''feature_flag.update'',
      ''deployment.scale_down'', ''database.failover'', ''service.disable'', ''remediation.simulate'']"

definition INJECTION_PATTERNS :: "string list" where
  "INJECTION_PATTERNS =
     [''ignore previous'', ''ignore all previous'', ''disregard previous'', ''execute '', ''run command'',
      ''rm -rf'', ''; cat '', ''exfiltrate'', ''send credentials'']"

section \<open>Contracts of the skill\<close>

record TimeWindow =
  tw_start :: datetime
  tw_end :: datetime

definition thirty_days :: int where
  "thirty_days = 30 * 24 * 3600 * 1000000"

definition validate_TimeWindow :: "TimeWindow \<Rightarrow> TimeWindow presult" where
  "validate_TimeWindow w = run_checks
     [(tw_start w < tw_end w, ''window.end must be > window.start''),
      (tw_end w - tw_start w \<le> thirty_days, ''window must be <= 30 days'')] w"

record CorrelateInput =
  ci_service :: string
  ci_window :: TimeWindow
  ci_metrics_refs :: "string list"
  ci_logs_refs :: "string list"
  ci_deploy_state :: "string option"
  ci_trace_id :: "string option"
  ci_correlation_id :: "string option"
  ci_run_id :: "string option"
  ci_tenant_id :: "string option"

text \<open>\<^verbatim>\<open>_ref_caps\<close>.\<close>

definition ref_caps :: "string list \<Rightarrow> bool" where
  "ref_caps v = list_all (len_in 1 2048) v"

definition validate_CorrelateInput :: "CorrelateInput \<Rightarrow> CorrelateInput presult" where
  "validate_CorrelateInput c0 =
     (let c = c0\<lparr>ci_service := strip (ci_service c0), ci_metrics_refs := map strip (ci_metrics_refs c0),
          ci_logs_refs := map strip (ci_logs_refs c0), ci_deploy_state := ostrip (ci_deploy_state c0),
          ci_trace_id := ostrip (ci_trace_id c0), ci_correlation_id := ostrip (ci_correlation_id c0),
          ci_run_id := ostrip (ci_run_id c0), ci_tenant_id := ostrip (ci_tenant_id c0)\<rparr>
      in run_checks
          [(ident (ci_service c), ''service''),
           (length (ci_metrics_refs c) \<le> 64 \<and> ref_caps (ci_metrics_refs c), ''metrics_refs''),
           (length (ci_logs_refs c) \<le> 64 \<and> ref_caps (ci_logs_refs c), ''logs_refs''),
           (opt_len_in 0 8000 (ci_deploy_state c), ''deploy_state''),
           (opt_len_in 0 128 (ci_trace_id c), ''trace_id''),
           (opt_len_in 0 128 (ci_correlation_id c), ''correlation_id''),
           (opt_len_in 0 128 (ci_run_id c), ''run_id''), (opt_len_in 0 128 (ci_tenant_id c), ''tenant_id'')] c)"

record CorrelateFinding =
  cf_title :: string
  cf_summary :: string
  cf_evidence_refs :: "string list"
  cf_confidence :: pyfloat

definition validate_CorrelateFinding :: "CorrelateFinding \<Rightarrow> CorrelateFinding presult" where
  "validate_CorrelateFinding f0 =
     (let f = f0\<lparr>cf_title := strip (cf_title f0), cf_summary := strip (cf_summary f0),
          cf_evidence_refs := map strip (cf_evidence_refs f0)\<rparr>
      in run_checks
          [(len_in 1 256 (cf_title f), ''title''), (len_in 1 4000 (cf_summary f), ''summary''),
           (len_in 1 64 (cf_evidence_refs f), ''evidence_refs''),
           (0 \<le> cf_confidence f \<and> cf_confidence f \<le> 1, ''confidence'')] f)"

record CorrelateOutput =
  co_findings :: "CorrelateFinding list"
  co_probable_cause :: "string option"
  co_unresolved_questions :: "string list"
  co_trace_id :: "string option"
  co_correlation_id :: "string option"

text \<open>\<^verbatim>\<open>CorrelateOutput\<close>, of findings that are checked already.\<close>

definition validate_CorrelateOutput :: "CorrelateOutput \<Rightarrow> CorrelateOutput presult" where
  "validate_CorrelateOutput o0 =
     (let c = o0\<lparr>co_probable_cause := ostrip (co_probable_cause o0),
          co_unresolved_questions := map strip (co_unresolved_questions o0),
          co_trace_id := ostrip (co_trace_id o0), co_correlation_id := ostrip (co_correlation_id o0)\<rparr>
      in run_checks
          [(length (co_findings c) \<le> 32, ''findings''),
           (opt_len_in 0 2000 (co_probable_cause c), ''probable_cause''),
           (length (co_unresolved_questions c) \<le> 32 \<and> list_all (len_in 1 1000) (co_unresolved_questions c),
             ''unresolved_questions''),
           (opt_len_in 0 128 (co_trace_id c), ''trace_id''),
           (opt_len_in 0 128 (co_correlation_id c), ''correlation_id'')] c)"

definition AGENT_URL :: string where
  "AGENT_URL = ''http://observability-agent:8082/a2a''"

definition CARD_MODEL :: AgentCard where
  "CARD_MODEL = \<lparr>ac_name = AGENT_NAME,
     ac_description = ''Correlates metrics, logs, traces, and deployment changes.'', ac_url = AGENT_URL,
     ac_version = AGENT_VERSION,
     ac_skills = [\<lparr>sk_id = SKILL_ID, sk_name = ''Correlate service symptoms'',
       sk_description = ''Find likely causes from telemetry evidence.'',
       sk_input_modes = [''application/json''], sk_output_modes = [''application/json'']\<rparr>],
     ac_schemes = [''oauth2'']\<rparr>"

section \<open>Helpers\<close>

definition hex_text :: "nat \<Rightarrow> string \<Rightarrow> bool" where
  "hex_text n s = (length s = n \<and> list_all (\<lambda>c. is_digit c \<or> c \<in> set ''abcdef'') s)"

definition parse_traceparent :: "string option \<Rightarrow> string option" where
  "parse_traceparent header =
     (case header of None \<Rightarrow> None | Some h \<Rightarrow>
        (case split_on (CHR ''-'') (strip h) of
           [version, trace_id, parent_id, flags] \<Rightarrow>
             if version = ''00'' \<and> hex_text 32 trace_id \<and> hex_text 16 parent_id \<and> hex_text 2 flags
             then Some trace_id else None
         | _ \<Rightarrow> None))"

definition assert_read_only :: "string \<Rightarrow> unit presult" where
  "assert_read_only tool_name =
     check (\<not> (tool_name \<in> set FORBIDDEN_MCP_TOOLS \<or> tool_name \<notin> set ALLOWED_MCP_TOOLS))
       (ValueError (''tool '' @ repr_str tool_name @ '' is not an allowed read-only MCP tool''))"

definition mcp_tool_allowlist :: "string list" where
  "mcp_tool_allowlist = sort ALLOWED_MCP_TOOLS"

definition contains_injection :: "string \<Rightarrow> bool" where
  "contains_injection text = any_in INJECTION_PATTERNS (lower text)"

definition deterministic_confidence :: "pyenv \<Rightarrow> string \<Rightarrow> string \<Rightarrow> pyfloat" where
  "deterministic_confidence E service salt =
     (let digest = sha256_hexdigest E (service @ '':'' @ salt)
      in of_nat (foldl (\<lambda>n c. 16 * n + hex_digit_value c) 0 (take 8 digest) mod 1000) / 1000)"

definition control_char :: "char \<Rightarrow> bool" where
  "control_char c = (let n = (of_char c :: nat) in n \<le> 8 \<or> n = 11 \<or> n = 12 \<or> (14 \<le> n \<and> n \<le> 31))"

definition sanitize_for_evidence :: "string \<Rightarrow> nat \<Rightarrow> string" where
  "sanitize_for_evidence text limit = take limit (filter (\<lambda>c. \<not> control_char c) text)"

section \<open>Correlation\<close>

definition clamp95 :: "pyfloat \<Rightarrow> pyfloat" where
  "clamp95 x = min (95 / 100) (max 0 x)"

text \<open>The finding of a kind of reference: its title and summary, a confidence that grows with the second
  reference, and the first sixteen references as evidence.\<close>

definition refs_confidence :: "pyenv \<Rightarrow> string \<Rightarrow> string \<Rightarrow> pyfloat \<Rightarrow> string list \<Rightarrow> pyfloat" where
  "refs_confidence E service salt low refs =
     (let base = low + 2 / 10 * of_nat (min (length refs) 2) / 2;
          jitter = (deterministic_confidence E service salt - 5 / 10) * (6 / 100)
      in py_round 2 (clamp95 (base + jitter)))"

definition metric_finding :: "pyenv \<Rightarrow> CorrelateInput \<Rightarrow> CorrelateFinding" where
  "metric_finding E i = \<lparr>cf_title = ''Metric anomaly in '' @ ci_service i,
     cf_summary = ''Correlated '' @ nat_str (length (ci_metrics_refs i)) @ '' metric reference(s) for service '' @
       ci_service i @ '' within window '' @ isoformat E (tw_start (ci_window i)) @ ''..'' @
       isoformat E (tw_end (ci_window i)) @ ''. Observation only; no remediation performed.'',
     cf_evidence_refs = take 16 (ci_metrics_refs i),
     cf_confidence = refs_confidence E (ci_service i) ''metrics'' (55 / 100) (ci_metrics_refs i)\<rparr>"

definition log_finding :: "pyenv \<Rightarrow> CorrelateInput \<Rightarrow> CorrelateFinding" where
  "log_finding E i = \<lparr>cf_title = ''Log error pattern in '' @ ci_service i,
     cf_summary = ''Correlated '' @ nat_str (length (ci_logs_refs i)) @ '' log reference(s) for '' @
       ci_service i @ ''. Pattern suggests errors cluster in window; requires orchestrator verification against primary telemetry.'',
     cf_evidence_refs = take 16 (ci_logs_refs i),
     cf_confidence = refs_confidence E (ci_service i) ''logs'' (5 / 10) (ci_logs_refs i)\<rparr>"

definition deploy_finding :: "pyenv \<Rightarrow> CorrelateInput \<Rightarrow> string \<Rightarrow> CorrelateFinding" where
  "deploy_finding E i deploy_txt =
     (let conf = py_round 2 (55 / 100 + (deterministic_confidence E (ci_service i) ''deploy'' - 5 / 10) * (6 / 100)) in
      \<lparr>cf_title = ''Recent deployment correlates with symptoms in '' @ ci_service i,
       cf_summary = ''Deployment state mentions a recent change overlapping the symptom window: '' @
         sanitize_for_evidence deploy_txt 300,
       cf_evidence_refs = (case ci_metrics_refs i of r # _ \<Rightarrow> [r] | [] \<Rightarrow> [''deploy_state'']),
       cf_confidence = max 0 (min (95 / 100) conf)\<rparr>)"

definition deploy_text :: "CorrelateInput \<Rightarrow> string" where
  "deploy_text i = strip (case ci_deploy_state i of Some t \<Rightarrow> t | None \<Rightarrow> [])"

definition release_marker :: "CorrelateInput \<Rightarrow> bool" where
  "release_marker i = any_in [''deploy'', ''release'', ''rollout'', ''canary''] (lower (deploy_text i))"

definition suspicious :: "CorrelateInput \<Rightarrow> bool" where
  "suspicious i = (list_ex contains_injection (ci_metrics_refs i @ ci_logs_refs i) \<or>
     (case ci_deploy_state i of Some t \<Rightarrow> contains_injection t | None \<Rightarrow> False))"

text \<open>The findings, in the order of the code; a finding that its contract refuses raises.\<close>

definition correlate_findings :: "pyenv \<Rightarrow> CorrelateInput \<Rightarrow> CorrelateFinding list presult" where
  "correlate_findings E i = all_results (map validate_CorrelateFinding
     ((if ci_metrics_refs i \<noteq> [] then [metric_finding E i] else []) @
      (if ci_logs_refs i \<noteq> [] then [log_finding E i] else []) @
      (if deploy_text i \<noteq> [] \<and> release_marker i then [deploy_finding E i (deploy_text i)] else [])))"

definition open_questions :: "CorrelateInput \<Rightarrow> string list" where
  "open_questions i =
     (if suspicious i then [''Retrieved telemetry content contains instruction-like text; treated as untrusted data and not followed.''] else []) @
     (if deploy_text i \<noteq> []
      then if release_marker i then []
        else [''deploy_state present but contains no release marker; deployment link unclear.'']
      else [''deploy_state absent; cannot assess change correlation.'']) @
     (if ci_metrics_refs i = [] \<and> ci_logs_refs i = []
      then [''No telemetry refs provided for service '' @ ci_service i @
        ''; supply metrics_refs and/or logs_refs for a conclusive correlation.''] else [])"

text \<open>\<^verbatim>\<open>max(findings, key=...)\<close>: the first of the greatest.\<close>

fun best_finding :: "CorrelateFinding \<Rightarrow> CorrelateFinding list \<Rightarrow> CorrelateFinding" where
  "best_finding b [] = b"
| "best_finding b (f # fs) = best_finding (if cf_confidence b < cf_confidence f then f else b) fs"

definition probable_cause :: "CorrelateFinding list \<Rightarrow> string option" where
  "probable_cause findings = (case findings of [] \<Rightarrow> None
     | f # fs \<Rightarrow> (let best = best_finding f fs in if 6 / 10 \<le> cf_confidence best then Some (cf_title best) else None))"

definition correlate_local :: "pyenv \<Rightarrow> CorrelateInput \<Rightarrow> CorrelateOutput presult" where
  "correlate_local E i =
     rbind (correlate_findings E i) (\<lambda>findings.
      let probable = probable_cause findings;
          unresolved = open_questions i @
            (if findings \<noteq> [] \<and> probable = None
             then [''Confidence below 0.6; probable cause withheld pending more evidence.''] else [])
      in validate_CorrelateOutput \<lparr>co_findings = findings, co_probable_cause = probable,
           co_unresolved_questions = take 32 unresolved, co_trace_id = ci_trace_id i,
           co_correlation_id = ci_correlation_id i\<rparr>)"

section \<open>State\<close>

text \<open>The repositories that have been opened are an explicit store: \<open>TASK_REPO\<close> is the injected one,
  \<open>API_REPO\<close> what \<^verbatim>\<open>get_repository\<close> of the API's store gives, if it does not raise.\<close>

record agent =
  ag_tasks :: "(string \<times> A2ATaskResult) list"
  ag_cancelled :: "string list"
  TASK_REPO :: "nat option"
  API_REPO :: "nat option"
  ag_repos :: "nat \<Rightarrow> repo"
  ag_auth :: auth_state
  ag_ticks :: nat

text \<open>How waiting for the correlation ends.\<close>

datatype waited = Done | TimedOut | Interrupted

record agent_env =
  ae_py :: pyenv
  ae_auth :: auth_world
  ae_repo_env :: repo_env
  ae_clock :: "nat \<Rightarrow> datetime"
  ae_wait :: "nat \<Rightarrow> waited"
  ae_aware :: "pyval \<Rightarrow> datetime option"
  ae_invalid :: "pydict \<Rightarrow> string"

definition agent_tick :: "(nat \<Rightarrow> 'a) \<Rightarrow> (agent, 'a) em" where
  "agent_tick f = ebind (eget ag_ticks) (\<lambda>k. ethen (emod (\<lambda>s. s\<lparr>ag_ticks := Suc (ag_ticks s)\<rparr>)) (eret (f k)))"

definition on_agent_repo :: "nat \<Rightarrow> (repo, 'a) em \<Rightarrow> (agent, 'a) em" where
  "on_agent_repo i m = (\<lambda>s. case m (ag_repos s i) of (r, d) \<Rightarrow> (r, s\<lparr>ag_repos := (ag_repos s)(i := d)\<rparr>))"

definition on_agent_auth :: "(auth_state, 'a) em \<Rightarrow> (agent, 'a) em" where
  "on_agent_auth m = (\<lambda>s. case m (ag_auth s) of (r, a) \<Rightarrow> (r, s\<lparr>ag_auth := a\<rparr>))"

definition set_task_repository :: "nat option \<Rightarrow> (agent, unit) em" where
  "set_task_repository r = emod (\<lambda>s. s\<lparr>TASK_REPO := r\<rparr>)"

definition get_task_repository :: "(agent, nat option) em" where
  "get_task_repository = eget TASK_REPO"

definition error_dump :: "A2ATaskError \<Rightarrow> pydict" where
  "error_dump e = [(''schema_version'', PStr ''1.0''), (''code'', PStr (te_code e)),
     (''message'', PStr (te_message e)), (''retryable'', PBool (te_retryable e))]"

text \<open>Write-through to the repository: best effort, twice.\<close>

definition persist_task :: "agent_env \<Rightarrow> string \<Rightarrow> A2ATaskResult \<Rightarrow> A2ATaskRequest \<Rightarrow> (agent, unit) em" where
  "persist_task E task_id result request =
     ebind (eget (\<lambda>s. case TASK_REPO s of Some i \<Rightarrow> Some i | None \<Rightarrow> API_REPO s)) (\<lambda>r. case r of
       None \<Rightarrow> eret ()
     | Some i \<Rightarrow>
         ethen (suppress_all (on_agent_repo i (save_agent_task (ae_repo_env E)
           \<lparr>nt_task_id = task_id,
            nt_run_id = (case tq_run_id request of Some (c # cs) \<Rightarrow> c # cs | _ \<Rightarrow> task_id),
            nt_tenant_id = tq_tenant_id request, nt_skill_id = tq_skill_id request,
            nt_agent_name = AGENT_NAME, nt_objective = tq_objective request,
            nt_status = A2ATaskStatus_value (tr_status result), nt_raw_inputs = Some (tq_inputs request),
            nt_deadline = Some (tq_deadline request)\<rparr>)))
         (case tr_output result of
            None \<Rightarrow> eret ()
          | Some out \<Rightarrow> suppress_all (on_agent_repo i (update_agent_task (ae_repo_env E) task_id
              (tq_tenant_id request) (A2ATaskStatus_value (tr_status result)) (Some out)
              (map_option error_dump (tr_error result))))))"

definition store_get :: "string \<Rightarrow> (agent, A2ATaskResult option) em" where
  "store_get task_id = eget (\<lambda>s. map_of (ag_tasks s) task_id)"

definition store_put :: "agent_env \<Rightarrow> string \<Rightarrow> A2ATaskResult \<Rightarrow> A2ATaskRequest option \<Rightarrow> (agent, unit) em" where
  "store_put E task_id result request =
     ethen (emod (\<lambda>s. s\<lparr>ag_tasks := AList.update task_id result (ag_tasks s)\<rparr>))
       (case request of None \<Rightarrow> eret () | Some q \<Rightarrow> persist_task E task_id result q)"

definition clear_task_store :: "(agent, unit) em" where
  "clear_task_store = emod (\<lambda>s. s\<lparr>ag_tasks := [], ag_cancelled := []\<rparr>)"

section \<open>Running a task\<close>

definition error_result ::
  "string \<Rightarrow> A2ATaskStatus \<Rightarrow> string \<Rightarrow> string \<Rightarrow> bool \<Rightarrow> string option \<Rightarrow> string option \<Rightarrow> string option \<Rightarrow>
     string option \<Rightarrow> A2ATaskResult presult" where
  "error_result task_id status code message retryable run_id tenant_id trace_id correlation_id =
     (let safe = take 2000 (re_sub SAFE_ERROR_RE ''[redacted]'' message) in
      validate_A2ATaskResult \<lparr>tr_task_id = task_id, tr_run_id = run_id, tr_tenant_id = tenant_id,
        tr_status = status, tr_output = None, tr_artifacts = [],
        tr_error = Some \<lparr>te_code = code, te_message = safe, te_retryable = retryable\<rparr>,
        tr_trace_id = trace_id, tr_correlation_id = correlation_id\<rparr>)"

text \<open>An error result for a request.\<close>

definition failed_request ::
  "A2ATaskRequest \<Rightarrow> string option \<Rightarrow> A2ATaskStatus \<Rightarrow> string \<Rightarrow> string \<Rightarrow> bool \<Rightarrow> A2ATaskResult presult" where
  "failed_request q trace_id status code message retryable =
     error_result (tq_task_id q) status code message retryable (tq_run_id q) (Some (tq_tenant_id q)) trace_id
       (tq_correlation_id q)"

definition resolve_trace :: "A2ATaskRequest \<Rightarrow> string option \<Rightarrow> string option \<times> string option" where
  "resolve_trace request traceparent =
     (case tq_trace_id request of Some (c # cs) \<Rightarrow> Some (c # cs) | _ \<Rightarrow> parse_traceparent traceparent,
      tq_correlation_id request)"

text \<open>What the validation library makes of the inputs, which are JSON: texts, lists of texts, a window of
  aware times and no other keys.\<close>

definition text_items :: "pyval \<Rightarrow> string list option" where
  "text_items v = (case v of PList xs \<Rightarrow>
       if list_all (\<lambda>x. case x of PStr _ \<Rightarrow> True | _ \<Rightarrow> False) xs
       then Some (map (\<lambda>x. case x of PStr s \<Rightarrow> s | _ \<Rightarrow> []) xs) else None
     | _ \<Rightarrow> None)"

definition read_window :: "agent_env \<Rightarrow> pyval \<Rightarrow> TimeWindow option" where
  "read_window E v = (case v of PDict d \<Rightarrow>
       if only_keys [''schema_version'', ''start'', ''end''] d \<and>
          dget_or d ''schema_version'' (PStr ''1.0'') = PStr ''1.0''
       then (case (map_option (ae_aware E) (dget d ''start''), map_option (ae_aware E) (dget d ''end'')) of
           (Some (Some a), Some (Some b)) \<Rightarrow>
             (case validate_TimeWindow \<lparr>tw_start = a, tw_end = b\<rparr> of Inr w \<Rightarrow> Some w | Inl _ \<Rightarrow> None)
         | _ \<Rightarrow> None)
       else None
     | _ \<Rightarrow> None)"

definition read_inputs :: "agent_env \<Rightarrow> A2ATaskRequest \<Rightarrow> string option \<Rightarrow> CorrelateInput option" where
  "read_inputs E q trace_id =
     (let d = tq_inputs q in
      case (text_field [(''service'', dget_or d ''service'' (PStr []))] ''service'',
            read_window E (dget_or d ''window'' (PDict [])),
            text_items (dget_or d ''metrics_refs'' (PList [])), text_items (dget_or d ''logs_refs'' (PList [])),
            (case dget_none d ''deploy_state'' of PNone \<Rightarrow> Some None | PStr t \<Rightarrow> Some (Some t) | _ \<Rightarrow> None)) of
        (Some service, Some window, Some metrics, Some logs, Some deploy) \<Rightarrow>
          (case validate_CorrelateInput \<lparr>ci_service = service, ci_window = window, ci_metrics_refs = metrics,
               ci_logs_refs = logs, ci_deploy_state = deploy, ci_trace_id = trace_id,
               ci_correlation_id = tq_correlation_id q, ci_run_id = tq_run_id q,
               ci_tenant_id = Some (tq_tenant_id q)\<rparr> of
             Inr i \<Rightarrow> Some i | Inl _ \<Rightarrow> None)
      | _ \<Rightarrow> None)"

text \<open>\<^verbatim>\<open>output.model_dump(mode="json")\<close>.\<close>

definition finding_dump :: "CorrelateFinding \<Rightarrow> pydict" where
  "finding_dump f = [(''title'', PStr (cf_title f)), (''summary'', PStr (cf_summary f)),
     (''evidence_refs'', PList (map PStr (cf_evidence_refs f))), (''confidence'', PFloat (cf_confidence f))]"

definition output_dump :: "CorrelateOutput \<Rightarrow> pydict" where
  "output_dump c = [(''schema_version'', PStr ''1.0''),
     (''findings'', PList (map (\<lambda>f. PDict (finding_dump f)) (co_findings c))),
     (''probable_cause'', opt_text_val (co_probable_cause c)),
     (''unresolved_questions'', PList (map PStr (co_unresolved_questions c))),
     (''trace_id'', opt_text_val (co_trace_id c)), (''correlation_id'', opt_text_val (co_correlation_id c))]"

text \<open>\<^verbatim>\<open>f"{x:.1f}"\<close> of a non-negative number.\<close>

definition fixed1 :: "pyfloat \<Rightarrow> string" where
  "fixed1 x = (let n = round_half_even (x * 10) in int_str (n div 10) @ ''.'' @ int_str (n mod 10))"

definition skill_timeout :: "A2ATaskRequest \<Rightarrow> datetime \<Rightarrow> pyfloat" where
  "skill_timeout q now = max (1 / 100) (min (rat_of_int (tq_deadline q - now) / 1000000)
     (min SKILL_TIMEOUT_SECONDS SKILL_MAX_TIMEOUT_SECONDS))"

text \<open>Up to the wait: a result, or the inputs and the time limit of the correlation.\<close>

definition execute_begin ::
  "agent_env \<Rightarrow> A2ATaskRequest \<Rightarrow> string option \<Rightarrow> (agent, A2ATaskResult + CorrelateInput \<times> pyfloat) em" where
  "execute_begin E q trace_id =
     (let failed = (\<lambda>status code message retryable.
            ebind (elift (failed_request q trace_id status code message retryable)) (\<lambda>r. eret (Inl r))) in
      if tq_skill_id q \<noteq> SKILL_ID
      then failed A2A_FAILED ''validation_error'' (''unsupported skill_id '' @ repr_str (tq_skill_id q) @
        ''; expected '' @ repr_str SKILL_ID) False
      else ebind (eget ag_cancelled) (\<lambda>cancelled.
        if tq_task_id q \<in> set cancelled then failed A2ATaskStatus.A2A_CANCELLED ''cancelled'' ''task was cancelled'' False
        else ebind (agent_tick (ae_clock E)) (\<lambda>now.
          if tq_deadline q \<le> now then failed A2A_TIMEOUT ''timeout'' ''deadline already exceeded'' True
          else (case read_inputs E q trace_id of
              None \<Rightarrow> failed A2A_FAILED ''validation_error''
                (''invalid skill inputs: '' @ ae_invalid E (tq_inputs q)) False
            | Some i \<Rightarrow> ethen (efor ALLOWED_MCP_TOOLS (\<lambda>tool. elift (assert_read_only tool)))
                (eret (Inr (i, skill_timeout q now)))))))"

text \<open>After the wait.\<close>

definition execute_end ::
  "agent_env \<Rightarrow> A2ATaskRequest \<Rightarrow> string option \<Rightarrow> CorrelateInput \<times> pyfloat \<Rightarrow> waited \<Rightarrow> A2ATaskResult presult" where
  "execute_end E q trace_id work w = (case work of (i, tmo) \<Rightarrow> (case w of
       TimedOut \<Rightarrow> failed_request q trace_id A2A_TIMEOUT ''timeout''
         (''skill '' @ SKILL_ID @ '' exceeded timeout of '' @ fixed1 tmo @ ''s'') True
     | Interrupted \<Rightarrow> failed_request q trace_id A2ATaskStatus.A2A_CANCELLED ''cancelled'' ''task was cancelled'' False
     | Done \<Rightarrow> rbind (correlate_local (ae_py E) i) (\<lambda>out.
         validate_A2ATaskResult \<lparr>tr_task_id = tq_task_id q, tr_run_id = tq_run_id q,
           tr_tenant_id = Some (tq_tenant_id q), tr_status = A2A_COMPLETED, tr_output = Some (output_dump out),
           tr_artifacts = [], tr_error = None, tr_trace_id = trace_id,
           tr_correlation_id = tq_correlation_id q\<rparr>)))"

definition execute_task :: "agent_env \<Rightarrow> A2ATaskRequest \<Rightarrow> string option \<Rightarrow> (agent, A2ATaskResult) em" where
  "execute_task E q trace_id = ebind (execute_begin E q trace_id) (\<lambda>x. case x of
       Inl r \<Rightarrow> eret r
     | Inr work \<Rightarrow> ebind (agent_tick (ae_wait E)) (\<lambda>w. elift (execute_end E q trace_id work w)))"

section \<open>Routes\<close>

text \<open>An \<^verbatim>\<open>HTTPException\<close> whose detail is an \<^verbatim>\<open>ErrorEnvelope\<close>; the envelope is checked when it is made.\<close>

definition envelope_error :: "agent_env \<Rightarrow> nat \<Rightarrow> ErrorCode \<Rightarrow> string \<Rightarrow> 'a presult" where
  "envelope_error E status code message =
     (case validate_ErrorEnvelope (ae_py E) \<lparr>ee_code = code, ee_message = message, ee_run_id = None,
        ee_tenant_id = None, ee_retryable = False, ee_details = None, ee_trace_id = None,
        ee_correlation_id = None\<rparr> of
      Inl e \<Rightarrow> Inl e
    | Inr v \<Rightarrow> Inl (HttpExc EOther ''HTTPException'' (ee_message v) (ErrorCode_value code) status))"

definition caller_tenant :: "agent_env \<Rightarrow> string \<Rightarrow> (agent, string option) em" where
  "caller_tenant E authz =
     (if authz = [] then
        if getenv_or (ae_auth E) ''AUTH_MODE'' ''mock'' = ''oidc''
        then elift (envelope_error E 401 AUTH_ERROR ''missing bearer token'')
        else eret None
      else etry (ebind (on_agent_auth (resolve_identity (ae_auth E) authz)) (\<lambda>i. eret (Some (id_tenant_id i))))
        (\<lambda>e. if exc_name e = ''IdentityError'' then elift (envelope_error E (exc_status e) AUTH_ERROR (exc_msg e))
             else eraise e))"

definition enforce_task_tenant :: "agent_env \<Rightarrow> string option \<Rightarrow> string option \<Rightarrow> unit presult" where
  "enforce_task_tenant E caller task =
     (case caller of None \<Rightarrow> Inr ()
      | Some c \<Rightarrow> if (case task of Some t \<Rightarrow> t | None \<Rightarrow> []) \<noteq> c
          then envelope_error E 404 NOT_FOUND ''task not found'' else Inr ())"

text \<open>A body that the contract refuses is answered by the framework with 422.\<close>

definition request_body :: "A2ATaskRequest \<Rightarrow> A2ATaskRequest presult" where
  "request_body q = (case validate_A2ATaskRequest q of Inr v \<Rightarrow> Inr v
     | Inl _ \<Rightarrow> Inl (HttpExc EOther ''RequestValidationError'' ''request body'' ''validation_error'' 422))"

text \<open>A request that waits for its correlation.\<close>

record flight =
  fl_request :: A2ATaskRequest
  fl_trace_id :: "string option"
  fl_work :: "CorrelateInput \<times> pyfloat"

definition finish_task :: "agent_env \<Rightarrow> A2ATaskRequest \<Rightarrow> A2ATaskResult \<Rightarrow> (agent, A2ATaskResult) em" where
  "finish_task E q result = ethen (store_put E (tq_task_id q) result (Some q)) (eret result)"

definition start_task :: "agent_env \<Rightarrow> A2ATaskRequest \<Rightarrow> string option \<Rightarrow> (agent, A2ATaskResult + flight) em" where
  "start_task E q trace_id = ebind (execute_begin E q trace_id) (\<lambda>x. case x of
       Inl r \<Rightarrow> ebind (finish_task E q r) (\<lambda>r. eret (Inl r))
     | Inr work \<Rightarrow> eret (Inr \<lparr>fl_request = q, fl_trace_id = trace_id, fl_work = work\<rparr>))"

definition create_begin ::
  "agent_env \<Rightarrow> string \<Rightarrow> A2ATaskRequest \<Rightarrow> string option \<Rightarrow> (agent, A2ATaskResult + flight) em" where
  "create_begin E authz request traceparent =
     ebind (elift (request_body request)) (\<lambda>q.
     ebind (caller_tenant E authz) (\<lambda>caller.
     ethen (elift (enforce_task_tenant E caller (Some (tq_tenant_id q))))
     (ebind (store_get (tq_task_id q)) (\<lambda>stored. case stored of
        Some r \<Rightarrow> ethen (elift (enforce_task_tenant E caller (tr_tenant_id r))) (eret (Inl r))
      | None \<Rightarrow> start_task E q (fst (resolve_trace q traceparent))))))"

definition create_end :: "agent_env \<Rightarrow> flight \<Rightarrow> waited \<Rightarrow> (agent, A2ATaskResult) em" where
  "create_end E fl w =
     ebind (elift (execute_end E (fl_request fl) (fl_trace_id fl) (fl_work fl) w)) (finish_task E (fl_request fl))"

text \<open>The route, when nothing else is served during the wait.\<close>

definition create_task :: "agent_env \<Rightarrow> string \<Rightarrow> A2ATaskRequest \<Rightarrow> string option \<Rightarrow> (agent, A2ATaskResult) em" where
  "create_task E authz request traceparent =
     ebind (elift (request_body request)) (\<lambda>q.
     ebind (caller_tenant E authz) (\<lambda>caller.
     ethen (elift (enforce_task_tenant E caller (Some (tq_tenant_id q))))
     (ebind (store_get (tq_task_id q)) (\<lambda>stored. case stored of
        Some r \<Rightarrow> ethen (elift (enforce_task_tenant E caller (tr_tenant_id r))) (eret r)
      | None \<Rightarrow> ebind (execute_task E q (fst (resolve_trace q traceparent))) (finish_task E q)))))"

definition get_task :: "agent_env \<Rightarrow> string \<Rightarrow> string \<Rightarrow> (agent, A2ATaskResult) em" where
  "get_task E authz task_id =
     ebind (store_get task_id) (\<lambda>stored. case stored of
       None \<Rightarrow> elift (envelope_error E 404 NOT_FOUND (''task '' @ task_id @ '' not found''))
     | Some r \<Rightarrow> ebind (caller_tenant E authz) (\<lambda>caller.
         ethen (elift (enforce_task_tenant E caller (tr_tenant_id r))) (eret r)))"

definition record_cancel :: "agent_env \<Rightarrow> string \<Rightarrow> string option \<Rightarrow> (agent, A2ATaskResult) em" where
  "record_cancel E task_id tenant =
     ethen (emod (\<lambda>s. s\<lparr>ag_cancelled := List.insert task_id (ag_cancelled s)\<rparr>))
     (ebind (elift (error_result task_id A2ATaskStatus.A2A_CANCELLED ''cancelled'' ''task was cancelled'' False None
        tenant None None))
       (\<lambda>result. ethen (store_put E task_id result None) (eret result)))"

definition cancel_task :: "agent_env \<Rightarrow> string \<Rightarrow> string \<Rightarrow> (agent, A2ATaskResult) em" where
  "cancel_task E authz task_id =
     ebind (caller_tenant E authz) (\<lambda>caller.
     ebind (store_get task_id) (\<lambda>existing. case existing of
       None \<Rightarrow> record_cancel E task_id caller
     | Some r \<Rightarrow> ethen (elift (enforce_task_tenant E caller (tr_tenant_id r)))
         (if tr_status r = A2A_COMPLETED then eret r else record_cancel E task_id (tr_tenant_id r))))"

end
