(* ===== verification/AgentProps.thy ===== *)
theory AgentProps
  imports Agent
begin

text \<open>
  The correlation of the specialist: for every valid input it returns an output within its contract.
\<close>

section \<open>Text\<close>

lemma length_strip: "length (strip s) \<le> length s"
  using length_dropWhile_le [of is_space "rev (dropWhile is_space s)"] length_dropWhile_le [of is_space s]
  by (simp add: strip_def)

lemma strip_ends: "s \<noteq> [] \<Longrightarrow> \<not> is_space (hd s) \<Longrightarrow> \<not> is_space (last s) \<Longrightarrow> strip s = s"
  by (simp add: strip_def dropWhile_eq_self_iff [THEN iffD2] hd_rev)

lemma strip_nonempty: "\<exists>c \<in> set s. \<not> is_space c \<Longrightarrow> strip s \<noteq> []"
  by (induction s) (auto simp: strip_def dropWhile_append)

lemma ident_ends:
  assumes "ident s" shows "s \<noteq> []" "\<not> is_space (hd s)" "\<not> is_space (last s)" "length s \<le> 128"
  using assms by (cases s; auto simp: ident_def id_pattern_def len_in_def list_all_iff dest!: space_not_id_char)+

lemma strip_before_ident:
  assumes "ident t" and "p \<noteq> []" and "\<not> is_space (hd p)" shows "strip (p @ t) = p @ t"
  using ident_ends [OF assms(1)] assms(2,3) by (intro strip_ends) auto

lemma length_nat_str: "n < 100 \<Longrightarrow> length (nat_str n) \<le> 2"
  by (subst nat_str.simps) (auto simp: nat_str.simps [of "n div 10"])

section \<open>Confidence\<close>

lemma clamp95_range: "0 \<le> clamp95 x" "clamp95 x \<le> 95 / 100"
  by (simp_all add: clamp95_def min_le_iff_disj)

lemma clamp95_ge: "c \<le> x \<Longrightarrow> c \<le> 95 / 100 \<Longrightarrow> c \<le> clamp95 x"
  by (simp add: clamp95_def)

lemma det_conf_range:
  "0 \<le> deterministic_confidence E service salt" "deterministic_confidence E service salt \<le> 999 / 1000"
proof -
  let ?n = "foldl (\<lambda>n c. 16 * n + hex_digit_value c) 0 (take 8 (sha256_hexdigest E (service @ '':'' @ salt))) mod 1000"
  show "0 \<le> deterministic_confidence E service salt" by (simp add: deterministic_confidence_def)
  have "?n \<le> 999" by simp
  then have "rat_of_nat ?n \<le> 999" by (metis of_nat_le_iff of_nat_numeral)
  then show "deterministic_confidence E service salt \<le> 999 / 1000"
    by (simp add: deterministic_confidence_def Let_def)
qed

lemma refs_confidence_range:
  "0 \<le> refs_confidence E s salt low refs" "refs_confidence E s salt low refs \<le> 95 / 100"
proof -
  let ?x = "clamp95 (low + 2 / 10 * of_nat (min (length refs) 2) / 2 + (deterministic_confidence E s salt - 5 / 10) * (6 / 100))"
  have "0 \<le> ?x" by (rule clamp95_range)
  have "?x \<le> rat_of_int 95 / 10 ^ 2" using clamp95_range(2) by simp
  from py_round_nonneg [OF \<open>0 \<le> ?x\<close>] py_round_le [OF this]
  show "0 \<le> refs_confidence E s salt low refs" "refs_confidence E s salt low refs \<le> 95 / 100"
    by (simp_all add: refs_confidence_def Let_def)
qed

lemma metric_confidence:
  assumes "refs \<noteq> []" shows "6 / 10 \<le> refs_confidence E s salt (55 / 100) refs"
proof -
  have n: "1 \<le> rat_of_nat (min (length refs) 2)" using assms by (cases refs) (simp_all add: min_def)
  let ?x = "55 / 100 + 2 / 10 * of_nat (min (length refs) 2) / 2 + (deterministic_confidence E s salt - 5 / 10) * (6 / 100)"
  have "60 / 100 \<le> ?x" using n det_conf_range(1) [of E s salt] by (simp add: field_simps)
  then have "rat_of_int 60 / 10 ^ 2 \<le> clamp95 ?x" by (intro clamp95_ge) simp_all
  from py_round_ge [OF this] show ?thesis by (simp add: refs_confidence_def Let_def)
qed

lemma deploy_confidence:
  "0 \<le> cf_confidence (deploy_finding E i t)" "cf_confidence (deploy_finding E i t) \<le> 58 / 100"
proof -
  let ?x = "55 / 100 + (deterministic_confidence E (ci_service i) ''deploy'' - 5 / 10) * (6 / 100)"
  show "0 \<le> cf_confidence (deploy_finding E i t)" by (simp add: deploy_finding_def Let_def)
  have "?x \<le> rat_of_int 58 / 10 ^ 2" using det_conf_range(2) [of E "ci_service i" "''deploy''"] by (simp add: field_simps)
  from py_round_le [OF this] show "cf_confidence (deploy_finding E i t) \<le> 58 / 100"
    by (simp add: deploy_finding_def Let_def min_le_iff_disj)
qed

section \<open>Findings within their contract\<close>

lemma valid_input:
  assumes "validate_CorrelateInput c = Inr i"
  shows "ident (ci_service i)" "length (ci_metrics_refs i) \<le> 64" "length (ci_logs_refs i) \<le> 64"
    "list_all (len_in 1 2048) (ci_metrics_refs i)" "list_all (len_in 1 2048) (ci_logs_refs i)"
    "map strip (ci_metrics_refs i) = ci_metrics_refs i" "map strip (ci_logs_refs i) = ci_logs_refs i"
    "ostrip (ci_trace_id i) = ci_trace_id i" "ostrip (ci_correlation_id i) = ci_correlation_id i"
    "opt_len_in 0 128 (ci_trace_id i)" "opt_len_in 0 128 (ci_correlation_id i)"
  using assms by (auto simp: validate_CorrelateInput_def Let_def ref_caps_def)

text \<open>A finding of the code passes its contract; only its summary may lose surrounding spaces.\<close>

definition stripped :: "CorrelateFinding \<Rightarrow> CorrelateFinding" where
  "stripped f = f\<lparr>cf_summary := strip (cf_summary f)\<rparr>"

lemma finding_valid:
  assumes "strip (cf_title f) = cf_title f" "length (cf_title f) \<le> 256" "cf_title f \<noteq> []"
    and "\<exists>c \<in> set (cf_summary f). \<not> is_space c" "length (cf_summary f) \<le> 4000"
    and "map strip (cf_evidence_refs f) = cf_evidence_refs f" "cf_evidence_refs f \<noteq> []" "length (cf_evidence_refs f) \<le> 64"
    and "0 \<le> cf_confidence f" "cf_confidence f \<le> 1"
  shows "validate_CorrelateFinding f = Inr (stripped f)"
proof -
  have "length (strip (cf_summary f)) \<le> 4000" using length_strip [of "cf_summary f"] assms(5) by simp
  with strip_nonempty [OF assms(4)] assms show ?thesis
    by (simp add: validate_CorrelateFinding_def Let_def len_in_def stripped_def Suc_le_eq)
qed

lemma all_results_Inr:
  "\<forall>x \<in> set xs. f x = Inr (g x) \<Longrightarrow> all_results (map f xs) = Inr (map g xs)"
  by (induction xs) (simp_all add: all_results_def)

definition raw_findings_of :: "pyenv \<Rightarrow> CorrelateInput \<Rightarrow> CorrelateFinding list" where
  "raw_findings_of E i =
     (if ci_metrics_refs i \<noteq> [] then [metric_finding E i] else []) @
     (if ci_logs_refs i \<noteq> [] then [log_finding E i] else []) @
     (if deploy_text i \<noteq> [] \<and> release_marker i then [deploy_finding E i (deploy_text i)] else [])"

lemma map_strip_take: "map strip xs = xs \<Longrightarrow> map strip (take n xs) = take n xs"
  by (metis take_map)

lemma metric_finding_valid:
  assumes "validate_CorrelateInput c = Inr i" and "\<And>t. length (isoformat E t) \<le> 64" and "ci_metrics_refs i \<noteq> []"
  shows "validate_CorrelateFinding (metric_finding E i) = Inr (stripped (metric_finding E i))"
proof (rule finding_valid)
  note v = valid_input [OF assms(1)] and e = ident_ends [OF valid_input(1) [OF assms(1)]]
  show "strip (cf_title (metric_finding E i)) = cf_title (metric_finding E i)"
    using strip_before_ident [OF v(1), of "''Metric anomaly in ''"] by (simp add: metric_finding_def is_space_def)
  show "length (cf_title (metric_finding E i)) \<le> 256" using e by (simp add: metric_finding_def)
  show "\<exists>c \<in> set (cf_summary (metric_finding E i)). \<not> is_space c"
    by (rule bexI [of _ "CHR ''C''"]) (simp_all add: metric_finding_def is_space_def)
  show "length (cf_summary (metric_finding E i)) \<le> 4000"
    using e(4) length_nat_str [of "length (ci_metrics_refs i)"] v(2) assms(2) [of "tw_start (ci_window i)"]
      assms(2) [of "tw_end (ci_window i)"] by (simp add: metric_finding_def)
qed (use refs_confidence_range valid_input [OF assms(1)] assms(3) in
    \<open>auto simp: metric_finding_def map_strip_take intro: order_trans [OF refs_confidence_range(2)]\<close>)

lemma log_finding_valid:
  assumes "validate_CorrelateInput c = Inr i" and "ci_logs_refs i \<noteq> []"
  shows "validate_CorrelateFinding (log_finding E i) = Inr (stripped (log_finding E i))"
proof (rule finding_valid)
  note v = valid_input [OF assms(1)] and e = ident_ends [OF valid_input(1) [OF assms(1)]]
  show "strip (cf_title (log_finding E i)) = cf_title (log_finding E i)"
    using strip_before_ident [OF v(1), of "''Log error pattern in ''"] by (simp add: log_finding_def is_space_def)
  show "length (cf_title (log_finding E i)) \<le> 256" using e by (simp add: log_finding_def)
  show "\<exists>c \<in> set (cf_summary (log_finding E i)). \<not> is_space c"
    by (rule bexI [of _ "CHR ''C''"]) (simp_all add: log_finding_def is_space_def)
  show "length (cf_summary (log_finding E i)) \<le> 4000"
    using e(4) length_nat_str [of "length (ci_logs_refs i)"] v(3) by (simp add: log_finding_def)
qed (use refs_confidence_range valid_input [OF assms(1)] assms(2) in
    \<open>auto simp: log_finding_def map_strip_take intro: order_trans [OF refs_confidence_range(2)]\<close>)

lemma deploy_finding_valid:
  assumes "validate_CorrelateInput c = Inr i"
  shows "validate_CorrelateFinding (deploy_finding E i t) = Inr (stripped (deploy_finding E i t))"
proof (rule finding_valid)
  note v = valid_input [OF assms] and e = ident_ends [OF valid_input(1) [OF assms]]
  let ?f = "deploy_finding E i t"
  show "strip (cf_title ?f) = cf_title ?f"
    using strip_before_ident [OF v(1), of "''Recent deployment correlates with symptoms in ''"]
    by (simp add: deploy_finding_def Let_def is_space_def)
  show "length (cf_title ?f) \<le> 256" using e by (simp add: deploy_finding_def Let_def)
  show "\<exists>c \<in> set (cf_summary ?f). \<not> is_space c"
    by (rule bexI [of _ "CHR ''D''"]) (simp_all add: deploy_finding_def Let_def is_space_def)
  show "length (cf_summary ?f) \<le> 4000"
    by (simp add: deploy_finding_def Let_def sanitize_for_evidence_def)
  have "strip ''deploy_state'' = ''deploy_state''" by code_simp
  then show "map strip (cf_evidence_refs ?f) = cf_evidence_refs ?f"
    using v(6) by (auto simp: deploy_finding_def Let_def split: list.splits)
  show "0 \<le> cf_confidence ?f" by (rule deploy_confidence)
  show "cf_confidence ?f \<le> 1" using deploy_confidence(2) [of E i t] by simp
qed (simp_all add: deploy_finding_def Let_def split: list.splits)

lemma correlate_findings_valid:
  assumes "validate_CorrelateInput c = Inr i" and "\<And>t. length (isoformat E t) \<le> 64"
  shows "correlate_findings E i = Inr (map stripped (raw_findings_of E i))"
  unfolding correlate_findings_def raw_findings_of_def
  using metric_finding_valid [OF assms] log_finding_valid [OF assms(1)] deploy_finding_valid [OF assms(1)]
  by (intro all_results_Inr) auto

section \<open>The cause that is named\<close>

lemma best_finding:
  "best_finding b fs \<in> set (b # fs) \<and> (\<forall>f \<in> set (b # fs). cf_confidence f \<le> cf_confidence (best_finding b fs))"
  by (induction b fs rule: best_finding.induct) (auto split: if_splits)

lemma probable_cause_eq:
  "probable_cause fs = Some t \<Longrightarrow>
     \<exists>f \<in> set fs. cf_title f = t \<and> 6 / 10 \<le> cf_confidence f \<and> (\<forall>g \<in> set fs. cf_confidence g \<le> cf_confidence f)"
  using best_finding [of "hd fs" "tl fs"]
  by (auto simp: probable_cause_def Let_def split: list.splits if_splits)

lemma probable_cause_none: "probable_cause fs = None \<longleftrightarrow> (\<forall>f \<in> set fs. cf_confidence f < 6 / 10)"
  using best_finding [of "hd fs" "tl fs"]
  by (cases fs) (force simp: probable_cause_def Let_def)+

lemma question_ok:
  assumes "ident (ci_service i)" and "q \<in> set (open_questions i)"
  shows "strip q = q \<and> len_in 1 1000 q"
proof -
  have "strip q = q" if "hd q \<in> {CHR ''R'', CHR ''d'', CHR ''N''}" "last q \<in> {CHR ''.''}" "q \<noteq> []"
    using that by (intro strip_ends) (auto simp: is_space_def)
  moreover have "hd q \<in> {CHR ''R'', CHR ''d'', CHR ''N''} \<and> last q \<in> {CHR ''.''} \<and> q \<noteq> [] \<and> length q \<le> 1000"
    using assms(2) ident_ends(4) [OF assms(1)] by (auto simp: open_questions_def split: if_splits)
  ultimately show ?thesis by (auto simp: len_in_def Suc_le_eq)
qed

lemma length_open_questions: "length (open_questions i) \<le> 3"
  by (simp add: open_questions_def)

text \<open>The correlation of a valid input returns, with these findings, this cause and these questions.\<close>

lemma correlate_returns:
  assumes "validate_CorrelateInput c = Inr i" and "\<And>t. length (isoformat E t) \<le> 64"
  defines "fs \<equiv> map stripped (raw_findings_of E i)"
  shows "\<exists>out. correlate_local E i = Inr out \<and> validate_CorrelateOutput out = Inr out \<and> co_findings out = fs \<and>
    co_probable_cause out = probable_cause fs \<and> set (open_questions i) \<subseteq> set (co_unresolved_questions out)"
proof -
  note v = valid_input [OF assms(1)]
  let ?low = "''Confidence below 0.6; probable cause withheld pending more evidence.''"
  let ?q = "open_questions i @ (if fs \<noteq> [] \<and> probable_cause fs = None then [?low] else [])"
  let ?out = "\<lparr>co_findings = fs, co_probable_cause = probable_cause fs, co_unresolved_questions = ?q,
    co_trace_id = ci_trace_id i, co_correlation_id = ci_correlation_id i\<rparr>"
  have low: "strip ?low = ?low" by code_simp
  have q: "\<forall>q \<in> set ?q. strip q = q \<and> len_in 1 1000 q"
    using question_ok [OF v(1)] low by (auto simp: len_in_def)
  then have "map strip ?q = ?q" by (simp only: map_idI)
  moreover have t: "strip t = t \<and> len_in 0 2000 t" if "probable_cause fs = Some t" for t
  proof -
    from probable_cause_eq [OF that] obtain f where f: "f \<in> set fs" "cf_title f = t" by blast
    moreover have "validate_CorrelateFinding f = Inr f" if "f \<in> set fs" for f
    proof -
      from that obtain g where "g \<in> set (raw_findings_of E i)" "f = stripped g" by (auto simp: fs_def)
      moreover from this(1) have "validate_CorrelateFinding g = Inr (stripped g)"
        using metric_finding_valid [OF assms(1,2)] log_finding_valid [OF assms(1)] deploy_finding_valid [OF assms(1)]
        by (auto simp: raw_findings_of_def split: if_splits)
      ultimately show ?thesis by (auto simp: validate_CorrelateFinding_def Let_def comp_def)
    qed
    ultimately have "validate_CorrelateFinding f = Inr f" by blast
    then have "strip (cf_title f) = cf_title f \<and> length (cf_title f) \<le> 256"
      by (auto simp: validate_CorrelateFinding_def Let_def len_in_def dest!: arg_cong [of _ _ cf_title])
    with f(2) show ?thesis by (simp add: len_in_def)
  qed
  moreover have n: "length ?q \<le> 32" using length_open_questions [of i] by simp
  moreover have "length fs \<le> 32" by (simp add: fs_def raw_findings_of_def)
  ultimately have ok: "validate_CorrelateOutput ?out = Inr ?out"
    using v q by (cases "probable_cause fs") (simp_all add: validate_CorrelateOutput_def Let_def opt_len_in_def list_all_iff)
  have "correlate_local E i = validate_CorrelateOutput ?out"
    using n correlate_findings_valid [OF assms(1,2)]
    by (simp add: correlate_local_def fs_def rbind_def Let_def del: take_append)
  with ok show ?thesis by (intro exI [of _ ?out]) simp
qed

lemma raw_finding_range:
  "0 \<le> cf_confidence (metric_finding E i)" "cf_confidence (metric_finding E i) \<le> 19 / 20"
  "0 \<le> cf_confidence (log_finding E i)" "cf_confidence (log_finding E i) \<le> 19 / 20"
  "0 \<le> cf_confidence (deploy_finding E i t)" "cf_confidence (deploy_finding E i t) \<le> 19 / 20"
  using refs_confidence_range deploy_confidence [of E i t]
  by (simp_all add: metric_finding_def log_finding_def)

lemma metric_confident: "ci_metrics_refs i \<noteq> [] \<Longrightarrow> 6 / 10 \<le> cf_confidence (metric_finding E i)"
  using metric_confidence by (simp add: metric_finding_def)

lemma raw_finding_evidence:
  "ci_metrics_refs i \<noteq> [] \<Longrightarrow> cf_evidence_refs (metric_finding E i) \<noteq> []"
  "ci_logs_refs i \<noteq> [] \<Longrightarrow> cf_evidence_refs (log_finding E i) \<noteq> []"
  "cf_evidence_refs (deploy_finding E i t) \<noteq> []"
  "r \<in> set (cf_evidence_refs (metric_finding E i)) \<Longrightarrow> r \<in> set (ci_metrics_refs i)"
  "r \<in> set (cf_evidence_refs (log_finding E i)) \<Longrightarrow> r \<in> set (ci_logs_refs i)"
  "r \<in> set (cf_evidence_refs (deploy_finding E i t)) \<Longrightarrow> r = ''deploy_state'' \<or> r \<in> set (ci_metrics_refs i)"
  by (auto simp: metric_finding_def log_finding_def deploy_finding_def Let_def dest: in_set_takeD split: list.splits)

text \<open>C29. The correlation stays within its contract: for every valid input it returns an output that its
  own contract accepts, with at most three findings, each with evidence taken from the references
  of the request (or the marker of the deployment state) and a confidence between 0 and 0.95. A
  cause is named when and only when a finding reaches 0.6, and it is the title of the most
  confident one; a metric reference is enough for it and the deployment alone never is. Text that
  looks like an instruction leaves a question.\<close>

theorem correlation_within_contract:
  assumes "validate_CorrelateInput c = Inr i" and "\<And>t. length (isoformat E t) \<le> 64"
  shows "\<exists>out. correlate_local E i = Inr out \<and> validate_CorrelateOutput out = Inr out \<and> length (co_findings out) \<le> 3 \<and>
    (\<forall>f \<in> set (co_findings out). cf_evidence_refs f \<noteq> [] \<and>
       set (cf_evidence_refs f) \<subseteq> set (ci_metrics_refs i) \<union> set (ci_logs_refs i) \<union> {''deploy_state''} \<and>
       0 \<le> cf_confidence f \<and> cf_confidence f \<le> 95 / 100) \<and>
    (case co_probable_cause out of
       None \<Rightarrow> ci_metrics_refs i = [] \<and> (\<forall>f \<in> set (co_findings out). cf_confidence f < 6 / 10)
     | Some t \<Rightarrow> (ci_metrics_refs i \<noteq> [] \<or> ci_logs_refs i \<noteq> []) \<and> (\<exists>f \<in> set (co_findings out).
         cf_title f = t \<and> 6 / 10 \<le> cf_confidence f \<and>
         (\<forall>g \<in> set (co_findings out). cf_confidence g \<le> cf_confidence f))) \<and>
    (suspicious i \<longrightarrow> co_unresolved_questions out \<noteq> [])"
proof -
  let ?fs = "map stripped (raw_findings_of E i)"
  obtain out where out: "correlate_local E i = Inr out" "validate_CorrelateOutput out = Inr out"
      "co_findings out = ?fs" "co_probable_cause out = probable_cause ?fs"
      "set (open_questions i) \<subseteq> set (co_unresolved_questions out)"
    using correlate_returns [OF assms] by blast
  have "length ?fs \<le> 3" by (simp add: raw_findings_of_def)
  moreover have "\<forall>f \<in> set ?fs. cf_evidence_refs f \<noteq> [] \<and>
       set (cf_evidence_refs f) \<subseteq> set (ci_metrics_refs i) \<union> set (ci_logs_refs i) \<union> {''deploy_state''} \<and>
       0 \<le> cf_confidence f \<and> cf_confidence f \<le> 95 / 100"
    using raw_finding_range(1-4) [of E i] raw_finding_range(5,6) [of E i "deploy_text i"] raw_finding_evidence(1-3)
    by (auto simp: raw_findings_of_def stripped_def dest: raw_finding_evidence(4-6))
  moreover have "ci_metrics_refs i = []" if "probable_cause ?fs = None"
  proof (rule ccontr)
    assume "ci_metrics_refs i \<noteq> []"
    moreover from this have "stripped (metric_finding E i) \<in> set ?fs" by (simp add: raw_findings_of_def)
    with that have "cf_confidence (stripped (metric_finding E i)) < 6 / 10" by (simp only: probable_cause_none)
    ultimately show False using metric_confident [of i E] by (simp add: stripped_def)
  qed
  moreover have "ci_metrics_refs i \<noteq> [] \<or> ci_logs_refs i \<noteq> []" if "probable_cause ?fs = Some t" for t
    using probable_cause_eq [OF that] deploy_confidence(2) [of E i "deploy_text i"]
    by (auto simp: raw_findings_of_def stripped_def split: if_splits)
  moreover have "suspicious i \<Longrightarrow> co_unresolved_questions out \<noteq> []" using out(5) by (auto simp: open_questions_def)
  ultimately show ?thesis using out probable_cause_eq [of ?fs] probable_cause_none [of ?fs]
    by (intro exI [of _ out]) (auto split: option.splits)
qed

end
