(* ===== verification/AgentSteps.thy ===== *)
theory AgentSteps
  imports AgentProps
begin

text \<open>
  The specialist as a state machine: requests and the ends of their waits in any order. Its answers stay
  with the tenant of the caller, what it stores is a checked, final result, a task that waits is
  answered, and a completed task is final.
\<close>

section \<open>Results\<close>

text \<open>A final result: checked by its contract, with an output if and only if it is completed, and with an
  error otherwise.\<close>

definition final :: "A2ATaskResult \<Rightarrow> bool" where
  "final r \<longleftrightarrow> validate_A2ATaskResult r = Inr r \<and>
     tr_status r \<in> {A2A_COMPLETED, A2A_FAILED, A2A_TIMEOUT, A2ATaskStatus.A2A_CANCELLED} \<and>
     (tr_output r \<noteq> None \<longleftrightarrow> tr_status r = A2A_COMPLETED) \<and> (tr_error r = None \<longleftrightarrow> tr_status r = A2A_COMPLETED)"

lemma strip_error_again [simp]: "strip_A2ATaskError (strip_A2ATaskError e) = strip_A2ATaskError e"
  by (simp add: strip_A2ATaskError_def)

lemma validated_result:
  assumes "validate_A2ATaskResult r0 = Inr r"
  shows "validate_A2ATaskResult r = Inr r" "tr_task_id r = strip (tr_task_id r0)" "tr_tenant_id r = ostrip (tr_tenant_id r0)"
    "tr_status r = tr_status r0" "tr_output r = tr_output r0" "tr_error r = map_option strip_A2ATaskError (tr_error r0)"
    "ident (tr_task_id r)"
  using assms by (auto simp: validate_A2ATaskResult_def Let_def option.map_comp comp_def split: option.splits)

lemma error_result_ok:
  assumes "error_result k st code m retryable rid tenant tr corr = Inr r"
    and "st \<in> {A2A_FAILED, A2A_TIMEOUT, A2ATaskStatus.A2A_CANCELLED}"
  shows "final r" "tr_task_id r = strip k" "tr_tenant_id r = ostrip tenant" "tr_status r = st"
  using assms validated_result [OF assms(1) [unfolded error_result_def Let_def]] by (auto simp: final_def)

lemma failed_request_ok:
  assumes "failed_request q trace st code m retryable = Inr r"
    and "st \<in> {A2A_FAILED, A2A_TIMEOUT, A2ATaskStatus.A2A_CANCELLED}"
  shows "final r \<and> tr_task_id r = strip (tq_task_id q) \<and> tr_tenant_id r = Some (strip (tq_tenant_id q)) \<and> tr_status r = st"
  using error_result_ok [OF assms(1) [unfolded failed_request_def] assms(2)] by simp

lemma execute_end_ok:
  assumes "execute_end E q trace work w = Inr r"
  shows "final r \<and> tr_task_id r = strip (tq_task_id q) \<and> tr_tenant_id r = Some (strip (tq_tenant_id q))"
proof (cases w)
  case Done
  with assms obtain out r0 where v: "validate_A2ATaskResult r0 = Inr r" and "tr_task_id r0 = tq_task_id q"
      "tr_tenant_id r0 = Some (tq_tenant_id q)" "tr_status r0 = A2A_COMPLETED"
      "tr_output r0 = Some (output_dump out)" "tr_error r0 = None"
    by (auto simp: execute_end_def rbind_Inr_iff split: prod.splits)
  with validated_result [OF v] show ?thesis by (simp add: final_def)
qed (use assms in \<open>auto simp: execute_end_def split: prod.splits dest!: failed_request_ok\<close>)

section \<open>What the operations leave alone\<close>

definition same_tasks :: "agent \<Rightarrow> agent \<Rightarrow> bool" where
  "same_tasks s t \<longleftrightarrow> ag_tasks t = ag_tasks s \<and> ag_cancelled t = ag_cancelled s"

interpretation tasks: step_relation same_tasks
  by unfold_locales (auto simp: same_tasks_def)

lemma suppress_tasks: "obeys same_tasks m \<Longrightarrow> obeys same_tasks (suppress p m)"
  by (auto simp: suppress_def intro!: tasks.obeys_intros)

lemma prim_tasks:
  "obeys same_tasks (agent_tick f)" "obeys same_tasks (on_agent_repo i m)" "obeys same_tasks (on_agent_auth a)"
  by (auto simp: obeys_def agent_tick_def on_agent_repo_def on_agent_auth_def run_simps same_tasks_def split: prod.splits)

lemma persist_tasks: "obeys same_tasks (persist_task E k r q)"
  by (auto simp: persist_task_def intro!: tasks.obeys_intros suppress_tasks prim_tasks split: option.splits)

lemma caller_tasks: "obeys same_tasks (caller_tenant E authz)"
  by (auto simp: caller_tenant_def intro!: tasks.obeys_intros prim_tasks)

lemma begin_tasks: "obeys same_tasks (execute_begin E q trace)"
  by (auto simp: execute_begin_def Let_def intro!: tasks.obeys_intros prim_tasks split: option.splits)

section \<open>The store of tasks\<close>

lemma suppress_all_run: "\<exists>t. suppress_all m s = (Inr (), t)"
  by (auto simp: suppress_def run_simps split: prod.splits sum.splits)

lemma persist_run: "\<exists>t. persist_task E k r q s = (Inr (), t)"
proof -
  have "\<exists>t. ethen (suppress_all m) (case out of None \<Rightarrow> eret () | Some x \<Rightarrow> suppress_all (n x)) s = (Inr (), t)"
    for m :: "(agent, string) em" and n :: "pydict \<Rightarrow> (agent, unit) em" and out s
    using suppress_all_run [of m s] suppress_all_run by (cases out) (fastforce simp: run_simps)+
  then show ?thesis by (auto simp: persist_task_def run_bind run_get run_ret split: option.splits)
qed

lemma finish_run:
  obtains t where "finish_task E q r s = (Inr r, t)" "ag_tasks t = AList.update (tq_task_id q) r (ag_tasks s)"
    "ag_cancelled t = ag_cancelled s"
proof -
  let ?s = "s\<lparr>ag_tasks := AList.update (tq_task_id q) r (ag_tasks s)\<rparr>"
  obtain t where t: "persist_task E (tq_task_id q) r q ?s = (Inr (), t)" using persist_run by blast
  with obeys_eq [OF persist_tasks t] show thesis
    by (intro that [of t]) (simp_all add: finish_task_def store_put_def run_simps same_tasks_def)
qed

section \<open>The routes, case by case\<close>

lemma begin_ok:
  assumes "execute_begin E q trace s = (Inr x, t)"
  shows "case x of
      Inl r \<Rightarrow> final r \<and> tr_task_id r = strip (tq_task_id q) \<and> tr_tenant_id r = Some (strip (tq_tenant_id q)) \<and>
        tr_status r \<noteq> A2A_COMPLETED
    | Inr (i, tmo) \<Rightarrow> (\<exists>c. validate_CorrelateInput c = Inr i) \<and> 1 / 100 \<le> tmo \<and> tmo \<le> 30 \<and>
        tq_skill_id q = SKILL_ID \<and> tq_task_id q \<notin> set (ag_cancelled s)"
proof -
  have inputs: "\<exists>c. validate_CorrelateInput c = Inr i" if "read_inputs E q trace = Some i" for i
    using that by (auto simp: read_inputs_def Let_def split: option.splits sum.splits)
  have tmo: "1 / 100 \<le> skill_timeout q now \<and> skill_timeout q now \<le> 30" for now
    by (simp add: skill_timeout_def SKILL_TIMEOUT_SECONDS_def SKILL_MAX_TIMEOUT_SECONDS_def min_le_iff_disj)
  then have low: "1 \<le> skill_timeout q now * 100" for now by (simp add: field_simps)
  from assms show ?thesis
    unfolding execute_begin_def Let_def
    by (auto simp: run_simps inputs tmo low split: if_splits option.splits sum.splits prod.splits dest!: failed_request_ok)
qed

text \<open>What a request that is authorised has passed.\<close>

lemma valid_request:
  assumes "validate_A2ATaskRequest q0 = Inr q"
  shows "validate_A2ATaskRequest q = Inr q" "ident (tq_task_id q)" "ident (tq_tenant_id q)"
    "opt_len_in 1 128 (tq_run_id q)" "opt_len_in 0 128 (tq_trace_id q)" "opt_len_in 0 128 (tq_correlation_id q)"
    "ostrip (tq_run_id q) = tq_run_id q" "ostrip (tq_correlation_id q) = tq_correlation_id q"
  using assms by (auto simp: validate_A2ATaskRequest_def Let_def)

lemma body_ok:
  assumes "request_body q0 = Inr q"
  shows "validate_A2ATaskRequest q = Inr q" "ident (tq_task_id q)" "ident (tq_tenant_id q)"
  using assms valid_request [of q0 q] by (auto simp: request_body_def split: sum.splits)

lemma body_id: "request_body q0 = Inr q \<Longrightarrow> tq_task_id q = strip (tq_task_id q0)"
  by (auto simp: request_body_def validate_A2ATaskRequest_def Let_def split: sum.splits)

lemma task_tenant_ok:
  "enforce_task_tenant E caller tn = Inr () \<Longrightarrow> caller = Some c \<Longrightarrow> c \<noteq> [] \<Longrightarrow> tn = Some c"
  by (auto simp: enforce_task_tenant_def envelope_error_def split: if_splits option.splits sum.splits)

lemma start_task_cases:
  assumes "start_task E q trace s = (x, t)"
  obtains (failed) e where "x = Inl e" "same_tasks s t"
  | (ended) r where "x = Inr (Inl r)" "ag_tasks t = AList.update (tq_task_id q) r (ag_tasks s)"
      "ag_cancelled t = ag_cancelled s" "final r" "tr_task_id r = strip (tq_task_id q)"
      "tr_tenant_id r = Some (strip (tq_tenant_id q))" "tr_status r \<noteq> A2A_COMPLETED"
  | (waits) fl i where "x = Inr (Inr fl)" "same_tasks s t" "fl_request fl = q" "fl_trace_id fl = trace"
      "validate_CorrelateInput i = Inr (fst (fl_work fl))" "1 / 100 \<le> snd (fl_work fl)" "snd (fl_work fl) \<le> 30"
      "tq_skill_id q = SKILL_ID" "tq_task_id q \<notin> set (ag_cancelled s)"
proof -
  obtain y v where y: "execute_begin E q trace s = (y, v)" by fastforce
  note sv = obeys_eq [OF begin_tasks y]
  show thesis
  proof (cases y)
    case (Inl e)
    with assms y sv show thesis by (intro failed [of e]) (simp_all add: start_task_def run_simps)
  next
    case (Inr z)
    note fin = begin_ok [OF y [unfolded Inr]]
    show thesis
    proof (cases z)
      case (Inl r)
      obtain w where "finish_task E q r v = (Inr r, w)" "ag_tasks w = AList.update (tq_task_id q) r (ag_tasks v)"
        "ag_cancelled w = ag_cancelled v" by (rule finish_run)
      with assms y Inr Inl sv fin show thesis
        by (intro ended [of r]) (simp_all add: start_task_def run_simps same_tasks_def)
    next
      case (Inr work)
      with fin obtain i where "validate_CorrelateInput i = Inr (fst work)" by (cases work) auto
      with assms y \<open>y = Inr z\<close> Inr fin sv show thesis
        by (cases work) (intro waits [of "\<lparr>fl_request = q, fl_trace_id = trace, fl_work = work\<rparr>" i];
            simp add: start_task_def run_simps)
    qed
  qed
qed

text \<open>A request that is admitted gets the stored result, if it is one of its tenant, or is started.\<close>

lemma admitted_begin:
  assumes "request_body q0 = Inr q" and "caller_tenant E authz s = (Inr c, u)"
    and "enforce_task_tenant E c (Some (tq_tenant_id q)) = Inr ()"
  shows "create_begin E authz q0 tp s = (case map_of (ag_tasks s) (tq_task_id q) of
      Some r \<Rightarrow> (case enforce_task_tenant E c (tr_tenant_id r) of Inl e \<Rightarrow> (Inl e, u) | Inr _ \<Rightarrow> (Inr (Inl r), u))
    | None \<Rightarrow> start_task E q (fst (resolve_trace q tp)) u)"
proof -
  have "ag_tasks u = ag_tasks s" using obeys_eq [OF caller_tasks assms(2)] by (simp add: same_tasks_def)
  then show ?thesis
    using assms by (simp add: create_begin_def run_simps store_get_def split: option.splits sum.splits)
qed

text \<open>Taking a request: it fails and stores nothing, gets the stored result, gets a result that is stored with
  the answer, or waits.\<close>

lemma create_begin_cases:
  assumes "create_begin E authz q0 tp s = (x, t)"
  obtains (failed) e where "x = Inl e" "same_tasks s t"
  | (again) q c u r where "x = Inr (Inl r)" "same_tasks s t" "request_body q0 = Inr q"
      "caller_tenant E authz s = (Inr c, u)" "enforce_task_tenant E c (tr_tenant_id r) = Inr ()"
      "map_of (ag_tasks s) (tq_task_id q) = Some r"
  | (ended) q c u r where "x = Inr (Inl r)" "request_body q0 = Inr q" "caller_tenant E authz s = (Inr c, u)"
      "enforce_task_tenant E c (Some (tq_tenant_id q)) = Inr ()" "map_of (ag_tasks s) (tq_task_id q) = None"
      "ag_tasks t = AList.update (tq_task_id q) r (ag_tasks s)" "ag_cancelled t = ag_cancelled s"
      "final r" "tr_task_id r = tq_task_id q" "tr_tenant_id r = Some (tq_tenant_id q)" "tr_status r \<noteq> A2A_COMPLETED"
  | (waits) fl c u i where "x = Inr (Inr fl)" "same_tasks s t" "request_body q0 = Inr (fl_request fl)"
      "caller_tenant E authz s = (Inr c, u)" "enforce_task_tenant E c (Some (tq_tenant_id (fl_request fl))) = Inr ()"
      "map_of (ag_tasks s) (tq_task_id (fl_request fl)) = None" "validate_CorrelateInput i = Inr (fst (fl_work fl))"
      "1 / 100 \<le> snd (fl_work fl)" "snd (fl_work fl) \<le> 30" "tq_skill_id (fl_request fl) = SKILL_ID"
      "tq_task_id (fl_request fl) \<notin> set (ag_cancelled s)"
      "fl_trace_id fl = fst (resolve_trace (fl_request fl) tp)"
proof (cases "request_body q0")
  case (Inl e)
  with assms show thesis by (intro failed [of e]) (auto simp: create_begin_def run_simps same_tasks_def)
next
  case body: (Inr q)
  note q = body_ok [OF body]
  obtain rc u where c: "caller_tenant E authz s = (rc, u)" by fastforce
  note su = obeys_eq [OF caller_tasks c]
  show thesis
  proof (cases "\<exists>c. rc = Inr c \<and> enforce_task_tenant E c (Some (tq_tenant_id q)) = Inr ()")
    case False
    then obtain e where "x = Inl e" "t = u" using assms body c
      by (auto simp: create_begin_def run_simps split: sum.splits)
    with su show thesis by (intro failed) simp_all
  next
    case True
    then obtain c' where c': "rc = Inr c'" "enforce_task_tenant E c' (Some (tq_tenant_id q)) = Inr ()" by blast
    note x = assms [unfolded admitted_begin [OF body c [unfolded c'(1)] c'(2)]]
    show thesis
    proof (cases "map_of (ag_tasks s) (tq_task_id q)")
      case (Some r)
      with x su body c c' show thesis
        by (cases "enforce_task_tenant E c' (tr_tenant_id r)") (auto intro: failed again [of r q c' u])
    next
      case None
      with x have "start_task E q (fst (resolve_trace q tp)) u = (x, t)" by simp
      then show thesis
      proof (cases rule: start_task_cases)
        case (failed e)
        with su show thesis by (intro that(1) [of e]) (simp_all add: same_tasks_def)
      next
        case (ended r)
        with su body c c' None q show thesis by (intro that(3) [of r q c' u]) (simp_all add: same_tasks_def)
      next
        case (waits fl i)
        with su body c c' None show thesis by (intro that(4) [of fl c' u i]) (simp_all add: same_tasks_def)
      qed
    qed
  qed
qed

lemma get_task_cases:
  assumes "get_task E authz k s = (x, t)"
  shows "same_tasks s t" and "x = Inr r \<Longrightarrow>
    \<exists>c u. caller_tenant E authz s = (Inr c, u) \<and> enforce_task_tenant E c (tr_tenant_id r) = Inr ()"
proof -
  have "obeys same_tasks (get_task E authz k)"
    by (auto simp: get_task_def store_get_def intro!: tasks.obeys_intros caller_tasks split: option.splits)
  from obeys_eq [OF this assms] show "same_tasks s t" .
  show "\<exists>c u. caller_tenant E authz s = (Inr c, u) \<and> enforce_task_tenant E c (tr_tenant_id r) = Inr ()" if "x = Inr r"
    using assms that by (cases "map_of (ag_tasks s) k")
      (auto simp: get_task_def store_get_def run_simps envelope_error_def split: sum.splits prod.splits)
qed

text \<open>The cancellation proper.\<close>

lemma record_cancel_cases:
  assumes "record_cancel E k tenant u = (x, t)"
  obtains (failed) e where "x = Inl e" "ag_tasks t = ag_tasks u"
  | (cancelled) r where "x = Inr r" "ag_tasks t = AList.update k r (ag_tasks u)" "k \<in> set (ag_cancelled t)" "final r"
      "tr_task_id r = strip k" "tr_status r = A2ATaskStatus.A2A_CANCELLED" "tr_tenant_id r = ostrip tenant"
proof (cases "error_result k A2ATaskStatus.A2A_CANCELLED ''cancelled'' ''task was cancelled'' False None tenant None None")
  case (Inl e)
  with assms show thesis by (intro failed [of e]) (auto simp: record_cancel_def run_simps)
next
  case (Inr r)
  from error_result_ok [OF Inr] assms Inr show thesis
    by (intro cancelled [of r]) (auto simp: record_cancel_def run_simps store_put_def)
qed

lemma cancel_cases:
  assumes "cancel_task E authz k s = (x, t)"
  obtains (failed) e where "x = Inl e" "ag_tasks t = ag_tasks s"
  | (finished) c u r where "x = Inr r" "same_tasks s t" "caller_tenant E authz s = (Inr c, u)"
      "enforce_task_tenant E c (tr_tenant_id r) = Inr ()" "map_of (ag_tasks s) k = Some r" "tr_status r = A2A_COMPLETED"
  | (cancelled) c u r tenant where "x = Inr r" "caller_tenant E authz s = (Inr c, u)"
      "ag_tasks t = AList.update k r (ag_tasks s)" "k \<in> set (ag_cancelled t)" "final r" "tr_task_id r = strip k"
      "tr_status r = A2ATaskStatus.A2A_CANCELLED" "tr_tenant_id r = ostrip tenant"
      "case map_of (ag_tasks s) k of None \<Rightarrow> tenant = c
       | Some r' \<Rightarrow> tenant = tr_tenant_id r' \<and> enforce_task_tenant E c tenant = Inr () \<and> tr_status r' \<noteq> A2A_COMPLETED"
proof -
  note stop = that(1) and settle = that(3)
  obtain rc u where c: "caller_tenant E authz s = (rc, u)" by fastforce
  note su = obeys_eq [OF caller_tasks c]
  then have look: "map_of (ag_tasks u) k = map_of (ag_tasks s) k" by (simp add: same_tasks_def)
  show thesis
  proof (cases rc)
    case (Inl e)
    with assms c su show thesis by (intro failed [of e]) (simp_all add: cancel_task_def run_simps same_tasks_def)
  next
    case c': (Inr c')
    have cancel: thesis if "record_cancel E k tenant u = (x, t)" "case map_of (ag_tasks s) k of None \<Rightarrow> tenant = c'
       | Some r' \<Rightarrow> tenant = tr_tenant_id r' \<and> enforce_task_tenant E c' tenant = Inr () \<and> tr_status r' \<noteq> A2A_COMPLETED" for tenant
      using that(1)
    proof (cases rule: record_cancel_cases)
      case (failed e)
      with su show thesis by (intro stop [of e]) (simp_all add: same_tasks_def)
    next
      case (cancelled r)
      with that su c c' show thesis by (intro settle [of r c' u tenant]) (simp_all add: same_tasks_def)
    qed
    show thesis
    proof (cases "map_of (ag_tasks s) k")
      case None
      with assms c c' look have "record_cancel E k c' u = (x, t)"
        by (simp add: cancel_task_def run_simps store_get_def)
      with None show thesis by (intro cancel) simp_all
    next
      case (Some r)
      show thesis
      proof (cases "enforce_task_tenant E c' (tr_tenant_id r)")
        case (Inl e)
        with assms c c' look Some su show thesis
          by (intro failed [of e]) (simp_all add: cancel_task_def run_simps store_get_def same_tasks_def)
      next
        case (Inr v)
        show thesis
        proof (cases "tr_status r = A2A_COMPLETED")
          case True
          with assms c c' look Some su Inr show thesis
            by (intro finished [of r c' u]) (simp_all add: cancel_task_def run_simps store_get_def)
        next
          case False
          with assms c c' look Some Inr have "record_cancel E k (tr_tenant_id r) u = (x, t)"
            by (simp add: cancel_task_def run_simps store_get_def)
          with Some False Inr show thesis by (intro cancel) simp_all
        qed
      qed
    qed
  qed
qed

text \<open>The end of a wait.\<close>

lemma create_end_run:
  "case execute_end E (fl_request fl) (fl_trace_id fl) (fl_work fl) w of
     Inl e \<Rightarrow> create_end E fl w s = (Inl e, s)
   | Inr r \<Rightarrow> \<exists>t. create_end E fl w s = (Inr r, t) \<and> ag_cancelled t = ag_cancelled s \<and>
       ag_tasks t = AList.update (tq_task_id (fl_request fl)) r (ag_tasks s)"
proof (cases "execute_end E (fl_request fl) (fl_trace_id fl) (fl_work fl) w")
  case (Inr r)
  obtain t where "finish_task E (fl_request fl) r s = (Inr r, t)" "ag_cancelled t = ag_cancelled s"
    "ag_tasks t = AList.update (tq_task_id (fl_request fl)) r (ag_tasks s)" by (rule finish_run)
  with Inr show ?thesis by (simp add: create_end_def run_simps)
qed (simp add: create_end_def run_simps)

lemma create_end_ok:
  assumes "create_end E fl w s = (Inr r, t)"
  shows "execute_end E (fl_request fl) (fl_trace_id fl) (fl_work fl) w = Inr r"
    "ag_tasks t = AList.update (tq_task_id (fl_request fl)) r (ag_tasks s)"
  using assms create_end_run [of E fl w s] by (auto split: sum.splits)

lemma create_end_failed: "create_end E fl w s = (Inl e, t) \<Longrightarrow> t = s"
  using create_end_run [of E fl w s] by (auto split: sum.splits)

section \<open>Requests in any order\<close>

datatype agent_call = CreateTask A2ATaskRequest "string option" | GetTask string | CancelTask string

fun agent_serve :: "agent_env \<Rightarrow> string \<Rightarrow> agent_call \<Rightarrow> (agent, A2ATaskResult + flight) em" where
  "agent_serve E authz (CreateTask q tp) = create_begin E authz q tp"
| "agent_serve E authz (GetTask k) = ebind (get_task E authz k) (\<lambda>r. eret (Inl r))"
| "agent_serve E authz (CancelTask k) = ebind (cancel_task E authz k) (\<lambda>r. eret (Inl r))"

text \<open>The process: its state and the requests that wait. A request is taken, a wait ends, or the repository
  is exchanged.\<close>

inductive agent_step :: "agent_env \<Rightarrow> agent \<times> flight list \<Rightarrow> agent \<times> flight list \<Rightarrow> bool" for E :: agent_env where
  taken: "agent_serve E authz c s = (x, t) \<Longrightarrow>
    agent_step E (s, fs) (t, fs @ (case x of Inr (Inr fl) \<Rightarrow> [fl] | _ \<Rightarrow> []))"
| woken: "fl \<in> set fs \<Longrightarrow> create_end E fl w s = (r, t) \<Longrightarrow> agent_step E (s, fs) (t, remove1 fl fs)"
| moved: "set_task_repository i s = (r, t) \<Longrightarrow> agent_step E (s, fs) (t, fs)"

inductive_cases agent_stepE: "agent_step E (s, fs) (t, gs)"

text \<open>What one call does to the store.\<close>

lemma serve_cases:
  assumes "agent_serve E authz call s = (x, t)"
  obtains (kept) "ag_tasks t = ag_tasks s"
    "\<forall>r. x = Inr (Inl r) \<longrightarrow> (\<exists>c u. caller_tenant E authz s = (Inr c, u) \<and> enforce_task_tenant E c (tr_tenant_id r) = Inr ())"
    "\<forall>fl. x = Inr (Inr fl) \<longrightarrow> (\<exists>q tp c u i. request_body q = Inr (fl_request fl) \<and>
       caller_tenant E authz s = (Inr c, u) \<and> enforce_task_tenant E c (Some (tq_tenant_id (fl_request fl))) = Inr () \<and>
       map_of (ag_tasks s) (tq_task_id (fl_request fl)) = None \<and> validate_CorrelateInput i = Inr (fst (fl_work fl)) \<and>
       1 / 100 \<le> snd (fl_work fl) \<and> snd (fl_work fl) \<le> 30 \<and> tq_skill_id (fl_request fl) = SKILL_ID \<and>
       fl_trace_id fl = fst (resolve_trace (fl_request fl) tp))"
  | (stored) k r c u where "x = Inr (Inl r)" "ag_tasks t = AList.update k r (ag_tasks s)" "final r" "tr_task_id r = strip k"
      "caller_tenant E authz s = (Inr c, u)"
      "case map_of (ag_tasks s) k of
         None \<Rightarrow> tr_tenant_id r = ostrip c \<or> enforce_task_tenant E c (tr_tenant_id r) = Inr ()
       | Some r' \<Rightarrow> tr_tenant_id r = ostrip (tr_tenant_id r') \<and> enforce_task_tenant E c (tr_tenant_id r') = Inr () \<and>
           tr_status r' \<noteq> A2A_COMPLETED"
proof (cases call)
  case (CreateTask q tp)
  with assms have "create_begin E authz q tp s = (x, t)" by simp
  then show thesis
  proof (cases rule: create_begin_cases)
    case (failed e)
    then show thesis by (intro kept) (auto simp: same_tasks_def)
  next
    case (again q' c u r)
    then show thesis by (intro kept) (auto simp: same_tasks_def)
  next
    case (ended q' c u r)
    with body_ok(2) [OF ended(2)] show thesis by (intro stored [of r "tq_task_id q'" c u]) simp_all
  next
    case (waits fl c u i)
    then show thesis by (intro kept) (auto simp: same_tasks_def)
  qed
next
  case (GetTask k)
  with assms obtain y where y: "get_task E authz k s = (y, t)" "x = map_sum id Inl y"
    by (auto simp: run_simps split: prod.splits sum.splits)
  from get_task_cases [OF y(1)] y(2) show thesis by (intro kept) (cases y; auto simp: same_tasks_def)+
next
  case (CancelTask k)
  with assms obtain y where y: "cancel_task E authz k s = (y, t)" "x = map_sum id Inl y"
    by (auto simp: run_simps split: prod.splits sum.splits)
  from y(1) show thesis
  proof (cases rule: cancel_cases)
    case (failed e)
    with y show thesis by (intro kept) auto
  next
    case (finished c u r)
    with y show thesis by (intro kept) (auto simp: same_tasks_def)
  next
    case (cancelled c u r tenant)
    with y show thesis by (intro stored [of r k c u]) (auto split: option.splits)
  qed
qed


section \<open>Every wait ends with a result\<close>

definition marker_char :: "char \<Rightarrow> bool" where
  "marker_char c \<longleftrightarrow> lower_char c = CHR ''b'' \<or> c = CHR ''=''"

lemma safe_error_needs: "needs marker_char SAFE_ERROR_RE"
proof -
  have "lower_char (CHR ''b'') = CHR ''b''" by (simp add: lower_char_def)
  then have 1: "needs marker_char (rx_ilit ''bearer'')"
    by (intro needs_ilit_Cons [THEN iffD2, OF disjI1]) (simp add: marker_char_def)
  have 2: "needs marker_char (rx_lit ''='')" by (simp add: marker_char_def)
  show ?thesis
    unfolding SAFE_ERROR_RE_def Let_def rx_seqs.simps rx_alts.simps needs.simps by (simp only: 1 2 simp_thms)
qed

lemma safe_error_keeps: "\<forall>c \<in> set m. \<not> marker_char c \<Longrightarrow> re_sub SAFE_ERROR_RE repl m = m"
  by (intro re_sub_none needs_re_search [OF safe_error_needs])

lemma digit_not_marker: "n < 10 \<Longrightarrow> \<not> marker_char (digit_char n)"
proof -
  assume "n < 10"
  then have "(of_char (digit_char n) :: nat) = 48 + n" by (simp add: digit_char_def)
  with \<open>n < 10\<close> show ?thesis by (auto simp: marker_char_def lower_char_def Let_def)
qed

lemma nat_str_no_marker: "c \<in> set (nat_str n) \<Longrightarrow> \<not> marker_char c"
proof (induction n rule: nat_str.induct)
  case (1 n)
  then show ?case by (subst (asm) (2) nat_str.simps) (auto simp: digit_not_marker split: if_splits)
qed

lemma minus_not_marker: "\<not> marker_char (CHR ''-'')"
  by (simp add: marker_char_def lower_char_def)

lemma int_str_no_marker: "c \<in> set (int_str i) \<Longrightarrow> \<not> marker_char c"
  by (auto simp: int_str_def minus_not_marker dest: nat_str_no_marker split: if_splits)

text \<open>A failure of a request whose text has no mark of a secret is a result.\<close>

lemma failed_request_total:
  assumes "validate_A2ATaskRequest q = Inr q" and "opt_len_in 0 128 trace" and "len_in 1 128 (strip code)"
    and "\<forall>c \<in> set m. \<not> marker_char c" and "m \<noteq> []" and "\<not> is_space (hd m)" and "st \<noteq> A2A_COMPLETED"
  shows "\<exists>r. failed_request q trace st code m retryable = Inr r"
proof -
  note q = valid_request [OF assms(1)]
  have tr: "opt_len_in 0 128 (ostrip trace)"
    using assms(2) by (auto simp: opt_len_in_def len_in_def split: option.splits intro: order_trans [OF length_strip])
  have "hd m \<in> set (take 2000 m)" using assms(5) by (cases m) simp_all
  with strip_nonempty [of "take 2000 m"] assms(6) have "strip (take 2000 m) \<noteq> []" by blast
  moreover have "length (strip (take 2000 m)) \<le> 2000" by (rule order_trans [OF length_strip]) simp
  ultimately have "len_in 1 2000 (strip (take 2000 m))" by (simp add: len_in_def Suc_le_eq)
  with q tr assms(3,7) safe_error_keeps [OF assms(4)] show ?thesis
    by (simp add: failed_request_def error_result_def Let_def validate_A2ATaskResult_def checks_A2ATaskError_def
        strip_A2ATaskError_def ident_def opt_len_in_def)
qed

text \<open>A request that waits, as it was taken.\<close>

definition flight_ok :: "flight \<Rightarrow> bool" where
  "flight_ok fl \<longleftrightarrow> validate_A2ATaskRequest (fl_request fl) = Inr (fl_request fl) \<and>
     tq_skill_id (fl_request fl) = SKILL_ID \<and> opt_len_in 0 128 (fl_trace_id fl) \<and>
     (\<exists>i. validate_CorrelateInput i = Inr (fst (fl_work fl))) \<and> 1 / 100 \<le> snd (fl_work fl) \<and> snd (fl_work fl) \<le> 30"

lemma resolved_trace: "validate_A2ATaskRequest q = Inr q \<Longrightarrow> opt_len_in 0 128 (fst (resolve_trace q tp))"
  using valid_request(5) [of q q]
  by (auto simp: resolve_trace_def parse_traceparent_def hex_text_def opt_len_in_def len_in_def
      split: option.splits list.splits)

lemma literals_no_marker:
  "list_all (\<lambda>c. \<not> marker_char c) ''task was cancelled''"
  "list_all (\<lambda>c. \<not> marker_char c) (''skill '' @ SKILL_ID @ '' exceeded timeout of '')"
  "list_all (\<lambda>c. \<not> marker_char c) ''.s''"
  by code_simp+

lemma timeout_text: "strip ''timeout'' = ''timeout''" and cancelled_text: "strip ''cancelled'' = ''cancelled''"
  by code_simp+

lemma timeout_no_marker:
  "\<forall>c \<in> set (''skill '' @ SKILL_ID @ '' exceeded timeout of '' @ fixed1 tmo @ ''s''). \<not> marker_char c"
proof -
  have "list_all (\<lambda>c. \<not> marker_char c) (int_str k)" for k using int_str_no_marker by (auto simp: list_all_iff)
  then have "list_all (\<lambda>c. \<not> marker_char c) (fixed1 tmo)" using literals_no_marker(3) by (simp add: fixed1_def Let_def)
  with literals_no_marker(2,3)
  have "list_all (\<lambda>c. \<not> marker_char c) ((''skill '' @ SKILL_ID @ '' exceeded timeout of '') @ fixed1 tmo @ ''s'')"
    by (simp only: list_all_append list.pred_inject simp_thms)
  then show ?thesis by (simp only: list_all_iff append_assoc)
qed

lemma flight_answered:
  assumes "flight_ok fl" and "\<And>t. length (isoformat (ae_py E) t) \<le> 64"
  shows "\<exists>r. execute_end E (fl_request fl) (fl_trace_id fl) (fl_work fl) w = Inr r \<and>
    (w = Done \<longrightarrow> tr_status r = A2A_COMPLETED)"
proof -
  let ?q = "fl_request fl"
  from assms(1) have q: "validate_A2ATaskRequest ?q = Inr ?q" and tr: "opt_len_in 0 128 (fl_trace_id fl)"
    by (simp_all add: flight_ok_def)
  note v = valid_request [OF q]
  show ?thesis
  proof (cases w)
    case Done
    from assms(1) obtain i where "validate_CorrelateInput i = Inr (fst (fl_work fl))" by (auto simp: flight_ok_def)
    from correlate_returns [OF this assms(2)] obtain out where "correlate_local (ae_py E) (fst (fl_work fl)) = Inr out" by blast
    moreover have "opt_len_in 0 128 (ostrip (fl_trace_id fl))"
      using tr by (auto simp: opt_len_in_def len_in_def split: option.splits intro: order_trans [OF length_strip])
    moreover have "len_in 1 128 (tq_tenant_id ?q)" using v(3) by (simp add: ident_def)
    ultimately show ?thesis using Done v
      by (cases "fl_work fl") (simp add: execute_end_def validate_A2ATaskResult_def Let_def opt_len_in_def)
  next
    case TimedOut
    have "\<not> is_space (hd (''skill '' @ SKILL_ID @ '' exceeded timeout of '' @ fixed1 tmo @ ''s''))" for tmo
      by (simp add: is_space_def)
    from failed_request_total [OF q tr _ timeout_no_marker _ this] TimedOut show ?thesis
      by (cases "fl_work fl") (simp add: execute_end_def len_in_def timeout_text)
  next
    case Interrupted
    from failed_request_total [OF q tr _ literals_no_marker(1) [unfolded list_all_iff]] Interrupted show ?thesis
      by (cases "fl_work fl") (simp add: execute_end_def len_in_def cancelled_text is_space_def)
  qed
qed

section \<open>Every reachable state\<close>

inductive agent_reachable :: "agent_env \<Rightarrow> agent \<times> flight list \<Rightarrow> bool" for E :: agent_env where
  boot: "ag_tasks s = [] \<Longrightarrow> agent_reachable E (s, [])"
| step: "agent_reachable E a \<Longrightarrow> agent_step E a b \<Longrightarrow> agent_reachable E b"

definition agent_inv :: "agent \<times> flight list \<Rightarrow> bool" where
  "agent_inv a \<longleftrightarrow> (\<forall>k r. map_of (ag_tasks (fst a)) k = Some r \<longrightarrow> final r \<and> tr_task_id r = strip k) \<and>
     (\<forall>fl \<in> set (snd a). flight_ok fl)"

lemma inv_update:
  "agent_inv (s, fs) \<Longrightarrow> ag_tasks t = AList.update k r (ag_tasks s) \<Longrightarrow> final r \<Longrightarrow> tr_task_id r = strip k \<Longrightarrow>
   agent_inv (t, fs)"
  by (auto simp: agent_inv_def update_conv split: if_splits)

lemma step_inv:
  assumes "agent_step E a b" and "agent_inv a" shows "agent_inv b"
  using assms
proof (cases rule: agent_step.cases)
  case (taken authz c s x t fs)
  note inv = assms(2) [unfolded taken(1)]
  from taken(3) show ?thesis
  proof (cases rule: serve_cases)
    case kept
    have "flight_ok fl" if "x = Inr (Inr fl)" for fl
      using kept(3) that resolved_trace by (auto simp: flight_ok_def dest!: body_ok(1))
    with inv kept(1) taken(2) show ?thesis by (auto simp: agent_inv_def split: sum.splits)
  next
    case (stored k r c u)
    with inv_update [OF inv stored(2-4)] taken(2) show ?thesis by simp
  qed
next
  case (woken fl fs w s r t)
  note inv = assms(2) [unfolded woken(1)]
  then have fl: "flight_ok fl" using woken(3) by (simp add: agent_inv_def)
  have "agent_inv (t, fs)"
  proof (cases r)
    case (Inl e)
    with woken(4) inv show ?thesis by (auto dest: create_end_failed)
  next
    case (Inr y)
    note ok = create_end_ok [OF woken(4) [unfolded Inr]]
    have "ident (tq_task_id (fl_request fl))" using fl valid_request(2) by (auto simp: flight_ok_def)
    with execute_end_ok [OF ok(1)] show ?thesis by (intro inv_update [OF inv ok(2)]) simp_all
  qed
  then show ?thesis using woken(2) by (auto simp: agent_inv_def dest: notin_set_remove1)
next
  case (moved i s r t fs)
  with assms(2) show ?thesis by (auto simp: agent_inv_def set_task_repository_def run_simps)
qed

lemma reachable_inv: "agent_reachable E a \<Longrightarrow> agent_inv a"
proof (induction rule: agent_reachable.induct)
  case (boot s)
  then show ?case by (simp add: agent_inv_def)
qed (blast intro: step_inv)

text \<open>C28. In every state the specialist reaches, by any order of requests and ends of waits, what it stores
  for a task is a final result under the identifier of that task: its contract accepts it, it is
  completed, failed, timed out or cancelled, it has an output exactly when it is completed and an error
  exactly when it is not. And every request that still waits gets an answer however its wait ends, of a
  completed task when the correlation is done, and the answer is stored.\<close>

theorem agent_tasks_end:
  assumes "agent_reachable E (s, fs)"
  shows "(\<forall>k r. map_of (ag_tasks s) k = Some r \<longrightarrow> final r \<and> tr_task_id r = strip k) \<and>
    ((\<forall>t. length (isoformat (ae_py E) t) \<le> 64) \<longrightarrow> (\<forall>fl \<in> set fs. \<forall>w v. \<exists>r t. create_end E fl w v = (Inr r, t) \<and>
       map_of (ag_tasks t) (tq_task_id (fl_request fl)) = Some r \<and> final r \<and>
       (w = Done \<longrightarrow> tr_status r = A2A_COMPLETED)))"
proof (intro conjI impI ballI allI)
  note inv = reachable_inv [OF assms]
  fix k r assume "map_of (ag_tasks s) k = Some r"
  with inv show "final r" "tr_task_id r = strip k" by (auto simp: agent_inv_def)
next
  fix fl w v assume iso: "\<forall>t. length (isoformat (ae_py E) t) \<le> 64" and "fl \<in> set fs"
  with reachable_inv [OF assms] have "flight_ok fl" by (simp add: agent_inv_def)
  from flight_answered [OF this iso [rule_format]] obtain r
    where r: "execute_end E (fl_request fl) (fl_trace_id fl) (fl_work fl) w = Inr r" "w = Done \<longrightarrow> tr_status r = A2A_COMPLETED"
    by blast
  with create_end_run [of E fl w v] execute_end_ok [OF r(1)]
  show "\<exists>r t. create_end E fl w v = (Inr r, t) \<and> map_of (ag_tasks t) (tq_task_id (fl_request fl)) = Some r \<and>
      final r \<and> (w = Done \<longrightarrow> tr_status r = A2A_COMPLETED)"
    by (auto simp: update_conv)
qed

text \<open>A completed result that no waiting request is about.\<close>

definition task_settled :: "string \<Rightarrow> A2ATaskResult \<Rightarrow> agent \<times> flight list \<Rightarrow> bool" where
  "task_settled k r a \<longleftrightarrow> map_of (ag_tasks (fst a)) k = Some r \<and> tr_status r = A2A_COMPLETED \<and>
     (\<forall>fl \<in> set (snd a). tq_task_id (fl_request fl) \<noteq> k)"

lemma create_end_store:
  assumes "create_end E fl w s = (x, t)"
  shows "ag_tasks t = ag_tasks s \<or> (\<exists>r. ag_tasks t = AList.update (tq_task_id (fl_request fl)) r (ag_tasks s))"
proof (cases x)
  case (Inl e)
  with create_end_failed [of E fl w s e t] assms show ?thesis by simp
next
  case (Inr r)
  with create_end_ok(2) [of E fl w s r t] assms show ?thesis by blast
qed

lemma settled_step:
  assumes "agent_step E a b" and "task_settled k r a" shows "task_settled k r b"
  using assms(1)
proof (cases rule: agent_step.cases)
  case (taken authz c s x t fs)
  from taken(3) show ?thesis
  proof (cases rule: serve_cases)
    case kept
    with taken(1,2) assms(2) show ?thesis by (auto simp: task_settled_def split: sum.splits)
  next
    case (stored k' r' c u)
    with taken(1) assms(2) have "k' \<noteq> k" by (auto simp: task_settled_def)
    with stored(1,2) taken(1,2) assms(2) show ?thesis by (simp add: task_settled_def update_conv)
  qed
next
  case (woken fl fs w s y t)
  with assms(2) have "tq_task_id (fl_request fl) \<noteq> k" by (simp add: task_settled_def)
  with create_end_store [OF woken(4)] have "map_of (ag_tasks t) k = map_of (ag_tasks s) k" by (auto simp: update_conv)
  with woken(1,2) assms(2) show ?thesis by (auto simp: task_settled_def dest: notin_set_remove1)
next
  case (moved i s y t fs)
  with assms(2) show ?thesis by (auto simp: task_settled_def set_task_repository_def run_simps)
qed

lemma settled_steps: "rtranclp (agent_step E) a b \<Longrightarrow> task_settled k r a \<Longrightarrow> task_settled k r b"
  by (induction rule: rtranclp_induct) (auto intro: settled_step)

text \<open>How a stored result is given again.\<close>

lemma stored_create:
  assumes "map_of (ag_tasks s) (strip (tq_task_id q)) = Some r" and "create_begin E authz q tp s = (Inr x, t)"
  shows "x = Inl r \<and> ag_tasks t = ag_tasks s"
  using assms(2)
proof (cases rule: create_begin_cases)
  case (again q' c u r')
  with assms(1) body_id [OF again(3)] show ?thesis by (simp add: same_tasks_def)
next
  case (ended q' c u r')
  with assms(1) body_id [OF ended(2)] show ?thesis by simp
next
  case (waits fl c u i)
  with assms(1) body_id [OF waits(3)] show ?thesis by simp
qed simp

lemma stored_get:
  assumes "map_of (ag_tasks s) k = Some r" and "get_task E authz k s = (Inr x, t)"
  shows "x = r \<and> ag_tasks t = ag_tasks s"
proof -
  from get_task_cases(1) [OF assms(2)] have "ag_tasks t = ag_tasks s" by (simp add: same_tasks_def)
  moreover from assms have "x = r"
    by (auto simp: get_task_def store_get_def run_simps split: sum.splits prod.splits)
  ultimately show ?thesis by simp
qed

lemma stored_cancel:
  assumes "map_of (ag_tasks s) k = Some r" and "tr_status r = A2A_COMPLETED" and "cancel_task E authz k s = (Inr x, t)"
  shows "x = r \<and> ag_tasks t = ag_tasks s"
  using assms(3)
proof (cases rule: cancel_cases)
  case (finished c u r')
  with assms(1) show ?thesis by (simp add: same_tasks_def)
next
  case (cancelled c u r' tenant)
  with assms(1,2) show ?thesis by simp
qed simp

lemma lifted_answer:
  "ebind m (\<lambda>r. eret (Inl r)) s = (Inr x, t) \<Longrightarrow> \<exists>r. m s = (Inr r, t) \<and> x = Inl r"
  by (auto simp: run_simps split: sum.splits prod.splits)

text \<open>C17. A completed task is final: once a completed result is stored and no other request for the task waits,
  no sequence of requests and ends of waits changes it; creating the task again or reading it gives
  this result, and cancelling it too.\<close>

theorem completed_task_final:
  assumes "rtranclp (agent_step E) (s, fs) (t, gs)" and "map_of (ag_tasks s) k = Some r"
    and "tr_status r = A2A_COMPLETED" and "\<forall>fl \<in> set fs. tq_task_id (fl_request fl) \<noteq> k"
  shows "map_of (ag_tasks t) k = Some r \<and>
    (agent_serve E authz (CancelTask k) t = (Inr x, u) \<longrightarrow> x = Inl r \<and> ag_tasks u = ag_tasks t) \<and>
    (agent_serve E authz (GetTask k) t = (Inr x, u) \<longrightarrow> x = Inl r \<and> ag_tasks u = ag_tasks t) \<and>
    (agent_serve E authz (CreateTask q tp) t = (Inr x, u) \<and> strip (tq_task_id q) = k \<longrightarrow> x = Inl r \<and> ag_tasks u = ag_tasks t)"
proof -
  from settled_steps [OF assms(1), of k r] assms(2-4)
  have r: "map_of (ag_tasks t) k = Some r" by (simp add: task_settled_def)
  have "x = Inl r \<and> ag_tasks u = ag_tasks t" if "agent_serve E authz (CancelTask k) t = (Inr x, u)"
    using lifted_answer [of "cancel_task E authz k"] stored_cancel [OF r assms(3)] that by fastforce
  moreover have "x = Inl r \<and> ag_tasks u = ag_tasks t" if "agent_serve E authz (GetTask k) t = (Inr x, u)"
    using lifted_answer [of "get_task E authz k"] stored_get [OF r] that by fastforce
  moreover have "x = Inl r \<and> ag_tasks u = ag_tasks t"
    if "agent_serve E authz (CreateTask q tp) t = (Inr x, u)" "strip (tq_task_id q) = k"
    using stored_create [of t q r E authz tp x u] r that by simp
  ultimately show ?thesis using r by blast
qed

end
