(* ===== verification/AgentRepo.thy ===== *)
theory AgentRepo
  imports AgentSteps RepoProps
begin

text \<open>
  The specialist with the repositories it writes through to: what a request may change in them, and what
  a completed task leaves there.
\<close>

section \<open>The steps a request makes in the repositories\<close>

definition repo_steps :: "string set \<Rightarrow> agent \<Rightarrow> agent \<Rightarrow> bool" where
  "repo_steps T s t \<longleftrightarrow> (\<forall>i. db_steps T (rp_db (ag_repos s i)) (rp_db (ag_repos t i)))"

interpretation written: step_relation "repo_steps T" for T
  by unfold_locales (auto simp: repo_steps_def intro: db_steps.none db_steps_trans)

lemma written_same: "(\<And>s. ag_repos (snd (m s)) = ag_repos s) \<Longrightarrow> obeys (repo_steps T) m"
  by (rule obeysI) (simp add: repo_steps_def db_steps.none)

lemma written_prims:
  "obeys (repo_steps T) (agent_tick f)" "obeys (repo_steps T) (on_agent_auth a)" "obeys (repo_steps T) (store_get k)"
  by (intro written_same; auto simp: agent_tick_def on_agent_auth_def store_get_def run_simps split: prod.splits)+

lemma written_emod: "(\<And>s. ag_repos (f s) = ag_repos s) \<Longrightarrow> obeys (repo_steps T) (emod f)"
  by (intro written_same) (simp add: run_simps)

lemma written_repo:
  assumes "\<And>s r t. m s = (r, t) \<Longrightarrow> db_steps T (rp_db s) (rp_db t)"
  shows "obeys (repo_steps T) (on_agent_repo i m)"
  by (rule obeysI) (auto simp: on_agent_repo_def repo_steps_def db_steps.none dest: assms split: prod.splits)

lemma written_suppress: "obeys (repo_steps T) m \<Longrightarrow> obeys (repo_steps T) (suppress p m)"
  by (auto simp: suppress_def intro!: written.obeys_intros)

lemma written_persist: "obeys (repo_steps {tq_tenant_id q}) (persist_task E k r q)"
proof -
  have save: "obeys (repo_steps {nt_tenant_id n}) (on_agent_repo i (save_agent_task (ae_repo_env E) n))" for i n
    by (intro written_repo save_task_steps)
  have update: "obeys (repo_steps {tq_tenant_id q}) (on_agent_repo i (update_agent_task (ae_repo_env E) k (tq_tenant_id q) st out er))"
    for i st out er
    by (intro written_repo update_task_steps)
  show ?thesis
    using save [of "\<lparr>nt_task_id = k, nt_run_id = rid, nt_tenant_id = tq_tenant_id q, nt_skill_id = sk, nt_agent_name = nm,
        nt_objective = ob, nt_status = st, nt_raw_inputs = ri, nt_deadline = dl\<rparr>" for rid sk nm ob st ri dl]
    by (auto simp: persist_task_def intro!: written.obeys_intros written_suppress update split: option.splits)
qed

lemma written_finish: "obeys (repo_steps {tq_tenant_id q}) (finish_task E q r)"
  by (auto simp: finish_task_def store_put_def intro!: written.obeys_intros written_emod written_persist)

lemma written_caller: "obeys (repo_steps T) (caller_tenant E authz)"
  by (auto simp: caller_tenant_def intro!: written.obeys_intros written_prims)

lemma written_begin: "obeys (repo_steps T) (execute_begin E q trace)"
  by (auto simp: execute_begin_def Let_def intro!: written.obeys_intros written_prims split: option.splits)

lemma written_start: "obeys (repo_steps {tq_tenant_id q}) (start_task E q trace)"
  by (auto simp: start_task_def intro!: written.obeys_intros written_begin written_finish split: sum.splits)

lemma written_get: "obeys (repo_steps T) (get_task E authz k)"
  by (auto simp: get_task_def intro!: written.obeys_intros written_prims written_caller split: option.splits)

lemma written_cancel: "obeys (repo_steps T) (cancel_task E authz k)"
  by (auto simp: cancel_task_def record_cancel_def store_put_def intro!: written.obeys_intros written_prims written_caller
      written_emod split: option.splits)

lemma written_end: "obeys (repo_steps {tq_tenant_id (fl_request fl)}) (create_end E fl w)"
  by (auto simp: create_end_def intro!: written.obeys_intros written_finish)

section \<open>Whose rows a request may change\<close>

lemma written_by_create:
  assumes "caller_tenant E authz s = (Inr (Some c), u)" and "c \<noteq> []"
    and "create_begin E authz q0 tp s = (x, t)"
  shows "repo_steps {c} s t"
proof (cases "request_body q0")
  case (Inl e)
  with assms(3) show ?thesis by (auto simp: create_begin_def run_simps written.R_refl)
next
  case (Inr q)
  have su: "repo_steps {c} s u" by (rule obeys_eq [OF written_caller assms(1)])
  show ?thesis
  proof (cases "enforce_task_tenant E (Some c) (Some (tq_tenant_id q)) = Inr ()")
    case True
    then have c: "c = tq_tenant_id q" using assms(2) by (auto dest: task_tenant_ok)
    show ?thesis
    proof (cases "map_of (ag_tasks s) (tq_task_id q)")
      case None
      with assms(3) admitted_begin [OF Inr assms(1) True] have "start_task E q (fst (resolve_trace q tp)) u = (x, t)" by simp
      from obeys_eq [OF written_start this] su show ?thesis using c written.R_trans by blast
    next
      case (Some r)
      with assms(3) admitted_begin [OF Inr assms(1) True] su show ?thesis by (auto split: sum.splits)
    qed
  next
    case False
    with assms(1,3) Inr su show ?thesis by (auto simp: create_begin_def run_simps split: sum.splits)
  qed
qed

lemma flight_tenant:
  assumes "caller_tenant E authz s = (Inr (Some c), u)" and "c \<noteq> []"
    and "create_begin E authz q0 tp s = (Inr (Inr fl), t)"
  shows "tq_tenant_id (fl_request fl) = c"
  using assms(3)
proof (cases rule: create_begin_cases)
  case (waits fl' c' u' i)
  with assms(1,2) show ?thesis by (auto dest: task_tenant_ok)
qed simp_all

lemma own_by_steps: "repo_steps {c} s t \<Longrightarrow> v \<noteq> c \<Longrightarrow> own v (rp_db (ag_repos t i)) = own v (rp_db (ag_repos s i))"
proof -
  assume "repo_steps {c} s t" "v \<noteq> c"
  then have "db_steps (- {v}) (rp_db (ag_repos s i)) (rp_db (ag_repos t i))"
    by (auto simp: repo_steps_def intro: db_steps_mono)
  then show ?thesis by (rule isolated.history)
qed

text \<open>C18. What the specialist writes stays with the tenant of the caller: in every repository that is open, a
  request of a caller with an identity changes no row of another tenant, neither when it is taken nor
  when its wait ends, whatever the process has done in between and however the wait ends; reading and
  cancelling write to no repository.\<close>

theorem agent_writes_isolated:
  assumes "caller_tenant E authz s = (Inr (Some c), u)" and "c \<noteq> []" and "v \<noteq> c"
    and "agent_serve E authz call s = (x, t)"
  shows "own v (rp_db (ag_repos t i)) = own v (rp_db (ag_repos s i)) \<and>
    (\<forall>fl w s' r t'. x = Inr (Inr fl) \<longrightarrow> create_end E fl w s' = (r, t') \<longrightarrow>
       own v (rp_db (ag_repos t' i)) = own v (rp_db (ag_repos s' i)))"
proof (cases call)
  case (CreateTask q0 tp)
  with assms(4) have b: "create_begin E authz q0 tp s = (x, t)" by simp
  have "own v (rp_db (ag_repos t' i)) = own v (rp_db (ag_repos s' i))"
    if "x = Inr (Inr fl)" "create_end E fl w s' = (r, t')" for fl w s' r t'
    using obeys_eq [OF written_end that(2)] flight_tenant [OF assms(1,2) b [unfolded that(1)]] assms(3)
    by (auto intro: own_by_steps)
  with own_by_steps [OF written_by_create [OF assms(1,2) b] assms(3)] show ?thesis by blast
next
  case (GetTask k)
  with assms(4) obtain y where "get_task E authz k s = (y, t)" "x = map_sum id Inl y"
    by (auto simp: run_simps split: prod.splits sum.splits)
  with own_by_steps [OF obeys_eq [OF written_get this(1)] assms(3)] show ?thesis by (cases y) auto
next
  case (CancelTask k)
  with assms(4) obtain y where "cancel_task E authz k s = (y, t)" "x = map_sum id Inl y"
    by (auto simp: run_simps split: prod.splits sum.splits)
  with own_by_steps [OF obeys_eq [OF written_cancel this(1)] assms(3)] show ?thesis by (cases y) auto
qed

section \<open>What a completed task leaves\<close>

text \<open>The repository in use, the run a task is kept under, and a row of the table of tasks.\<close>

definition task_repository :: "agent \<Rightarrow> nat option" where
  "task_repository s = (case TASK_REPO s of Some i \<Rightarrow> Some i | None \<Rightarrow> API_REPO s)"

definition task_run :: "A2ATaskRequest \<Rightarrow> string" where
  "task_run q = (case tq_run_id q of Some (c # cs) \<Rightarrow> c # cs | _ \<Rightarrow> tq_task_id q)"

definition find_task :: "db \<Rightarrow> string \<Rightarrow> AgentTask option" where
  "find_task d k = find (\<lambda>r. at_task_id r = k) (tb_tasks d)"

lemma find_append: "find p (xs @ ys) = (case find p xs of Some x \<Rightarrow> Some x | None \<Rightarrow> find p ys)"
  by (induction xs) auto

lemma save_task_run:
  assumes "run_of_tenant (rp_db s) (nt_run_id n) (nt_tenant_id n)" and "find_task (rp_db s) (nt_task_id n) = None"
  shows "\<exists>row t. save_agent_task E n s = (Inr (nt_task_id n), t) \<and> find_task (rp_db t) (nt_task_id n) = Some row \<and>
    at_run_id row = nt_run_id n \<and> at_tenant_id row = nt_tenant_id n"
proof -
  from assms(1) obtain run where "get_run_row (nt_run_id n) (nt_tenant_id n) s = (Inr run, s)"
    unfolding run_of_tenant_get by blast
  with assms(2) show ?thesis
    by (auto simp: save_agent_task_def transaction_def repo_now_def tick_def modify_db_def run_simps Let_def find_task_def
        find_append)
qed

lemma update_task_run:
  assumes "find_task (rp_db s) k = Some row"
  shows "\<exists>row' t. update_agent_task E k (at_tenant_id row) st (Some out) None s = (Inr (), t) \<and>
    find_task (rp_db t) k = Some row' \<and> at_run_id row' = at_run_id row \<and> at_tenant_id row' = at_tenant_id row \<and>
    at_status row' = st \<and> at_redacted_output_json row' = Some (rv_redact E out) \<and>
    at_output_hash row' = Some (hash_payload (rv_py E) (PDict out))"
proof -
  have "at_task_id row = k" using find_SomeD [OF assms [unfolded find_task_def]] by simp
  then show ?thesis using assms
    by (simp add: update_agent_task_def transaction_def repo_now_def tick_def modify_db_def run_simps Let_def
        find_task_def find_update_first)
qed

lemma suppress_run: "suppress_all m s = (Inr (), snd (m s))"
  by (auto simp: suppress_def run_simps split: prod.splits sum.splits)

lemma persist_kept:
  assumes "task_repository s = Some i" and "run_of_tenant (rp_db (ag_repos s i)) (task_run q) (tq_tenant_id q)"
    and "find_task (rp_db (ag_repos s i)) (tq_task_id q) = None"
    and "tr_output r = Some out" and "tr_error r = None"
    and "persist_task E (tq_task_id q) r q s = (x, t)"
  shows "\<exists>row. find_task (rp_db (ag_repos t i)) (tq_task_id q) = Some row \<and> at_run_id row = task_run q \<and>
    at_tenant_id row = tq_tenant_id q \<and> at_status row = A2ATaskStatus_value (tr_status r) \<and>
    at_redacted_output_json row = Some (rv_redact (ae_repo_env E) out) \<and>
    at_output_hash row = Some (hash_payload (rv_py (ae_repo_env E)) (PDict out))"
proof -
  define n where "n = \<lparr>nt_task_id = tq_task_id q, nt_run_id = task_run q, nt_tenant_id = tq_tenant_id q,
    nt_skill_id = tq_skill_id q, nt_agent_name = AGENT_NAME, nt_objective = tq_objective q,
    nt_status = A2ATaskStatus_value (tr_status r), nt_raw_inputs = Some (tq_inputs q), nt_deadline = Some (tq_deadline q)\<rparr>"
  obtain row u where u: "save_agent_task (ae_repo_env E) n (ag_repos s i) = (Inr (tq_task_id q), u)"
    "find_task (rp_db u) (tq_task_id q) = Some row" "at_run_id row = task_run q" "at_tenant_id row = tq_tenant_id q"
    using save_task_run [of "ag_repos s i" n "ae_repo_env E"] assms(2,3) by (auto simp: n_def)
  obtain row' v where v: "update_agent_task (ae_repo_env E) (tq_task_id q) (tq_tenant_id q) (A2ATaskStatus_value (tr_status r))
      (Some out) None u = (Inr (), v)" "find_task (rp_db v) (tq_task_id q) = Some row'" "at_run_id row' = task_run q"
    "at_tenant_id row' = tq_tenant_id q" "at_status row' = A2ATaskStatus_value (tr_status r)"
    "at_redacted_output_json row' = Some (rv_redact (ae_repo_env E) out)"
    "at_output_hash row' = Some (hash_payload (rv_py (ae_repo_env E)) (PDict out))"
    using update_task_run [OF u(2), of "ae_repo_env E"] u(3,4) by metis
  have "persist_task E (tq_task_id q) r q s = (Inr (), s\<lparr>ag_repos := (ag_repos s)(i := v)\<rparr>)"
    using assms(1,4,5) u(1) v(1)
    by (simp add: persist_task_def run_simps suppress_run on_agent_repo_def task_repository_def n_def task_run_def)
  with assms(6) v show ?thesis by auto
qed

lemma done_result:
  assumes "execute_end E q trace_id work Done = Inr r"
  shows "tr_status r = A2A_COMPLETED \<and> (\<exists>out. tr_output r = Some out) \<and> tr_error r = None"
  using assms
  by (cases "correlate_local (ae_py E) (fst work)")
    (auto simp: execute_end_def validate_A2ATaskResult_def Let_def split: prod.splits)

text \<open>C27. A completed task is kept: if, when its work ends, the repository in use knows the run for the tenant and
  no row has the identifier yet, then the row of the task has the run and the tenant of the request, the
  status completed, the redacted output and the hash of the whole output; the answer to the caller has
  the output itself.\<close>

theorem completed_task_recorded:
  assumes "create_end E fl Done s = (Inr r, t)" and "q = fl_request fl" and "task_repository s = Some i"
    and "run_of_tenant (rp_db (ag_repos s i)) (task_run q) (tq_tenant_id q)"
    and "find_task (rp_db (ag_repos s i)) (tq_task_id q) = None"
  shows "\<exists>row out. tr_output r = Some out \<and> find_task (rp_db (ag_repos t i)) (tq_task_id q) = Some row \<and>
    at_run_id row = task_run q \<and> at_tenant_id row = tq_tenant_id q \<and> at_status row = ''completed'' \<and>
    at_redacted_output_json row = Some (rv_redact (ae_repo_env E) out) \<and>
    at_output_hash row = Some (hash_payload (rv_py (ae_repo_env E)) (PDict out))"
proof -
  from create_end_ok(1) [OF assms(1)] assms(2)
  have ended: "execute_end E q (fl_trace_id fl) (fl_work fl) Done = Inr r" by simp
  from done_result [OF this] obtain out where r: "tr_status r = A2A_COMPLETED" "tr_output r = Some out" "tr_error r = None"
    by blast
  let ?u = "s\<lparr>ag_tasks := AList.update (tq_task_id q) r (ag_tasks s)\<rparr>"
  have "task_repository ?u = Some i" "ag_repos ?u = ag_repos s" using assms(3)
    by (simp_all add: task_repository_def split: option.splits)
  moreover from assms(1,2) ended have "\<exists>x. persist_task E (tq_task_id q) r q ?u = (x, t)"
    by (auto simp: create_end_def finish_task_def store_put_def run_simps split: prod.splits sum.splits)
  ultimately show ?thesis using persist_kept [of ?u i q r out E _ t] assms(4,5) r by auto
qed

end
