(* ===== verification/Telemetry.thy ===== *)
theory Telemetry
  imports Redaction ExcState
begin

text \<open>
  \<^verbatim>\<open>packages/telemetry\<close>: the attribute conventions with their redaction (\<^verbatim>\<open>conventions.py\<close>), the counters
  and histograms of the process (\<^verbatim>\<open>metrics.py\<close>), the spans (\<^verbatim>\<open>tracing.py\<close>) and the wrappers the program
  puts around its work (\<^verbatim>\<open>instrument.py\<close>).

  A context manager is a function of the body of its \<^verbatim>\<open>with\<close> statement. The state \<open>tel\<close> is extensible:
  the body works on whatever the program keeps beside it. Parameters (\<open>tel_env\<close>) stand for the
  OpenTelemetry library: whether it is there, whether a span can be started, which attributes it takes,
  what it does to a span on leaving it, its instruments, its propagation of contexts.
\<close>

section \<open>Conventions\<close>

definition RUN_ID :: string where "RUN_ID = ''workbench.run_id''"
definition TENANT_HASH :: string where "TENANT_HASH = ''workbench.tenant_hash''"
definition TOOL_NAME :: string where "TOOL_NAME = ''workbench.tool.name''"
definition TOOL_VERSION_KEY :: string where "TOOL_VERSION_KEY = ''workbench.tool.version''"
definition TOOL_SIDE_EFFECT :: string where "TOOL_SIDE_EFFECT = ''workbench.tool.side_effect''"
definition TOOL_DRY_RUN :: string where "TOOL_DRY_RUN = ''workbench.tool.dry_run''"
definition AGENT_NAME_KEY :: string where "AGENT_NAME_KEY = ''workbench.agent.name''"
definition TASK_ID :: string where "TASK_ID = ''workbench.task.id''"
definition SKILL_ID_KEY :: string where "SKILL_ID_KEY = ''workbench.task.skill_id''"
definition POLICY_DECISION :: string where "POLICY_DECISION = ''workbench.policy.decision''"
definition POLICY_REASON :: string where "POLICY_REASON = ''workbench.policy.reason''"
definition APPROVAL_ID :: string where "APPROVAL_ID = ''workbench.approval.id''"
definition RUN_STATUS :: string where "RUN_STATUS = ''workbench.run.status''"

definition SECRET_HINTS :: "string list" where
  "SECRET_HINTS =
     [''secret'', ''token'', ''password'', ''passwd'', ''api_key'', ''apikey'', ''client_secret'', ''bearer'',
      ''authorization'', ''cookie'', ''set-cookie'', ''private_key'', ''ssn'', ''social_security'', ''credit_card'',
      ''creditcard'', ''card_number'', ''cc_number'', ''email'', ''phone'']"

definition TEL_SECRET_VALUE_RE :: rx where
  "TEL_SECRET_VALUE_RE = (let sp = RChr is_space; word = rx_plus (RChr (\<lambda>c. \<not> is_space c)) in rx_alts
     [rx_seqs [rx_ilit ''bearer'', rx_plus sp, rx_plus (RChr (\<lambda>c. is_alnum c \<or> c \<in> set ''._-~+/=''))],
      rx_seqs [rx_ilit ''api_key'', RStar sp, rx_lit ''='', RStar sp, word],
      rx_seqs [rx_ilit ''client_secret'', RStar sp, rx_lit ''='', RStar sp, word],
      rx_seqs [rx_ilit ''password'', RStar sp, rx_lit ''='', RStar sp, word]])"

text \<open>The patterns of personal data are those of the tool server (\<open>Redaction\<close>).\<close>

definition PII_RE :: rx where
  "PII_RE = rx_alts [SSN_RE, CC_RE, EMAIL_RE, PHONE_RE]"

definition TEL_REDACTED :: string where "TEL_REDACTED = ''[redacted]''"

definition is_secret_key :: "string \<Rightarrow> bool" where
  "is_secret_key key = (let kl = lower key in list_ex (\<lambda>h. str_in h kl) SECRET_HINTS)"

definition tel_redact_value :: "string \<Rightarrow> pyval \<Rightarrow> pyval" where
  "tel_redact_value key value =
     (if is_secret_key key then PStr TEL_REDACTED
      else (case value of
          PStr s \<Rightarrow> if re_search TEL_SECRET_VALUE_RE s then PStr (re_sub TEL_SECRET_VALUE_RE TEL_REDACTED s) else value
        | _ \<Rightarrow> value))"

text \<open>The items of a list that are dictionaries are redacted too, those that are lists are not.\<close>

fun redact_mapping :: "pydict \<Rightarrow> pydict"
  and redact_entry :: "string \<Rightarrow> pyval \<Rightarrow> pyval"
  and redact_items :: "string \<Rightarrow> pyval list \<Rightarrow> pyval list" where
  "redact_mapping [] = []"
| "redact_mapping ((k, v) # data) =
     (k, if is_secret_key k then PStr TEL_REDACTED else redact_entry k v) # redact_mapping data"
| "redact_entry k (PDict d) = PDict (redact_mapping d)"
| "redact_entry k (PList xs) = PList (redact_items k xs)"
| "redact_entry k v = tel_redact_value k v"
| "redact_items k [] = []"
| "redact_items k (PDict d # xs) = PDict (redact_mapping d) # redact_items k xs"
| "redact_items k (x # xs) = tel_redact_value k x # redact_items k xs"

definition scrub_message :: "string \<Rightarrow> string" where
  "scrub_message msg = take 2000
     (foldl (\<lambda>out r. re_sub r TEL_REDACTED out) msg [TEL_SECRET_VALUE_RE, SSN_RE, CC_RE, EMAIL_RE, PHONE_RE])"

definition hash_tenant :: "pyenv \<Rightarrow> string option \<Rightarrow> string option" where
  "hash_tenant E tenant_id = (case tenant_id of
       Some (c # cs) \<Rightarrow> Some (''sha256:'' @ take 16 (sha256_hexdigest E (c # cs))) | _ \<Rightarrow> None)"

text \<open>An optional text that is there and not empty, as an entry.\<close>

definition text_attr :: "string \<Rightarrow> string option \<Rightarrow> pydict" where
  "text_attr k v = (case v of Some (c # cs) \<Rightarrow> [(k, PStr (c # cs))] | _ \<Rightarrow> [])"

definition genai_attrs ::
  "string option \<Rightarrow> string option \<Rightarrow> string option \<Rightarrow> string option \<Rightarrow> int option \<Rightarrow> int option \<Rightarrow> pyfloat option \<Rightarrow> pydict" where
  "genai_attrs operation provider model tool_name input_tokens output_tokens cost_usd =
     text_attr ''gen_ai.operation.name'' operation @ text_attr ''gen_ai.provider.name'' provider @
     text_attr ''gen_ai.request.model'' model @ text_attr ''gen_ai.response.model'' model @
     text_attr ''gen_ai.tool.name'' tool_name @
     (case input_tokens of Some n \<Rightarrow> [(''gen_ai.usage.input_tokens'', PInt n)] | None \<Rightarrow> []) @
     (case output_tokens of Some n \<Rightarrow> [(''gen_ai.usage.output_tokens'', PInt n)] | None \<Rightarrow> []) @
     (case cost_usd of Some x \<Rightarrow> [(''workbench.gen_ai.cost_usd'', PFloat x)] | None \<Rightarrow> [])"

section \<open>State and parameters\<close>

text \<open>A span that was started: its attributes, and the status it was given last (ok, or an error with a
  text).\<close>

record tspan =
  sp_name :: string
  sp_attrs :: pydict
  sp_server :: bool
  sp_status :: "string option option"
  sp_ended :: bool

text \<open>Where finished spans go, and where the tracer of the process comes from: a provider of a service, or
  whatever provider the process has.\<close>

datatype exporter = InMemory | Otlp string | Console

type_synonym provider = "string \<times> exporter list"

datatype tracer = Of_provider provider | Of_global string

record tel =
  te_ticks :: nat
  initialized_for :: "string option"
  te_global :: "provider option"
  te_current :: "tracer option"
  metrics_initialized :: bool
  te_readers :: "exporter list"
  te_spans :: "tspan list"
  local_counts :: "(string \<times> pyfloat) list"
  local_hist_values :: "(string \<times> pyfloat list) list"
  instruments :: "string list"
  meter_set :: bool
  te_sent :: "(string \<times> pyfloat \<times> (string \<times> string) list) list"

record tel_env =
  te_py :: pyenv
  te_getenv :: "string \<Rightarrow> string option"
  te_otel :: bool
  te_metrics :: bool
  te_otlp :: bool
  te_set_global :: "provider option \<Rightarrow> provider \<Rightarrow> provider option"
  te_fresh :: "string \<Rightarrow> bool"
  te_meter :: "string \<Rightarrow> bool"
  te_mono :: "nat \<Rightarrow> pyfloat"
  te_tracer :: "nat \<Rightarrow> bool"
  te_starts :: "nat \<Rightarrow> string \<Rightarrow> pydict \<Rightarrow> bool"
  te_takes :: "string \<Rightarrow> pyval \<Rightarrow> bool"
  te_leave :: "pyexc option \<Rightarrow> tspan \<Rightarrow> tspan"
  te_makes :: "string \<Rightarrow> bool"
  te_accepts :: "string \<Rightarrow> pyfloat \<Rightarrow> bool"
  te_inject :: "pydict \<Rightarrow> pydict option"
  te_trace_id :: "nat \<Rightarrow> nat option"
  te_uuid :: "nat \<Rightarrow> string"

definition tel_tick :: "(nat \<Rightarrow> 'a) \<Rightarrow> ('x tel_scheme, 'a) em" where
  "tel_tick f = ebind (eget te_ticks) (\<lambda>k. ethen (emod (\<lambda>s. s\<lparr>te_ticks := Suc (te_ticks s)\<rparr>)) (eret (f k)))"

text \<open>\<^verbatim>\<open>try: m finally: f\<close>, where \<open>f\<close> does not raise; \<^verbatim>\<open>except Exception\<close>, which a cancellation passes.\<close>

definition efinally :: "('s, 'a) em \<Rightarrow> ('s, unit) em \<Rightarrow> ('s, 'a) em" where
  "efinally m f = (\<lambda>s. case m s of (r, t) \<Rightarrow> (case f t of (Inl e, u) \<Rightarrow> (Inl e, u) | (Inr _, u) \<Rightarrow> (r, u)))"

definition is_exception :: "pyexc \<Rightarrow> bool" where
  "is_exception e = (exc_name e \<noteq> ''CancelledError'')"

definition env_text :: "tel_env \<Rightarrow> string \<Rightarrow> string" where
  "env_text E k = (case te_getenv E k of Some v \<Rightarrow> v | None \<Rightarrow> [])"

definition env_flag :: "tel_env \<Rightarrow> string \<Rightarrow> bool" where
  "env_flag E k = (lower (env_text E k) \<in> {''1'', ''true''})"

definition content_capture_enabled :: "tel_env \<Rightarrow> bool" where
  "content_capture_enabled E =
     (lower (strip (env_text E ''OTEL_CONTENT_CAPTURE'')) = ''dev-only'')"

definition maybe_content :: "tel_env \<Rightarrow> string option \<Rightarrow> string option" where
  "maybe_content E prompt_or_completion = (case prompt_or_completion of
       Some (c # cs) \<Rightarrow> if content_capture_enabled E then Some (take 2000 (scrub_message (c # cs))) else None
     | _ \<Rightarrow> None)"

section \<open>Metrics\<close>

definition counter_key :: "string \<Rightarrow> (string \<times> string) list \<Rightarrow> string" where
  "counter_key name attrs = name @ ''|'' @ join '','' (map (\<lambda>(k, v). k @ ''='' @ v) (sort_key fst attrs))"

definition init_metrics :: "tel_env \<Rightarrow> string \<Rightarrow> bool \<Rightarrow> ('x tel_scheme, bool) em" where
  "init_metrics E service_name console =
     (if \<not> te_metrics E then eret False
      else ebind (eget (\<lambda>s. metrics_initialized s \<and> meter_set s)) (\<lambda>done.
        if done then eret True
        else (let endpoint = env_text E ''OTEL_EXPORTER_OTLP_ENDPOINT'';
                  readers = (if endpoint \<noteq> [] \<and> te_otlp E then [Otlp endpoint] else []) @
                    (if console \<or> env_flag E ''OTEL_METRICS_CONSOLE'' then [Console] else []) in
          ethen (ewhen (readers \<noteq> []) (emod (\<lambda>s. s\<lparr>te_readers := readers\<rparr>)))
          (ethen (emod (\<lambda>s. s\<lparr>meter_set := te_meter E service_name, metrics_initialized := True\<rparr>))
            (eret (te_meter E service_name))))))"

text \<open>\<^verbatim>\<open>_counter\<close> and \<^verbatim>\<open>_histogram\<close>: whether there is an instrument of the name, made when it is first used.\<close>

definition instrument :: "tel_env \<Rightarrow> string \<Rightarrow> ('x tel_scheme, bool) em" where
  "instrument E name = ebind (eget meter_set) (\<lambda>m. ebind (eget instruments) (\<lambda>known.
     if \<not> te_metrics E \<or> \<not> m then eret False
     else if name \<in> set known then eret True
     else if te_makes E name
     then ethen (emod (\<lambda>s. s\<lparr>instruments := instruments s @ [name]\<rparr>)) (eret True)
     else eret False))"

definition send :: "tel_env \<Rightarrow> string \<Rightarrow> pyfloat \<Rightarrow> (string \<times> string) list \<Rightarrow> ('x tel_scheme, unit) em" where
  "send E name value attrs = ebind (instrument E name) (\<lambda>inst.
     ewhen (inst \<and> te_accepts E name value) (emod (\<lambda>s. s\<lparr>te_sent := te_sent s @ [(name, value, attrs)]\<rparr>)))"

definition bump :: "string \<Rightarrow> pyfloat \<Rightarrow> (string \<times> pyfloat) list \<Rightarrow> (string \<times> pyfloat) list" where
  "bump key value counts =
     AList.update key ((case map_of counts key of Some n \<Rightarrow> n | None \<Rightarrow> 0) + value) counts"

definition add_counter :: "tel_env \<Rightarrow> string \<Rightarrow> pyfloat \<Rightarrow> (string \<times> string) list \<Rightarrow> ('x tel_scheme, unit) em" where
  "add_counter E name value attrs =
     ethen (emod (\<lambda>s. s\<lparr>local_counts := bump (counter_key name attrs) value (local_counts s)\<rparr>))
       (send E name value attrs)"

definition record_hist :: "tel_env \<Rightarrow> string \<Rightarrow> pyfloat \<Rightarrow> (string \<times> string) list \<Rightarrow> ('x tel_scheme, unit) em" where
  "record_hist E name value attrs =
     ethen (emod (\<lambda>s. s\<lparr>local_hist_values := AList.update name
         ((case map_of (local_hist_values s) name of Some xs \<Rightarrow> xs | None \<Rightarrow> []) @ [value]) (local_hist_values s)\<rparr>))
       (send E name value attrs)"

definition record_run_started :: "tel_env \<Rightarrow> ('x tel_scheme, unit) em" where
  "record_run_started E = add_counter E ''workbench.runs.started'' 1 [(''status'', ''started'')]"

definition record_run_finished :: "tel_env \<Rightarrow> string \<Rightarrow> ('x tel_scheme, unit) em" where
  "record_run_finished E status = add_counter E ''workbench.runs.finished'' 1 [(''status'', status)]"

definition record_run_duration :: "tel_env \<Rightarrow> pyfloat \<Rightarrow> string \<Rightarrow> ('x tel_scheme, unit) em" where
  "record_run_duration E duration status = record_hist E ''workbench.run.duration'' duration [(''status'', status)]"

definition tel_record_model_call :: "tel_env \<Rightarrow> string \<Rightarrow> int \<Rightarrow> int \<Rightarrow> pyfloat \<Rightarrow> ('x tel_scheme, unit) em" where
  "tel_record_model_call E model input_tokens output_tokens cost =
     ethen (add_counter E ''workbench.model.calls'' 1 [(''model'', model)])
     (ethen (add_counter E ''workbench.model.tokens'' (rat_of_int (input_tokens + output_tokens)) [(''model'', model)])
       (add_counter E ''workbench.model.cost_usd'' cost [(''model'', model)]))"

definition record_tool_call :: "tel_env \<Rightarrow> string \<Rightarrow> string \<Rightarrow> pyfloat \<Rightarrow> ('x tel_scheme, unit) em" where
  "record_tool_call E tool_name status latency =
     ethen (add_counter E ''workbench.tool.calls'' 1 [(''tool'', tool_name), (''status'', status)])
       (record_hist E ''workbench.tool.latency'' latency [(''tool'', tool_name), (''status'', status)])"

definition record_a2a_call :: "tel_env \<Rightarrow> string \<Rightarrow> string \<Rightarrow> pyfloat \<Rightarrow> ('x tel_scheme, unit) em" where
  "record_a2a_call E agent_name status latency =
     ethen (add_counter E ''workbench.a2a.calls'' 1 [(''agent'', agent_name), (''status'', status)])
       (record_hist E ''workbench.a2a.latency'' latency [(''agent'', agent_name)])"

definition record_policy_decision :: "tel_env \<Rightarrow> string \<Rightarrow> ('x tel_scheme, unit) em" where
  "record_policy_decision E decision = add_counter E ''workbench.policy.decisions'' 1 [(''decision'', decision)]"

definition record_approval_wait :: "tel_env \<Rightarrow> pyfloat \<Rightarrow> string \<Rightarrow> ('x tel_scheme, unit) em" where
  "record_approval_wait E wait decision = record_hist E ''workbench.approval.wait'' wait [(''decision'', decision)]"

definition record_sse_reconnect :: "tel_env \<Rightarrow> ('x tel_scheme, unit) em" where
  "record_sse_reconnect E = add_counter E ''workbench.sse.reconnects'' 1 []"

definition record_budget_exhausted :: "tel_env \<Rightarrow> string \<Rightarrow> ('x tel_scheme, unit) em" where
  "record_budget_exhausted E budget = add_counter E ''workbench.budget.exhausted'' 1 [(''budget'', budget)]"

definition tel_snapshot :: "('x tel_scheme, (string \<times> pyfloat) list \<times> (string \<times> pyfloat list) list) em" where
  "tel_snapshot = eget (\<lambda>s. (local_counts s, local_hist_values s))"

definition reset_for_tests :: "('x tel_scheme, unit) em" where
  "reset_for_tests = emod (\<lambda>s. s\<lparr>local_counts := [], local_hist_values := []\<rparr>)"

section \<open>Spans\<close>

definition exporters_for :: "tel_env \<Rightarrow> string option \<Rightarrow> bool \<Rightarrow> bool \<Rightarrow> exporter list" where
  "exporters_for E otlp_endpoint enable_console in_memory =
     (let endpoint = (case otlp_endpoint of Some (c # cs) \<Rightarrow> c # cs | _ \<Rightarrow> env_text E ''OTEL_EXPORTER_OTLP_ENDPOINT'') in
      if in_memory then [InMemory]
      else if endpoint \<noteq> [] then [if te_otlp E then Otlp endpoint else Console]
      else if enable_console \<or> env_flag E ''OTEL_TRACES_CONSOLE'' then [Console]
      else [])"

text \<open>The provider that is returned; without the library nothing is.\<close>

definition init_tracing ::
  "tel_env \<Rightarrow> string \<Rightarrow> string option \<Rightarrow> bool \<Rightarrow> bool \<Rightarrow> ('x tel_scheme, provider option) em" where
  "init_tracing E service_name otlp_endpoint enable_console in_memory =
     (if \<not> te_otel E then eret None
      else ebind (eget initialized_for) (\<lambda>done.
        if done = Some service_name \<and> \<not> in_memory
        then ethen (emod (\<lambda>s. s\<lparr>te_current := Some (Of_global service_name)\<rparr>)) (eget te_global)
        else (let provider = (service_name, exporters_for E otlp_endpoint enable_console in_memory) in
          ethen (emod (\<lambda>s. s\<lparr>te_global := te_set_global E (te_global s) provider, initialized_for := Some service_name,
              te_current := Some (if te_fresh E service_name then Of_provider provider else Of_global service_name)\<rparr>))
            (eret (Some provider)))))"

text \<open>Whether there is a tracer; without one the spans do nothing.\<close>

definition get_tracer :: "tel_env \<Rightarrow> ('x tel_scheme, bool) em" where
  "get_tracer E =
     (if \<not> te_otel E then eret False
      else ebind (eget te_current) (\<lambda>current.
        if current \<noteq> None then eret True
        else ebind (tel_tick (te_tracer E)) (\<lambda>ok.
          ethen (ewhen ok (emod (\<lambda>s. s\<lparr>te_current := Some (Of_global ''workbench'')\<rparr>))) (eret ok))))"

definition span_attributes :: "pyenv \<Rightarrow> string option \<Rightarrow> string option \<Rightarrow> pydict \<Rightarrow> pydict" where
  "span_attributes E run_id tenant_id attributes =
     foldl (\<lambda>attrs (k, v). dset attrs k (if is_secret_key k then PStr TEL_REDACTED else v))
       (text_attr RUN_ID run_id @
        text_attr TENANT_HASH (case tenant_id of Some (c # cs) \<Rightarrow> hash_tenant E (Some (c # cs)) | _ \<Rightarrow> None))
       attributes"

text \<open>The handle of a started span is its position, that of the span that does nothing is \<open>None\<close>.\<close>

definition start_span :: "tel_env \<Rightarrow> string \<Rightarrow> pydict \<Rightarrow> bool \<Rightarrow> ('x tel_scheme, nat option) em" where
  "start_span E name attrs server = ebind (get_tracer E) (\<lambda>tracer. ebind (tel_tick (\<lambda>k. te_starts E k name attrs)) (\<lambda>ok.
     if tracer \<and> ok
     then ebind (eget (\<lambda>s. length (te_spans s))) (\<lambda>i. ethen (emod (\<lambda>s. s\<lparr>te_spans := te_spans s @
         [\<lparr>sp_name = name, sp_attrs = attrs, sp_server = server, sp_status = None, sp_ended = False\<rparr>]\<rparr>))
         (eret (Some i)))
     else eret None))"

definition upd_span :: "nat option \<Rightarrow> (tspan \<Rightarrow> tspan) \<Rightarrow> ('x tel_scheme, unit) em" where
  "upd_span h f = (case h of None \<Rightarrow> eret ()
     | Some i \<Rightarrow> emod (\<lambda>s. s\<lparr>te_spans := (te_spans s)[i := f (te_spans s ! i)]\<rparr>))"

text \<open>A span that has ended takes no more attributes and no status, as the library documents.\<close>

definition set_attribute :: "tel_env \<Rightarrow> nat option \<Rightarrow> string \<Rightarrow> pyval \<Rightarrow> ('x tel_scheme, unit) em" where
  "set_attribute E h k v = upd_span h (\<lambda>sp.
     if sp_ended sp \<or> \<not> te_takes E k v then sp else sp\<lparr>sp_attrs := dset (sp_attrs sp) k v\<rparr>)"

definition status_ok :: "nat option \<Rightarrow> ('x tel_scheme, unit) em" where
  "status_ok h = upd_span h (\<lambda>sp. if sp_ended sp then sp else sp\<lparr>sp_status := Some None\<rparr>)"

definition status_error :: "nat option \<Rightarrow> string \<Rightarrow> ('x tel_scheme, unit) em" where
  "status_error h message =
     upd_span h (\<lambda>sp. if sp_ended sp then sp else sp\<lparr>sp_status := Some (Some (scrub_message message))\<rparr>)"

definition leave_span :: "tel_env \<Rightarrow> nat option \<Rightarrow> pyexc option \<Rightarrow> ('x tel_scheme, unit) em" where
  "leave_span E h e = upd_span h (\<lambda>sp. (te_leave E e sp)\<lparr>sp_ended := True\<rparr>)"

definition in_span :: "tel_env \<Rightarrow> nat option \<Rightarrow> ('x tel_scheme, 'a) em \<Rightarrow> ('x tel_scheme, 'a) em" where
  "in_span E h m = (\<lambda>s. case m s of
       (Inl e, t) \<Rightarrow> ethen (leave_span E h (Some e)) (eraise e) t
     | (Inr x, t) \<Rightarrow> ethen (leave_span E h None) (eret x) t)"

definition span ::
  "tel_env \<Rightarrow> string \<Rightarrow> string option \<Rightarrow> string option \<Rightarrow> pydict \<Rightarrow> bool \<Rightarrow> (nat option \<Rightarrow> ('x tel_scheme, 'a) em) \<Rightarrow>
     ('x tel_scheme, 'a) em" where
  "span E name run_id tenant_id attributes server body =
     ebind (start_span E name (span_attributes (te_py E) run_id tenant_id attributes) server)
       (\<lambda>h. in_span E h (body h))"

definition run_span where
  "run_span E run_id tenant_id status body =
     span E (''run '' @ run_id) (Some run_id) tenant_id (text_attr RUN_STATUS status) False body"

definition workflow_span where
  "workflow_span E state run_id body =
     span E (''workflow.'' @ state) run_id None [(''workbench.workflow.state'', PStr state)] False body"

definition agent_span where
  "agent_span E agent_name run_id body =
     span E (''agent '' @ agent_name) run_id None [(AGENT_NAME_KEY, PStr agent_name)] False body"

definition model_span where
  "model_span E run_id model provider operation input_tokens output_tokens cost_usd body =
     span E ''model.call'' run_id None
       (genai_attrs (Some operation) provider model None input_tokens output_tokens cost_usd) False body"

text \<open>The body of a timed span: its status, and on leaving it the time it took.\<close>

definition timed :: "tel_env \<Rightarrow> pyfloat \<Rightarrow> string \<Rightarrow> (nat option \<Rightarrow> ('x tel_scheme, 'a) em) \<Rightarrow> nat option \<Rightarrow>
    ('x tel_scheme, 'a) em" where
  "timed E started key body h = efinally
     (etry (ebind (body h) (\<lambda>x. ethen (status_ok h) (eret x)))
       (\<lambda>e. if is_exception e then ethen (status_error h (exc_msg e)) (eraise e) else eraise e))
     (ebind (tel_tick (te_mono E)) (\<lambda>now. set_attribute E h key (PFloat (py_round 4 (now - started)))))"

definition mcp_tool_span where
  "mcp_tool_span E tool_name run_id side_effect dry_run version body =
     ebind (tel_tick (te_mono E)) (\<lambda>started. span E (''mcp '' @ tool_name) run_id None
       ([(TOOL_NAME, PStr tool_name)] @ text_attr TOOL_SIDE_EFFECT side_effect @
        (case dry_run of Some b \<Rightarrow> [(TOOL_DRY_RUN, PBool b)] | None \<Rightarrow> []) @ text_attr TOOL_VERSION_KEY version) False
       (timed E started ''workbench.tool.latency_s'' body))"

definition a2a_span where
  "a2a_span E task_id run_id agent_name skill_id body =
     ebind (tel_tick (te_mono E)) (\<lambda>started. span E (''a2a '' @ task_id) run_id None
       ([(TASK_ID, PStr task_id)] @ text_attr AGENT_NAME_KEY agent_name @ text_attr SKILL_ID_KEY skill_id) False
       (timed E started ''workbench.a2a.latency_s'' body))"

definition policy_span where
  "policy_span E run_id tool_name decision reason body =
     span E ''policy.decision'' run_id None
       (text_attr TOOL_NAME tool_name @ text_attr POLICY_DECISION decision @
        (case reason of Some (c # cs) \<Rightarrow> [(POLICY_REASON, PStr (take 500 (scrub_message (c # cs))))] | _ \<Rightarrow> []))
       False body"

definition approval_wait_span where
  "approval_wait_span E approval_id run_id body =
     span E ''approval.wait'' run_id None [(APPROVAL_ID, PStr approval_id)] False body"

definition db_span where
  "db_span E oper run_id table body =
     span E (''db '' @ oper) run_id None ([(''db.operation'', PStr oper)] @ text_attr ''db.sql.table'' table) False body"

definition http_server_span where
  "http_server_span E route run_id method body =
     span E route run_id None ([(''http.route'', PStr route)] @ text_attr ''http.request.method'' method) (te_otel E) body"

text \<open>Headers: what the library puts into a carrier, and the identifier of the current trace in 32
  hexadecimal digits.\<close>

definition inject_headers :: "tel_env \<Rightarrow> pydict \<Rightarrow> pydict" where
  "inject_headers E carrier =
     (if te_otel E then (case te_inject E carrier of Some c \<Rightarrow> c | None \<Rightarrow> carrier) else carrier)"

fun hex32 :: "nat \<Rightarrow> nat \<Rightarrow> string" where
  "hex32 0 n = []"
| "hex32 (Suc w) n = hex32 w (n div 16) @ [hex_digit (n mod 16)]"

definition current_trace_id :: "tel_env \<Rightarrow> ('x tel_scheme, string option) em" where
  "current_trace_id E = tel_tick (\<lambda>k. if te_otel E
     then (case te_trace_id E k of Some (Suc n) \<Rightarrow> Some (hex32 32 (Suc n)) | _ \<Rightarrow> None) else None)"

section \<open>Wrappers\<close>

definition instrument_run where
  "instrument_run E run_id tenant_id body =
     ebind (tel_tick (te_mono E)) (\<lambda>started. ethen (record_run_started E)
     (run_span E run_id tenant_id None (\<lambda>_. efinally
       (etry (ebind body (\<lambda>x. ethen (record_run_finished E ''completed'') (eret x)))
         (\<lambda>e. if is_exception e then ethen (record_run_finished E ''failed'') (eraise e) else eraise e))
       (ebind (tel_tick (te_mono E)) (\<lambda>now. record_run_duration E (now - started) ''run'')))))"

definition instrument_workflow_step where
  "instrument_workflow_step E state run_id body = workflow_span E state run_id (\<lambda>_. body)"

definition instrument_model_call where
  "instrument_model_call E run_id model provider operation body =
     ebind (tel_tick (te_mono E)) (\<lambda>started.
     ebind (model_span E run_id model provider operation None None None
         (\<lambda>h. ebind (body h) (\<lambda>x. eret (x, h)))) (\<lambda>(x, h).
     ebind (tel_tick (te_mono E)) (\<lambda>now.
     ethen (set_attribute E h ''workbench.model.latency_s'' (PFloat (py_round 4 (now - started)))) (eret x))))"

definition record_model_usage :: "tel_env \<Rightarrow> string \<Rightarrow> int \<Rightarrow> int \<Rightarrow> pyfloat \<Rightarrow> ('x tel_scheme, unit) em" where
  "record_model_usage E model input_tokens output_tokens cost = tel_record_model_call E model input_tokens output_tokens cost"

text \<open>The status a wrapper records for how its body ends.\<close>

definition tel_recorded :: "(pyexc \<Rightarrow> string) \<Rightarrow> string \<Rightarrow> (string \<Rightarrow> ('x tel_scheme, unit) em) \<Rightarrow> ('x tel_scheme, 'a) em \<Rightarrow>
    ('x tel_scheme, 'a) em" where
  "tel_recorded failed fine put body = (\<lambda>s. case body s of
       (Inl e, t) \<Rightarrow> ethen (put (if is_exception e then failed e else fine)) (eraise e) t
     | (Inr x, t) \<Rightarrow> ethen (put fine) (eret x) t)"

definition instrument_mcp_tool where
  "instrument_mcp_tool E tool_name run_id side_effect version body =
     ebind (tel_tick (te_mono E)) (\<lambda>started.
     mcp_tool_span E tool_name run_id side_effect None version (\<lambda>_.
       tel_recorded (\<lambda>_. ''failed'') ''succeeded''
         (\<lambda>status. ebind (tel_tick (te_mono E)) (\<lambda>now. record_tool_call E tool_name status (now - started))) body))"

definition trace_mcp_invoke where
  "trace_mcp_invoke E fn tool_name args run_id =
     instrument_mcp_tool E tool_name run_id None None (fn tool_name args)"

definition instrument_a2a_task where
  "instrument_a2a_task E task_id run_id agent_name skill_id body =
     ebind (tel_tick (te_mono E)) (\<lambda>started.
     a2a_span E task_id run_id agent_name skill_id (\<lambda>_.
       tel_recorded (\<lambda>e. if exc_class e = ETimeout then ''timeout'' else ''failed'') ''completed''
         (\<lambda>status. ebind (tel_tick (te_mono E)) (\<lambda>now. record_a2a_call E
            (case agent_name of Some (c # cs) \<Rightarrow> c # cs | _ \<Rightarrow> ''unknown'') status (now - started))) body))"

definition instrument_policy_check where
  "instrument_policy_check E tool_name run_id body = policy_span E run_id (Some tool_name) None None body"

definition record_policy_outcome :: "tel_env \<Rightarrow> bool \<Rightarrow> bool \<Rightarrow> ('x tel_scheme, unit) em" where
  "record_policy_outcome E allowed requires_approval = record_policy_decision E
     (if \<not> allowed then ''deny'' else if requires_approval then ''approval'' else ''allow'')"

definition instrument_approval_wait where
  "instrument_approval_wait E approval_id run_id body =
     ebind (tel_tick (te_mono E)) (\<lambda>started. ebind (approval_wait_span E approval_id run_id (\<lambda>_. body)) (\<lambda>x.
     ethen (ebind (tel_tick (te_mono E)) (\<lambda>now. record_approval_wait E (now - started) [])) (eret x)))"

definition instrument_db where
  "instrument_db E oper table run_id body = db_span E oper run_id (Some table) (\<lambda>_. body)"

definition instrument_api :: "tel_env \<Rightarrow> string \<Rightarrow> ('x tel_scheme, unit) em" where
  "instrument_api E service_name =
     ethen (init_tracing E service_name None False False) (ethen (init_metrics E service_name False) (eret ()))"

text \<open>The middleware of \<^verbatim>\<open>instrument_api\<close>; a response is its headers and a body.\<close>

definition trace_dispatch where
  "trace_dispatch E path method run_id request_id call_next =
     ebind (tel_tick (te_uuid E)) (\<lambda>uuid.
     let req_id = (case request_id of Some (c # cs) \<Rightarrow> c # cs | _ \<Rightarrow> ''req_'' @ take 12 uuid) in
     ebind (http_server_span E path run_id (Some method) (\<lambda>_. call_next)) (\<lambda>(headers, content).
     ebind (current_trace_id E) (\<lambda>tid.
       let hs = AList.update ''X-Request-ID'' req_id headers in
       eret (case tid of Some t \<Rightarrow> AList.update ''X-Trace-ID'' t hs | None \<Rightarrow> hs, content))))"

end
