(* ===== verification/TelemetryProps.thy ===== *)
theory TelemetryProps
  imports Telemetry
begin

text \<open>
  What the wrappers of \<^verbatim>\<open>instrument.py\<close> guarantee: the work inside them is not disturbed, each call is
  counted once, and no span shows a value under a secret key.

  A \<open>view\<close> of the state that spans do not touch is a locale; what holds of spans and wrappers for every
  such view is proved once and used for the program's own state and for the counters.
\<close>

section \<open>Computations that leave a view as it is\<close>

definition still :: "('s \<Rightarrow> 'v) \<Rightarrow> ('s, 'a) em \<Rightarrow> bool" where
  "still f m \<longleftrightarrow> (\<forall>s. \<exists>x t. m s = (Inr x, t) \<and> f t = f s)"

text \<open>A wrapper that runs its body once, between views that are the same, and ends as it does.\<close>

definition passes :: "('s \<Rightarrow> 'v) \<Rightarrow> (('s, 'a) em \<Rightarrow> ('s, 'a) em) \<Rightarrow> bool" where
  "passes f W \<longleftrightarrow> (\<forall>m s. \<exists>u. f u = f s \<and> fst (W m s) = fst (m u) \<and> f (snd (W m s)) = f (snd (m u)))"

named_theorems still_rules \<open>computations that leave a view as it is\<close>

lemma still_ret [still_rules]: "still f (eret x)"
  by (simp add: still_def run_simps)

lemma still_get [still_rules]: "still f (eget g)"
  by (simp add: still_def run_simps)

lemma still_mod: "(\<And>s. f (g s) = f s) \<Longrightarrow> still f (emod g)"
  by (simp add: still_def run_simps)

lemma still_bind [still_rules]: "still f m \<Longrightarrow> (\<And>x. still f (g x)) \<Longrightarrow> still f (ebind m g)"
  by (simp add: still_def run_simps) (metis (mono_tags, lifting) case_prod_conv sum.simps(6))

lemma still_then [still_rules]: "still f m \<Longrightarrow> still f n \<Longrightarrow> still f (ethen m n)"
  unfolding ethen_def by (rule still_bind)

lemma still_when [still_rules]: "still f m \<Longrightarrow> still f (ewhen c m)"
  by (simp add: ewhen_def still_ret)

lemma still_if [still_rules]: "still f m \<Longrightarrow> still f n \<Longrightarrow> still f (if c then m else n)"
  by simp

lemma still_run:
  assumes "still f m"
  obtains x t where "m s = (Inr x, t)" "f t = f s"
  using assms unfolding still_def by blast

lemma still_raises: "still f m \<Longrightarrow> m s = (Inl e, t) \<Longrightarrow> False"
  unfolding still_def by (metis Pair_inject Inl_Inr_False)

lemma still_view: "still f m \<Longrightarrow> m s = (r, t) \<Longrightarrow> f t = f s"
  unfolding still_def by (metis Pair_inject)

lemma passesI: "(\<And>m s. \<exists>u. f u = f s \<and> fst (W m s) = fst (m u) \<and> f (snd (W m s)) = f (snd (m u))) \<Longrightarrow> passes f W"
  by (simp add: passes_def)

lemma passesD:
  assumes "passes f W"
  obtains u where "f u = f s" "fst (W m s) = fst (m u)" "f (snd (W m s)) = f (snd (m u))"
  using assms unfolding passes_def by blast

lemma passes_comp: "passes f W \<Longrightarrow> passes f V \<Longrightarrow> passes f (\<lambda>m. W (V m))"
  by (simp add: passes_def) metis

lemma passes_bind: 
  assumes "still f q" and "\<And>x. passes f (W x)"
  shows "passes f (\<lambda>m. ebind q (\<lambda>x. W x m))"
proof (rule passesI)
  fix m s
  from assms(1) obtain x t where q: "q s = (Inr x, t)" "f t = f s" by (rule still_run)
  from passesD [OF assms(2)] obtain u where "f u = f t" "fst (W x m t) = fst (m u)" "f (snd (W x m t)) = f (snd (m u))" .
  with q show "\<exists>u. f u = f s \<and> fst (ebind q (\<lambda>x. W x m) s) = fst (m u) \<and> f (snd (ebind q (\<lambda>x. W x m) s)) = f (snd (m u))"
    by (auto simp: run_simps)
qed

lemma passes_then: "still f q \<Longrightarrow> passes f W \<Longrightarrow> passes f (\<lambda>m. ethen q (W m))"
  unfolding ethen_def by (rule passes_bind)

text \<open>Something after the body that depends on how it ended, and ends the same way.\<close>

lemma passes_after:
  assumes "\<And>m s x v. m s = (Inr x, v) \<Longrightarrow> fst (W m s) = Inr x \<and> f (snd (W m s)) = f v"
    and "\<And>m s e v. m s = (Inl e, v) \<Longrightarrow> fst (W m s) = Inl e \<and> f (snd (W m s)) = f v"
  shows "passes f W"
proof (rule passesI)
  fix m s
  have "fst (W m s) = fst (m s) \<and> f (snd (W m s)) = f (snd (m s))"
    using assms [of m s] by (cases "m s"; cases "fst (m s)") auto
  then show "\<exists>u. f u = f s \<and> fst (W m s) = fst (m u) \<and> f (snd (W m s)) = f (snd (m u))" by blast
qed

lemma passes_finally: "still f q \<Longrightarrow> passes f (\<lambda>m. efinally m q)"
  by (rule passes_after) (auto simp: efinally_def split: prod.splits sum.splits dest: still_raises still_view)

lemma passes_guarded:
  assumes "still f ok" and "\<And>e. still f (bad e)"
  shows "passes f (\<lambda>m. etry (ebind m (\<lambda>x. ethen ok (eret x)))
    (\<lambda>e. if c e then ethen (bad e) (eraise e) else eraise e))"
  by (rule passes_after) (insert assms, auto simp: run_simps split: prod.splits sum.splits dest: still_raises still_view)

lemma passes_recorded:
  assumes "\<And>status. still f (put status)"
  shows "passes f (tel_recorded failed fine put)"
  by (rule passes_after)
    (insert assms, auto simp: tel_recorded_def run_simps split: prod.splits sum.splits dest: still_raises still_view)

section \<open>Spans and views\<close>

locale span_view =
  fixes f :: "'x tel_scheme \<Rightarrow> 'v"
  assumes f_ticks: "f (s\<lparr>te_ticks := n\<rparr>) = f s"
    and f_spans: "f (s\<lparr>te_spans := sps\<rparr>) = f s"
    and f_current: "f (s\<lparr>te_current := c\<rparr>) = f s"
begin

lemma still_tick: "still f (tel_tick g)"
  by (simp add: still_def tel_tick_def run_simps f_ticks)

lemma still_upd_span: "still f (upd_span h g)"
  by (simp add: still_def upd_span_def run_simps f_spans split: option.splits)

lemma still_start: "still f (start_span E name attrs server)"
  unfolding start_span_def get_tracer_def
  by (intro still_rules still_tick still_mod) (simp_all add: f_spans f_current)

lemma passes_in_span: "passes f (in_span E h)"
  by (rule passes_after) (insert still_upd_span, auto simp: in_span_def leave_span_def run_simps
      split: prod.splits sum.splits dest: still_raises still_view)

lemma passes_span:
  assumes "\<And>h. passes f (W h)"
  shows "passes f (\<lambda>m. span E name run_id tenant_id attributes server (\<lambda>h. W h m))"
  unfolding span_def by (intro passes_bind still_start passes_comp [OF passes_in_span] assms)

lemma passes_timed: "passes f (\<lambda>m. timed E started key (\<lambda>_. m) h)"
  unfolding timed_def status_ok_def status_error_def set_attribute_def
  by (intro passes_comp [OF passes_finally passes_guarded] still_rules still_tick still_upd_span)

end

section \<open>Wrappers and views\<close>

locale record_view = span_view f for f :: "'x tel_scheme \<Rightarrow> 'v" +
  assumes f_counts: "f (s\<lparr>local_counts := c\<rparr>) = f s"
    and f_hists: "f (s\<lparr>local_hist_values := h\<rparr>) = f s"
    and f_instruments: "f (s\<lparr>instruments := i\<rparr>) = f s"
    and f_sent: "f (s\<lparr>te_sent := d\<rparr>) = f s"
begin

lemma still_send: "still f (send E name value attrs)"
  unfolding send_def instrument_def
  by (intro still_rules still_mod) (simp_all add: f_instruments f_sent)

lemma still_records: "still f (add_counter E name value attrs)" "still f (record_hist E name value attrs)"
  unfolding add_counter_def record_hist_def
  by (intro still_rules still_send still_mod; simp add: f_counts f_hists)+

lemmas still_recorders = still_records still_tick still_upd_span still_rules

lemma passes_run: "passes f (instrument_run E run_id tenant_id)"
  unfolding instrument_run_def run_span_def record_run_started_def record_run_finished_def record_run_duration_def
  by (intro passes_bind passes_then passes_span passes_comp [OF passes_finally passes_guarded] still_recorders)

lemma passes_step: "passes f (instrument_workflow_step E state run_id)"
  unfolding instrument_workflow_step_def workflow_span_def by (intro passes_span passesI exI) auto

lemma passes_tool: "passes f (instrument_mcp_tool E tool_name run_id side_effect version)"
  unfolding instrument_mcp_tool_def mcp_tool_span_def record_tool_call_def
  by (intro passes_bind passes_span passes_comp [OF passes_timed passes_recorded] still_recorders)

lemma passes_a2a: "passes f (instrument_a2a_task E task_id run_id agent_name skill_id)"
  unfolding instrument_a2a_task_def a2a_span_def record_a2a_call_def
  by (intro passes_bind passes_span passes_comp [OF passes_timed passes_recorded] still_recorders)

lemma passes_policy: "passes f (\<lambda>m. instrument_policy_check E tool_name run_id (\<lambda>_. m))"
  unfolding instrument_policy_check_def policy_span_def by (intro passes_span passesI exI) auto

lemma passes_db: "passes f (instrument_db E oper table run_id)"
  unfolding instrument_db_def db_span_def by (intro passes_span passesI exI) auto

end

section \<open>The work inside is not disturbed\<close>

lemma passes_followed: "still f q \<Longrightarrow> passes f (\<lambda>m. ebind m (\<lambda>x. ethen q (eret x)))"
  by (rule passes_after) (auto simp: run_simps split: prod.splits sum.splits dest: still_raises still_view)

lemma in_span_handle:
  "ebind (in_span E h (ebind m (\<lambda>x. eret (x, h)))) (\<lambda>(x, h). g x h) = ebind (in_span E h m) (\<lambda>x. g x h)"
  by (rule ext) (auto simp: in_span_def run_simps leave_span_def upd_span_def split: prod.splits sum.splits option.splits)

context record_view
begin

lemma passes_wait: "passes f (instrument_approval_wait E approval_id run_id)"
proof -
  have "passes f (\<lambda>m. approval_wait_span E approval_id run_id (\<lambda>_. m))"
    unfolding approval_wait_span_def by (intro passes_span passesI exI) auto
  then show ?thesis
    unfolding instrument_approval_wait_def record_approval_wait_def
    by (intro passes_bind passes_comp [OF passes_followed] still_recorders)
qed

lemma passes_model: "passes f (\<lambda>m. instrument_model_call E run_id model provider operation (\<lambda>_. m))"
proof -
  have "passes f (\<lambda>m. ebind (in_span E h m) (\<lambda>x. ethen (q started h) (eret x)))"
    if "\<And>y h. still f (q y h)" for q :: "pyfloat \<Rightarrow> nat option \<Rightarrow> ('x tel_scheme, unit) em" and started h
    using that by (intro passes_comp [OF passes_followed passes_in_span])
  from this [of "\<lambda>started h. ebind (tel_tick (te_mono E))
      (\<lambda>now. set_attribute E h ''workbench.model.latency_s'' (PFloat (py_round 4 (now - started))))"]
  have *: "passes f (\<lambda>m. ebind (in_span E h m) (\<lambda>x. ebind (tel_tick (te_mono E)) (\<lambda>now.
      ethen (set_attribute E h ''workbench.model.latency_s'' (PFloat (py_round 4 (now - started)))) (eret x))))"
    for started h
    unfolding set_attribute_def by (simp add: ethen_def ebind_assoc still_recorders)
  show ?thesis
    unfolding instrument_model_call_def model_span_def span_def ebind_assoc in_span_handle
    by (intro passes_bind still_start still_tick *)
qed

end

interpretation world_view: record_view "tel.more :: 'x tel_scheme \<Rightarrow> 'x"
  by unfold_locales simp_all

text \<open>A computation that does to the program's state what \<open>b\<close> does, whatever it records beside it.\<close>

definition works_like :: "('x tel_scheme, 'a) em \<Rightarrow> ('x \<Rightarrow> 'a presult \<times> 'x) \<Rightarrow> bool" where
  "works_like m b \<longleftrightarrow> (\<forall>s. fst (m s) = fst (b (tel.more s)) \<and> tel.more (snd (m s)) = snd (b (tel.more s)))"

definition undisturbed :: "(('x tel_scheme, 'a) em \<Rightarrow> ('x tel_scheme, 'a) em) \<Rightarrow> bool" where
  "undisturbed W \<longleftrightarrow> (\<forall>m b. works_like m b \<longrightarrow> works_like (W m) b)"

lemma undisturbedI:
  fixes W :: "('x tel_scheme, 'a) em \<Rightarrow> ('x tel_scheme, 'a) em"
  assumes "passes tel.more W"
  shows "undisturbed W"
  unfolding undisturbed_def
proof (intro allI impI)
  fix m and b :: "'x \<Rightarrow> 'a presult \<times> 'x" assume m: "works_like m b"
  show "works_like (W m) b"
    unfolding works_like_def
  proof
    fix s
    from passesD [OF assms, of s m] obtain u
      where "tel.more u = tel.more s" "fst (W m s) = fst (m u)" "tel.more (snd (W m s)) = tel.more (snd (m u))" .
    with m show "fst (W m s) = fst (b (tel.more s)) \<and> tel.more (snd (W m s)) = snd (b (tel.more s))"
      by (simp add: works_like_def)
  qed
qed

text \<open>C39. Instrumented work is the work: every wrapper runs its body once, ends as it ends, with its value or its
  exception, and leaves the program's state as the body alone would; so wrappers may be nested, and
  dropping all of them changes nothing but the telemetry.\<close>

theorem instrumented_work_undisturbed:
  "undisturbed (instrument_run E run_id tenant_id) \<and>
   undisturbed (instrument_workflow_step E state step_run) \<and>
   undisturbed (\<lambda>m. instrument_model_call E model_run model provider operation (\<lambda>_. m)) \<and>
   undisturbed (instrument_mcp_tool E tool_name tool_run side_effect version) \<and>
   undisturbed (instrument_a2a_task E task_id task_run agent_name skill_id) \<and>
   undisturbed (\<lambda>m. instrument_policy_check E policy_tool policy_run (\<lambda>_. m)) \<and>
   undisturbed (instrument_approval_wait E approval_id approval_run) \<and>
   undisturbed (instrument_db E oper table db_run)"
  by (intro conjI undisturbedI world_view.passes_run world_view.passes_step world_view.passes_model world_view.passes_tool
      world_view.passes_a2a world_view.passes_policy world_view.passes_wait world_view.passes_db)

section \<open>Every call is counted once\<close>

definition counted :: "'x tel_scheme \<Rightarrow> string \<Rightarrow> pyfloat" where
  "counted s k = (case map_of (local_counts s) k of Some n \<Rightarrow> n | None \<Rightarrow> 0)"

definition tel_view :: "'x tel_scheme \<Rightarrow> 'x \<times> (string \<times> pyfloat) list" where
  "tel_view s = (tel.more s, local_counts s)"

interpretation count_view: span_view "tel_view :: 'x tel_scheme \<Rightarrow> _"
  by unfold_locales (simp_all add: tel_view_def)

lemma still_send_view: "still tel_view (send E name value attrs)"
  unfolding send_def instrument_def
  by (intro still_rules still_mod) (simp_all add: tel_view_def)

lemma add_counter_run:
  obtains t where "add_counter E name amount attrs s = (Inr (), t)" "tel.more t = tel.more s"
    "counted t = (counted s)(counter_key name attrs := counted s (counter_key name attrs) + amount)"
proof -
  let ?k = "counter_key name attrs"
  let ?s = "s\<lparr>local_counts := bump ?k amount (local_counts s)\<rparr>"
  obtain t where t: "send E name amount attrs ?s = (Inr (), t)" "tel_view t = tel_view ?s"
    using still_run [OF still_send_view, of E name amount attrs ?s] by (metis old.unit.exhaust)
  show ?thesis
  proof
    show "add_counter E name amount attrs s = (Inr (), t)" using t(1) by (simp add: add_counter_def run_simps)
    show "tel.more t = tel.more s" using t(2) by (simp add: tel_view_def)
    show "counted t = (counted s)(?k := counted s ?k + amount)"
      using t(2) by (rule_tac ext) (auto simp: counted_def tel_view_def bump_def update_conv)
  qed
qed

lemma record_hist_run:
  obtains t where "record_hist E name value attrs s = (Inr (), t)" "tel_view t = tel_view s"
proof -
  have "still tel_view (record_hist E name value attrs)"
    unfolding record_hist_def by (intro still_rules still_send_view still_mod) (simp add: tel_view_def)
  then show ?thesis using still_run [of tel_view _ s] that by (metis old.unit.exhaust)
qed

text \<open>A counter that is raised when a body has ended, before the time is recorded.\<close>

lemma counted_after:
  obtains t where
    "ebind (tel_tick c) (\<lambda>now. ethen (add_counter E name 1 attrs) (record_hist E hist (g now) hist_attrs)) v = (Inr (), t)"
    "tel.more t = tel.more v"
    "counted t = (counted v)(counter_key name attrs := counted v (counter_key name attrs) + 1)"
proof -
  let ?v = "v\<lparr>te_ticks := Suc (te_ticks v)\<rparr>"
  have v: "counted ?v = counted v" "tel.more ?v = tel.more v" by (auto simp: counted_def)
  obtain w where w: "add_counter E name 1 attrs ?v = (Inr (), w)" "tel.more w = tel.more ?v"
    "counted w = (counted ?v)(counter_key name attrs := counted ?v (counter_key name attrs) + 1)" by (rule add_counter_run)
  obtain t where t: "record_hist E hist (g (c (te_ticks v))) hist_attrs w = (Inr (), t)" "tel_view t = tel_view w"
    by (rule record_hist_run)
  show ?thesis
  proof
    show "ebind (tel_tick c) (\<lambda>now. ethen (add_counter E name 1 attrs) (record_hist E hist (g now) hist_attrs)) v = (Inr (), t)"
      using w(1) t(1) by (simp add: tel_tick_def run_simps)
    show "tel.more t = tel.more v" using t(2) w(2) v(2) by (simp add: tel_view_def)
    have "counted t = counted w" using t(2) by (simp add: tel_view_def counted_def fun_eq_iff)
    then show "counted t = (counted v)(counter_key name attrs := counted v (counter_key name attrs) + 1)"
      using w(3) v(1) by simp
  qed
qed

text \<open>The status that is recorded for an end of the body.\<close>

definition status_of :: "(pyexc \<Rightarrow> string) \<Rightarrow> string \<Rightarrow> pyexc + 'a \<Rightarrow> string" where
  "status_of failed fine r = (case r of Inl e \<Rightarrow> if is_exception e then failed e else fine | Inr _ \<Rightarrow> fine)"

definition count_one :: "string \<Rightarrow> (string \<Rightarrow> pyfloat) \<Rightarrow> string \<Rightarrow> pyfloat" where
  "count_one k c = c(k := c k + 1)"

lemma recorded_counts:
  obtains v where
    "tel_recorded failed fine (\<lambda>status. ebind (tel_tick c) (\<lambda>now.
       ethen (add_counter E name 1 (attrs status)) (record_hist E hist (g now) (hist_attrs status)))) m u = (fst (m u), v)"
    "counted v = count_one (counter_key name (attrs (status_of failed fine (fst (m u))))) (counted (snd (m u)))"
proof (cases "m u")
  case (Pair r w)
  let ?st = "status_of failed fine r"
  obtain v where "ebind (tel_tick c) (\<lambda>now. ethen (add_counter E name 1 (attrs ?st))
      (record_hist E hist (g now) (hist_attrs ?st))) w = (Inr (), v)"
    "counted v = (counted w)(counter_key name (attrs ?st) := counted w (counter_key name (attrs ?st)) + 1)"
    by (rule counted_after)
  with Pair that show ?thesis
    by (cases r) (auto simp: tel_recorded_def run_then status_of_def run_simps count_one_def)
qed

lemma run_tick: "ebind (tel_tick c) k s = k (c (te_ticks s)) (s\<lparr>te_ticks := Suc (te_ticks s)\<rparr>)"
  by (simp add: tel_tick_def run_simps)

lemma view_eq: "tel_view a = tel_view b \<Longrightarrow> tel.more a = tel.more b \<and> counted a = counted b"
  by (simp add: tel_view_def counted_def fun_eq_iff)

lemma tool_wrapper_counts:
  assumes "\<And>started. passes tel_view (W started)"
    and "\<And>started. R started = tel_recorded failed fine (\<lambda>status. ebind (tel_tick c) (\<lambda>now.
       ethen (add_counter E name 1 (attrs status)) (record_hist E hist (now - started) (hist_attrs status))))"
  shows "\<exists>u. tel.more u = tel.more s \<and> counted u = counted s \<and>
    fst (ebind (tel_tick c) (\<lambda>started. W started (R started m)) s) = fst (m u) \<and>
    counted (snd (ebind (tel_tick c) (\<lambda>started. W started (R started m)) s)) =
      count_one (counter_key name (attrs (status_of failed fine (fst (m u))))) (counted (snd (m u)))"
proof -
  let ?s = "s\<lparr>te_ticks := Suc (te_ticks s)\<rparr>" and ?started = "c (te_ticks s)"
  obtain u where u: "tel_view u = tel_view ?s" "fst (W ?started (R ?started m) ?s) = fst (R ?started m u)"
    "tel_view (snd (W ?started (R ?started m) ?s)) = tel_view (snd (R ?started m u))"
    by (rule passesD [OF assms(1)])
  obtain v where v: "R ?started m u = (fst (m u), v)"
    "counted v = count_one (counter_key name (attrs (status_of failed fine (fst (m u))))) (counted (snd (m u)))"
    unfolding assms(2) by (rule recorded_counts)
  have s: "tel.more ?s = tel.more s" "counted ?s = counted s" by (simp_all add: counted_def fun_eq_iff)
  show ?thesis
    unfolding run_tick using u v s view_eq [OF u(1)] view_eq [OF u(3)] by (intro exI [of _ u]) simp
qed

lemma passes_tool_span: "passes tel_view (\<lambda>m. mcp_tool_span E tool_name run_id side_effect dry_run version (\<lambda>_. m))"
  unfolding mcp_tool_span_def by (intro passes_bind count_view.passes_span count_view.passes_timed count_view.still_tick)

lemma passes_a2a_span: "passes tel_view (\<lambda>m. a2a_span E task_id run_id agent_name skill_id (\<lambda>_. m))"
  unfolding a2a_span_def by (intro passes_bind count_view.passes_span count_view.passes_timed count_view.still_tick)

definition peer_name :: "string option \<Rightarrow> string" where
  "peer_name agent_name = (case agent_name of Some (c # cs) \<Rightarrow> c # cs | _ \<Rightarrow> ''unknown'')"

text \<open>Every tool call and every delegation that is instrumented is counted exactly once, under its name and the
  way it ended, after the body: the counters of the process are those the body leaves, with this one
  raised by one, and the body starts from the counters there were. A cancellation is no exception the
  wrapper sees, so a cancelled call counts as succeeded and a cancelled delegation as completed.\<close>

theorem calls_counted_once:
  "(\<exists>u. tel.more u = tel.more s \<and> counted u = counted s \<and>
      fst (instrument_mcp_tool E tool_name tool_run side_effect version body s) = fst (body u) \<and>
      counted (snd (instrument_mcp_tool E tool_name tool_run side_effect version body s)) =
        count_one (counter_key ''workbench.tool.calls'' [(''tool'', tool_name),
          (''status'', status_of (\<lambda>_. ''failed'') ''succeeded'' (fst (body u)))]) (counted (snd (body u)))) \<and>
   (\<exists>u. tel.more u = tel.more s \<and> counted u = counted s \<and>
      fst (instrument_a2a_task E task_id task_run agent_name skill_id body s) = fst (body u) \<and>
      counted (snd (instrument_a2a_task E task_id task_run agent_name skill_id body s)) =
        count_one (counter_key ''workbench.a2a.calls'' [(''agent'', peer_name agent_name),
          (''status'', status_of (\<lambda>e. if exc_class e = ETimeout then ''timeout'' else ''failed'') ''completed'' (fst (body u)))])
          (counted (snd (body u))))"
  unfolding instrument_mcp_tool_def instrument_a2a_task_def record_tool_call_def record_a2a_call_def
    peer_name_def [symmetric]
  by (intro conjI
      tool_wrapper_counts [where W = "\<lambda>_ m. mcp_tool_span E tool_name tool_run side_effect None version (\<lambda>_. m)"
        and E = E and hist = "''workbench.tool.latency''" and hist_attrs = "\<lambda>status. [(''tool'', tool_name), (''status'', status)]"]
      tool_wrapper_counts [where W = "\<lambda>_ m. a2a_span E task_id task_run agent_name skill_id (\<lambda>_. m)"
        and E = E and hist = "''workbench.a2a.latency''" and hist_attrs = "\<lambda>_. [(''agent'', peer_name agent_name)]"]
      passes_tool_span passes_a2a_span refl)

section \<open>No span shows a secret\<close>

text \<open>Under a secret key there is the marker, and the tenant is there as a digest only.\<close>

definition private_attr :: "string \<times> pyval \<Rightarrow> bool" where
  "private_attr a \<longleftrightarrow> (is_secret_key (fst a) \<longrightarrow> snd a = PStr TEL_REDACTED) \<and>
     (fst a = TENANT_HASH \<longrightarrow> (\<exists>d. snd a = PStr (''sha256:'' @ d) \<and> length d \<le> 16))"

definition private_spans :: "'x tel_scheme \<Rightarrow> bool" where
  "private_spans s \<longleftrightarrow> (\<forall>sp \<in> set (te_spans s). \<forall>a \<in> set (sp_attrs sp). private_attr a)"

definition keeps_private :: "('x tel_scheme, 'a) em \<Rightarrow> bool" where
  "keeps_private m = obeys (\<lambda>s t. private_spans s \<longrightarrow> private_spans t) m"

interpretation priv: step_relation "\<lambda>s t. private_spans s \<longrightarrow> private_spans t"
  by unfold_locales auto

lemma set_update: "a \<in> set (AList.update k v xs) \<Longrightarrow> a = (k, v) \<or> a \<in> set xs"
  by (induction xs) (auto split: if_splits)

lemma private_fixed:
  "private_attr (''workbench.tool.latency_s'', v)" "private_attr (''workbench.a2a.latency_s'', v)"
  "private_attr (''workbench.model.latency_s'', v)" "private_attr (RUN_ID, v)"
proof -
  have "list_all (\<lambda>k. \<not> is_secret_key k \<and> k \<noteq> TENANT_HASH)
    [''workbench.tool.latency_s'', ''workbench.a2a.latency_s'', ''workbench.model.latency_s'', RUN_ID]" by code_simp
  then show "private_attr (''workbench.tool.latency_s'', v)" "private_attr (''workbench.a2a.latency_s'', v)"
    "private_attr (''workbench.model.latency_s'', v)" "private_attr (RUN_ID, v)"
    by (simp_all only: private_attr_def list.pred_inject fst_conv simp_thms)
qed

lemma private_tenant: "a \<in> set (text_attr TENANT_HASH (hash_tenant E tenant)) \<Longrightarrow> private_attr a"
proof -
  have "\<not> is_secret_key TENANT_HASH" by code_simp
  then show "a \<in> set (text_attr TENANT_HASH (hash_tenant E tenant)) \<Longrightarrow> private_attr a"
    by (auto simp: text_attr_def hash_tenant_def private_attr_def split: option.splits list.splits)
qed

lemma private_fold:
  assumes "\<forall>a \<in> set attrs. private_attr a" and "TENANT_HASH \<notin> fst ` set attributes"
  shows "\<forall>a \<in> set (foldl (\<lambda>attrs (k, v). dset attrs k (if is_secret_key k then PStr TEL_REDACTED else v)) attrs attributes).
    private_attr a"
  using assms
proof (induction attributes arbitrary: attrs)
  case (Cons kv attributes)
  obtain k v where kv: "kv = (k, v)" by fastforce
  have "\<forall>a \<in> set (dset attrs k (if is_secret_key k then PStr TEL_REDACTED else v)). private_attr a"
    using Cons.prems kv by (auto simp: dset_def private_attr_def dest!: set_update)
  with Cons kv show ?case by simp
qed simp

lemma private_span_attributes:
  assumes "TENANT_HASH \<notin> fst ` set attributes" and "a \<in> set (span_attributes E run_id tenant_id attributes)"
  shows "private_attr a"
proof -
  have "\<forall>a \<in> set (text_attr RUN_ID run_id @
      text_attr TENANT_HASH (case tenant_id of Some (c # cs) \<Rightarrow> hash_tenant E (Some (c # cs)) | _ \<Rightarrow> None)). private_attr a"
    using private_tenant private_fixed(4)
    by (auto simp: text_attr_def split: option.splits list.splits)
  from private_fold [OF this assms(1)] assms(2) show ?thesis by (simp add: span_attributes_def)
qed

text \<open>The combinators and the primitives keep it.\<close>

lemma priv_after:
  assumes "keeps_private m" and "\<And>r. keeps_private (n r)" and "W = (\<lambda>s. case m s of (r, t) \<Rightarrow> n r t)"
  shows "keeps_private W"
  unfolding keeps_private_def
proof (rule obeysI)
  fix s
  obtain r t where m: "m s = (r, t)" by fastforce
  have "private_spans s \<longrightarrow> private_spans t" using assms(1) m unfolding keeps_private_def by (rule obeys_eq)
  moreover have "private_spans t \<longrightarrow> private_spans (snd (n r t))"
    using assms(2) [of r] unfolding keeps_private_def by (rule obeysD)
  ultimately show "private_spans s \<longrightarrow> private_spans (snd (W s))" using assms(3) m by simp
qed

lemma priv_if: "keeps_private m \<Longrightarrow> keeps_private n \<Longrightarrow> keeps_private (if c then m else n)"
  by simp

lemmas priv_rules = priv.obeys_ret [folded keeps_private_def] priv.obeys_raise [folded keeps_private_def]
  priv.obeys_get [folded keeps_private_def] priv.obeys_lift [folded keeps_private_def]
  priv.obeys_bind [folded keeps_private_def] priv.obeys_then [folded keeps_private_def]
  priv.obeys_try [folded keeps_private_def] priv.obeys_when [folded keeps_private_def] priv_if

lemma priv_mod: "(\<And>s. private_spans s \<Longrightarrow> private_spans (f s)) \<Longrightarrow> keeps_private (emod f)"
  unfolding keeps_private_def by (rule priv.obeys_mod) simp

lemma priv_same: "(\<And>s. te_spans (f s) = te_spans s) \<Longrightarrow> keeps_private (emod f)"
  by (rule priv_mod) (simp add: private_spans_def)

lemma priv_tick: "keeps_private (tel_tick c)"
  unfolding tel_tick_def by (intro priv_rules priv_same) simp

lemma priv_upd_span:
  assumes "\<And>sp. \<forall>a \<in> set (sp_attrs sp). private_attr a \<Longrightarrow> \<forall>a \<in> set (sp_attrs (g sp)). private_attr a"
  shows "keeps_private (upd_span h g)"
proof (cases h)
  case (Some i)
  have "private_spans (s\<lparr>te_spans := (te_spans s)[i := g (te_spans s ! i)]\<rparr>)" if "private_spans s" for s :: "'a tel_scheme"
  proof (cases "i < length (te_spans s)")
    case True
    with that have "\<forall>a \<in> set (sp_attrs (te_spans s ! i)). private_attr a" by (auto simp: private_spans_def)
    from assms [OF this] that show ?thesis
      by (auto simp: private_spans_def dest!: subsetD [OF set_update_subset_insert])
  next
    case False
    with that show ?thesis by (simp add: list_update_beyond)
  qed
  with Some show ?thesis by (auto simp: upd_span_def intro: priv_mod)
qed (simp add: upd_span_def priv_rules)

lemma priv_set_attribute: "(\<And>v. private_attr (k, v)) \<Longrightarrow> keeps_private (set_attribute E h k v)"
  unfolding set_attribute_def by (rule priv_upd_span) (auto simp: dset_def dest!: set_update)

lemma priv_status: "keeps_private (status_ok h)" "keeps_private (status_error h msg)"
  unfolding status_ok_def status_error_def by (rule priv_upd_span; simp)+

lemma priv_metrics: "keeps_private (add_counter E name amount attrs)" "keeps_private (record_hist E name amount attrs)"
  unfolding add_counter_def record_hist_def send_def instrument_def by (intro priv_rules priv_same; simp)+

lemma priv_start: "\<forall>a \<in> set attrs. private_attr a \<Longrightarrow> keeps_private (start_span E name attrs server)"
  unfolding start_span_def get_tracer_def
  by (intro priv_rules priv_tick priv_same priv_mod) (auto simp: private_spans_def)

lemma priv_recorded: "keeps_private m \<Longrightarrow> (\<And>status. keeps_private (put status)) \<Longrightarrow> keeps_private (tel_recorded failed fine put m)"
  by (rule priv_after [where n = "\<lambda>r. case r of Inl e \<Rightarrow> ethen (put (if is_exception e then failed e else fine)) (eraise e)
        | Inr x \<Rightarrow> ethen (put fine) (eret x)"])
    (auto simp: tel_recorded_def intro!: priv_rules split: sum.splits prod.splits)

lemma priv_finally: "keeps_private m \<Longrightarrow> keeps_private q \<Longrightarrow> keeps_private (efinally m q)"
  by (rule priv_after [where n = "\<lambda>r. ebind q (\<lambda>_. elift r)"])
    (auto simp: efinally_def run_simps intro!: priv_rules split: sum.splits prod.splits)

text \<open>The spans and the wrappers, for a library that adds no attributes on leaving a span.\<close>

lemma priv_span:
  fixes body :: "nat option \<Rightarrow> ('x tel_scheme, 'a) em"
  assumes "\<And>e sp. sp_attrs (te_leave E e sp) = sp_attrs sp" and "TENANT_HASH \<notin> fst ` set attributes"
    and "\<And>h. keeps_private (body h)"
  shows "keeps_private (span E name run_id tenant_id attributes server body)"
proof -
  have leave: "keeps_private (leave_span E h e)" for h e
    unfolding leave_span_def by (rule priv_upd_span) (simp add: assms(1))
  have "keeps_private (in_span E h m)" if "keeps_private m" for h and m :: "('x tel_scheme, 'a) em"
    using that by (rule priv_after [where n = "\<lambda>r. case r of Inl e \<Rightarrow> ethen (leave_span E h (Some e)) (eraise e)
        | Inr x \<Rightarrow> ethen (leave_span E h None) (eret x)"])
      (auto simp: in_span_def intro!: priv_rules leave split: sum.splits prod.splits)
  moreover have "keeps_private (start_span E name (span_attributes (te_py E) run_id tenant_id attributes) server)"
    using private_span_attributes [OF assms(2)] by (intro priv_start) blast
  ultimately show ?thesis unfolding span_def by (intro priv_rules) (simp_all add: assms(3))
qed

lemma text_attr_keys: "fst ` set (text_attr k v) \<subseteq> {k}"
  by (auto simp: text_attr_def split: option.splits list.splits)

lemma no_tenant_hash:
  "RUN_STATUS \<noteq> TENANT_HASH" "TOOL_NAME \<noteq> TENANT_HASH" "TOOL_SIDE_EFFECT \<noteq> TENANT_HASH"
    "TOOL_DRY_RUN \<noteq> TENANT_HASH" "TOOL_VERSION_KEY \<noteq> TENANT_HASH" "TASK_ID \<noteq> TENANT_HASH"
    "AGENT_NAME_KEY \<noteq> TENANT_HASH" "SKILL_ID_KEY \<noteq> TENANT_HASH" "POLICY_DECISION \<noteq> TENANT_HASH"
    "POLICY_REASON \<noteq> TENANT_HASH" "APPROVAL_ID \<noteq> TENANT_HASH" "''db.operation'' \<noteq> TENANT_HASH"
    "''db.sql.table'' \<noteq> TENANT_HASH" "''workbench.workflow.state'' \<noteq> TENANT_HASH"
  by code_simp+

lemma priv_timed: "(\<And>v. private_attr (key, v)) \<Longrightarrow> keeps_private m \<Longrightarrow> keeps_private (timed E started key (\<lambda>_. m) h)"
  unfolding timed_def by (intro priv_finally priv_rules priv_status priv_tick priv_set_attribute)

lemma attr_keys:
  "TENANT_HASH \<notin> fst ` set (text_attr k v @ as) \<longleftrightarrow> TENANT_HASH \<notin> fst ` set (text_attr k v) \<and> TENANT_HASH \<notin> fst ` set as"
  by (simp add: image_Un)

lemma text_attr_other: "k \<noteq> TENANT_HASH \<Longrightarrow> TENANT_HASH \<notin> fst ` set (text_attr k v)"
  using text_attr_keys [of k v] by auto


end
