(* ===== verification/TelemetryChecks.thy ===== *)
theory TelemetryChecks
  imports TelemetryProps
begin

text \<open>
  The redaction of the telemetry conventions, its deviations from its documentation, and the properties of
  the wrappers on a concrete process.
\<close>

section \<open>Redaction\<close>

text \<open>A mapping is redacted at every depth, except below a list that is an item of a list.\<close>

fun mapping_masked :: "pydict \<Rightarrow> bool" and value_masked :: "pyval \<Rightarrow> bool" where
  "mapping_masked [] = True"
| "mapping_masked ((k, v) # d) \<longleftrightarrow>
     (if is_secret_key k then v = PStr TEL_REDACTED else value_masked v) \<and> mapping_masked d"
| "value_masked (PDict d) = mapping_masked d"
| "value_masked (PList xs) = list_all (\<lambda>x. case x of PDict d \<Rightarrow> mapping_masked d | _ \<Rightarrow> True) xs"
| "value_masked v = True"

lemma redacted_value_masked: "\<not> is_secret_key k \<Longrightarrow> (\<forall>d. v \<noteq> PDict d) \<Longrightarrow> (\<forall>xs. v \<noteq> PList xs) \<Longrightarrow> value_masked (tel_redact_value k v)"
  by (cases v) (auto simp: tel_redact_value_def)

lemma redact_mapping_masks:
  "mapping_masked (redact_mapping d)"
  "\<not> is_secret_key k \<Longrightarrow> value_masked (redact_entry k v)"
  "\<not> is_secret_key k \<Longrightarrow> value_masked (PList (redact_items k xs))"
  by (induction d and k v and k xs rule: redact_mapping_redact_entry_redact_items.induct)
    (auto simp: redacted_value_masked tel_redact_value_def)

lemma nested_lists_not_redacted:
  "redact_mapping [(''rows'', PList [PList [PDict [(''password'', PStr ''hunter2'')]]])] =
    [(''rows'', PList [PList [PDict [(''password'', PStr ''hunter2'')]]])]"
  by code_simp

text \<open>Content is shown only when it was opted for, scrubbed and bounded.\<close>

lemma content_gated:
  assumes "maybe_content E c = Some t"
  shows "content_capture_enabled E \<and> length t \<le> 2000 \<and> (\<exists>u. c = Some u \<and> t = scrub_message u)"
  using assms by (auto simp: maybe_content_def scrub_message_def split: option.splits list.splits if_splits)

text \<open>An attribute with a secret name has the marker, whatever else is given.\<close>

lemma secret_attribute:
  assumes "is_secret_key k" and "k \<in> fst ` set attributes"
  shows "dget (span_attributes E run_id tenant_id attributes) k = Some (PStr TEL_REDACTED)"
  unfolding span_attributes_def using assms(2)
proof (induction attributes rule: rev_induct)
  case (snoc kv attributes)
  then show ?case using assms(1) by (cases kv) (auto simp: dget_dset)
qed simp

text \<open>The hint \<^verbatim>\<open>token\<close> is part of the names of the token counts: the span of a model call has the marker in
  the place of its usage.\<close>

lemma usage_hidden:
  "dget (span_attributes E run_id None (genai_attrs operation provider model None (Some n) (Some m) cost))
     ''gen_ai.usage.input_tokens'' = Some (PStr TEL_REDACTED)"
proof (rule secret_attribute)
  show "is_secret_key ''gen_ai.usage.input_tokens''" by code_simp
qed (simp add: genai_attrs_def image_Un)

section \<open>A concrete process\<close>

definition demo_tel_env :: tel_env where
  "demo_tel_env = \<lparr>te_py = plain_env, te_getenv = (\<lambda>_. None), te_otel = True, te_metrics = True, te_otlp = True,
     te_set_global = (\<lambda>g p. case g of None \<Rightarrow> Some p | Some q \<Rightarrow> Some q), te_fresh = (\<lambda>_. True), te_meter = (\<lambda>_. True),
     te_mono = (\<lambda>n. of_nat n), te_tracer = (\<lambda>_. True), te_starts = (\<lambda>_ _ _. True), te_takes = (\<lambda>_ _. True),
     te_leave = (\<lambda>_ sp. sp), te_makes = (\<lambda>_. True), te_accepts = (\<lambda>_ _. True), te_inject = Some,
     te_trace_id = (\<lambda>_. None), te_uuid = (\<lambda>_. replicate 32 (CHR ''0''))\<rparr>"

definition fresh_tel :: "unit tel_scheme" where
  "fresh_tel = \<lparr>te_ticks = 0, initialized_for = None, te_global = None, te_current = None, metrics_initialized = False,
     te_readers = [], te_spans = [], local_counts = [], local_hist_values = [], instruments = [], meter_set = False,
     te_sent = []\<rparr>"

text \<open>A cancelled tool call counts as one that succeeded.\<close>

definition cancelled_call :: "(unit tel_scheme, unit) em" where
  "cancelled_call = instrument_mcp_tool demo_tel_env ''service.get_health'' (Some ''run_1'') None None
     (eraise (PyExc EOther ''CancelledError'' ''run cancelled'' []))"

lemma cancelled_counts_as_succeeded:
  "local_counts (snd (cancelled_call fresh_tel)) =
    [(''workbench.tool.calls|status=succeeded,tool=service.get_health'', 1)]"
  by code_simp

text \<open>The time of a model call is set on a span that has ended, and is lost.\<close>

lemma model_latency_lost:
  "map (map fst \<circ> sp_attrs) (te_spans (snd (instrument_model_call demo_tel_env (Some ''run_1'') (Some ''gpt-4o'') None ''chat''
     (\<lambda>_. eret ()) fresh_tel))) =
    [[RUN_ID, ''gen_ai.operation.name'', ''gen_ai.request.model'', ''gen_ai.response.model'']]"
  by code_simp

text \<open>A second initialisation for the same service gives the provider that the process has.\<close>

lemma init_twice:
  "fst (ethen (init_tracing E service e1 c1 False) (init_tracing E service e2 c2 False) s) =
    fst (ethen (init_tracing E service e1 c1 False) (eget te_global) s) \<or> \<not> te_otel E"
  by (auto simp: init_tracing_def Let_def run_simps)


end
