(* ===== verification/Generators.thy ===== *)
theory Generators
  imports Catalog Repository
begin

text \<open>
  The generators of files: \<^verbatim>\<open>packages/contracts/export_schemas.py\<close> writes the schemas of the contracts and their
  manifest, \<^verbatim>\<open>skills/_generator.py\<close> the operating contract and the skill files from the manifest and the
  catalog, and both can check instead that the files are those they would write.

  The files are an association list from path to text. Parameters (\<open>gen_env\<close>): the schema the validation library
  makes of a model, what the JSON library reads from the manifest, and the fixed prose of the documents,
  which is not all in the characters of the model.
\<close>

section \<open>Files\<close>

record files =
  fs_files :: "(string \<times> string) list"
  fs_out :: "string list"

record skill_spec =
  ss_name :: string
  ss_description :: string
  ss_prompt_source :: string
  ss_input_schema :: string
  ss_output_schemas :: "string list"
  ss_allowed_tools :: "string list"

record gen_env =
  ge_schema :: "string \<Rightarrow> string"
  ge_models :: "string \<Rightarrow> (string \<times> string) list presult"
  ge_agents :: "string \<Rightarrow> string \<Rightarrow> string \<Rightarrow> string"
  ge_skill :: "skill_spec \<Rightarrow> string list \<Rightarrow> string \<Rightarrow> string"

definition write_text :: "string \<Rightarrow> string \<Rightarrow> (files, unit) em" where
  "write_text path text = emod (\<lambda>s. s\<lparr>fs_files := AList.update path text (fs_files s)\<rparr>)"

definition read_text :: "string \<Rightarrow> (files, string option) em" where
  "read_text path = eget (\<lambda>s. map_of (fs_files s) path)"

definition print_line :: "string \<Rightarrow> (files, unit) em" where
  "print_line l = emod (\<lambda>s. s\<lparr>fs_out := fs_out s @ [l]\<rparr>)"

section \<open>Schemas\<close>

definition MODELS :: "string list" where
  "MODELS =
     [''AgentRequest'', ''Run'', ''RunBudget'', ''Finding'', ''EvidenceReference'', ''ProposedAction'', ''AgentResult'',
      ''AgentEvent'', ''ToolMetadata'', ''ToolInvocation'', ''A2ATaskRequest'', ''A2ATaskResult'', ''A2ATaskError'',
      ''AgentCard'', ''AgentSkill'', ''AgentAuthentication'', ''Approval'', ''ApprovalDecisionRequest'',
      ''PolicyDecision'', ''ErrorEnvelope'']"

text \<open>\<^verbatim>\<open>json.dumps(..., indent=2)\<close> of texts and dictionaries that are not empty.\<close>

fun json_indent :: "nat \<Rightarrow> pyval \<Rightarrow> string" where
  "json_indent n (PDict d) =
     ''{'' @ [newline] @ join ('','' @ [newline]) (map (\<lambda>(k, v). replicate (n + 2) (CHR '' '') @ json_str k @ '': '' @
       json_indent (n + 2) v) d) @ [newline] @ replicate n (CHR '' '') @ ''}''"
| "json_indent n (PStr s) = json_str s"
| "json_indent n v = []"

definition schema_file :: "string \<Rightarrow> string" where
  "schema_file name = name @ ''.1_0.json''"

definition manifest_models :: "(string \<times> string) list" where
  "manifest_models = map (\<lambda>name. (name, schema_file name)) (sort MODELS)"

definition manifest_text :: string where
  "manifest_text = json_indent 0 (PDict [(''schema_version'', PStr ''1.0''),
     (''models'', PDict (map (\<lambda>(k, v). (k, PStr v)) manifest_models))]) @ [newline]"

text \<open>The files in the order they are written, by their name in the directory.\<close>

definition schema_files :: "gen_env \<Rightarrow> (string \<times> string) list" where
  "schema_files E = map (\<lambda>name. (schema_file name, ge_schema E name @ [newline])) (sort MODELS) @
     [(''manifest.json'', manifest_text)]"

definition export_schemas :: "gen_env \<Rightarrow> string \<Rightarrow> (files, unit) em" where
  "export_schemas E out_dir = efor (schema_files E) (\<lambda>(name, text). write_text (out_dir @ name) text)"

text \<open>The check compares with a fresh export and stops at the first file that differs.\<close>

fun first_stale :: "string \<Rightarrow> (string \<times> string) list \<Rightarrow> (files, nat) em" where
  "first_stale out_dir [] = ethen (print_line ''schemas up to date'') (eret 0)"
| "first_stale out_dir ((name, text) # fresh) = ebind (read_text (out_dir @ name)) (\<lambda>current.
     if current \<noteq> Some text then ethen (print_line (''STALE: '' @ out_dir @ name)) (eret 1)
     else first_stale out_dir fresh)"

definition export_main :: "gen_env \<Rightarrow> bool \<Rightarrow> string \<Rightarrow> (files, nat) em" where
  "export_main E chk out_dir =
     (if chk then first_stale out_dir (schema_files E)
      else ethen (export_schemas E out_dir) (ethen (print_line (''wrote '' @ nat_str (length (schema_files E)) @ '' schemas to '' @ out_dir))
        (eret 0)))"

section \<open>Skill files\<close>

definition CONTRACT_VERSION :: string where "CONTRACT_VERSION = ''1.0.0''"

definition CONTRACT_SCHEMA_VERSION :: string where "CONTRACT_SCHEMA_VERSION = ''1.0''"

definition SKILL_VERSION :: string where "SKILL_VERSION = CONTRACT_VERSION"

definition SCHEMAS_DIR :: string where "SCHEMAS_DIR = ''packages/contracts/schemas/''"

definition SKILL_SPECS :: "skill_spec list" where
  "SKILL_SPECS =
    [\<lparr>ss_name = ''investigate-incident'',
      ss_description = ''Investigate an incident via Gateway runs and read-only MCP tools.'',
      ss_prompt_source = ''docs/prompts/orchestrator.md'', ss_input_schema = ''AgentRequest@1.0'',
      ss_output_schemas = [''AgentResult@1.0'', ''AgentEvent@1.0'', ''Finding@1.0''],
      ss_allowed_tools = [''telemetry.query_metrics'', ''telemetry.query_logs'', ''service.get_health'',
        ''knowledge.search'', ''knowledge.get_runbook'', ''remediation.simulate'']\<rparr>,
     \<lparr>ss_name = ''correlate-symptoms'',
      ss_description = ''Correlate service symptoms via the observability specialist (A2A).'',
      ss_prompt_source = ''docs/prompts/specialist.md'', ss_input_schema = ''A2ATaskRequest@1.0'',
      ss_output_schemas = [''A2ATaskResult@1.0'', ''Finding@1.0''],
      ss_allowed_tools = [''telemetry.query_metrics'', ''telemetry.query_logs'', ''service.get_health'']\<rparr>,
     \<lparr>ss_name = ''review-action'',
      ss_description = ''Review a proposed action for operational safety (advisory only).'',
      ss_prompt_source = ''docs/prompts/action-review.md'', ss_input_schema = ''ProposedAction@1.0'',
      ss_output_schemas = [''Approval@1.0'', ''ApprovalDecisionRequest@1.0''],
      ss_allowed_tools = [''remediation.simulate'', ''deployment.rollback'']\<rparr>]"

definition SystemExit :: "string \<Rightarrow> pyexc" where
  "SystemExit m = PyExc EOther ''SystemExit'' m []"

definition load_manifest :: "gen_env \<Rightarrow> (files, (string \<times> string) list) em" where
  "load_manifest E = ebind (read_text (SCHEMAS_DIR @ ''manifest.json'')) (\<lambda>t. case t of
       None \<Rightarrow> eraise (PyExc EOther ''FileNotFoundError'' ''manifest.json'' [])
     | Some text \<Rightarrow> elift (ge_models E text))"

definition schema_file_for :: "string \<Rightarrow> (string \<times> string) list \<Rightarrow> string presult" where
  "schema_file_for model manifest =
     (case map_of manifest (hd (split_on (CHR ''@'') model)) of
        None \<Rightarrow> Inl (KeyError (''unknown contract model: '' @ model))
      | Some f \<Rightarrow> Inr (SCHEMAS_DIR @ f))"

definition check_pins :: "unit presult" where
  "check_pins =
     rbind (check (SKILL_VERSION = CONTRACT_VERSION \<and> CONTRACT_VERSION = TOOL_VERSION)
       (SystemExit (''pin drift: skill='' @ SKILL_VERSION @ '' contract='' @ CONTRACT_VERSION @ '' tool='' @ TOOL_VERSION @
          '' (skill == contract == tool required)'')))
     (\<lambda>_. check (CONTRACT_SCHEMA_VERSION = ''1.0'')
       (SystemExit (''unexpected contract schema_version: '' @ CONTRACT_SCHEMA_VERSION)))"

definition tool_row :: "ToolMetadata \<Rightarrow> string" where
  "tool_row m = ''| `'' @ tm_name m @ ''` | '' @ ToolCategory_value (tm_category m) @ '' | '' @
     int_str (tm_timeout_seconds m) @ ''s | '' @ (if tm_approval_required m then ''yes'' else ''no'') @ '' | '' @
     tm_version m @ '' |''"

definition tool_table :: "string list \<Rightarrow> string presult" where
  "tool_table allowed = rbind (all_results (map (\<lambda>name. case map_of TOOL_METADATA name of
       None \<Rightarrow> Inl (KeyError name) | Some m \<Rightarrow> Inr (tool_row m)) allowed))
     (\<lambda>rows. Inr (join [newline] ([''| tool | category | timeout | approval | version |'', ''|---|---|---|---|---|''] @ rows)))"

text \<open>The schemas a skill file refers to, in the order they are looked up.\<close>

definition schema_refs :: "skill_spec \<Rightarrow> (string \<times> string) list \<Rightarrow> string list presult" where
  "schema_refs spec manifest = all_results (map (\<lambda>model. schema_file_for model manifest)
     ([ss_input_schema spec] @ ss_output_schemas spec @ [''ErrorEnvelope@1.0''] @
      (if ss_name spec = ''correlate-symptoms'' then [''A2ATaskRequest@1.0''] else [])))"

definition front_matter :: "skill_spec \<Rightarrow> string" where
  "front_matter spec = join [newline]
     ([''---'', ''name: '' @ ss_name spec, ''version: '' @ SKILL_VERSION, ''description: '' @ ss_description spec,
       ''contract_version: \"'' @ CONTRACT_SCHEMA_VERSION @ ''\"'', ''tool_version: '' @ TOOL_VERSION, ''allowed-tools:''] @
      map (\<lambda>t. ''  - '' @ t) (ss_allowed_tools spec) @
      [''input-schema: '' @ ss_input_schema spec, ''output-schema: '' @ join '', '' (ss_output_schemas spec), ''---'', []])"

definition render_skill_md :: "gen_env \<Rightarrow> skill_spec \<Rightarrow> (string \<times> string) list \<Rightarrow> string presult" where
  "render_skill_md E spec manifest =
     rbind check_pins (\<lambda>_.
     let unknown = filter (\<lambda>t. t \<notin> set (map fst TOOL_METADATA)) (ss_allowed_tools spec) in
     rbind (check (unknown = []) (SystemExit (''skill '' @ ss_name spec @ '': unknown tools ['' @
       join '', '' (map repr_str unknown) @ '']'')))
     (\<lambda>_. rbind (check (ss_name spec \<in> set (map ss_name SKILL_SPECS)) (KeyError (ss_name spec)))
     (\<lambda>_. rbind (schema_refs spec manifest)
     (\<lambda>refs. rbind (tool_table (ss_allowed_tools spec))
     (\<lambda>table. Inr (front_matter spec @ ge_skill E spec refs table))))))"

definition render_agents_md :: "gen_env \<Rightarrow> (string \<times> string) list \<Rightarrow> string presult" where
  "render_agents_md E manifest =
     rbind check_pins (\<lambda>_.
     rbind (schema_file_for ''AgentRequest@1.0'' manifest) (\<lambda>request.
     rbind (schema_file_for ''ErrorEnvelope@1.0'' manifest) (\<lambda>err.
     rbind (tool_table (sort (map fst TOOL_METADATA))) (\<lambda>table.
       Inr (ge_agents E request err table)))))"

definition skill_path :: "skill_spec \<Rightarrow> string" where
  "skill_path spec = ''skills/'' @ ss_name spec @ ''/SKILL.md''"

definition render_all :: "gen_env \<Rightarrow> (string \<times> string) list \<Rightarrow> (string \<times> string) list presult" where
  "render_all E manifest =
     rbind (render_agents_md E manifest) (\<lambda>agents.
     rbind (all_results (map (\<lambda>spec. rbind (render_skill_md E spec manifest) (\<lambda>t. Inr (skill_path spec, t))) SKILL_SPECS))
       (\<lambda>skills. Inr ((''AGENTS.md'', agents) # skills)))"

fun write_or_check :: "bool \<Rightarrow> (string \<times> string) list \<Rightarrow> bool \<Rightarrow> (files, bool) em" where
  "write_or_check chk [] failed = eret failed"
| "write_or_check chk ((rel, content) # rendered) failed =
     (if chk
      then ebind (read_text rel) (\<lambda>current.
        if current \<noteq> Some content
        then ethen (print_line (''DRIFT: '' @ rel)) (write_or_check chk rendered True)
        else write_or_check chk rendered failed)
      else ethen (write_text rel content) (ethen (print_line (''wrote '' @ rel)) (write_or_check chk rendered failed)))"

definition generator_main :: "gen_env \<Rightarrow> bool \<Rightarrow> (files, nat) em" where
  "generator_main E chk =
     ethen (elift check_pins) (ebind (load_manifest E) (\<lambda>manifest. ebind (elift (render_all E manifest)) (\<lambda>rendered.
     ebind (write_or_check chk rendered False) (\<lambda>failed. eret (if failed then 1 else 0)))))"

section \<open>What is written is what the check expects\<close>

definition put_all :: "string \<Rightarrow> (string \<times> string) list \<Rightarrow> (string \<times> string) list \<Rightarrow> (string \<times> string) list" where
  "put_all dir xs fs = fold (\<lambda>(n, t). AList.update (dir @ n) t) xs fs"

definition holds_all :: "string \<Rightarrow> (string \<times> string) list \<Rightarrow> (string \<times> string) list \<Rightarrow> bool" where
  "holds_all dir xs fs = list_all (\<lambda>(n, t). map_of fs (dir @ n) = Some t) xs"

lemma put_all_other: "k \<notin> (\<lambda>x. dir @ fst x) ` set xs \<Longrightarrow> map_of (put_all dir xs fs) k = map_of fs k"
  unfolding put_all_def by (induction xs arbitrary: fs) (auto simp: update_conv)

lemma put_all_holds: "distinct (map fst xs) \<Longrightarrow> holds_all dir xs (put_all dir xs fs)"
proof (induction xs arbitrary: fs)
  case (Cons x xs)
  obtain n t where x: "x = (n, t)" by fastforce
  have "map_of (put_all dir xs (AList.update (dir @ n) t fs)) (dir @ n) = Some t"
    by (subst put_all_other) (use Cons.prems x in \<open>auto simp: update_conv\<close>)
  with Cons x show ?case by (simp add: holds_all_def put_all_def)
qed (simp add: holds_all_def)

lemma export_run: "export_schemas E dir s = (Inr (), s\<lparr>fs_files := put_all dir (schema_files E) (fs_files s)\<rparr>)"
proof -
  have "efor xs (\<lambda>(name, text). write_text (dir @ name) text) s = (Inr (), s\<lparr>fs_files := put_all dir xs (fs_files s)\<rparr>)" for xs s
    by (induction xs arbitrary: s) (auto simp: put_all_def write_text_def run_simps)
  then show ?thesis by (simp add: export_schemas_def)
qed

lemma first_stale_run:
  obtains t where "first_stale dir xs s = (Inr (if holds_all dir xs (fs_files s) then 0 else 1), t)" "fs_files t = fs_files s"
proof -
  have "\<exists>t. first_stale dir xs s = (Inr (if holds_all dir xs (fs_files s) then 0 else 1), t) \<and> fs_files t = fs_files s"
    by (induction xs) (auto simp: holds_all_def print_line_def read_text_def run_simps)
  with that show ?thesis by blast
qed

lemma schema_files_distinct: "distinct (map fst (schema_files E))"
proof -
  have "map fst (schema_files E) = map schema_file (sort MODELS) @ [''manifest.json'']"
    by (simp add: schema_files_def)
  moreover have "distinct (map schema_file (sort MODELS) @ [''manifest.json''])" by code_simp
  ultimately show ?thesis by simp
qed

text \<open>After an export the check succeeds, and it succeeds only when every file of the export is there with its text;
  it changes no file.\<close>

lemma schemas_checked:
  "fst (export_main E True dir (snd (export_main E False dir s))) = Inr 0"
  "fst (export_main E True dir s) = Inr (if holds_all dir (schema_files E) (fs_files s) then 0 else 1) \<and>
    fs_files (snd (export_main E True dir s)) = fs_files s"
proof -
  have files: "fs_files (snd (export_main E False dir s)) = put_all dir (schema_files E) (fs_files s)"
    by (simp add: export_main_def export_run print_line_def run_simps)
  obtain t where "first_stale dir (schema_files E) (snd (export_main E False dir s)) = (Inr 0, t)"
    by (rule first_stale_run [of dir "schema_files E" "snd (export_main E False dir s)"])
      (simp add: files put_all_holds [OF schema_files_distinct])
  then show "fst (export_main E True dir (snd (export_main E False dir s))) = Inr 0"
    by (simp add: export_main_def)
  obtain t where "first_stale dir (schema_files E) s = (Inr (if holds_all dir (schema_files E) (fs_files s) then 0 else 1), t)"
    "fs_files t = fs_files s" by (rule first_stale_run)
  then show "fst (export_main E True dir s) = Inr (if holds_all dir (schema_files E) (fs_files s) then 0 else 1) \<and>
    fs_files (snd (export_main E True dir s)) = fs_files s" by (simp add: export_main_def)
qed

lemma write_run:
  "fst (write_or_check False xs b s) = Inr b \<and> fs_files (snd (write_or_check False xs b s)) = put_all [] xs (fs_files s)"
  by (induction xs arbitrary: s) (auto simp: put_all_def write_text_def print_line_def run_simps)

lemma check_run:
  "fst (write_or_check True xs b s) = Inr (b \<or> \<not> holds_all [] xs (fs_files s)) \<and>
    fs_files (snd (write_or_check True xs b s)) = fs_files s"
  by (induction xs arbitrary: b s) (auto simp: holds_all_def print_line_def read_text_def run_simps)

lemma all_results_keys:
  "all_results (map (\<lambda>x. rbind (g x) (\<lambda>t. Inr (p x, t))) xs) = Inr ys \<Longrightarrow> map fst ys = map p xs"
  by (induction xs arbitrary: ys) (auto simp: all_results_def rbind_def split: sum.splits)

lemma render_paths:
  assumes "render_all E manifest = Inr rendered"
  shows "map fst rendered = ''AGENTS.md'' # map skill_path SKILL_SPECS"
  using assms by (auto simp: render_all_def rbind_Inr_iff dest!: all_results_keys)

lemma pins_hold: "check_pins = Inr ()"
  by code_simp

lemma skill_tools_known: "list_all (\<lambda>spec. list_all (\<lambda>t. t \<in> set (map fst TOOL_METADATA)) (ss_allowed_tools spec)) SKILL_SPECS"
  by code_simp

lemma paths_distinct: "distinct (''AGENTS.md'' # map skill_path SKILL_SPECS)"
  and paths_no_manifest: "SCHEMAS_DIR @ ''manifest.json'' \<notin> set (''AGENTS.md'' # map skill_path SKILL_SPECS)"
  by code_simp+

lemma generator_run:
  "generator_main E chk s = (case map_of (fs_files s) (SCHEMAS_DIR @ ''manifest.json'') of
     None \<Rightarrow> (Inl (PyExc EOther ''FileNotFoundError'' ''manifest.json'' []), s)
   | Some text \<Rightarrow> (case rbind (ge_models E text) (render_all E) of
       Inl e \<Rightarrow> (Inl e, s)
     | Inr rendered \<Rightarrow> ebind (write_or_check chk rendered False) (\<lambda>failed. eret (if failed then 1 else 0)) s))"
  by (auto simp: generator_main_def pins_hold load_manifest_def read_text_def run_simps split: option.splits sum.splits)

text \<open>After the generator has written its files its check succeeds, and the check changes no file.\<close>

lemma generated_checked:
  assumes "generator_main E False s = (Inr c, t)"
  shows "c = 0 \<and> fst (generator_main E True t) = Inr 0 \<and> fs_files (snd (generator_main E True t)) = fs_files t"
proof -
  from assms obtain doc rendered where r: "map_of (fs_files s) (SCHEMAS_DIR @ ''manifest.json'') = Some doc"
    "rbind (ge_models E doc) (render_all E) = Inr rendered"
    by (auto simp: generator_run split: option.splits sum.splits)
  then obtain manifest where "render_all E manifest = Inr rendered" by (auto simp: rbind_Inr_iff)
  then have paths: "map fst rendered = ''AGENTS.md'' # map skill_path SKILL_SPECS" by (rule render_paths)
  have t: "c = 0" "fs_files t = put_all [] rendered (fs_files s)"
    using assms r write_run [of rendered False s] by (auto simp: generator_run run_bind run_ret split: prod.splits sum.splits)
  have "map_of (fs_files t) (SCHEMAS_DIR @ ''manifest.json'') = Some doc"
    using r(1) paths_no_manifest unfolding t(2) paths [symmetric] by (subst put_all_other) auto
  moreover have "holds_all [] rendered (fs_files t)"
    unfolding t(2) by (rule put_all_holds) (simp only: paths paths_distinct)
  ultimately show ?thesis
    using r(2) t(1) check_run [of rendered False t] by (auto simp: generator_run run_bind run_ret split: prod.splits sum.splits)
qed

end
