(* ===== verification/Spec2Isabelle.thy ===== *)
theory Spec2Isabelle
  imports GraphFakes Authz ApiLimits McpChecks AgUi Runtime ApiChecks AgentChecks TelemetryChecks
    Generators
begin

text \<open>
  Verification development of the agent workbench, a Python service that investigates incidents
  with language models and tools under human approval.

  \<^bold>\<open>The program.\<close> The orchestrator (\<^verbatim>\<open>src/apps/orchestrator\<close>) drives a run through a fixed sequence of
  steps: it reads from tools, delegates to a specialist, drafts findings, proposes actions, asks the
  policy hook, pauses for a human decision and then executes the approved actions. Tools are served
  by the tool gateway (\<^verbatim>\<open>src/apps/mcp_server\<close>), which authenticates its caller, checks scopes, arguments
  and approval, and audits each outcome. Runs, events, approvals and audit records are kept by the
  repository (\<^verbatim>\<open>src/packages/persistence\<close>). The public interface is the API
  (\<^verbatim>\<open>src/apps/api\<close>): its routes create runs, show them, replay their events to the user interface,
  cancel them and record decisions; a background task drives the graph over the repository through
  the store, as the worker (\<^verbatim>\<open>src/apps/worker\<close>) does. A specialist
  (\<^verbatim>\<open>src/apps/a2a_agents/observability\<close>) correlates the symptoms of a service as a task. The value contracts
  (\<^verbatim>\<open>src/packages/contracts\<close>), the security functions (\<^verbatim>\<open>src/packages/security\<close>) and the telemetry
  (\<^verbatim>\<open>src/packages/telemetry\<close>) are shared by all of them.

  \<^bold>\<open>Theories.\<close> A function of the source has a definition of its name, in the theory of its module.
  \<^item> \<open>PyBase\<close>, \<open>PyRegex\<close>, \<open>ExcState\<close>: Python values, text and exceptions; regular expressions by
    backtracking search; computations with state and exceptions, with triples and the locale
    \<open>step_relation\<close> of relations preserved by every combinator.
  \<^item> \<open>Contracts\<close> (\<^verbatim>\<open>contracts/*.py\<close>): each model with the checks of its construction.
  \<^item> \<open>Catalog\<close>, \<open>Policies\<close>, \<open>RunState\<close>, \<open>Graph\<close>, \<open>GraphRun\<close>: \<^verbatim>\<open>mcp_server/catalog.py\<close>, \<^verbatim>\<open>orchestrator/policies.py\<close>,
    \<^verbatim>\<open>state.py\<close> and \<^verbatim>\<open>graph.py\<close>. The state of a run is the record \<open>gst\<close>: run state, circuit breaker, the
    trace of external calls and the world of the injected clients. \<open>GraphSafety\<close> and \<open>GraphProps\<close>
    prove what holds of every run, \<open>GraphFakes\<close> the deterministic clients and concrete runs.
  \<^item> \<open>Redaction\<close>, \<open>Identity\<close>, \<open>Authz\<close>, \<open>ApiLimits\<close>: the redactors of the repository and the gateway,
    \<^verbatim>\<open>security/identity.py\<close>, \<^verbatim>\<open>authz.py\<close>, \<^verbatim>\<open>allowlist.py\<close>, \<^verbatim>\<open>headers.py\<close>, \<^verbatim>\<open>limits.py\<close>.
  \<^item> \<open>Tables\<close>, \<open>Repository\<close>, \<open>RepoAudit\<close>: \<^verbatim>\<open>persistence/models.py\<close> and every operation of
    \<^verbatim>\<open>SqlAlchemyRepository\<close>. \<open>RepoSteps\<close> states the repository abstractly, as the steps a database may
    make, and proves that every operation is a sequence of such steps; \<open>RepoProps\<close> derives isolation,
    integrity and history from the steps through the locale \<open>db_relation\<close>; \<open>RepoChecks\<close> has the round
    trips, the concrete databases and the deviations.
  \<^item> \<open>McpSecurity\<close>, \<open>McpTools\<close>, \<open>McpServer\<close>, \<open>McpRoutes\<close>: \<^verbatim>\<open>mcp_server/security.py\<close>, \<^verbatim>\<open>models.py\<close> and
    \<^verbatim>\<open>content.py\<close>, \<^verbatim>\<open>executor.py\<close> with \<^verbatim>\<open>store.py\<close>, \<^verbatim>\<open>server.py\<close>. \<open>McpProps\<close> and \<open>McpChecks\<close> prove and apply
    its guarantees.
  \<^item> \<open>AgUi\<close>: \<^verbatim>\<open>protocols/ag_ui.py\<close>, the events a user interface gets. \<open>Runtime\<close>: \<^verbatim>\<open>orchestrator/runtime.py\<close>,
    with the ledger of a run, retry, routing of models, the fake and the provider runtime.
  \<^item> \<open>ApiStore\<close>, \<open>ApiRoutes\<close>: \<^verbatim>\<open>api/store.py\<close> and \<^verbatim>\<open>worker/worker.py\<close>; \<^verbatim>\<open>api/dependencies.py\<close>, \<^verbatim>\<open>main.py\<close> and
    \<^verbatim>\<open>routes/*.py\<close>. The state of a process is the record \<open>api\<close>: the repository, the run states in memory,
    the cache of decisions and the set of cancelled runs. The graph runs inside it: its injected
    clients work on the pair of the fakes and the process.
  \<^item> \<open>GraphWorld\<close> shows that a run moves its world only through its clients (locale \<open>world_frame\<close>);
    \<open>ApiFrame\<close> extends it to the routes, the background task and everything they call: each relation
    that the repository steps and the caches satisfy is one of the whole process (locales
    \<open>run_relation\<close> and its extensions, \<open>gateway_relation\<close>). \<open>ApiProps\<close> and \<open>ApiInv\<close> interpret them and
    prove isolation, access control, decisions and the invariant of every reachable process; \<open>ApiRuns\<close>
    treats idempotent creation, cancellation before the start and replay; \<open>ApiChecks\<close> applies all of
    them to concrete processes.
  \<^item> \<open>Agent\<close>: \<^verbatim>\<open>a2a_agents/observability/agent.py\<close>, the specialist. The state is the record \<open>agent\<close>: the
    stored tasks, the cancelled identifiers and the repositories of the write-through. A request that
    creates a task is taken in two parts around its single wait (\<open>create_begin\<close>, a \<open>flight\<close>,
    \<open>create_end\<close>). \<open>AgentProps\<close> proves what the correlation returns; \<open>AgentSteps\<close> lets requests and ends
    of waits interleave (\<open>agent_step\<close>) and proves isolation, that every task ends, and that completed
    tasks are final; \<open>AgentRepo\<close> joins it with \<open>Repository\<close>: a request writes rows of its caller's tenant
    only, and a completed task is kept; \<open>AgentChecks\<close> has the deviations and the concrete processes.
  \<^item> \<open>Telemetry\<close>: \<^verbatim>\<open>telemetry/*.py\<close>, the conventions with their redaction, counters, spans and wrappers. The
    state is the extensible record \<open>tel\<close>; a wrapper takes the body of its \<^verbatim>\<open>with\<close> statement. \<open>TelemetryProps\<close>
    proves for every view of the state that spans do not touch (locales \<open>span_view\<close>, \<open>record_view\<close>) that
    wrappers run their body once, and derives that the program is not disturbed, that each call is
    counted once and that spans show no secrets; \<open>TelemetryChecks\<close> has the deviations.
  \<^item> \<open>Generators\<close>: \<^verbatim>\<open>contracts/export_schemas.py\<close> and \<^verbatim>\<open>skills/_generator.py\<close>, over an association list of files;
    what they write is what their check expects.

  \<^bold>\<open>Parameters.\<close> What is not code of the repository is an argument: \<open>pyenv\<close> (decimal text of a float,
  digests, clock text), \<open>graph_deps\<close> (the clients of the graph), \<open>auth_world\<close> (environment, token
  decoders, key download, signature library), \<open>repo_env\<close> and \<open>mcp_env\<close> (clock, identifiers, other
  sessions or requests, the validation library, the event loop), \<open>rt_env\<close> (clock, provider, awaited
  calls), \<open>api_env\<close> (the repository's, identifiers, clock), \<open>agent_env\<close> (clock, how a wait ends, the
  validation library's reading of times and its error text), \<open>tel_env\<close> (the tracing and metrics
  libraries) and \<open>gen_env\<close> (schemas, prose). A theorem that needs something of them says so in a
  hypothesis, and has a witness with concrete functions.

  \<^bold>\<open>Conventions of the gateway.\<close> Requests and background tasks of one process run one after the other;
  other processes act through the other sessions of \<open>repo_env\<close>, between the steps of a transaction. An
  \<open>HTTPException\<close> with an empty tag is one whose detail is a text. The answers 422 to a body outside
  its model and 500 to an exception no handler takes are those of the web framework.

  \<^bold>\<open>Bounds.\<close> Loops are recursions on data where the code iterates over data. The loop of a run is
  bounded by the states of the graph (\<open>run_loop\<close>), a tool read by its three attempts, a model call by
  its attempts (\<open>retry_from\<close>), and the retry of \<^verbatim>\<open>append_next_event\<close> by the four attempts of the source;
  none of these bounds is a fuel of the model.

  \<^bold>\<open>Not modelled.\<close> Text outside the first 256 code points, NaN, the infinities and binary rounding.
  The prose of the generated documents, database migrations, the web interface and the endless loop of
  the worker's main program, which only sleeps.
\<close>

end
